(* ===== verification/GoBase.thy ===== *)
theory GoBase
  imports Main "HOL-Library.Word" "HOL-Library.Char_ord" "HOL-Library.List_Lexorder"
    "HOL-Library.Code_Target_Nat"
begin

text \<open>
  Prelude of the development: Go errors and results, and the parts of Go's \<open>strings\<close>,
  \<open>strconv\<close>, \<open>encoding/hex\<close> and \<open>fmt\<close> packages the program calls.

  A Go \<open>string\<close> is a byte sequence and is modelled as an Isabelle \<open>string\<close> (a list of
  8-bit characters). White space is Go's \<open>unicode.IsSpace\<close> on UTF-8 input, multi-byte
  spaces included. Case mapping is Go's on the ASCII letters; bytes of multi-byte runes are
  left alone. Go's \<open>int\<close> is \<open>int\<close>; the places where 64 bits matter say so.
\<close>

named_theorems pres_intros "introduction rules for invariant preservation"
named_theorems go_string_simps "rewrite rules for the string operations"

section \<open>Errors and results\<close>

datatype error =
    ErrNotFound
  | ErrInvalidMAC
  | ErrCanceled
  | ErrDeadlineExceeded
  | ErrFormat
  | DBError string
  | Errorf string
  | Wrapf string error
  | Wraps string error string

type_synonym 'a result = "error + 'a"

fun error_text :: "error \<Rightarrow> string" where
  "error_text ErrNotFound = ''not found''"
| "error_text ErrInvalidMAC = ''invalid MAC address''"
| "error_text ErrCanceled = ''context canceled''"
| "error_text ErrDeadlineExceeded = ''context deadline exceeded''"
| "error_text ErrFormat = ''zip: not a valid zip file''"
| "error_text (DBError m) = m"
| "error_text (Errorf m) = m"
| "error_text (Wrapf p e) = p @ '': '' @ error_text e"
| "error_text (Wraps p e s) = p @ '': '' @ error_text e @ '': '' @ s"

text \<open>\<open>errors.Is\<close>: the error itself or one it wraps with \<open>%w\<close>.\<close>

fun errors_is :: "error \<Rightarrow> error \<Rightarrow> bool" where
  "errors_is (Wrapf p e) t = (Wrapf p e = t \<or> errors_is e t)"
| "errors_is (Wraps p e s) t = (Wraps p e s = t \<or> errors_is e t)"
| "errors_is e t = (e = t)"

fun is_ok :: "'a result \<Rightarrow> bool" where
  "is_ok (Inl _) = False"
| "is_ok (Inr _) = True"

text \<open>
  \<open>io.ReadAll(io.LimitReader(r, n))\<close> on a reader given by the bytes it yields and the error after
  them (\<open>None\<close> at the end of the input).
\<close>

definition limited_read :: "nat \<Rightarrow> string \<times> error option \<Rightarrow> string result" where
  "limited_read n body =
     (case body of (data, e) \<Rightarrow>
        (case e of
           Some x \<Rightarrow> if length data < n then Inl x else Inr (take n data)
         | None \<Rightarrow> Inr (take n data)))"

lemma limited_read_complete:
  "limited_read (Suc n) body = Inr got \<Longrightarrow> length got \<le> n \<Longrightarrow> body = (got, None)"
  by (cases body) (auto simp: limited_read_def split: option.splits if_splits)

section \<open>Characters\<close>

abbreviation code :: "char \<Rightarrow> nat" where
  "code c \<equiv> of_char c"

definition is_space :: "char \<Rightarrow> bool" where
  "is_space c \<longleftrightarrow> code c = 32 \<or> (9 \<le> code c \<and> code c \<le> 13)"

definition is_digit :: "char \<Rightarrow> bool" where
  "is_digit c \<longleftrightarrow> 48 \<le> code c \<and> code c \<le> 57"

definition is_upper :: "char \<Rightarrow> bool" where
  "is_upper c \<longleftrightarrow> 65 \<le> code c \<and> code c \<le> 90"

definition is_lower :: "char \<Rightarrow> bool" where
  "is_lower c \<longleftrightarrow> 97 \<le> code c \<and> code c \<le> 122"

definition is_alnum :: "char \<Rightarrow> bool" where
  "is_alnum c \<longleftrightarrow> is_digit c \<or> is_upper c \<or> is_lower c"

definition lower_char :: "char \<Rightarrow> char" where
  "lower_char c = (if is_upper c then char_of (code c + 32) else c)"

definition upper_char :: "char \<Rightarrow> char" where
  "upper_char c = (if is_lower c then char_of (code c - 32) else c)"

definition to_lower :: "string \<Rightarrow> string" where
  "to_lower s = map lower_char s"

definition to_upper :: "string \<Rightarrow> string" where
  "to_upper s = map upper_char s"

definition equal_fold :: "string \<Rightarrow> string \<Rightarrow> bool" where
  "equal_fold a b \<longleftrightarrow> to_lower a = to_lower b"

lemma lower_char_not_upper: "\<not> is_upper (lower_char c)"
  by (auto simp: lower_char_def is_upper_def)

lemma lower_char_idem [simp]: "lower_char (lower_char c) = lower_char c"
  using lower_char_not_upper [of c] by (simp add: lower_char_def)

lemma to_lower_idem [simp]: "to_lower (to_lower s) = to_lower s"
  by (simp add: to_lower_def)

lemma length_to_lower [simp]: "length (to_lower s) = length s"
  by (simp add: to_lower_def)

lemma to_lower_Nil [simp]: "to_lower [] = []"
  by (simp add: to_lower_def)

lemma to_lower_append [simp]: "to_lower (a @ b) = to_lower a @ to_lower b"
  by (simp add: to_lower_def)

section \<open>Trimming and fields\<close>

text \<open>The UTF-8 encodings of the white-space runes beyond ASCII (\<open>unicode.White_Space\<close>).\<close>

definition wide_spaces :: "string list" where
  "wide_spaces = map (map char_of)
     ([[0xC2, 0x85], [0xC2, 0xA0], [0xE1, 0x9A, 0x80],
       [0xE2, 0x80, 0x80], [0xE2, 0x80, 0x81], [0xE2, 0x80, 0x82], [0xE2, 0x80, 0x83],
       [0xE2, 0x80, 0x84], [0xE2, 0x80, 0x85], [0xE2, 0x80, 0x86], [0xE2, 0x80, 0x87],
       [0xE2, 0x80, 0x88], [0xE2, 0x80, 0x89], [0xE2, 0x80, 0x8A], [0xE2, 0x80, 0xA8],
       [0xE2, 0x80, 0xA9], [0xE2, 0x80, 0xAF], [0xE2, 0x81, 0x9F], [0xE3, 0x80, 0x80]] :: nat list list)"

definition ascii :: "char \<Rightarrow> bool" where
  "ascii c \<longleftrightarrow> code c < 128"

fun space_len_in :: "string list \<Rightarrow> string \<Rightarrow> nat" where
  "space_len_in ws [] = 0"
| "space_len_in ws (c # cs) =
     (if is_space c then 1
      else if ascii c then 0
      else (case find (\<lambda>w. take (length w) (c # cs) = w) ws of None \<Rightarrow> 0 | Some w \<Rightarrow> length w))"

fun strip :: "string list \<Rightarrow> nat \<Rightarrow> string \<Rightarrow> string" where
  "strip ws 0 s = s"
| "strip ws (Suc n) s =
     (if space_len_in ws s = 0 then s else strip ws n (drop (space_len_in ws s) s))"

text \<open>\<open>strings.TrimSpace\<close>. Each round of \<open>strip\<close> removes at least one byte, so the length
  of the string is enough fuel (\<open>strip_done\<close>).\<close>

definition trim_left :: "string \<Rightarrow> string" where
  "trim_left s = strip wide_spaces (length s) s"

definition trim_right :: "string \<Rightarrow> string" where
  "trim_right s = rev (strip (map rev wide_spaces) (length s) (rev s))"

definition trim_space :: "string \<Rightarrow> string" where
  "trim_space s = trim_right (trim_left s)"

lemma strip_done: "length s \<le> n \<Longrightarrow> space_len_in ws (strip ws n s) = 0"
proof (induction n arbitrary: s)
  case 0
  then show ?case by simp
next
  case (Suc n)
  show ?case
  proof (cases "space_len_in ws s = 0")
    case True
    then show ?thesis by simp
  next
    case False
    then have "length (drop (space_len_in ws s) s) \<le> n"
      using Suc.prems by simp
    with False show ?thesis by (simp add: Suc.IH)
  qed
qed

lemma strip_stop: "space_len_in ws s = 0 \<Longrightarrow> strip ws n s = s"
  by (cases n) simp_all

lemma strip_suffix: "\<exists>p. s = p @ strip ws n s"
proof (induction n arbitrary: s)
  case 0
  then show ?case by simp
next
  case (Suc n)
  obtain p where "drop (space_len_in ws s) s = p @ strip ws n (drop (space_len_in ws s) s)"
    using Suc by blast
  then have "s = (take (space_len_in ws s) s @ p) @ strip ws n (drop (space_len_in ws s) s)"
    by (metis append.assoc append_take_drop_id)
  then show ?case by (metis append_Nil strip.simps(2))
qed

lemma length_strip_le: "length (strip ws n s) \<le> length s"
  using strip_suffix [of s ws n] by (metis le_add2 length_append)

lemma trim_space_Nil [simp]: "trim_space [] = []"
  by (simp add: trim_space_def trim_left_def trim_right_def)

text \<open>A string that starts and ends with a printing ASCII character is its own trim.\<close>

definition ink :: "char \<Rightarrow> bool" where
  "ink c \<longleftrightarrow> ascii c \<and> \<not> is_space c"

lemma space_len_ink: "ink c \<Longrightarrow> space_len_in ws (c # s) = 0"
  by (simp add: ink_def)

lemma trim_space_ink:
  assumes "s \<noteq> []" and "ink (hd s)" and "ink (last s)"
  shows "trim_space s = s"
proof -
  have "trim_left s = s"
    using assms by (cases s) (auto simp: trim_left_def intro!: strip_stop simp: ink_def)
  moreover have "trim_right s = s"
    using assms by (cases s rule: rev_cases)
      (auto simp: trim_right_def ink_def intro!: strip_stop)
  ultimately show ?thesis by (simp add: trim_space_def)
qed

text \<open>Trimming twice is trimming once.\<close>

lemma space_len_prefix:
  assumes ws: "[] \<notin> set ws" and z: "space_len_in ws s = 0"
  shows "space_len_in ws (take n s) = 0"
proof (cases "s = [] \<or> n = 0")
  case False
  then obtain c cs k where s: "s = c # cs" and n: "n = Suc k" by (cases s; cases n) auto
  have "\<not> is_space c" using z s by (auto split: if_splits)
  moreover have "find (\<lambda>w. take (length w) (take n s) = w) ws = None" if "\<not> ascii c"
  proof -
    have none: "find (\<lambda>w. take (length w) s = w) ws = None"
    proof (rule ccontr)
      assume "find (\<lambda>w. take (length w) s = w) ws \<noteq> None"
      then obtain w where w: "find (\<lambda>w. take (length w) s = w) ws = Some w" by blast
      then have "w \<in> set ws" by (auto simp: find_Some_iff)
      with w z s that \<open>\<not> is_space c\<close> ws show False by auto
    qed
    have "take (length w) (take n s) = w \<Longrightarrow> take (length w) s = w" for w
      by (metis append_take_drop_id length_take min.cobounded2 take_all_iff take_take min_def)
    with none show ?thesis by (auto simp: find_None_iff)
  qed
  ultimately show ?thesis using s n by simp
qed auto

lemma wide_spaces_nonempty: "[] \<notin> set wide_spaces" "[] \<notin> set (map rev wide_spaces)"
  by (auto simp: wide_spaces_def)

lemma trim_left_front: "space_len_in wide_spaces (trim_left s) = 0"
  by (simp add: trim_left_def strip_done)

lemma trim_space_front: "space_len_in wide_spaces (trim_space s) = 0"
proof -
  obtain p where "rev (trim_left s) = p @ rev (trim_space s)"
    unfolding trim_space_def trim_right_def using strip_suffix by fastforce
  then have "trim_left s = trim_space s @ rev p" by (metis rev_append rev_rev_ident)
  then have "trim_space s = take (length (trim_space s)) (trim_left s)" by simp
  then show ?thesis using space_len_prefix [OF wide_spaces_nonempty(1) trim_left_front] by metis
qed

lemma trim_space_back: "space_len_in (map rev wide_spaces) (rev (trim_space s)) = 0"
  by (simp add: trim_space_def trim_right_def strip_done)

lemma trim_space_idem [simp]: "trim_space (trim_space s) = trim_space s"
proof -
  have "trim_left (trim_space s) = trim_space s"
    unfolding trim_left_def by (rule strip_stop [OF trim_space_front])
  moreover have "trim_right (trim_space s) = trim_space s"
    unfolding trim_right_def by (simp only: strip_stop [OF trim_space_back] rev_rev_ident)
  ultimately show ?thesis by (simp add: trim_space_def [of "trim_space s"])
qed

text \<open>Trimming keeps a printing first character.\<close>

lemma strip_keeps_last:
  assumes "\<forall>w \<in> set ws. \<forall>d \<in> set w. \<not> ascii d" and "ink x"
  shows "\<exists>v. strip ws n (u @ [x]) = v @ [x]"
proof (induction n arbitrary: u)
  case (Suc n)
  let ?k = "space_len_in ws (u @ [x])"
  have "?k \<le> length u"
  proof (cases u)
    case Nil
    with assms(2) show ?thesis by (simp add: ink_def)
  next
    case (Cons c cs)
    have "length w \<le> length u" if "find (\<lambda>w. take (length w) (u @ [x]) = w) ws = Some w" for w
    proof (rule ccontr)
      assume "\<not> length w \<le> length u"
      moreover have "take (length w) (u @ [x]) = w" and "w \<in> set ws"
        using that by (auto simp: find_Some_iff)
      ultimately have "x \<in> set w" by (metis append_is_Nil_conv in_set_conv_decomp length_append_singleton
        not_less_eq_eq take_all)
      with assms \<open>w \<in> set ws\<close> show False by (auto simp: ink_def)
    qed
    with Cons show ?thesis by (auto split: option.splits)
  qed
  then have "drop ?k (u @ [x]) = drop ?k u @ [x]" by simp
  then show ?case using Suc.IH [of "drop ?k u"] by auto
qed simp

lemma trim_space_nonempty: "ink c \<Longrightarrow> trim_space (c # s) \<noteq> []"
proof -
  assume c: "ink c"
  have "\<forall>w \<in> set (map rev wide_spaces). \<forall>d \<in> set w. \<not> ascii d" by code_simp
  then obtain v where "strip (map rev wide_spaces) (length (c # s)) (rev s @ [c]) = v @ [c]"
    using strip_keeps_last c by blast
  moreover have "trim_left (c # s) = c # s"
    unfolding trim_left_def by (rule strip_stop [OF space_len_ink [OF c]])
  ultimately show ?thesis by (simp add: trim_space_def trim_right_def)
qed

text \<open>\<open>strings.Fields\<close>: the maximal runs of non-space bytes.\<close>

function fields_acc :: "string \<Rightarrow> string \<Rightarrow> string list" where
  "fields_acc acc [] = (if acc = [] then [] else [rev acc])"
| "fields_acc acc (c # cs) =
     (let k = space_len_in wide_spaces (c # cs) in
      if k = 0 then fields_acc (c # acc) cs
      else (if acc = [] then [] else [rev acc]) @ fields_acc [] (drop (k - 1) cs))"
  by pat_completeness auto
termination
  by (relation "measure (\<lambda>(acc, s). length s)") auto

definition fields :: "string \<Rightarrow> string list" where
  "fields s = fields_acc [] s"

section \<open>Searching and splitting\<close>

definition has_prefix :: "string \<Rightarrow> string \<Rightarrow> bool" where
  "has_prefix s p \<longleftrightarrow> take (length p) s = p"

definition has_suffix :: "string \<Rightarrow> string \<Rightarrow> bool" where
  "has_suffix s p \<longleftrightarrow> has_prefix (rev s) (rev p)"

definition trim_prefix :: "string \<Rightarrow> string \<Rightarrow> string" where
  "trim_prefix s p = (if has_prefix s p then drop (length p) s else s)"

definition trim_suffix :: "string \<Rightarrow> string \<Rightarrow> string" where
  "trim_suffix s p = (if has_suffix s p then take (length s - length p) s else s)"

fun contains :: "string \<Rightarrow> string \<Rightarrow> bool" where
  "contains [] p = (p = [])"
| "contains (c # cs) p = (has_prefix (c # cs) p \<or> contains cs p)"

definition contains_any :: "string \<Rightarrow> string \<Rightarrow> bool" where
  "contains_any s chars \<longleftrightarrow> (\<exists>c \<in> set s. c \<in> set chars)"

definition count_char :: "char \<Rightarrow> string \<Rightarrow> nat" where
  "count_char c s = length (filter (\<lambda>x. x = c) s)"

text \<open>\<open>strings.Split\<close> on a one-byte separator and on a longer one.\<close>

fun split_char :: "char \<Rightarrow> string \<Rightarrow> string list" where
  "split_char d [] = [[]]"
| "split_char d (c # cs) =
     (if c = d then [] # split_char d cs
      else (case split_char d cs of [] \<Rightarrow> [[c]] | p # ps \<Rightarrow> (c # p) # ps))"

function split_str :: "string \<Rightarrow> string \<Rightarrow> string list" where
  "split_str sep [] = [[]]"
| "split_str sep (c # cs) =
     (if sep \<noteq> [] \<and> has_prefix (c # cs) sep then [] # split_str sep (drop (length sep - 1) cs)
      else (case split_str sep cs of [] \<Rightarrow> [[c]] | p # ps \<Rightarrow> (c # p) # ps))"
  by pat_completeness auto
termination
  by (relation "measure (\<lambda>(sep, s). length s)") auto

text \<open>\<open>strings.Cut\<close> on a one-byte separator: before, after and whether it was found.\<close>

fun cut_char :: "char \<Rightarrow> string \<Rightarrow> string \<times> string \<times> bool" where
  "cut_char d [] = ([], [], False)"
| "cut_char d (c # cs) =
     (if c = d then ([], cs, True)
      else (case cut_char d cs of (a, b, ok) \<Rightarrow> (c # a, b, ok)))"

fun join :: "string \<Rightarrow> string list \<Rightarrow> string" where
  "join sep [] = []"
| "join sep [x] = x"
| "join sep (x # y # ys) = x @ sep @ join sep (y # ys)"

lemma split_char_nonempty [simp]: "split_char d s \<noteq> []"
  by (cases s) (auto split: list.splits)

lemma split_char_join:
  "xs \<noteq> [] \<Longrightarrow> \<forall>x \<in> set xs. d \<notin> set x \<Longrightarrow> split_char d (join [d] xs) = xs"
proof (induction xs rule: induct_list012)
  case (2 x)
  then have "d \<notin> set x" by simp
  then show ?case by (induction x) auto
next
  case (3 x y zs)
  then have IH: "split_char d (join [d] (y # zs)) = y # zs" and "d \<notin> set x" by simp_all
  from \<open>d \<notin> set x\<close> have "split_char d (x @ d # join [d] (y # zs)) = x # y # zs"
    by (induction x) (auto simp: IH)
  then show ?case by simp
qed simp

lemma split_char_none: "d \<notin> set s \<Longrightarrow> split_char d s = [s]"
  by (induction s) auto

lemma has_prefix_append [simp]: "has_prefix (p @ s) p"
  by (simp add: has_prefix_def)

lemma trim_prefix_append [simp]: "trim_prefix (p @ s) p = s"
  by (simp add: trim_prefix_def)

lemma has_prefix_iff: "has_prefix s p \<longleftrightarrow> (\<exists>t. s = p @ t)"
  unfolding has_prefix_def by (metis append_eq_conv_conj append_take_drop_id)

lemma contains_iff: "contains s p \<longleftrightarrow> (\<exists>a b. s = a @ p @ b)"
proof (induction s)
  case Nil
  then show ?case by auto
next
  case (Cons c cs)
  show ?case
  proof
    assume "contains (c # cs) p"
    then consider "has_prefix (c # cs) p" | "contains cs p" by auto
    then show "\<exists>a b. c # cs = a @ p @ b"
    proof cases
      case 1
      then show ?thesis by (metis append_Nil has_prefix_iff)
    next
      case 2
      then show ?thesis by (metis Cons.IH append_Cons)
    qed
  next
    assume "\<exists>a b. c # cs = a @ p @ b"
    then obtain a b where ab: "c # cs = a @ p @ b" by blast
    show "contains (c # cs) p"
    proof (cases a)
      case Nil
      with ab have "has_prefix (c # cs) p" by (metis append_Nil has_prefix_append)
      then show ?thesis by simp
    next
      case (Cons x xs)
      with ab have "cs = xs @ p @ b" by simp
      with Cons.IH show ?thesis by auto
    qed
  qed
qed

text \<open>\<open>bufio.ScanLines\<close> under a buffer of \<open>limit\<close> bytes: the lines up to the first one that
  does not fit, and whether there is such a line.\<close>

definition drop_cr :: "string \<Rightarrow> string" where
  "drop_cr l = (if l \<noteq> [] \<and> code (last l) = 13 then butlast l else l)"

definition raw_lines :: "string \<Rightarrow> string list" where
  "raw_lines s =
     (let ls = split_char (char_of (10::nat)) s in if last ls = [] then butlast ls else ls)"

definition scan_tokens :: "nat \<Rightarrow> string \<Rightarrow> string list \<times> bool" where
  "scan_tokens limit s =
     (let fits = takeWhile (\<lambda>l. length l < limit) (raw_lines s) in
      (map drop_cr fits, length fits < length (raw_lines s)))"

text \<open>\<open>strings.FieldsFunc\<close>: the maximal runs of characters that are no separators.\<close>

fun fields_by :: "(char \<Rightarrow> bool) \<Rightarrow> string \<Rightarrow> string \<Rightarrow> string list" where
  "fields_by sep acc [] = (if acc = [] then [] else [rev acc])"
| "fields_by sep acc (c # cs) =
     (if sep c then (if acc = [] then [] else [rev acc]) @ fields_by sep [] cs
      else fields_by sep (c # acc) cs)"

section \<open>Numbers and hexadecimal\<close>

definition digit_char :: "nat \<Rightarrow> char" where
  "digit_char n = char_of (48 + n)"

fun dec_digits :: "nat \<Rightarrow> string" where
  "dec_digits n = (if n < 10 then [digit_char n] else dec_digits (n div 10) @ [digit_char (n mod 10)])"

declare dec_digits.simps [simp del]

text \<open>\<open>strconv.Itoa\<close>, and \<open>%d\<close> of \<open>fmt\<close>.\<close>

definition itoa :: "int \<Rightarrow> string" where
  "itoa i = (if i < 0 then CHR ''-'' # dec_digits (nat (- i)) else dec_digits (nat i))"

datatype num_error = ErrSyntax | ErrRange

text \<open>The digit loop of \<open>strconv.ParseUint\<close> in base 10 with 64 bits: a value beyond
  \<open>2^64 - 1\<close> is a range error at the digit that overflows, before later bytes are read.\<close>

fun scan_uint :: "nat \<Rightarrow> string \<Rightarrow> num_error + nat" where
  "scan_uint n [] = Inr n"
| "scan_uint n (c # cs) =
     (if \<not> is_digit c then Inl ErrSyntax
      else if n * 10 + (code c - 48) > 18446744073709551615 then Inl ErrRange
      else scan_uint (n * 10 + (code c - 48)) cs)"

text \<open>\<open>strconv.Atoi\<close> returns a value together with the error: 0 on a syntax error, the
  nearest representable value on a range error.\<close>

definition atoi :: "string \<Rightarrow> int \<times> num_error option" where
  "atoi s =
     (let neg = (s \<noteq> [] \<and> hd s = CHR ''-'');
          ds = (if s \<noteq> [] \<and> (hd s = CHR ''-'' \<or> hd s = CHR ''+'') then tl s else s) in
      if ds = [] then (0, Some ErrSyntax)
      else (case scan_uint 0 ds of
              Inl ErrSyntax \<Rightarrow> (0, Some ErrSyntax)
            | Inl ErrRange \<Rightarrow> (if neg then - 9223372036854775808 else 9223372036854775807, Some ErrRange)
            | Inr v \<Rightarrow>
                if \<not> neg \<and> v \<ge> 9223372036854775808 then (9223372036854775807, Some ErrRange)
                else if neg \<and> v > 9223372036854775808 then (- 9223372036854775808, Some ErrRange)
                else (if neg then - int v else int v, None)))"

type_synonym byte = "8 word"

definition hex_val :: "char \<Rightarrow> nat option" where
  "hex_val c =
     (if is_digit c then Some (code c - 48)
      else if 97 \<le> code c \<and> code c \<le> 102 then Some (code c - 87)
      else if 65 \<le> code c \<and> code c \<le> 70 then Some (code c - 55)
      else None)"

definition hex_digit :: "nat \<Rightarrow> char" where
  "hex_digit n = (if n < 10 then char_of (48 + n) else char_of (87 + n))"

text \<open>\<open>hex.DecodeString\<close>: \<open>None\<close> on an odd length or a byte that is no hex digit.\<close>

fun hex_decode :: "string \<Rightarrow> byte list option" where
  "hex_decode [] = Some []"
| "hex_decode [c] = None"
| "hex_decode (a # b # cs) =
     (case (hex_val a, hex_val b, hex_decode cs) of
        (Some x, Some y, Some bs) \<Rightarrow> Some (word_of_nat (x * 16 + y) # bs)
      | _ \<Rightarrow> None)"

definition hex_byte :: "byte \<Rightarrow> string" where
  "hex_byte b = [hex_digit (unat b div 16), hex_digit (unat b mod 16)]"

definition hex_encode :: "byte list \<Rightarrow> string" where
  "hex_encode bs = concat (map hex_byte bs)"

lemma hex_val_bound: "hex_val c = Some n \<Longrightarrow> n < 16"
  by (auto simp: hex_val_def is_digit_def split: if_splits)

lemma hex_val_digit [simp]: "n < 16 \<Longrightarrow> hex_val (hex_digit n) = Some n"
  by (auto simp: hex_val_def hex_digit_def is_digit_def)

lemma unat_lt2p_byte: "unat (b :: byte) < 256"
  using unsigned_less [of b, where ?'a = nat] by simp

lemma hex_byte_decode: "hex_decode (hex_byte b @ s) = map_option (\<lambda>bs. b # bs) (hex_decode s)"
proof -
  have "unat b < 256" using unat_lt2p_byte [of b] .
  then have "unat b div 16 < 16" and "unat b mod 16 < 16" by auto
  then show ?thesis by (simp add: hex_byte_def split: option.split)
qed

lemma hex_roundtrip: "hex_decode (hex_encode bs) = Some bs"
  by (induction bs) (simp_all add: hex_encode_def hex_byte_decode)

lemma hex_decode_length: "hex_decode s = Some bs \<Longrightarrow> length s = 2 * length bs"
  by (induction s arbitrary: bs rule: hex_decode.induct) (auto split: option.splits)

section \<open>Quoting\<close>

text \<open>The \<open>%q\<close> verb on ASCII text; bytes of multi-byte runes are printed as they are.\<close>

definition quote_char :: "char \<Rightarrow> string" where
  "quote_char c =
     (if code c = 34 \<or> code c = 92 then [char_of (92::nat), c]
      else if code c = 7 then [char_of (92::nat), CHR ''a'']
      else if code c = 8 then [char_of (92::nat), CHR ''b'']
      else if code c = 9 then [char_of (92::nat), CHR ''t'']
      else if code c = 10 then [char_of (92::nat), CHR ''n'']
      else if code c = 11 then [char_of (92::nat), CHR ''v'']
      else if code c = 12 then [char_of (92::nat), CHR ''f'']
      else if code c = 13 then [char_of (92::nat), CHR ''r'']
      else if code c < 32 \<or> code c = 127
        then [char_of (92::nat), CHR ''x'', hex_digit (code c div 16), hex_digit (code c mod 16)]
      else [c])"

definition quote :: "string \<Rightarrow> string" where
  "quote s = char_of (34::nat) # concat (map quote_char s) @ [char_of (34::nat)]"

end
