(* ===== verification/NetAddr.thy ===== *)
theory NetAddr
  imports GoBase
begin

text \<open>
  The part of Go's \<open>net\<close> package the program relies on: textual IPv4 and IPv6 addresses
  (\<open>net.ParseIP\<close>, \<open>IP.To4\<close>, \<open>IP.String\<close>), CIDR prefixes (\<open>net.ParseCIDR\<close>,
  \<open>IPNet.Contains\<close>, \<open>IPNet.String\<close>), \<open>host:port\<close> strings and hardware addresses.
  A \<open>net.IP\<close> is its byte slice: 16 bytes from \<open>net.ParseIP\<close> (IPv4 in its mapped form),
  4 bytes from \<open>To4\<close>; nil is \<open>None\<close>.
\<close>

unbundle bit_operations_syntax

type_synonym ip = "byte list"

section \<open>Textual addresses\<close>

text \<open>The field scanner of \<open>netip.parseIPv4Fields\<close>: value and digit count of the field being
  read, the finished fields, the rest of the input.\<close>

fun v4_scan :: "nat \<Rightarrow> nat \<Rightarrow> byte list \<Rightarrow> string \<Rightarrow> byte list option" where
  "v4_scan val dl fs [] = (if length fs < 3 then None else Some (fs @ [word_of_nat val]))"
| "v4_scan val dl fs (c # cs) =
     (if is_digit c then
        (if dl = 1 \<and> val = 0 then None
         else if val * 10 + (code c - 48) > 255 then None
         else v4_scan (val * 10 + (code c - 48)) (Suc dl) fs cs)
      else if c = CHR ''.'' then
        (if dl = 0 \<or> cs = [] then None
         else if length fs = 3 then None
         else v4_scan 0 0 (fs @ [word_of_nat val]) cs)
      else None)"

definition parse_ipv4 :: "string \<Rightarrow> byte list option" where
  "parse_ipv4 s = v4_scan 0 0 [] s"

fun hex_value :: "nat \<Rightarrow> string \<Rightarrow> nat" where
  "hex_value n [] = n"
| "hex_value n (c # cs) = hex_value (n * 16 + (case hex_val c of Some v \<Rightarrow> v | None \<Rightarrow> 0)) cs"

definition is_hex :: "char \<Rightarrow> bool" where
  "is_hex c \<longleftrightarrow> hex_val c \<noteq> None"

text \<open>The group loop of \<open>netip.parseIPv6\<close>: the bytes read, the position of the ellipsis, the
  rest of the input. Every round adds at least two of the 16 bytes, so 8 rounds are enough.\<close>

fun v6_loop :: "nat \<Rightarrow> byte list \<Rightarrow> nat option \<Rightarrow> string \<Rightarrow> (byte list \<times> nat option \<times> string) option" where
  "v6_loop 0 ip e s = Some (ip, e, s)"
| "v6_loop (Suc k) ip e s =
     (if 16 \<le> length ip then Some (ip, e, s)
      else
        let h = takeWhile is_hex s; rest = dropWhile is_hex s in
        if h = [] \<or> length h > 4 then None
        else if rest \<noteq> [] \<and> hd rest = CHR ''.'' then
          (if e = None \<and> length ip \<noteq> 12 then None
           else if length ip + 4 > 16 then None
           else (case parse_ipv4 s of None \<Rightarrow> None | Some q \<Rightarrow> Some (ip @ q, e, [])))
        else
          let v = hex_value 0 h; ip' = ip @ [word_of_nat (v div 256), word_of_nat (v mod 256)] in
          if rest = [] then Some (ip', e, [])
          else if hd rest \<noteq> CHR '':'' \<or> tl rest = [] then None
          else if hd (tl rest) = CHR '':'' then
            (if e \<noteq> None then None
             else if tl (tl rest) = [] then Some (ip', Some (length ip'), [])
             else v6_loop k ip' (Some (length ip')) (tl (tl rest)))
          else v6_loop k ip' e (tl rest))"

definition v6_expand :: "byte list \<times> nat option \<times> string \<Rightarrow> byte list option" where
  "v6_expand r = (case r of (ip, e, s) \<Rightarrow>
     if s \<noteq> [] then None
     else if length ip < 16 then
       (case e of None \<Rightarrow> None
        | Some p \<Rightarrow> Some (take p ip @ replicate (16 - length ip) 0 @ drop p ip))
     else if e \<noteq> None then None else Some ip)"

definition parse_ipv6 :: "string \<Rightarrow> byte list option" where
  "parse_ipv6 s =
     (if CHR ''%'' \<in> set s then None
      else if has_prefix s ''::'' then
        (if drop 2 s = [] then Some (replicate 16 0)
         else (case v6_loop 8 [] (Some 0) (drop 2 s) of None \<Rightarrow> None | Some r \<Rightarrow> v6_expand r))
      else (case v6_loop 8 [] None s of None \<Rightarrow> None | Some r \<Rightarrow> v6_expand r))"

definition v4_in_v6 :: "byte list" where
  "v4_in_v6 = replicate 10 0 @ [255, 255]"

text \<open>\<open>netip.ParseAddr\<close> chooses the family by the first of \<open>.\<close>, \<open>:\<close> and \<open>%\<close>; the
  boolean says whether the text was IPv4. \<open>net.ParseIP\<close> returns the 16-byte form.\<close>

definition parse_addr :: "string \<Rightarrow> (bool \<times> ip) option" where
  "parse_addr s =
     (case find (\<lambda>c. c = CHR ''.'' \<or> c = CHR '':'' \<or> c = CHR ''%'') s of
        None \<Rightarrow> None
      | Some c \<Rightarrow>
          if c = CHR ''.'' then map_option (\<lambda>q. (True, v4_in_v6 @ q)) (parse_ipv4 s)
          else if c = CHR '':'' then map_option (\<lambda>b. (False, b)) (parse_ipv6 s)
          else None)"

definition parse_ip :: "string \<Rightarrow> ip option" where
  "parse_ip s = map_option snd (parse_addr s)"

definition to4 :: "ip \<Rightarrow> ip option" where
  "to4 ip =
     (if length ip = 4 then Some ip
      else if length ip = 16 \<and> take 12 ip = v4_in_v6 then Some (drop 12 ip)
      else None)"

text \<open>\<open>net.ParseIP(s).To4()\<close>: \<open>To4\<close> of a nil address is nil.\<close>

definition parse_to4 :: "string \<Rightarrow> ip option" where
  "parse_to4 s = Option.bind (parse_ip s) to4"

section \<open>Rendering\<close>

definition v4_string :: "byte list \<Rightarrow> string" where
  "v4_string q = join ''.'' (map (\<lambda>b. dec_digits (unat b)) q)"

fun hex_digits :: "nat \<Rightarrow> string" where
  "hex_digits n = (if n < 16 then [hex_digit n] else hex_digits (n div 16) @ [hex_digit (n mod 16)])"

declare hex_digits.simps [simp del]

fun groups16 :: "byte list \<Rightarrow> nat list" where
  "groups16 (a # b # bs) = (unat a * 256 + unat b) # groups16 bs"
| "groups16 _ = []"

text \<open>The first longest run of at least two zero groups, as \<open>netip.appendTo6\<close> finds it.\<close>

definition zero_run :: "nat list \<Rightarrow> nat \<Rightarrow> nat" where
  "zero_run gs i = length (takeWhile (\<lambda>g. g = 0) (drop i gs))"

definition best_run :: "nat list \<Rightarrow> (nat \<times> nat) option" where
  "best_run gs = fold (\<lambda>i best.
     let l = zero_run gs i in
     if l \<ge> 2 \<and> l > (case best of None \<Rightarrow> 0 | Some (s, n) \<Rightarrow> n) then Some (i, l) else best)
     [0..<length gs] None"

definition v6_string :: "byte list \<Rightarrow> string" where
  "v6_string bs =
     (let gs = groups16 bs in
      case best_run gs of
        None \<Rightarrow> join '':'' (map hex_digits gs)
      | Some (i, l) \<Rightarrow>
          join '':'' (map hex_digits (take i gs)) @ ''::'' @
          join '':'' (map hex_digits (drop (i + l) gs)))"

definition ip_string :: "ip \<Rightarrow> string" where
  "ip_string ip = (case to4 ip of Some q \<Rightarrow> v4_string q | None \<Rightarrow> v6_string ip)"

section \<open>Classification\<close>

definition is_unspecified :: "ip \<Rightarrow> bool" where
  "is_unspecified ip \<longleftrightarrow> to4 ip = Some [0, 0, 0, 0] \<or> ip = replicate 16 0"

definition is_loopback :: "ip \<Rightarrow> bool" where
  "is_loopback ip = (case to4 ip of
     Some q \<Rightarrow> hd q = 127
   | None \<Rightarrow> ip = replicate 15 0 @ [1])"

definition is_multicast :: "ip \<Rightarrow> bool" where
  "is_multicast ip = (case to4 ip of
     Some q \<Rightarrow> hd q AND 0xF0 = 0xE0
   | None \<Rightarrow> length ip = 16 \<and> hd ip = 0xFF)"

definition is_private4 :: "byte list \<Rightarrow> bool" where
  "is_private4 q \<longleftrightarrow> q ! 0 = 10 \<or> (q ! 0 = 172 \<and> q ! 1 AND 0xF0 = 16) \<or> (q ! 0 = 192 \<and> q ! 1 = 168)"

definition is_link_local4 :: "byte list \<Rightarrow> bool" where
  "is_link_local4 q \<longleftrightarrow> q ! 0 = 169 \<and> q ! 1 = 254"

section \<open>CIDR prefixes\<close>

record ipnet =
  net_ip :: ip
  net_ones :: nat
  net_bits :: nat

fun mask_bytes :: "nat \<Rightarrow> nat \<Rightarrow> byte list" where
  "mask_bytes 0 n = []"
| "mask_bytes (Suc k) n =
     (if 8 \<le> n then 0xFF # mask_bytes k (n - 8)
      else NOT (drop_bit n 0xFF) # mask_bytes k 0)"

text \<open>\<open>net.CIDRMask\<close>: \<open>bits\<close> is 32 or 128.\<close>

definition cidr_mask :: "nat \<Rightarrow> nat \<Rightarrow> byte list" where
  "cidr_mask ones bits = mask_bytes (bits div 8) ones"

definition and_bytes :: "byte list \<Rightarrow> byte list \<Rightarrow> byte list" where
  "and_bytes a b = map2 (\<lambda>x y. x AND y) a b"

definition net_mask :: "ipnet \<Rightarrow> byte list" where
  "net_mask n = cidr_mask (net_ones n) (net_bits n)"

definition parse_cidr :: "string \<Rightarrow> (ip \<times> ipnet) option" where
  "parse_cidr s =
     (case cut_char CHR ''/'' s of (addr, plen, found) \<Rightarrow>
        if \<not> found then None
        else case parse_addr addr of
          None \<Rightarrow> None
        | Some (v4, ip) \<Rightarrow>
            let bits = (if v4 then 32 else 128);
                v = foldl (\<lambda>n c. n * 10 + (code c - 48)) (0::nat) plen in
            if plen = [] \<or> \<not> list_all is_digit plen \<or> v > bits then None
            else Some (ip,
              \<lparr>net_ip = and_bytes (if v4 then drop 12 ip else ip) (cidr_mask v bits),
               net_ones = v, net_bits = bits\<rparr>))"

definition net_contains :: "ipnet \<Rightarrow> ip \<Rightarrow> bool" where
  "net_contains n ip =
     (let nn = (case to4 (net_ip n) of Some q \<Rightarrow> q | None \<Rightarrow> net_ip n);
          m = (if length (net_mask n) = 16 \<and> length nn = 4 then drop 12 (net_mask n) else net_mask n);
          x = (case to4 ip of Some q \<Rightarrow> q | None \<Rightarrow> ip) in
      length x = length nn \<and> and_bytes nn m = and_bytes x m)"

text \<open>\<open>(*IPNet).String\<close>; a nil network prints as \<open><nil>\<close>.\<close>

definition net_string :: "ipnet option \<Rightarrow> string" where
  "net_string n =
     (case n of
        None \<Rightarrow> ''<nil>''
      | Some n \<Rightarrow>
          (let ones = (if net_bits n = 128 \<and> to4 (net_ip n) \<noteq> None then net_ones n - 96 else net_ones n) in
           ip_string (net_ip n) @ ''/'' @ dec_digits ones))"

section \<open>Host and port\<close>

definition join_host_port :: "string \<Rightarrow> string \<Rightarrow> string" where
  "join_host_port h p =
     (if CHR '':'' \<in> set h then ''['' @ h @ '']:'' @ p else h @ '':'' @ p)"

definition addr_error :: "string \<Rightarrow> string \<Rightarrow> error" where
  "addr_error a why = Errorf (''address '' @ a @ '': '' @ why)"

text \<open>The text before and after the last colon.\<close>

definition cut_last_colon :: "string \<Rightarrow> (string \<times> string) option" where
  "cut_last_colon s =
     (case cut_char CHR '':'' (rev s) of (p, h, found) \<Rightarrow> if found then Some (rev h, rev p) else None)"

definition split_host_port :: "string \<Rightarrow> (string \<times> string) result" where
  "split_host_port s =
     (case cut_last_colon s of
        None \<Rightarrow> Inl (addr_error s ''missing port in address'')
      | Some (h, p) \<Rightarrow>
          if hd s = CHR ''['' then
            (case cut_char CHR '']'' s of (inner, after, found) \<Rightarrow>
               if \<not> found then Inl (addr_error s ''missing ']' in address'')
               else if after = [] then Inl (addr_error s ''missing port in address'')
               else if length inner + 1 \<noteq> length h then
                 (if hd after = CHR '':'' then Inl (addr_error s ''too many colons in address'')
                  else Inl (addr_error s ''missing port in address''))
               else if CHR ''['' \<in> set (tl s) then Inl (addr_error s ''unexpected '[' in address'')
               else if CHR '']'' \<in> set after then Inl (addr_error s ''unexpected ']' in address'')
               else Inr (tl inner, p))
          else if CHR '':'' \<in> set h then Inl (addr_error s ''too many colons in address'')
          else if CHR ''['' \<in> set s then Inl (addr_error s ''unexpected '[' in address'')
          else if CHR '']'' \<in> set s then Inl (addr_error s ''unexpected ']' in address'')
          else Inr (h, p))"

section \<open>Hardware addresses\<close>

text \<open>\<open>net.HardwareAddr.String\<close>.\<close>

definition mac_string :: "byte list \<Rightarrow> string" where
  "mac_string bs = join '':'' (map hex_byte bs)"

end
