(* ===== verification/NetConfig.thy ===== *)
theory NetConfig
  imports NetAddr
begin

text \<open>
  \<open>internal/networkconfig\<close>: the environment file (\<open>env.go\<close>) and the network targets
  (\<open>network.go\<close>). The process environment is a function from keys to values; the contents of
  a file, and of a JSON document, are arguments.
\<close>

section \<open>Quoted values\<close>

text \<open>\<open>strconv.Unquote\<close> on a double-quoted literal whose bytes are valid UTF-8; \<open>unquote\<close>
  reads what follows the opening quote.\<close>

definition utf8_encode :: "nat \<Rightarrow> string" where
  "utf8_encode r = map char_of
     (if r < 128 then [r]
      else if r < 2048 then [192 + r div 64, 128 + r mod 64]
      else if r < 65536 then [224 + r div 4096, 128 + r div 64 mod 64, 128 + r mod 64]
      else [240 + r div 262144, 128 + r div 4096 mod 64, 128 + r div 64 mod 64, 128 + r mod 64])"

definition valid_rune :: "nat \<Rightarrow> bool" where
  "valid_rune r \<longleftrightarrow> r < 55296 \<or> (57343 < r \<and> r \<le> 1114111)"

fun hex_number :: "nat \<Rightarrow> string \<Rightarrow> nat option" where
  "hex_number v [] = Some v"
| "hex_number v (c # cs) = (case hex_val c of None \<Rightarrow> None | Some x \<Rightarrow> hex_number (v * 16 + x) cs)"

definition hex_escape :: "nat \<Rightarrow> string \<Rightarrow> nat option" where
  "hex_escape n s = (if length s < n then None else hex_number 0 (take n s))"

definition is_octal :: "char \<Rightarrow> bool" where
  "is_octal c \<longleftrightarrow> 48 \<le> code c \<and> code c \<le> 55"

text \<open>The text an escape stands for, and how many bytes follow its letter.\<close>

definition unescape :: "char \<Rightarrow> string \<Rightarrow> (string \<times> nat) option" where
  "unescape c s =
     (if c = CHR ''a'' then Some ([char_of (7::nat)], 0)
      else if c = CHR ''b'' then Some ([char_of (8::nat)], 0)
      else if c = CHR ''f'' then Some ([char_of (12::nat)], 0)
      else if c = CHR ''n'' then Some ([char_of (10::nat)], 0)
      else if c = CHR ''r'' then Some ([char_of (13::nat)], 0)
      else if c = CHR ''t'' then Some ([char_of (9::nat)], 0)
      else if c = CHR ''v'' then Some ([char_of (11::nat)], 0)
      else if c = CHR ''x'' then map_option (\<lambda>v. ([char_of v], 2)) (hex_escape 2 s)
      else if c = CHR ''u'' then
        Option.bind (hex_escape 4 s) (\<lambda>v. if valid_rune v then Some (utf8_encode v, 4) else None)
      else if c = CHR ''U'' then
        Option.bind (hex_escape 8 s) (\<lambda>v. if valid_rune v then Some (utf8_encode v, 8) else None)
      else if is_octal c then
        (case s of a # b # _ \<Rightarrow>
           if is_octal a \<and> is_octal b \<and> (code c - 48) * 64 + (code a - 48) * 8 + (code b - 48) \<le> 255
           then Some ([char_of ((code c - 48) * 64 + (code a - 48) * 8 + (code b - 48))], 2) else None
         | _ \<Rightarrow> None)
      else if code c = 92 \<or> code c = 34 then Some ([c], 0)
      else None)"

function unquote :: "string \<Rightarrow> string option" where
  "unquote [] = None"
| "unquote (c # cs) =
     (if code c = 34 then (if cs = [] then Some [] else None)
      else if code c = 10 then None
      else if code c \<noteq> 92 then map_option (\<lambda>r. c # r) (unquote cs)
      else (case cs of [] \<Rightarrow> None
        | e # rest \<Rightarrow>
            (case unescape e rest of None \<Rightarrow> None
             | Some (t, n) \<Rightarrow> map_option (\<lambda>r. t @ r) (unquote (drop n rest)))))"
  by pat_completeness auto
termination
  by (relation "measure length") auto

section \<open>The environment file\<close>

definition is_word_char :: "char \<Rightarrow> bool" where
  "is_word_char c \<longleftrightarrow> is_alnum c \<or> c = CHR ''_''"

text \<open>The pattern \<open>^[A-Za-z_][A-Za-z0-9_]*$\<close>.\<close>

fun envKeyPattern :: "string \<Rightarrow> bool" where
  "envKeyPattern [] = False"
| "envKeyPattern (c # cs) = (is_word_char c \<and> \<not> is_digit c \<and> list_all is_word_char cs)"

definition quoted_with :: "nat \<Rightarrow> string \<Rightarrow> bool" where
  "quoted_with q v \<longleftrightarrow> 2 \<le> length v \<and> code (hd v) = q \<and> code (last v) = q"

datatype env_line = Skip | Bad error | Assign string string

definition line_error :: "nat \<Rightarrow> string" where
  "line_error n = ''parse environment file line '' @ itoa (int n)"

definition parse_line :: "nat \<Rightarrow> string \<Rightarrow> env_line" where
  "parse_line n text =
     (let line = trim_space text in
      if line = [] \<or> has_prefix line ''#'' then Skip
      else
        (case cut_char CHR ''='' (trim_space (trim_prefix line ''export '')) of (k, v, ok) \<Rightarrow>
          let key = trim_space k; value = trim_space v in
          if \<not> ok \<or> \<not> envKeyPattern key then Bad (Errorf (line_error n @ '': invalid assignment''))
          else if quoted_with 34 value then
            (case unquote (tl value) of
               None \<Rightarrow> Bad (Wrapf (line_error n) (Errorf ''invalid syntax''))
             | Some u \<Rightarrow> Assign key u)
          else if quoted_with 39 value then Assign key (butlast (tl value))
          else Assign key value))"

text \<open>The scanner of the file has a buffer of 1024*1024 bytes.\<close>

definition max_token :: nat where
  "max_token = 1024 * 1024"

definition scan_lines :: "string \<Rightarrow> string list \<times> bool" where
  "scan_lines s = scan_tokens max_token s"

type_synonym process_env = "string \<Rightarrow> string option"

fun load_lines :: "process_env \<Rightarrow> bool \<Rightarrow> nat \<Rightarrow> string list \<Rightarrow> (string list) result" where
  "load_lines penv skip n [] = Inr []"
| "load_lines penv skip n (l # ls) =
     (case parse_line n l of
        Skip \<Rightarrow> load_lines penv skip (n + 1) ls
      | Bad e \<Rightarrow> Inl e
      | Assign key value \<Rightarrow>
          (if skip \<and> penv key \<noteq> None then load_lines penv skip (n + 1) ls
           else (case load_lines penv skip (n + 1) ls of Inl e \<Rightarrow> Inl e
             | Inr values \<Rightarrow> Inr ((key @ ''='' @ value) # values))))"

text \<open>Opening the file: missing, another error, or its contents.\<close>

datatype file_state = Missing | Unreadable error | Contents string

definition loadEnvFile :: "process_env \<Rightarrow> file_state \<Rightarrow> bool \<Rightarrow> (string list) result" where
  "loadEnvFile penv file skip =
     (case file of
        Missing \<Rightarrow> Inr []
      | Unreadable e \<Rightarrow> Inl (Wrapf ''open environment file'' e)
      | Contents s \<Rightarrow>
          (case scan_lines s of (ls, too_long) \<Rightarrow>
             (case load_lines penv skip 1 ls of
                Inl e \<Rightarrow> Inl e
              | Inr values \<Rightarrow>
                  if too_long then Inl (Wrapf ''read environment file'' (Errorf ''bufio.Scanner: token too long''))
                  else Inr values)))"

definition LoadEnvFile :: "process_env \<Rightarrow> file_state \<Rightarrow> (string list) result" where
  "LoadEnvFile penv file = loadEnvFile penv file True"

fun env_default :: "string \<Rightarrow> string list \<Rightarrow> string \<Rightarrow> string" where
  "env_default prefix [] fallback = fallback"
| "env_default prefix (item # items) fallback =
     (if has_prefix item prefix then trim_prefix item prefix else env_default prefix items fallback)"

definition EnvValue :: "process_env \<Rightarrow> string \<Rightarrow> string list \<Rightarrow> string \<Rightarrow> string" where
  "EnvValue penv key defaults fallback =
     (case penv key of Some v \<Rightarrow> v | None \<Rightarrow> env_default (key @ ''='') defaults fallback)"

section \<open>Network targets\<close>

record target =
  nt_name :: string
  nt_host :: string
  nt_port :: int
  nt_type :: string
  nt_details :: string
  nt_ssh_host :: string
  nt_relay :: bool

definition inferNetworkTargetType :: "string \<Rightarrow> string" where
  "inferNetworkTargetType name =
     (let lower = to_lower name in
      if contains lower ''zerotier'' \<or> has_prefix lower ''zt-'' \<or> has_prefix lower ''zt_''
        \<or> contains lower '' zt'' then ''zerotier''
      else if contains lower ''router'' \<or> contains lower ''gateway'' then ''router''
      else ''server'')"

definition target_types :: "string list" where
  "target_types = [''router'', ''zerotier'', ''server'', ''ssh-host'']"

definition target_key :: "target \<Rightarrow> string" where
  "target_key t = join_host_port (nt_host t) (itoa (nt_port t))"

text \<open>One round of the loop of \<open>validateNetworkTargets\<close>, for the target at \<open>index\<close>.\<close>

definition validate_target :: "nat \<Rightarrow> target \<Rightarrow> target result" where
  "validate_target index raw =
     (let t = raw\<lparr>nt_name := trim_space (nt_name raw), nt_host := trim_space (nt_host raw),
                  nt_type := to_lower (trim_space (nt_type raw))\<rparr> in
      if nt_name t = [] \<or> nt_host t = []
      then Inl (Errorf (''network target '' @ itoa (int index + 1) @ '' requires name and host''))
      else if nt_port t < 1 \<or> nt_port t > 65535
      then Inl (Errorf (''network target '' @ quote (nt_name t) @ '' has invalid port '' @ itoa (nt_port t)))
      else
        let t = (if nt_type t = [] then t\<lparr>nt_type := inferNetworkTargetType (nt_name t)\<rparr> else t);
            t = (if nt_relay t \<and> trim_space (nt_ssh_host t) = []
                 then t\<lparr>nt_ssh_host := ''root@'' @ nt_host t\<rparr> else t) in
        if nt_type t \<notin> set target_types
        then Inl (Errorf (''network target '' @ quote (nt_name t) @ '' has unsupported type '' @ quote (nt_type t)))
        else Inr t)"

fun validate_targets :: "nat \<Rightarrow> string list \<Rightarrow> target list \<Rightarrow> (target list) result" where
  "validate_targets index seen [] = Inr []"
| "validate_targets index seen (raw # raws) =
     (case validate_target index raw of
        Inl e \<Rightarrow> Inl e
      | Inr t \<Rightarrow>
          if target_key t \<in> set seen
          then Inl (Errorf (''duplicate network target address '' @ target_key t))
          else (case validate_targets (index + 1) (target_key t # seen) raws of
                  Inl e \<Rightarrow> Inl e
                | Inr ts \<Rightarrow> Inr (t # ts)))"

definition validateNetworkTargets :: "target list \<Rightarrow> (target list) result" where
  "validateNetworkTargets ts = validate_targets 0 [] ts"

text \<open>One item of \<open>WOL_NETWORK_PROBE_TARGETS\<close>. \<open>strings.IndexByte(raw, '=') > 0\<close>: there is a
  separator and it is not the first byte.\<close>

definition parse_target :: "string \<Rightarrow> target result" where
  "parse_target raw =
     (case cut_char CHR ''='' raw of (before, after, found) \<Rightarrow>
        let name = (if found \<and> before \<noteq> [] then trim_space before else raw);
            address = (if found \<and> before \<noteq> [] then trim_space after else raw) in
        (case split_host_port address of
           Inl e \<Rightarrow> Inl (Wrapf (''invalid network target '' @ quote raw) e)
         | Inr (host, portValue) \<Rightarrow>
             (case atoi portValue of
                (_, Some _) \<Rightarrow> Inl (Errorf (''invalid port in network target '' @ quote raw))
              | (port, None) \<Rightarrow>
                  let kind = inferNetworkTargetType name;
                      relay = (port = 22 \<and> (kind = ''router'' \<or> kind = ''zerotier'')) in
                  Inr \<lparr>nt_name = name, nt_host = host, nt_port = port, nt_type = kind,
                       nt_details = ''Configured by WOL_NETWORK_PROBE_TARGETS'',
                       nt_ssh_host = (if relay then ''root@'' @ host else []), nt_relay = relay\<rparr>)))"

fun parse_items :: "string list \<Rightarrow> (target list) result" where
  "parse_items [] = Inr []"
| "parse_items (r # rs) =
     (if trim_space r = [] then parse_items rs
      else (case parse_target (trim_space r) of
              Inl e \<Rightarrow> Inl e
            | Inr t \<Rightarrow> (case parse_items rs of Inl e \<Rightarrow> Inl e | Inr ts \<Rightarrow> Inr (t # ts))))"

definition parseNetworkTargetsEnv :: "string \<Rightarrow> (target list) result" where
  "parseNetworkTargetsEnv value =
     (case parse_items (split_char CHR '','' value) of
        Inl e \<Rightarrow> Inl e | Inr targets \<Rightarrow> validateNetworkTargets targets)"

text \<open>\<open>read\<close> reads the file of a path (relative paths are joined to the root directory by it),
  \<open>decode\<close> is the JSON document's \<open>targets\<close>.\<close>

definition LoadNetworkTargetsWithEnv ::
  "process_env \<Rightarrow> (string \<Rightarrow> file_state) \<Rightarrow> (string \<Rightarrow> error + target list) \<Rightarrow> string list \<Rightarrow> (target list) result" where
  "LoadNetworkTargetsWithEnv penv read decode defaults =
     (let value = trim_space (EnvValue penv ''WOL_NETWORK_PROBE_TARGETS'' defaults []) in
      if value \<noteq> [] then parseNetworkTargetsEnv value
      else
        let configured = trim_space (EnvValue penv ''WOL_NETWORK_TARGETS_FILE'' defaults []);
            path = (if configured = [] then ''network-targets.json'' else configured) in
        (case read path of
           Missing \<Rightarrow> Inr []
         | Unreadable e \<Rightarrow> Inl (Wrapf ''read network targets'' e)
         | Contents s \<Rightarrow>
             (case decode s of
                Inl e \<Rightarrow> Inl (Wrapf ''parse network targets'' e)
              | Inr ts \<Rightarrow> validateNetworkTargets ts)))"

section \<open>Correctness\<close>

lemma envKeyPattern_no_eq: "envKeyPattern key \<Longrightarrow> CHR ''='' \<notin> set key"
proof -
  have "\<not> is_word_char CHR ''=''" by code_simp
  then show "envKeyPattern key \<Longrightarrow> CHR ''='' \<notin> set key"
    by (cases key) (auto simp: list_all_iff)
qed

lemma parse_line_key: "parse_line n l = Assign key value \<Longrightarrow> envKeyPattern key"
  by (auto simp: parse_line_def Let_def split: if_splits prod.splits option.splits)

text \<open>The assignments of a file, in order, that the process environment does not hide.\<close>

fun assignments :: "process_env \<Rightarrow> bool \<Rightarrow> nat \<Rightarrow> string list \<Rightarrow> (string \<times> string) list" where
  "assignments penv skip n [] = []"
| "assignments penv skip n (l # ls) =
     (case parse_line n l of
        Assign key value \<Rightarrow>
          (if skip \<and> penv key \<noteq> None then [] else [(key, value)]) @ assignments penv skip (n + 1) ls
      | _ \<Rightarrow> assignments penv skip (n + 1) ls)"

lemma load_lines_assignments:
  "load_lines penv skip n ls = Inr values \<Longrightarrow>
    values = map (\<lambda>(k, v). k @ ''='' @ v) (assignments penv skip n ls) \<and>
    (\<forall>(k, v) \<in> set (assignments penv skip n ls). envKeyPattern k \<and> (skip \<longrightarrow> penv k = None))"
proof (induction penv skip n ls arbitrary: "values" rule: load_lines.induct)
  case (2 penv skip n l ls)
  then show ?case
    by (auto split: env_line.splits if_splits sum.splits dest: parse_line_key)
qed simp

lemma prefix_key:
  assumes "CHR ''='' \<notin> set k" and "CHR ''='' \<notin> set key"
  shows "has_prefix (k @ ''='' @ v) (key @ ''='') \<longleftrightarrow> k = key"
proof
  assume "has_prefix (k @ ''='' @ v) (key @ ''='')"
  then obtain t where "k @ CHR ''='' # v = key @ CHR ''='' # t"
    by (auto simp: has_prefix_iff)
  then show "k = key" using assms by (auto simp: append_eq_append_conv2 append_eq_Cons_conv Cons_eq_append_conv)
next
  assume "k = key"
  then show "has_prefix (k @ ''='' @ v) (key @ ''='')"
    using has_prefix_append [of "key @ ''=''" v] by simp
qed

lemma env_default_map_of:
  assumes "\<forall>(k, v) \<in> set kvs. CHR ''='' \<notin> set k" and "CHR ''='' \<notin> set key"
  shows "env_default (key @ ''='') (map (\<lambda>(k, v). k @ ''='' @ v) kvs) fallback =
    (case map_of kvs key of Some v \<Rightarrow> v | None \<Rightarrow> fallback)"
  using assms(1)
proof (induction kvs)
  case (Cons kv kvs)
  obtain k v where kv: "kv = (k, v)" by fastforce
  have "has_prefix (k @ ''='' @ v) (key @ ''='') \<longleftrightarrow> k = key"
    using Cons.prems assms(2) kv by (intro prefix_key) auto
  moreover have "trim_prefix (key @ ''='' @ v) (key @ ''='') = v"
    using trim_prefix_append [of "key @ ''=''" v] by simp
  ultimately show ?case using Cons kv by auto
qed simp

lemma map_of_assignments:
  "penv key = None \<Longrightarrow>
    map_of (assignments penv skip n ls) key = map_of (assignments penv False n ls) key"
  by (induction penv skip n ls rule: assignments.induct) (auto split: env_line.splits)

text \<open>
  C25. Reading a variable: when the environment file loads, \<open>EnvValue\<close> is the process's value
  if the process has the variable, otherwise the first assignment the file makes to it,
  otherwise the fallback; and the loaded list holds no variable that the process has.
\<close>

theorem LoadEnvFile_EnvValue:
  assumes "LoadEnvFile penv (Contents text) = Inr values" and "envKeyPattern key"
  shows "EnvValue penv key values fallback =
      (case penv key of Some v \<Rightarrow> v
       | None \<Rightarrow> (case map_of (assignments penv False 1 (fst (scan_lines text))) key of
           Some v \<Rightarrow> v | None \<Rightarrow> fallback)) \<and>
    (penv key \<noteq> None \<longrightarrow> (\<forall>item \<in> set values. \<not> has_prefix item (key @ ''='')))"
proof -
  let ?a = "assignments penv True 1 (fst (scan_lines text))"
  have load: "load_lines penv True 1 (fst (scan_lines text)) = Inr values"
    using assms(1) by (auto simp: LoadEnvFile_def loadEnvFile_def split: prod.splits sum.splits if_splits)
  have vals: "values = map (\<lambda>(k, v). k @ ''='' @ v) ?a"
    and keys: "\<forall>(k, v) \<in> set ?a. envKeyPattern k \<and> penv k = None"
    using load_lines_assignments [OF load] by auto
  have no_eq: "\<forall>(k, v) \<in> set ?a. CHR ''='' \<notin> set k" and key: "CHR ''='' \<notin> set key"
    using keys assms(2) envKeyPattern_no_eq by auto
  have "EnvValue penv key values fallback =
      (case penv key of Some v \<Rightarrow> v | None \<Rightarrow> (case map_of ?a key of Some v \<Rightarrow> v | None \<Rightarrow> fallback))"
    unfolding EnvValue_def vals env_default_map_of [OF no_eq key] by simp
  also have "\<dots> = (case penv key of Some v \<Rightarrow> v
       | None \<Rightarrow> (case map_of (assignments penv False 1 (fst (scan_lines text))) key of
           Some v \<Rightarrow> v | None \<Rightarrow> fallback))"
    using map_of_assignments [of penv key True] by (cases "penv key") simp_all
  finally have "EnvValue penv key values fallback = \<dots>" .
  moreover have "\<not> has_prefix item (key @ ''='')" if pk: "penv key \<noteq> None" and iv: "item \<in> set values" for item
  proof -
    obtain k v where "(k, v) \<in> set ?a" and item: "item = k @ ''='' @ v"
      using iv by (auto simp: vals)
    with keys no_eq have "penv k = None" and "CHR ''='' \<notin> set k" by auto
    then show ?thesis using prefix_key [of k key v] key pk item by auto
  qed
  ultimately show ?thesis by blast
qed

definition sample_env :: process_env where
  "sample_env = (\<lambda>k. if k = ''PLAIN'' then Some ''from-process'' else None)"

definition sample_file :: string where
  "sample_file = join [char_of (10::nat)] [''# comment'', ''PLAIN=value'', ''export QUOTED='' @ quote ''hello world'', '''']"

theorem LoadEnvFile_EnvValue_witness:
  "EnvValue sample_env ''QUOTED'' [''QUOTED=hello world''] '''' = ''hello world'' \<and>
   LoadEnvFile sample_env (Contents sample_file) = Inr [''QUOTED=hello world'']"
proof -
  have load: "LoadEnvFile sample_env (Contents sample_file) = Inr [''QUOTED=hello world'']" by code_simp
  have "envKeyPattern ''QUOTED''" by code_simp
  from LoadEnvFile_EnvValue [OF load this, of "''''"] have
    "EnvValue sample_env ''QUOTED'' [''QUOTED=hello world''] '''' =
      (case map_of (assignments sample_env False 1 (fst (scan_lines sample_file))) ''QUOTED'' of
         Some v \<Rightarrow> v | None \<Rightarrow> '''')" by (simp add: sample_env_def)
  moreover have "map_of (assignments sample_env False 1 (fst (scan_lines sample_file))) ''QUOTED'' = Some ''hello world''"
    by code_simp
  ultimately show ?thesis using load by simp
qed

text \<open>A target as \<open>validateNetworkTargets\<close> leaves it.\<close>

definition target_ok :: "target \<Rightarrow> bool" where
  "target_ok t \<longleftrightarrow> nt_name t \<noteq> [] \<and> trim_space (nt_name t) = nt_name t \<and>
     nt_host t \<noteq> [] \<and> trim_space (nt_host t) = nt_host t \<and>
     1 \<le> nt_port t \<and> nt_port t \<le> 65535 \<and> nt_type t \<in> set target_types \<and>
     (nt_relay t \<longrightarrow> trim_space (nt_ssh_host t) \<noteq> [])"

lemma root_at_ink: "trim_space (''root@'' @ h) \<noteq> []"
  using trim_space_nonempty [of "CHR ''r''" "''oot@'' @ h"] by (simp add: ink_def ascii_def is_space_def)

lemma target_types_normal:
  "k \<in> set target_types \<Longrightarrow> to_lower (trim_space k) = k \<and> k \<noteq> []"
proof -
  have "\<forall>k \<in> set target_types. to_lower (trim_space k) = k \<and> k \<noteq> []" by code_simp
  then show "k \<in> set target_types \<Longrightarrow> to_lower (trim_space k) = k \<and> k \<noteq> []" by blast
qed

lemma validate_target_ok: "validate_target i raw = Inr t \<Longrightarrow> target_ok t"
  using root_at_ink [of "trim_space (nt_host raw)"]
  by (auto simp: validate_target_def target_ok_def Let_def split: if_splits)

lemma validate_target_fixed:
  assumes "target_ok t"
  shows "validate_target i t = Inr t"
proof -
  have "t\<lparr>nt_name := trim_space (nt_name t), nt_host := trim_space (nt_host t),
      nt_type := to_lower (trim_space (nt_type t))\<rparr> = t" and "nt_type t \<noteq> []"
    using assms target_types_normal [of "nt_type t"] by (simp_all add: target_ok_def)
  then show ?thesis
    using assms unfolding validate_target_def target_ok_def Let_def by auto
qed

lemma validate_targets_Cons:
  "validate_targets i seen (raw # raws) = Inr ts \<longleftrightarrow>
    (\<exists>t ts'. validate_target i raw = Inr t \<and> target_key t \<notin> set seen \<and>
       validate_targets (i + 1) (target_key t # seen) raws = Inr ts' \<and> ts = t # ts')"
  by (auto split: sum.splits)

lemma validate_targets_ok:
  "validate_targets i seen raws = Inr ts \<Longrightarrow>
    length ts = length raws \<and> list_all target_ok ts \<and> distinct (map target_key ts) \<and>
    set (map target_key ts) \<inter> set seen = {}"
proof (induction raws arbitrary: i seen ts)
  case (Cons raw raws)
  then obtain t ts' where "validate_target i raw = Inr t" "target_key t \<notin> set seen"
    "validate_targets (i + 1) (target_key t # seen) raws = Inr ts'" "ts = t # ts'"
    unfolding validate_targets_Cons by blast
  with Cons.IH [of "i + 1" "target_key t # seen" ts'] validate_target_ok [of i raw t]
  show ?case by auto
qed simp

lemma validate_targets_fixed:
  "list_all target_ok ts \<Longrightarrow> distinct (map target_key ts) \<Longrightarrow>
    set (map target_key ts) \<inter> set seen = {} \<Longrightarrow> validate_targets i seen ts = Inr ts"
  by (induction ts arbitrary: i seen) (auto simp: validate_target_fixed)

text \<open>
  What \<open>validateNetworkTargets\<close> accepts: every target comes back, in its place, with a
  name and a host without surrounding spaces, a TCP port, one of the four known types and, for
  a relay, an SSH host; no two targets have one address; and validating the result again
  changes nothing.
\<close>

theorem validateNetworkTargets_normal_form:
  assumes "validateNetworkTargets raws = Inr ts"
  shows "length ts = length raws \<and> list_all target_ok ts \<and> distinct (map target_key ts) \<and>
    validateNetworkTargets ts = Inr ts"
  using validate_targets_ok [OF assms [unfolded validateNetworkTargets_def]]
    validate_targets_fixed [of ts "[]" 0]
  by (simp add: validateNetworkTargets_def)

definition sample_target :: target where
  "sample_target = \<lparr>nt_name = '' lan gateway '', nt_host = ''192.168.50.1'', nt_port = 22, nt_type = '''',
     nt_details = '''', nt_ssh_host = '''', nt_relay = True\<rparr>"

theorem validateNetworkTargets_normal_form_witness:
  "\<exists>t. validateNetworkTargets [sample_target] = Inr [t] \<and> nt_type t = ''router'' \<and>
     nt_ssh_host t = ''root@192.168.50.1'' \<and> validateNetworkTargets [t] = Inr [t]"
proof -
  let ?t = "sample_target\<lparr>nt_name := ''lan gateway'', nt_type := ''router'', nt_ssh_host := ''root@192.168.50.1''\<rparr>"
  have *: "validateNetworkTargets [sample_target] = Inr [?t]" by code_simp
  from validateNetworkTargets_normal_form [OF *] have "validateNetworkTargets [?t] = Inr [?t]" by simp
  with * show ?thesis by (intro exI [of _ ?t]) simp
qed

end
