(* ===== verification/Tables.thy ===== *)
theory Tables
  imports GoBase
begin

text \<open>
  Rows of one SQL table and the statements the store runs on them. A table is the list of its
  rows in rowid order. The values of its PRIMARY KEY and UNIQUE columns are listed by a key
  function; two rows clash when they agree in one of these columns. An INSERT or UPDATE that
  would leave a clash fails with \<open>None\<close> and changes nothing.

  The locale \<open>table\<close> is the contract of a table with an identifying column: what a lookup
  finds after an insert, an update or a delete. It is interpreted for every table of the
  store in the theory that declares the rows.
\<close>

fun clash :: "'c list \<Rightarrow> 'c list \<Rightarrow> bool" where
  "clash (x # xs) (y # ys) = (x = y \<or> clash xs ys)"
| "clash _ _ = False"

definition uniq :: "('r \<Rightarrow> 'c list) \<Rightarrow> 'r list \<Rightarrow> bool" where
  "uniq keys rows = sorted_wrt (\<lambda>a b. \<not> clash (keys a) (keys b)) rows"

definition insert_row :: "('r \<Rightarrow> 'c list) \<Rightarrow> 'r \<Rightarrow> 'r list \<Rightarrow> 'r list option" where
  "insert_row keys r rows =
     (if \<exists>x \<in> set rows. clash (keys x) (keys r) then None else Some (rows @ [r]))"

definition update_rows :: "('r \<Rightarrow> 'c list) \<Rightarrow> ('r \<Rightarrow> bool) \<Rightarrow> ('r \<Rightarrow> 'r) \<Rightarrow> 'r list \<Rightarrow> 'r list option" where
  "update_rows keys P f rows =
     (let rows' = map (\<lambda>r. if P r then f r else r) rows in
      if uniq keys rows' then Some rows' else None)"

definition delete_rows :: "('r \<Rightarrow> bool) \<Rightarrow> 'r list \<Rightarrow> 'r list" where
  "delete_rows P rows = filter (\<lambda>r. \<not> P r) rows"

definition count_rows :: "('r \<Rightarrow> bool) \<Rightarrow> 'r list \<Rightarrow> nat" where
  "count_rows P rows = length (filter P rows)"

definition find_row :: "('r \<Rightarrow> 'k) \<Rightarrow> 'k \<Rightarrow> 'r list \<Rightarrow> 'r option" where
  "find_row ident k rows = find (\<lambda>r. ident r = k) rows"

lemma clash_sym: "clash xs ys = clash ys xs"
  by (induction xs ys rule: clash.induct) auto

lemma uniq_Nil [simp]: "uniq keys []"
  by (simp add: uniq_def)

lemma uniq_insert: "uniq keys rows \<Longrightarrow> insert_row keys r rows = Some rows' \<Longrightarrow> uniq keys rows'"
  by (auto simp: uniq_def insert_row_def sorted_wrt_append split: if_splits)

lemma uniq_update: "update_rows keys P f rows = Some rows' \<Longrightarrow> uniq keys rows'"
  by (auto simp: update_rows_def Let_def split: if_splits)

lemma uniq_delete: "uniq keys rows \<Longrightarrow> uniq keys (delete_rows P rows)"
  by (simp add: uniq_def delete_rows_def sorted_wrt_filter)

lemma set_insert_row: "insert_row keys r rows = Some rows' \<Longrightarrow> set rows' = insert r (set rows)"
  by (auto simp: insert_row_def split: if_splits)

lemma set_update_rows:
  "update_rows keys P f rows = Some rows' \<Longrightarrow> set rows' = (\<lambda>r. if P r then f r else r) ` set rows"
  by (auto simp: update_rows_def Let_def split: if_splits)

lemma length_update_rows: "update_rows keys P f rows = Some rows' \<Longrightarrow> length rows' = length rows"
  by (auto simp: update_rows_def Let_def split: if_splits)

lemma set_delete_rows [simp]: "set (delete_rows P rows) = {r \<in> set rows. \<not> P r}"
  by (auto simp: delete_rows_def)

lemma count_rows_0: "count_rows P rows = 0 \<longleftrightarrow> (\<forall>r \<in> set rows. \<not> P r)"
  by (auto simp: count_rows_def filter_empty_conv)

lemma find_row_Some: "find_row ident k rows = Some r \<Longrightarrow> r \<in> set rows \<and> ident r = k"
  by (auto simp: find_row_def find_Some_iff)

lemma find_row_None: "find_row ident k rows = None \<longleftrightarrow> (\<forall>r \<in> set rows. ident r \<noteq> k)"
  by (auto simp: find_row_def find_None_iff)

lemma find_row_map:
  assumes "\<And>r. ident (f r) = ident r"
  shows "find_row ident k (map f rows) = map_option f (find_row ident k rows)"
  by (induction rows) (simp_all add: find_row_def assms)

text \<open>An update that keeps every key column cannot fail.\<close>

lemma uniq_map:
  assumes "\<And>r. keys (g r) = keys r"
  shows "uniq keys (map g rows) = uniq keys rows"
  by (simp add: uniq_def sorted_wrt_map assms)

lemma update_rows_keep:
  assumes "uniq keys rows" and "\<And>r. P r \<Longrightarrow> keys (f r) = keys r"
  shows "update_rows keys P f rows = Some (map (\<lambda>r. if P r then f r else r) rows)"
  using assms by (simp add: update_rows_def Let_def uniq_map)

locale table =
  fixes ident :: "'r \<Rightarrow> 'k"
    and keys :: "'r \<Rightarrow> 'c list"
  assumes ident_clash: "ident a = ident b \<Longrightarrow> clash (keys a) (keys b)"
begin

lemma find_member:
  assumes "uniq keys rows" and "r \<in> set rows"
  shows "find_row ident (ident r) rows = Some r"
  using assms
proof (induction rows)
  case (Cons x xs)
  have "\<not> clash (keys x) (keys r)" if "r \<in> set xs"
    using Cons.prems(1) that by (simp add: uniq_def)
  then have "r \<in> set xs \<Longrightarrow> ident x \<noteq> ident r"
    using ident_clash by blast
  with Cons show ?case by (auto simp: find_row_def uniq_def)
qed simp

lemma ident_unique:
  assumes "uniq keys rows" and "a \<in> set rows" and "b \<in> set rows" and "ident a = ident b"
  shows "a = b"
  using find_member [OF assms(1,2)] find_member [OF assms(1,3)] assms(4)
  by (metis option.inject)

lemma find_insert:
  assumes "insert_row keys r rows = Some rows'"
  shows "find_row ident k rows' = (if k = ident r then Some r else find_row ident k rows)"
proof -
  have rows': "rows' = rows @ [r]" and "\<forall>x \<in> set rows. \<not> clash (keys x) (keys r)"
    using assms by (auto simp: insert_row_def split: if_splits)
  then have "find_row ident (ident r) rows = None"
    using ident_clash by (auto simp: find_row_None)
  then have "find (\<lambda>x. ident x = ident r) rows = None"
    by (simp add: find_row_def)
  moreover have "find P (xs @ [y]) = (case find P xs of None \<Rightarrow> if P y then Some y else None | Some z \<Rightarrow> Some z)"
    for P and xs :: "'r list" and y
    by (induction xs) auto
  ultimately show ?thesis
    by (auto simp: rows' find_row_def split: option.splits)
qed

lemma find_update:
  assumes "update_rows keys (\<lambda>r. ident r = k) f rows = Some rows'"
    and "\<And>r. ident (f r) = ident r"
  shows "find_row ident j rows' =
    (if j = k then map_option f (find_row ident k rows) else find_row ident j rows)"
proof -
  have "rows' = map (\<lambda>r. if ident r = k then f r else r) rows"
    using assms(1) by (auto simp: update_rows_def Let_def split: if_splits)
  then show ?thesis
    by (induction rows arbitrary: rows') (auto simp: find_row_def assms(2))
qed

lemma find_delete:
  "find_row ident j (delete_rows (\<lambda>r. ident r = k) rows) =
    (if j = k then None else find_row ident j rows)"
  by (induction rows) (auto simp: find_row_def delete_rows_def)

lemma count_ident: "uniq keys rows \<Longrightarrow> count_rows (\<lambda>r. ident r = k) rows \<le> 1"
proof (induction rows)
  case (Cons x xs)
  have "count_rows (\<lambda>r. ident r = k) xs = 0" if "ident x = k"
    using Cons.prems that ident_clash [of x] by (auto simp: count_rows_0 uniq_def)
  with Cons show ?case by (auto simp: count_rows_def uniq_def)
qed (simp add: count_rows_def)

end

end
