(* ===== verification/StoreData.thy ===== *)
theory StoreData
  imports Tables
begin

text \<open>
  The rows and tables of the inventory database (\<open>internal/store/store.go\<close>,
  \<open>relay.go\<close>, \<open>remote_profile.go\<close>, \<open>power_profile.go\<close>). A Go struct is a record whose
  field names carry the struct's initials. The 0/1 column \<open>enabled\<close> is kept as the boolean
  the code writes with \<open>boolInt\<close> and reads with \<open>== 1\<close>. Foreign keys are declared in the
  schema but not enforced: \<open>sqliteDSN\<close> never turns on the \<open>foreign_keys\<close> pragma, which
  SQLite leaves off by default.
\<close>

section \<open>Structs\<close>

record site =
  s_id :: string
  s_name :: string
  s_subnet :: string
  s_broadcast :: string
  s_port :: int
  s_interface :: string
  s_relay_id :: string
  s_timeout_ms :: int
  s_concurrency :: int
  s_created :: string
  s_updated :: string

record device =
  d_id :: string
  d_name :: string
  d_mac :: string
  d_ip :: string
  d_broadcast :: string
  d_port :: int
  d_interface :: string
  d_site_id :: string
  d_type :: string
  d_platform :: string
  d_strategy :: string
  d_relay_id :: string
  d_verify_port :: int
  d_description :: string
  d_enabled :: bool
  d_created :: string
  d_updated :: string

record group =
  g_id :: string
  g_name :: string
  g_description :: string
  g_device_ids :: "string list"
  g_created :: string
  g_updated :: string

record wake_relay =
  r_id :: string
  r_name :: string
  r_address :: string
  r_port :: int
  r_transport :: string
  r_interface :: string
  r_ssh_user :: string
  r_secret_hash :: string
  r_enabled :: bool
  r_created :: string
  r_updated :: string

record remote_profile =
  rp_id :: string
  rp_device_id :: string
  rp_protocol :: string
  rp_host :: string
  rp_port :: int
  rp_verify_port :: int
  rp_username :: string
  rp_domain :: string
  rp_cert_policy :: string
  rp_mode :: string
  rp_app :: string
  rp_fps :: int
  rp_resolution :: string
  rp_bitrate :: int
  rp_enabled :: bool
  rp_created :: string
  rp_updated :: string

record power_profile =
  pp_id :: string
  pp_device_id :: string
  pp_ssh_user :: string
  pp_ssh_port :: int
  pp_ssh_key :: string
  pp_platform :: string
  pp_use_sudo :: bool
  pp_enabled :: bool
  pp_created :: string
  pp_updated :: string

record wake_attempt =
  wa_id :: string
  wa_target_type :: string
  wa_target_id :: string
  wa_target_name :: string
  wa_mac :: string
  wa_destination :: string
  wa_port :: int
  wa_packet_status :: string
  wa_verification :: string
  wa_message :: string
  wa_packets :: int
  wa_created :: string

record power_attempt =
  pa_id :: string
  pa_device_id :: string
  pa_device_name :: string
  pa_action :: string
  pa_delay :: int
  pa_status :: string
  pa_message :: string
  pa_created :: string

text \<open>A row of \<open>groups_table\<close> has no device list; the members are rows of their own.\<close>

record member_row =
  m_group :: string
  m_device :: string
  m_position :: int

section \<open>Schema\<close>

record db =
  t_sites :: "site list"
  t_devices :: "device list"
  t_groups :: "group list"
  t_members :: "member_row list"
  t_wakes :: "wake_attempt list"
  t_relays :: "wake_relay list"
  t_profiles :: "remote_profile list"
  t_power :: "power_profile list"
  t_powers :: "power_attempt list"

text \<open>PRIMARY KEY and UNIQUE columns of each table.\<close>

definition site_keys :: "site \<Rightarrow> string list" where
  "site_keys r = [s_id r, s_name r]"

definition device_keys :: "device \<Rightarrow> string list" where
  "device_keys r = [d_id r, d_name r, d_mac r]"

definition group_keys :: "group \<Rightarrow> string list" where
  "group_keys r = [g_id r, g_name r]"

definition member_keys :: "member_row \<Rightarrow> (string \<times> string) list" where
  "member_keys r = [(m_group r, m_device r)]"

definition wake_keys :: "wake_attempt \<Rightarrow> string list" where
  "wake_keys r = [wa_id r]"

definition relay_keys :: "wake_relay \<Rightarrow> string list" where
  "relay_keys r = [r_id r, r_name r]"

definition profile_keys :: "remote_profile \<Rightarrow> string list" where
  "profile_keys r = [rp_id r, rp_device_id r]"

definition power_keys :: "power_profile \<Rightarrow> string list" where
  "power_keys r = [pp_id r, pp_device_id r]"

definition power_attempt_keys :: "power_attempt \<Rightarrow> string list" where
  "power_attempt_keys r = [pa_id r]"

lemmas key_defs = site_keys_def device_keys_def group_keys_def member_keys_def wake_keys_def
  relay_keys_def profile_keys_def power_keys_def power_attempt_keys_def

definition empty_db :: db where
  "empty_db = \<lparr>t_sites = [], t_devices = [], t_groups = [], t_members = [], t_wakes = [],
     t_relays = [], t_profiles = [], t_power = [], t_powers = []\<rparr>"

definition schema_ok :: "db \<Rightarrow> bool" where
  "schema_ok d \<longleftrightarrow>
     uniq site_keys (t_sites d) \<and> uniq device_keys (t_devices d) \<and>
     uniq group_keys (t_groups d) \<and> uniq member_keys (t_members d) \<and>
     uniq wake_keys (t_wakes d) \<and> uniq relay_keys (t_relays d) \<and>
     uniq profile_keys (t_profiles d) \<and> uniq power_keys (t_power d) \<and>
     uniq power_attempt_keys (t_powers d)"

lemma schema_ok_empty: "schema_ok empty_db"
  by (simp add: schema_ok_def empty_db_def)

section \<open>The tables meet their contract\<close>

interpretation sites: table s_id site_keys
  by unfold_locales (simp add: site_keys_def)

interpretation devices: table d_id device_keys
  by unfold_locales (simp add: device_keys_def)

interpretation groups: table g_id group_keys
  by unfold_locales (simp add: group_keys_def)

interpretation relays: table r_id relay_keys
  by unfold_locales (simp add: relay_keys_def)

interpretation profiles: table rp_device_id profile_keys
  by unfold_locales (simp add: profile_keys_def)

interpretation power: table pp_device_id power_keys
  by unfold_locales (simp add: power_keys_def)

interpretation members: table "\<lambda>r. (m_group r, m_device r)" member_keys
  by unfold_locales (simp add: member_keys_def)

end
