(* ===== verification/StoreMonad.thy ===== *)
theory StoreMonad
  imports StoreData "HOL-Library.Product_Lexorder"
begin

text \<open>
  The effects of a store operation: SQL statements that the driver may fail, the clock, the
  random suffixes of new IDs, and transactions. An operation takes the world and returns its
  result with the world after it. \<open>faults n\<close> is the driver's failure of the n-th effect, if
  it fails; the theorems hold for every such schedule unless they say that no effect fails.
  The store owns one connection (\<open>SetMaxOpenConns(1)\<close>), so statements never interleave.
\<close>

record world =
  wdb :: db
  tick :: nat
  faults :: "nat \<Rightarrow> string option"
  clock :: "nat \<Rightarrow> int"
  entropy :: "nat \<Rightarrow> byte list"
  timefmt :: "int \<Rightarrow> string"

type_synonym 'a m = "world \<Rightarrow> 'a result \<times> world"

section \<open>Sequencing\<close>

definition ret :: "'a \<Rightarrow> 'a m" where
  "ret x w = (Inr x, w)"

definition fail :: "error \<Rightarrow> 'a m" where
  "fail e w = (Inl e, w)"

definition lift :: "'a result \<Rightarrow> 'a m" where
  "lift r w = (r, w)"

definition andThen :: "'a m \<Rightarrow> ('a \<Rightarrow> 'b m) \<Rightarrow> 'b m" where
  "andThen p f w = (case p w of (Inl e, w') \<Rightarrow> (Inl e, w') | (Inr x, w') \<Rightarrow> f x w')"

text \<open>Run an operation and look at its error: \<open>if err != nil\<close>.\<close>

definition attempt :: "'a m \<Rightarrow> ('a result) m" where
  "attempt p w = (case p w of (r, w') \<Rightarrow> (Inr r, w'))"

definition map_error :: "(error \<Rightarrow> error) \<Rightarrow> 'a m \<Rightarrow> 'a m" where
  "map_error h p w = (case p w of (Inl e, w') \<Rightarrow> (Inl (h e), w') | (Inr x, w') \<Rightarrow> (Inr x, w'))"

fun for_each :: "('x \<Rightarrow> 's \<Rightarrow> 's m) \<Rightarrow> 'x list \<Rightarrow> 's \<Rightarrow> 's m" where
  "for_each body [] s = ret s"
| "for_each body (x # xs) s = andThen (body x s) (for_each body xs)"

section \<open>Statements, clock and identifiers\<close>

definition bump :: "world \<Rightarrow> world" where
  "bump w = w\<lparr>tick := Suc (tick w)\<rparr>"

definition stmt :: "(db \<Rightarrow> error + ('a \<times> db)) \<Rightarrow> 'a m" where
  "stmt f w =
     (case faults w (tick w) of
        Some msg \<Rightarrow> (Inl (DBError msg), bump w)
      | None \<Rightarrow> (case f (wdb w) of
            Inl e \<Rightarrow> (Inl e, bump w)
          | Inr (x, d) \<Rightarrow> (Inr x, (bump w)\<lparr>wdb := d\<rparr>)))"

definition query :: "(db \<Rightarrow> 'a) \<Rightarrow> 'a m" where
  "query f = stmt (\<lambda>d. Inr (f d, d))"

definition unique_error :: error where
  "unique_error = DBError ''constraint failed: UNIQUE constraint failed''"

text \<open>INSERT, UPDATE and DELETE on one table; \<open>get\<close> and \<open>put\<close> select the table. UPDATE and
  DELETE return \<open>RowsAffected\<close>.\<close>

definition exec_insert ::
  "(db \<Rightarrow> 'r list) \<Rightarrow> ('r list \<Rightarrow> db \<Rightarrow> db) \<Rightarrow> ('r \<Rightarrow> 'c list) \<Rightarrow> 'r \<Rightarrow> unit m" where
  "exec_insert get put keys r = stmt (\<lambda>d.
     case insert_row keys r (get d) of None \<Rightarrow> Inl unique_error | Some rows \<Rightarrow> Inr ((), put rows d))"

definition exec_update ::
  "(db \<Rightarrow> 'r list) \<Rightarrow> ('r list \<Rightarrow> db \<Rightarrow> db) \<Rightarrow> ('r \<Rightarrow> 'c list) \<Rightarrow> ('r \<Rightarrow> bool) \<Rightarrow> ('r \<Rightarrow> 'r) \<Rightarrow> nat m" where
  "exec_update get put keys P f = stmt (\<lambda>d.
     case update_rows keys P f (get d) of
       None \<Rightarrow> Inl unique_error
     | Some rows \<Rightarrow> Inr (count_rows P (get d), put rows d))"

definition exec_delete ::
  "(db \<Rightarrow> 'r list) \<Rightarrow> ('r list \<Rightarrow> db \<Rightarrow> db) \<Rightarrow> ('r \<Rightarrow> bool) \<Rightarrow> nat m" where
  "exec_delete get put P = stmt (\<lambda>d. Inr (count_rows P (get d), put (delete_rows P (get d)) d))"

text \<open>\<open>time.Now().UTC().Format(time.RFC3339Nano)\<close>.\<close>

definition now :: "string m" where
  "now w = (Inr (timefmt w (clock w (tick w))), bump w)"

text \<open>\<open>newID\<close>: the prefix, the clock in nanoseconds and eight random bytes in hex.\<close>

definition newID :: "string \<Rightarrow> string m" where
  "newID prefix w =
     (Inr (prefix @ ''_'' @ itoa (clock w (tick w)) @ ''_'' @ hex_encode (entropy w (tick w))), bump w)"

text \<open>\<open>normalizeDBError\<close>.\<close>

definition normalizeDBError :: "error \<Rightarrow> error" where
  "normalizeDBError e =
     (let message = to_lower (error_text e) in
      if contains message ''unique'' \<or> contains message ''constraint''
      then Errorf ''record conflicts with an existing item'' else e)"

section \<open>Transactions\<close>

text \<open>The body of a transaction ends in \<open>tx.Commit()\<close> or returns early and leaves the
  deferred \<open>tx.Rollback()\<close> to undo its statements. BEGIN and COMMIT can fail.\<close>

datatype 'a tx_end = Commit 'a | Rollback 'a

definition tx :: "'a tx_end m \<Rightarrow> 'a m" where
  "tx body w =
     (case stmt (\<lambda>d. Inr ((), d)) w of
        (Inl e, w1) \<Rightarrow> (Inl e, w1)
      | (Inr _, w1) \<Rightarrow>
          (case body w1 of
             (Inl e, w2) \<Rightarrow> (Inl e, w2\<lparr>wdb := wdb w\<rparr>)
           | (Inr (Rollback x), w2) \<Rightarrow> (Inr x, w2\<lparr>wdb := wdb w\<rparr>)
           | (Inr (Commit x), w2) \<Rightarrow>
               (case stmt (\<lambda>d. Inr ((), d)) w2 of
                  (Inl e, w3) \<Rightarrow> (Inl e, w3\<lparr>wdb := wdb w\<rparr>)
                | (Inr _, w3) \<Rightarrow> (Inr x, w3))))"

section \<open>Reasoning about operations\<close>

text \<open>\<open>pres I p\<close>: the operation keeps the database property \<open>I\<close>, whatever it returns.\<close>

definition pres :: "(db \<Rightarrow> bool) \<Rightarrow> 'a m \<Rightarrow> bool" where
  "pres I p \<longleftrightarrow> (\<forall>w. I (wdb w) \<longrightarrow> I (wdb (snd (p w))))"

text \<open>\<open>triple P p Q\<close>: from a database with \<open>P\<close>, a successful run ends with \<open>Q\<close>.\<close>

definition triple :: "(db \<Rightarrow> bool) \<Rightarrow> 'a m \<Rightarrow> ('a \<Rightarrow> db \<Rightarrow> bool) \<Rightarrow> bool" where
  "triple P p Q \<longleftrightarrow> (\<forall>w x w'. P (wdb w) \<longrightarrow> p w = (Inr x, w') \<longrightarrow> Q x (wdb w'))"

text \<open>\<open>atomic p\<close>: when the operation returns an error the database is what it was.\<close>

definition atomic :: "'a m \<Rightarrow> bool" where
  "atomic p \<longleftrightarrow> (\<forall>w e w'. p w = (Inl e, w') \<longrightarrow> wdb w' = wdb w)"

text \<open>\<open>readonly p\<close>: the operation never changes the database.\<close>

definition readonly :: "'a m \<Rightarrow> bool" where
  "readonly p \<longleftrightarrow> (\<forall>w. wdb (snd (p w)) = wdb w)"

lemma wdb_bump [simp]: "wdb (bump w) = wdb w"
  by (simp add: bump_def)

lemma faults_bump [simp]: "faults (bump w) = faults w"
  by (simp add: bump_def)

lemma presI: "(\<And>w. I (wdb w) \<Longrightarrow> I (wdb (snd (p w)))) \<Longrightarrow> pres I p"
  by (simp add: pres_def)

lemma presD: "pres I p \<Longrightarrow> I (wdb w) \<Longrightarrow> p w = (r, w') \<Longrightarrow> I (wdb w')"
  by (metis pres_def snd_conv)

lemma pres_ret [pres_intros]: "pres I (ret x)"
  by (simp add: pres_def ret_def)

lemma pres_fail [pres_intros]: "pres I (fail e)"
  by (simp add: pres_def fail_def)

lemma pres_lift [pres_intros]: "pres I (lift r)"
  by (simp add: pres_def lift_def)

lemma pres_now [pres_intros]: "pres I now"
  by (simp add: pres_def now_def)

lemma pres_newID [pres_intros]: "pres I (newID p)"
  by (simp add: pres_def newID_def)

lemma pres_andThen [pres_intros]: "pres I p \<Longrightarrow> (\<And>x. pres I (f x)) \<Longrightarrow> pres I (andThen p f)"
  by (auto simp: pres_def andThen_def split: prod.splits sum.splits)

lemma pres_attempt [pres_intros]: "pres I p \<Longrightarrow> pres I (attempt p)"
  by (auto simp: pres_def attempt_def split: prod.splits)

lemma pres_map_error [pres_intros]: "pres I p \<Longrightarrow> pres I (map_error h p)"
  by (auto simp: pres_def map_error_def split: prod.splits sum.splits)

lemma pres_for_each [pres_intros]: "(\<And>x s. pres I (body x s)) \<Longrightarrow> pres I (for_each body xs s)"
  by (induction xs arbitrary: s) (auto intro: pres_intros)

lemma pres_if [pres_intros]: "(b \<Longrightarrow> pres I p) \<Longrightarrow> (\<not> b \<Longrightarrow> pres I q) \<Longrightarrow> pres I (if b then p else q)"
  by simp

lemma pres_option [pres_intros]:
  "(x = None \<Longrightarrow> pres I p) \<Longrightarrow> (\<And>y. x = Some y \<Longrightarrow> pres I (f y)) \<Longrightarrow>
    pres I (case x of None \<Rightarrow> p | Some y \<Rightarrow> f y)"
  by (cases x) auto

lemma pres_sum [pres_intros]:
  "(\<And>e. x = Inl e \<Longrightarrow> pres I (g e)) \<Longrightarrow> (\<And>y. x = Inr y \<Longrightarrow> pres I (f y)) \<Longrightarrow>
    pres I (case x of Inl e \<Rightarrow> g e | Inr y \<Rightarrow> f y)"
  by (cases x) auto

lemma pres_stmt:
  assumes "\<And>d x d'. I d \<Longrightarrow> f d = Inr (x, d') \<Longrightarrow> I d'"
  shows "pres I (stmt f)"
  using assms by (auto simp: pres_def stmt_def split: option.splits sum.splits)

lemma pres_query [pres_intros]: "pres I (query f)"
  by (auto simp: query_def intro: pres_stmt)

lemma pres_exec_insert:
  "(\<And>d rows. I d \<Longrightarrow> insert_row keys r (get d) = Some rows \<Longrightarrow> I (put rows d)) \<Longrightarrow>
    pres I (exec_insert get put keys r)"
  unfolding exec_insert_def by (rule pres_stmt) (auto split: option.splits)

lemma pres_exec_update:
  "(\<And>d rows. I d \<Longrightarrow> update_rows keys P f (get d) = Some rows \<Longrightarrow> I (put rows d)) \<Longrightarrow>
    pres I (exec_update get put keys P f)"
  unfolding exec_update_def by (rule pres_stmt) (auto split: option.splits)

lemma pres_exec_delete:
  "(\<And>d. I d \<Longrightarrow> I (put (delete_rows P (get d)) d)) \<Longrightarrow> pres I (exec_delete get put P)"
  unfolding exec_delete_def by (rule pres_stmt) auto

lemma pres_begin: "pres I (stmt (\<lambda>d. Inr ((), d)))"
  by (rule pres_stmt) auto

lemma pres_tx [pres_intros]:
  assumes "pres I body"
  shows "pres I (tx body)"
proof (rule presI)
  fix w :: world
  assume I: "I (wdb w)"
  show "I (wdb (snd (tx body w)))"
    using I assms pres_begin [of I]
    unfolding tx_def
    by (auto split: prod.splits sum.splits tx_end.splits dest: presD)
qed

text \<open>Errors undo everything inside a transaction.\<close>

lemma stmt_error_db: "stmt f w = (Inl e, w') \<Longrightarrow> wdb w' = wdb w"
  by (auto simp: stmt_def split: option.splits sum.splits)

lemma atomic_tx: "atomic (tx body)"
  by (auto simp: atomic_def tx_def split: prod.splits sum.splits tx_end.splits dest: stmt_error_db)

lemma atomic_stmt: "atomic (stmt f)"
  by (auto simp: atomic_def dest: stmt_error_db)

lemma readonly_atomic: "readonly p \<Longrightarrow> atomic p"
  by (metis atomic_def readonly_def snd_conv)

lemma readonly_query [simp]: "readonly (query f)"
  by (auto simp: readonly_def query_def stmt_def split: option.splits)

lemma readonly_now [simp]: "readonly now"
  by (simp add: readonly_def now_def)

lemma readonly_newID [simp]: "readonly (newID p)"
  by (simp add: readonly_def newID_def)

lemma readonly_lift [simp]: "readonly (lift r)"
  by (simp add: readonly_def lift_def)

lemma readonly_ret [simp]: "readonly (ret x)"
  by (simp add: readonly_def ret_def)

lemma readonly_fail [simp]: "readonly (fail e)"
  by (simp add: readonly_def fail_def)

lemma readonly_andThen: "readonly p \<Longrightarrow> (\<And>x. readonly (f x)) \<Longrightarrow> readonly (andThen p f)"
  by (auto simp: readonly_def andThen_def split: prod.splits sum.splits) (metis snd_conv)+

lemma readonly_map_error: "readonly p \<Longrightarrow> readonly (map_error h p)"
  by (auto simp: readonly_def map_error_def split: prod.splits sum.splits) (metis snd_conv)+

lemma readonly_attempt: "readonly p \<Longrightarrow> readonly (attempt p)"
  by (auto simp: readonly_def attempt_def split: prod.splits) (metis snd_conv)

text \<open>An operation is atomic when only its last effect changes the database.\<close>

lemma atomic_andThen: "readonly p \<Longrightarrow> (\<And>x. atomic (f x)) \<Longrightarrow> atomic (andThen p f)"
  by (auto simp: readonly_def atomic_def andThen_def split: prod.splits sum.splits) (metis snd_conv)+

lemma atomic_then_ret: "atomic p \<Longrightarrow> atomic (andThen p (\<lambda>x. ret (g x)))"
  by (auto simp: atomic_def andThen_def ret_def split: prod.splits sum.splits)

lemma atomic_map_error: "atomic p \<Longrightarrow> atomic (map_error h p)"
  by (auto simp: atomic_def map_error_def split: prod.splits sum.splits)

lemma atomic_exec_insert: "atomic (exec_insert get put keys r)"
  by (simp add: exec_insert_def atomic_stmt)

lemma atomic_exec_update: "atomic (exec_update get put keys P f)"
  by (simp add: exec_update_def atomic_stmt)

lemma atomic_exec_delete: "atomic (exec_delete get put P)"
  by (simp add: exec_delete_def atomic_stmt)

lemma andThen_Inr:
  "andThen p f w = (Inr y, w') \<longleftrightarrow> (\<exists>x w1. p w = (Inr x, w1) \<and> f x w1 = (Inr y, w'))"
  by (auto simp: andThen_def split: prod.splits sum.splits)

lemma map_error_Inr: "map_error h p w = (Inr x, w') \<longleftrightarrow> p w = (Inr x, w')"
  by (auto simp: map_error_def split: prod.splits sum.splits)

text \<open>A transaction that returns a value either committed its body's last state or left the
  database alone.\<close>

lemma tx_Inr:
  assumes "tx body w = (Inr x, w')"
  obtains (commit) w1 w2 where "wdb w1 = wdb w" and "body w1 = (Inr (Commit x), w2)" and "wdb w' = wdb w2"
  | (rollback) w1 w2 where "wdb w1 = wdb w" and "body w1 = (Inr (Rollback x), w2)" and "wdb w' = wdb w"
proof -
  have keep: "wdb w2 = wdb w1" if "stmt (\<lambda>d. Inr ((), d)) w1 = (r, w2)" for w1 w2 r
    using that by (auto simp: stmt_def split: option.splits)
  obtain r1 w1 where 1: "stmt (\<lambda>d. Inr ((), d)) w = (r1, w1)" by fastforce
  obtain r2 w2 where 2: "body w1 = (r2, w2)" by fastforce
  obtain r3 w3 where 3: "stmt (\<lambda>d. Inr ((), d)) w2 = (r3, w3)" by fastforce
  show thesis
    using assms keep [OF 1] keep [OF 3] 2 commit [of w1 w2] rollback [of w1 w2]
    by (auto simp: tx_def 1 2 3 split: sum.splits tx_end.splits)
qed

lemma ret_Inr: "ret x w = (Inr y, w') \<longleftrightarrow> x = y \<and> w = w'"
  by (simp add: ret_def)

lemma fail_Inr [simp]: "fail e w \<noteq> (Inr y, w')"
  by (simp add: fail_def)

lemma lift_Inr: "lift r w = (Inr x, w') \<longleftrightarrow> r = Inr x \<and> w = w'"
  by (auto simp: lift_def)

lemma now_db: "now w = (r, w') \<Longrightarrow> wdb w' = wdb w"
  by (auto simp: now_def)

lemma newID_db: "newID p w = (r, w') \<Longrightarrow> wdb w' = wdb w"
  by (auto simp: newID_def)

lemma query_Inr: "query f w = (Inr x, w') \<Longrightarrow> x = f (wdb w) \<and> wdb w' = wdb w"
  by (auto simp: query_def stmt_def split: option.splits)

lemma exec_delete_Inr:
  "exec_delete get put C w = (Inr n, w') \<Longrightarrow>
    n = count_rows C (get (wdb w)) \<and> wdb w' = put (delete_rows C (get (wdb w))) (wdb w)"
  by (auto simp: exec_delete_def stmt_def split: option.splits)

lemma exec_update_Inr:
  "exec_update get put keys C f w = (Inr n, w') \<Longrightarrow> n = count_rows C (get (wdb w)) \<and>
    (\<exists>rows. update_rows keys C f (get (wdb w)) = Some rows \<and> wdb w' = put rows (wdb w))"
  by (auto simp: exec_update_def stmt_def split: option.splits)

lemma exec_insert_Inr:
  "exec_insert get put keys r w = (Inr u, w') \<Longrightarrow>
    \<exists>rows. insert_row keys r (get (wdb w)) = Some rows \<and> wdb w' = put rows (wdb w)"
  by (auto simp: exec_insert_def stmt_def split: option.splits)

lemmas run_Inr = andThen_Inr map_error_Inr ret_Inr lift_Inr

lemma tripleI: "(\<And>w x w'. P (wdb w) \<Longrightarrow> p w = (Inr x, w') \<Longrightarrow> Q x (wdb w')) \<Longrightarrow> triple P p Q"
  by (simp add: triple_def)

lemma triple_andThen:
  "triple P p Q \<Longrightarrow> (\<And>x. triple (Q x) (f x) R) \<Longrightarrow> triple P (andThen p f) R"
  unfolding triple_def andThen_Inr by blast

lemma triple_pres: "pres I p \<Longrightarrow> triple I p (\<lambda>_. I)"
  by (auto simp: triple_def dest: presD)

lemma triple_weaken: "triple P p Q \<Longrightarrow> (\<And>d. P' d \<Longrightarrow> P d) \<Longrightarrow> (\<And>x d. Q x d \<Longrightarrow> Q' x d) \<Longrightarrow> triple P' p Q'"
  unfolding triple_def by blast

lemma triple_ret: "(\<And>d. P d \<Longrightarrow> Q x d) \<Longrightarrow> triple P (ret x) Q"
  by (simp add: triple_def ret_def)

lemma triple_fail: "triple P (fail e) Q"
  by (simp add: triple_def fail_def)

lemma triple_lift: "(\<And>d x. P d \<Longrightarrow> r = Inr x \<Longrightarrow> Q x d) \<Longrightarrow> triple P (lift r) Q"
  by (simp add: triple_def lift_def)

lemma triple_map_error: "triple P p Q \<Longrightarrow> triple P (map_error h p) Q"
  by (auto simp: triple_def map_error_def split: prod.splits sum.splits)

lemma triple_attempt:
  "readonly p \<Longrightarrow> triple P p Q \<Longrightarrow>
    triple P (attempt p) (\<lambda>r d. P d \<and> (\<forall>x. r = Inr x \<longrightarrow> Q x d))"
  unfolding triple_def attempt_def readonly_def by (auto split: prod.splits) (metis snd_conv)+

lemma triple_stmt:
  "(\<And>d x d'. P d \<Longrightarrow> f d = Inr (x, d') \<Longrightarrow> Q x d') \<Longrightarrow> triple P (stmt f) Q"
  by (auto simp: triple_def stmt_def split: option.splits sum.splits)

lemma triple_query: "(\<And>d. P d \<Longrightarrow> Q (f d) d) \<Longrightarrow> triple P (query f) Q"
  unfolding query_def by (rule triple_stmt) auto

lemma triple_insert:
  "(\<And>d rows. P d \<Longrightarrow> insert_row keys r (get d) = Some rows \<Longrightarrow> Q () (put rows d)) \<Longrightarrow>
    triple P (exec_insert get put keys r) Q"
  unfolding exec_insert_def by (rule triple_stmt) (auto split: option.splits)

lemma triple_update:
  "(\<And>d rows. P d \<Longrightarrow> update_rows keys C f (get d) = Some rows \<Longrightarrow> Q (count_rows C (get d)) (put rows d)) \<Longrightarrow>
    triple P (exec_update get put keys C f) Q"
  unfolding exec_update_def by (rule triple_stmt) (auto split: option.splits)

lemma triple_delete:
  "(\<And>d. P d \<Longrightarrow> Q (count_rows C (get d)) (put (delete_rows C (get d)) d)) \<Longrightarrow>
    triple P (exec_delete get put C) Q"
  unfolding exec_delete_def by (rule triple_stmt) auto

lemma triple_readonly: "readonly p \<Longrightarrow> triple P p (\<lambda>_. P)"
  unfolding triple_def readonly_def by (metis snd_conv)

lemma triple_if: "(b \<Longrightarrow> triple P p Q) \<Longrightarrow> (\<not> b \<Longrightarrow> triple P q Q) \<Longrightarrow> triple P (if b then p else q) Q"
  by simp

lemma triple_for_each:
  "(\<And>x s. x \<in> set xs \<Longrightarrow> triple (J s) (body x s) J) \<Longrightarrow> triple (J s) (for_each body xs s) J"
  by (induction xs arbitrary: s) (auto intro!: triple_ret intro: triple_andThen)

text \<open>A committed transaction ends where its body ended; every other end is the start.\<close>

lemma triple_tx:
  "triple P body (\<lambda>e d. case e of Commit x \<Rightarrow> Q x d | Rollback _ \<Rightarrow> True) \<Longrightarrow>
   (\<And>w x w1. P (wdb w) \<Longrightarrow> body w = (Inr (Rollback x), w1) \<Longrightarrow> Q x (wdb w)) \<Longrightarrow>
   triple P (tx body) Q"
proof (rule tripleI)
  fix w x w'
  assume body: "triple P body (\<lambda>e d. case e of Commit x \<Rightarrow> Q x d | Rollback _ \<Rightarrow> True)"
    and rb: "\<And>w x w1. P (wdb w) \<Longrightarrow> body w = (Inr (Rollback x), w1) \<Longrightarrow> Q x (wdb w)"
    and P: "P (wdb w)" and run: "tx body w = (Inr x, w')"
  have begun: "wdb w1 = wdb v" if "stmt (\<lambda>d. Inr ((), d)) v = (Inr u, w1)" for u v w1
    using that by (auto simp: stmt_def split: option.splits)
  from run obtain u w1 e w2 where w1: "stmt (\<lambda>d. Inr ((), d)) w = (Inr u, w1)"
    and w2: "body w1 = (Inr e, w2)"
    and e: "(\<exists>x2. e = Rollback x \<and> w' = w2\<lparr>wdb := wdb w\<rparr>) \<or>
      (e = Commit x \<and> (\<exists>u. stmt (\<lambda>d. Inr ((), d)) w2 = (Inr u, w')))"
    unfolding tx_def by (auto split: prod.splits sum.splits tx_end.splits)
  have P1: "P (wdb w1)" using P begun [OF w1] by simp
  from e show "Q x (wdb w')"
  proof
    assume "\<exists>x2. e = Rollback x \<and> w' = w2\<lparr>wdb := wdb w\<rparr>"
    then show ?thesis using rb [OF P1] w2 begun [OF w1] by simp
  next
    assume *: "e = Commit x \<and> (\<exists>u. stmt (\<lambda>d. Inr ((), d)) w2 = (Inr u, w'))"
    then have "Q x (wdb w2)" using body P1 w2 unfolding triple_def by (metis tx_end.simps(5))
    with * begun show ?thesis by metis
  qed
qed

text \<open>An invariant of committed bodies is an invariant of the transaction.\<close>

lemma pres_tx_commit:
  assumes "triple I body (\<lambda>e d. case e of Commit _ \<Rightarrow> I d | Rollback _ \<Rightarrow> True)"
  shows "pres I (tx body)"
proof (rule presI)
  fix w :: world
  assume I: "I (wdb w)"
  obtain r w' where run: "tx body w = (r, w')" by fastforce
  show "I (wdb (snd (tx body w)))"
  proof (cases r)
    case (Inl e)
    then show ?thesis using atomic_tx [of body] I run unfolding atomic_def by (metis snd_conv)
  next
    case (Inr x)
    have "triple I (tx body) (\<lambda>_. I)" by (rule triple_tx [OF assms])
    with Inr run I show ?thesis unfolding triple_def by (metis snd_conv)
  qed
qed

text \<open>An atomic operation keeps whatever its successful runs keep.\<close>

lemma pres_atomic: "atomic p \<Longrightarrow> triple I p (\<lambda>_. I) \<Longrightarrow> pres I p"
  unfolding pres_def triple_def atomic_def by (metis prod.collapse sumE)

text \<open>\<open>sql.ErrNoRows\<close> becomes \<open>ErrNotFound\<close>.\<close>

definition found :: "'r option \<Rightarrow> 'r m" where
  "found r = (case r of None \<Rightarrow> fail ErrNotFound | Some x \<Rightarrow> ret x)"

definition select_row :: "(db \<Rightarrow> 'r option) \<Rightarrow> 'r m" where
  "select_row f = andThen (query f) found"

lemma readonly_found [simp]: "readonly (found r)"
  by (cases r) (simp_all add: found_def)

lemma readonly_select_row [simp]: "readonly (select_row f)"
  by (simp add: select_row_def readonly_andThen)

lemma pres_found [pres_intros]: "pres I (found r)"
  by (cases r) (auto simp: found_def intro: pres_intros)

lemma pres_select_row [pres_intros]: "pres I (select_row f)"
  unfolding select_row_def by (intro pres_intros)

lemma select_row_Inr: "select_row f w = (Inr x, w') \<Longrightarrow> f (wdb w) = Some x \<and> wdb w' = wdb w"
  by (auto simp: select_row_def andThen_Inr query_def stmt_def found_def ret_def fail_def
      split: option.splits)

lemma triple_select_row: "(\<And>d x. P d \<Longrightarrow> f d = Some x \<Longrightarrow> Q x d) \<Longrightarrow> triple P (select_row f) Q"
  by (rule tripleI) (auto dest: select_row_Inr)

lemma select_row_ok:
  "faults w (tick w) = None \<Longrightarrow>
    select_row f w = (case f (wdb w) of None \<Rightarrow> Inl ErrNotFound | Some x \<Rightarrow> Inr x, bump w)"
  by (auto simp: select_row_def andThen_def query_def stmt_def found_def ret_def fail_def bump_def
      split: option.splits)

section \<open>The contract of a table of the database\<close>

text \<open>The table's rows as the store's statements reach them: \<open>tbl\<close> reads and \<open>put\<close> writes
  the rows, and an invariant \<open>I\<close> of the database includes that the rows are unique.\<close>

locale db_table = table ident keys
  for ident :: "'r \<Rightarrow> string" and keys :: "'r \<Rightarrow> 'c list" +
  fixes tbl :: "db \<Rightarrow> 'r list"
    and put :: "'r list \<Rightarrow> db \<Rightarrow> db"
    and I :: "db \<Rightarrow> bool"
  assumes tbl_put: "tbl (put rows d) = rows"
    and put_tbl: "put (tbl d) d = d"
    and I_uniq: "I d \<Longrightarrow> uniq keys (tbl d)"
    and I_put: "I d \<Longrightarrow> uniq keys rows \<Longrightarrow> I (put rows d)"
begin

lemma pres_insert: "pres I (exec_insert tbl put keys r)"
  by (rule pres_exec_insert) (blast intro: I_put uniq_insert I_uniq)

lemma pres_update: "pres I (exec_update tbl put keys P f)"
  by (rule pres_exec_update) (blast intro: I_put uniq_update)

lemma pres_delete: "pres I (exec_delete tbl put P)"
  by (rule pres_exec_delete) (blast intro: I_put uniq_delete I_uniq)

lemma insert_effect:
  "exec_insert tbl put keys r w = (Inr u, w') \<Longrightarrow>
    (\<exists>rows. insert_row keys r (tbl (wdb w)) = Some rows \<and> wdb w' = put rows (wdb w)) \<and>
    find_row ident k (tbl (wdb w')) = (if k = ident r then Some r else find_row ident k (tbl (wdb w)))"
  by (auto simp: exec_insert_def stmt_def tbl_put find_insert split: option.splits)

lemma update_effect:
  assumes "exec_update tbl put keys (\<lambda>r. ident r = k) f w = (Inr n, w')"
    and "\<And>r. ident (f r) = ident r"
  shows "n = 0 \<longleftrightarrow> find_row ident k (tbl (wdb w)) = None"
    and "find_row ident j (tbl (wdb w')) =
      (if j = k then map_option f (find_row ident k (tbl (wdb w))) else find_row ident j (tbl (wdb w)))"
    and "\<exists>rows. update_rows keys (\<lambda>r. ident r = k) f (tbl (wdb w)) = Some rows \<and> wdb w' = put rows (wdb w)"
proof -
  obtain rows where u: "update_rows keys (\<lambda>r. ident r = k) f (tbl (wdb w)) = Some rows"
    and w': "wdb w' = put rows (wdb w)" and n: "n = count_rows (\<lambda>r. ident r = k) (tbl (wdb w))"
    using assms(1) by (auto simp: exec_update_def stmt_def split: option.splits)
  show "n = 0 \<longleftrightarrow> find_row ident k (tbl (wdb w)) = None"
    by (auto simp: n count_rows_0 find_row_None)
  show "find_row ident j (tbl (wdb w')) =
      (if j = k then map_option f (find_row ident k (tbl (wdb w))) else find_row ident j (tbl (wdb w)))"
    unfolding w' tbl_put by (rule find_update [OF u assms(2)])
  show "\<exists>rows. update_rows keys (\<lambda>r. ident r = k) f (tbl (wdb w)) = Some rows \<and> wdb w' = put rows (wdb w)"
    using u w' by blast
qed

lemma update_nothing:
  assumes "exec_update tbl put keys C f w = (Inr 0, w')"
  shows "wdb w' = wdb w"
proof -
  obtain rows where "update_rows keys C f (tbl (wdb w)) = Some rows" and w': "wdb w' = put rows (wdb w)"
    and "count_rows C (tbl (wdb w)) = 0"
    using assms by (auto simp: exec_update_def stmt_def split: option.splits)
  moreover from this have "map (\<lambda>r. if C r then f r else r) (tbl (wdb w)) = tbl (wdb w)"
    by (intro map_idI) (auto simp: count_rows_0)
  ultimately show ?thesis by (auto simp: update_rows_def Let_def put_tbl split: if_splits)
qed

lemma delete_nothing:
  assumes "exec_delete tbl put C w = (Inr 0, w')"
  shows "wdb w' = wdb w"
proof -
  have w': "wdb w' = put (delete_rows C (tbl (wdb w))) (wdb w)" and "count_rows C (tbl (wdb w)) = 0"
    using assms by (auto simp: exec_delete_def stmt_def split: option.splits)
  then have "delete_rows C (tbl (wdb w)) = tbl (wdb w)"
    by (auto simp: delete_rows_def count_rows_0)
  with w' show ?thesis by (simp add: put_tbl)
qed

text \<open>\<open>count == 0\<close> after an UPDATE or a DELETE means that nothing changed.\<close>

lemma atomic_update_or_missing:
  "atomic (andThen (map_error h (exec_update tbl put keys C f)) (\<lambda>n. if n = 0 then fail e else ret x))"
  unfolding atomic_def andThen_def map_error_def
  by (auto simp: fail_def ret_def split: prod.splits sum.splits if_splits
      dest: update_nothing atomic_exec_update [unfolded atomic_def, rule_format])

lemma atomic_delete_or_missing:
  "atomic (andThen (map_error h (exec_delete tbl put C)) (\<lambda>n. if n = 0 then fail e else ret x))"
  unfolding atomic_def andThen_def map_error_def
  by (auto simp: fail_def ret_def split: prod.splits sum.splits if_splits
      dest: delete_nothing atomic_exec_delete [unfolded atomic_def, rule_format])

lemma atomic_delete_or_missing':
  "atomic (andThen (exec_delete tbl put C) (\<lambda>n. if n = 0 then fail e else ret x))"
  unfolding atomic_def andThen_def
  by (auto simp: fail_def ret_def split: prod.splits sum.splits if_splits
      dest: delete_nothing atomic_exec_delete [unfolded atomic_def, rule_format])

text \<open>An UPDATE of the row of one ID followed by reading it back: without a driver failure
  the read finds the row, so an error means that nothing changed.\<close>

lemma update_then_read:
  assumes quiet: "\<forall>n. faults w n = None" and f: "\<And>r. ident (f r) = ident r"
    and g: "\<And>d. (g d = None) = (find_row ident k (tbl d) = None)"
    and run: "andThen (map_error h (exec_update tbl put keys (\<lambda>r. ident r = k) f))
      (\<lambda>n. if n = 0 then fail err else select_row g) w = (Inl e, w')"
  shows "wdb w' = wdb w"
proof -
  obtain r w1 where r: "exec_update tbl put keys (\<lambda>r. ident r = k) f w = (r, w1)" by fastforce
  have w1: "faults w1 = faults w"
    using r by (auto simp: exec_update_def stmt_def bump_def split: option.splits)
  show ?thesis
  proof (cases r)
    case (Inl e')
    then show ?thesis using r run atomic_exec_update [of tbl put keys]
      by (auto simp: andThen_def map_error_def atomic_def)
  next
    case (Inr n)
    show ?thesis
    proof (cases "n = 0")
      case True
      with r Inr run update_nothing [of "\<lambda>r. ident r = k" f w w1] show ?thesis
        by (auto simp: andThen_def map_error_def fail_def)
    next
      case False
      have u: "exec_update tbl put keys (\<lambda>r. ident r = k) f w = (Inr n, w1)" using r Inr by simp
      have "find_row ident k (tbl (wdb w1)) \<noteq> None"
        using update_effect(1,2) [OF u f] False by auto
      then have "g (wdb w1) \<noteq> None" using g by simp
      then have "\<exists>x. select_row g w1 = (Inr x, bump w1)"
        using select_row_ok [of w1 g] quiet w1 by (auto split: option.splits)
      with u False run show ?thesis by (auto simp: andThen_def map_error_def)
    qed
  qed
qed

lemma delete_effect:
  assumes "exec_delete tbl put (\<lambda>r. ident r = k) w = (Inr n, w')"
  shows "n = 0 \<longleftrightarrow> find_row ident k (tbl (wdb w)) = None"
    and "find_row ident j (tbl (wdb w')) = (if j = k then None else find_row ident j (tbl (wdb w)))"
    and "wdb w' = put (delete_rows (\<lambda>r. ident r = k) (tbl (wdb w))) (wdb w)"
  using assms
  by (auto simp: exec_delete_def stmt_def tbl_put find_delete count_rows_0 find_row_None split: option.splits)

end

definition put_sites :: "site list \<Rightarrow> db \<Rightarrow> db" where
  "put_sites rows d = d\<lparr>t_sites := rows\<rparr>"

definition put_devices :: "device list \<Rightarrow> db \<Rightarrow> db" where
  "put_devices rows d = d\<lparr>t_devices := rows\<rparr>"

definition put_groups :: "group list \<Rightarrow> db \<Rightarrow> db" where
  "put_groups rows d = d\<lparr>t_groups := rows\<rparr>"

definition put_members :: "member_row list \<Rightarrow> db \<Rightarrow> db" where
  "put_members rows d = d\<lparr>t_members := rows\<rparr>"

definition put_wakes :: "wake_attempt list \<Rightarrow> db \<Rightarrow> db" where
  "put_wakes rows d = d\<lparr>t_wakes := rows\<rparr>"

definition put_relays :: "wake_relay list \<Rightarrow> db \<Rightarrow> db" where
  "put_relays rows d = d\<lparr>t_relays := rows\<rparr>"

definition put_profiles :: "remote_profile list \<Rightarrow> db \<Rightarrow> db" where
  "put_profiles rows d = d\<lparr>t_profiles := rows\<rparr>"

definition put_power :: "power_profile list \<Rightarrow> db \<Rightarrow> db" where
  "put_power rows d = d\<lparr>t_power := rows\<rparr>"

definition put_powers :: "power_attempt list \<Rightarrow> db \<Rightarrow> db" where
  "put_powers rows d = d\<lparr>t_powers := rows\<rparr>"

lemmas put_defs = put_sites_def put_devices_def put_groups_def put_members_def put_wakes_def
  put_relays_def put_profiles_def put_power_def put_powers_def

interpretation sites_db: db_table s_id site_keys t_sites put_sites schema_ok
  by unfold_locales (auto simp: put_defs schema_ok_def)

interpretation devices_db: db_table d_id device_keys t_devices put_devices schema_ok
  by unfold_locales (auto simp: put_defs schema_ok_def)

interpretation groups_db: db_table g_id group_keys t_groups put_groups schema_ok
  by unfold_locales (auto simp: put_defs schema_ok_def)

interpretation relays_db: db_table r_id relay_keys t_relays put_relays schema_ok
  by unfold_locales (auto simp: put_defs schema_ok_def)

interpretation profiles_db: db_table rp_device_id profile_keys t_profiles put_profiles schema_ok
  by unfold_locales (auto simp: put_defs schema_ok_def)

interpretation power_db: db_table pp_device_id power_keys t_power put_power schema_ok
  by unfold_locales (auto simp: put_defs schema_ok_def)

interpretation wakes_db: db_table wa_id wake_keys t_wakes put_wakes schema_ok
  by unfold_locales (auto simp: put_defs schema_ok_def wake_keys_def)

interpretation powers_db: db_table pa_id power_attempt_keys t_powers put_powers schema_ok
  by unfold_locales (auto simp: put_defs schema_ok_def power_attempt_keys_def)

lemma pres_member_insert: "pres schema_ok (exec_insert t_members put_members member_keys r)"
  by (rule pres_exec_insert) (auto simp: schema_ok_def put_defs intro: uniq_insert)

lemma pres_member_delete: "pres schema_ok (exec_delete t_members put_members P)"
  by (rule pres_exec_delete) (auto simp: schema_ok_def put_defs intro: uniq_delete)

lemmas schema_intros = pres_intros
  sites_db.pres_insert sites_db.pres_update sites_db.pres_delete
  devices_db.pres_insert devices_db.pres_update devices_db.pres_delete
  groups_db.pres_insert groups_db.pres_update groups_db.pres_delete
  relays_db.pres_insert relays_db.pres_update relays_db.pres_delete
  profiles_db.pres_insert profiles_db.pres_update profiles_db.pres_delete
  power_db.pres_insert power_db.pres_update power_db.pres_delete
  wakes_db.pres_insert powers_db.pres_insert
  pres_member_insert pres_member_delete

end
