(* ===== verification/StoreLogic.thy ===== *)
theory StoreLogic
  imports StoreMonad
begin

text \<open>
  Rules for proving that the store's operations keep an invariant of the database: invariants
  of the rows of one table (locale \<open>row_invariant\<close>), invariants that do not read a table
  (\<open>pres_frame\<close>), and invariants that hold because of what an operation has read before it
  writes (\<open>pres_given\<close>).
\<close>

section \<open>Invariants of rows\<close>

locale row_invariant =
  fixes tbl :: "db \<Rightarrow> 'r list"
    and put :: "'r list \<Rightarrow> db \<Rightarrow> db"
    and ok :: "'r \<Rightarrow> bool"
    and I :: "db \<Rightarrow> bool"
  assumes rows: "I d \<Longrightarrow> list_all ok (tbl d)"
    and put: "I d \<Longrightarrow> list_all ok rs \<Longrightarrow> I (put rs d)"
begin

lemma keep_insert: "ok r \<Longrightarrow> pres I (exec_insert tbl put keys r)"
proof (rule pres_exec_insert)
  fix d rs
  assume "ok r" "I d" and ins: "insert_row keys r (tbl d) = Some rs"
  then have "list_all ok rs" using rows [of d] set_insert_row [OF ins] by (auto simp: list_all_iff)
  then show "I (put rs d)" using put \<open>I d\<close> by blast
qed

lemma keep_update: "(\<And>r. ok r \<Longrightarrow> C r \<Longrightarrow> ok (f r)) \<Longrightarrow> pres I (exec_update tbl put keys C f)"
proof (rule pres_exec_update)
  fix d rs
  assume f: "\<And>r. ok r \<Longrightarrow> C r \<Longrightarrow> ok (f r)" and "I d"
    and upd: "update_rows keys C f (tbl d) = Some rs"
  then have "list_all ok rs" using rows [of d] set_update_rows [OF upd] by (auto simp: list_all_iff)
  then show "I (put rs d)" using put \<open>I d\<close> by blast
qed

lemma keep_delete: "pres I (exec_delete tbl put C)"
proof (rule pres_exec_delete)
  fix d
  assume "I d"
  then have "list_all ok (delete_rows C (tbl d))" using rows [of d] by (auto simp: list_all_iff)
  then show "I (put (delete_rows C (tbl d)) d)" using put \<open>I d\<close> by blast
qed

end

section \<open>Invariants that do not read the table\<close>

lemma pres_frame:
  assumes "\<And>rows d. I (put rows d) = I d"
  shows "pres I (exec_insert get put keys r)" and "pres I (exec_update get put keys C f)"
    and "pres I (exec_delete get put C)"
  by (rule pres_exec_insert, simp add: assms, rule pres_exec_update, simp add: assms,
      rule pres_exec_delete, simp add: assms)

section \<open>Values carried from one step to the next\<close>

lemma pres_lift_then: "(\<And>x. r = Inr x \<Longrightarrow> pres I (f x)) \<Longrightarrow> pres I (andThen (lift r) f)"
  by (auto simp: pres_def andThen_def lift_def split: sum.splits)

lemma hex_digit_printing: "n < 16 \<Longrightarrow> ink (hex_digit n)"
  by (auto simp: ink_def ascii_def is_space_def hex_digit_def)

lemma newID_trimmed:
  assumes "newID p w = (Inr x, w')" and "p \<noteq> []" and "ink (hd p)"
  shows "trim_space x = x" and "x \<noteq> []"
proof -
  have x: "x = p @ ''_'' @ itoa (clock w (tick w)) @ ''_'' @ hex_encode (entropy w (tick w))"
    using assms(1) by (simp add: newID_def)
  have "ink (last x)"
  proof (cases "entropy w (tick w)" rule: rev_cases)
    case Nil
    then show ?thesis by (simp add: x hex_encode_def ink_def ascii_def is_space_def)
  next
    case (snoc bs b)
    have "unat b mod 16 < 16" by simp
    from hex_digit_printing [OF this] snoc show ?thesis
      by (simp add: x hex_encode_def hex_byte_def)
  qed
  then show "trim_space x = x" using assms by (intro trim_space_ink) (auto simp: x)
  show "x \<noteq> []" using assms(2) by (simp add: x)
qed

lemma pres_newID_then:
  assumes "p \<noteq> []" and "ink (hd p)" and "\<And>x. trim_space x = x \<Longrightarrow> x \<noteq> [] \<Longrightarrow> pres I (f x)"
  shows "pres I (andThen (newID p) f)"
proof (rule presI)
  fix w :: world
  assume I: "I (wdb w)"
  obtain x w' where x: "newID p w = (Inr x, w')" by (simp add: newID_def)
  then have "wdb w' = wdb w" by (auto simp: newID_def)
  moreover have "pres I (f x)" using assms newID_trimmed [OF x] by blast
  ultimately show "I (wdb (snd (andThen (newID p) f w)))"
    using I x by (simp add: andThen_def pres_def)
qed

lemma triple_newID:
  assumes "p \<noteq> []" and "ink (hd p)" and "\<And>x d. P d \<Longrightarrow> trim_space x = x \<Longrightarrow> x \<noteq> [] \<Longrightarrow> Q x d"
  shows "triple P (newID p) Q"
proof (rule tripleI)
  fix w x w'
  assume P: "P (wdb w)" and x: "newID p w = (Inr x, w')"
  then have "wdb w' = wdb w" by (auto simp: newID_def)
  with P show "Q x (wdb w')" using assms newID_trimmed [OF x] by simp
qed

text \<open>\<open>pres_given P I p\<close>: from a database with \<open>I\<close> and \<open>P\<close> the operation keeps \<open>I\<close>.\<close>

definition pres_given :: "(db \<Rightarrow> bool) \<Rightarrow> (db \<Rightarrow> bool) \<Rightarrow> 'a m \<Rightarrow> bool" where
  "pres_given P I p \<longleftrightarrow> (\<forall>w. I (wdb w) \<longrightarrow> P (wdb w) \<longrightarrow> I (wdb (snd (p w))))"

lemma pres_givenD: "pres I p \<Longrightarrow> pres_given P I p"
  by (simp add: pres_def pres_given_def)

lemma pres_given_True: "pres_given (\<lambda>_. True) I p \<Longrightarrow> pres I p"
  by (simp add: pres_def pres_given_def)

lemma pres_given_read:
  assumes "readonly p" and "triple (\<lambda>d. I d \<and> P d) p P'" and "\<And>x. pres_given (P' x) I (f x)"
  shows "pres_given P I (andThen p f)"
  unfolding pres_given_def
proof (intro allI impI)
  fix w :: world
  assume IP: "I (wdb w)" "P (wdb w)"
  obtain r w' where r: "p w = (r, w')" by fastforce
  then have w': "wdb w' = wdb w" using assms(1) unfolding readonly_def by (metis snd_conv)
  show "I (wdb (snd (andThen p f w)))"
  proof (cases r)
    case (Inl e)
    with r w' IP show ?thesis by (simp add: andThen_def)
  next
    case (Inr x)
    with r IP assms(2) have "P' x (wdb w')" unfolding triple_def by blast
    with assms(3) w' IP have "I (wdb (snd (f x w')))" unfolding pres_given_def by metis
    with r Inr show ?thesis by (simp add: andThen_def)
  qed
qed

lemma pres_given_keep:
  assumes "readonly p" and "\<And>x. pres_given P I (f x)"
  shows "pres_given P I (andThen p f)"
proof (rule pres_given_read [OF assms(1)])
  show "triple (\<lambda>d. I d \<and> P d) p (\<lambda>_. P)"
    by (rule triple_weaken [OF triple_readonly [OF assms(1), of P]]) auto
qed (rule assms(2))

lemma pres_given_lift:
  "(\<And>x. r = Inr x \<Longrightarrow> pres_given P I (f x)) \<Longrightarrow> pres_given P I (andThen (lift r) f)"
  by (auto simp: pres_given_def andThen_def lift_def split: sum.splits)

lemma pres_given_write:
  assumes "pres_given P I p" and "\<And>x. pres I (f x)"
  shows "pres_given P I (andThen p f)"
  unfolding pres_given_def
proof (intro allI impI)
  fix w :: world
  assume IP: "I (wdb w)" "P (wdb w)"
  obtain r w' where r: "p w = (r, w')" by fastforce
  then have "I (wdb w')" using assms(1) IP unfolding pres_given_def by (metis snd_conv)
  then show "I (wdb (snd (andThen p f w)))"
    using assms(2) r by (cases r) (auto simp: andThen_def pres_def)
qed

lemma pres_given_map_error: "pres_given P I p \<Longrightarrow> pres_given P I (map_error h p)"
  unfolding pres_given_def map_error_def
  by (auto split: prod.splits sum.splits)

lemma pres_given_insert:
  "(\<And>d rows. I d \<Longrightarrow> P d \<Longrightarrow> insert_row keys r (get d) = Some rows \<Longrightarrow> I (put rows d)) \<Longrightarrow>
    pres_given P I (exec_insert get put keys r)"
  by (auto simp: pres_given_def exec_insert_def stmt_def split: option.splits)

lemma pres_given_if:
  "(b \<Longrightarrow> pres_given P I p) \<Longrightarrow> (\<not> b \<Longrightarrow> pres_given P I q) \<Longrightarrow> pres_given P I (if b then p else q)"
  by simp

end
