(* ===== verification/NetUtil.thy ===== *)
theory NetUtil
  imports NetAddr
begin

text \<open>
  \<open>internal/netutil/ipv4.go\<close>: the directed broadcast address of a subnet, and the broadcast
  address of the most specific connected subnet that contains a host. The host's network
  interfaces come from the operating system and are an argument.
\<close>

unbundle bit_operations_syntax

definition or_not_bytes :: "byte list \<Rightarrow> byte list \<Rightarrow> byte list" where
  "or_not_bytes a m = map2 (\<lambda>x y. x OR NOT y) a m"

definition Broadcast :: "string \<Rightarrow> string result" where
  "Broadcast cidr =
     (case parse_cidr (trim_space cidr) of
        None \<Rightarrow> Inl (Errorf ''subnet must be an IPv4 CIDR, for example 192.168.8.0/24'')
      | Some (ip, network) \<Rightarrow>
          if to4 ip = None
          then Inl (Errorf ''subnet must be an IPv4 CIDR, for example 192.168.8.0/24'')
          else if net_bits network \<noteq> 32 \<or> net_ones network > 30
          then Inl (Errorf (''subnet /'' @ dec_digits (net_ones network) @ '' has no broadcast destination''))
          else Inr (ip_string (or_not_bytes (net_ip network) (net_mask network))))"

text \<open>One entry of \<open>net.Interfaces()\<close>; \<open>if_addrs\<close> is \<open>None\<close> when \<open>Addrs()\<close> fails, else the
  addresses as their \<open>String()\<close>.\<close>

record iface =
  if_name :: string
  if_up :: bool
  if_loopback :: bool
  if_broadcast :: bool
  if_addrs :: "string list option"

text \<open>The inner loop over the addresses of one interface: the longest prefix so far and the
  broadcast address it gave.\<close>

definition consider_addr :: "ip \<Rightarrow> int \<times> string \<Rightarrow> string \<Rightarrow> int \<times> string" where
  "consider_addr ip acc addr =
     (case parse_cidr addr of
        None \<Rightarrow> acc
      | Some (_, network) \<Rightarrow>
          if \<not> net_contains network ip then acc
          else if net_bits network \<noteq> 32 \<or> int (net_ones network) \<le> fst acc then acc
          else (case Broadcast (net_string (Some network)) of
                  Inl _ \<Rightarrow> acc
                | Inr b \<Rightarrow> (int (net_ones network), b)))"

definition consider_iface :: "ip \<Rightarrow> string \<Rightarrow> int \<times> string \<Rightarrow> iface \<Rightarrow> int \<times> string" where
  "consider_iface ip name acc i =
     (if name \<noteq> [] \<and> if_name i \<noteq> name then acc
      else if \<not> if_up i \<or> if_loopback i \<or> \<not> if_broadcast i then acc
      else (case if_addrs i of None \<Rightarrow> acc | Some addrs \<Rightarrow> foldl (consider_addr ip) acc addrs))"

definition LocalBroadcast :: "iface list option \<Rightarrow> string \<Rightarrow> string \<Rightarrow> string" where
  "LocalBroadcast interfaces host name =
     (case parse_ip (trim_space host) of
        None \<Rightarrow> []
      | Some ip \<Rightarrow>
          if to4 ip = None then []
          else (case interfaces of
                  None \<Rightarrow> []
                | Some is \<Rightarrow> snd (foldl (consider_iface ip name) (-1, []) is)))"

section \<open>Correctness\<close>

text \<open>The broadcast address keeps the network bits and sets every host bit.\<close>

lemma broadcast_network_bits: "(x OR NOT m) AND m = x AND m" for x m :: byte
  by (rule bit_eqI) (auto simp: bit_simps)

lemma broadcast_host_bits: "(x OR NOT m) AND NOT m = NOT m" for x m :: byte
  by (rule bit_eqI) (auto simp: bit_simps)

lemma map2_assoc_and: "and_bytes (or_not_bytes a m) m = and_bytes a m"
  by (induction a m rule: list_induct2')
    (simp_all add: and_bytes_def or_not_bytes_def broadcast_network_bits)

lemma and_bytes_idem: "and_bytes (and_bytes a m) m = and_bytes a m"
  by (induction a m rule: list_induct2') (simp_all add: and_bytes_def and.assoc)

lemma length_and_bytes [simp]: "length (and_bytes a b) = min (length a) (length b)"
  by (simp add: and_bytes_def)

lemma length_or_not_bytes [simp]: "length (or_not_bytes a b) = min (length a) (length b)"
  by (simp add: or_not_bytes_def)

lemma length_mask_bytes [simp]: "length (mask_bytes k n) = k"
  by (induction k n rule: mask_bytes.induct) simp_all

lemma length_cidr_mask [simp]: "length (cidr_mask n b) = b div 8"
  by (simp add: cidr_mask_def)

text \<open>\<open>v4_scan\<close> returns four bytes.\<close>

lemma v4_scan_length: "v4_scan v d fs s = Some q \<Longrightarrow> length fs \<le> 3 \<Longrightarrow> length q = 4"
proof (induction v d fs s rule: v4_scan.induct)
  case (1 val dl fs)
  then show ?case by (auto split: if_splits)
next
  case (2 val dl fs c cs)
  then show ?case by (auto split: if_splits)
qed

lemma parse_ipv4_length: "parse_ipv4 s = Some q \<Longrightarrow> length q = 4"
  unfolding parse_ipv4_def by (erule v4_scan_length) simp

lemma to4_v4_in_v6 [simp]: "length q = 4 \<Longrightarrow> to4 (v4_in_v6 @ q) = Some q"
  by (simp add: to4_def v4_in_v6_def)

lemma to4_4 [simp]: "length q = 4 \<Longrightarrow> to4 q = Some q"
  by (simp add: to4_def)

lemma to4_length: "to4 ip = Some q \<Longrightarrow> length q = 4"
  by (auto simp: to4_def split: if_splits)

lemma parse_addr_v4: "parse_addr s = Some (True, ip) \<Longrightarrow> \<exists>q. ip = v4_in_v6 @ q \<and> length q = 4"
  by (auto simp: parse_addr_def dest: parse_ipv4_length split: option.splits if_splits)

text \<open>A network \<open>Broadcast\<close> accepts is four masked bytes.\<close>

lemma parse_cidr_v4:
  assumes "parse_cidr s = Some (ip, n)" and "net_bits n = 32"
  shows "length (net_ip n) = 4" and "and_bytes (net_ip n) (net_mask n) = net_ip n"
    and "net_ones n \<le> 32"
proof -
  obtain addr pl where "cut_char CHR ''/'' s = (addr, pl, True)"
    using assms(1) by (auto simp: parse_cidr_def split: prod.splits if_splits)
  with assms obtain v where a: "parse_addr addr = Some (True, ip)"
    and n: "n = \<lparr>net_ip = and_bytes (drop 12 ip) (cidr_mask v 32), net_ones = v, net_bits = 32\<rparr>"
    and "v \<le> 32"
    by (auto simp: parse_cidr_def Let_def split: option.splits prod.splits if_splits)
  from parse_addr_v4 [OF a] obtain q where "ip = v4_in_v6 @ q" and "length q = 4" by blast
  then have "drop 12 ip = q" by (simp add: v4_in_v6_def)
  with n \<open>length q = 4\<close> \<open>v \<le> 32\<close> show "length (net_ip n) = 4"
    and "and_bytes (net_ip n) (net_mask n) = net_ip n" and "net_ones n \<le> 32"
    by (auto simp: net_mask_def and_bytes_idem)
qed

text \<open>Broadcast succeeds only with an IPv4 network of at most 30 bits; the address it prints
  has the network's bits under the mask and ones elsewhere, so it lies in the subnet.\<close>

lemma Broadcast_Inr:
  assumes "Broadcast cidr = Inr b"
  obtains ip n q where "parse_cidr (trim_space cidr) = Some (ip, n)" and "net_bits n = 32"
    and "net_ones n \<le> 30" and "q = or_not_bytes (net_ip n) (net_mask n)"
    and "length q = 4" and "b = v4_string q" and "net_contains n q"
proof -
  from assms obtain ip n where p: "parse_cidr (trim_space cidr) = Some (ip, n)"
    and n: "net_bits n = 32" "net_ones n \<le> 30"
    and b: "b = ip_string (or_not_bytes (net_ip n) (net_mask n))"
    by (auto simp: Broadcast_def split: option.splits prod.splits if_splits)
  let ?q = "or_not_bytes (net_ip n) (net_mask n)"
  note v4 = parse_cidr_v4 [OF p n(1)]
  have len: "length ?q = 4" using v4(1) n(1) by (simp add: net_mask_def)
  have "length (net_mask n) = 4" using n(1) by (simp add: net_mask_def)
  then have "net_contains n ?q"
    using v4(1) len by (simp add: net_contains_def map2_assoc_and v4(2))
  with that [OF p n refl len] b len show thesis by (simp add: ip_string_def)
qed

text \<open>
  The directed broadcast address of a subnet: whenever \<open>Broadcast\<close> returns an address,
  the input (trimmed) is an IPv4 prefix of at most 30 bits, the address belongs to that
  network, and every host bit of it is set.
\<close>

theorem Broadcast_in_subnet:
  assumes "Broadcast cidr = Inr b"
  shows "\<exists>ip n q. parse_cidr (trim_space cidr) = Some (ip, n) \<and> net_ones n \<le> 30 \<and>
    length q = 4 \<and> b = v4_string q \<and> net_contains n q \<and>
    or_not_bytes q (net_mask n) = q \<and> and_bytes q (net_mask n) = net_ip n"
proof -
  from assms obtain ip n q where *: "parse_cidr (trim_space cidr) = Some (ip, n)" "net_bits n = 32"
    "net_ones n \<le> 30" "q = or_not_bytes (net_ip n) (net_mask n)" "length q = 4" "b = v4_string q"
    "net_contains n q" by (rule Broadcast_Inr)
  have idem: "or_not_bytes (or_not_bytes a m) m = or_not_bytes a m" for a m
    by (induction a m rule: list_induct2') (simp_all add: or_not_bytes_def or.assoc)
  from * show ?thesis
    by (intro exI [of _ ip] exI [of _ n] exI [of _ q])
      (simp add: idem map2_assoc_and parse_cidr_v4(2))
qed

theorem Broadcast_in_subnet_witness:
  "Broadcast '' 192.168.8.77/20'' = Inr ''192.168.15.255'' \<and>
   (\<exists>ip n q. parse_cidr ''192.168.8.77/20'' = Some (ip, n) \<and> net_contains n q)"
proof -
  have b: "Broadcast '' 192.168.8.77/20'' = Inr ''192.168.15.255''" by code_simp
  have t: "trim_space '' 192.168.8.77/20'' = ''192.168.8.77/20''" by code_simp
  show ?thesis using Broadcast_in_subnet [OF b] b unfolding t by blast
qed

section \<open>The most specific subnet\<close>

text \<open>The reference for \<open>LocalBroadcast\<close>: all connected IPv4 networks that contain the host,
  with their prefix lengths and broadcast addresses.\<close>

definition candidate :: "ip \<Rightarrow> string \<Rightarrow> (int \<times> string) option" where
  "candidate ip addr =
     (case parse_cidr addr of
        None \<Rightarrow> None
      | Some (_, n) \<Rightarrow>
          if net_contains n ip \<and> net_bits n = 32
          then (case Broadcast (net_string (Some n)) of Inl _ \<Rightarrow> None | Inr b \<Rightarrow> Some (int (net_ones n), b))
          else None)"

definition eligible :: "string \<Rightarrow> iface \<Rightarrow> bool" where
  "eligible name i \<longleftrightarrow> (name = [] \<or> if_name i = name) \<and> if_up i \<and> \<not> if_loopback i \<and> if_broadcast i"

definition candidates :: "ip \<Rightarrow> string \<Rightarrow> iface list \<Rightarrow> (int \<times> string) list" where
  "candidates ip name is =
     List.map_filter (candidate ip)
       (concat (map (\<lambda>i. case if_addrs i of None \<Rightarrow> [] | Some as \<Rightarrow> as) (filter (eligible name) is)))"

definition longer :: "int \<times> string \<Rightarrow> int \<times> string \<Rightarrow> int \<times> string" where
  "longer acc c = (if fst c \<le> fst acc then acc else c)"

lemma consider_addr_longer:
  "consider_addr ip acc a = (case candidate ip a of None \<Rightarrow> acc | Some c \<Rightarrow> longer acc c)"
  by (auto simp: consider_addr_def candidate_def longer_def split: option.splits prod.splits sum.splits)

lemma foldl_map_filter:
  "foldl (\<lambda>acc a. case f a of None \<Rightarrow> acc | Some c \<Rightarrow> g acc c) acc as = foldl g acc (List.map_filter f as)"
  by (induction as arbitrary: acc) (simp_all add: List.map_filter_def split: option.splits)

lemma consider_addrs_fold:
  "foldl (consider_addr ip) acc as = foldl longer acc (List.map_filter (candidate ip) as)"
  unfolding foldl_map_filter [symmetric] by (simp add: consider_addr_longer [abs_def])

lemma consider_iface_fold:
  "consider_iface ip name acc i =
     (if eligible name i then foldl longer acc (List.map_filter (candidate ip)
        (case if_addrs i of None \<Rightarrow> [] | Some as \<Rightarrow> as)) else acc)"
  by (auto simp: consider_iface_def eligible_def consider_addrs_fold List.map_filter_def
      split: option.splits)

lemma candidates_simps:
  "candidates ip name [] = []"
  "candidates ip name (i # is) =
     (if eligible name i then List.map_filter (candidate ip)
        (case if_addrs i of None \<Rightarrow> [] | Some as \<Rightarrow> as) else []) @ candidates ip name is"
  by (simp_all add: candidates_def List.map_filter_def)

lemma foldl_candidates:
  "foldl (consider_iface ip name) acc is = foldl longer acc (candidates ip name is)"
  by (induction "is" arbitrary: acc) (simp_all add: candidates_simps consider_iface_fold)

lemma foldl_longer:
  "(foldl longer acc cs = acc \<or> foldl longer acc cs \<in> set cs) \<and>
   fst acc \<le> fst (foldl longer acc cs) \<and> (\<forall>c \<in> set cs. fst c \<le> fst (foldl longer acc cs))"
proof (induction cs arbitrary: acc)
  case (Cons c cs)
  from Cons [of "longer acc c"] show ?case
    by (auto simp: longer_def split: if_splits)
qed simp

lemma candidate_nonneg: "candidate ip a = Some c \<Longrightarrow> 0 \<le> fst c"
  by (auto simp: candidate_def split: option.splits prod.splits sum.splits if_splits)

lemma candidates_nonneg: "c \<in> set (candidates ip name is) \<Longrightarrow> 0 \<le> fst c"
  by (auto simp: candidates_def List.map_filter_def) (metis candidate_nonneg fst_conv)

text \<open>
  \<open>LocalBroadcast\<close> returns the broadcast address of a most specific connected subnet of an
  eligible interface that contains the host, and the empty string exactly when there is no
  such subnet: it never guesses one.
\<close>

theorem LocalBroadcast_most_specific:
  assumes "parse_ip (trim_space host) = Some ip" and "to4 ip \<noteq> None"
  shows "(candidates ip name is = [] \<and> LocalBroadcast (Some is) host name = []) \<or>
    (\<exists>n. (n, LocalBroadcast (Some is) host name) \<in> set (candidates ip name is) \<and>
      (\<forall>c \<in> set (candidates ip name is). fst c \<le> n))"
proof -
  let ?r = "foldl longer (-1, []) (candidates ip name is)"
  have lb: "LocalBroadcast (Some is) host name = snd ?r"
    using assms by (auto simp: LocalBroadcast_def foldl_candidates)
  show ?thesis
  proof (cases "candidates ip name is")
    case Nil
    then show ?thesis using lb by simp
  next
    case (Cons c cs)
    then have "c \<in> set (candidates ip name is)" by simp
    then have "0 \<le> fst ?r"
      using candidates_nonneg [of c] foldl_longer [of "(-1, [])" "candidates ip name is"] by force
    then have "?r \<noteq> (-1, [])" by auto
    with foldl_longer [of "(-1, [])" "candidates ip name is"]
    have "(fst ?r, snd ?r) \<in> set (candidates ip name is)" and
      "\<forall>c \<in> set (candidates ip name is). fst c \<le> fst ?r" by auto
    then show ?thesis unfolding lb by blast
  qed
qed

definition two_ifaces :: "iface list" where
  "two_ifaces =
    [\<lparr>if_name = ''eth0'', if_up = True, if_loopback = False, if_broadcast = True,
      if_addrs = Some [''10.0.0.5/8'']\<rparr>,
     \<lparr>if_name = ''eth1'', if_up = True, if_loopback = False, if_broadcast = True,
      if_addrs = Some [''10.1.2.9/24'']\<rparr>]"

theorem LocalBroadcast_most_specific_witness:
  "LocalBroadcast (Some two_ifaces) ''10.1.2.3'' [] = ''10.1.2.255'' \<and>
   (\<exists>ip n. (n, ''10.1.2.255'') \<in> set (candidates ip [] two_ifaces) \<and>
     (\<forall>c \<in> set (candidates ip [] two_ifaces). fst c \<le> n))"
proof -
  have t: "trim_space ''10.1.2.3'' = ''10.1.2.3''" by code_simp
  have v: "LocalBroadcast (Some two_ifaces) ''10.1.2.3'' [] = ''10.1.2.255''" by code_simp
  have p: "parse_ip (trim_space ''10.1.2.3'') = Some (v4_in_v6 @ [10, 1, 2, 3])"
    unfolding t by code_simp
  have "to4 (v4_in_v6 @ [10, 1, 2, 3]) \<noteq> None" by simp
  from LocalBroadcast_most_specific [OF p this, of "[]" two_ifaces] v show ?thesis by auto
qed

end
