(* ===== verification/StoreSites.thy ===== *)
theory StoreSites
  imports StoreMonad NetUtil
begin

text \<open>
  Sites (\<open>store.go\<close>, \<open>site_config.go\<close>) and wake relays (\<open>relay.go\<close>). Each SQL operation is
  the sequence of its statements on the world of StoreMonad, early returns included.
\<close>

section \<open>Sites\<close>

text \<open>The Go source prints an en dash in the last three messages.\<close>

definition en_dash :: string where
  "en_dash = map char_of ([0xE2, 0x80, 0x93] :: nat list)"

definition normalizeSite_subnet :: "site \<Rightarrow> site result" where
  "normalizeSite_subnet item =
     (if s_subnet item = [] then Inr item
      else (case Broadcast (s_subnet item) of
              Inl e \<Rightarrow> Inl e
            | Inr b \<Rightarrow>
                let item = item\<lparr>s_subnet := net_string (map_option snd (parse_cidr (s_subnet item)))\<rparr> in
                Inr (if s_broadcast item = [] then item\<lparr>s_broadcast := b\<rparr> else item)))"

definition normalizeSite_limits :: "site \<Rightarrow> site result" where
  "normalizeSite_limits item0 =
     (let item = item0\<lparr>
            s_port := if s_port item0 = 0 then 9 else s_port item0,
            s_timeout_ms := if s_timeout_ms item0 = 0 then 2500 else s_timeout_ms item0,
            s_concurrency := if s_concurrency item0 = 0 then 4 else s_concurrency item0\<rparr> in
      if s_port item < 1 \<or> s_port item > 65535
      then Inl (Errorf (''port must be 1'' @ en_dash @ ''65535''))
      else if s_timeout_ms item < 100 \<or> s_timeout_ms item > 60000
      then Inl (Errorf (''timeout must be 100'' @ en_dash @ ''60000 ms''))
      else if s_concurrency item < 1 \<or> s_concurrency item > 16
      then Inl (Errorf (''concurrency must be 1'' @ en_dash @ ''16''))
      else Inr item)"

definition normalizeSite :: "site \<Rightarrow> site result" where
  "normalizeSite item =
     (if trim_space (s_name item) = [] then Inl (Errorf ''site name is required'')
      else (case normalizeSite_subnet (item\<lparr>s_name := trim_space (s_name item)\<rparr>) of
              Inl e \<Rightarrow> Inl e
            | Inr item \<Rightarrow>
                if s_broadcast item \<noteq> [] \<and> parse_to4 (s_broadcast item) = None
                then Inl (Errorf ''broadcast must be IPv4'')
                else normalizeSite_limits item))"

definition ListSites :: "site list m" where
  "ListSites = query (\<lambda>d. sort_key s_name (t_sites d))"

definition GetSite :: "string \<Rightarrow> site m" where
  "GetSite uid = select_row (\<lambda>d. find_row s_id uid (t_sites d))"

text \<open>The row a site is stored as; the name is trimmed once more.\<close>

definition insert_site :: "site \<Rightarrow> unit m" where
  "insert_site item = map_error normalizeDBError
     (exec_insert t_sites put_sites site_keys (item\<lparr>s_name := trim_space (s_name item)\<rparr>))"

definition set_site :: "site \<Rightarrow> site \<Rightarrow> site" where
  "set_site item r = r\<lparr>s_name := trim_space (s_name item), s_broadcast := s_broadcast item,
     s_port := s_port item, s_interface := s_interface item, s_updated := s_updated item,
     s_subnet := s_subnet item, s_relay_id := s_relay_id item, s_timeout_ms := s_timeout_ms item,
     s_concurrency := s_concurrency item\<rparr>"

definition update_site :: "string \<Rightarrow> site \<Rightarrow> nat m" where
  "update_site uid item = map_error normalizeDBError
     (exec_update t_sites put_sites site_keys (\<lambda>r. s_id r = uid) (set_site item))"

definition stamp_site :: "string \<Rightarrow> string \<Rightarrow> site \<Rightarrow> site" where
  "stamp_site t uid item = item\<lparr>s_id := uid, s_created := t, s_updated := t,
     s_port := if s_port item = 0 then 9 else s_port item\<rparr>"

definition CreateSite :: "site \<Rightarrow> site m" where
  "CreateSite item =
     andThen (lift (normalizeSite item)) (\<lambda>item.
     andThen now (\<lambda>t.
     andThen (newID ''site'') (\<lambda>uid.
     andThen (insert_site (stamp_site t uid item)) (\<lambda>_.
     ret (stamp_site t uid item)))))"

definition UpdateSite :: "string \<Rightarrow> site \<Rightarrow> site m" where
  "UpdateSite uid item =
     andThen (lift (normalizeSite item)) (\<lambda>item.
     andThen now (\<lambda>t.
     andThen (update_site uid (item\<lparr>s_updated := t\<rparr>)) (\<lambda>count.
     if count = 0 then fail ErrNotFound else GetSite uid)))"

definition DeleteSite :: "string \<Rightarrow> unit m" where
  "DeleteSite uid =
     andThen (query (\<lambda>d. count_rows (\<lambda>v. d_site_id v = uid) (t_devices d))) (\<lambda>used.
     if used > 0
     then fail (Errorf (''site is assigned to '' @ itoa (int used) @ '' machines; reassign them before deleting''))
     else tx (
       andThen (exec_update t_devices put_devices device_keys (\<lambda>v. d_site_id v = uid) (\<lambda>v. v\<lparr>d_site_id := []\<rparr>)) (\<lambda>_.
       andThen (map_error normalizeDBError (exec_delete t_sites put_sites (\<lambda>s. s_id s = uid))) (\<lambda>count.
       if count = 0 then fail ErrNotFound else ret (Commit ())))))"

text \<open>\<open>upsertSiteOn\<close>, on the transaction of Import.\<close>

definition upsertSiteOn :: "site \<Rightarrow> site m" where
  "upsertSiteOn item =
     andThen (lift (normalizeSite item)) (\<lambda>item.
     andThen (query (\<lambda>d. find_row s_name (s_name item) (t_sites d))) (\<lambda>existing.
     case existing of
       None \<Rightarrow>
         andThen now (\<lambda>t.
         andThen (newID ''site'') (\<lambda>uid.
         andThen (insert_site (stamp_site t uid item)) (\<lambda>_.
         ret (stamp_site t uid item))))
     | Some row \<Rightarrow>
         andThen now (\<lambda>t.
         let item = item\<lparr>s_updated := t, s_port := if s_port item = 0 then 9 else s_port item\<rparr> in
         andThen (update_site (s_id row) item) (\<lambda>count.
         if count = 0 then fail ErrNotFound else ret (item\<lparr>s_id := s_id row\<rparr>)))))"

section \<open>Following a discovered address\<close>

definition SyncDeviceAddress :: "string \<Rightarrow> string \<Rightarrow> string \<Rightarrow> bool m" where
  "SyncDeviceAddress uid oldIP newIP =
     (if parse_to4 newIP = None then fail (Errorf ''discovered address must be IPv4'')
      else tx (
        andThen now (\<lambda>t.
        andThen (exec_update t_devices put_devices device_keys (\<lambda>v. d_id v = uid \<and> d_ip v = oldIP)
          (\<lambda>v. v\<lparr>d_ip := newIP, d_updated := t\<rparr>)) (\<lambda>n.
        if n = 0 then ret (Rollback False)
        else
          andThen (exec_update t_profiles put_profiles profile_keys
            (\<lambda>p. rp_device_id p = uid \<and> rp_host p = oldIP)
            (\<lambda>p. p\<lparr>rp_host := newIP, rp_updated := t\<rparr>)) (\<lambda>_.
          ret (Commit True))))))"

section \<open>Wake relays\<close>

definition normalizeWakeRelay :: "wake_relay \<Rightarrow> wake_relay" where
  "normalizeWakeRelay item = item\<lparr>
     r_port := if r_port item = 0 then 22 else r_port item,
     r_transport := if r_transport item = [] then ''ssh_etherwake'' else r_transport item,
     r_interface := if r_interface item = [] then ''br-lan'' else r_interface item\<rparr>"

definition scanWakeRelay :: "wake_relay \<Rightarrow> wake_relay" where
  "scanWakeRelay item = item\<lparr>
     r_transport := if r_transport item = [] then ''ssh_etherwake'' else r_transport item,
     r_interface := if r_interface item = [] then ''br-lan'' else r_interface item\<rparr>"

definition ListWakeRelays :: "wake_relay list m" where
  "ListWakeRelays = query (\<lambda>d. map scanWakeRelay (sort_key r_name (t_relays d)))"

definition GetWakeRelay :: "string \<Rightarrow> wake_relay m" where
  "GetWakeRelay uid = select_row (\<lambda>d. map_option scanWakeRelay (find_row r_id uid (t_relays d)))"

definition insert_relay :: "wake_relay \<Rightarrow> unit m" where
  "insert_relay item = map_error normalizeDBError (exec_insert t_relays put_relays relay_keys
     (item\<lparr>r_name := trim_space (r_name item), r_address := trim_space (r_address item)\<rparr>))"

definition set_relay :: "wake_relay \<Rightarrow> wake_relay \<Rightarrow> wake_relay" where
  "set_relay item r = r\<lparr>r_name := trim_space (r_name item), r_address := trim_space (r_address item),
     r_port := r_port item, r_transport := r_transport item, r_interface := r_interface item,
     r_ssh_user := r_ssh_user item, r_secret_hash := r_secret_hash item, r_enabled := r_enabled item,
     r_updated := r_updated item\<rparr>"

definition update_relay :: "string \<Rightarrow> wake_relay \<Rightarrow> nat m" where
  "update_relay uid item = map_error normalizeDBError
     (exec_update t_relays put_relays relay_keys (\<lambda>r. r_id r = uid) (set_relay item))"

definition stamp_relay :: "string \<Rightarrow> string \<Rightarrow> wake_relay \<Rightarrow> wake_relay" where
  "stamp_relay t uid item = normalizeWakeRelay (item\<lparr>r_id := uid, r_created := t, r_updated := t\<rparr>)"

definition CreateWakeRelay :: "wake_relay \<Rightarrow> wake_relay m" where
  "CreateWakeRelay item =
     andThen now (\<lambda>t.
     andThen (newID ''relay'') (\<lambda>uid.
     andThen (insert_relay (stamp_relay t uid item)) (\<lambda>_.
     ret (stamp_relay t uid item))))"

definition UpdateWakeRelay :: "string \<Rightarrow> wake_relay \<Rightarrow> wake_relay m" where
  "UpdateWakeRelay uid item =
     andThen now (\<lambda>t.
     andThen (update_relay uid (normalizeWakeRelay (item\<lparr>r_updated := t\<rparr>))) (\<lambda>count.
     if count = 0 then fail ErrNotFound else GetWakeRelay uid))"

definition DeleteWakeRelay :: "string \<Rightarrow> unit m" where
  "DeleteWakeRelay uid =
     andThen (query (\<lambda>d. count_rows (\<lambda>s. s_relay_id s = uid) (t_sites d))) (\<lambda>used.
     if used > 0
     then fail (Errorf (''relay is used by '' @ itoa (int used) @ '' sites; change their wake routes first''))
     else tx (
       andThen (exec_update t_devices put_devices device_keys (\<lambda>v. d_relay_id v = uid) (\<lambda>v. v\<lparr>d_relay_id := []\<rparr>)) (\<lambda>_.
       andThen (map_error normalizeDBError (exec_delete t_relays put_relays (\<lambda>r. r_id r = uid))) (\<lambda>count.
       if count = 0 then fail ErrNotFound else ret (Commit ())))))"

definition upsertWakeRelayOn :: "wake_relay \<Rightarrow> wake_relay m" where
  "upsertWakeRelayOn item =
     andThen (query (\<lambda>d. find_row r_name (trim_space (r_name item)) (t_relays d))) (\<lambda>existing.
     case existing of
       None \<Rightarrow>
         andThen now (\<lambda>t.
         andThen (newID ''relay'') (\<lambda>uid.
         andThen (insert_relay (stamp_relay t uid item)) (\<lambda>_.
         ret (stamp_relay t uid item))))
     | Some row \<Rightarrow>
         andThen now (\<lambda>t.
         let item = normalizeWakeRelay (item\<lparr>r_updated := t\<rparr>) in
         andThen (update_relay (r_id row) item) (\<lambda>count.
         if count = 0 then fail ErrNotFound else ret (item\<lparr>r_id := r_id row\<rparr>))))"

end
