(* ===== verification/StoreDevices.thy ===== *)
theory StoreDevices
  imports StoreMonad
begin

text \<open>
  Devices and groups (\<open>store.go\<close>) and the wake attempt log. A group's row has an empty device
  list; its members are the rows of \<open>group_members\<close> in position order.
\<close>

section \<open>Devices\<close>

definition ListDevices :: "device list m" where
  "ListDevices = query (\<lambda>d. sort_key d_name (t_devices d))"

definition GetDevice :: "string \<Rightarrow> device m" where
  "GetDevice uid = select_row (\<lambda>d. find_row d_id uid (t_devices d))"

definition insert_device :: "device \<Rightarrow> unit m" where
  "insert_device item = map_error normalizeDBError (exec_insert t_devices put_devices device_keys
     (item\<lparr>d_name := trim_space (d_name item), d_mac := to_lower (d_mac item)\<rparr>))"

definition set_device :: "device \<Rightarrow> device \<Rightarrow> device" where
  "set_device item r = r\<lparr>d_name := trim_space (d_name item), d_mac := to_lower (d_mac item),
     d_ip := d_ip item, d_broadcast := d_broadcast item, d_port := d_port item,
     d_interface := d_interface item, d_site_id := d_site_id item, d_type := d_type item,
     d_platform := d_platform item, d_strategy := d_strategy item, d_relay_id := d_relay_id item,
     d_verify_port := d_verify_port item, d_description := d_description item,
     d_enabled := d_enabled item, d_updated := d_updated item\<rparr>"

definition update_device :: "string \<Rightarrow> device \<Rightarrow> nat m" where
  "update_device uid item = map_error normalizeDBError
     (exec_update t_devices put_devices device_keys (\<lambda>r. d_id r = uid) (set_device item))"

definition device_defaults :: "device \<Rightarrow> device" where
  "device_defaults item = item\<lparr>
     d_platform := if d_platform item = [] then ''unknown'' else d_platform item,
     d_strategy := if d_strategy item = [] then ''broadcast'' else d_strategy item\<rparr>"

definition stamp_device :: "string \<Rightarrow> string \<Rightarrow> device \<Rightarrow> device" where
  "stamp_device t uid item = device_defaults (item\<lparr>d_id := uid, d_created := t, d_updated := t,
     d_type := if d_type item = [] then ''unknown'' else d_type item\<rparr>)"

definition CreateDevice :: "device \<Rightarrow> device m" where
  "CreateDevice item =
     andThen now (\<lambda>t.
     andThen (newID ''device'') (\<lambda>uid.
     andThen (insert_device (stamp_device t uid item)) (\<lambda>_.
     ret (stamp_device t uid item))))"

definition UpdateDevice :: "string \<Rightarrow> device \<Rightarrow> device m" where
  "UpdateDevice uid item =
     andThen now (\<lambda>t.
     andThen (update_device uid (device_defaults (item\<lparr>d_updated := t\<rparr>))) (\<lambda>count.
     if count = 0 then fail ErrNotFound else GetDevice uid))"

definition DeleteDevice :: "string \<Rightarrow> unit m" where
  "DeleteDevice uid = tx (
     andThen (exec_delete t_members put_members (\<lambda>m. m_device m = uid)) (\<lambda>_.
     andThen (exec_delete t_profiles put_profiles (\<lambda>p. rp_device_id p = uid)) (\<lambda>_.
     andThen (exec_delete t_power put_power (\<lambda>p. pp_device_id p = uid)) (\<lambda>_.
     andThen (map_error normalizeDBError (exec_delete t_devices put_devices (\<lambda>v. d_id v = uid))) (\<lambda>count.
     if count = 0 then fail ErrNotFound else ret (Commit ()))))))"

definition upsertDeviceOn :: "device \<Rightarrow> device m" where
  "upsertDeviceOn item =
     andThen (query (\<lambda>d. find_row d_mac (to_lower (d_mac item)) (t_devices d))) (\<lambda>existing.
     case existing of
       None \<Rightarrow>
         andThen now (\<lambda>t.
         andThen (newID ''device'') (\<lambda>uid.
         andThen (insert_device (stamp_device t uid item)) (\<lambda>_.
         ret (stamp_device t uid item))))
     | Some row \<Rightarrow>
         andThen now (\<lambda>t.
         andThen (update_device (d_id row) (device_defaults (item\<lparr>d_updated := t\<rparr>))) (\<lambda>count.
         if count = 0 then fail ErrNotFound
         else select_row (\<lambda>d. find_row d_id (d_id row) (t_devices d)))))"

section \<open>Groups\<close>

definition members_of :: "string \<Rightarrow> db \<Rightarrow> string list" where
  "members_of gid d = map m_device
     (sort_key (\<lambda>m. (m_position m, m_device m)) (filter (\<lambda>m. m_group m = gid) (t_members d)))"

definition groupDeviceIDs :: "string \<Rightarrow> string list m" where
  "groupDeviceIDs gid = query (members_of gid)"

definition ListGroups :: "group list m" where
  "ListGroups =
     andThen (query (\<lambda>d. sort_key g_name (t_groups d))) (\<lambda>groups.
     for_each (\<lambda>g acc. andThen (groupDeviceIDs (g_id g)) (\<lambda>ids. ret (acc @ [g\<lparr>g_device_ids := ids\<rparr>])))
       groups [])"

definition GetGroup :: "string \<Rightarrow> group m" where
  "GetGroup uid =
     andThen (select_row (\<lambda>d. find_row g_id uid (t_groups d))) (\<lambda>g.
     andThen (groupDeviceIDs uid) (\<lambda>ids. ret (g\<lparr>g_device_ids := ids\<rparr>)))"

definition replaceMembers :: "string \<Rightarrow> string list \<Rightarrow> unit m" where
  "replaceMembers gid deviceIDs =
     andThen (exec_delete t_members put_members (\<lambda>m. m_group m = gid)) (\<lambda>_.
     for_each (\<lambda>(position, deviceID) _. map_error normalizeDBError
         (exec_insert t_members put_members member_keys
           \<lparr>m_group = gid, m_device = deviceID, m_position = int position\<rparr>))
       (enumerate 0 deviceIDs) ())"

definition insert_group :: "group \<Rightarrow> unit m" where
  "insert_group item = map_error normalizeDBError (exec_insert t_groups put_groups group_keys
     (item\<lparr>g_name := trim_space (g_name item), g_device_ids := []\<rparr>))"

definition update_group :: "string \<Rightarrow> group \<Rightarrow> string \<Rightarrow> nat m" where
  "update_group uid item t = map_error normalizeDBError (exec_update t_groups put_groups group_keys
     (\<lambda>r. g_id r = uid)
     (\<lambda>r. r\<lparr>g_name := trim_space (g_name item), g_description := g_description item, g_updated := t\<rparr>))"

definition CreateGroup :: "group \<Rightarrow> group m" where
  "CreateGroup item =
     andThen now (\<lambda>t.
     andThen (newID ''group'') (\<lambda>uid.
     let item = item\<lparr>g_id := uid, g_created := t, g_updated := t\<rparr> in
     tx (
       andThen (insert_group item) (\<lambda>_.
       andThen (replaceMembers uid (g_device_ids item)) (\<lambda>_.
       ret (Commit item))))))"

definition UpdateGroup :: "string \<Rightarrow> group \<Rightarrow> group m" where
  "UpdateGroup uid item =
     andThen now (\<lambda>t.
     andThen (tx (
       andThen (update_group uid item t) (\<lambda>count.
       if count = 0 then fail ErrNotFound
       else andThen (replaceMembers uid (g_device_ids item)) (\<lambda>_. ret (Commit ()))))) (\<lambda>_.
     GetGroup uid))"

definition DeleteGroup :: "string \<Rightarrow> unit m" where
  "DeleteGroup uid = tx (
     andThen (exec_delete t_members put_members (\<lambda>m. m_group m = uid)) (\<lambda>_.
     andThen (map_error normalizeDBError (exec_delete t_groups put_groups (\<lambda>g. g_id g = uid))) (\<lambda>count.
     if count = 0 then fail ErrNotFound else ret (Commit ()))))"

definition upsertGroupOn :: "group \<Rightarrow> unit m" where
  "upsertGroupOn item =
     andThen (query (\<lambda>d. find_row g_name (g_name item) (t_groups d))) (\<lambda>existing.
     andThen now (\<lambda>t.
     case existing of
       None \<Rightarrow>
         andThen (newID ''group'') (\<lambda>uid.
         andThen (insert_group (item\<lparr>g_id := uid, g_created := t, g_updated := t\<rparr>)) (\<lambda>_.
         replaceMembers uid (g_device_ids item)))
     | Some row \<Rightarrow>
         andThen (update_group (g_id row) item t) (\<lambda>count.
         if count = 0 then fail ErrNotFound
         else replaceMembers (g_id row) (g_device_ids item))))"

section \<open>Wake attempts\<close>

text \<open>\<open>ORDER BY created_at DESC LIMIT ?\<close>; rows of one instant keep their row order.\<close>

definition newest :: "('r \<Rightarrow> string) \<Rightarrow> nat \<Rightarrow> 'r list \<Rightarrow> 'r list" where
  "newest created limit rows = take limit (rev (sort_key created (rev rows)))"

definition RecordWakeAttempt :: "wake_attempt \<Rightarrow> wake_attempt m" where
  "RecordWakeAttempt item =
     andThen (if wa_id item = [] then newID ''wake'' else ret (wa_id item)) (\<lambda>uid.
     andThen (if wa_created item = [] then now else ret (wa_created item)) (\<lambda>t.
     andThen (map_error normalizeDBError
       (exec_insert t_wakes put_wakes wake_keys (item\<lparr>wa_id := uid, wa_created := t\<rparr>))) (\<lambda>_.
     ret (item\<lparr>wa_id := uid, wa_created := t\<rparr>))))"

definition ListWakeAttempts :: "int \<Rightarrow> wake_attempt list m" where
  "ListWakeAttempts limit =
     (let limit = (if limit \<le> 0 \<or> limit > 500 then 100 else limit) in
      query (\<lambda>d. newest wa_created (nat limit) (t_wakes d)))"

end
