(* ===== verification/StoreProfiles.thy ===== *)
theory StoreProfiles
  imports StoreDevices NetAddr
begin

text \<open>
  Remote profiles (\<open>remote_profile.go\<close>), power profiles and the power attempt log
  (\<open>power_profile.go\<close>): one profile of each kind per device.
\<close>

section \<open>Host names\<close>

text \<open>With the flag \<open>(?i)\<close> the class \<open>[a-z]\<close> also matches the long s (U+017F) and the Kelvin
  sign (U+212A), which fold to \<open>s\<close> and \<open>k\<close>. \<open>strings.ToLower\<close> maps the Kelvin sign to \<open>k\<close> and
  keeps the long s.\<close>

definition kelvin :: string where
  "kelvin = map char_of ([0xE2, 0x84, 0xAA] :: nat list)"

definition long_s :: string where
  "long_s = map char_of ([0xC5, 0xBF] :: nat list)"

fun replace_wide :: "string \<Rightarrow> char \<Rightarrow> string \<Rightarrow> string" where
  "replace_wide w c [] = []"
| "replace_wide w c (x # xs) =
     (if w \<noteq> [] \<and> has_prefix (x # xs) w then c # replace_wide w c (drop (length w - 1) xs)
      else x # replace_wide w c xs)"

definition host_lower :: "string \<Rightarrow> string" where
  "host_lower s = to_lower (replace_wide kelvin CHR ''k'' s)"

definition host_label :: "string \<Rightarrow> bool" where
  "host_label l \<longleftrightarrow> l \<noteq> [] \<and> length l \<le> 63 \<and> is_alnum (hd l) \<and> is_alnum (last l) \<and>
     list_all (\<lambda>c. is_alnum c \<or> c = CHR ''-'') l"

definition hostnamePattern :: "string \<Rightarrow> bool" where
  "hostnamePattern s \<longleftrightarrow>
     list_all host_label (split_char CHR ''.'' (replace_wide kelvin CHR ''k'' (replace_wide long_s CHR ''s'' s)))"

definition digits_between :: "nat \<Rightarrow> nat \<Rightarrow> string \<Rightarrow> bool" where
  "digits_between lo hi s \<longleftrightarrow> lo \<le> length s \<and> length s \<le> hi \<and> list_all is_digit s"

definition resolutionPattern :: "string \<Rightarrow> bool" where
  "resolutionPattern s =
     (case cut_char CHR ''x'' s of (a, b, ok) \<Rightarrow> ok \<and> digits_between 3 5 a \<and> digits_between 3 5 b)"

section \<open>Remote profiles\<close>

definition trim_profile :: "remote_profile \<Rightarrow> remote_profile" where
  "trim_profile p = p\<lparr>
     rp_device_id := trim_space (rp_device_id p), rp_protocol := to_lower (trim_space (rp_protocol p)),
     rp_host := trim_space (rp_host p), rp_username := trim_space (rp_username p),
     rp_domain := trim_space (rp_domain p),
     rp_cert_policy := to_lower (trim_space (rp_cert_policy p)), rp_mode := to_lower (trim_space (rp_mode p)),
     rp_app := trim_space (rp_app p), rp_resolution := to_lower (trim_space (rp_resolution p))\<rparr>"

definition protocol_port :: "string \<Rightarrow> int option" where
  "protocol_port proto =
     (if proto = ''rdp'' then Some 3389 else if proto = ''vnc'' then Some 5900
      else if proto = ''ssh'' then Some 22 else if proto = ''sunshine'' then Some 47989 else None)"

definition normalize_host :: "string \<Rightarrow> string result" where
  "normalize_host h =
     (case parse_ip h of
        Some ip \<Rightarrow>
          (case to4 ip of
             None \<Rightarrow> Inl (Errorf ''remote host must be a private IPv4 address or hostname'')
           | Some q \<Rightarrow>
               if \<not> is_private4 q \<and> \<not> is_loopback q \<and> \<not> is_link_local4 q
               then Inl (Errorf ''remote host must be a private IPv4 address or hostname'')
               else Inr (v4_string q))
      | None \<Rightarrow>
          let looksLikeIPv4 = (count_char CHR ''.'' h = 3 \<and> list_all (\<lambda>c. is_digit c \<or> c = CHR ''.'') h);
              localHostname = (CHR ''.'' \<notin> set h \<or> has_suffix (host_lower h) ''.local'') in
          if looksLikeIPv4 \<or> \<not> localHostname \<or> length h > 253 \<or> \<not> hostnamePattern h
          then Inl (Errorf ''remote host must be a private IPv4 address or local hostname'')
          else Inr (host_lower h))"

definition remote_modes :: "string list" where
  "remote_modes = [''native'', ''browser-local'', ''native-moonlight'', ''web-moonlight'']"

definition normalize_mode :: "remote_profile \<Rightarrow> remote_profile" where
  "normalize_mode p =
     (if rp_mode p = []
      then p\<lparr>rp_mode := if rp_protocol p = ''sunshine'' then ''native-moonlight'' else ''native''\<rparr> else p)"

definition normalize_sunshine :: "remote_profile \<Rightarrow> remote_profile result" where
  "normalize_sunshine p =
     (if rp_protocol p \<noteq> ''sunshine'' then Inr p
      else
        let p = p\<lparr>rp_app := if rp_app p = [] then ''Desktop'' else rp_app p\<rparr> in
        if rp_fps p < 0 \<or> rp_fps p > 360 then Inl (Errorf ''fps must be between 0 and 360'')
        else if rp_bitrate p < 0 \<or> rp_bitrate p > 500000
        then Inl (Errorf ''bitrate must be between 0 and 500000 kbps'')
        else if rp_resolution p \<noteq> [] \<and> \<not> resolutionPattern (rp_resolution p)
        then Inl (Errorf ''resolution must be in format WIDTHxHEIGHT (e.g. 1920x1080)'')
        else Inr p)"

definition bad_hint :: "string \<Rightarrow> bool" where
  "bad_hint s \<longleftrightarrow> length s > 128 \<or> (\<exists>c \<in> set s. code c = 13 \<or> code c = 10 \<or> code c = 0)"

definition normalize_policy :: "remote_profile \<Rightarrow> remote_profile result" where
  "normalize_policy p =
     (if bad_hint (rp_username p) then Inl (Errorf ''remote username hint is invalid'')
      else if bad_hint (rp_domain p) then Inl (Errorf ''remote domain hint is invalid'')
      else
        let p = p\<lparr>rp_cert_policy := if rp_cert_policy p = [] then ''strict'' else rp_cert_policy p\<rparr> in
        if rp_cert_policy p \<noteq> ''strict'' \<and> rp_cert_policy p \<noteq> ''trust-local''
        then Inl (Errorf ''remote certificate policy must be strict or trust-local'')
        else if rp_protocol p \<noteq> ''rdp'' then Inr (p\<lparr>rp_cert_policy := ''strict'', rp_domain := []\<rparr>)
        else Inr p)"

text \<open>The ports, then the rest: the host is already the normal one.\<close>

definition normalize_ports :: "int \<Rightarrow> remote_profile \<Rightarrow> remote_profile result" where
  "normalize_ports defaultPort p0 =
     (let p = p0\<lparr>rp_port := if rp_port p0 = 0 then defaultPort else rp_port p0\<rparr>;
          q = p\<lparr>rp_verify_port := if rp_verify_port p = 0 then rp_port p else rp_verify_port p\<rparr> in
      if rp_port p < 1 \<or> rp_port p > 65535
      then Inl (Errorf ''remote port must be between 1 and 65535'')
      else if rp_verify_port q < 1 \<or> rp_verify_port q > 65535
      then Inl (Errorf ''remote verify port must be between 1 and 65535'')
      else Inr q)"

definition normalizeRemoteProfile :: "remote_profile \<Rightarrow> remote_profile result" where
  "normalizeRemoteProfile item =
     (let p = trim_profile item in
      if rp_device_id p = [] then Inl (Errorf ''remote profile device is required'')
      else (case protocol_port (rp_protocol p) of
              None \<Rightarrow> Inl (Errorf ''remote protocol must be rdp, vnc, ssh, or sunshine'')
            | Some defaultPort \<Rightarrow>
                if rp_host p = [] then Inl (Errorf ''remote host is required'')
                else (case normalize_host (rp_host p) of
                        Inl e \<Rightarrow> Inl e
                      | Inr h \<Rightarrow>
                          (case normalize_ports defaultPort (p\<lparr>rp_host := h\<rparr>) of
                             Inl e \<Rightarrow> Inl e
                           | Inr p \<Rightarrow>
                               if rp_mode (normalize_mode p) \<notin> set remote_modes
                               then Inl (Errorf ''remote mode must be native, browser-local, native-moonlight, or web-moonlight'')
                               else (case normalize_sunshine (normalize_mode p) of
                                       Inl e \<Rightarrow> Inl e
                                     | Inr p \<Rightarrow> normalize_policy p)))))"

definition find_profile :: "string \<Rightarrow> db \<Rightarrow> remote_profile option" where
  "find_profile device d = find_row rp_device_id device (t_profiles d)"

definition GetRemoteProfile :: "string \<Rightarrow> remote_profile m" where
  "GetRemoteProfile device = select_row (find_profile (trim_space device))"

definition ListRemoteProfiles :: "remote_profile list m" where
  "ListRemoteProfiles = query (\<lambda>d. sort_key rp_device_id (t_profiles d))"

definition set_profile :: "remote_profile \<Rightarrow> string \<Rightarrow> remote_profile \<Rightarrow> remote_profile" where
  "set_profile item t r = r\<lparr>rp_protocol := rp_protocol item, rp_host := rp_host item,
     rp_port := rp_port item, rp_verify_port := rp_verify_port item, rp_username := rp_username item,
     rp_domain := rp_domain item, rp_cert_policy := rp_cert_policy item, rp_mode := rp_mode item,
     rp_app := rp_app item, rp_fps := rp_fps item, rp_resolution := rp_resolution item,
     rp_bitrate := rp_bitrate item, rp_enabled := rp_enabled item, rp_updated := t\<rparr>"

text \<open>The \<open>switch\<close> of both upserts: INSERT when the device has no profile, UPDATE otherwise.\<close>

definition write_profile :: "remote_profile option \<Rightarrow> remote_profile \<Rightarrow> string \<Rightarrow> unit m" where
  "write_profile existing item t =
     (case existing of
        None \<Rightarrow>
          andThen (if rp_id item = [] then newID ''remote'' else ret (rp_id item)) (\<lambda>uid.
          map_error normalizeDBError (exec_insert t_profiles put_profiles profile_keys
            (item\<lparr>rp_id := uid, rp_created := t, rp_updated := t\<rparr>)))
      | Some _ \<Rightarrow>
          andThen (map_error normalizeDBError (exec_update t_profiles put_profiles profile_keys
            (\<lambda>r. rp_device_id r = rp_device_id item) (set_profile item t))) (\<lambda>_. ret ()))"

definition UpsertRemoteProfile :: "remote_profile \<Rightarrow> remote_profile m" where
  "UpsertRemoteProfile item0 =
     (let item = item0\<lparr>rp_device_id := trim_space (rp_device_id item0)\<rparr> in
      andThen (map_error (\<lambda>e. if errors_is e ErrNotFound then Wrapf ''remote profile device'' ErrNotFound else e)
        (GetDevice (rp_device_id item))) (\<lambda>dev.
      andThen (lift (normalizeRemoteProfile
        (if trim_space (rp_host item) = [] then item\<lparr>rp_host := d_ip dev\<rparr> else item))) (\<lambda>item.
      andThen now (\<lambda>t.
      andThen (query (find_profile (trim_space (rp_device_id item)))) (\<lambda>existing.
      andThen (write_profile existing item t) (\<lambda>_.
      GetRemoteProfile (rp_device_id item)))))))"

definition upsertRemoteProfileOn :: "remote_profile \<Rightarrow> remote_profile m" where
  "upsertRemoteProfileOn item0 =
     (let item = item0\<lparr>rp_device_id := trim_space (rp_device_id item0)\<rparr> in
      andThen (if trim_space (rp_host item) \<noteq> [] then ret item
               else andThen (map_error (\<lambda>e. if e = ErrNotFound then Wrapf ''remote profile device'' ErrNotFound else e)
                      (select_row (\<lambda>d. find_row d_id (rp_device_id item) (t_devices d)))) (\<lambda>dev.
                    ret (item\<lparr>rp_host := d_ip dev\<rparr>))) (\<lambda>item.
      andThen (lift (normalizeRemoteProfile item)) (\<lambda>item.
      andThen now (\<lambda>t.
      andThen (query (find_profile (rp_device_id item))) (\<lambda>existing.
      andThen (write_profile existing item t) (\<lambda>_.
      select_row (find_profile (rp_device_id item))))))))"

definition DeleteRemoteProfile :: "string \<Rightarrow> unit m" where
  "DeleteRemoteProfile device =
     andThen (map_error normalizeDBError
       (exec_delete t_profiles put_profiles (\<lambda>p. rp_device_id p = trim_space device))) (\<lambda>count.
     if count = 0 then fail ErrNotFound else ret ())"

section \<open>Power profiles\<close>

definition normalizePowerProfile :: "power_profile \<Rightarrow> power_profile" where
  "normalizePowerProfile p = p\<lparr>
     pp_device_id := trim_space (pp_device_id p), pp_ssh_user := trim_space (pp_ssh_user p),
     pp_ssh_key := trim_space (pp_ssh_key p),
     pp_platform := (let q = to_lower (trim_space (pp_platform p)) in if q = [] then ''windows'' else q),
     pp_ssh_port := if pp_ssh_port p \<le> 0 \<or> pp_ssh_port p > 65535 then 22 else pp_ssh_port p\<rparr>"

definition find_power :: "string \<Rightarrow> db \<Rightarrow> power_profile option" where
  "find_power device d = find_row pp_device_id device (t_power d)"

definition GetPowerProfile :: "string \<Rightarrow> power_profile m" where
  "GetPowerProfile device = select_row (find_power (trim_space device))"

definition ListPowerProfiles :: "power_profile list m" where
  "ListPowerProfiles = query (\<lambda>d. sort_key pp_device_id (t_power d))"

definition set_power :: "power_profile \<Rightarrow> string \<Rightarrow> power_profile \<Rightarrow> power_profile" where
  "set_power item t r = r\<lparr>pp_ssh_user := pp_ssh_user item, pp_ssh_port := pp_ssh_port item,
     pp_ssh_key := pp_ssh_key item, pp_platform := pp_platform item, pp_use_sudo := pp_use_sudo item,
     pp_enabled := pp_enabled item, pp_updated := t\<rparr>"

definition write_power :: "power_profile option \<Rightarrow> power_profile \<Rightarrow> string \<Rightarrow> unit m" where
  "write_power existing item t =
     (case existing of
        None \<Rightarrow>
          andThen (if pp_id item = [] then newID ''power'' else ret (pp_id item)) (\<lambda>uid.
          map_error normalizeDBError (exec_insert t_power put_power power_keys
            (item\<lparr>pp_id := uid, pp_created := t, pp_updated := t\<rparr>)))
      | Some _ \<Rightarrow>
          andThen (map_error normalizeDBError (exec_update t_power put_power power_keys
            (\<lambda>r. pp_device_id r = pp_device_id item) (set_power item t))) (\<lambda>_. ret ()))"

definition UpsertPowerProfile :: "power_profile \<Rightarrow> power_profile m" where
  "UpsertPowerProfile item =
     (let device = trim_space (pp_device_id item) in
      if device = [] then fail (Errorf ''power profile device ID is required'')
      else
        andThen (map_error (\<lambda>e. if errors_is e ErrNotFound then Wrapf ''power profile device'' ErrNotFound else e)
          (GetDevice device)) (\<lambda>_.
        let item = normalizePowerProfile (item\<lparr>pp_device_id := device\<rparr>) in
        andThen now (\<lambda>t.
        andThen (query (find_power (trim_space (pp_device_id item)))) (\<lambda>existing.
        andThen (write_power existing item t) (\<lambda>_.
        GetPowerProfile (pp_device_id item))))))"

definition upsertPowerProfileOn :: "power_profile \<Rightarrow> power_profile m" where
  "upsertPowerProfileOn item =
     (let device = trim_space (pp_device_id item) in
      if device = [] then fail (Errorf ''power profile device ID is required'')
      else
        let item = normalizePowerProfile (item\<lparr>pp_device_id := device\<rparr>) in
        andThen now (\<lambda>t.
        andThen (query (find_power (pp_device_id item))) (\<lambda>existing.
        andThen (write_power existing item t) (\<lambda>_.
        select_row (find_power (pp_device_id item))))))"

definition DeletePowerProfile :: "string \<Rightarrow> unit m" where
  "DeletePowerProfile device =
     andThen (exec_delete t_power put_power (\<lambda>p. pp_device_id p = trim_space device)) (\<lambda>count.
     if count = 0 then fail ErrNotFound else ret ())"

definition RecordPowerAttempt :: "power_attempt \<Rightarrow> power_attempt m" where
  "RecordPowerAttempt item =
     andThen (if pa_id item = [] then newID ''power_attempt'' else ret (pa_id item)) (\<lambda>uid.
     andThen (if pa_created item = [] then now else ret (pa_created item)) (\<lambda>t.
     let item = item\<lparr>pa_id := uid, pa_created := t\<rparr> in
     andThen (map_error normalizeDBError (exec_insert t_powers put_powers power_attempt_keys
       (item\<lparr>pa_device_id := trim_space (pa_device_id item), pa_device_name := trim_space (pa_device_name item),
             pa_action := trim_space (pa_action item), pa_status := trim_space (pa_status item),
             pa_message := trim_space (pa_message item)\<rparr>))) (\<lambda>_.
     ret item)))"

definition ListPowerAttempts :: "int \<Rightarrow> power_attempt list m" where
  "ListPowerAttempts limit =
     (let limit = (if limit \<le> 0 then 20 else limit) in
      query (\<lambda>d. newest pa_created (nat limit) (t_powers d)))"

end
