(* ===== verification/Wol.thy ===== *)
theory Wol
  imports NetUtil
begin

text \<open>
  \<open>internal/wol\<close>: parsing a MAC address, building the magic packet, sending it
  (\<open>packet.go\<close>) and waiting for the target's TCP port (\<open>verify.go\<close>). The operating system
  (interfaces, sockets, the context's cancellation, the clock) is an argument: a record of
  what it answers at each call.
\<close>

unbundle bit_operations_syntax

section \<open>MAC addresses\<close>

type_synonym mac = "byte list"

definition pad_octet :: "string \<Rightarrow> string" where
  "pad_octet part =
     (let p = trim_space part in if length p = 1 then CHR ''0'' # p else p)"

definition strip_separators :: "string \<Rightarrow> string" where
  "strip_separators s = filter (\<lambda>c. c \<notin> {CHR '':'', CHR ''-'', CHR ''.'', CHR '' ''}) s"

text \<open>The loop over the separators: a separator that does not occur is skipped, one that does
  not give six parts leaves the loop.\<close>

fun mac_separators :: "char list \<Rightarrow> string \<Rightarrow> string" where
  "mac_separators [] s = strip_separators s"
| "mac_separators (sep # seps) s =
     (if sep \<notin> set s then mac_separators seps s
      else if length (split_char sep s) \<noteq> 6 then strip_separators s
      else concat (map pad_octet (split_char sep s)))"

definition macDigits :: "string \<Rightarrow> string" where
  "macDigits value = mac_separators [CHR '':'', CHR ''-''] (trim_space value)"

definition multicast_bit :: "mac \<Rightarrow> bool" where
  "multicast_bit m \<longleftrightarrow> hd m AND 1 = 1"

definition ParseMAC :: "string \<Rightarrow> mac result" where
  "ParseMAC value =
     (let clean = macDigits value in
      if length clean \<noteq> 12 then Inl ErrInvalidMAC
      else case hex_decode clean of
        None \<Rightarrow> Inl ErrInvalidMAC
      | Some m \<Rightarrow>
          if length m \<noteq> 6 then Inl ErrInvalidMAC
          else if mac_string m = ''00:00:00:00:00:00'' \<or> mac_string m = ''ff:ff:ff:ff:ff:ff''
            \<or> multicast_bit m then Inl ErrInvalidMAC
          else Inr m)"

section \<open>The magic packet\<close>

text \<open>\<open>copy(packet[offset:offset+6], mac)\<close> for every offset from 6 in steps of 6. The caller has
  checked that the MAC has six bytes; the packet's length is a multiple of six, so the slice
  never runs past its end.\<close>

function copy_macs :: "mac \<Rightarrow> nat \<Rightarrow> byte list \<Rightarrow> byte list" where
  "copy_macs m off packet =
     (if off < length packet \<and> length m = 6
      then copy_macs m (off + 6) (take off packet @ take (length packet - off) m @ drop (off + 6) packet)
      else packet)"
  by pat_completeness auto
termination
  by (relation "measure (\<lambda>(m, off, packet). length packet - off)") auto

declare copy_macs.simps [simp del]

definition BuildMagicPacket :: "mac \<Rightarrow> byte list result" where
  "BuildMagicPacket m =
     (if length m \<noteq> 6 \<or> multicast_bit m then Inl ErrInvalidMAC
      else Inr (copy_macs m 6 (fold (\<lambda>i p. p[i := 0xff]) [0..<6] (replicate (6 + 16 * 6) 0))))"

section \<open>Sending\<close>

record send_request =
  sr_mac :: mac
  sr_destination :: "ip option"
  sr_port :: int
  sr_interface :: string
  sr_repeat :: int
  sr_interval :: int

record send_result =
  res_destination :: string
  res_port :: int
  res_packets :: int
  res_bytes :: int
  res_warning :: string

definition no_send :: send_result where
  "no_send = \<lparr>res_destination = [], res_port = 0, res_packets = 0, res_bytes = 0, res_warning = []\<rparr>"

text \<open>What the system answers: \<open>net.InterfaceByName\<close> with the interface's \<open>Addrs\<close>, the
  socket, and for the i-th packet the context before it, the write, and the context during
  the pause after it.\<close>

record send_env =
  se_interface :: "string \<Rightarrow> error + (error + ip option list)"
  se_listen :: "ip \<Rightarrow> error option"
  se_done :: "nat \<Rightarrow> error option"
  se_write :: "nat \<Rightarrow> error + int"
  se_pause :: "nat \<Rightarrow> error option"

definition ipv4_zero :: ip where
  "ipv4_zero = v4_in_v6 @ [0, 0, 0, 0]"

definition localIPv4 :: "send_env \<Rightarrow> string \<Rightarrow> ip result" where
  "localIPv4 env name =
     (if name = [] then Inr ipv4_zero
      else case se_interface env name of
        Inl e \<Rightarrow> Inl (Wrapf (''interface '' @ quote name @ '' not found'') e)
      | Inr (Inl e) \<Rightarrow> Inl (Wrapf (''read interface '' @ quote name) e)
      | Inr (Inr addresses) \<Rightarrow>
          (case List.map_filter (\<lambda>a. Option.bind a to4) addresses of
             [] \<Rightarrow> Inl (Errorf (''interface '' @ quote name @ '' has no IPv4 address''))
           | q # _ \<Rightarrow> Inr q))"

function send_loop :: "send_env \<Rightarrow> nat \<Rightarrow> int \<Rightarrow> nat \<Rightarrow> send_result \<Rightarrow> send_result \<times> error option" where
  "send_loop env n interval i r =
     (if i < n then
        case se_done env i of Some e \<Rightarrow> (r, Some e)
        | None \<Rightarrow>
          (case se_write env i of
             Inl e \<Rightarrow> (r, Some (Wrapf ''send magic packet'' e))
           | Inr written \<Rightarrow>
               let r' = r\<lparr>res_packets := res_packets r + 1, res_bytes := res_bytes r + written\<rparr> in
               if i + 1 < n \<and> 0 < interval then
                 (case se_pause env i of Some e \<Rightarrow> (r', Some e) | None \<Rightarrow> send_loop env n interval (i + 1) r')
               else send_loop env n interval (i + 1) r')
      else (r, None))"
  by pat_completeness auto
termination
  by (relation "measure (\<lambda>(env, n, interval, i, r). n - i)") auto

declare send_loop.simps [simp del]

definition Send :: "send_env \<Rightarrow> send_request \<Rightarrow> send_result \<times> error option" where
  "Send env rq =
     (case Option.bind (sr_destination rq) to4 of
        None \<Rightarrow> (no_send, Some (Errorf ''destination must be an IPv4 address''))
      | Some dest \<Rightarrow>
        if sr_port rq < 1 \<or> sr_port rq > 65535
        then (no_send, Some (Errorf ''port must be between 1 and 65535''))
        else
          let n = (if sr_repeat rq < 1 then 3 else sr_repeat rq) in
          if sr_interval rq < 0 then (no_send, Some (Errorf ''interval cannot be negative''))
          else case BuildMagicPacket (sr_mac rq) of
            Inl e \<Rightarrow> (no_send, Some e)
          | Inr packet \<Rightarrow>
            let local = localIPv4 env (sr_interface rq);
                addr = (case local of Inl _ \<Rightarrow> ipv4_zero | Inr a \<Rightarrow> a);
                warning = (case local of
                    Inl _ \<Rightarrow> (if trim_space (sr_interface rq) \<noteq> []
                      then ''interface '' @ quote (sr_interface rq) @ '' unavailable; sending from 0.0.0.0''
                      else [])
                  | Inr _ \<Rightarrow> []) in
            (case se_listen env addr of
               Some e \<Rightarrow> (no_send, Some (Wrapf ''open UDP socket'' e))
             | None \<Rightarrow>
                 send_loop env (nat n) (sr_interval rq) 0
                   \<lparr>res_destination = v4_string dest, res_port = sr_port rq, res_packets = 0,
                    res_bytes = 0, res_warning = warning\<rparr>))"

section \<open>Waiting for a TCP port\<close>

text \<open>The k-th dial with a given timeout either connects or not and takes some time; then
  the context may be done during the pause. Times are in nanoseconds.\<close>

record dial_env =
  de_connects :: "nat \<Rightarrow> int \<Rightarrow> bool"
  de_took :: "nat \<Rightarrow> int \<Rightarrow> int"
  de_done :: "nat \<Rightarrow> error option"

abbreviation second :: int where
  "second \<equiv> 1000000000"

definition attempt_timeout :: "int \<Rightarrow> int" where
  "attempt_timeout remaining = (if remaining < 2 * second then remaining else 2 * second)"

definition retry_wait :: "int \<Rightarrow> int" where
  "retry_wait remaining = (if remaining < second then max remaining 0 else second)"

text \<open>One round per unit of fuel; \<open>None\<close> is a loop still running when the fuel ends. The
  result is the error, if any, and the time it is returned at.\<close>

fun wait_loop :: "dial_env \<Rightarrow> error \<Rightarrow> int \<Rightarrow> nat \<Rightarrow> nat \<Rightarrow> int \<Rightarrow> (error option \<times> int) option" where
  "wait_loop env unreachable deadline 0 k now = None"
| "wait_loop env unreachable deadline (Suc fuel) k now =
     (let remaining = deadline - now in
      if remaining \<le> 0 then Some (Some unreachable, now)
      else
        let now' = now + de_took env k (attempt_timeout remaining) in
        if de_connects env k (attempt_timeout remaining) then Some (None, now')
        else
          (case de_done env k of
             Some e \<Rightarrow> Some (Some e, now')
           | None \<Rightarrow> wait_loop env unreachable deadline fuel (Suc k) (now' + retry_wait (deadline - now'))))"

definition wait_fuel :: "int \<Rightarrow> nat" where
  "wait_fuel timeout = nat (timeout div second) + 2"

definition WaitForTCP :: "dial_env \<Rightarrow> string \<Rightarrow> int \<Rightarrow> int \<Rightarrow> int \<Rightarrow> (error option \<times> int) option" where
  "WaitForTCP env host port timeout start =
     (if host = [] \<or> port < 1 \<or> port > 65535
      then Some (Some (Errorf ''invalid TCP verification target''), start)
      else
        let t = (if timeout \<le> 0 then 30 * second else timeout) in
        wait_loop env
          (Errorf (''TCP port '' @ join_host_port host (itoa port) @ '' is not reachable''))
          (start + t) (wait_fuel t) 0 start)"

section \<open>Correctness of the packet code\<close>

lemma mac_string_zero: "mac_string (replicate 6 0) = ''00:00:00:00:00:00''"
  by code_simp

lemma mac_string_ones: "mac_string (replicate 6 255) = ''ff:ff:ff:ff:ff:ff''"
  by code_simp

lemma ParseMAC_Inr:
  assumes "ParseMAC value = Inr m"
  shows "length m = 6" and "\<not> multicast_bit m" and "m \<noteq> replicate 6 0"
    and "hex_decode (macDigits value) = Some m"
  using assms mac_string_zero
  by (auto simp: ParseMAC_def Let_def split: if_splits option.splits)

text \<open>The magic packet: six bytes 0xff and sixteen copies of the address.\<close>

lemma copy_macs_step:
  assumes "length m = 6" and "length p = off" and "length q = 6"
  shows "copy_macs m off (p @ q @ rest) = copy_macs m (off + 6) ((p @ m) @ rest)"
  using assms by (subst copy_macs.simps) simp

lemma copy_macs_all:
  assumes "length m = 6"
  shows "length p = off \<Longrightarrow> copy_macs m off (p @ replicate (6 * k) 0) = p @ concat (replicate k m)"
proof (induction k arbitrary: p off)
  case 0
  then show ?case by (subst copy_macs.simps) simp
next
  case (Suc k)
  have "copy_macs m off (p @ replicate 6 0 @ replicate (6 * k) 0)
      = copy_macs m (off + 6) ((p @ m) @ replicate (6 * k) 0)"
    using assms Suc.prems by (intro copy_macs_step) simp_all
  also have "\<dots> = (p @ m) @ concat (replicate k m)"
    using assms Suc.prems by (intro Suc.IH) simp
  also have "replicate (6 * Suc k) (0::byte) = replicate 6 0 @ replicate (6 * k) 0"
    by (simp add: replicate_add [symmetric])
  ultimately show ?case by simp
qed

lemma header_fill: "fold (\<lambda>i p. p[i := 0xff]) [0..<6] (replicate (6 + 16 * 6) (0::byte))
    = replicate 6 0xff @ replicate (6 * 16) 0"
  by (simp add: replicate_add upt_rec numeral_eq_Suc)

text \<open>
  C20. \<open>BuildMagicPacket\<close> refuses every address that is not six bytes long or is a multicast
  address, and otherwise builds exactly the 102 bytes of a magic packet: six bytes 0xff
  followed by the address sixteen times.
\<close>

theorem BuildMagicPacket_layout:
  "BuildMagicPacket m =
    (if length m = 6 \<and> \<not> multicast_bit m then Inr (replicate 6 0xff @ concat (replicate 16 m))
     else Inl ErrInvalidMAC)"
  unfolding BuildMagicPacket_def header_fill
  using copy_macs_all [of m "replicate 6 0xff" 6 16] by auto

lemma hex_encode_length: "length (hex_encode bs) = 2 * length bs"
  by (induction bs) (simp_all add: hex_encode_def hex_byte_def)

lemma hex_digit_ink: "n < 16 \<Longrightarrow> ink (hex_digit n)"
  by (auto simp: ink_def ascii_def is_space_def hex_digit_def)

lemma hex_digit_not_sep:
  "n < 16 \<Longrightarrow> hex_digit n \<noteq> CHR '':''" "n < 16 \<Longrightarrow> hex_digit n \<noteq> CHR ''-''"
  by (auto simp: hex_digit_def dest!: arg_cong [of _ _ code])

lemma byte_nibbles: "unat (b :: byte) div 16 < 16" "unat (b :: byte) mod 16 < 16"
  using unat_lt2p_byte [of b] by auto

lemma pad_octet_hex_byte [simp]: "pad_octet (hex_byte b) = hex_byte b"
proof -
  have "trim_space (hex_byte b) = hex_byte b"
    by (rule trim_space_ink) (simp_all add: hex_byte_def hex_digit_ink byte_nibbles)
  then show ?thesis by (simp add: pad_octet_def hex_byte_def)
qed

lemma hex_byte_no_sep: "CHR '':'' \<notin> set (hex_byte b)" "CHR ''-'' \<notin> set (hex_byte b)"
  using hex_digit_not_sep [OF byte_nibbles(1) [of b]] hex_digit_not_sep [OF byte_nibbles(2) [of b]]
  by (auto simp: hex_byte_def)

lemma join_hd_last:
  assumes "xs \<noteq> []" and "\<forall>x \<in> set xs. x \<noteq> []"
  shows "join sep xs \<noteq> []" and "hd (join sep xs) = hd (hd xs)"
    and "last (join sep xs) = last (last xs)"
  using assms by (induction sep xs rule: join.induct) auto

lemma mac_string_split: "m \<noteq> [] \<Longrightarrow> split_char CHR '':'' (mac_string m) = map hex_byte m"
  unfolding mac_string_def by (rule split_char_join) (auto simp: hex_byte_no_sep)

lemma mac_string_trim: "m \<noteq> [] \<Longrightarrow> trim_space (mac_string m) = mac_string m"
proof (rule trim_space_ink)
  assume m: "m \<noteq> []"
  then have *: "map hex_byte m \<noteq> []" "\<forall>x \<in> set (map hex_byte m). x \<noteq> []"
    by (auto simp: hex_byte_def)
  show "mac_string m \<noteq> []" using join_hd_last(1) [OF *] by (simp add: mac_string_def)
  show "ink (hd (mac_string m))"
    using join_hd_last(2) [OF *] m
    by (simp add: mac_string_def hd_map hex_byte_def hex_digit_ink byte_nibbles)
  show "ink (last (mac_string m))"
    using join_hd_last(3) [OF *] m
    by (simp add: mac_string_def last_map hex_byte_def hex_digit_ink byte_nibbles)
qed

lemma join_sep_member: "2 \<le> length xs \<Longrightarrow> d \<in> set (join [d] xs)"
  by (induction "[d]" xs rule: join.induct) auto

lemma macDigits_mac_string: "length m = 6 \<Longrightarrow> macDigits (mac_string m) = hex_encode m"
proof -
  assume m: "length m = 6"
  then have "m \<noteq> []" by auto
  moreover have "CHR '':'' \<in> set (mac_string m)"
    unfolding mac_string_def by (rule join_sep_member) (simp add: m)
  ultimately show ?thesis
    by (simp add: macDigits_def mac_string_trim mac_string_split m hex_encode_def comp_def)
qed

lemma mac_string_inj: "length m = 6 \<Longrightarrow> length n = 6 \<Longrightarrow> mac_string m = mac_string n \<Longrightarrow> m = n"
  by (metis hex_roundtrip macDigits_mac_string option.inject)

text \<open>
  Printing an address and parsing it again gives the address back: \<open>ParseMAC\<close> inverts
  \<open>HardwareAddr.String\<close> on every unicast address other than the zero address.
\<close>

theorem ParseMAC_roundtrip:
  assumes "length m = 6" and "\<not> multicast_bit m" and "m \<noteq> replicate 6 0"
  shows "ParseMAC (mac_string m) = Inr m"
proof -
  have "mac_string m \<noteq> ''00:00:00:00:00:00''"
    using assms mac_string_inj [of m "replicate 6 0"] mac_string_zero by auto
  moreover have "mac_string m \<noteq> ''ff:ff:ff:ff:ff:ff''"
  proof
    assume "mac_string m = ''ff:ff:ff:ff:ff:ff''"
    then have "m = replicate 6 255"
      using assms(1) mac_string_inj [of m "replicate 6 255"] mac_string_ones by auto
    then show False using assms(2) by (simp add: multicast_bit_def numeral_eq_Suc)
  qed
  ultimately show ?thesis
    using assms by (simp add: ParseMAC_def Let_def macDigits_mac_string hex_roundtrip hex_encode_length)
qed

theorem ParseMAC_roundtrip_witness:
  "ParseMAC (mac_string [2, 0, 0, 0, 0, 1]) = Inr [2, 0, 0, 0, 0, 1] \<and>
   mac_string [2, 0, 0, 0, 0, 1] = ''02:00:00:00:00:01''"
proof -
  have "mac_string [2, 0, 0, 0, 0, 1] = ''02:00:00:00:00:01''" by code_simp
  moreover have "\<not> multicast_bit [2, 0, 0, 0, 0, 1]" by code_simp
  ultimately show ?thesis using ParseMAC_roundtrip [of "[2, 0, 0, 0, 0, 1]"] by (simp add: numeral_eq_Suc)
qed

section \<open>Correctness of sending and waiting\<close>

text \<open>The writes of a send that happened: those before the first one that failed.\<close>

lemma send_loop_spec:
  "send_loop env n interval i r = (r', err) \<Longrightarrow>
    \<exists>k. res_packets r' = res_packets r + int k \<and>
      (\<forall>j < k. \<exists>b. se_write env (i + j) = Inr b) \<and>
      res_bytes r' = res_bytes r + (\<Sum>j<k. case se_write env (i + j) of Inr b \<Rightarrow> b | Inl _ \<Rightarrow> 0) \<and>
      k \<le> n - i \<and> (err = None \<longrightarrow> k = n - i) \<and>
      res_destination r' = res_destination r \<and> res_port r' = res_port r"
proof (induction env n interval i r arbitrary: r' rule: send_loop.induct)
  case (1 env n interval i r)
  show ?case
  proof (cases "i < n \<and> se_done env i = None \<and> (\<exists>b. se_write env i = Inr b)")
    case False
    have "send_loop env n interval i r = (r, None) \<and> \<not> i < n \<or>
        (\<exists>e. send_loop env n interval i r = (r, Some e))"
    proof (cases "se_done env i")
      case None
      with False show ?thesis
        by (cases "se_write env i") (simp_all add: send_loop.simps [of env n interval i r])
    next
      case (Some e)
      then show ?thesis by (simp add: send_loop.simps [of env n interval i r])
    qed
    then have "r' = r" and "err = None \<longrightarrow> \<not> i < n" using "1.prems" by auto
    then show ?thesis by (intro exI [of _ 0]) auto
  next
    case True
    then obtain b where d: "se_done env i = None" and w: "se_write env i = Inr b" and "i < n" by blast
    define q where "q = r\<lparr>res_packets := res_packets r + 1, res_bytes := res_bytes r + b\<rparr>"
    show ?thesis
    proof (cases "i + 1 < n \<and> 0 < interval \<and> se_pause env i \<noteq> None")
      case True
      then have "r' = q" and "err \<noteq> None"
        using "1.prems" d w \<open>i < n\<close>
        by (cases "se_pause env i"; simp add: send_loop.simps [of env n interval i r] q_def)+
      then show ?thesis using w \<open>i < n\<close> by (intro exI [of _ 1]) (auto simp: q_def)
    next
      case False
      then have rec: "send_loop env n interval (i + 1) q = (r', err)"
        using "1.prems" d w \<open>i < n\<close>
        by (auto simp: send_loop.simps [of env n interval i r] q_def Let_def split: option.splits if_splits)
      have "\<exists>k. res_packets r' = res_packets q + int k \<and>
          (\<forall>j < k. \<exists>b. se_write env (i + 1 + j) = Inr b) \<and>
          res_bytes r' = res_bytes q + (\<Sum>j<k. case se_write env (i + 1 + j) of Inr b \<Rightarrow> b | Inl _ \<Rightarrow> 0) \<and>
          k \<le> n - (i + 1) \<and> (err = None \<longrightarrow> k = n - (i + 1)) \<and>
          res_destination r' = res_destination q \<and> res_port r' = res_port q"
      proof (cases "i + 1 < n \<and> 0 < interval")
        case True
        then show ?thesis
          using "1.IH"(1) [OF \<open>i < n\<close> d w _ True] rec False unfolding q_def by blast
      next
        case False
        then show ?thesis
          using "1.IH"(2) [OF \<open>i < n\<close> d w _ False] rec unfolding q_def by blast
      qed
      then obtain k where k: "res_packets r' = res_packets q + int k"
        "\<forall>j < k. \<exists>b. se_write env (i + 1 + j) = Inr b"
        "res_bytes r' = res_bytes q + (\<Sum>j<k. case se_write env (i + 1 + j) of Inr b \<Rightarrow> b | Inl _ \<Rightarrow> 0)"
        "k \<le> n - (i + 1)" "err = None \<longrightarrow> k = n - (i + 1)"
        "res_destination r' = res_destination q" "res_port r' = res_port q" by blast
      have "\<forall>j < Suc k. \<exists>b. se_write env (i + j) = Inr b"
        using k(2) w by (metis Suc_less_eq2 add.right_neutral add_Suc_right add_Suc_shift less_Suc_eq_0_disj plus_1_eq_Suc add.commute)
      then show ?thesis
        using k w \<open>i < n\<close> by (intro exI [of _ "Suc k"]) (auto simp: q_def sum.lessThan_Suc_shift simp del: sum.lessThan_Suc)
    qed
  qed
qed

lemma BuildMagicPacket_Inr:
  "BuildMagicPacket m = Inr p \<Longrightarrow> length m = 6 \<and> \<not> multicast_bit m"
  by (simp add: BuildMagicPacket_def split: if_splits)

lemma Send_cases:
  obtains (early) e where "Send env rq = (no_send, Some e)"
  | (sending) r where
      "Send env rq = send_loop env (nat (if sr_repeat rq < 1 then 3 else sr_repeat rq)) (sr_interval rq) 0 r"
      "res_packets r = 0" "res_bytes r = 0" "res_port r = sr_port rq"
      "length (sr_mac rq) = 6" "\<not> multicast_bit (sr_mac rq)" "1 \<le> sr_port rq" "sr_port rq \<le> 65535"
proof (cases "Option.bind (sr_destination rq) to4")
  case None
  then show ?thesis by (intro early) (simp add: Send_def)
next
  case dest: (Some dest)
  show ?thesis
  proof (cases "sr_port rq < 1 \<or> sr_port rq > 65535 \<or> sr_interval rq < 0")
    case True
    with dest show ?thesis by (cases "sr_port rq < 1 \<or> sr_port rq > 65535") (auto simp: Send_def intro: early)
  next
    case False
    show ?thesis
    proof (cases "BuildMagicPacket (sr_mac rq)")
      case (Inl e)
      with dest False show ?thesis by (intro early) (simp add: Send_def)
    next
      case (Inr packet)
      let ?a = "case localIPv4 env (sr_interface rq) of Inl _ \<Rightarrow> ipv4_zero | Inr a \<Rightarrow> a"
      show ?thesis
      proof (cases "se_listen env ?a")
        case (Some e)
        with dest False Inr show ?thesis by (intro early) (simp add: Send_def)
      next
        case None
        with dest False Inr BuildMagicPacket_Inr [OF Inr] show ?thesis
          by (intro sending) (simp_all add: Send_def Let_def del: list.case, simp_all)
      qed
    qed
  qed
qed


text \<open>The witness: a request for two packets of which the second write fails.\<close>

definition second_write_fails :: send_env where
  "second_write_fails = \<lparr>se_interface = (\<lambda>_. Inl ErrNotFound), se_listen = (\<lambda>_. None), se_done = (\<lambda>_. None),
     se_write = (\<lambda>i. if i = 0 then Inr 102 else Inl ErrCanceled), se_pause = (\<lambda>_. None)\<rparr>"

definition two_packets :: send_request where
  "two_packets = \<lparr>sr_mac = [2, 0, 0, 0, 0, 1], sr_destination = Some (v4_in_v6 @ [10, 0, 0, 255]),
    sr_port = 9, sr_interface = '''', sr_repeat = 2, sr_interval = 0\<rparr>"


text \<open>The wait: every round that does not return moves the clock on by a second or to the
  deadline, so the fuel of \<open>WaitForTCP\<close> is enough.\<close>

lemma wait_loop_Suc:
  fixes deadline now :: int and env :: dial_env and k :: nat
  defines "a \<equiv> attempt_timeout (deadline - now)"
  defines "now' \<equiv> now + de_took env k a"
  assumes "\<not> deadline \<le> now"
  shows "wait_loop env u deadline (Suc fuel) k now =
      (if de_connects env k a then Some (None, now')
       else case de_done env k of Some e \<Rightarrow> Some (Some e, now')
         | None \<Rightarrow> wait_loop env u deadline fuel (Suc k) (now' + retry_wait (deadline - now')))"
  using assms(3) unfolding a_def now'_def by (simp add: Let_def)

lemma wait_loop_total:
  assumes "\<And>k t. 0 \<le> de_took env k t"
  shows "(if deadline \<le> now then 1 else nat ((deadline - now) div second) + 2) \<le> fuel \<Longrightarrow>
    \<exists>r. wait_loop env u deadline fuel k now = Some r"
proof (induction fuel arbitrary: k now)
  case 0
  then show ?case by (simp split: if_splits)
next
  case (Suc fuel)
  show ?case
  proof (cases "deadline \<le> now")
    case True
    then show ?thesis by simp
  next
    case False
    define now' where "now' = now + de_took env k (attempt_timeout (deadline - now))"
    have "now \<le> now'" using assms by (simp add: now'_def)
    define retry where "retry = retry_wait (deadline - now')"
    have "(if deadline \<le> now' + retry then 1 else nat ((deadline - (now' + retry)) div second) + 2) \<le> fuel"
    proof (cases "deadline \<le> now' + retry")
      case True
      with Suc.prems False show ?thesis by (auto split: if_splits)
    next
      case nd: False
      then have r: "retry = second" by (auto simp: retry_def retry_wait_def split: if_splits)
      have "(deadline - (now' + second)) div second = (deadline - now') div second - 1"
        by (simp add: algebra_simps)
      also have "\<dots> \<le> (deadline - now) div second - 1"
        using \<open>now \<le> now'\<close> by (simp add: zdiv_mono1)
      finally have "nat ((deadline - (now' + retry)) div second) \<le> nat ((deadline - now) div second - 1)"
        using r by (simp add: nat_mono)
      moreover have "1 \<le> (deadline - now) div second"
        using nd r \<open>now \<le> now'\<close> by auto
      ultimately show ?thesis using Suc.prems nd False by (auto split: if_splits)
    qed
    from Suc.IH [OF this, of "Suc k"] show ?thesis
      unfolding wait_loop_Suc [OF False] now'_def retry_def by (auto split: option.splits)
  qed
qed

lemma wait_loop_time:
  assumes "\<And>k t. 0 < t \<Longrightarrow> 0 \<le> de_took env k t \<and> de_took env k t \<le> t"
  shows "wait_loop env u deadline fuel k now = Some (err, t) \<Longrightarrow> now \<le> deadline \<Longrightarrow>
    now \<le> t \<and> t \<le> deadline \<and> (err = Some u \<longrightarrow> t = deadline \<or> (\<exists>j. de_done env j = Some u))"
proof (induction fuel arbitrary: k now)
  case (Suc fuel)
  define a where "a = attempt_timeout (deadline - now)"
  define now' where "now' = now + de_took env k a"
  define retry where "retry = retry_wait (deadline - now')"
  show ?case
  proof (cases "deadline \<le> now")
    case True
    with Suc.prems show ?thesis by simp
  next
    case False
    then have "0 < a" and "a \<le> deadline - now" by (auto simp: a_def attempt_timeout_def)
    with assms [of a k] have n': "now \<le> now'" "now' \<le> deadline" by (auto simp: now'_def)
    then have "now' + retry \<le> deadline" and "0 \<le> retry"
      by (auto simp: retry_def retry_wait_def)
    have *: "wait_loop env u deadline (Suc fuel) k now =
      (if de_connects env k a then Some (None, now')
       else case de_done env k of Some e \<Rightarrow> Some (Some e, now')
         | None \<Rightarrow> wait_loop env u deadline fuel (Suc k) (now' + retry))"
      unfolding a_def now'_def retry_def by (rule wait_loop_Suc [OF False])
    from Suc.prems(1) n' Suc.IH [of "Suc k" "now' + retry"] \<open>now' + retry \<le> deadline\<close> \<open>0 \<le> retry\<close>
    show ?thesis unfolding * by (auto split: if_splits option.splits)
  qed
qed simp

text \<open>
  C24. \<open>WaitForTCP\<close> always returns, and returns in time: when a dial takes no longer than the
  timeout it is given, the wait for a valid target ends no later than the deadline (30 seconds
  when the caller gives no positive timeout).
\<close>

theorem WaitForTCP_returns:
  assumes "\<And>k t. 0 < t \<Longrightarrow> 0 \<le> de_took env k t \<and> de_took env k t \<le> t"
    and "\<And>k t. 0 \<le> de_took env k t"
  shows "\<exists>err t. WaitForTCP env host port timeout start = Some (err, t) \<and> start \<le> t \<and>
    t \<le> start + (if timeout \<le> 0 then 30 * second else timeout)"
proof (cases "host = [] \<or> port < 1 \<or> port > 65535")
  case True
  then show ?thesis by (auto simp: WaitForTCP_def)
next
  case False
  let ?t = "if timeout \<le> 0 then 30 * second else timeout"
  let ?u = "Errorf (''TCP port '' @ join_host_port host (itoa port) @ '' is not reachable'')"
  have "\<exists>r. wait_loop env ?u (start + ?t) (wait_fuel ?t) 0 start = Some r"
    using assms(2) by (intro wait_loop_total) (auto simp: wait_fuel_def)
  then obtain err t where w: "wait_loop env ?u (start + ?t) (wait_fuel ?t) 0 start = Some (err, t)"
    by fastforce
  have "start \<le> start + ?t" by simp
  from wait_loop_time [OF assms(1) w this] w False show ?thesis
    by (auto simp: WaitForTCP_def Let_def)
qed

definition slow_host :: dial_env where
  "slow_host = \<lparr>de_connects = (\<lambda>k _. 2 \<le> k), de_took = (\<lambda>_ t. max 0 (t div 2)), de_done = (\<lambda>_. None)\<rparr>"

theorem WaitForTCP_returns_witness:
  "\<exists>err t. WaitForTCP slow_host ''10.0.0.5'' 22 0 0 = Some (err, t) \<and> t \<le> 30 * second"
proof -
  have "0 \<le> de_took slow_host k t" for k t by (simp add: slow_host_def)
  moreover have "0 < t \<Longrightarrow> 0 \<le> de_took slow_host k t \<and> de_took slow_host k t \<le> t" for k t
    by (simp add: slow_host_def)
  ultimately show ?thesis
    using WaitForTCP_returns [of slow_host "''10.0.0.5''" 22 0 0] by auto
qed

end
