(* ===== verification/StoreTransfer.thy ===== *)
theory StoreTransfer
  imports StoreSites StoreProfiles Wol
begin

text \<open>
  Export and Import of the whole inventory (\<open>store.go\<close>). Import runs in one transaction and
  maps the IDs of the file to the IDs of the rows it inserts or updates. The loop over a
  group's \<open>DeviceIDs\<close> writes the mapped IDs into the caller's slice; the model builds the
  mapped list instead.
\<close>

record export_data =
  x_version :: int
  x_sites :: "site list"
  x_devices :: "device list"
  x_groups :: "group list"
  x_relays :: "wake_relay list"
  x_profiles :: "remote_profile list"
  x_power :: "power_profile list"

definition currentExportVersion :: int where
  "currentExportVersion = 6"

definition Export :: "export_data m" where
  "Export =
     andThen ListSites (\<lambda>sites.
     andThen ListDevices (\<lambda>devices.
     andThen ListGroups (\<lambda>groups.
     andThen ListWakeRelays (\<lambda>relays.
     andThen ListRemoteProfiles (\<lambda>profiles.
     andThen ListPowerProfiles (\<lambda>power.
     ret \<lparr>x_version = currentExportVersion, x_sites = sites, x_devices = devices, x_groups = groups,
          x_relays = relays, x_profiles = profiles, x_power = power\<rparr>))))))"

definition bad_ipv4 :: "string \<Rightarrow> bool" where
  "bad_ipv4 s \<longleftrightarrow> trim_space s \<noteq> [] \<and> parse_to4 (trim_space s) = None"

definition not_ipv4 :: "string \<Rightarrow> string \<Rightarrow> error" where
  "not_ipv4 label v = Errorf (label @ '' '' @ quote (trim_space v) @ '' is not an IPv4 address'')"

definition bad_port :: "int \<Rightarrow> bool" where
  "bad_port p \<longleftrightarrow> p < 0 \<or> p > 65535"

definition validateImportedDevice :: "device \<Rightarrow> error option" where
  "validateImportedDevice item =
     (if trim_space (d_name item) = [] then Some (Errorf ''name is required'')
      else if \<not> is_ok (ParseMAC (d_mac item))
      then Some (Errorf (''MAC address '' @ quote (d_mac item) @ '' is not a valid unicast MAC''))
      else if bad_ipv4 (d_ip item) then Some (not_ipv4 ''IP address'' (d_ip item))
      else if bad_ipv4 (d_broadcast item) then Some (not_ipv4 ''broadcast address'' (d_broadcast item))
      else if bad_port (d_port item)
      then Some (Errorf (''UDP port '' @ itoa (d_port item) @ '' is outside 0-65535''))
      else if bad_port (d_verify_port item)
      then Some (Errorf (''verify port '' @ itoa (d_verify_port item) @ '' is outside 0-65535''))
      else None)"

type_synonym id_map = "string \<Rightarrow> string option"

text \<open>\<open>if originalID != "" { ids[originalID] = imported.ID }\<close>.\<close>

definition remember :: "string \<Rightarrow> string \<Rightarrow> id_map \<Rightarrow> id_map" where
  "remember orig new ids = (if orig = [] then ids else ids(orig \<mapsto> new))"

definition import_relay :: "wake_relay \<Rightarrow> id_map \<Rightarrow> id_map m" where
  "import_relay relay ids =
     andThen (upsertWakeRelayOn relay) (\<lambda>imported. ret (remember (r_id relay) (r_id imported) ids))"

definition import_site :: "id_map \<Rightarrow> site \<Rightarrow> id_map \<Rightarrow> id_map m" where
  "import_site relayIDs site ids =
     andThen (if s_relay_id site = [] then ret site
              else (case relayIDs (s_relay_id site) of
                      None \<Rightarrow> fail (Errorf (''site references unknown relay '' @ quote (s_relay_id site)))
                    | Some mapped \<Rightarrow> ret (site\<lparr>s_relay_id := mapped\<rparr>))) (\<lambda>item.
     andThen (upsertSiteOn item) (\<lambda>imported. ret (remember (s_id site) (s_id imported) ids)))"

definition map_device_relay :: "id_map \<Rightarrow> device \<Rightarrow> device result" where
  "map_device_relay relayIDs dev =
     (if d_relay_id dev = [] then Inr dev
      else (case relayIDs (d_relay_id dev) of
              None \<Rightarrow> Inl (Errorf (''machine '' @ quote (d_name dev) @ '' references unknown relay '' @ quote (d_relay_id dev)))
            | Some mapped \<Rightarrow> Inr (dev\<lparr>d_relay_id := mapped\<rparr>)))"

definition map_device_site :: "id_map \<Rightarrow> device \<Rightarrow> device" where
  "map_device_site siteIDs dev =
     (case siteIDs (d_site_id dev) of
        Some mapped \<Rightarrow> dev\<lparr>d_site_id := mapped\<rparr>
      | None \<Rightarrow> if trim_space (d_site_id dev) \<noteq> [] then dev\<lparr>d_site_id := []\<rparr> else dev)"

definition import_device :: "id_map \<Rightarrow> id_map \<Rightarrow> device \<Rightarrow> id_map \<Rightarrow> id_map m" where
  "import_device relayIDs siteIDs dev ids =
     (case validateImportedDevice dev of
        Some e \<Rightarrow> fail (Wrapf (''import machine '' @ quote (d_name dev)) e)
      | None \<Rightarrow>
          andThen (lift (map_device_relay relayIDs dev)) (\<lambda>item.
          andThen (upsertDeviceOn (map_device_site siteIDs item)) (\<lambda>imported.
          ret (remember (d_id dev) (d_id imported) ids))))"

fun map_members :: "id_map \<Rightarrow> string \<Rightarrow> string list \<Rightarrow> (string list) result" where
  "map_members ids name [] = Inr []"
| "map_members ids name (old # olds) =
     (case ids old of
        None \<Rightarrow> Inl (Errorf (''group '' @ quote name @ '' references unknown machine '' @ quote old))
      | Some mapped \<Rightarrow> (case map_members ids name olds of Inl e \<Rightarrow> Inl e | Inr ms \<Rightarrow> Inr (mapped # ms)))"

definition import_group :: "id_map \<Rightarrow> group \<Rightarrow> unit m" where
  "import_group deviceIDs g =
     andThen (lift (map_members deviceIDs (g_name g) (g_device_ids g))) (\<lambda>members.
     upsertGroupOn (g\<lparr>g_device_ids := members\<rparr>))"

definition import_profile :: "id_map \<Rightarrow> remote_profile \<Rightarrow> unit m" where
  "import_profile deviceIDs p =
     (case deviceIDs (rp_device_id p) of
        None \<Rightarrow> fail (Errorf (''remote profile references unknown device '' @ quote (rp_device_id p)))
      | Some mapped \<Rightarrow>
          andThen (upsertRemoteProfileOn (p\<lparr>rp_id := [], rp_device_id := mapped\<rparr>)) (\<lambda>_. ret ()))"

definition import_power :: "id_map \<Rightarrow> power_profile \<Rightarrow> unit m" where
  "import_power deviceIDs p =
     (case deviceIDs (pp_device_id p) of
        None \<Rightarrow> fail (Errorf (''power profile references unknown device '' @ quote (pp_device_id p)))
      | Some mapped \<Rightarrow>
          andThen (upsertPowerProfileOn (p\<lparr>pp_id := [], pp_device_id := mapped\<rparr>)) (\<lambda>_. ret ()))"

definition import_all :: "export_data \<Rightarrow> unit tx_end m" where
  "import_all data =
     andThen (for_each import_relay (x_relays data) Map.empty) (\<lambda>relayIDs.
     andThen (for_each (import_site relayIDs) (x_sites data) Map.empty) (\<lambda>siteIDs.
     andThen (for_each (import_device relayIDs siteIDs) (x_devices data) Map.empty) (\<lambda>deviceIDs.
     andThen (for_each (\<lambda>g _. import_group deviceIDs g) (x_groups data) ()) (\<lambda>_.
     andThen (for_each (\<lambda>p _. import_profile deviceIDs p) (x_profiles data) ()) (\<lambda>_.
     andThen (for_each (\<lambda>p _. import_power deviceIDs p) (x_power data) ()) (\<lambda>_.
     ret (Commit ())))))))"

definition Import :: "export_data \<Rightarrow> unit m" where
  "Import data =
     (let version = (if x_version data = 0 then 1 else x_version data) in
      if version < 1 \<or> version > currentExportVersion
      then fail (Errorf (''unsupported export version '' @ itoa version))
      else tx (import_all data))"

end
