(* ===== verification/StoreInvariant.thy ===== *)
theory StoreInvariant
  imports StoreLogic StoreTransfer
begin

text \<open>
  The invariants of the inventory: the schema's unique columns (\<open>schema_ok\<close>, StoreData), the
  normal form of every row (\<open>rows_ok\<close>), and the references that the code maintains although
  SQLite does not enforce them (\<open>refs_ok\<close>). Every operation of the store keeps all three,
  whatever the driver fails and whatever it returns.
\<close>

section \<open>Rows in normal form\<close>

definition site_row_ok :: "site \<Rightarrow> bool" where
  "site_row_ok s \<longleftrightarrow> s_name s \<noteq> [] \<and> trim_space (s_name s) = s_name s \<and>
     (s_broadcast s \<noteq> [] \<longrightarrow> parse_to4 (s_broadcast s) \<noteq> None) \<and>
     1 \<le> s_port s \<and> s_port s \<le> 65535 \<and> 100 \<le> s_timeout_ms s \<and> s_timeout_ms s \<le> 60000 \<and>
     1 \<le> s_concurrency s \<and> s_concurrency s \<le> 16"

definition device_row_ok :: "device \<Rightarrow> bool" where
  "device_row_ok v \<longleftrightarrow> trim_space (d_name v) = d_name v \<and> to_lower (d_mac v) = d_mac v \<and>
     d_platform v \<noteq> [] \<and> d_strategy v \<noteq> []"

definition group_row_ok :: "group \<Rightarrow> bool" where
  "group_row_ok g \<longleftrightarrow> trim_space (g_name g) = g_name g"

definition relay_row_ok :: "wake_relay \<Rightarrow> bool" where
  "relay_row_ok r \<longleftrightarrow> trim_space (r_name r) = r_name r \<and> trim_space (r_address r) = r_address r \<and>
     r_port r \<noteq> 0 \<and> r_transport r \<noteq> [] \<and> r_interface r \<noteq> []"

definition profile_row_ok :: "remote_profile \<Rightarrow> bool" where
  "profile_row_ok p \<longleftrightarrow> rp_device_id p \<noteq> [] \<and> trim_space (rp_device_id p) = rp_device_id p \<and>
     protocol_port (rp_protocol p) \<noteq> None \<and> rp_mode p \<in> set remote_modes \<and>
     1 \<le> rp_port p \<and> rp_port p \<le> 65535 \<and> 1 \<le> rp_verify_port p \<and> rp_verify_port p \<le> 65535 \<and>
     (rp_cert_policy p = ''strict'' \<or> (rp_protocol p = ''rdp'' \<and> rp_cert_policy p = ''trust-local''))"

definition power_row_ok :: "power_profile \<Rightarrow> bool" where
  "power_row_ok p \<longleftrightarrow> trim_space (pp_device_id p) = pp_device_id p \<and>
     1 \<le> pp_ssh_port p \<and> pp_ssh_port p \<le> 65535 \<and> pp_platform p \<noteq> []"

definition rows_ok :: "db \<Rightarrow> bool" where
  "rows_ok d \<longleftrightarrow> list_all site_row_ok (t_sites d) \<and> list_all device_row_ok (t_devices d) \<and>
     list_all group_row_ok (t_groups d) \<and> list_all relay_row_ok (t_relays d) \<and>
     list_all profile_row_ok (t_profiles d) \<and> list_all power_row_ok (t_power d)"

interpretation site_rows: row_invariant t_sites put_sites site_row_ok rows_ok
  by unfold_locales (auto simp: rows_ok_def put_defs)

interpretation device_rows: row_invariant t_devices put_devices device_row_ok rows_ok
  by unfold_locales (auto simp: rows_ok_def put_defs)

interpretation group_rows: row_invariant t_groups put_groups group_row_ok rows_ok
  by unfold_locales (auto simp: rows_ok_def put_defs)

interpretation relay_rows: row_invariant t_relays put_relays relay_row_ok rows_ok
  by unfold_locales (auto simp: rows_ok_def put_defs)

interpretation profile_rows: row_invariant t_profiles put_profiles profile_row_ok rows_ok
  by unfold_locales (auto simp: rows_ok_def put_defs)

interpretation power_rows: row_invariant t_power put_power power_row_ok rows_ok
  by unfold_locales (auto simp: rows_ok_def put_defs)

lemma rows_frame_members: "rows_ok (put_members rs d) = rows_ok d"
  by (simp add: rows_ok_def put_defs)

lemma rows_frame_wakes: "rows_ok (put_wakes rs d) = rows_ok d"
  by (simp add: rows_ok_def put_defs)

lemma rows_frame_powers: "rows_ok (put_powers rs d) = rows_ok d"
  by (simp add: rows_ok_def put_defs)

lemmas rows_intros = pres_intros site_rows.keep_delete device_rows.keep_delete group_rows.keep_delete
  relay_rows.keep_delete profile_rows.keep_delete power_rows.keep_delete
  pres_frame [where I = rows_ok and put = put_members, OF rows_frame_members]
  pres_frame [where I = rows_ok and put = put_wakes, OF rows_frame_wakes]
  pres_frame [where I = rows_ok and put = put_powers, OF rows_frame_powers]

text \<open>What the normalising functions establish.\<close>

lemma normalizeSite_Inr: "normalizeSite item = Inr s \<Longrightarrow> site_row_ok s"
proof -
  assume n: "normalizeSite item = Inr s"
  then obtain t where t: "normalizeSite_subnet (item\<lparr>s_name := trim_space (s_name item)\<rparr>) = Inr t"
    and name: "trim_space (s_name item) \<noteq> []"
    and bc: "s_broadcast t \<noteq> [] \<longrightarrow> parse_to4 (s_broadcast t) \<noteq> None"
    and lim: "normalizeSite_limits t = Inr s"
    by (auto simp: normalizeSite_def split: if_splits sum.splits)
  from t have "s_name t = trim_space (s_name item)"
    by (auto simp: normalizeSite_subnet_def Let_def split: if_splits sum.splits)
  with name bc lim show ?thesis
    by (auto simp: normalizeSite_limits_def site_row_ok_def Let_def split: if_splits)
qed

text \<open>Two profiles with the fields the invariant reads.\<close>

definition same_route :: "remote_profile \<Rightarrow> remote_profile \<Rightarrow> bool" where
  "same_route p q \<longleftrightarrow> rp_device_id p = rp_device_id q \<and> rp_protocol p = rp_protocol q \<and>
     rp_mode p = rp_mode q \<and> rp_port p = rp_port q \<and> rp_verify_port p = rp_verify_port q \<and>
     rp_host p = rp_host q"

lemma normalize_policy_Inr:
  "normalize_policy p = Inr q \<Longrightarrow> same_route p q \<and>
    (rp_cert_policy q = ''strict'' \<or> (rp_protocol q = ''rdp'' \<and> rp_cert_policy q = ''trust-local''))"
  by (auto simp: normalize_policy_def same_route_def Let_def split: if_splits)

lemma normalize_sunshine_Inr: "normalize_sunshine p = Inr q \<Longrightarrow> same_route p q"
  by (auto simp: normalize_sunshine_def same_route_def Let_def split: if_splits)

lemma normalize_ports_Inr:
  "normalize_ports n p = Inr q \<Longrightarrow> 1 \<le> rp_port q \<and> rp_port q \<le> 65535 \<and> 1 \<le> rp_verify_port q \<and>
    rp_verify_port q \<le> 65535 \<and> rp_device_id q = rp_device_id p \<and> rp_protocol q = rp_protocol p \<and>
    rp_host q = rp_host p"
  by (auto simp: normalize_ports_def Let_def split: if_splits)

lemma normalizeRemoteProfile_steps:
  assumes "normalizeRemoteProfile item = Inr r"
  obtains n h p q where "rp_device_id (trim_profile item) \<noteq> []"
    and "protocol_port (rp_protocol (trim_profile item)) = Some n"
    and "normalize_host (rp_host (trim_profile item)) = Inr h"
    and "normalize_ports n ((trim_profile item)\<lparr>rp_host := h\<rparr>) = Inr p"
    and "rp_mode (normalize_mode p) \<in> set remote_modes"
    and "normalize_sunshine (normalize_mode p) = Inr q" and "normalize_policy q = Inr r"
  using assms unfolding normalizeRemoteProfile_def Let_def
  by (auto split: if_splits option.splits sum.splits)

lemma normalizeRemoteProfile_Inr:
  assumes "normalizeRemoteProfile item = Inr r"
  shows "profile_row_ok r" and "rp_device_id r = trim_space (rp_device_id item)"
proof -
  from assms obtain n h p q where dev: "rp_device_id (trim_profile item) \<noteq> []"
    and proto: "protocol_port (rp_protocol (trim_profile item)) = Some n"
    and p: "normalize_ports n ((trim_profile item)\<lparr>rp_host := h\<rparr>) = Inr p"
    and mode: "rp_mode (normalize_mode p) \<in> set remote_modes"
    and q: "normalize_sunshine (normalize_mode p) = Inr q" and r: "normalize_policy q = Inr r"
    by (rule normalizeRemoteProfile_steps)
  have m: "rp_device_id (normalize_mode p) = rp_device_id p" "rp_protocol (normalize_mode p) = rp_protocol p"
    "rp_port (normalize_mode p) = rp_port p" "rp_verify_port (normalize_mode p) = rp_verify_port p"
    by (simp_all add: normalize_mode_def)
  note f = normalize_ports_Inr [OF p] normalize_sunshine_Inr [OF q] normalize_policy_Inr [OF r]
  show dev': "rp_device_id r = trim_space (rp_device_id item)"
    using f m by (simp add: same_route_def trim_profile_def)
  have "trim_space (rp_device_id r) = rp_device_id r" by (simp add: dev')
  then show "profile_row_ok r"
    using f m mode dev proto unfolding profile_row_ok_def
    by (auto simp: same_route_def trim_profile_def)
qed

lemma normalizePowerProfile_ok: "power_row_ok (normalizePowerProfile p)"
  by (simp add: power_row_ok_def normalizePowerProfile_def Let_def)

section \<open>Every operation keeps the rows in normal form\<close>

lemma rows_insert_site: "site_row_ok s \<Longrightarrow> pres rows_ok (insert_site s)"
  unfolding insert_site_def
  by (intro pres_map_error site_rows.keep_insert) (simp add: site_row_ok_def)

lemma rows_update_site: "site_row_ok s \<Longrightarrow> pres rows_ok (update_site i s)"
  unfolding update_site_def
  by (intro pres_map_error site_rows.keep_update) (simp add: site_row_ok_def set_site_def)

lemma stamp_site_ok: "site_row_ok s \<Longrightarrow> site_row_ok (stamp_site t i s)"
  by (simp add: site_row_ok_def stamp_site_def)

lemma rows_CreateSite: "pres rows_ok (CreateSite s)"
  unfolding CreateSite_def
  by (rule pres_lift_then)
    (auto intro!: rows_intros rows_insert_site stamp_site_ok dest: normalizeSite_Inr)

lemma rows_UpdateSite: "pres rows_ok (UpdateSite i s)"
  unfolding UpdateSite_def GetSite_def
  by (rule pres_lift_then, drule normalizeSite_Inr)
    (intro rows_intros rows_update_site, simp add: site_row_ok_def)

lemma rows_upsertSiteOn: "pres rows_ok (upsertSiteOn s)"
  unfolding upsertSiteOn_def Let_def
  by (rule pres_lift_then, drule normalizeSite_Inr)
    (intro rows_intros rows_insert_site rows_update_site stamp_site_ok, simp_all add: site_row_ok_def)

lemma rows_DeleteSite: "pres rows_ok (DeleteSite i)"
  unfolding DeleteSite_def
  by (intro rows_intros device_rows.keep_update) (simp add: device_row_ok_def)

text \<open>A relay as the normalising functions leave it, before the statement trims its name.\<close>

definition relay_item_ok :: "wake_relay \<Rightarrow> bool" where
  "relay_item_ok r \<longleftrightarrow> r_port r \<noteq> 0 \<and> r_transport r \<noteq> [] \<and> r_interface r \<noteq> []"

lemma normalizeWakeRelay_ok: "relay_item_ok (normalizeWakeRelay r)"
  by (simp add: relay_item_ok_def normalizeWakeRelay_def)

lemma rows_insert_relay: "relay_item_ok r \<Longrightarrow> pres rows_ok (insert_relay r)"
  unfolding insert_relay_def
  by (intro pres_map_error relay_rows.keep_insert) (simp add: relay_row_ok_def relay_item_ok_def)

lemma rows_update_relay: "relay_item_ok r \<Longrightarrow> pres rows_ok (update_relay i r)"
  unfolding update_relay_def
  by (intro pres_map_error relay_rows.keep_update) (simp add: relay_row_ok_def relay_item_ok_def set_relay_def)

lemma rows_CreateWakeRelay: "pres rows_ok (CreateWakeRelay r)"
  unfolding CreateWakeRelay_def stamp_relay_def
  by (intro rows_intros rows_insert_relay normalizeWakeRelay_ok)

lemma rows_UpdateWakeRelay: "pres rows_ok (UpdateWakeRelay i r)"
  unfolding UpdateWakeRelay_def GetWakeRelay_def
  by (intro rows_intros rows_update_relay normalizeWakeRelay_ok)

lemma rows_upsertWakeRelayOn: "pres rows_ok (upsertWakeRelayOn r)"
  unfolding upsertWakeRelayOn_def stamp_relay_def Let_def
  by (intro rows_intros rows_insert_relay rows_update_relay normalizeWakeRelay_ok)

lemma rows_DeleteWakeRelay: "pres rows_ok (DeleteWakeRelay i)"
  unfolding DeleteWakeRelay_def
  by (intro rows_intros device_rows.keep_update) (simp add: device_row_ok_def)

lemma rows_SyncDeviceAddress: "pres rows_ok (SyncDeviceAddress i a b)"
  unfolding SyncDeviceAddress_def
  by (intro rows_intros device_rows.keep_update profile_rows.keep_update)
    (simp_all add: device_row_ok_def profile_row_ok_def)

definition device_item_ok :: "device \<Rightarrow> bool" where
  "device_item_ok v \<longleftrightarrow> d_platform v \<noteq> [] \<and> d_strategy v \<noteq> []"

lemma device_defaults_ok: "device_item_ok (device_defaults v)"
  by (simp add: device_item_ok_def device_defaults_def)

lemma rows_insert_device: "device_item_ok v \<Longrightarrow> pres rows_ok (insert_device v)"
  unfolding insert_device_def
  by (intro pres_map_error device_rows.keep_insert) (simp add: device_row_ok_def device_item_ok_def)

lemma rows_update_device: "device_item_ok v \<Longrightarrow> pres rows_ok (update_device i v)"
  unfolding update_device_def
  by (intro pres_map_error device_rows.keep_update) (simp add: device_row_ok_def device_item_ok_def set_device_def)

lemma rows_CreateDevice: "pres rows_ok (CreateDevice v)"
  unfolding CreateDevice_def stamp_device_def
  by (intro rows_intros rows_insert_device device_defaults_ok)

lemma rows_UpdateDevice: "pres rows_ok (UpdateDevice i v)"
  unfolding UpdateDevice_def GetDevice_def
  by (intro rows_intros rows_update_device device_defaults_ok)

lemma rows_upsertDeviceOn: "pres rows_ok (upsertDeviceOn v)"
  unfolding upsertDeviceOn_def stamp_device_def
  by (intro rows_intros rows_insert_device rows_update_device device_defaults_ok)

lemma rows_DeleteDevice: "pres rows_ok (DeleteDevice i)"
  unfolding DeleteDevice_def by (intro rows_intros)

lemma rows_replaceMembers: "pres rows_ok (replaceMembers g ms)"
  unfolding replaceMembers_def by (intro rows_intros) (auto intro: rows_intros)

lemma rows_insert_group: "pres rows_ok (insert_group g)"
  unfolding insert_group_def
  by (intro pres_map_error group_rows.keep_insert) (simp add: group_row_ok_def)

lemma rows_update_group: "pres rows_ok (update_group i g t)"
  unfolding update_group_def
  by (intro pres_map_error group_rows.keep_update) (simp add: group_row_ok_def)

lemmas rows_group_intros = rows_intros rows_replaceMembers rows_insert_group rows_update_group

lemma rows_CreateGroup: "pres rows_ok (CreateGroup g)"
  unfolding CreateGroup_def Let_def by (intro rows_group_intros)

lemma rows_UpdateGroup: "pres rows_ok (UpdateGroup i g)"
  unfolding UpdateGroup_def GetGroup_def groupDeviceIDs_def by (intro rows_group_intros)

lemma rows_DeleteGroup: "pres rows_ok (DeleteGroup i)"
  unfolding DeleteGroup_def by (intro rows_group_intros)

lemma rows_upsertGroupOn: "pres rows_ok (upsertGroupOn g)"
  unfolding upsertGroupOn_def by (intro rows_group_intros)

lemma rows_RecordWakeAttempt: "pres rows_ok (RecordWakeAttempt a)"
  unfolding RecordWakeAttempt_def by (intro rows_intros)

lemma rows_RecordPowerAttempt: "pres rows_ok (RecordPowerAttempt a)"
  unfolding RecordPowerAttempt_def Let_def by (intro rows_intros)

lemma rows_write_profile: "profile_row_ok p \<Longrightarrow> pres rows_ok (write_profile e p t)"
  unfolding write_profile_def
  by (intro rows_intros profile_rows.keep_insert profile_rows.keep_update)
    (simp_all add: profile_row_ok_def set_profile_def)

lemma rows_UpsertRemoteProfile: "pres rows_ok (UpsertRemoteProfile p)"
  unfolding UpsertRemoteProfile_def GetDevice_def GetRemoteProfile_def Let_def
  by (intro rows_intros pres_lift_then rows_write_profile) (drule normalizeRemoteProfile_Inr(1), assumption)

lemma rows_upsertRemoteProfileOn: "pres rows_ok (upsertRemoteProfileOn p)"
  unfolding upsertRemoteProfileOn_def Let_def
  by (intro rows_intros pres_lift_then rows_write_profile) (drule normalizeRemoteProfile_Inr(1), assumption)

lemma rows_DeleteRemoteProfile: "pres rows_ok (DeleteRemoteProfile i)"
  unfolding DeleteRemoteProfile_def by (intro rows_intros)

lemma rows_write_power: "power_row_ok p \<Longrightarrow> pres rows_ok (write_power e p t)"
  unfolding write_power_def
  by (intro rows_intros power_rows.keep_insert power_rows.keep_update)
    (simp_all add: power_row_ok_def set_power_def)

lemma rows_UpsertPowerProfile: "pres rows_ok (UpsertPowerProfile p)"
  unfolding UpsertPowerProfile_def GetDevice_def GetPowerProfile_def Let_def
  by (intro rows_intros rows_write_power normalizePowerProfile_ok)

lemma rows_upsertPowerProfileOn: "pres rows_ok (upsertPowerProfileOn p)"
  unfolding upsertPowerProfileOn_def Let_def
  by (intro rows_intros rows_write_power normalizePowerProfile_ok)

lemma rows_DeletePowerProfile: "pres rows_ok (DeletePowerProfile i)"
  unfolding DeletePowerProfile_def by (intro rows_intros)

lemma rows_Import: "pres rows_ok (Import x)"
  unfolding Import_def import_all_def import_relay_def import_site_def import_device_def
    import_group_def import_profile_def import_power_def Let_def
  by (intro rows_intros rows_upsertWakeRelayOn rows_upsertSiteOn rows_upsertDeviceOn
      rows_upsertGroupOn rows_upsertRemoteProfileOn rows_upsertPowerProfileOn)

section \<open>Every operation keeps the unique columns\<close>

lemmas site_op_defs = CreateSite_def UpdateSite_def DeleteSite_def upsertSiteOn_def insert_site_def
  update_site_def GetSite_def SyncDeviceAddress_def

lemmas relay_op_defs = CreateWakeRelay_def UpdateWakeRelay_def DeleteWakeRelay_def
  upsertWakeRelayOn_def insert_relay_def update_relay_def GetWakeRelay_def

lemmas device_op_defs = CreateDevice_def UpdateDevice_def DeleteDevice_def upsertDeviceOn_def
  insert_device_def update_device_def GetDevice_def

lemmas group_op_defs = CreateGroup_def UpdateGroup_def DeleteGroup_def upsertGroupOn_def
  insert_group_def update_group_def replaceMembers_def GetGroup_def groupDeviceIDs_def

lemmas profile_op_defs = UpsertRemoteProfile_def upsertRemoteProfileOn_def DeleteRemoteProfile_def
  write_profile_def GetRemoteProfile_def UpsertPowerProfile_def upsertPowerProfileOn_def
  DeletePowerProfile_def write_power_def GetPowerProfile_def GetDevice_def

lemma schema_site_ops:
  "pres schema_ok (CreateSite s)" "pres schema_ok (UpdateSite i s)" "pres schema_ok (DeleteSite i)"
  "pres schema_ok (upsertSiteOn s)" "pres schema_ok (SyncDeviceAddress i a b)"
  unfolding site_op_defs Let_def by (intro schema_intros)+

lemma schema_relay_ops:
  "pres schema_ok (CreateWakeRelay r)" "pres schema_ok (UpdateWakeRelay i r)"
  "pres schema_ok (DeleteWakeRelay i)" "pres schema_ok (upsertWakeRelayOn r)"
  unfolding relay_op_defs Let_def by (intro schema_intros)+

lemma schema_device_ops:
  "pres schema_ok (CreateDevice v)" "pres schema_ok (UpdateDevice i v)"
  "pres schema_ok (DeleteDevice i)" "pres schema_ok (upsertDeviceOn v)"
  unfolding device_op_defs Let_def by (intro schema_intros)+

lemma schema_replaceMembers: "pres schema_ok (replaceMembers g ms)"
  unfolding replaceMembers_def by (intro schema_intros) (auto intro: schema_intros)

lemma schema_group_ops:
  "pres schema_ok (CreateGroup g)" "pres schema_ok (UpdateGroup i g)"
  "pres schema_ok (DeleteGroup i)" "pres schema_ok (upsertGroupOn g)"
  unfolding CreateGroup_def UpdateGroup_def DeleteGroup_def upsertGroupOn_def
    insert_group_def update_group_def GetGroup_def groupDeviceIDs_def Let_def
  by (intro schema_intros schema_replaceMembers)+

lemma schema_profile_ops:
  "pres schema_ok (UpsertRemoteProfile p)" "pres schema_ok (upsertRemoteProfileOn p)"
  "pres schema_ok (DeleteRemoteProfile i)"
  unfolding profile_op_defs Let_def by (intro schema_intros)+

lemma schema_power_ops:
  "pres schema_ok (UpsertPowerProfile q)" "pres schema_ok (upsertPowerProfileOn q)"
  "pres schema_ok (DeletePowerProfile i)"
  unfolding profile_op_defs Let_def by (intro schema_intros)+

lemma schema_attempt_ops:
  "pres schema_ok (RecordWakeAttempt a)" "pres schema_ok (RecordPowerAttempt b)"
  unfolding RecordWakeAttempt_def RecordPowerAttempt_def Let_def by (intro schema_intros)+

lemma schema_Import: "pres schema_ok (Import x)"
  unfolding Import_def import_all_def import_relay_def import_site_def import_device_def
    import_group_def import_profile_def import_power_def Let_def
  by (intro schema_intros schema_site_ops schema_relay_ops schema_device_ops schema_group_ops
      schema_profile_ops schema_power_ops)

section \<open>References between the tables\<close>

definition device_ids :: "db \<Rightarrow> string set" where
  "device_ids d = d_id ` set (t_devices d)"

definition group_ids :: "db \<Rightarrow> string set" where
  "group_ids d = g_id ` set (t_groups d)"

definition refs_ok :: "db \<Rightarrow> bool" where
  "refs_ok d \<longleftrightarrow> rp_device_id ` set (t_profiles d) \<subseteq> device_ids d \<and>
     pp_device_id ` set (t_power d) \<subseteq> device_ids d \<and>
     m_group ` set (t_members d) \<subseteq> group_ids d \<and>
     (\<forall>i \<in> device_ids d. trim_space i = i)"

lemma ids_update:
  assumes "update_rows keys C f rows = Some rows'" and "\<And>r. ident (f r) = ident r"
  shows "ident ` set rows' = ident ` set rows"
proof -
  have "ident (if C r then f r else r) = ident r" for r using assms(2) by simp
  then show ?thesis unfolding set_update_rows [OF assms(1)] image_image by simp
qed

lemma ids_delete: "ident ` {r \<in> set rows. ident r \<noteq> k} = ident ` set rows - {k}"
  by auto

text \<open>The facts about references that Import carries: the devices of a set exist.\<close>

definition refs_with :: "string set \<Rightarrow> db \<Rightarrow> bool" where
  "refs_with ids d \<longleftrightarrow> refs_ok d \<and> ids \<subseteq> device_ids d"

lemma refs_with_empty [simp]: "refs_with {} = refs_ok"
  by (simp add: refs_with_def fun_eq_iff)

lemmas refs_defs = refs_with_def refs_ok_def device_ids_def group_ids_def put_defs

lemma refs_frame:
  "refs_with ids (put_sites rs d) = refs_with ids d"
  "refs_with ids (put_relays rr d) = refs_with ids d"
  "refs_with ids (put_wakes rw d) = refs_with ids d"
  "refs_with ids (put_powers rp d) = refs_with ids d"
  by (simp_all add: refs_defs)

lemma refs_device_insert: "trim_space (d_id v) = d_id v \<Longrightarrow>
    pres (refs_with ids) (exec_insert t_devices put_devices device_keys v)"
  by (rule pres_exec_insert) (auto simp: refs_defs dest!: set_insert_row)

lemma refs_device_update: "(\<And>v. d_id (f v) = d_id v) \<Longrightarrow>
    pres (refs_with ids) (exec_update t_devices put_devices device_keys C f)"
  by (rule pres_exec_update) (simp add: refs_defs ids_update)

lemma refs_group_update: "(\<And>g. g_id (f g) = g_id g) \<Longrightarrow>
    pres (refs_with ids) (exec_update t_groups put_groups group_keys C f)"
  by (rule pres_exec_update) (simp add: refs_defs ids_update)

lemma refs_group_insert: "pres (refs_with ids) (exec_insert t_groups put_groups group_keys g)"
  by (rule pres_exec_insert) (auto simp: refs_defs dest!: set_insert_row)

lemma refs_profile_update: "(\<And>p. rp_device_id (f p) = rp_device_id p) \<Longrightarrow>
    pres (refs_with ids) (exec_update t_profiles put_profiles profile_keys C f)"
  by (rule pres_exec_update) (simp add: refs_defs ids_update)

lemma refs_power_update: "(\<And>p. pp_device_id (f p) = pp_device_id p) \<Longrightarrow>
    pres (refs_with ids) (exec_update t_power put_power power_keys C f)"
  by (rule pres_exec_update) (simp add: refs_defs ids_update)

lemma refs_deletes:
  "pres (refs_with ids) (exec_delete t_members put_members Cm)"
  "pres (refs_with ids) (exec_delete t_profiles put_profiles Cp)"
  "pres (refs_with ids) (exec_delete t_power put_power Cq)"
  by (rule pres_exec_delete; auto simp: refs_defs)+

lemmas refs_intros = pres_intros refs_deletes refs_group_insert
  pres_frame [where I = "refs_with ids" and put = put_sites for ids, OF refs_frame(1)]
  pres_frame [where I = "refs_with ids" and put = put_relays for ids, OF refs_frame(2)]
  pres_frame [where I = "refs_with ids" and put = put_wakes for ids, OF refs_frame(3)]
  pres_frame [where I = "refs_with ids" and put = put_powers for ids, OF refs_frame(4)]

lemma refs_site_ops:
  "pres (refs_with ids) (CreateSite s)" "pres (refs_with ids) (UpdateSite i s)"
  "pres (refs_with ids) (upsertSiteOn s)" "pres (refs_with ids) (DeleteSite i)"
  unfolding site_op_defs Let_def
  by (intro refs_intros refs_device_update | simp)+

lemma refs_SyncDeviceAddress: "pres (refs_with ids) (SyncDeviceAddress i a b)"
  unfolding SyncDeviceAddress_def
  by (intro refs_intros refs_device_update refs_profile_update | simp)+

lemma refs_relay_ops:
  "pres (refs_with ids) (CreateWakeRelay r)" "pres (refs_with ids) (UpdateWakeRelay i r)"
  "pres (refs_with ids) (upsertWakeRelayOn r)" "pres (refs_with ids) (DeleteWakeRelay i)"
  unfolding relay_op_defs Let_def
  by (intro refs_intros refs_device_update | simp)+

lemma refs_attempt_ops:
  "pres (refs_with ids) (RecordWakeAttempt a)" "pres (refs_with ids) (RecordPowerAttempt b)"
  unfolding RecordWakeAttempt_def RecordPowerAttempt_def Let_def by (intro refs_intros)+

text \<open>Devices: a new one has an ID without spaces; deleting one first deletes what refers to it.\<close>

lemma device_prefix_ink: "ink (hd ''device'')"
  by (simp add: ink_def ascii_def is_space_def)

lemma refs_insert_device: "trim_space (d_id v) = d_id v \<Longrightarrow> pres (refs_with ids) (insert_device v)"
  unfolding insert_device_def by (intro refs_intros refs_device_insert) simp

lemma refs_update_device: "pres (refs_with ids) (update_device i v)"
  unfolding update_device_def by (intro refs_intros refs_device_update) (simp add: set_device_def)

lemma refs_CreateDevice: "pres (refs_with ids) (CreateDevice v)"
  unfolding CreateDevice_def
  by (intro pres_andThen [OF pres_now] pres_newID_then [OF _ device_prefix_ink])
    (auto intro!: refs_insert_device refs_intros simp: stamp_device_def device_defaults_def)

lemma refs_UpdateDevice: "pres (refs_with ids) (UpdateDevice i v)"
  unfolding UpdateDevice_def GetDevice_def by (intro refs_intros refs_update_device)

lemma refs_DeleteDevice: "pres refs_ok (DeleteDevice i)"
  unfolding DeleteDevice_def
proof (rule pres_tx_commit)
  let ?R = "\<lambda>d. refs_ok d"
  let ?R1 = "\<lambda>d. refs_ok d \<and> (\<forall>p \<in> set (t_profiles d). rp_device_id p \<noteq> i)"
  let ?R2 = "\<lambda>d. ?R1 d \<and> (\<forall>p \<in> set (t_power d). pp_device_id p \<noteq> i)"
  have 1: "triple ?R (exec_delete t_members put_members (\<lambda>m. m_device m = i)) (\<lambda>_. ?R)"
    by (rule triple_delete) (auto simp: refs_defs)
  have 2: "triple ?R (exec_delete t_profiles put_profiles (\<lambda>p. rp_device_id p = i)) (\<lambda>_. ?R1)"
    by (rule triple_delete) (auto simp: refs_defs)
  have 3: "triple ?R1 (exec_delete t_power put_power (\<lambda>p. pp_device_id p = i)) (\<lambda>_. ?R2)"
    by (rule triple_delete) (auto simp: refs_defs)
  have 4: "triple ?R2 (map_error normalizeDBError (exec_delete t_devices put_devices (\<lambda>v. d_id v = i))) (\<lambda>_. ?R)"
    by (rule triple_map_error, rule triple_delete) (auto simp: refs_defs ids_delete)
  show "triple ?R (andThen (exec_delete t_members put_members (\<lambda>m. m_device m = i)) (\<lambda>_.
     andThen (exec_delete t_profiles put_profiles (\<lambda>p. rp_device_id p = i)) (\<lambda>_.
     andThen (exec_delete t_power put_power (\<lambda>p. pp_device_id p = i)) (\<lambda>_.
     andThen (map_error normalizeDBError (exec_delete t_devices put_devices (\<lambda>v. d_id v = i))) (\<lambda>count.
     if count = 0 then fail ErrNotFound else ret (Commit ()))))))
     (\<lambda>e d. case e of Commit _ \<Rightarrow> refs_ok d | Rollback _ \<Rightarrow> True)"
    by (rule triple_andThen [OF 1], rule triple_andThen [OF 2], rule triple_andThen [OF 3],
        rule triple_andThen [OF 4]) (auto intro!: triple_if triple_ret triple_fail)
qed

text \<open>Groups: members are written only for a group that exists.\<close>

lemma member_insert_refs:
  "triple (\<lambda>d. refs_with ids d \<and> g \<in> group_ids d)
    (map_error h (exec_insert t_members put_members member_keys \<lparr>m_group = g, m_device = v, m_position = n\<rparr>))
    (\<lambda>_ d. refs_with ids d \<and> g \<in> group_ids d)"
  by (rule triple_map_error, rule triple_insert) (simp add: refs_defs set_insert_row)

lemma refs_replaceMembers:
  "triple (\<lambda>d. refs_with ids d \<and> g \<in> group_ids d) (replaceMembers g ms)
    (\<lambda>_ d. refs_with ids d \<and> g \<in> group_ids d)"
  unfolding replaceMembers_def
proof (rule triple_andThen)
  let ?J = "\<lambda>d. refs_with ids d \<and> g \<in> group_ids d"
  show "triple ?J (exec_delete t_members put_members (\<lambda>m. m_group m = g)) (\<lambda>_. ?J)"
    by (rule triple_delete) (auto simp: refs_defs)
  fix n
  show "triple ?J (for_each (\<lambda>(position, deviceID) _. map_error normalizeDBError
         (exec_insert t_members put_members member_keys
           \<lparr>m_group = g, m_device = deviceID, m_position = int position\<rparr>)) (enumerate 0 ms) ()) (\<lambda>_. ?J)"
    by (rule triple_for_each) (auto intro: member_insert_refs split: prod.splits)
qed

lemma refs_insert_group:
  "triple (refs_with ids) (insert_group g) (\<lambda>_ d. refs_with ids d \<and> g_id g \<in> group_ids d)"
  unfolding insert_group_def
  by (rule triple_map_error, rule triple_insert) (auto simp: refs_defs dest!: set_insert_row)

lemma refs_update_group:
  "triple (refs_with ids) (update_group i g t) (\<lambda>n d. refs_with ids d \<and> (n \<noteq> 0 \<longrightarrow> i \<in> group_ids d))"
  unfolding update_group_def
proof (rule triple_map_error, rule triple_update)
  fix d rows
  let ?f = "\<lambda>r. r\<lparr>g_name := trim_space (g_name g), g_description := g_description g, g_updated := t\<rparr>"
  assume r: "refs_with ids d" and u: "update_rows group_keys (\<lambda>r. g_id r = i) ?f (t_groups d) = Some rows"
  have same: "g_id ` set rows = g_id ` set (t_groups d)" by (rule ids_update [OF u]) simp
  have "i \<in> g_id ` set (t_groups d)" if "count_rows (\<lambda>r. g_id r = i) (t_groups d) \<noteq> 0"
    using that by (auto simp: count_rows_0)
  then show "refs_with ids (put_groups rows d) \<and>
      (count_rows (\<lambda>r. g_id r = i) (t_groups d) \<noteq> 0 \<longrightarrow> i \<in> group_ids (put_groups rows d))"
    using r same by (simp add: refs_defs)
qed

lemma refs_CreateGroup: "pres (refs_with ids) (CreateGroup g)"
  unfolding CreateGroup_def Let_def
  by (intro pres_andThen pres_now pres_newID pres_tx_commit
      triple_andThen [OF refs_insert_group] triple_andThen [OF refs_replaceMembers [THEN triple_weaken]]
      triple_ret) auto

lemma refs_UpdateGroup: "pres (refs_with ids) (UpdateGroup i g)"
  unfolding UpdateGroup_def GetGroup_def groupDeviceIDs_def
proof (intro pres_andThen pres_now pres_tx_commit triple_andThen [OF refs_update_group])
  fix t n
  show "triple (\<lambda>d. refs_with ids d \<and> (n \<noteq> 0 \<longrightarrow> i \<in> group_ids d))
     (if n = 0 then fail ErrNotFound else andThen (replaceMembers i (g_device_ids g)) (\<lambda>_. ret (Commit ())))
     (\<lambda>e d. case e of Commit x \<Rightarrow> refs_with ids d | Rollback x \<Rightarrow> True)"
    by (intro triple_if triple_fail triple_andThen [OF refs_replaceMembers [THEN triple_weaken]] triple_ret) auto
qed (intro refs_intros)+

lemma refs_DeleteGroup: "pres (refs_with ids) (DeleteGroup i)"
  unfolding DeleteGroup_def
proof (rule pres_tx_commit)
  let ?R = "\<lambda>d. refs_with ids d"
  let ?R1 = "\<lambda>d. refs_with ids d \<and> (\<forall>m \<in> set (t_members d). m_group m \<noteq> i)"
  have 1: "triple ?R (exec_delete t_members put_members (\<lambda>m. m_group m = i)) (\<lambda>_. ?R1)"
    by (rule triple_delete) (auto simp: refs_defs)
  have 2: "triple ?R1 (map_error normalizeDBError (exec_delete t_groups put_groups (\<lambda>g. g_id g = i))) (\<lambda>_. ?R)"
    by (rule triple_map_error, rule triple_delete) (auto simp: refs_defs ids_delete)
  show "triple ?R (andThen (exec_delete t_members put_members (\<lambda>m. m_group m = i)) (\<lambda>_.
     andThen (map_error normalizeDBError (exec_delete t_groups put_groups (\<lambda>g. g_id g = i))) (\<lambda>count.
     if count = 0 then fail ErrNotFound else ret (Commit ()))))
     (\<lambda>e d. case e of Commit _ \<Rightarrow> refs_with ids d | Rollback _ \<Rightarrow> True)"
    by (rule triple_andThen [OF 1], rule triple_andThen [OF 2]) (auto intro!: triple_if triple_ret triple_fail)
qed

lemma refs_upsertGroupOn: "triple (refs_with ids) (upsertGroupOn g) (\<lambda>_. refs_with ids)"
proof -
  have new: "triple (refs_with ids) (andThen (newID ''group'') (\<lambda>uid.
         andThen (insert_group (g\<lparr>g_id := uid, g_created := t, g_updated := t\<rparr>)) (\<lambda>_.
         replaceMembers uid (g_device_ids g)))) (\<lambda>_. refs_with ids)" for t
    by (rule triple_andThen [OF triple_readonly], simp, rule triple_andThen [OF refs_insert_group],
        rule triple_weaken [OF refs_replaceMembers]) auto
  have old: "triple (refs_with ids) (andThen (update_group (g_id row) g t) (\<lambda>count.
         if count = 0 then fail ErrNotFound else replaceMembers (g_id row) (g_device_ids g)))
       (\<lambda>_. refs_with ids)" for t row
    by (rule triple_andThen [OF refs_update_group])
      (intro triple_if triple_fail refs_replaceMembers [THEN triple_weaken], auto)
  show ?thesis
    unfolding upsertGroupOn_def
    by (rule triple_andThen [OF triple_readonly], simp, rule triple_andThen [OF triple_readonly], simp)
      (auto split: option.split intro: new old)
qed

text \<open>Profiles: one is inserted only for a device that exists.\<close>

lemma refs_write_profile:
  "pres_given (\<lambda>d. rp_device_id p \<in> device_ids d) (refs_with ids) (write_profile e p t)"
proof (cases e)
  case None
  have "pres_given (\<lambda>d. rp_device_id p \<in> device_ids d) (refs_with ids)
      (map_error h (exec_insert t_profiles put_profiles profile_keys
         (p\<lparr>rp_id := uid, rp_created := t, rp_updated := t\<rparr>)))" for uid h
    by (rule pres_given_map_error, rule pres_given_insert) (simp add: refs_defs set_insert_row)
  with None show ?thesis unfolding write_profile_def by (auto intro!: pres_given_keep)
next
  case Some
  then show ?thesis unfolding write_profile_def
    by (auto intro!: pres_givenD refs_intros refs_profile_update simp: set_profile_def)
qed

lemma refs_write_power:
  "pres_given (\<lambda>d. pp_device_id p \<in> device_ids d) (refs_with ids) (write_power e p t)"
proof (cases e)
  case None
  have "pres_given (\<lambda>d. pp_device_id p \<in> device_ids d) (refs_with ids)
      (map_error h (exec_insert t_power put_power power_keys
         (p\<lparr>pp_id := uid, pp_created := t, pp_updated := t\<rparr>)))" for uid h
    by (rule pres_given_map_error, rule pres_given_insert) (simp add: refs_defs set_insert_row)
  with None show ?thesis unfolding write_power_def by (auto intro!: pres_given_keep)
next
  case Some
  then show ?thesis unfolding write_power_def
    by (auto intro!: pres_givenD refs_intros refs_power_update simp: set_power_def)
qed

lemma GetDevice_exists:
  "triple P (map_error h (GetDevice i)) (\<lambda>v d. i \<in> device_ids d)"
  unfolding GetDevice_def
  by (rule triple_map_error, rule triple_select_row) (auto simp: device_ids_def dest: find_row_Some)

lemma refs_UpsertRemoteProfile: "pres (refs_with ids) (UpsertRemoteProfile p)"
  unfolding UpsertRemoteProfile_def Let_def GetRemoteProfile_def
proof (rule pres_given_True, rule pres_given_read [OF _ GetDevice_exists], goal_cases)
  case 1
  then show ?case by (simp add: GetDevice_def readonly_map_error)
next
  case (2 v)
  show ?case
  proof (rule pres_given_lift)
    fix q
    assume q: "normalizeRemoteProfile
        (if trim_space (rp_host (p\<lparr>rp_device_id := trim_space (rp_device_id p)\<rparr>)) = []
         then p\<lparr>rp_device_id := trim_space (rp_device_id p), rp_host := d_ip v\<rparr>
         else p\<lparr>rp_device_id := trim_space (rp_device_id p)\<rparr>) = Inr q"
    then have "rp_device_id q = trim_space (rp_device_id p)"
      using normalizeRemoteProfile_Inr(2) [OF q] by (simp split: if_splits)
    then show "pres_given (\<lambda>d. rp_device_id (p\<lparr>rp_device_id := trim_space (rp_device_id p)\<rparr>) \<in> device_ids d)
      (refs_with ids) (andThen now (\<lambda>t. andThen (query (find_profile (trim_space (rp_device_id q)))) (\<lambda>e.
        andThen (write_profile e q t) (\<lambda>_. select_row (find_profile (trim_space (rp_device_id q)))))))"
      using refs_write_profile [of q ids]
      by (intro pres_given_keep [OF readonly_now] pres_given_keep [OF readonly_query] pres_given_write
          pres_select_row) simp
  qed
qed

lemma refs_UpsertPowerProfile: "pres (refs_with ids) (UpsertPowerProfile p)"
  unfolding UpsertPowerProfile_def Let_def GetPowerProfile_def
proof (intro pres_if pres_fail, rule pres_given_True, rule pres_given_read [OF _ GetDevice_exists], goal_cases)
  case 1
  then show ?case by (simp add: GetDevice_def readonly_map_error)
next
  case (2 v)
  let ?q = "normalizePowerProfile (p\<lparr>pp_device_id := trim_space (pp_device_id p)\<rparr>)"
  have "pp_device_id ?q = trim_space (pp_device_id p)" by (simp add: normalizePowerProfile_def)
  then show ?case
    using refs_write_power [of ?q ids]
    by (intro pres_given_keep [OF readonly_now] pres_given_keep [OF readonly_query] pres_given_write
        pres_select_row) simp
qed

lemma refs_profile_deletes:
  "pres (refs_with ids) (DeleteRemoteProfile i)" "pres (refs_with ids) (DeletePowerProfile i)"
  unfolding DeleteRemoteProfile_def DeletePowerProfile_def by (intro refs_intros)+

text \<open>Import: the IDs it maps to are those of devices that exist.\<close>

lemma refs_with_mono: "refs_with ids d \<Longrightarrow> ids' \<subseteq> ids \<Longrightarrow> refs_with ids' d"
  by (auto simp: refs_with_def)

lemma triple_given: "pres_given P I p \<Longrightarrow> triple (\<lambda>d. I d \<and> P d) p (\<lambda>_. I)"
  unfolding triple_def pres_given_def by (metis snd_conv)

lemma refs_upsertDeviceOn:
  "triple (refs_with ids) (upsertDeviceOn v) (\<lambda>v' d. refs_with (insert (d_id v') ids) d)"
proof -
  have new: "triple (refs_with ids) (andThen (newID ''device'') (\<lambda>uid.
         andThen (insert_device (stamp_device t uid v)) (\<lambda>_. ret (stamp_device t uid v))))
       (\<lambda>v' d. refs_with (insert (d_id v') ids) d)" for t
  proof (rule triple_andThen)
    show "triple (refs_with ids) (newID ''device'') (\<lambda>x d. refs_with ids d \<and> trim_space x = x)"
      by (rule triple_newID) (simp_all add: device_prefix_ink [simplified])
    fix uid
    have "d_id (stamp_device t uid v) = uid" by (simp add: stamp_device_def device_defaults_def)
    then have "triple (\<lambda>d. refs_with ids d \<and> trim_space uid = uid) (insert_device (stamp_device t uid v))
        (\<lambda>_. refs_with (insert uid ids))"
      unfolding insert_device_def
      by (intro triple_map_error triple_insert) (auto simp: refs_defs set_insert_row)
    then show "triple (\<lambda>d. refs_with ids d \<and> trim_space uid = uid)
        (andThen (insert_device (stamp_device t uid v)) (\<lambda>_. ret (stamp_device t uid v)))
        (\<lambda>v' d. refs_with (insert (d_id v') ids) d)"
      using \<open>d_id (stamp_device t uid v) = uid\<close> by (auto intro!: triple_andThen triple_ret)
  qed
  have old: "triple (refs_with ids) (andThen (update_device (d_id row) w) (\<lambda>count.
         if count = 0 then fail ErrNotFound else select_row (\<lambda>d. find_row d_id (d_id row) (t_devices d))))
       (\<lambda>v' d. refs_with (insert (d_id v') ids) d)" for row w
    by (rule triple_andThen [OF triple_pres [OF refs_update_device]])
      (auto intro!: triple_if triple_fail triple_select_row simp: refs_with_def device_ids_def dest!: find_row_Some)
  show ?thesis
    unfolding upsertDeviceOn_def
    by (rule triple_andThen [OF triple_readonly [OF readonly_query]])
      (auto split: option.split intro!: triple_andThen [OF triple_readonly [OF readonly_now]] new old)
qed

lemma refs_import_device:
  "triple (refs_with (ran m)) (import_device relayIDs siteIDs v m) (\<lambda>m'. refs_with (ran m'))"
proof (cases "validateImportedDevice v")
  case None
  have r: "refs_with (ran (remember k new m)) d" if "refs_with (insert new (ran m)) d" for k new d
    by (rule refs_with_mono [OF that]) (auto simp: remember_def ran_def)
  show ?thesis
    unfolding import_device_def None option.case
    by (rule triple_andThen [OF triple_readonly [OF readonly_lift]],
        rule triple_andThen [OF refs_upsertDeviceOn], rule triple_ret) (rule r)
qed (simp add: import_device_def triple_fail)

lemma refs_upsertRemoteProfileOn:
  assumes "trim_space (rp_device_id p) \<in> ids"
  shows "triple (refs_with ids) (upsertRemoteProfileOn p) (\<lambda>_. refs_with ids)"
proof -
  define item where "item = p\<lparr>rp_device_id := trim_space (rp_device_id p)\<rparr>"
  have wr: "triple (refs_with ids) (andThen (lift (normalizeRemoteProfile x)) (\<lambda>item.
      andThen now (\<lambda>t. andThen (query (find_profile (rp_device_id item))) (\<lambda>existing.
      andThen (write_profile existing item t) (\<lambda>_. select_row (find_profile (rp_device_id item)))))))
      (\<lambda>_. refs_with ids)" if x: "rp_device_id x = rp_device_id item" for x
  proof (rule triple_andThen)
    show "triple (refs_with ids) (lift (normalizeRemoteProfile x))
        (\<lambda>q d. refs_with ids d \<and> rp_device_id q = trim_space (rp_device_id p))"
      by (rule triple_lift) (auto dest!: normalizeRemoteProfile_Inr(2) simp: x item_def)
    fix q :: remote_profile
    let ?R = "\<lambda>d. refs_with ids d \<and> rp_device_id q = trim_space (rp_device_id p)"
    have w: "triple ?R (write_profile e q t) (\<lambda>_. refs_with ids)" for e t
      by (rule triple_weaken [OF triple_given [OF refs_write_profile]]) (use assms in \<open>auto simp: refs_with_def\<close>)
    show "triple ?R (andThen now (\<lambda>t. andThen (query (find_profile (rp_device_id q))) (\<lambda>existing.
      andThen (write_profile existing q t) (\<lambda>_. select_row (find_profile (rp_device_id q))))))
      (\<lambda>_. refs_with ids)"
      by (rule triple_andThen [OF triple_readonly [OF readonly_now]],
          rule triple_andThen [OF triple_readonly [OF readonly_query]],
          rule triple_andThen [OF w], rule triple_readonly [OF readonly_select_row])
  qed
  have ip: "triple (refs_with ids) (if b then ret item
               else andThen (map_error h (select_row f)) (\<lambda>v. ret (item\<lparr>rp_host := d_ip v\<rparr>)))
        (\<lambda>x d. refs_with ids d \<and> rp_device_id x = rp_device_id item)" for b h and f :: "db \<Rightarrow> device option"
    by (rule triple_if) (auto intro!: triple_ret triple_andThen [OF triple_readonly [OF readonly_map_error]])
  show ?thesis
    unfolding upsertRemoteProfileOn_def Let_def item_def [symmetric]
    by (rule triple_andThen [OF ip]) (auto simp: triple_def intro: wr [unfolded triple_def, rule_format])
qed

lemma refs_upsertPowerProfileOn:
  assumes "trim_space (pp_device_id p) \<in> ids"
  shows "triple (refs_with ids) (upsertPowerProfileOn p) (\<lambda>_. refs_with ids)"
proof -
  let ?q = "normalizePowerProfile (p\<lparr>pp_device_id := trim_space (pp_device_id p)\<rparr>)"
  have "pp_device_id ?q = trim_space (pp_device_id p)" by (simp add: normalizePowerProfile_def)
  then have w: "triple (refs_with ids) (write_power e ?q t) (\<lambda>_. refs_with ids)" for e t
    by (intro triple_weaken [OF triple_given [OF refs_write_power]]) (use assms in \<open>auto simp: refs_with_def\<close>)
  show ?thesis
    unfolding upsertPowerProfileOn_def Let_def
    by (intro triple_if triple_fail, rule triple_andThen [OF triple_readonly [OF readonly_now]],
        rule triple_andThen [OF triple_readonly [OF readonly_query]],
        rule triple_andThen [OF w], rule triple_readonly [OF readonly_select_row])
qed

lemma refs_trimmed: "refs_with ids d \<Longrightarrow> i \<in> ids \<Longrightarrow> trim_space i = i"
  by (auto simp: refs_with_def refs_ok_def)

lemma triple_assume: "(\<And>d. P d \<Longrightarrow> triple P p Q) \<Longrightarrow> triple P p Q"
  unfolding triple_def by blast

lemma refs_import_profile:
  "triple (refs_with (ran m)) (import_profile m p) (\<lambda>_. refs_with (ran m))"
proof (rule triple_assume)
  fix d
  assume d: "refs_with (ran m) d"
  show ?thesis
  proof (cases "m (rp_device_id p)")
    case (Some i)
    then have "trim_space i \<in> ran m" using refs_trimmed [OF d] by (metis ranI)
    with Some show ?thesis
      by (auto simp: import_profile_def intro!: triple_andThen [OF refs_upsertRemoteProfileOn] triple_ret)
  qed (simp add: import_profile_def triple_fail)
qed

lemma refs_import_power:
  "triple (refs_with (ran m)) (import_power m p) (\<lambda>_. refs_with (ran m))"
proof (rule triple_assume)
  fix d
  assume d: "refs_with (ran m) d"
  show ?thesis
  proof (cases "m (pp_device_id p)")
    case (Some i)
    then have "trim_space i \<in> ran m" using refs_trimmed [OF d] by (metis ranI)
    with Some show ?thesis
      by (auto simp: import_power_def intro!: triple_andThen [OF refs_upsertPowerProfileOn] triple_ret)
  qed (simp add: import_power_def triple_fail)
qed

lemma refs_import_group: "triple (refs_with (ran m)) (import_group m g) (\<lambda>_. refs_with (ran m))"
  unfolding import_group_def
  by (rule triple_andThen [OF triple_readonly [OF readonly_lift] refs_upsertGroupOn])

lemma refs_import_relay: "triple refs_ok (import_relay r m) (\<lambda>_. refs_ok)"
  unfolding import_relay_def
  by (rule triple_pres, intro pres_intros) (use refs_relay_ops [of "{}"] in simp)

lemma refs_import_site: "triple refs_ok (import_site relayIDs s m) (\<lambda>_. refs_ok)"
  unfolding import_site_def
  by (rule triple_pres, intro pres_intros) (use refs_site_ops [of "{}"] in simp)

lemma refs_Import: "pres refs_ok (Import x)"
  unfolding Import_def Let_def
proof (intro pres_if pres_fail pres_tx_commit)
  have dev: "triple refs_ok (for_each (import_device a b) (x_devices x) Map.empty) (\<lambda>m. refs_with (ran m))" for a b
    using triple_for_each [of "x_devices x" "\<lambda>m. refs_with (ran m)" "import_device a b" Map.empty]
    by (simp add: refs_import_device)
  show "triple refs_ok (import_all x) (\<lambda>e d. case e of Commit _ \<Rightarrow> refs_ok d | Rollback _ \<Rightarrow> True)"
    unfolding import_all_def
    by (rule triple_andThen [OF triple_for_each [OF refs_import_relay]],
        rule triple_andThen [OF triple_for_each [OF refs_import_site]],
        rule triple_andThen [OF dev],
        rule triple_andThen [OF triple_for_each [OF refs_import_group]],
        rule triple_andThen [OF triple_for_each [OF refs_import_profile]],
        rule triple_andThen [OF triple_for_each [OF refs_import_power]],
        rule triple_ret) (simp add: refs_with_def)
qed

end
