(* ===== verification/StoreHosts.thy ===== *)
theory StoreHosts
  imports StoreInvariant
begin

text \<open>
  What a normalised remote profile may be used for: its host goes into the argument lists of
  ssh, rdp and vnc clients, so no host may look like an option or carry a separator.
\<close>

definition host_char :: "char \<Rightarrow> bool" where
  "host_char c \<longleftrightarrow> is_alnum c \<or> c = CHR ''-'' \<or> c = CHR ''.'' \<or> \<not> ascii c"

lemma set_replace_wide: "set s \<subseteq> set (replace_wide w c s) \<union> set w"
proof (induction w c s rule: replace_wide.induct)
  case (2 w c x xs)
  show ?case
  proof (cases "w \<noteq> [] \<and> has_prefix (x # xs) w")
    case True
    then obtain y ys where w: "w = y # ys" by (cases w) auto
    with True have p: "x = y" "take (length ys) xs = ys" by (auto simp: has_prefix_def)
    have "set xs \<subseteq> set ys \<union> set (drop (length ys) xs)"
      using p(2) by (metis append_take_drop_id set_append subset_refl)
    also have "set (drop (length ys) xs) \<subseteq> set (replace_wide w c (drop (length w - 1) xs)) \<union> set w"
      using "2.IH"(1) [OF True] by (simp add: w)
    finally show ?thesis using True p(1) w by auto
  qed (use "2.IH"(2) in auto)
qed simp

lemma hd_replace_wide: "s \<noteq> [] \<Longrightarrow> hd (replace_wide w c s) = hd s \<or> hd s \<in> set w"
proof (cases s)
  case (Cons x xs)
  then show ?thesis
    by (cases w) (auto simp: has_prefix_def)
qed simp

lemma replace_wide_Nil [simp]: "replace_wide w c s = [] \<longleftrightarrow> s = []"
  by (cases s) auto

lemma set_split_char: "set s \<subseteq> insert d (\<Union> (set ` set (split_char d s)))"
proof (induction s)
  case (Cons x xs)
  then show ?case by (cases "split_char d xs") (auto split: list.splits)
qed simp

lemma hd_split_char: "hd (split_char d s) \<noteq> [] \<Longrightarrow> hd s = hd (hd (split_char d s))"
  by (cases s) (auto split: list.splits if_splits)

lemma wide_not_ascii: "\<forall>c \<in> set kelvin. \<not> ascii c" "\<forall>c \<in> set long_s. \<not> ascii c"
  by code_simp+

lemma hostnamePattern_chars:
  assumes "hostnamePattern h"
  shows "h \<noteq> []" and "hd h \<noteq> CHR ''-''" and "\<forall>c \<in> set h. host_char c"
proof -
  let ?a = "replace_wide long_s CHR ''s'' h"
  let ?b = "replace_wide kelvin CHR ''k'' ?a"
  have parts: "\<forall>l \<in> set (split_char CHR ''.'' ?b). host_label l"
    using assms by (simp add: hostnamePattern_def list_all_iff)
  have first: "hd (split_char CHR ''.'' ?b) \<in> set (split_char CHR ''.'' ?b)" by simp
  then have hl: "host_label (hd (split_char CHR ''.'' ?b))" using parts by blast
  then have ne: "hd (split_char CHR ''.'' ?b) \<noteq> []" by (simp add: host_label_def)
  then show "h \<noteq> []" by (cases h) simp_all
  have "is_alnum (hd ?b)" using hd_split_char [OF ne] hl by (simp add: host_label_def)
  moreover have "\<not> is_alnum CHR ''-''" "ascii CHR ''-''" by code_simp+
  moreover have "hd ?b = hd h \<or> \<not> ascii (hd h)"
  proof (cases "hd h \<in> set long_s")
    case True
    then show ?thesis using wide_not_ascii(2) by blast
  next
    case False
    then have "hd ?a = hd h" using hd_replace_wide [OF \<open>h \<noteq> []\<close>, of long_s "CHR ''s''"] by blast
    moreover have "?a \<noteq> []" using \<open>h \<noteq> []\<close> by simp
    ultimately show ?thesis
      using hd_replace_wide [of ?a kelvin "CHR ''k''"] wide_not_ascii(1) by metis
  qed
  ultimately show "hd h \<noteq> CHR ''-''" by auto
  have "\<forall>c \<in> set ?b. is_alnum c \<or> c = CHR ''-'' \<or> c = CHR ''.''"
  proof
    fix c
    assume "c \<in> set ?b"
    then consider "c = CHR ''.''" | l where "l \<in> set (split_char CHR ''.'' ?b)" "c \<in> set l"
      using set_split_char [of ?b "CHR ''.''"] by blast
    then show "is_alnum c \<or> c = CHR ''-'' \<or> c = CHR ''.''"
      by cases (use parts in \<open>auto simp: host_label_def list_all_iff\<close>)
  qed
  then have b: "host_char c" if "c \<in> set ?b" for c using that unfolding host_char_def by blast
  have w: "host_char c" if "c \<in> set kelvin \<union> set long_s" for c
    using that wide_not_ascii unfolding host_char_def by blast
  have "set h \<subseteq> set ?b \<union> (set kelvin \<union> set long_s)"
    using set_replace_wide [of h long_s "CHR ''s''"] set_replace_wide [of ?a kelvin "CHR ''k''"] by blast
  then show "\<forall>c \<in> set h. host_char c" using b w by blast
qed

lemma lower_host_char: "host_char c \<Longrightarrow> host_char (lower_char c)"
  by (auto simp: host_char_def lower_char_def is_alnum_def is_upper_def is_lower_def is_digit_def)

lemma lower_char_dash: "lower_char c = CHR ''-'' \<longleftrightarrow> c = CHR ''-''"
proof -
  have "\<not> is_upper CHR ''-''" "\<not> is_lower CHR ''-''" by code_simp+
  moreover have "is_upper c \<Longrightarrow> is_lower (lower_char c)"
    by (auto simp: lower_char_def is_upper_def is_lower_def)
  ultimately show ?thesis by (auto simp: lower_char_def)
qed

lemma set_replace_wide_le: "set (replace_wide w c s) \<subseteq> insert c (set s)"
proof (induction w c s rule: replace_wide.induct)
  case (2 w c x xs)
  then show ?case using set_drop_subset [of "length w - 1" xs] by auto
qed simp

lemma host_lower_chars:
  assumes "hostnamePattern h"
  shows "host_lower h \<noteq> []" and "hd (host_lower h) \<noteq> CHR ''-''" and "\<forall>c \<in> set (host_lower h). host_char c"
proof -
  note h = hostnamePattern_chars [OF assms]
  have k: "host_char CHR ''k''" "CHR ''k'' \<noteq> CHR ''-''" by code_simp+
  show "host_lower h \<noteq> []" using h(1) by (simp add: host_lower_def to_lower_def)
  have "hd (replace_wide kelvin CHR ''k'' h) \<noteq> CHR ''-''"
    using h(1,2) k by (cases h) auto
  then show "hd (host_lower h) \<noteq> CHR ''-''"
    using h(1) by (simp add: host_lower_def to_lower_def hd_map lower_char_dash)
  show "\<forall>c \<in> set (host_lower h). host_char c"
    using set_replace_wide_le [of kelvin "CHR ''k''" h] h(3) k
    by (auto simp: host_lower_def to_lower_def intro!: lower_host_char)
qed

lemma dec_digits_chars: "\<forall>c \<in> set (dec_digits n). is_digit c" and dec_digits_nonempty: "dec_digits n \<noteq> []"
proof -
  have d: "is_digit (digit_char k)" if "k < 10" for k
    using that by (simp add: is_digit_def digit_char_def)
  show "\<forall>c \<in> set (dec_digits n). is_digit c"
    by (induction n rule: dec_digits.induct) (subst dec_digits.simps, auto intro: d)
  show "dec_digits n \<noteq> []" by (subst dec_digits.simps) simp
qed

lemma set_join: "set (join sep xs) \<subseteq> set sep \<union> \<Union> (set ` set xs)"
  by (induction sep xs rule: join.induct) auto

lemma v4_string_chars:
  assumes "q \<noteq> []"
  shows "v4_string q \<noteq> []" and "hd (v4_string q) \<noteq> CHR ''-''" and "\<forall>c \<in> set (v4_string q). host_char c"
proof -
  obtain b bs where q: "q = b # bs" using assms by (cases q) auto
  have hd: "v4_string q \<noteq> [] \<and> hd (v4_string q) = hd (dec_digits (unat b))"
    using dec_digits_nonempty [of "unat b"] by (cases bs) (simp_all add: v4_string_def q)
  then show "v4_string q \<noteq> []" by simp
  have "is_digit (hd (v4_string q))"
    using hd dec_digits_chars [of "unat b"] dec_digits_nonempty [of "unat b"] by simp
  moreover have "\<not> is_digit CHR ''-''" by code_simp
  ultimately show "hd (v4_string q) \<noteq> CHR ''-''" by auto
  show "\<forall>c \<in> set (v4_string q). host_char c"
    using set_join [of "''.''" "map (\<lambda>b. dec_digits (unat b)) q"] dec_digits_chars
    by (fastforce simp: v4_string_def host_char_def is_alnum_def)
qed

lemma normalize_host_chars:
  assumes "normalize_host h = Inr h'"
  shows "h' \<noteq> [] \<and> hd h' \<noteq> CHR ''-'' \<and> (\<forall>c \<in> set h'. host_char c)"
proof (cases "parse_ip h")
  case None
  with assms have "hostnamePattern h" and "h' = host_lower h"
    by (auto simp: normalize_host_def Let_def split: if_splits)
  with host_lower_chars [of h] show ?thesis by simp
next
  case (Some ip)
  with assms obtain q where "to4 ip = Some q" and h': "h' = v4_string q"
    by (auto simp: normalize_host_def split: if_splits option.splits)
  then have "q \<noteq> []" using to4_length by fastforce
  with v4_string_chars [of q] h' show ?thesis by simp
qed

lemma normalizeRemoteProfile_host:
  assumes "normalizeRemoteProfile item = Inr r"
  shows "normalize_host (trim_space (rp_host item)) = Inr (rp_host r)"
proof -
  from assms obtain n h p q where h: "normalize_host (rp_host (trim_profile item)) = Inr h"
    and p: "normalize_ports n ((trim_profile item)\<lparr>rp_host := h\<rparr>) = Inr p"
    and q: "normalize_sunshine (normalize_mode p) = Inr q" and r: "normalize_policy q = Inr r"
    by (rule normalizeRemoteProfile_steps)
  have "rp_host (normalize_mode p) = rp_host p" by (simp add: normalize_mode_def)
  then have "rp_host r = h"
    using normalize_ports_Inr [OF p] normalize_sunshine_Inr [OF q] normalize_policy_Inr [OF r]
    by (simp add: same_route_def)
  with h show ?thesis by (simp add: trim_profile_def)
qed


definition sample_profile :: remote_profile where
  "sample_profile = \<lparr>rp_id = '''', rp_device_id = ''device_1'', rp_protocol = '' RDP '', rp_host = '' Office.LOCAL '',
     rp_port = 0, rp_verify_port = 0, rp_username = '''', rp_domain = '''', rp_cert_policy = '''', rp_mode = '''',
     rp_app = '''', rp_fps = 0, rp_resolution = '''', rp_bitrate = 0, rp_enabled = True, rp_created = '''',
     rp_updated = ''''\<rparr>"


end
