(* ===== verification/StoreOps.thy ===== *)
theory StoreOps
  imports StoreInvariant
begin

text \<open>
  The store as a state machine: its operations as one datatype, the databases reachable through
  them under any driver failures, and what an operation that returns an error leaves behind.
\<close>

section \<open>Operations\<close>

text \<open>The operations of the repository interface that write.\<close>

datatype store_op =
    OpCreateSite site | OpUpdateSite string site | OpDeleteSite string
  | OpCreateDevice device | OpUpdateDevice string device | OpDeleteDevice string
  | OpCreateGroup group | OpUpdateGroup string group | OpDeleteGroup string
  | OpCreateRelay wake_relay | OpUpdateRelay string wake_relay | OpDeleteRelay string
  | OpUpsertRemote remote_profile | OpDeleteRemote string
  | OpUpsertPower power_profile | OpDeletePower string
  | OpRecordWake wake_attempt | OpRecordPower power_attempt
  | OpSync string string string | OpImport export_data

definition ignore :: "'a m \<Rightarrow> unit m" where
  "ignore p = andThen p (\<lambda>_. ret ())"

fun run_op :: "store_op \<Rightarrow> unit m" where
  "run_op (OpCreateSite s) = ignore (CreateSite s)"
| "run_op (OpUpdateSite i s) = ignore (UpdateSite i s)"
| "run_op (OpDeleteSite i) = DeleteSite i"
| "run_op (OpCreateDevice v) = ignore (CreateDevice v)"
| "run_op (OpUpdateDevice i v) = ignore (UpdateDevice i v)"
| "run_op (OpDeleteDevice i) = DeleteDevice i"
| "run_op (OpCreateGroup g) = ignore (CreateGroup g)"
| "run_op (OpUpdateGroup i g) = ignore (UpdateGroup i g)"
| "run_op (OpDeleteGroup i) = DeleteGroup i"
| "run_op (OpCreateRelay r) = ignore (CreateWakeRelay r)"
| "run_op (OpUpdateRelay i r) = ignore (UpdateWakeRelay i r)"
| "run_op (OpDeleteRelay i) = DeleteWakeRelay i"
| "run_op (OpUpsertRemote p) = ignore (UpsertRemoteProfile p)"
| "run_op (OpDeleteRemote i) = DeleteRemoteProfile i"
| "run_op (OpUpsertPower p) = ignore (UpsertPowerProfile p)"
| "run_op (OpDeletePower i) = DeletePowerProfile i"
| "run_op (OpRecordWake a) = ignore (RecordWakeAttempt a)"
| "run_op (OpRecordPower a) = ignore (RecordPowerAttempt a)"
| "run_op (OpSync i a b) = ignore (SyncDeviceAddress i a b)"
| "run_op (OpImport x) = Import x"

inductive reachable :: "db \<Rightarrow> bool" where
  opened: "reachable empty_db"
| step: "reachable (wdb w) \<Longrightarrow> reachable (wdb (snd (run_op op w)))"

inductive_cases reachableE: "reachable d"

lemma pres_ignore: "pres I p \<Longrightarrow> pres I (ignore p)"
  unfolding ignore_def by (intro pres_intros)

lemma run_op_schema: "pres schema_ok (run_op op)"
  by (cases op) (simp_all add: pres_ignore schema_site_ops schema_device_ops schema_group_ops
      schema_relay_ops schema_profile_ops schema_power_ops schema_attempt_ops schema_Import)

lemma run_op_rows: "pres rows_ok (run_op op)"
  by (cases op) (simp_all add: pres_ignore rows_CreateSite rows_UpdateSite rows_DeleteSite
      rows_CreateDevice rows_UpdateDevice rows_DeleteDevice rows_CreateGroup rows_UpdateGroup
      rows_DeleteGroup rows_CreateWakeRelay rows_UpdateWakeRelay rows_DeleteWakeRelay
      rows_UpsertRemoteProfile rows_DeleteRemoteProfile rows_UpsertPowerProfile
      rows_DeletePowerProfile rows_RecordWakeAttempt rows_RecordPowerAttempt
      rows_SyncDeviceAddress rows_Import)

lemma run_op_refs: "pres refs_ok (run_op op)"
  using refs_site_ops [of "{}"] refs_relay_ops [of "{}"] refs_CreateDevice [of "{}"]
    refs_UpdateDevice [of "{}"] refs_CreateGroup [of "{}"] refs_UpdateGroup [of "{}"]
    refs_DeleteGroup [of "{}"] refs_UpsertRemoteProfile [of "{}"] refs_UpsertPowerProfile [of "{}"]
    refs_profile_deletes [of "{}"] refs_attempt_ops [of "{}"] refs_SyncDeviceAddress [of "{}"]
  by (cases op) (simp_all add: pres_ignore refs_DeleteDevice refs_Import)


definition quiet_world :: "db \<Rightarrow> world" where
  "quiet_world d = \<lparr>wdb = d, tick = 0, faults = (\<lambda>_. None), clock = (\<lambda>n. 1000 + int n),
     entropy = (\<lambda>n. [word_of_nat n]), timefmt = itoa\<rparr>"

definition sample_device :: device where
  "sample_device = \<lparr>d_id = '''', d_name = '' Desk '', d_mac = ''02:00:00:00:00:0A'', d_ip = ''192.168.1.20'',
     d_broadcast = '''', d_port = 0, d_interface = '''', d_site_id = '''', d_type = '''', d_platform = '''',
     d_strategy = '''', d_relay_id = '''', d_verify_port = 0, d_description = '''', d_enabled = True,
     d_created = '''', d_updated = ''''\<rparr>"

definition sample_remote :: "string \<Rightarrow> remote_profile" where
  "sample_remote i = \<lparr>rp_id = '''', rp_device_id = i, rp_protocol = ''SSH'', rp_host = '''', rp_port = 0,
     rp_verify_port = 0, rp_username = ''me'', rp_domain = '''', rp_cert_policy = '''', rp_mode = '''', rp_app = '''',
     rp_fps = 0, rp_resolution = '''', rp_bitrate = 0, rp_enabled = True, rp_created = '''', rp_updated = ''''\<rparr>"

text \<open>A database with one device and its remote profile.\<close>

definition sample_db :: db where
  "sample_db = wdb (snd (run_op (OpUpsertRemote (sample_remote ''device_1001_01''))
     (snd (run_op (OpCreateDevice sample_device) (quiet_world empty_db)))))"

lemma sample_db_value [code]: "sample_db =
  \<lparr>t_sites = [],
    t_devices = [\<lparr>d_id = ''device_1001_01'', d_name = ''Desk'', d_mac = ''02:00:00:00:00:0a'',
      d_ip = ''192.168.1.20'', d_broadcast = [], d_port = 0, d_interface = [], d_site_id = [],
      d_type = ''unknown'', d_platform = ''unknown'', d_strategy = ''broadcast'', d_relay_id = [],
      d_verify_port = 0, d_description = [], d_enabled = True, d_created = ''1000'', d_updated = ''1000''\<rparr>],
    t_groups = [], t_members = [], t_wakes = [], t_relays = [],
    t_profiles = [\<lparr>rp_id = ''remote_1006_06'', rp_device_id = ''device_1001_01'', rp_protocol = ''ssh'',
      rp_host = ''192.168.1.20'', rp_port = 22, rp_verify_port = 22, rp_username = ''me'', rp_domain = [],
      rp_cert_policy = ''strict'', rp_mode = ''native'', rp_app = [], rp_fps = 0, rp_resolution = [],
      rp_bitrate = 0, rp_enabled = True, rp_created = ''1004'', rp_updated = ''1004''\<rparr>],
    t_power = [], t_powers = []\<rparr>"
  by code_simp

lemma sample_reachable: "reachable sample_db"
  unfolding sample_db_def
  by (intro reachable.step) (simp add: quiet_world_def reachable.opened)


section \<open>What an operation that fails leaves behind\<close>

definition quiet :: "world \<Rightarrow> bool" where
  "quiet w \<longleftrightarrow> (\<forall>n. faults w n = None)"

text \<open>\<open>settled p\<close>: when no statement is failed by the driver, an error means that the database
  is unchanged. \<open>hush p\<close>: the fault schedule is not touched.\<close>

definition settled :: "'a m \<Rightarrow> bool" where
  "settled p \<longleftrightarrow> (\<forall>w e w'. quiet w \<longrightarrow> p w = (Inl e, w') \<longrightarrow> wdb w' = wdb w)"

definition hush :: "'a m \<Rightarrow> bool" where
  "hush p \<longleftrightarrow> (\<forall>w. faults (snd (p w)) = faults w)"

lemma settled_atomic: "atomic p \<Longrightarrow> settled p"
  by (auto simp: settled_def atomic_def)

lemma hush_simps [simp]:
  "hush (ret x)" "hush (fail e)" "hush (lift r)" "hush now" "hush (newID pre)" "hush (stmt f)"
  by (auto simp: hush_def ret_def fail_def lift_def now_def newID_def stmt_def bump_def
      split: option.splits sum.splits)

lemma hush_andThen: "hush p \<Longrightarrow> (\<And>x. hush (f x)) \<Longrightarrow> hush (andThen p f)"
  by (auto simp: hush_def andThen_def split: prod.splits sum.splits) (metis snd_conv)+

lemma hush_map_error: "hush p \<Longrightarrow> hush (map_error h p)"
  by (auto simp: hush_def map_error_def split: prod.splits sum.splits) (metis snd_conv)+

lemma hush_query [simp]: "hush (query f)"
  by (simp add: query_def)

lemma hush_select_row [simp]: "hush (select_row f)"
  unfolding select_row_def by (rule hush_andThen) (auto simp: found_def split: option.split)

lemma settled_andThen:
  assumes "readonly p" and "hush p" and "\<And>x. settled (f x)"
  shows "settled (andThen p f)"
  unfolding settled_def
proof (intro allI impI)
  fix w e w'
  assume q: "quiet w" and run: "andThen p f w = (Inl e, w')"
  obtain r w1 where r: "p w = (r, w1)" by fastforce
  have "wdb w1 = wdb w" and "quiet w1"
    using assms(1,2) r q unfolding readonly_def hush_def quiet_def by (metis snd_conv)+
  then show "wdb w' = wdb w"
    using assms(3) r run unfolding settled_def andThen_def by (cases r) auto
qed

lemma atomic_ignore: "atomic p \<Longrightarrow> atomic (ignore p)"
  by (auto simp: ignore_def atomic_then_ret)

lemma settled_ignore: "settled p \<Longrightarrow> settled (ignore p)"
proof -
  assume p: "settled p"
  have "wdb w' = wdb w" if "quiet w" "ignore p w = (Inl e, w')" for w e w'
  proof (cases "p w")
    case (Pair r w1)
    with that have "p w = (Inl e, w')" by (cases r) (simp_all add: ignore_def andThen_def ret_def)
    with p that show ?thesis unfolding settled_def by blast
  qed
  then show "settled (ignore p)" unfolding settled_def by blast
qed

lemma atomic_if: "atomic p \<Longrightarrow> atomic q \<Longrightarrow> atomic (if b then p else q)"
  by simp

lemma atomic_readonly_simps [simp]: "atomic (ret x)" "atomic (fail e)"
  by (simp_all add: readonly_atomic)

lemmas atomic_intros = atomic_andThen [OF readonly_now] atomic_andThen [OF readonly_newID]
  atomic_andThen [OF readonly_lift] atomic_andThen [OF readonly_query] atomic_tx
  atomic_then_ret atomic_map_error atomic_exec_insert atomic_readonly_simps

lemma atomic_creates:
  "atomic (CreateSite s)" "atomic (CreateDevice v)" "atomic (CreateGroup g)" "atomic (CreateWakeRelay r)"
  unfolding CreateSite_def CreateDevice_def CreateGroup_def CreateWakeRelay_def insert_site_def
    insert_device_def insert_relay_def Let_def
  by (intro atomic_intros)+

lemma atomic_deletes:
  "atomic (DeleteSite i)" "atomic (DeleteDevice i)" "atomic (DeleteGroup i)" "atomic (DeleteWakeRelay i)"
  unfolding DeleteSite_def DeleteDevice_def DeleteGroup_def DeleteWakeRelay_def
  by (intro atomic_intros atomic_if)+

lemma atomic_profile_deletes: "atomic (DeleteRemoteProfile i)" "atomic (DeletePowerProfile i)"
  unfolding DeleteRemoteProfile_def DeletePowerProfile_def
  by (rule profiles_db.atomic_delete_or_missing, rule power_db.atomic_delete_or_missing')

lemma atomic_attempts: "atomic (RecordWakeAttempt a)" "atomic (RecordPowerAttempt b)"
  unfolding RecordWakeAttempt_def RecordPowerAttempt_def Let_def
  by (rule atomic_andThen, simp, rule atomic_andThen, simp, intro atomic_intros)+

lemma atomic_transfers: "atomic (SyncDeviceAddress i a b)" "atomic (Import x)"
  unfolding SyncDeviceAddress_def Import_def Let_def by (intro atomic_if atomic_intros)+

text \<open>The operations that read the row back after writing it, outside a transaction.\<close>

fun reads_back :: "store_op \<Rightarrow> bool" where
  "reads_back (OpUpdateSite i s) = True"
| "reads_back (OpUpdateDevice i v) = True"
| "reads_back (OpUpdateGroup i g) = True"
| "reads_back (OpUpdateRelay i r) = True"
| "reads_back (OpUpsertRemote p) = True"
| "reads_back (OpUpsertPower p) = True"
| "reads_back _ = False"

lemma atomic_run_op: "\<not> reads_back op \<Longrightarrow> atomic (run_op op)"
  by (cases op) (simp_all add: atomic_ignore atomic_creates atomic_deletes atomic_profile_deletes
      atomic_attempts atomic_transfers)

text \<open>
  C3. All or nothing. Whichever statement the driver fails, an operation that returns an error
  leaves the database exactly as it was: every create and delete, Import, the address
  synchronisation and the logs. The six operations that read the written row back are the
  exception (the next property).
\<close>

theorem failed_operation_undone:
  assumes "\<not> reads_back op" and "run_op op w = (Inl e, w')"
  shows "wdb w' = wdb w"
  using atomic_run_op [OF assms(1)] assms(2) unfolding atomic_def by blast

text \<open>The driver fails the fifth effect: the last statement of the transaction of DeleteDevice.\<close>

definition failing_world :: world where
  "failing_world = (quiet_world sample_db)\<lparr>faults := (\<lambda>n. if n = 4 then Some ''disk I/O error'' else None)\<rparr>"

theorem failed_operation_undone_witness:
  "run_op (OpDeleteDevice ''device_1001_01'') failing_world =
     (Inl (DBError ''disk I/O error''), snd (run_op (OpDeleteDevice ''device_1001_01'') failing_world)) \<and>
   wdb (snd (run_op (OpDeleteDevice ''device_1001_01'') failing_world)) = sample_db"
proof -
  let ?r = "run_op (OpDeleteDevice ''device_1001_01'') failing_world"
  have "fst ?r = Inl (DBError ''disk I/O error'')" by code_simp
  then have *: "?r = (Inl (DBError ''disk I/O error''), snd ?r)" by (metis prod.collapse)
  from failed_operation_undone [OF _ *] have "wdb (snd ?r) = wdb failing_world" by simp
  then show ?thesis using * by (simp add: failing_world_def quiet_world_def)
qed

lemma settled_updates: "settled (UpdateSite i s)" "settled (UpdateDevice i v)" "settled (UpdateWakeRelay i r)"
proof -
  have site: "settled (andThen (update_site i x) (\<lambda>n. if n = 0 then fail ErrNotFound else GetSite i))" for x
    unfolding settled_def quiet_def update_site_def GetSite_def
    by (intro allI impI, rule sites_db.update_then_read) (auto simp: set_site_def)
  have dev: "settled (andThen (update_device i x) (\<lambda>n. if n = 0 then fail ErrNotFound else GetDevice i))" for x
    unfolding settled_def quiet_def update_device_def GetDevice_def
    by (intro allI impI, rule devices_db.update_then_read) (auto simp: set_device_def)
  have rel: "settled (andThen (update_relay i x) (\<lambda>n. if n = 0 then fail ErrNotFound else GetWakeRelay i))" for x
    unfolding settled_def quiet_def update_relay_def GetWakeRelay_def
    by (intro allI impI, rule relays_db.update_then_read) (auto simp: set_relay_def)
  show "settled (UpdateSite i s)" unfolding UpdateSite_def by (intro settled_andThen site) simp_all
  show "settled (UpdateDevice i v)" unfolding UpdateDevice_def by (intro settled_andThen dev) simp_all
  show "settled (UpdateWakeRelay i r)" unfolding UpdateWakeRelay_def by (intro settled_andThen rel) simp_all
qed

lemma hush_for_each: "(\<And>x s. hush (body x s)) \<Longrightarrow> hush (for_each body xs s)"
  by (induction xs arbitrary: s) (auto intro: hush_andThen)

lemma hush_exec [simp]:
  "hush (exec_insert get put keys r)" "hush (exec_update get put keys C f)" "hush (exec_delete get put C)"
  by (simp_all add: exec_insert_def exec_update_def exec_delete_def)

lemma hush_tx:
  assumes "hush body"
  shows "hush (tx body)"
proof -
  have st: "faults w' = faults w" if "stmt f w = (r, w')" for f :: "db \<Rightarrow> error + 'b \<times> db" and w r w'
    using that hush_simps(6) [of f] unfolding hush_def by (metis snd_conv)
  have bd: "faults w' = faults w" if "body w = (r, w')" for w r w'
    using that assms unfolding hush_def by (metis snd_conv)
  show ?thesis
    unfolding hush_def
  proof (rule allI)
    fix w
    obtain r1 w1 where 1: "stmt (\<lambda>d. Inr ((), d)) w = (r1, w1)" by fastforce
    obtain r2 w2 where 2: "body w1 = (r2, w2)" by fastforce
    obtain r3 w3 where 3: "stmt (\<lambda>d. Inr ((), d)) w2 = (r3, w3)" by fastforce
    show "faults (snd (tx body w)) = faults w"
      using st [OF 1] bd [OF 2] st [OF 3]
      by (simp add: tx_def 1 2 3 split: sum.split tx_end.split)
  qed
qed

text \<open>A write that makes the row readable, then the read.\<close>

lemma read_after_write:
  assumes "atomic p" and "hush p" and q: "quiet w"
    and g: "\<And>x w1. p w = (Inr x, w1) \<Longrightarrow> g (wdb w1) \<noteq> None"
    and run: "andThen p (\<lambda>_. select_row g) w = (Inl e, w')"
  shows "wdb w' = wdb w"
proof -
  obtain r w1 where r: "p w = (r, w1)" by fastforce
  show ?thesis
  proof (cases r)
    case (Inl e')
    with r run assms(1) show ?thesis by (auto simp: andThen_def atomic_def)
  next
    case (Inr x)
    then have "g (wdb w1) \<noteq> None" using r g by simp
    moreover have "faults w1 = faults w" using assms(2) r unfolding hush_def by (metis snd_conv)
    ultimately have "\<exists>y. select_row g w1 = (Inr y, bump w1)"
      using select_row_ok [of w1 g] q by (auto simp: quiet_def)
    with r Inr run show ?thesis by (auto simp: andThen_def)
  qed
qed

lemma settled_then_read:
  assumes "atomic p" and "hush p" and "triple (\<lambda>_. True) p (\<lambda>_ d. g d \<noteq> None)"
  shows "settled (andThen p (\<lambda>_. select_row g))"
  unfolding settled_def
proof (intro allI impI)
  fix w e w'
  assume q: "quiet w" and run: "andThen p (\<lambda>_. select_row g) w = (Inl e, w')"
  show "wdb w' = wdb w"
    by (rule read_after_write [OF assms(1,2) q _ run]) (use assms(3) in \<open>simp add: triple_def\<close>)
qed

lemma settled_read_more:
  assumes "settled (andThen p (\<lambda>_. select_row g))" and "hush p"
  shows "settled (andThen p (\<lambda>_. andThen (select_row g) (\<lambda>x. andThen (query q) (\<lambda>y. ret (k x y)))))"
  unfolding settled_def
proof (intro allI impI)
  fix w e w'
  assume qw: "quiet w" and run: "andThen p (\<lambda>_. andThen (select_row g)
      (\<lambda>x. andThen (query q) (\<lambda>y. ret (k x y)))) w = (Inl e, w')"
  obtain r w1 where r: "p w = (r, w1)" by fastforce
  obtain r2 w2 where r2: "select_row g w1 = (r2, w2)" by fastforce
  have "faults w1 = faults w" "faults w2 = faults w1"
    using assms(2) r r2 hush_select_row [of g] unfolding hush_def by (metis snd_conv)+
  then have "quiet w2" using qw by (simp add: quiet_def)
  then have "\<exists>y w3. query q w2 = (Inr y, w3)" by (simp add: query_def stmt_def quiet_def)
  then have "\<exists>e'. andThen p (\<lambda>_. select_row g) w = (Inl e', w')"
    using run r r2 by (cases r; cases r2) (auto simp: andThen_def ret_def)
  then show "wdb w' = wdb w" using assms(1) qw unfolding settled_def by blast
qed

lemma settled_UpdateGroup: "settled (UpdateGroup i g)"
proof -
  let ?body = "\<lambda>t. andThen (update_group i g t) (\<lambda>count.
       if count = 0 then fail ErrNotFound
       else andThen (replaceMembers i (g_device_ids g)) (\<lambda>_. ret (Commit ())))"
  have keep: "pres (\<lambda>d. i \<in> group_ids d) (replaceMembers i ms)" for ms
    unfolding replaceMembers_def
    by (intro pres_intros pres_frame(3)) (auto simp: group_ids_def put_defs intro!: pres_intros pres_frame)
  have upd: "triple (\<lambda>_. True) (update_group i g t) (\<lambda>n d. n \<noteq> 0 \<longrightarrow> i \<in> group_ids d)" for t
    unfolding update_group_def
  proof (rule triple_map_error, rule triple_update)
    fix d :: db and rows
    let ?f = "\<lambda>r. r\<lparr>g_name := trim_space (g_name g), g_description := g_description g, g_updated := t\<rparr>"
    assume "update_rows group_keys (\<lambda>r. g_id r = i) ?f (t_groups d) = Some rows"
    then have "g_id ` set rows = g_id ` set (t_groups d)" by (rule ids_update) simp
    then show "count_rows (\<lambda>r. g_id r = i) (t_groups d) \<noteq> 0 \<longrightarrow> i \<in> group_ids (put_groups rows d)"
      by (auto simp: count_rows_0 group_ids_def put_defs)
  qed
  have body: "triple (\<lambda>_. True) (?body t) (\<lambda>e d. case e of Commit _ \<Rightarrow> i \<in> group_ids d | Rollback _ \<Rightarrow> True)" for t
  proof (rule triple_andThen [OF upd], intro triple_if triple_fail)
    fix n :: nat
    assume "n \<noteq> 0"
    then have "triple (\<lambda>d. n \<noteq> 0 \<longrightarrow> i \<in> group_ids d) (replaceMembers i (g_device_ids g)) (\<lambda>_ d. i \<in> group_ids d)"
      using triple_pres [OF keep] by simp
    then show "triple (\<lambda>d. n \<noteq> 0 \<longrightarrow> i \<in> group_ids d)
        (andThen (replaceMembers i (g_device_ids g)) (\<lambda>_. ret (Commit ())))
        (\<lambda>e d. case e of Commit _ \<Rightarrow> i \<in> group_ids d | Rollback _ \<Rightarrow> True)"
      by (rule triple_andThen) (simp add: triple_ret)
  qed
  have never: "?body t w = (Inr (Rollback x), w1) \<Longrightarrow> False" for t w x w1
    by (auto simp: andThen_Inr fail_def ret_def split: if_splits)
  have "triple (\<lambda>_. True) (tx (?body t)) (\<lambda>_ d. i \<in> group_ids d)" for t
    by (rule triple_tx [OF body]) (blast dest: never)
  then have ex: "triple (\<lambda>_. True) (tx (?body t)) (\<lambda>_ d. find_row g_id i (t_groups d) \<noteq> None)" for t
    by (rule triple_weaken) (auto simp: group_ids_def find_row_None)
  have h: "hush (tx (?body t))" for t
    unfolding update_group_def replaceMembers_def
    by (intro hush_tx hush_andThen hush_map_error) (auto intro!: hush_andThen hush_for_each hush_map_error split: prod.splits)
  show ?thesis
    unfolding UpdateGroup_def GetGroup_def groupDeviceIDs_def
    by (intro settled_andThen [OF readonly_now] settled_read_more settled_then_read atomic_tx ex h) simp
qed

lemma atomic_write_profile: "atomic (write_profile e p t)"
  unfolding write_profile_def
  by (cases e) (auto intro!: atomic_intros atomic_exec_update intro: atomic_andThen)

lemma atomic_write_power: "atomic (write_power e p t)"
  unfolding write_power_def
  by (cases e) (auto intro!: atomic_intros atomic_exec_update intro: atomic_andThen)

lemma hush_write: "hush (write_profile e p t)" "hush (write_power e' q t)"
  unfolding write_profile_def write_power_def
  by (cases e; cases e'; auto intro!: hush_andThen hush_map_error)+

lemma settled_query_write:
  assumes "\<And>e. atomic (p e)" and "\<And>e. hush (p e)"
    and "\<And>w x w1. p (g (wdb w)) w = (Inr x, w1) \<Longrightarrow> g (wdb w1) \<noteq> None"
  shows "settled (andThen (query g) (\<lambda>e. andThen (p e) (\<lambda>_. select_row g)))"
  unfolding settled_def
proof (intro allI impI)
  fix w e w'
  assume q: "quiet w" and run: "andThen (query g) (\<lambda>e. andThen (p e) (\<lambda>_. select_row g)) w = (Inl e, w')"
  have "query g w = (Inr (g (wdb (bump w))), bump w)"
    using q by (simp add: query_def stmt_def quiet_def bump_def)
  then have "andThen (p (g (wdb (bump w)))) (\<lambda>_. select_row g) (bump w) = (Inl e, w')"
    using run by (simp add: andThen_def)
  moreover have "quiet (bump w)" using q by (simp add: quiet_def)
  ultimately have "wdb w' = wdb (bump w)"
    by (rule read_after_write [rotated 4, OF _ assms(1) assms(2)]) (rule assms(3))
  then show "wdb w' = wdb w" by simp
qed

lemma write_profile_found:
  assumes "write_profile (find_profile (rp_device_id q) (wdb w)) q t w = (Inr u, w1)"
  shows "find_profile (rp_device_id q) (wdb w1) \<noteq> None"
proof (cases "find_profile (rp_device_id q) (wdb w)")
  case None
  with assms obtain uid w0 where "exec_insert t_profiles put_profiles profile_keys
      (q\<lparr>rp_id := uid, rp_created := t, rp_updated := t\<rparr>) w0 = (Inr u, w1)"
    by (auto simp: write_profile_def andThen_Inr map_error_Inr)
  from profiles_db.insert_effect [OF this, of "rp_device_id q"] show ?thesis
    by (simp add: find_profile_def)
next
  case (Some r)
  with assms obtain n where "exec_update t_profiles put_profiles profile_keys
      (\<lambda>r. rp_device_id r = rp_device_id q) (set_profile q t) w = (Inr n, w1)"
    by (auto simp: write_profile_def andThen_Inr map_error_Inr ret_def)
  from profiles_db.update_effect(2) [OF this, of "rp_device_id q"] Some show ?thesis
    by (simp add: find_profile_def set_profile_def)
qed

lemma write_power_found:
  assumes "write_power (find_power (pp_device_id q) (wdb w)) q t w = (Inr u, w1)"
  shows "find_power (pp_device_id q) (wdb w1) \<noteq> None"
proof (cases "find_power (pp_device_id q) (wdb w)")
  case None
  with assms obtain uid w0 where "exec_insert t_power put_power power_keys
      (q\<lparr>pp_id := uid, pp_created := t, pp_updated := t\<rparr>) w0 = (Inr u, w1)"
    by (auto simp: write_power_def andThen_Inr map_error_Inr)
  from power_db.insert_effect [OF this, of "pp_device_id q"] show ?thesis
    by (simp add: find_power_def)
next
  case (Some r)
  with assms obtain n where "exec_update t_power put_power power_keys
      (\<lambda>r. pp_device_id r = pp_device_id q) (set_power q t) w = (Inr n, w1)"
    by (auto simp: write_power_def andThen_Inr map_error_Inr ret_def)
  from power_db.update_effect(2) [OF this, of "pp_device_id q"] Some show ?thesis
    by (simp add: find_power_def set_power_def)
qed

lemma settled_lift_then: "(\<And>x. r = Inr x \<Longrightarrow> settled (f x)) \<Longrightarrow> settled (andThen (lift r) f)"
proof (cases r)
  case (Inl e)
  then show ?thesis by (simp add: settled_def andThen_def lift_def)
next
  case (Inr x)
  assume "\<And>x. r = Inr x \<Longrightarrow> settled (f x)"
  then have "settled (f x)" using Inr .
  moreover have "andThen (lift r) f = f x" by (rule ext) (simp add: Inr andThen_def lift_def)
  ultimately show ?thesis by simp
qed

lemma settled_upserts: "settled (UpsertRemoteProfile p)" "settled (UpsertPowerProfile q)"
proof -
  have rem: "settled (andThen (query (find_profile (trim_space (rp_device_id x)))) (\<lambda>e.
      andThen (write_profile e x t) (\<lambda>_. GetRemoteProfile (rp_device_id x))))"
    if "trim_space (rp_device_id x) = rp_device_id x" for x t
    unfolding GetRemoteProfile_def that
    by (intro settled_query_write atomic_write_profile hush_write write_profile_found)
  have pow: "settled (andThen (query (find_power (trim_space (pp_device_id x)))) (\<lambda>e.
      andThen (write_power e x t) (\<lambda>_. GetPowerProfile (pp_device_id x))))"
    if "trim_space (pp_device_id x) = pp_device_id x" for x t
    unfolding GetPowerProfile_def that
    by (intro settled_query_write atomic_write_power hush_write write_power_found)
  have get: "readonly (map_error h (GetDevice i))" "hush (map_error h (GetDevice i))" for h i
    by (simp_all add: GetDevice_def readonly_map_error hush_map_error)
  show "settled (UpsertRemoteProfile p)"
    unfolding UpsertRemoteProfile_def Let_def
  proof (rule settled_andThen [OF get], rule settled_lift_then)
    fix v x
    assume "normalizeRemoteProfile
        (if trim_space (rp_host (p\<lparr>rp_device_id := trim_space (rp_device_id p)\<rparr>)) = []
         then p\<lparr>rp_device_id := trim_space (rp_device_id p), rp_host := d_ip v\<rparr>
         else p\<lparr>rp_device_id := trim_space (rp_device_id p)\<rparr>) = Inr x"
    from normalizeRemoteProfile_Inr(2) [OF this] have "trim_space (rp_device_id x) = rp_device_id x"
      by simp
    then show "settled (andThen now (\<lambda>t. andThen (query (find_profile (trim_space (rp_device_id x)))) (\<lambda>e.
        andThen (write_profile e x t) (\<lambda>_. GetRemoteProfile (rp_device_id x)))))"
      by (intro settled_andThen [OF readonly_now] rem) simp
  qed
  show "settled (UpsertPowerProfile q)"
  proof (cases "trim_space (pp_device_id q) = []")
    case True
    then show ?thesis by (simp add: UpsertPowerProfile_def settled_atomic)
  next
    case False
    let ?x = "normalizePowerProfile (q\<lparr>pp_device_id := trim_space (pp_device_id q)\<rparr>)"
    have x: "trim_space (pp_device_id ?x) = pp_device_id ?x" by (simp add: normalizePowerProfile_def)
    show ?thesis
      unfolding UpsertPowerProfile_def Let_def
      by (simp only: False if_False, rule settled_andThen [OF get],
          rule settled_andThen [OF readonly_now], simp, rule pow [OF x])
  qed
qed

lemma settled_run_op: "settled (run_op op)"
proof (cases "reads_back op")
  case True
  then show ?thesis
    by (cases op) (simp_all add: settled_ignore settled_updates settled_UpdateGroup settled_upserts)
next
  case False
  then show ?thesis by (intro settled_atomic atomic_run_op)
qed

text \<open>
  C4. An operation the store refuses changes nothing: as long as the driver itself does not
  fail, every operation that returns an error (a record that does not exist, a name in use, a
  value out of range, a reference in an import file that is not there) leaves the database
  as it was. This includes the updates, whose written row is always found when it is read back.
\<close>

theorem refused_operation_changes_nothing:
  assumes "\<forall>n. faults w n = None" and "run_op op w = (Inl e, w')"
  shows "wdb w' = wdb w"
  using settled_run_op [of op] assms unfolding settled_def quiet_def by blast

theorem refused_operation_changes_nothing_witness:
  "run_op (OpUpdateDevice ''nobody'' sample_device) (quiet_world sample_db) =
     (Inl ErrNotFound, snd (run_op (OpUpdateDevice ''nobody'' sample_device) (quiet_world sample_db))) \<and>
   wdb (snd (run_op (OpUpdateDevice ''nobody'' sample_device) (quiet_world sample_db))) = sample_db"
proof -
  let ?r = "run_op (OpUpdateDevice ''nobody'' sample_device) (quiet_world sample_db)"
  have "fst ?r = Inl ErrNotFound" by code_simp
  then have *: "?r = (Inl ErrNotFound, snd ?r)" by (metis prod.collapse)
  have "\<forall>n. faults (quiet_world sample_db) n = None" by (simp add: quiet_world_def)
  from refused_operation_changes_nothing [OF this *] have "wdb (snd ?r) = wdb (quiet_world sample_db)" .
  then show ?thesis using * by (simp add: quiet_world_def)
qed

end
