(* ===== verification/StoreSpec.thy ===== *)
theory StoreSpec
  imports StoreOps
begin

text \<open>
  What the store promises: the table of devices refines a finite map from IDs to devices, a
  group keeps its members in order, deletes are refused while something refers to the row, a
  profile is stored in normal form, and an address is followed only from the value it had.
\<close>

section \<open>Devices as a finite map\<close>

definition devices_of :: "world \<Rightarrow> string \<Rightarrow> device option" where
  "devices_of w = (\<lambda>i. find_row d_id i (t_devices (wdb w)))"

lemma insert_fresh:
  "insert_row device_keys r rows = Some rows' \<Longrightarrow> find_row d_id (d_id r) rows = None"
  by (auto simp: insert_row_def find_row_None device_keys_def split: if_splits)

lemma CreateDevice_effect:
  assumes "CreateDevice v w = (Inr v', w')"
  defines "row \<equiv> v'\<lparr>d_name := trim_space (d_name v'), d_mac := to_lower (d_mac v')\<rparr>"
  shows "wdb w' = put_devices (t_devices (wdb w) @ [row]) (wdb w)"
    and "devices_of w' = (devices_of w)(d_id v' \<mapsto> row)" and "devices_of w (d_id v') = None"
proof -
  obtain t i w0 w1 where "now w = (Inr t, w0)" and "newID ''device'' w0 = (Inr i, w1)"
    and v': "v' = stamp_device t i v"
    and ins: "exec_insert t_devices put_devices device_keys row w1 = (Inr (), w')"
    using assms(1) unfolding row_def
    by (auto simp: CreateDevice_def insert_device_def run_Inr)
  then have w1: "wdb w1 = wdb w" using now_db newID_db by metis
  from devices_db.insert_effect [OF ins] obtain rows
    where r: "insert_row device_keys row (t_devices (wdb w)) = Some rows"
      and w': "wdb w' = put_devices rows (wdb w)"
    unfolding w1 by blast
  then show "wdb w' = put_devices (t_devices (wdb w) @ [row]) (wdb w)"
    by (auto simp: insert_row_def split: if_splits)
  have i: "d_id row = d_id v'" by (simp add: row_def)
  show "devices_of w' = (devices_of w)(d_id v' \<mapsto> row)"
    using devices_db.insert_effect [OF ins] by (auto simp: devices_of_def w1 i)
  show "devices_of w (d_id v') = None"
    using insert_fresh [OF r] by (simp add: devices_of_def i)
qed

lemma UpdateDevice_effect:
  assumes "UpdateDevice i v w = (Inr v', w')"
  shows "\<exists>old t. devices_of w i = Some old \<and>
    v' = set_device (device_defaults (v\<lparr>d_updated := t\<rparr>)) old \<and> devices_of w' = (devices_of w)(i \<mapsto> v')"
proof -
  obtain t w1 n w2 where "now w = (Inr t, w1)" and n: "n \<noteq> 0"
    and upd: "exec_update t_devices put_devices device_keys (\<lambda>r. d_id r = i)
      (set_device (device_defaults (v\<lparr>d_updated := t\<rparr>))) w1 = (Inr n, w2)"
    and get: "GetDevice i w2 = (Inr v', w')"
    using assms
    by (fastforce simp: UpdateDevice_def update_device_def run_Inr split: if_splits)
  then have w1: "wdb w1 = wdb w" by (auto dest: now_db)
  have w': "wdb w' = wdb w2" and v': "find_row d_id i (t_devices (wdb w2)) = Some v'"
    using select_row_Inr [OF get [unfolded GetDevice_def]] by auto
  have f: "d_id (set_device x r) = d_id r" for x r by (simp add: set_device_def)
  from devices_db.update_effect(1) [OF upd f] n obtain old where old: "devices_of w i = Some old"
    by (auto simp: devices_of_def w1)
  have e: "find_row d_id j (t_devices (wdb w2)) =
      (if j = i then map_option (set_device (device_defaults (v\<lparr>d_updated := t\<rparr>))) (devices_of w i) else devices_of w j)" for j
    using devices_db.update_effect(2) [OF upd f, of j] by (simp add: devices_of_def w1)
  have "v' = set_device (device_defaults (v\<lparr>d_updated := t\<rparr>)) old" using e [of i] v' old by simp
  moreover have "devices_of w' = (devices_of w)(i \<mapsto> v')"
    using e v' by (auto simp: devices_of_def w' fun_eq_iff)
  ultimately show ?thesis using old by blast
qed

lemma DeleteDevice_effect:
  assumes "DeleteDevice i w = (Inr u, w')"
  shows "devices_of w i \<noteq> None"
    and "wdb w' = (wdb w)\<lparr>t_members := delete_rows (\<lambda>m. m_device m = i) (t_members (wdb w)),
      t_profiles := delete_rows (\<lambda>p. rp_device_id p = i) (t_profiles (wdb w)),
      t_power := delete_rows (\<lambda>p. pp_device_id p = i) (t_power (wdb w)),
      t_devices := delete_rows (\<lambda>v. d_id v = i) (t_devices (wdb w))\<rparr>"
proof -
  let ?body = "andThen (exec_delete t_members put_members (\<lambda>m. m_device m = i)) (\<lambda>_.
     andThen (exec_delete t_profiles put_profiles (\<lambda>p. rp_device_id p = i)) (\<lambda>_.
     andThen (exec_delete t_power put_power (\<lambda>p. pp_device_id p = i)) (\<lambda>_.
     andThen (map_error normalizeDBError (exec_delete t_devices put_devices (\<lambda>v. d_id v = i))) (\<lambda>count.
     if count = 0 then fail ErrNotFound else ret (Commit ())))))"
  have steps: "e = Commit () \<and> (\<exists>x1 w2 x2 w3 x3 w4 n. n \<noteq> 0 \<and>
      exec_delete t_members put_members (\<lambda>m. m_device m = i) w1 = (Inr x1, w2) \<and>
      exec_delete t_profiles put_profiles (\<lambda>p. rp_device_id p = i) w2 = (Inr x2, w3) \<and>
      exec_delete t_power put_power (\<lambda>p. pp_device_id p = i) w3 = (Inr x3, w4) \<and>
      exec_delete t_devices put_devices (\<lambda>v. d_id v = i) w4 = (Inr n, w5))"
    if "?body w1 = (Inr e, w5)" for w1 e w5
    using that by (auto simp: run_Inr split: if_splits)
  from assms obtain w1 w5 where w: "wdb w1 = wdb w" and b: "?body w1 = (Inr (Commit ()), w5)"
    and w': "wdb w' = wdb w5"
    unfolding DeleteDevice_def by (rule tx_Inr) (use steps in blast)+
  from steps [OF b] obtain x1 w2 x2 w3 x3 w4 n where n: "n \<noteq> 0"
    and d: "exec_delete t_members put_members (\<lambda>m. m_device m = i) w1 = (Inr x1, w2)"
      "exec_delete t_profiles put_profiles (\<lambda>p. rp_device_id p = i) w2 = (Inr x2, w3)"
      "exec_delete t_power put_power (\<lambda>p. pp_device_id p = i) w3 = (Inr x3, w4)"
      "exec_delete t_devices put_devices (\<lambda>v. d_id v = i) w4 = (Inr n, w5)" by blast
  note e = d [THEN exec_delete_Inr]
  have d5: "wdb w4 = (wdb w)\<lparr>t_members := delete_rows (\<lambda>m. m_device m = i) (t_members (wdb w)),
      t_profiles := delete_rows (\<lambda>p. rp_device_id p = i) (t_profiles (wdb w)),
      t_power := delete_rows (\<lambda>p. pp_device_id p = i) (t_power (wdb w))\<rparr>"
    using e by (simp add: w put_defs)
  show "devices_of w i \<noteq> None"
    using n e(4) by (auto simp: d5 devices_of_def count_rows_0 find_row_None)
  show "wdb w' = (wdb w)\<lparr>t_members := delete_rows (\<lambda>m. m_device m = i) (t_members (wdb w)),
      t_profiles := delete_rows (\<lambda>p. rp_device_id p = i) (t_profiles (wdb w)),
      t_power := delete_rows (\<lambda>p. pp_device_id p = i) (t_power (wdb w)),
      t_devices := delete_rows (\<lambda>v. d_id v = i) (t_devices (wdb w))\<rparr>"
    using e(4) by (simp add: d5 w' put_defs)
qed

text \<open>Operations that do not write the table of devices.\<close>

definition devices_sat :: "(device list \<Rightarrow> bool) \<Rightarrow> db \<Rightarrow> bool" where
  "devices_sat P d \<longleftrightarrow> P (t_devices d)"

lemma devices_frame:
  "devices_sat P (put_sites a d) = devices_sat P d"
  "devices_sat P (put_groups b d) = devices_sat P d"
  "devices_sat P (put_members c d) = devices_sat P d"
  "devices_sat P (put_wakes e d) = devices_sat P d"
  "devices_sat P (put_relays f d) = devices_sat P d"
  "devices_sat P (put_profiles g d) = devices_sat P d"
  "devices_sat P (put_power h d) = devices_sat P d"
  "devices_sat P (put_powers k d) = devices_sat P d"
  by (simp_all add: put_defs devices_sat_def)

lemmas device_frame_intros = pres_intros
  pres_frame [where I = "devices_sat P" for P, OF devices_frame(1)]
  pres_frame [where I = "devices_sat P" for P, OF devices_frame(2)]
  pres_frame [where I = "devices_sat P" for P, OF devices_frame(3)]
  pres_frame [where I = "devices_sat P" for P, OF devices_frame(4)]
  pres_frame [where I = "devices_sat P" for P, OF devices_frame(5)]
  pres_frame [where I = "devices_sat P" for P, OF devices_frame(6)]
  pres_frame [where I = "devices_sat P" for P, OF devices_frame(7)]
  pres_frame [where I = "devices_sat P" for P, OF devices_frame(8)]

text \<open>The operations whose specification says something about devices.\<close>

fun writes_devices :: "store_op \<Rightarrow> bool" where
  "writes_devices (OpCreateDevice v) = True"
| "writes_devices (OpUpdateDevice i v) = True"
| "writes_devices (OpDeleteDevice i) = True"
| "writes_devices (OpDeleteSite i) = True"
| "writes_devices (OpDeleteRelay i) = True"
| "writes_devices (OpSync i a b) = True"
| "writes_devices (OpImport x) = True"
| "writes_devices _ = False"

lemma keeps_site: "pres (devices_sat P) (CreateSite s)" "pres (devices_sat P) (UpdateSite i s)"
  "pres (devices_sat P) (upsertSiteOn s)"
  unfolding site_op_defs Let_def by (intro device_frame_intros)+

lemma keeps_relay: "pres (devices_sat P) (CreateWakeRelay r)"
  "pres (devices_sat P) (UpdateWakeRelay i r)" "pres (devices_sat P) (upsertWakeRelayOn r)"
  unfolding relay_op_defs Let_def by (intro device_frame_intros)+

lemma keeps_members: "pres (devices_sat P) (replaceMembers g ms)"
  unfolding replaceMembers_def by (intro device_frame_intros) (auto intro!: device_frame_intros)

lemma keeps_group: "pres (devices_sat P) (CreateGroup g)" "pres (devices_sat P) (UpdateGroup i g)"
  "pres (devices_sat P) (DeleteGroup i)" "pres (devices_sat P) (upsertGroupOn g)"
  unfolding CreateGroup_def UpdateGroup_def DeleteGroup_def upsertGroupOn_def
    insert_group_def update_group_def GetGroup_def groupDeviceIDs_def Let_def
  by (intro device_frame_intros keeps_members)+

lemma keeps_profile: "pres (devices_sat P) (UpsertRemoteProfile p)"
  "pres (devices_sat P) (upsertRemoteProfileOn p)" "pres (devices_sat P) (DeleteRemoteProfile i)"
  unfolding profile_op_defs Let_def by (intro device_frame_intros)+

lemma keeps_power: "pres (devices_sat P) (UpsertPowerProfile q)"
  "pres (devices_sat P) (upsertPowerProfileOn q)" "pres (devices_sat P) (DeletePowerProfile i)"
  unfolding profile_op_defs Let_def by (intro device_frame_intros)+

lemma keeps_attempt: "pres (devices_sat P) (RecordWakeAttempt a)"
  "pres (devices_sat P) (RecordPowerAttempt b)"
  unfolding RecordWakeAttempt_def RecordPowerAttempt_def Let_def by (intro device_frame_intros)+

lemma keeps_devices: "\<not> writes_devices op \<Longrightarrow> pres (devices_sat P) (run_op op)"
  by (cases op) (simp_all add: pres_ignore keeps_site keeps_relay keeps_group keeps_profile
      keeps_power keeps_attempt)

text \<open>Import adds and rewrites devices; it never removes one.\<close>

definition has_devices :: "string set \<Rightarrow> device list \<Rightarrow> bool" where
  "has_devices S rows \<longleftrightarrow> S \<subseteq> d_id ` set rows"

lemma grows_insert_device: "pres (devices_sat (has_devices S)) (insert_device v)"
  unfolding insert_device_def
  by (intro pres_map_error pres_exec_insert)
    (simp add: devices_sat_def has_devices_def put_defs set_insert_row subset_insertI2)

lemma grows_update_device: "pres (devices_sat (has_devices S)) (update_device i v)"
  unfolding update_device_def
  by (intro pres_map_error pres_exec_update)
    (simp add: devices_sat_def has_devices_def put_defs set_device_def ids_update)

lemma grows_upsertDeviceOn: "pres (devices_sat (has_devices S)) (upsertDeviceOn v)"
  unfolding upsertDeviceOn_def by (intro pres_intros grows_insert_device grows_update_device)

lemma grows_Import: "pres (devices_sat (has_devices S)) (Import x)"
  unfolding Import_def import_all_def import_relay_def import_site_def import_device_def
    import_group_def import_profile_def import_power_def Let_def
  by (intro pres_intros grows_upsertDeviceOn keeps_relay keeps_site keeps_group keeps_profile keeps_power)

text \<open>Deletes that are refused while the row is in use.\<close>

lemma tx_commit_only:
  assumes "tx body w = (Inr x, w')" and "\<And>w1 e w2. body w1 = (Inr e, w2) \<Longrightarrow> \<exists>y. e = Commit y"
  obtains w1 w2 where "wdb w1 = wdb w" and "body w1 = (Inr (Commit x), w2)" and "wdb w' = wdb w2"
  using assms(1) by (rule tx_Inr) (use that assms(2) in \<open>blast, fastforce\<close>)

lemma map_update_rows:
  "update_rows keys C f rows = Some rows' \<Longrightarrow> rows' = map (\<lambda>r. if C r then f r else r) rows"
  by (simp add: update_rows_def Let_def split: if_splits)

lemma DeleteSite_effect:
  assumes "DeleteSite i w = (Inr u, w')"
  shows "\<forall>v \<in> set (t_devices (wdb w)). d_site_id v \<noteq> i"
    and "find_row s_id i (t_sites (wdb w)) \<noteq> None"
    and "wdb w' = (wdb w)\<lparr>t_sites := delete_rows (\<lambda>s. s_id s = i) (t_sites (wdb w))\<rparr>"
proof -
  let ?body = "andThen (exec_update t_devices put_devices device_keys (\<lambda>v. d_site_id v = i) (\<lambda>v. v\<lparr>d_site_id := []\<rparr>)) (\<lambda>_.
       andThen (map_error normalizeDBError (exec_delete t_sites put_sites (\<lambda>s. s_id s = i))) (\<lambda>count.
       if count = 0 then fail ErrNotFound else ret (Commit ())))"
  from assms obtain used w0 where q: "query (\<lambda>d. count_rows (\<lambda>v. d_site_id v = i) (t_devices d)) w = (Inr used, w0)"
    and used: "\<not> 0 < used" and t: "tx ?body w0 = (Inr u, w')"
    by (auto simp: DeleteSite_def run_Inr split: if_splits)
  have w0: "wdb w0 = wdb w" and u: "used = count_rows (\<lambda>v. d_site_id v = i) (t_devices (wdb w))"
    using query_Inr [OF q] by simp_all
  have steps: "\<exists>y. e = Commit y" if "?body w1 = (Inr e, w2)" for w1 e w2
    using that by (auto simp: run_Inr split: if_splits)
  obtain w1 w4 where w1: "wdb w1 = wdb w0" and b: "?body w1 = (Inr (Commit u), w4)" and w': "wdb w' = wdb w4"
    using t steps by (rule tx_commit_only)
  then obtain n w3 k where up: "exec_update t_devices put_devices device_keys (\<lambda>v. d_site_id v = i)
      (\<lambda>v. v\<lparr>d_site_id := []\<rparr>) w1 = (Inr n, w3)"
    and d: "exec_delete t_sites put_sites (\<lambda>s. s_id s = i) w3 = (Inr k, w4)" and k: "k \<noteq> 0"
    by (auto simp: run_Inr split: if_splits)
  have n0: "n = 0" using exec_update_Inr [OF up] used u w0 w1 by simp
  then have w3: "wdb w3 = wdb w"
    using devices_db.update_nothing up w0 w1 by metis
  show "\<forall>v \<in> set (t_devices (wdb w)). d_site_id v \<noteq> i"
    using used u by (simp add: count_rows_0)
  show "find_row s_id i (t_sites (wdb w)) \<noteq> None"
    using exec_delete_Inr [OF d] k by (auto simp: w3 count_rows_0 find_row_None)
  show "wdb w' = (wdb w)\<lparr>t_sites := delete_rows (\<lambda>s. s_id s = i) (t_sites (wdb w))\<rparr>"
    using exec_delete_Inr [OF d] by (simp add: w' w3 put_defs)
qed

lemma DeleteWakeRelay_effect:
  assumes "DeleteWakeRelay i w = (Inr u, w')"
  shows "\<forall>s \<in> set (t_sites (wdb w)). s_relay_id s \<noteq> i"
    and "find_row r_id i (t_relays (wdb w)) \<noteq> None"
    and "wdb w' = (wdb w)\<lparr>t_relays := delete_rows (\<lambda>r. r_id r = i) (t_relays (wdb w)),
      t_devices := map (\<lambda>v. if d_relay_id v = i then v\<lparr>d_relay_id := []\<rparr> else v) (t_devices (wdb w))\<rparr>"
proof -
  let ?body = "andThen (exec_update t_devices put_devices device_keys (\<lambda>v. d_relay_id v = i) (\<lambda>v. v\<lparr>d_relay_id := []\<rparr>)) (\<lambda>_.
       andThen (map_error normalizeDBError (exec_delete t_relays put_relays (\<lambda>r. r_id r = i))) (\<lambda>count.
       if count = 0 then fail ErrNotFound else ret (Commit ())))"
  from assms obtain used w0 where q: "query (\<lambda>d. count_rows (\<lambda>s. s_relay_id s = i) (t_sites d)) w = (Inr used, w0)"
    and used: "\<not> 0 < used" and t: "tx ?body w0 = (Inr u, w')"
    by (auto simp: DeleteWakeRelay_def run_Inr split: if_splits)
  have w0: "wdb w0 = wdb w" and u: "used = count_rows (\<lambda>s. s_relay_id s = i) (t_sites (wdb w))"
    using query_Inr [OF q] by simp_all
  have steps: "\<exists>y. e = Commit y" if "?body w1 = (Inr e, w2)" for w1 e w2
    using that by (auto simp: run_Inr split: if_splits)
  obtain w1 w4 where w1: "wdb w1 = wdb w0" and b: "?body w1 = (Inr (Commit u), w4)" and w': "wdb w' = wdb w4"
    using t steps by (rule tx_commit_only)
  then obtain n w3 k where up: "exec_update t_devices put_devices device_keys (\<lambda>v. d_relay_id v = i)
      (\<lambda>v. v\<lparr>d_relay_id := []\<rparr>) w1 = (Inr n, w3)"
    and d: "exec_delete t_relays put_relays (\<lambda>r. r_id r = i) w3 = (Inr k, w4)" and k: "k \<noteq> 0"
    by (auto simp: run_Inr split: if_splits)
  from exec_update_Inr [OF up] have w3: "wdb w3 = (wdb w)\<lparr>t_devices :=
      map (\<lambda>v. if d_relay_id v = i then v\<lparr>d_relay_id := []\<rparr> else v) (t_devices (wdb w))\<rparr>"
    by (auto simp: put_defs w0 w1 dest: map_update_rows)
  show "\<forall>s \<in> set (t_sites (wdb w)). s_relay_id s \<noteq> i"
    using used u by (simp add: count_rows_0)
  show "find_row r_id i (t_relays (wdb w)) \<noteq> None"
    using exec_delete_Inr [OF d] k by (auto simp: w3 count_rows_0 find_row_None)
  show "wdb w' = (wdb w)\<lparr>t_relays := delete_rows (\<lambda>r. r_id r = i) (t_relays (wdb w)),
      t_devices := map (\<lambda>v. if d_relay_id v = i then v\<lparr>d_relay_id := []\<rparr> else v) (t_devices (wdb w))\<rparr>"
    using exec_delete_Inr [OF d] by (simp add: w' w3 put_defs)
qed

section \<open>Following an address\<close>

text \<open>The inventory after the address of device \<open>i\<close> went from \<open>old\<close> to \<open>new\<close> at time \<open>t\<close>.\<close>

definition has_address :: "string \<Rightarrow> string \<Rightarrow> device \<Rightarrow> bool" where
  "has_address i old v \<longleftrightarrow> d_id v = i \<and> d_ip v = old"

definition moved_address :: "string \<Rightarrow> string \<Rightarrow> string \<Rightarrow> string \<Rightarrow> db \<Rightarrow> db" where
  "moved_address i old new t d = d\<lparr>
     t_devices := map (\<lambda>v. if has_address i old v then v\<lparr>d_ip := new, d_updated := t\<rparr> else v) (t_devices d),
     t_profiles := map (\<lambda>p. if rp_device_id p = i \<and> rp_host p = old
       then p\<lparr>rp_host := new, rp_updated := t\<rparr> else p) (t_profiles d)\<rparr>"

lemma sync_body:
  assumes "andThen now (\<lambda>t.
        andThen (exec_update t_devices put_devices device_keys (has_address i old)
          (\<lambda>v. v\<lparr>d_ip := new, d_updated := t\<rparr>)) (\<lambda>n.
        if n = 0 then ret (Rollback False)
        else andThen (exec_update t_profiles put_profiles profile_keys
            (\<lambda>p. rp_device_id p = i \<and> rp_host p = old) (\<lambda>p. p\<lparr>rp_host := new, rp_updated := t\<rparr>)) (\<lambda>_.
          ret (Commit True)))) w1 = (Inr e, w3)"
  shows "e = Rollback False \<and> count_rows (has_address i old) (t_devices (wdb w1)) = 0 \<or>
    e = Commit True \<and> count_rows (has_address i old) (t_devices (wdb w1)) \<noteq> 0 \<and>
    (\<exists>t. wdb w3 = moved_address i old new t (wdb w1))"
proof -
  from assms obtain t w2 n w4 where "now w1 = (Inr t, w2)"
    and up: "exec_update t_devices put_devices device_keys (has_address i old)
      (\<lambda>v. v\<lparr>d_ip := new, d_updated := t\<rparr>) w2 = (Inr n, w4)"
    and rest: "(if n = 0 then ret (Rollback False)
        else andThen (exec_update t_profiles put_profiles profile_keys
            (\<lambda>p. rp_device_id p = i \<and> rp_host p = old) (\<lambda>p. p\<lparr>rp_host := new, rp_updated := t\<rparr>)) (\<lambda>_.
          ret (Commit True))) w4 = (Inr e, w3)"
    unfolding andThen_Inr by blast
  have w2: "wdb w2 = wdb w1" using \<open>now w1 = (Inr t, w2)\<close> by (rule now_db)
  have n: "n = count_rows (has_address i old) (t_devices (wdb w1))"
    using exec_update_Inr [OF up] by (simp add: w2)
  show ?thesis
  proof (cases "n = 0")
    case True
    then show ?thesis using rest n by (simp add: ret_Inr)
  next
    case False
    with rest obtain k where up2: "exec_update t_profiles put_profiles profile_keys
          (\<lambda>p. rp_device_id p = i \<and> rp_host p = old) (\<lambda>p. p\<lparr>rp_host := new, rp_updated := t\<rparr>) w4 = (Inr k, w3)"
      and e: "e = Commit True" by (auto simp: run_Inr)
    have "wdb w3 = moved_address i old new t (wdb w1)"
      using exec_update_Inr [OF up] exec_update_Inr [OF up2]
      by (auto simp: moved_address_def w2 put_defs dest!: map_update_rows)
    with e False n show ?thesis by blast
  qed
qed

lemma SyncDeviceAddress_effect:
  assumes "SyncDeviceAddress i old new w = (Inr b, w')"
  shows "if b then (\<exists>t. wdb w' = moved_address i old new t (wdb w)) \<and> (\<exists>v \<in> set (t_devices (wdb w)). has_address i old v)
    else wdb w' = wdb w \<and> (\<forall>v \<in> set (t_devices (wdb w)). \<not> has_address i old v)"
proof -
  have C: "has_address i old = (\<lambda>v. d_id v = i \<and> d_ip v = old)" by (simp add: has_address_def fun_eq_iff)
  from assms have "tx (andThen now (\<lambda>t.
        andThen (exec_update t_devices put_devices device_keys (has_address i old)
          (\<lambda>v. v\<lparr>d_ip := new, d_updated := t\<rparr>)) (\<lambda>n.
        if n = 0 then ret (Rollback False)
        else andThen (exec_update t_profiles put_profiles profile_keys
            (\<lambda>p. rp_device_id p = i \<and> rp_host p = old) (\<lambda>p. p\<lparr>rp_host := new, rp_updated := t\<rparr>)) (\<lambda>_.
          ret (Commit True))))) w = (Inr b, w')"
    unfolding SyncDeviceAddress_def C by (simp split: if_splits)
  then show ?thesis
  proof (cases rule: tx_Inr)
    case (commit w1 w2)
    from sync_body [OF commit(2)] commit(1,3)
    have "b" and "\<exists>t. wdb w' = moved_address i old new t (wdb w)"
      and "count_rows (has_address i old) (t_devices (wdb w)) \<noteq> 0" by auto
    then show ?thesis by (simp add: count_rows_0)
  next
    case (rollback w1 w2)
    from sync_body [OF rollback(2)] rollback(1) have "\<not> b"
      and "count_rows (has_address i old) (t_devices (wdb w)) = 0" by auto
    with rollback(3) show ?thesis by (simp add: count_rows_0)
  qed
qed

section \<open>The table of devices refines a finite map\<close>

type_synonym device_map = "string \<Rightarrow> device option"

text \<open>The row \<open>r\<close> stores what \<open>v\<close> asks for: trimmed name, lower-case MAC, defaults filled in.\<close>

definition stores :: "device \<Rightarrow> device \<Rightarrow> bool" where
  "stores v r \<longleftrightarrow> d_name r = trim_space (d_name v) \<and> d_mac r = to_lower (d_mac v) \<and>
     d_ip r = d_ip v \<and> d_broadcast r = d_broadcast v \<and> d_port r = d_port v \<and>
     d_interface r = d_interface v \<and> d_site_id r = d_site_id v \<and> d_relay_id r = d_relay_id v \<and>
     d_verify_port r = d_verify_port v \<and> d_description r = d_description v \<and> d_enabled r = d_enabled v \<and>
     d_platform r = (if d_platform v = [] then ''unknown'' else d_platform v) \<and>
     d_strategy r = (if d_strategy v = [] then ''broadcast'' else d_strategy v)"

text \<open>What each operation, when it succeeds, does to the map from IDs to devices.\<close>

fun device_spec :: "store_op \<Rightarrow> device_map \<Rightarrow> device_map \<Rightarrow> bool" where
  "device_spec (OpCreateDevice v) D D' =
     (\<exists>r. D (d_id r) = None \<and> D' = D(d_id r \<mapsto> r) \<and> stores v r \<and> d_created r = d_updated r)"
| "device_spec (OpUpdateDevice i v) D D' =
     (\<exists>old r. D i = Some old \<and> D' = D(i \<mapsto> r) \<and> stores v r \<and> d_id r = i \<and> d_created r = d_created old)"
| "device_spec (OpDeleteDevice i) D D' = (D i \<noteq> None \<and> D' = D(i := None))"
| "device_spec (OpDeleteRelay i) D D' =
     (D' = (\<lambda>j. map_option (\<lambda>v. if d_relay_id v = i then v\<lparr>d_relay_id := []\<rparr> else v) (D j)))"
| "device_spec (OpSync i a b) D D' =
     (D' = D \<or> (\<exists>t. D' = (\<lambda>j. map_option (\<lambda>v. if has_address i a v then v\<lparr>d_ip := b, d_updated := t\<rparr> else v) (D j))))"
| "device_spec (OpImport x) D D' = (dom D \<subseteq> dom D')"
| "device_spec _ D D' = (D' = D)"

lemma ignore_Inr: "ignore p w = (Inr (), w') \<Longrightarrow> \<exists>x. p w = (Inr x, w')"
  by (auto simp: ignore_def run_Inr)

lemma devices_of_keep: "t_devices (wdb w') = t_devices (wdb w) \<Longrightarrow> devices_of w' = devices_of w"
  by (simp add: devices_of_def)

lemma devices_of_id: "devices_of w i = Some v \<Longrightarrow> d_id v = i"
  by (auto simp: devices_of_def dest: find_row_Some)

lemma refines_create:
  assumes "CreateDevice v w = (Inr v', w')"
  shows "device_spec (OpCreateDevice v) (devices_of w) (devices_of w')"
proof -
  obtain t i where "v' = stamp_device t i v"
    using assms by (auto simp: CreateDevice_def insert_device_def run_Inr)
  then have "stores v (v'\<lparr>d_name := trim_space (d_name v'), d_mac := to_lower (d_mac v')\<rparr>)"
    and "d_created v' = d_updated v'"
    by (simp_all add: stores_def stamp_device_def device_defaults_def)
  with CreateDevice_effect(2,3) [OF assms] show ?thesis
    by (auto intro!: exI [of _ "v'\<lparr>d_name := trim_space (d_name v'), d_mac := to_lower (d_mac v')\<rparr>"])
qed

lemma refines_update:
  assumes "UpdateDevice i v w = (Inr v', w')"
  shows "device_spec (OpUpdateDevice i v) (devices_of w) (devices_of w')"
proof -
  obtain old t where old: "devices_of w i = Some old"
    and v': "v' = set_device (device_defaults (v\<lparr>d_updated := t\<rparr>)) old"
    and m: "devices_of w' = (devices_of w)(i \<mapsto> v')"
    using UpdateDevice_effect [OF assms] by blast
  have "stores v v' \<and> d_id v' = i \<and> d_created v' = d_created old"
    using devices_of_id [OF old] by (simp add: v' stores_def set_device_def device_defaults_def)
  with old m show ?thesis by auto
qed

lemma refines_delete:
  assumes "DeleteDevice i w = (Inr (), w')"
  shows "device_spec (OpDeleteDevice i) (devices_of w) (devices_of w')"
  using DeleteDevice_effect [OF assms]
  by (auto simp: devices_of_def devices.find_delete fun_eq_iff)

lemma refines_others:
  assumes "\<not> writes_devices op" and "run_op op w = (Inr (), w')"
  shows "devices_of w' = devices_of w"
  using presD [OF keeps_devices [OF assms(1), where P = "\<lambda>rows. rows = t_devices (wdb w)"] _ assms(2)]
  by (intro devices_of_keep) (simp add: devices_sat_def)

lemma refines_Import:
  assumes "Import x w = (Inr (), w')"
  shows "dom (devices_of w) \<subseteq> dom (devices_of w')"
proof -
  have dom: "dom (devices_of v) = d_id ` set (t_devices (wdb v))" for v
    by (auto simp: devices_of_def dom_def find_row_None
        intro: ccontr dest: find_row_Some)
  show ?thesis
    using grows_Import [of "d_id ` set (t_devices (wdb w))" x] assms
    unfolding dom pres_def devices_sat_def has_devices_def by (metis order_refl snd_conv)
qed

lemma refines_delete_site:
  assumes "DeleteSite i w = (Inr (), w')"
  shows "devices_of w' = devices_of w"
  by (rule devices_of_keep) (simp add: DeleteSite_effect(3) [OF assms])

lemma refines_delete_relay:
  assumes "DeleteWakeRelay i w = (Inr (), w')"
  shows "device_spec (OpDeleteRelay i) (devices_of w) (devices_of w')"
proof -
  have id: "d_id (if d_relay_id v = i then v\<lparr>d_relay_id := []\<rparr> else v) = d_id v" for v by simp
  show ?thesis
    unfolding device_spec.simps devices_of_def DeleteWakeRelay_effect(3) [OF assms]
    by (simp add: find_row_map [where ident = d_id, OF id])
qed

lemma refines_sync:
  assumes "SyncDeviceAddress i a b w = (Inr r, w')"
  shows "device_spec (OpSync i a b) (devices_of w) (devices_of w')"
proof -
  have id: "d_id (if has_address i a v then v\<lparr>d_ip := b, d_updated := t\<rparr> else v) = d_id v" for v t by simp
  have moved: "find_row d_id j (t_devices (moved_address i a b t d)) =
      map_option (\<lambda>v. if has_address i a v then v\<lparr>d_ip := b, d_updated := t\<rparr> else v) (find_row d_id j (t_devices d))"
    for j t d
    by (simp add: moved_address_def find_row_map [where ident = d_id, OF id])
  show ?thesis
  proof (cases r)
    case True
    with SyncDeviceAddress_effect [OF assms] obtain t where "wdb w' = moved_address i a b t (wdb w)" by auto
    then have "devices_of w' =
        (\<lambda>j. map_option (\<lambda>v. if has_address i a v then v\<lparr>d_ip := b, d_updated := t\<rparr> else v) (devices_of w j))"
      unfolding devices_of_def by (simp only: moved)
    then show ?thesis unfolding device_spec.simps by blast
  next
    case False
    with SyncDeviceAddress_effect [OF assms] have "wdb w' = wdb w" by simp
    then show ?thesis by (simp add: devices_of_def)
  qed
qed

lemma devices_refine_step:
  assumes "run_op op w = (Inr (), w')" and "writes_devices op"
  shows "device_spec op (devices_of w) (devices_of w')"
proof (cases op)
  case (OpCreateDevice v)
  with assms obtain x where "CreateDevice v w = (Inr x, w')" by (auto dest: ignore_Inr)
  from refines_create [OF this] show ?thesis by (simp only: OpCreateDevice)
next
  case (OpUpdateDevice i v)
  with assms obtain x where "UpdateDevice i v w = (Inr x, w')" by (auto dest: ignore_Inr)
  from refines_update [OF this] show ?thesis by (simp only: OpUpdateDevice)
next
  case (OpDeleteDevice i)
  with assms(1) have "DeleteDevice i w = (Inr (), w')" by simp
  from refines_delete [OF this] show ?thesis by (simp only: OpDeleteDevice)
next
  case (OpDeleteSite i)
  with assms(1) have "DeleteSite i w = (Inr (), w')" by simp
  from refines_delete_site [OF this] show ?thesis by (simp only: OpDeleteSite device_spec.simps)
next
  case (OpDeleteRelay i)
  with assms(1) have "DeleteWakeRelay i w = (Inr (), w')" by simp
  from refines_delete_relay [OF this] show ?thesis by (simp only: OpDeleteRelay)
next
  case (OpSync i a b)
  with assms obtain r where "SyncDeviceAddress i a b w = (Inr r, w')" by (auto dest: ignore_Inr)
  from refines_sync [OF this] show ?thesis by (simp only: OpSync)
next
  case (OpImport x)
  with assms(1) have "Import x w = (Inr (), w')" by simp
  from refines_Import [OF this] show ?thesis by (simp only: OpImport device_spec.simps)
qed (use assms(2) in simp_all)

lemma device_spec_keep: "\<not> writes_devices op \<Longrightarrow> device_spec op D D"
  by (cases op) simp_all

text \<open>
  C2. The table of devices implements a finite map. Read as the map from IDs to devices that
  \<open>GetDevice\<close> answers from, every operation that succeeds is its abstract counterpart: create
  adds one entry under an ID that was free, update replaces an existing entry and keeps its ID
  and creation time, delete removes exactly one entry, deleting a relay clears the references
  to it, following an address rewrites the devices that had it, Import loses no entry, and
  every other operation leaves the map alone.
\<close>

theorem devices_refine_map:
  assumes "run_op op w = (Inr (), w')"
  shows "device_spec op (devices_of w) (devices_of w')"
  using devices_refine_step [OF assms] refines_others [OF _ assms] device_spec_keep [of op]
  by (cases "writes_devices op") simp_all

theorem devices_refine_map_witness:
  "\<exists>w'. run_op (OpDeleteDevice ''device_1001_01'') (quiet_world sample_db) = (Inr (), w') \<and>
     devices_of (quiet_world sample_db) ''device_1001_01'' \<noteq> None \<and> devices_of w' ''device_1001_01'' = None"
proof -
  let ?r = "run_op (OpDeleteDevice ''device_1001_01'') (quiet_world sample_db)"
  have "fst ?r = Inr ()" by code_simp
  then have *: "?r = (Inr (), snd ?r)" by (metis prod.collapse)
  from devices_refine_map [OF *] show ?thesis using * by auto
qed

section \<open>References on delete\<close>

lemma in_use_site:
  assumes "v \<in> set (t_devices (wdb w))" and "d_site_id v = i"
  shows "\<exists>e. fst (DeleteSite i w) = Inl e"
proof (cases "DeleteSite i w")
  case (Pair r w')
  then show ?thesis using DeleteSite_effect(1) [of i w _ w'] assms by (cases r) auto
qed

lemma in_use_relay:
  assumes "s \<in> set (t_sites (wdb w))" and "s_relay_id s = i"
  shows "\<exists>e. fst (DeleteWakeRelay i w) = Inl e"
proof (cases "DeleteWakeRelay i w")
  case (Pair r w')
  then show ?thesis using DeleteWakeRelay_effect(1) [of i w _ w'] assms by (cases r) auto
qed

text \<open>
  C5. A row in use is not deleted. \<open>DeleteSite\<close> fails for a site that some device is assigned
  to, \<open>DeleteWakeRelay\<close> fails for a relay that some site wakes through, and both leave the
  database as it was.
\<close>

theorem deletes_refused_in_use:
  assumes "op = OpDeleteSite i \<and> v \<in> set (t_devices (wdb w)) \<and> d_site_id v = i \<or>
    op = OpDeleteRelay i \<and> s \<in> set (t_sites (wdb w)) \<and> s_relay_id s = i"
  shows "(\<exists>e. fst (run_op op w) = Inl e) \<and> wdb (snd (run_op op w)) = wdb w"
proof -
  have "\<exists>e. fst (run_op op w) = Inl e" and "\<not> reads_back op"
    using assms in_use_site in_use_relay by auto
  then show ?thesis
    using atomic_run_op [of op] unfolding atomic_def by (metis prod.collapse)
qed

theorem deletes_refused_in_use_witness:
  "\<exists>e. fst (run_op (OpDeleteSite ''site_1'')
     (quiet_world (sample_db\<lparr>t_devices := [sample_device\<lparr>d_site_id := ''site_1''\<rparr>]\<rparr>))) = Inl e"
  using deletes_refused_in_use [of "OpDeleteSite ''site_1''" "''site_1''" "sample_device\<lparr>d_site_id := ''site_1''\<rparr>"
      "quiet_world (sample_db\<lparr>t_devices := [sample_device\<lparr>d_site_id := ''site_1''\<rparr>]\<rparr>)"]
  by (simp add: quiet_world_def)

text \<open>
  Deleting a device deletes exactly what belongs to it: the device, its group memberships
  and its remote and power profiles are gone, every other row of these tables stays in its
  place, and sites, groups, relays and both logs are untouched.
\<close>

theorem DeleteDevice_cascade:
  assumes "DeleteDevice i w = (Inr (), w')"
  shows "t_devices (wdb w') = filter (\<lambda>v. d_id v \<noteq> i) (t_devices (wdb w)) \<and>
    t_members (wdb w') = filter (\<lambda>m. m_device m \<noteq> i) (t_members (wdb w)) \<and>
    t_profiles (wdb w') = filter (\<lambda>p. rp_device_id p \<noteq> i) (t_profiles (wdb w)) \<and>
    t_power (wdb w') = filter (\<lambda>p. pp_device_id p \<noteq> i) (t_power (wdb w)) \<and>
    t_sites (wdb w') = t_sites (wdb w) \<and> t_groups (wdb w') = t_groups (wdb w) \<and>
    t_relays (wdb w') = t_relays (wdb w) \<and> t_wakes (wdb w') = t_wakes (wdb w) \<and>
    t_powers (wdb w') = t_powers (wdb w)"
  by (simp add: DeleteDevice_effect(2) [OF assms] delete_rows_def)

theorem DeleteDevice_cascade_witness:
  "t_profiles sample_db \<noteq> [] \<and>
   t_profiles (wdb (snd (DeleteDevice ''device_1001_01'' (quiet_world sample_db)))) = []"
proof -
  let ?r = "DeleteDevice ''device_1001_01'' (quiet_world sample_db)"
  have "fst ?r = Inr ()" by code_simp
  then have *: "?r = (Inr (), snd ?r)" by (metis prod.collapse)
  have "t_profiles sample_db \<noteq> []" and "\<forall>p \<in> set (t_profiles sample_db). rp_device_id p = ''device_1001_01''"
    by (simp_all add: sample_db_value)
  then show ?thesis using DeleteDevice_cascade [OF *] by (simp add: quiet_world_def)
qed

text \<open>
  \<open>SyncDeviceAddress\<close> follows an address only from the value it had: it answers true exactly
  when the device still has the old address; then the device, and the remote profile that used
  the old address as its host, have the new one and nothing else changed except the update
  times; otherwise the database is unchanged.
\<close>

theorem SyncDeviceAddress_compare_and_set:
  assumes "SyncDeviceAddress i old new w = (Inr b, w')"
  shows "b = (\<exists>v \<in> set (t_devices (wdb w)). has_address i old v) \<and>
    (if b then \<exists>t. wdb w' = moved_address i old new t (wdb w) else wdb w' = wdb w)"
  using SyncDeviceAddress_effect [OF assms] by (cases b) simp_all

theorem SyncDeviceAddress_compare_and_set_witness:
  "\<exists>w'. SyncDeviceAddress ''device_1001_01'' ''192.168.1.20'' ''192.168.1.31'' (quiet_world sample_db) = (Inr True, w') \<and>
     (\<exists>t. wdb w' = moved_address ''device_1001_01'' ''192.168.1.20'' ''192.168.1.31'' t sample_db)"
proof -
  let ?r = "SyncDeviceAddress ''device_1001_01'' ''192.168.1.20'' ''192.168.1.31'' (quiet_world sample_db)"
  have "fst ?r = Inr True" by code_simp
  then have *: "?r = (Inr True, snd ?r)" by (metis prod.collapse)
  from SyncDeviceAddress_compare_and_set [OF *] * show ?thesis by (simp add: quiet_world_def) blast
qed

section \<open>Groups\<close>

definition member_rows :: "string \<Rightarrow> nat \<Rightarrow> string list \<Rightarrow> member_row list" where
  "member_rows g k ms = map (\<lambda>(n, v). \<lparr>m_group = g, m_device = v, m_position = int n\<rparr>) (enumerate k ms)"

lemma insert_members:
  "for_each (\<lambda>(position, deviceID) _. map_error normalizeDBError
         (exec_insert t_members put_members member_keys
           \<lparr>m_group = g, m_device = deviceID, m_position = int position\<rparr>)) (enumerate k ms) u w = (Inr u', w') \<Longrightarrow>
    wdb w' = put_members (t_members (wdb w) @ member_rows g k ms) (wdb w)"
proof (induction ms arbitrary: k u w)
  case Nil
  then show ?case by (simp add: ret_Inr member_rows_def put_defs)
next
  case (Cons v ms)
  then obtain u1 w1 where ins: "exec_insert t_members put_members member_keys
        \<lparr>m_group = g, m_device = v, m_position = int k\<rparr> w = (Inr u1, w1)"
    and rest: "for_each (\<lambda>(position, deviceID) _. map_error normalizeDBError
         (exec_insert t_members put_members member_keys
           \<lparr>m_group = g, m_device = deviceID, m_position = int position\<rparr>)) (enumerate (Suc k) ms) u1 w1 = (Inr u', w')"
    by (auto simp: run_Inr)
  have "wdb w1 = put_members (t_members (wdb w) @ [\<lparr>m_group = g, m_device = v, m_position = int k\<rparr>]) (wdb w)"
    using exec_insert_Inr [OF ins] by (auto simp: insert_row_def split: if_splits)
  with Cons.IH [OF rest] show ?case by (simp add: member_rows_def put_defs)
qed

lemma member_rows_sorted:
  "sort_key (\<lambda>m. (m_position m, m_device m)) (member_rows g k ms) = member_rows g k ms"
proof -
  have "sorted (map (\<lambda>m. (m_position m, m_device m)) (member_rows g k ms)) \<and>
      (\<forall>m \<in> set (member_rows g k ms). int k \<le> m_position m)" for k
  proof (induction ms arbitrary: k)
    case (Cons v ms)
    from Cons.IH [of "Suc k"] show ?case
      by (fastforce simp: member_rows_def)
  qed (simp add: member_rows_def)
  then show ?thesis by (intro sort_key_id_if_sorted) blast
qed

lemma member_rows_group: "filter (\<lambda>m. m_group m = g) (member_rows g k ms) = member_rows g k ms"
  by (rule filter_True) (auto simp: member_rows_def)

lemma member_rows_devices: "map m_device (member_rows g k ms) = ms"
  by (induction ms arbitrary: k) (simp_all add: member_rows_def)

lemma replaceMembers_effect:
  assumes "replaceMembers g ms w = (Inr u, w')"
  shows "wdb w' = put_members (filter (\<lambda>m. m_group m \<noteq> g) (t_members (wdb w)) @ member_rows g 0 ms) (wdb w)"
    and "members_of g (wdb w') = ms"
proof -
  from assms obtain n w1 where d: "exec_delete t_members put_members (\<lambda>m. m_group m = g) w = (Inr n, w1)"
    and rest: "for_each (\<lambda>(position, deviceID) _. map_error normalizeDBError
         (exec_insert t_members put_members member_keys
           \<lparr>m_group = g, m_device = deviceID, m_position = int position\<rparr>)) (enumerate 0 ms) () w1 = (Inr u, w')"
    unfolding replaceMembers_def andThen_Inr by blast
  from insert_members [OF rest] exec_delete_Inr [OF d]
  show w': "wdb w' = put_members (filter (\<lambda>m. m_group m \<noteq> g) (t_members (wdb w)) @ member_rows g 0 ms) (wdb w)"
    by (simp add: put_defs delete_rows_def)
  show "members_of g (wdb w') = ms"
    by (simp add: members_of_def w' put_defs member_rows_group member_rows_sorted member_rows_devices)
qed

lemma CreateGroup_effect:
  assumes "CreateGroup g w = (Inr g', w')"
  shows "find_row g_id (g_id g') (t_groups (wdb w')) =
      Some (g'\<lparr>g_name := trim_space (g_name g'), g_device_ids := []\<rparr>)"
    and "members_of (g_id g') (wdb w') = g_device_ids g" and "g_device_ids g' = g_device_ids g"
    and "g_name g' = g_name g"
proof -
  from assms obtain t i w0 where b: "tx (andThen (insert_group (g\<lparr>g_id := i, g_created := t, g_updated := t\<rparr>)) (\<lambda>_.
       andThen (replaceMembers i (g_device_ids g)) (\<lambda>_.
       ret (Commit (g\<lparr>g_id := i, g_created := t, g_updated := t\<rparr>))))) w0 = (Inr g', w')"
    by (auto simp: CreateGroup_def Let_def andThen_Inr)
  let ?g = "g\<lparr>g_id := i, g_created := t, g_updated := t\<rparr>"
  obtain w1 w4 where b1: "andThen (insert_group ?g) (\<lambda>_. andThen (replaceMembers i (g_device_ids g)) (\<lambda>_.
       ret (Commit ?g))) w1 = (Inr (Commit g'), w4)" and w': "wdb w' = wdb w4"
    using b by (rule tx_commit_only) (auto simp: run_Inr)
  then obtain w2 u where g': "g' = ?g"
    and ins: "exec_insert t_groups put_groups group_keys
      (?g\<lparr>g_name := trim_space (g_name ?g), g_device_ids := []\<rparr>) w1 = (Inr (), w2)"
    and rep: "replaceMembers i (g_device_ids g) w2 = (Inr u, w4)"
    by (auto simp: run_Inr insert_group_def)
  have "t_groups (wdb w') = t_groups (wdb w2)"
    by (simp add: w' replaceMembers_effect(1) [OF rep] put_defs)
  then show "find_row g_id (g_id g') (t_groups (wdb w')) =
      Some (g'\<lparr>g_name := trim_space (g_name g'), g_device_ids := []\<rparr>)"
    using groups_db.insert_effect [OF ins, of i] by (simp add: g')
  show "members_of (g_id g') (wdb w') = g_device_ids g"
    using replaceMembers_effect(2) [OF rep] by (simp add: w' g')
  show "g_device_ids g' = g_device_ids g" "g_name g' = g_name g" by (simp_all add: g')
qed

text \<open>
  C19. A group reads back as it was created: after \<open>CreateGroup\<close> succeeds, \<open>GetGroup\<close> of its ID
  (while the driver does not fail) returns the group with its name trimmed and its devices in
  the order they were given.
\<close>

theorem CreateGroup_GetGroup:
  assumes "CreateGroup g w = (Inr g', w')" and "\<forall>n. faults w' n = None"
  shows "fst (GetGroup (g_id g') w') = Inr (g'\<lparr>g_name := trim_space (g_name g)\<rparr>) \<and>
    g_device_ids g' = g_device_ids g"
proof -
  note e = CreateGroup_effect [OF assms(1)]
  have "query (members_of (g_id g')) (bump w') = (Inr (members_of (g_id g') (wdb w')), bump (bump w'))"
    using assms(2) by (simp add: query_def stmt_def)
  then have "fst (GetGroup (g_id g') w') =
      Inr (g'\<lparr>g_name := trim_space (g_name g'), g_device_ids := members_of (g_id g') (wdb w')\<rparr>)"
    using assms(2) e(1)
    by (simp add: GetGroup_def groupDeviceIDs_def andThen_def select_row_ok ret_def)
  then show ?thesis using e(2,3,4) by simp
qed

definition sample_group :: group where
  "sample_group = \<lparr>g_id = '''', g_name = '' Lab '', g_description = '''', g_device_ids = [''d2'', ''d9'', ''d1''],
     g_created = '''', g_updated = ''''\<rparr>"

theorem CreateGroup_GetGroup_witness:
  "\<exists>g' w' g2. CreateGroup sample_group (quiet_world empty_db) = (Inr g', w') \<and>
     fst (GetGroup (g_id g') w') = Inr g2 \<and> g_name g2 = ''Lab'' \<and> g_device_ids g2 = [''d2'', ''d9'', ''d1'']"
proof -
  obtain g' w' where r: "CreateGroup sample_group (quiet_world empty_db) = (Inr g', w')"
    and "\<forall>n. faults w' n = None"
  proof -
    let ?r = "CreateGroup sample_group (quiet_world empty_db)"
    have "is_ok (fst ?r)" by code_simp
    then obtain g' where *: "?r = (Inr g', snd ?r)" by (cases ?r; cases "fst ?r") auto
    have "hush (CreateGroup sample_group)"
      unfolding CreateGroup_def insert_group_def replaceMembers_def Let_def
      by (auto intro!: hush_tx hush_andThen hush_for_each hush_map_error split: prod.splits)
    then have "faults (snd ?r) = faults (quiet_world empty_db)" by (simp add: hush_def)
    then have "\<forall>n. faults (snd ?r) n = None" by (simp add: quiet_world_def)
    with * show thesis by (rule that)
  qed
  have "trim_space (g_name sample_group) = ''Lab''" by code_simp
  with CreateGroup_GetGroup [OF \<open>CreateGroup sample_group (quiet_world empty_db) = (Inr g', w')\<close>
      \<open>\<forall>n. faults w' n = None\<close>]
  have "fst (GetGroup (g_id g') w') = Inr (g'\<lparr>g_name := ''Lab''\<rparr>) \<and>
      g_device_ids g' = g_device_ids sample_group" by simp
  then show ?thesis using r by (auto simp: sample_group_def)
qed

end
