(* ===== verification/Wake.thy ===== *)
theory Wake
  imports StoreSpec Wol NetUtil
begin

text \<open>
  \<open>internal/wake\<close>: choosing the route to a device (\<open>ResolveRoute\<close>), waking it and recording
  the attempt (\<open>WakeDevice\<close>, \<open>service.go\<close>), and the ssh command of a relay (\<open>relay.go\<close>).

  The repository is a record of the operations the service calls, on a state of type \<open>'w\<close>; the
  locale \<open>wake_repository\<close> states what the service relies on and is interpreted by the store.
  The hooks (sending, the relay, the verification) are functions of their arguments; every call
  of a hook is also reported in a list, in order.
\<close>

section \<open>The repository and the hooks\<close>

record 'w wake_repo =
  repo_device :: "string \<Rightarrow> 'w \<Rightarrow> device result \<times> 'w"
  repo_site :: "string \<Rightarrow> 'w \<Rightarrow> site result \<times> 'w"
  repo_relay :: "string \<Rightarrow> 'w \<Rightarrow> wake_relay result \<times> 'w"
  repo_record :: "wake_attempt \<Rightarrow> 'w \<Rightarrow> wake_attempt result \<times> 'w"

record relay_result =
  rr_packets :: int
  rr_detail :: string

record hooks =
  hook_direct :: "send_request \<Rightarrow> send_result \<times> error option"
  hook_relay :: "wake_relay \<Rightarrow> mac \<Rightarrow> relay_result \<times> error option"
  hook_verify :: "string \<Rightarrow> int \<Rightarrow> int \<Rightarrow> error option"

datatype call = CallDirect send_request | CallRelay wake_relay mac | CallVerify string int int

record wake_options =
  o_repeat :: int
  o_interval :: int
  o_verify :: bool
  o_verify_port :: int
  o_timeout :: int
  o_force :: bool
  o_target_type :: string

record route =
  rt_kind :: string
  rt_name :: string
  rt_destination :: "ip option"
  rt_port :: int
  rt_interface :: string
  rt_relay :: "wake_relay option"

definition no_route :: route where
  "no_route = \<lparr>rt_kind = [], rt_name = [], rt_destination = None, rt_port = 0, rt_interface = [], rt_relay = None\<rparr>"

section \<open>Routes\<close>

text \<open>What the device and its site say together: the relay, the broadcast address, the port and
  the interface. A device without a site, or with one that is not stored, stands alone.\<close>

record settings =
  st_relay :: string
  st_destination :: string
  st_port :: int
  st_interface :: string

definition device_settings :: "device \<Rightarrow> settings" where
  "device_settings dev = \<lparr>st_relay = d_relay_id dev, st_destination = trim_space (d_broadcast dev),
     st_port = d_port dev, st_interface = trim_space (d_interface dev)\<rparr>"

definition site_settings :: "site \<Rightarrow> settings \<Rightarrow> settings" where
  "site_settings site st =
     (if s_id site = [] then st
      else \<lparr>st_relay = if st_relay st = [] then s_relay_id site else st_relay st,
        st_destination = if st_destination st = [] then trim_space (s_broadcast site) else st_destination st,
        st_port = if st_port st = 0 then s_port site else st_port st,
        st_interface = if st_interface st = [] then trim_space (s_interface site) else st_interface st\<rparr>)"

definition load_settings :: "'w wake_repo \<Rightarrow> device \<Rightarrow> 'w \<Rightarrow> settings result \<times> 'w" where
  "load_settings R dev w =
     (if d_site_id dev = [] then (Inr (device_settings dev), w)
      else (case repo_site R (d_site_id dev) w of
              (Inr site, w') \<Rightarrow> (Inr (site_settings site (device_settings dev)), w')
            | (Inl e, w') \<Rightarrow>
                if errors_is e ErrNotFound then (Inr (device_settings dev), w') else (Inl e, w')))"

definition direct_route :: "settings \<Rightarrow> int \<Rightarrow> route result" where
  "direct_route st port =
     (let destination = (if st_destination st = [] then ''255.255.255.255'' else st_destination st) in
      case parse_to4 destination of
        None \<Rightarrow> Inl (Errorf (''broadcast address '' @ quote destination @ '' is not a valid IPv4 address''))
      | Some ip \<Rightarrow> Inr \<lparr>rt_kind = ''broadcast'', rt_name = ''direct broadcast'', rt_destination = Some ip,
          rt_port = port, rt_interface = st_interface st, rt_relay = None\<rparr>)"

definition relay_route :: "wake_relay \<Rightarrow> int \<Rightarrow> route result" where
  "relay_route relay port =
     (if \<not> r_enabled relay then Inl (Errorf (''relay route '' @ quote (r_name relay) @ '' is disabled''))
      else Inr \<lparr>rt_kind = ''relay'', rt_name = r_name relay, rt_destination = None, rt_port = port,
        rt_interface = r_interface relay, rt_relay = Some relay\<rparr>)"

definition ResolveRoute :: "'w wake_repo \<Rightarrow> device \<Rightarrow> 'w \<Rightarrow> route result \<times> 'w" where
  "ResolveRoute R dev w =
     (case load_settings R dev w of
        (Inl e, w') \<Rightarrow> (Inl e, w')
      | (Inr st, w') \<Rightarrow>
          let port = (if st_port st = 0 then 9 else st_port st) in
          if equal_fold (trim_space (d_strategy dev)) ''relay'' \<or> trim_space (st_relay st) \<noteq> [] then
            if trim_space (st_relay st) = []
            then (Inl (Errorf ''relay wake strategy requires a relay route''), w')
            else (case repo_relay R (st_relay st) w' of
                    (Inl e, w'') \<Rightarrow> (Inl (Wrapf ''load relay route'' e), w'')
                  | (Inr relay, w'') \<Rightarrow> (relay_route relay port, w''))
          else (direct_route st port, w'))"

section \<open>Waking a device\<close>

record wake_result =
  wr_attempt :: wake_attempt
  wr_device :: "device option"
  wr_route :: route
  wr_detail :: string

type_synonym 'w wake_outcome = "(wake_result \<times> error option \<times> call list) \<times> 'w"

definition target_type :: "wake_options \<Rightarrow> string" where
  "target_type opt = (let t = trim_space (o_target_type opt) in if t = [] then ''device'' else t)"

definition missing_attempt :: "string \<Rightarrow> wake_options \<Rightarrow> error \<Rightarrow> wake_attempt" where
  "missing_attempt i opt e = \<lparr>wa_id = [], wa_target_type = target_type opt, wa_target_id = i, wa_target_name = [],
     wa_mac = [], wa_destination = [], wa_port = 0, wa_packet_status = ''failed'',
     wa_verification = ''not_requested'', wa_message = error_text e, wa_packets = 0, wa_created = []\<rparr>"

definition failure_attempt :: "device \<Rightarrow> route \<Rightarrow> wake_options \<Rightarrow> error \<Rightarrow> wake_attempt" where
  "failure_attempt dev route opt cause = \<lparr>wa_id = [], wa_target_type = target_type opt,
     wa_target_id = d_id dev, wa_target_name = d_name dev, wa_mac = d_mac dev,
     wa_destination = (case rt_destination route of None \<Rightarrow> [] | Some ip \<Rightarrow> ip_string ip),
     wa_port = (case rt_destination route of None \<Rightarrow> 0 | Some _ \<Rightarrow> rt_port route),
     wa_packet_status = ''failed'', wa_verification = ''not_requested'', wa_message = error_text cause,
     wa_packets = 0, wa_created = []\<rparr>"

text \<open>Recording an attempt at the end of a path: the error of the record wins over the path's.\<close>

definition finish :: "'w wake_repo \<Rightarrow> wake_attempt \<Rightarrow> device \<Rightarrow> route \<Rightarrow> string \<Rightarrow> error option \<Rightarrow> call list \<Rightarrow> 'w
    \<Rightarrow> 'w wake_outcome" where
  "finish R a dev route detail err calls w =
     (case repo_record R a w of
        (Inl e, w') \<Rightarrow> ((\<lparr>wr_attempt = a, wr_device = Some dev, wr_route = route, wr_detail = detail\<rparr>, Some e, calls), w')
      | (Inr stored, w') \<Rightarrow> ((\<lparr>wr_attempt = stored, wr_device = Some dev, wr_route = route, wr_detail = detail\<rparr>, err, calls), w'))"

definition recordFailure :: "'w wake_repo \<Rightarrow> device \<Rightarrow> route \<Rightarrow> wake_options \<Rightarrow> error \<Rightarrow> 'w \<Rightarrow> 'w wake_outcome" where
  "recordFailure R dev route opt cause w =
     finish R (failure_attempt dev route opt cause) dev route [] (Some cause) [] w"

definition sending_attempt :: "device \<Rightarrow> route \<Rightarrow> wake_options \<Rightarrow> wake_attempt" where
  "sending_attempt dev route opt = \<lparr>wa_id = [], wa_target_type = target_type opt,
     wa_target_id = d_id dev, wa_target_name = d_name dev, wa_mac = d_mac dev,
     wa_destination = (case rt_destination route of None \<Rightarrow> [] | Some ip \<Rightarrow> ip_string ip),
     wa_port = rt_port route, wa_packet_status = ''sending'', wa_verification = ''not_requested'',
     wa_message = [], wa_packets = 0, wa_created = []\<rparr>"

definition direct_request :: "mac \<Rightarrow> route \<Rightarrow> wake_options \<Rightarrow> send_request" where
  "direct_request mac route opt = \<lparr>sr_mac = mac, sr_destination = rt_destination route,
     sr_port = rt_port route, sr_interface = rt_interface route,
     sr_repeat = if o_repeat opt < 1 then 3 else o_repeat opt,
     sr_interval = if o_interval opt \<le> 0 then 200000000 else o_interval opt\<rparr>"

text \<open>What sending through the route's hook gives: packets, detail, error and the call made.
  The detail of a failed direct send is not reported.\<close>

definition send_packets :: "hooks \<Rightarrow> device \<Rightarrow> route \<Rightarrow> mac \<Rightarrow> wake_options \<Rightarrow>
    (int \<times> string \<times> error option \<times> call)" where
  "send_packets h dev route mac opt =
     (case (rt_kind route = ''relay'', rt_relay route) of
        (True, Some relay) \<Rightarrow>
          (case hook_relay h relay mac of (r, err) \<Rightarrow> (rr_packets r, rr_detail r, err, CallRelay relay mac))
      | _ \<Rightarrow>
          (case hook_direct h (direct_request mac route opt) of
             (r, err) \<Rightarrow> (res_packets r, if err = None then res_warning r else [], err,
               CallDirect (direct_request mac route opt))))"

definition verify_port :: "device \<Rightarrow> wake_options \<Rightarrow> int" where
  "verify_port dev opt = (if o_verify_port opt = 0 then d_verify_port dev else o_verify_port opt)"

definition verify_attempt :: "hooks \<Rightarrow> device \<Rightarrow> wake_options \<Rightarrow> wake_attempt \<Rightarrow> wake_attempt \<times> call list" where
  "verify_attempt h dev opt a =
     (if \<not> o_verify opt then (a, [])
      else
        let p = verify_port dev opt in
        if trim_space (d_ip dev) = [] \<or> p < 1 \<or> p > 65535
        then (a\<lparr>wa_verification := ''unavailable'',
               wa_message := if wa_message a = [] then ''verification requires an IP address and TCP port'' else wa_message a\<rparr>, [])
        else (case hook_verify h (d_ip dev) p (o_timeout opt) of
                Some e \<Rightarrow> (a\<lparr>wa_verification := ''timeout'', wa_message := error_text e\<rparr>, [CallVerify (d_ip dev) p (o_timeout opt)])
              | None \<Rightarrow> (a\<lparr>wa_verification := ''reachable''\<rparr>, [CallVerify (d_ip dev) p (o_timeout opt)])))"

definition wake_on_route :: "'w wake_repo \<Rightarrow> hooks \<Rightarrow> device \<Rightarrow> route \<Rightarrow> mac \<Rightarrow> wake_options \<Rightarrow> 'w \<Rightarrow> 'w wake_outcome" where
  "wake_on_route R h dev route mac opt w =
     (case send_packets h dev route mac opt of
        (packets, detail, Some e, c) \<Rightarrow>
          finish R ((sending_attempt dev route opt)\<lparr>wa_packet_status := ''failed'', wa_message := error_text e,
              wa_packets := packets\<rparr>) dev route detail (Some e) [c] w
      | (packets, detail, None, c) \<Rightarrow>
          (case verify_attempt h dev opt ((sending_attempt dev route opt)\<lparr>wa_packet_status := ''sent'',
              wa_packets := packets, wa_message := detail\<rparr>) of
             (a, calls) \<Rightarrow> finish R a dev route detail None (c # calls) w))"

definition WakeDevice :: "'w wake_repo \<Rightarrow> hooks \<Rightarrow> string \<Rightarrow> wake_options \<Rightarrow> 'w \<Rightarrow> 'w wake_outcome" where
  "WakeDevice R h i opt w =
     (case repo_device R i w of
        (Inl e, w') \<Rightarrow> ((\<lparr>wr_attempt = missing_attempt i opt e, wr_device = None, wr_route = no_route,
            wr_detail = []\<rparr>, Some e, []), w')
      | (Inr dev, w') \<Rightarrow>
          if \<not> d_enabled dev \<and> \<not> o_force opt
          then recordFailure R dev no_route opt (Errorf ''device is disabled'') w'
          else (case ResolveRoute R dev w' of
                  (Inl e, w'') \<Rightarrow> recordFailure R dev no_route opt e w''
                | (Inr route, w'') \<Rightarrow>
                    (case ParseMAC (d_mac dev) of
                       Inl e \<Rightarrow> recordFailure R dev route opt e w''
                     | Inr mac \<Rightarrow> wake_on_route R h dev route mac opt w'')))"

section \<open>The relay's ssh command\<close>

definition token_char :: "char \<Rightarrow> bool" where
  "token_char c \<longleftrightarrow> is_alnum c \<or> c \<in> {CHR ''.'', CHR ''_'', CHR '':'', CHR ''-''}"

text \<open>The pattern \<open>^[A-Za-z0-9][A-Za-z0-9._:-]*$\<close>.\<close>

fun relayTokenPattern :: "string \<Rightarrow> bool" where
  "relayTokenPattern [] = False"
| "relayTokenPattern (c # cs) = (is_alnum c \<and> list_all token_char cs)"

definition safeSSHToken :: "string \<Rightarrow> bool" where
  "safeSSHToken v \<longleftrightarrow> v \<noteq> [] \<and> \<not> has_prefix v ''-'' \<and> relayTokenPattern v"

text \<open>The arguments of \<open>ssh\<close>, or the error that keeps it from being run.\<close>

definition etherwake_args :: "wake_relay \<Rightarrow> mac \<Rightarrow> (string list) result" where
  "etherwake_args relay mac =
     (let transport = trim_space (r_transport relay);
          name = (if trim_space (r_interface relay) = [] then ''br-lan'' else trim_space (r_interface relay)) in
      if trim_space (r_address relay) = []
      then Inl (Errorf (''relay '' @ quote (r_name relay) @ '' has no SSH address''))
      else if transport \<noteq> [] \<and> \<not> equal_fold transport ''ssh_etherwake''
      then Inl (Errorf (''relay transport '' @ quote (r_transport relay) @ '' is not supported''))
      else if length mac \<noteq> 6 then Inl (Errorf ''invalid MAC address'')
      else if \<not> safeSSHToken (r_address relay) \<or> (r_ssh_user relay \<noteq> [] \<and> \<not> safeSSHToken (r_ssh_user relay))
      then Inl (Errorf ''relay SSH address contains unsafe characters'')
      else if \<not> safeSSHToken name then Inl (Errorf ''relay interface contains unsafe characters'')
      else if r_port relay < 0 \<or> r_port relay > 65535 then Inl (Errorf ''relay SSH port is invalid'')
      else
        let port = (if r_port relay \<le> 0 then 22 else r_port relay);
            address = trim_space (r_address relay);
            target = (if r_ssh_user relay = [] then address else trim_space (r_ssh_user relay) @ ''@'' @ address);
            remote = ''/usr/bin/etherwake -b -i '' @ name @ '' '' @ mac_string mac in
        Inr ([''-o'', ''BatchMode=yes'', ''-o'', ''ConnectTimeout=2''] @
             (if port \<noteq> 22 then [''-p'', itoa port] else []) @ [''--'', target, remote]))"

text \<open>\<open>run\<close> is the execution of ssh: its combined output and its error.\<close>

definition SendEtherwake :: "(string list \<Rightarrow> string \<times> error option) \<Rightarrow> wake_relay \<Rightarrow> mac \<Rightarrow> relay_result \<times> error option" where
  "SendEtherwake run relay mac =
     (case etherwake_args relay mac of
        Inl e \<Rightarrow> (\<lparr>rr_packets = 0, rr_detail = []\<rparr>, Some e)
      | Inr args \<Rightarrow>
          (case run args of
             (out, Some e) \<Rightarrow>
               let message = (if trim_space out = [] then error_text e else trim_space out) in
               (\<lparr>rr_packets = 0, rr_detail = []\<rparr>, Some (Errorf (''ssh etherwake failed: '' @ message)))
           | (out, None) \<Rightarrow> (\<lparr>rr_packets = 1, rr_detail = trim_space out\<rparr>, None)))"

section \<open>What the service relies on\<close>

text \<open>
  Reading changes neither the log nor the rest of the state; recording appends the attempt it
  returns (with an ID and a time) and changes nothing else, or fails and changes nothing.
\<close>

locale wake_repository =
  fixes R :: "'w wake_repo" and log :: "'w \<Rightarrow> wake_attempt list" and rest :: "'w \<Rightarrow> 'r"
  assumes device_log: "log (snd (repo_device R i w)) = log w"
    and device_rest: "rest (snd (repo_device R i w)) = rest w"
    and site_log: "log (snd (repo_site R i w)) = log w"
    and site_rest: "rest (snd (repo_site R i w)) = rest w"
    and relay_log: "log (snd (repo_relay R i w)) = log w"
    and relay_rest: "rest (snd (repo_relay R i w)) = rest w"
    and record_rest: "rest (snd (repo_record R a w)) = rest w"
    and record_stored: "fst (repo_record R a w) = Inr b \<Longrightarrow> log (snd (repo_record R a w)) = log w @ [b]"
    and record_kept: "fst (repo_record R a w) = Inr b \<Longrightarrow> wa_packet_status b = wa_packet_status a"
    and record_failed: "fst (repo_record R a w) = Inl e \<Longrightarrow> log (snd (repo_record R a w)) = log w"
begin

lemma device_read: "repo_device R i w = (x, w') \<Longrightarrow> log w' = log w \<and> rest w' = rest w"
  using device_log [of i w] device_rest [of i w] by simp

lemma load_read: "load_settings R dev w = (x, w') \<Longrightarrow> log w' = log w \<and> rest w' = rest w"
  using site_log [of "d_site_id dev" w] site_rest [of "d_site_id dev" w]
  by (auto simp: load_settings_def split: if_splits prod.splits sum.splits)

lemma relay_read: "repo_relay R i w = (x, w') \<Longrightarrow> log w' = log w \<and> rest w' = rest w"
  using relay_log [of i w] relay_rest [of i w] by simp

lemma route_read:
  assumes "ResolveRoute R dev w = (x, w')"
  shows "log w' = log w \<and> rest w' = rest w"
proof -
  obtain y v where l: "load_settings R dev w = (y, v)" by fastforce
  note lv = load_read [OF l]
  show ?thesis
  proof (cases y)
    case (Inl e)
    then show ?thesis using assms l lv by (simp add: ResolveRoute_def)
  next
    case (Inr st)
    then show ?thesis using assms l lv relay_read [of "st_relay st" v]
      by (fastforce simp: ResolveRoute_def Let_def split: if_splits prod.splits sum.splits)
  qed
qed

text \<open>\<open>logged w r err w'\<close>: one attempt, the returned one, was logged; or none, and there is an error.\<close>

definition logged :: "'w \<Rightarrow> wake_result \<Rightarrow> error option \<Rightarrow> 'w \<Rightarrow> bool" where
  "logged w r err w' \<longleftrightarrow> rest w' = rest w \<and>
     (log w' = log w @ [wr_attempt r] \<or> log w' = log w \<and> err \<noteq> None)"

lemma finish_logged:
  assumes "finish R a dev route detail err calls w = ((r, err', calls'), w')"
  shows "logged w r err' w'" and "calls' = calls" and "wr_device r = Some dev" and "wr_route r = route"
    and "wa_packet_status (wr_attempt r) = wa_packet_status a"
    and "err' = None \<Longrightarrow> err = None"
    and "err \<noteq> None \<Longrightarrow> err' \<noteq> None"
  using assms record_rest [of a w] record_stored [of a w] record_failed [of a w] record_kept [of a w]
  by (auto simp: finish_def logged_def split: prod.splits sum.splits)

lemma logged_after: "log v = log w \<Longrightarrow> rest v = rest w \<Longrightarrow> logged v r err w' \<Longrightarrow> logged w r err w'"
  by (simp add: logged_def)

lemma wake_on_route_logged:
  assumes "wake_on_route R h dev route mac opt w = ((r, err, calls), w')"
  shows "logged w r err w'"
  using assms finish_logged(1) unfolding wake_on_route_def
  by (auto split: prod.splits option.splits)

lemma WakeDevice_logged:
  assumes "WakeDevice R h i opt w = ((r, err, calls), w')"
  shows "logged w r err w'"
proof -
  obtain x v where d: "repo_device R i w = (x, v)" by fastforce
  note dv = device_read [OF d]
  show ?thesis
  proof (cases x)
    case (Inl e)
    then show ?thesis using assms d dv by (auto simp: WakeDevice_def logged_def)
  next
    case (Inr dev)
    obtain y u where ro: "ResolveRoute R dev v = (y, u)" by fastforce
    note ru = route_read [OF ro]
    note frames = logged_after [of v w r err w'] logged_after [of u w r err w']
    show ?thesis
      using assms d Inr ro dv ru finish_logged(1) wake_on_route_logged frames
      by (auto simp: WakeDevice_def recordFailure_def split: if_splits sum.splits)
  qed
qed

end

section \<open>The store as the repository\<close>

definition store_repo :: "world wake_repo" where
  "store_repo = \<lparr>repo_device = GetDevice, repo_site = GetSite, repo_relay = GetWakeRelay,
     repo_record = RecordWakeAttempt\<rparr>"

definition wake_log :: "world \<Rightarrow> wake_attempt list" where
  "wake_log w = t_wakes (wdb w)"

definition other_tables :: "world \<Rightarrow> db" where
  "other_tables w = put_wakes [] (wdb w)"

lemma readonly_tables:
  "readonly p \<Longrightarrow> wake_log (snd (p w)) = wake_log w"
  "readonly p \<Longrightarrow> other_tables (snd (p w)) = other_tables w"
  by (simp_all add: readonly_def wake_log_def other_tables_def)

lemma RecordWakeAttempt_Inr:
  assumes "RecordWakeAttempt a w = (Inr b, w')"
  shows "wake_log w' = wake_log w @ [b] \<and> other_tables w' = other_tables w \<and>
    wa_packet_status b = wa_packet_status a"
proof -
  from assms obtain w1 w2 where w1: "wdb w1 = wdb w"
    and ins: "exec_insert t_wakes put_wakes wake_keys b w1 = (Inr (), w2)" and w': "w' = w2"
    and st: "wa_packet_status b = wa_packet_status a"
    by (auto simp: RecordWakeAttempt_def run_Inr split: if_splits dest!: now_db newID_db)
  from wakes_db.insert_effect [OF ins] obtain rows
    where "insert_row wake_keys b (t_wakes (wdb w1)) = Some rows" and "wdb w2 = put_wakes rows (wdb w1)"
    by blast
  then show ?thesis using w1 w' st
    by (auto simp: wake_log_def other_tables_def put_wakes_def insert_row_def split: if_splits)
qed

lemma RecordWakeAttempt_Inl: "fst (RecordWakeAttempt a w) = Inl e \<Longrightarrow> wdb (snd (RecordWakeAttempt a w)) = wdb w"
  using atomic_attempts(1) [of a] unfolding atomic_def by (metis prod.collapse)

lemma RecordWakeAttempt_frame: "other_tables (snd (RecordWakeAttempt a w)) = other_tables w"
  using RecordWakeAttempt_Inr [of a w] RecordWakeAttempt_Inl [of a w]
  by (cases "RecordWakeAttempt a w"; cases "fst (RecordWakeAttempt a w)") (auto simp: other_tables_def)

interpretation store_log: wake_repository store_repo wake_log other_tables
proof unfold_locales
  fix i w
  show "wake_log (snd (repo_device store_repo i w)) = wake_log w"
    "other_tables (snd (repo_device store_repo i w)) = other_tables w"
    "wake_log (snd (repo_site store_repo i w)) = wake_log w"
    "other_tables (snd (repo_site store_repo i w)) = other_tables w"
    "wake_log (snd (repo_relay store_repo i w)) = wake_log w"
    "other_tables (snd (repo_relay store_repo i w)) = other_tables w"
    by (simp_all add: store_repo_def GetDevice_def GetSite_def GetWakeRelay_def readonly_tables)
next
  fix a w b
  show "other_tables (snd (repo_record store_repo a w)) = other_tables w"
    by (simp add: store_repo_def RecordWakeAttempt_frame)
  assume "fst (repo_record store_repo a w) = Inr b"
  then have "RecordWakeAttempt a w = (Inr b, snd (RecordWakeAttempt a w))"
    by (simp add: store_repo_def prod_eq_iff)
  from RecordWakeAttempt_Inr [OF this]
  show "wake_log (snd (repo_record store_repo a w)) = wake_log w @ [b]"
    and "wa_packet_status b = wa_packet_status a" by (simp_all add: store_repo_def)
next
  fix a w e assume "fst (repo_record store_repo a w) = Inl e"
  then show "wake_log (snd (repo_record store_repo a w)) = wake_log w"
    using RecordWakeAttempt_Inl [of a w] by (simp add: store_repo_def wake_log_def)
qed

end
