(* ===== verification/WakeSpec.thy ===== *)
theory WakeSpec
  imports Wake
begin

text \<open>
  What waking promises: the log holds the attempt that is returned, a hook is called only for a
  device that may be woken and with the route that was resolved, the requests handed to the
  packet sender pass its validation, and the command line given to ssh is safe.
\<close>

section \<open>The log\<close>

text \<open>
  C26. Waking a device of the store writes at most one row: either exactly the attempt that is
  returned is appended to the log, or the log is unchanged and an error is returned (the device
  is not stored, or its attempt could not be). No other table changes, whatever the hooks and
  the database driver do.
\<close>

theorem WakeDevice_logs_result:
  assumes "WakeDevice store_repo h i opt w = ((r, err, calls), w')"
  shows "put_wakes [] (wdb w') = put_wakes [] (wdb w) \<and>
    (t_wakes (wdb w') = t_wakes (wdb w) @ [wr_attempt r] \<or> t_wakes (wdb w') = t_wakes (wdb w) \<and> err \<noteq> None)"
  using store_log.WakeDevice_logged [OF assms]
  by (simp add: store_log.logged_def wake_log_def other_tables_def)

section \<open>The calls\<close>

text \<open>A route is usable: a relay is enabled; a direct route has an IPv4 address.\<close>

definition route_ok :: "route \<Rightarrow> bool" where
  "route_ok route \<longleftrightarrow> rt_port route \<noteq> 0 \<and>
     (case rt_relay route of
        Some relay \<Rightarrow> rt_kind route = ''relay'' \<and> r_enabled relay
      | None \<Rightarrow> rt_kind route = ''broadcast'' \<and> (\<exists>ip. rt_destination route = Some ip \<and> length ip = 4))"

lemma parse_to4_length: "parse_to4 s = Some ip \<Longrightarrow> length ip = 4"
  by (auto simp: parse_to4_def dest: to4_length split: bind_splits)

lemma direct_route_ok:
  assumes "port \<noteq> 0" and "direct_route st port = Inr route"
  shows "route_ok route"
proof -
  define d where "d = (if st_destination st = [] then ''255.255.255.255'' else st_destination st)"
  from assms(2) obtain ip where "parse_to4 d = Some ip" and "rt_destination route = Some ip"
    and "rt_port route = port" and "rt_relay route = None" and "rt_kind route = ''broadcast''"
    unfolding direct_route_def Let_def d_def [symmetric] by (cases "parse_to4 d") auto
  then show ?thesis using assms(1) parse_to4_length [of d ip] by (simp add: route_ok_def)
qed

lemma relay_route_ok: "port \<noteq> 0 \<Longrightarrow> relay_route relay port = Inr route \<Longrightarrow> route_ok route"
  by (auto simp: relay_route_def route_ok_def split: if_splits)

lemma ResolveRoute_ok:
  assumes "ResolveRoute R dev w = (Inr route, w')"
  shows "route_ok route"
proof -
  obtain y v where l: "load_settings R dev w = (y, v)" by fastforce
  then obtain st where y: "y = Inr st" using assms by (cases y) (simp_all add: ResolveRoute_def)
  obtain z u where q: "repo_relay R (st_relay st) v = (z, u)" by fastforce
  define port where "port = (if st_port st = 0 then 9 else st_port st)"
  have port: "port \<noteq> 0" by (simp add: port_def)
  have "(\<exists>relay. relay_route relay port = Inr route) \<or> direct_route st port = Inr route"
    using assms l y q by (auto simp: ResolveRoute_def Let_def port_def split: if_splits sum.splits)
  then show ?thesis using direct_route_ok [OF port] relay_route_ok [OF port] by blast
qed

definition route_call :: "route \<Rightarrow> mac \<Rightarrow> wake_options \<Rightarrow> call" where
  "route_call route mac opt =
     (case rt_relay route of
        Some relay \<Rightarrow> CallRelay relay mac
      | None \<Rightarrow> CallDirect (direct_request mac route opt))"

definition may_verify :: "device \<Rightarrow> wake_options \<Rightarrow> call list \<Rightarrow> bool" where
  "may_verify dev opt cs \<longleftrightarrow> cs = [] \<or> o_verify opt \<and> 1 \<le> verify_port dev opt \<and> verify_port dev opt \<le> 65535 \<and>
     cs = [CallVerify (d_ip dev) (verify_port dev opt) (o_timeout opt)]"

lemma send_packets_call:
  "route_ok route \<Longrightarrow> send_packets h dev route mac opt = (n, detail, err, c) \<Longrightarrow> c = route_call route mac opt"
  by (auto simp: send_packets_def route_call_def route_ok_def split: option.splits prod.splits)

lemma verify_attempt_calls:
  "verify_attempt h dev opt a = (b, cs) \<Longrightarrow> may_verify dev opt cs \<and> wa_packet_status b = wa_packet_status a"
  by (auto simp: verify_attempt_def may_verify_def Let_def split: if_splits option.splits)

lemma finish_status:
  assumes "finish store_repo a dev route detail err calls w = ((r, err', calls'), w')"
  shows "calls' = calls \<and> wr_device r = Some dev \<and> wr_route r = route \<and>
    wa_packet_status (wr_attempt r) = wa_packet_status a \<and> (err' = None \<longrightarrow> err = None)"
  using store_log.finish_logged [OF assms] by blast

definition woken :: "wake_result \<Rightarrow> error option \<Rightarrow> call list \<Rightarrow> wake_options \<Rightarrow> bool" where
  "woken r err calls opt \<longleftrightarrow> (\<exists>dev mac cs. wr_device r = Some dev \<and> (d_enabled dev \<or> o_force opt) \<and>
     ParseMAC (d_mac dev) = Inr mac \<and> route_ok (wr_route r) \<and>
     calls = route_call (wr_route r) mac opt # cs \<and> may_verify dev opt cs \<and>
     (if cs \<noteq> [] \<or> err = None then wa_packet_status (wr_attempt r) = ''sent''
      else wa_packet_status (wr_attempt r) \<in> {''sent'', ''failed''}))"

lemma wake_on_route_woken:
  assumes "wake_on_route store_repo h dev route mac opt w = ((r, err, calls), w')"
    and "route_ok route" and "ParseMAC (d_mac dev) = Inr mac" and "d_enabled dev \<or> o_force opt"
  shows "woken r err calls opt"
proof -
  obtain n detail e c where s: "send_packets h dev route mac opt = (n, detail, e, c)"
    by (cases "send_packets h dev route mac opt")
  have c: "c = route_call route mac opt" using send_packets_call [OF assms(2) s] .
  show ?thesis
  proof (cases e)
    case (Some x)
    with assms(1) s have "finish store_repo ((sending_attempt dev route opt)\<lparr>wa_packet_status := ''failed'',
        wa_message := error_text x, wa_packets := n\<rparr>) dev route detail (Some x) [c] w = ((r, err, calls), w')"
      by (simp add: wake_on_route_def)
    from finish_status [OF this] show ?thesis using assms(2-4) c
      by (auto simp: woken_def may_verify_def)
  next
    case None
    obtain a cs where v: "verify_attempt h dev opt ((sending_attempt dev route opt)\<lparr>wa_packet_status := ''sent'',
        wa_packets := n, wa_message := detail\<rparr>) = (a, cs)" by fastforce
    with assms(1) s None have "finish store_repo a dev route detail None (c # cs) w = ((r, err, calls), w')"
      by (simp add: wake_on_route_def)
    from finish_status [OF this] verify_attempt_calls [OF v] show ?thesis using assms(2-4) c
      by (simp add: woken_def)
  qed
qed

lemma recordFailure_quiet:
  "recordFailure store_repo dev route opt cause w = ((r, err, calls), w') \<Longrightarrow> err \<noteq> None \<and> calls = []"
  unfolding recordFailure_def by (frule finish_status) auto

lemma WakeDevice_woken:
  assumes "WakeDevice store_repo h i opt w = ((r, err, calls), w')"
  shows "woken r err calls opt \<or> (err \<noteq> None \<and> calls = [])"
proof -
  obtain x v where d: "GetDevice i w = (x, v)" by fastforce
  show ?thesis
  proof (cases x)
    case (Inl e)
    then show ?thesis using assms d by (auto simp: WakeDevice_def store_repo_def)
  next
    case (Inr dev)
    obtain y u where ro: "ResolveRoute store_repo dev v = (y, u)" by fastforce
    have d': "repo_device store_repo i w = (Inr dev, v)" using d Inr by (simp add: store_repo_def)
    show ?thesis
    proof (cases "(d_enabled dev \<or> o_force opt) \<and> (\<exists>route mac. y = Inr route \<and> ParseMAC (d_mac dev) = Inr mac)")
      case True
      then obtain route mac where y: "y = Inr route" and mac: "ParseMAC (d_mac dev) = Inr mac"
        and may: "d_enabled dev \<or> o_force opt" by blast
      with assms d' ro have "wake_on_route store_repo h dev route mac opt u = ((r, err, calls), w')"
        by (auto simp: WakeDevice_def)
      from wake_on_route_woken [OF this ResolveRoute_ok [OF ro [unfolded y]] mac may] show ?thesis ..
    next
      case False
      then show ?thesis using assms d' ro recordFailure_quiet
        by (auto simp: WakeDevice_def split: if_splits sum.splits)
    qed
  qed
qed


text \<open>
  C28. The requests handed to the packet sender are well formed: their MAC address makes a magic
  packet of 102 bytes, the destination is an IPv4 address, at least one packet is asked for and
  the pause is positive. So when the port is in range, sending can only fail at the socket.
\<close>

theorem direct_requests_well_formed:
  assumes "WakeDevice store_repo h i opt w = ((r, err, calls), w')" and "CallDirect rq \<in> set calls"
  shows "(\<exists>packet. BuildMagicPacket (sr_mac rq) = Inr packet \<and> length packet = 102) \<and>
    (\<exists>dest. Option.bind (sr_destination rq) to4 = Some dest \<and> length dest = 4) \<and>
    sr_repeat rq \<ge> 1 \<and> sr_interval rq > 0 \<and> sr_port rq \<noteq> 0"
proof -
  from WakeDevice_woken [OF assms(1)] assms(2) have "woken r err calls opt" by auto
  then obtain dev mac cs where mac: "ParseMAC (d_mac dev) = Inr mac" and ok: "route_ok (wr_route r)"
    and calls: "calls = route_call (wr_route r) mac opt # cs" and cs: "may_verify dev opt cs"
    unfolding woken_def by blast
  have rq: "CallDirect rq = route_call (wr_route r) mac opt"
    using assms(2) calls cs by (auto simp: may_verify_def)
  have "BuildMagicPacket mac = Inr (replicate 6 0xff @ concat (replicate 16 mac))"
    unfolding BuildMagicPacket_def header_fill
    using ParseMAC_Inr(1,2) [OF mac] copy_macs_all [of mac "replicate 6 0xff" 6 16] by simp
  moreover have "length (concat (replicate 16 mac)) = 16 * length mac"
    by (simp add: length_concat sum_list_replicate)
  ultimately show ?thesis using rq ok ParseMAC_Inr(1) [OF mac]
    by (auto simp: route_call_def route_ok_def direct_request_def split: option.splits)
qed

text \<open>The witnesses: the device of the sample database, woken and verified with a hook that sends.\<close>

definition sending_hooks :: hooks where
  "sending_hooks = \<lparr>
     hook_direct = (\<lambda>rq. (\<lparr>res_destination = ''255.255.255.255'', res_port = sr_port rq, res_packets = sr_repeat rq,
        res_bytes = 306, res_warning = []\<rparr>, None)),
     hook_relay = (\<lambda>_ _. (\<lparr>rr_packets = 1, rr_detail = []\<rparr>, None)),
     hook_verify = (\<lambda>_ _ _. None)\<rparr>"

definition verify_ssh :: wake_options where
  "verify_ssh = \<lparr>o_repeat = 0, o_interval = 0, o_verify = True, o_verify_port = 22, o_timeout = 0,
     o_force = False, o_target_type = []\<rparr>"

definition sample_wake :: "world wake_outcome" where
  "sample_wake = WakeDevice store_repo sending_hooks ''device_1001_01'' verify_ssh (quiet_world sample_db)"

definition sample_request :: send_request where
  "sample_request = \<lparr>sr_mac = [2, 0, 0, 0, 0, 10], sr_destination = Some [255, 255, 255, 255], sr_port = 9,
     sr_interface = [], sr_repeat = 3, sr_interval = 200000000\<rparr>"

lemma sample_wake_value:
  "(case sample_wake of ((r, err, calls), w') \<Rightarrow> (err, calls, wa_packet_status (wr_attempt r))) =
    (None, [CallDirect sample_request, CallVerify ''192.168.1.20'' 22 0], ''sent'')"
  by code_simp

lemma sample_wake_status: "wa_packet_status (wr_attempt (fst (fst sample_wake))) = ''sent''"
proof -
  obtain r err calls w' where eq: "sample_wake = ((r, err, calls), w')" by (metis prod.collapse)
  show ?thesis using sample_wake_value unfolding eq by simp
qed

lemma sample_wake_parts: "WakeDevice store_repo sending_hooks ''device_1001_01'' verify_ssh (quiet_world sample_db) =
   ((fst (fst sample_wake), None, [CallDirect sample_request, CallVerify ''192.168.1.20'' 22 0]), snd sample_wake)"
  using sample_wake_value by (simp add: sample_wake_def split: prod.splits)

theorem WakeDevice_logs_result_witness:
  "map wa_packet_status (t_wakes (wdb (snd sample_wake))) = [''sent''] \<and>
   t_wakes (wdb (snd sample_wake)) = [wr_attempt (fst (fst sample_wake))]"
proof -
  have "t_wakes sample_db = []" by (simp add: sample_db_value)
  then have "t_wakes (wdb (snd sample_wake)) = [wr_attempt (fst (fst sample_wake))]"
    using WakeDevice_logs_result [OF sample_wake_parts] by (simp add: quiet_world_def)
  then show ?thesis using sample_wake_status by simp
qed


theorem direct_requests_well_formed_witness:
  "\<exists>packet. BuildMagicPacket [2, 0, 0, 0, 0, 10] = Inr packet \<and> length packet = 102"
  using direct_requests_well_formed [OF sample_wake_parts, of sample_request] by (simp add: sample_request_def)

section \<open>The relay's ssh command\<close>

lemma alnum_ink: "is_alnum c \<Longrightarrow> ink c"
  by (auto simp: is_alnum_def is_digit_def is_upper_def is_lower_def ink_def ascii_def is_space_def)

lemma token_char_ink: "token_char c \<Longrightarrow> ink c"
proof (cases "is_alnum c")
  case False
  moreover have "list_all ink [CHR ''.'', CHR ''_'', CHR '':'', CHR ''-'']" by code_simp
  moreover assume "token_char c"
  ultimately show ?thesis by (auto simp: token_char_def)
qed (rule alnum_ink)

lemma safeSSHToken_chars:
  assumes "safeSSHToken v"
  shows "v \<noteq> []" and "is_alnum (hd v)" and "list_all token_char v"
  using assms by (cases v; simp add: safeSSHToken_def token_char_def)+

lemma safeSSHToken_trim: "safeSSHToken v \<Longrightarrow> trim_space v = v"
  using safeSSHToken_chars [of v] by (intro trim_space_ink token_char_ink) (auto simp: list_all_iff)

lemma hex_digit_token: "n < 16 \<Longrightarrow> token_char (hex_digit n)"
proof -
  have "\<forall>i < 16. token_char (hex_digit i)" by code_simp
  then show "n < 16 \<Longrightarrow> token_char (hex_digit n)" by blast
qed

lemma join_chars: "P c \<Longrightarrow> list_all (list_all P) xs \<Longrightarrow> list_all P (join [c] xs)"
  by (induction "[c]" xs rule: join.induct) auto

lemma mac_string_token: "list_all token_char (mac_string m)"
  unfolding mac_string_def
  by (rule join_chars) (simp_all add: token_char_def [of "CHR '':''"] list_all_iff hex_byte_def
      hex_digit_token byte_nibbles)

definition target_char :: "char \<Rightarrow> bool" where
  "target_char c \<longleftrightarrow> token_char c \<or> c = CHR ''@''"

definition command_char :: "char \<Rightarrow> bool" where
  "command_char c \<longleftrightarrow> token_char c \<or> c = CHR '' '' \<or> c = CHR ''/''"

lemma ssh_target_safe:
  assumes "safeSSHToken address" and "user = [] \<or> safeSSHToken user"
  defines "target \<equiv> if user = [] then trim_space address else trim_space user @ ''@'' @ trim_space address"
  shows "target \<noteq> [] \<and> is_alnum (hd target) \<and> list_all target_char target"
  using assms safeSSHToken_chars [of address] safeSSHToken_chars [of user]
  by (auto simp: target_def safeSSHToken_trim target_char_def list_all_iff hd_append)

text \<open>
  C29. Nothing stored in a relay can inject an ssh option or a remote command: when a command
  line is built at all, its only variable parts are a port between 1 and 65535, a target after
  \<open>--\<close> that starts with a letter or digit and has only safe characters, and a remote command of
  letters, digits, dots, underscores, colons, dashes, spaces and slashes: the fixed program, an
  interface name that is no option, and the MAC address of six bytes.
\<close>

theorem etherwake_args_safe:
  assumes "etherwake_args relay mac = Inr args"
  shows "\<exists>port target name. 1 \<le> port \<and> port \<le> 65535 \<and> length mac = 6 \<and>
    args = [''-o'', ''BatchMode=yes'', ''-o'', ''ConnectTimeout=2''] @
      (if port \<noteq> 22 then [''-p'', itoa port] else []) @
      [''--'', target, ''/usr/bin/etherwake -b -i '' @ name @ '' '' @ mac_string mac] \<and>
    target \<noteq> [] \<and> is_alnum (hd target) \<and> list_all target_char target \<and>
    is_alnum (hd name) \<and> list_all command_char (''/usr/bin/etherwake -b -i '' @ name @ '' '' @ mac_string mac)"
proof -
  define name where "name = (if trim_space (r_interface relay) = [] then ''br-lan'' else trim_space (r_interface relay))"
  define port where "port = (if r_port relay \<le> 0 then 22 else r_port relay)"
  define target where "target = (if r_ssh_user relay = [] then trim_space (r_address relay)
    else trim_space (r_ssh_user relay) @ ''@'' @ trim_space (r_address relay))"
  from assms have safe: "safeSSHToken (r_address relay)" "r_ssh_user relay = [] \<or> safeSSHToken (r_ssh_user relay)"
    "safeSSHToken name" and six: "length mac = 6" and ports: "0 \<le> r_port relay" "r_port relay \<le> 65535"
    and args: "args = [''-o'', ''BatchMode=yes'', ''-o'', ''ConnectTimeout=2''] @
      (if port \<noteq> 22 then [''-p'', itoa port] else []) @
      [''--'', target, ''/usr/bin/etherwake -b -i '' @ name @ '' '' @ mac_string mac]"
    unfolding etherwake_args_def Let_def name_def [symmetric] port_def [symmetric] target_def [symmetric]
    by (auto split: if_splits)
  have "list_all command_char name" "list_all command_char (mac_string mac)"
    using safeSSHToken_chars(3) [OF safe(3)] mac_string_token [of mac]
    by (auto simp: command_char_def list_all_iff)
  moreover have "list_all command_char ''/usr/bin/etherwake -b -i ''" by code_simp
  ultimately have "list_all command_char (''/usr/bin/etherwake -b -i '' @ name @ '' '' @ mac_string mac)"
    by (simp add: command_char_def)
  moreover have "1 \<le> port \<and> port \<le> 65535" using ports by (simp add: port_def)
  ultimately show ?thesis
    using ssh_target_safe [OF safe(1,2)] safeSSHToken_chars(2) [OF safe(3)] six args
    unfolding target_def [symmetric] by blast
qed

definition sample_relay :: wake_relay where
  "sample_relay = \<lparr>r_id = ''relay_1'', r_name = ''router'', r_address = ''10.0.0.1'',
     r_port = 2222, r_transport = ''ssh_etherwake'', r_interface = ''br-lan'', r_ssh_user = ''root'', r_secret_hash = [], r_enabled = True,
     r_created = [], r_updated = []\<rparr>"

theorem etherwake_args_safe_witness:
  "\<exists>args. etherwake_args sample_relay [2, 0, 0, 0, 0, 10] = Inr args \<and>
     last args = ''/usr/bin/etherwake -b -i br-lan 02:00:00:00:00:0a'' \<and> list_all command_char (last args)"
proof -
  let ?args = "[''-o'', ''BatchMode=yes'', ''-o'', ''ConnectTimeout=2'', ''-p'', ''2222'', ''--'', ''root@10.0.0.1'',
     ''/usr/bin/etherwake -b -i br-lan 02:00:00:00:00:0a'']"
  have *: "etherwake_args sample_relay [2, 0, 0, 0, 0, 10] = Inr ?args" by code_simp
  from etherwake_args_safe [OF *] have "list_all command_char (last ?args)"
    by (elim exE conjE) simp
  with * show ?thesis by (intro exI [of _ ?args]) simp
qed

end
