(* ===== verification/Presence.thy ===== *)
theory Presence
  imports NetAddr
begin

text \<open>
  \<open>internal/presence/presence.go\<close>: whether a device answers. A probe tries the configured port,
  then a sweep of common ports, then ping, and looks at the neighbour table only when no TCP
  connection left the host. The network, the clock and the contexts are the record
  \<open>probe_env\<close>; the goroutines of the sweep and of a batch are in \<open>PresencePool\<close>.
\<close>

section \<open>Results\<close>

datatype presence_status = StatusOnline | StatusOffline | StatusUnknown

fun status_string :: "presence_status \<Rightarrow> string" where
  "status_string StatusOnline = ''online''"
| "status_string StatusOffline = ''offline''"
| "status_string StatusUnknown = ''unknown''"

datatype probe_method = MethodTCPVerify | MethodTCPRefused | MethodTCPSweep | MethodICMP | MethodARP | MethodNone

fun method_string :: "probe_method \<Rightarrow> string" where
  "method_string MethodTCPVerify = ''tcp_verify''"
| "method_string MethodTCPRefused = ''tcp_refused''"
| "method_string MethodTCPSweep = ''tcp_sweep''"
| "method_string MethodICMP = ''icmp''"
| "method_string MethodARP = ''arp''"
| "method_string MethodNone = ''none''"

record probe_target =
  pt_device_id :: string
  pt_ip :: string
  pt_verify_port :: int

record presence =
  pr_device_id :: string
  pr_ip :: string
  pr_status :: presence_status
  pr_method :: probe_method
  pr_latency :: int
  pr_checked :: string
  pr_expires :: string
  pr_cached :: bool
  pr_message :: string

record presence_summary =
  su_total :: nat
  su_online :: nat
  su_offline :: nat
  su_unknown :: nat

section \<open>Errors of the network\<close>

text \<open>An error of a connection: the \<open>syscall.Errno\<close> values in its chain, outermost first, and
  its text.\<close>

record net_error =
  ne_errnos :: "string list"
  ne_text :: string

definition errno_is :: "net_error \<Rightarrow> string \<Rightarrow> bool" where
  "errno_is e n \<longleftrightarrow> n \<in> set (ne_errnos e)"

definition errno_as :: "net_error \<Rightarrow> string option" where
  "errno_as e = (case ne_errnos e of [] \<Rightarrow> None | n # _ \<Rightarrow> Some n)"

definition isConnectionRefused :: "net_error option \<Rightarrow> bool" where
  "isConnectionRefused err =
     (case err of
        None \<Rightarrow> False
      | Some e \<Rightarrow>
          if errno_is e ''ECONNREFUSED'' then True
          else if errno_as e = Some ''ECONNREFUSED'' then True
          else let msg = to_lower (ne_text e) in
            contains msg ''connection refused'' \<or> contains msg ''actively refused'' \<or>
            contains msg ''wsaeconnrefused'')"

definition isHostUnreachable :: "net_error option \<Rightarrow> bool" where
  "isHostUnreachable err =
     (case err of
        None \<Rightarrow> False
      | Some e \<Rightarrow>
          if errno_is e ''EHOSTUNREACH'' \<or> errno_is e ''ENETUNREACH'' then True
          else if errno_as e = Some ''EHOSTUNREACH'' \<or> errno_as e = Some ''ENETUNREACH'' then True
          else let msg = to_lower (ne_text e) in
            contains msg ''no route to host'' \<or> contains msg ''network is unreachable'' \<or>
            contains msg ''host is unreachable'' \<or> contains msg ''wsaehostunreach'' \<or>
            contains msg ''wsaenetunreach'')"

record tcp_result =
  tr_online :: bool
  tr_refused :: bool
  tr_unreachable :: bool

text \<open>What \<open>probeTCP\<close> makes of the outcome of a connection.\<close>

definition tcp_outcome :: "net_error option \<Rightarrow> tcp_result" where
  "tcp_outcome err =
     (if err = None then \<lparr>tr_online = True, tr_refused = False, tr_unreachable = False\<rparr>
      else if isConnectionRefused err then \<lparr>tr_online = True, tr_refused = True, tr_unreachable = False\<rparr>
      else if isHostUnreachable err then \<lparr>tr_online = False, tr_refused = False, tr_unreachable = True\<rparr>
      else \<lparr>tr_online = False, tr_refused = False, tr_unreachable = False\<rparr>)"

section \<open>The detector\<close>

type_synonym dial_fn = "string \<Rightarrow> string \<Rightarrow> int \<Rightarrow> net_error option"
type_synonym ping_fn = "string \<Rightarrow> int \<Rightarrow> int \<times> net_error option"
type_synonym neighbor_fn = "string \<Rightarrow> bool"

record detector =
  dt_ports :: "int list"
  dt_concurrency :: int
  dt_loopback :: bool
  dt_dial :: "dial_fn option"
  dt_ping :: "ping_fn option"
  dt_neighbor :: "neighbor_fn option"

definition WithTCPPorts :: "int list \<Rightarrow> detector \<Rightarrow> detector" where
  "WithTCPPorts ports d = d\<lparr>dt_ports := ports\<rparr>"

definition WithConcurrency :: "int \<Rightarrow> detector \<Rightarrow> detector" where
  "WithConcurrency n d = d\<lparr>dt_concurrency := n\<rparr>"

definition WithAllowLoopback :: "bool \<Rightarrow> detector \<Rightarrow> detector" where
  "WithAllowLoopback b d = d\<lparr>dt_loopback := b\<rparr>"

definition WithDialTCP :: "dial_fn \<Rightarrow> detector \<Rightarrow> detector" where
  "WithDialTCP f d = d\<lparr>dt_dial := Some f\<rparr>"

definition WithPing :: "ping_fn \<Rightarrow> detector \<Rightarrow> detector" where
  "WithPing f d = d\<lparr>dt_ping := Some f\<rparr>"

definition WithNeighbor :: "neighbor_fn \<Rightarrow> detector \<Rightarrow> detector" where
  "WithNeighbor f d = d\<lparr>dt_neighbor := Some f\<rparr>"

definition NewDetector :: "(detector \<Rightarrow> detector) list \<Rightarrow> detector" where
  "NewDetector opts = fold (\<lambda>opt d. opt d) opts
     \<lparr>dt_ports = [22, 80, 443, 445, 3389, 5357, 8006], dt_concurrency = 16, dt_loopback = False,
      dt_dial = None, dt_ping = None, dt_neighbor = None\<rparr>"

text \<open>
  The surroundings of one probe: the default connection, ping and neighbour lookup of the
  system; what the goroutines of the sweep deliver; whether the probe's context is done at its
  n-th check and the caller's at the end; the time left and the milliseconds since the start.
\<close>

record probe_env =
  pv_dial :: dial_fn
  pv_ping :: ping_fn
  pv_neighbor :: neighbor_fn
  pv_delivered :: "string \<Rightarrow> int list \<Rightarrow> int \<Rightarrow> tcp_result list"
  pv_done :: "nat \<Rightarrow> bool"
  pv_caller_done :: bool
  pv_remaining :: int
  pv_elapsed :: "nat \<Rightarrow> int"
  pv_now :: string

definition dial :: "detector \<Rightarrow> probe_env \<Rightarrow> dial_fn" where
  "dial d env = (case dt_dial d of Some f \<Rightarrow> f | None \<Rightarrow> pv_dial env)"

definition probeTCP :: "detector \<Rightarrow> probe_env \<Rightarrow> string \<Rightarrow> int \<Rightarrow> int \<Rightarrow> tcp_result" where
  "probeTCP d env host port timeout =
     tcp_outcome (dial d env ''tcp'' (join_host_port host (itoa port)) timeout)"

definition ping :: "detector \<Rightarrow> probe_env \<Rightarrow> ping_fn" where
  "ping d env = (case dt_ping d of Some f \<Rightarrow> f | None \<Rightarrow> pv_ping env)"

definition neighbor :: "detector \<Rightarrow> probe_env \<Rightarrow> neighbor_fn" where
  "neighbor d env = (case dt_neighbor d of Some f \<Rightarrow> f | None \<Rightarrow> pv_neighbor env)"

abbreviation millisecond :: int where
  "millisecond \<equiv> 1000000"

text \<open>\<open>time.Duration.Milliseconds\<close> truncates towards zero.\<close>

definition milliseconds :: "int \<Rightarrow> int" where
  "milliseconds t = (if t < 0 then - ((- t) div millisecond) else t div millisecond)"

text \<open>The command line of the default ping.\<close>

definition ping_args :: "string \<Rightarrow> string \<Rightarrow> int \<Rightarrow> string list" where
  "ping_args goos host timeout =
     (let timeoutSec = (if timeout div 1000000000 < 1 then 1 else timeout div 1000000000);
          timeoutMs = (if milliseconds timeout < 100 then 100 else milliseconds timeout) in
      if goos = ''windows'' then [''ping'', ''-n'', ''1'', ''-w'', itoa timeoutMs, host]
      else if goos = ''darwin'' then [''ping'', ''-c'', ''1'', ''-W'', itoa timeoutMs, host]
      else [''ping'', ''-c'', ''1'', ''-W'', itoa timeoutSec, host])"

section \<open>The address\<close>

definition validateTargetIP :: "string \<Rightarrow> bool \<Rightarrow> ip result" where
  "validateTargetIP s allowLoopback =
     (let trimmed = trim_space s in
      if trimmed = [] then Inl (Errorf ''device has no IP address configured'')
      else case parse_ip trimmed of
        None \<Rightarrow> Inl (Errorf (''invalid IP address '' @ quote trimmed))
      | Some ip \<Rightarrow>
          if is_unspecified ip then Inl (Errorf ''unspecified IP address is not allowed'')
          else if is_multicast ip then Inl (Errorf ''multicast IP address is not allowed'')
          else if to4 ip \<noteq> None \<and> (to4 ip = Some [255, 255, 255, 255] \<or> trimmed = ''255.255.255.255'')
          then Inl (Errorf ''broadcast IP address is not allowed'')
          else if is_loopback ip \<and> \<not> allowLoopback then Inl (Errorf ''loopback IP address is not allowed'')
          else Inr ip)"

section \<open>A probe\<close>

definition clamp :: "int \<Rightarrow> int \<Rightarrow> int \<Rightarrow> int" where
  "clamp lo hi t = (let t = (if t > hi then hi else t) in if t < lo then lo else t)"

definition verify_timeout :: "int \<Rightarrow> int" where
  "verify_timeout timeout = clamp (100 * millisecond) (500 * millisecond) (timeout div 3)"

definition sweep_timeout :: "int \<Rightarrow> int" where
  "sweep_timeout timeout = clamp (100 * millisecond) (800 * millisecond) (timeout div 2)"

definition ping_timeout :: "int \<Rightarrow> int" where
  "ping_timeout remaining =
     (let t = (if remaining > 0 \<and> remaining < 1000 * millisecond then remaining else 1000 * millisecond) in
      if t < 100 * millisecond then 100 * millisecond else t)"

text \<open>The loop over the results of a sweep: any answer, all unreachable, anything attempted.\<close>

definition sweep_outcome :: "tcp_result list \<Rightarrow> bool \<times> bool \<times> bool" where
  "sweep_outcome delivered =
     (let attempted = (delivered \<noteq> []);
          hit = list_ex tr_online delivered;
          unreachable = length (filter tr_unreachable delivered) in
      if hit then (True, False, True)
      else (False, attempted \<and> unreachable = length delivered, attempted))"

definition sweepTCP :: "probe_env \<Rightarrow> string \<Rightarrow> int list \<Rightarrow> int \<Rightarrow> bool \<times> bool \<times> bool" where
  "sweepTCP env host ports timeout =
     (if ports = [] then (False, False, False) else sweep_outcome (pv_delivered env host ports timeout))"

definition verify_probe :: "detector \<Rightarrow> probe_env \<Rightarrow> probe_target \<Rightarrow> string \<Rightarrow> int \<Rightarrow> tcp_result option" where
  "verify_probe d env t host timeout =
     (if pt_verify_port t > 0 \<and> pt_verify_port t \<le> 65535
      then Some (probeTCP d env host (pt_verify_port t) (verify_timeout timeout)) else None)"

definition sweep_probe :: "detector \<Rightarrow> probe_env \<Rightarrow> string \<Rightarrow> int \<Rightarrow> bool \<times> bool \<times> bool" where
  "sweep_probe d env host timeout =
     (if dt_ports d \<noteq> [] \<and> \<not> pv_done env 0 then sweepTCP env host (dt_ports d) (sweep_timeout timeout)
      else (False, False, False))"

definition probe_result :: "probe_env \<Rightarrow> probe_target \<Rightarrow> presence_status \<Rightarrow> probe_method \<Rightarrow> int \<Rightarrow> string \<Rightarrow> presence" where
  "probe_result env t status method latency message =
     \<lparr>pr_device_id = pt_device_id t, pr_ip = pt_ip t, pr_status = status, pr_method = method,
      pr_latency = latency, pr_checked = pv_now env, pr_expires = [], pr_cached = False, pr_message = message\<rparr>"

text \<open>\<open>immediateUnreachable\<close> after the two TCP stages: TCP was attempted, and every attempt
  found the host unreachable.\<close>

definition immediate_unreachable :: "tcp_result option \<Rightarrow> bool \<times> bool \<times> bool \<Rightarrow> bool" where
  "immediate_unreachable verify sweep =
     (case sweep of (hit, allUnreachable, attempted) \<Rightarrow>
        let tcpAttempted = (verify \<noteq> None \<or> attempted);
            immediate = (case verify of None \<Rightarrow> True | Some r \<Rightarrow> tr_unreachable r);
            immediate = (if attempted \<and> \<not> allUnreachable then False else immediate) in
        if \<not> tcpAttempted then False else immediate)"

text \<open>The stages after TCP: ping, the neighbour table, and the two final answers.\<close>

definition ping_probe :: "detector \<Rightarrow> probe_env \<Rightarrow> string \<Rightarrow> int option" where
  "ping_probe d env host =
     (if pv_done env 1 then None
      else (case ping d env host (ping_timeout (pv_remaining env)) of
              (latency, None) \<Rightarrow>
                Some (if milliseconds latency = 0 then pv_elapsed env 2 else milliseconds latency)
            | (_, Some _) \<Rightarrow> None))"

definition probe_tail :: "detector \<Rightarrow> probe_env \<Rightarrow> probe_target \<Rightarrow> string \<Rightarrow> bool \<Rightarrow> presence" where
  "probe_tail d env t host immediate =
     (case ping_probe d env host of
        Some latency \<Rightarrow> probe_result env t StatusOnline MethodICMP latency []
      | None \<Rightarrow>
          if immediate \<and> \<not> pv_done env 2 \<and> neighbor d env host
          then (probe_result env t StatusUnknown MethodARP (pv_elapsed env 3)
            ''cached ARP entry found; live reachability is unconfirmed; check local network permissions or routing'')
              \<lparr>pr_cached := True\<rparr>
          else if immediate \<or> pv_caller_done env
          then probe_result env t StatusUnknown MethodNone (pv_elapsed env 4)
            ''local network access denied or no route to host''
          else probe_result env t StatusOffline MethodNone (pv_elapsed env 4)
            ''target did not respond to TCP or ICMP probes'')"

definition Probe :: "detector \<Rightarrow> probe_env \<Rightarrow> probe_target \<Rightarrow> int \<Rightarrow> presence" where
  "Probe d env t timeout0 =
     (let timeout = (if timeout0 \<le> 0 then 2000 * millisecond else timeout0) in
      case validateTargetIP (pt_ip t) (dt_loopback d) of
        Inl e \<Rightarrow> probe_result env t StatusUnknown MethodNone 0 (error_text e)
      | Inr ip \<Rightarrow>
          let host = ip_string ip;
              verify = verify_probe d env t host timeout in
          if (case verify of Some r \<Rightarrow> tr_online r | None \<Rightarrow> False)
          then probe_result env t StatusOnline
            (if tr_refused (the verify) then MethodTCPRefused else MethodTCPVerify) (pv_elapsed env 0) []
          else
            let sweep = sweep_probe d env host timeout in
            if fst sweep then probe_result env t StatusOnline MethodTCPSweep (pv_elapsed env 1) []
            else probe_tail d env t host (immediate_unreachable verify sweep))"

definition count_result :: "presence \<Rightarrow> presence_summary \<Rightarrow> presence_summary" where
  "count_result res s =
     (case pr_status res of
        StatusOnline \<Rightarrow> s\<lparr>su_online := su_online s + 1\<rparr>
      | StatusOffline \<Rightarrow> s\<lparr>su_offline := su_offline s + 1\<rparr>
      | StatusUnknown \<Rightarrow> s\<lparr>su_unknown := su_unknown s + 1\<rparr>)"

definition Summarize :: "presence list \<Rightarrow> presence_summary" where
  "Summarize results = fold count_result results
     \<lparr>su_total = length results, su_online = 0, su_offline = 0, su_unknown = 0\<rparr>"

end
