(* ===== verification/Pool.thy ===== *)
theory Pool
  imports Main
begin

text \<open>
  Goroutines as a pool: a shared state and a list of workers of which one steps at a time, in
  any order, while the surroundings may change the shared state between two steps. The locales
  state what makes a pool safe (an invariant each step keeps), bounded (a weight each step
  lowers) and live (a step is possible until the pool is finished); their conclusions hold for
  every schedule.
\<close>

inductive pool_step :: "('s \<Rightarrow> 'l \<Rightarrow> 's \<Rightarrow> 'l \<Rightarrow> bool) \<Rightarrow> ('s \<Rightarrow> 's \<Rightarrow> bool) \<Rightarrow> 's \<times> 'l list \<Rightarrow> 's \<times> 'l list \<Rightarrow> bool"
  for T E where
  worker: "i < length ls \<Longrightarrow> T s (ls ! i) s' l' \<Longrightarrow> pool_step T E (s, ls) (s', ls[i := l'])"
| outside: "E s s' \<Longrightarrow> pool_step T E (s, ls) (s', ls)"

inductive_cases pool_stepE: "pool_step T E (s, ls) c"

abbreviation pool_steps :: "('s \<Rightarrow> 'l \<Rightarrow> 's \<Rightarrow> 'l \<Rightarrow> bool) \<Rightarrow> ('s \<Rightarrow> 's \<Rightarrow> bool) \<Rightarrow> 's \<times> 'l list \<Rightarrow> 's \<times> 'l list \<Rightarrow> bool"
  where "pool_steps T E \<equiv> (pool_step T E)\<^sup>*\<^sup>*"

definition stuck :: "('s \<Rightarrow> 'l \<Rightarrow> 's \<Rightarrow> 'l \<Rightarrow> bool) \<Rightarrow> ('s \<Rightarrow> 's \<Rightarrow> bool) \<Rightarrow> 's \<times> 'l list \<Rightarrow> bool" where
  "stuck T E c \<longleftrightarrow> (\<nexists>c'. pool_step T E c c')"

lemma pool_step_length: "pool_step T E (s, ls) (s', ls') \<Longrightarrow> length ls' = length ls"
  by (erule pool_stepE) auto

lemma pool_step_split:
  assumes "pool_step T E (s, ls) (s', ls')"
  obtains (worker) xs l ys l' where "ls = xs @ l # ys" "ls' = xs @ l' # ys" "T s l s' l'"
  | (outside) "E s s'" "ls' = ls"
  using assms
proof (cases rule: pool_step.cases)
  case (worker i l')
  then have "ls = take i ls @ ls ! i # drop (Suc i) ls" "ls' = take i ls @ l' # drop (Suc i) ls"
    by (simp_all add: id_take_nth_drop upd_conv_take_nth_drop)
  then show ?thesis using worker that(1) by metis
qed (use that(2) in auto)

lemma stuck_worker: "stuck T E (s, ls) \<Longrightarrow> l \<in> set ls \<Longrightarrow> \<not> T s l s' l'"
  unfolding stuck_def in_set_conv_nth by (metis pool_step.worker)

section \<open>Safety\<close>

locale pool_invariant =
  fixes T :: "'s \<Rightarrow> 'l \<Rightarrow> 's \<Rightarrow> 'l \<Rightarrow> bool" and E :: "'s \<Rightarrow> 's \<Rightarrow> bool" and I :: "'s \<Rightarrow> 'l list \<Rightarrow> bool"
  assumes worker_keeps: "I s (xs @ l # ys) \<Longrightarrow> T s l s' l' \<Longrightarrow> I s' (xs @ l' # ys)"
    and outside_keeps: "I s ls \<Longrightarrow> E s s' \<Longrightarrow> I s' ls"
begin

lemma step_keeps:
  assumes "pool_step T E (s, ls) (s', ls')" and "I s ls"
  shows "I s' ls'"
  using assms(1)
proof (cases rule: pool_step_split)
  case worker
  then show ?thesis using worker_keeps assms(2) by blast
next
  case outside
  then show ?thesis using outside_keeps assms(2) by blast
qed

lemma steps_keep:
  assumes "pool_steps T E (s, ls) (s', ls')" and "I s ls"
  shows "I s' ls'"
proof -
  have "I (fst c) (snd c) \<Longrightarrow> I (fst c') (snd c')" if "pool_steps T E c c'" for c c'
    using that by (induction rule: rtranclp_induct) (metis prod.collapse step_keeps)+
  from this [OF assms(1)] assms(2) show ?thesis by simp
qed

end

section \<open>Bounded runs\<close>

locale pool_weight =
  fixes T :: "'s \<Rightarrow> 'l \<Rightarrow> 's \<Rightarrow> 'l \<Rightarrow> bool" and E :: "'s \<Rightarrow> 's \<Rightarrow> bool"
    and mu :: "'s \<Rightarrow> nat" and nu :: "'l \<Rightarrow> nat"
  assumes worker_lowers: "T s l s' l' \<Longrightarrow> mu s' + nu l' < mu s + nu l"
    and outside_lowers: "E s s' \<Longrightarrow> mu s' < mu s"
begin

definition weight :: "'s \<times> 'l list \<Rightarrow> nat" where
  "weight c = mu (fst c) + sum_list (map nu (snd c))"

lemma step_lowers: "pool_step T E c c' \<Longrightarrow> weight c' < weight c"
  by (cases c; cases c'; hypsubst; erule pool_step_split)
    (auto simp: weight_def dest: worker_lowers outside_lowers)

lemma run_bounded: "(pool_step T E ^^ n) c c' \<Longrightarrow> n + weight c' \<le> weight c"
proof (induction n arbitrary: c')
  case (Suc n)
  then obtain d where "(pool_step T E ^^ n) c d" and "pool_step T E d c'" by auto
  then show ?case using Suc.IH [of d] step_lowers [of d c'] by simp
qed simp

lemma run_ends: "\<exists>c'. pool_steps T E c c' \<and> stuck T E c'"
proof (induction "weight c" arbitrary: c rule: less_induct)
  case less
  show ?case
  proof (cases "stuck T E c")
    case False
    then obtain d where d: "pool_step T E c d" by (auto simp: stuck_def)
    from less [OF step_lowers [OF d]] show ?thesis
      using d by (meson converse_rtranclp_into_rtranclp)
  qed blast
qed

end

section \<open>Liveness\<close>

text \<open>A pool that is stuck only when finished finishes under every schedule, within a bounded
  number of steps.\<close>

locale worker_pool = pool_invariant T E I + pool_weight T E mu nu
  for T :: "'s \<Rightarrow> 'l \<Rightarrow> 's \<Rightarrow> 'l \<Rightarrow> bool" and E I mu nu +
  fixes finished :: "'s \<Rightarrow> 'l list \<Rightarrow> bool"
  assumes progress: "I s ls \<Longrightarrow> stuck T E (s, ls) \<Longrightarrow> finished s ls"
begin

lemma completes:
  assumes "I s ls"
  shows "\<exists>s' ls'. pool_steps T E (s, ls) (s', ls') \<and> finished s' ls' \<and> I s' ls'"
proof -
  obtain s' ls' where run: "pool_steps T E (s, ls) (s', ls')" and "stuck T E (s', ls')"
    using run_ends [of "(s, ls)"] by auto
  then show ?thesis using steps_keep [OF run assms] progress by blast
qed

end

end
