(* ===== verification/PresencePool.thy ===== *)
theory PresencePool
  imports Presence Pool
begin

text \<open>
  The goroutines of \<open>sweepTCP\<close> (one per port, the first answer cancels the others) and of
  \<open>ProbeBatch\<close> (a bounded pool reading indices from a channel), and what presence promises:
  a sweep never loses an answer, a batch probes each target once and in place, and the status of
  a probe follows from its evidence.
\<close>

section \<open>The sweep\<close>

text \<open>
  One goroutine per port: it gives up when the context is done, or probes, cancels the context on
  an answer, and delivers its result to the buffered channel; when the context is done it may
  drop the result unless it is an answer.
\<close>

record sweep_state =
  sw_cancelled :: bool
  sw_chan :: "tcp_result list"

datatype sweep_worker =
    SwStart int
  | SwProbe int
  | SwGot tcp_result
  | SwSend tcp_result
  | SwSent tcp_result
  | SwDropped tcp_result
  | SwSkipped

inductive sweep_step :: "nat \<Rightarrow> sweep_state \<Rightarrow> sweep_worker \<Rightarrow> sweep_state \<Rightarrow> sweep_worker \<Rightarrow> bool"
  for cap where
  give_up: "sw_cancelled s \<Longrightarrow> sweep_step cap s (SwStart p) s SwSkipped"
| go: "\<not> sw_cancelled s \<Longrightarrow> sweep_step cap s (SwStart p) s (SwProbe p)"
| probed: "sweep_step cap s (SwProbe p) s (SwGot (tcp_outcome err))"
| answered: "tr_online r \<Longrightarrow> sweep_step cap s (SwGot r) (s\<lparr>sw_cancelled := True\<rparr>) (SwSend r)"
| unanswered: "\<not> tr_online r \<Longrightarrow> sweep_step cap s (SwGot r) s (SwSend r)"
| send: "length (sw_chan s) < cap \<Longrightarrow> sweep_step cap s (SwSend r) (s\<lparr>sw_chan := sw_chan s @ [r]\<rparr>) (SwSent r)"
| drop: "sw_cancelled s \<Longrightarrow> \<not> tr_online r \<or> length (sw_chan s) \<ge> cap \<Longrightarrow> sweep_step cap s (SwSend r) s (SwDropped r)"

inductive_cases sweep_stepE: "sweep_step cap s l s' l'"

text \<open>The caller's context may be cancelled, or its timeout pass, at any time.\<close>

definition sweep_cancel :: "sweep_state \<Rightarrow> sweep_state \<Rightarrow> bool" where
  "sweep_cancel s s' \<longleftrightarrow> \<not> sw_cancelled s \<and> s' = s\<lparr>sw_cancelled := True\<rparr>"

definition sweep_init :: "int list \<Rightarrow> sweep_state \<times> sweep_worker list" where
  "sweep_init ports = (\<lparr>sw_cancelled = False, sw_chan = []\<rparr>, map SwStart ports)"

fun sweep_ended :: "sweep_worker \<Rightarrow> bool" where
  "sweep_ended (SwSent r) = True"
| "sweep_ended (SwDropped r) = True"
| "sweep_ended SwSkipped = True"
| "sweep_ended _ = False"

fun sweep_sent :: "sweep_worker \<Rightarrow> bool" where
  "sweep_sent (SwSent r) = True"
| "sweep_sent _ = False"

fun sweep_found :: "sweep_worker \<Rightarrow> tcp_result list" where
  "sweep_found (SwGot r) = [r]"
| "sweep_found (SwSend r) = [r]"
| "sweep_found (SwSent r) = [r]"
| "sweep_found (SwDropped r) = [r]"
| "sweep_found _ = []"

definition sweep_inv :: "nat \<Rightarrow> sweep_state \<Rightarrow> sweep_worker list \<Rightarrow> bool" where
  "sweep_inv cap s ls \<longleftrightarrow> length ls = cap \<and> length (sw_chan s) = length (filter sweep_sent ls) \<and>
     set (sw_chan s) = {r. SwSent r \<in> set ls} \<and> (\<forall>r. SwDropped r \<in> set ls \<longrightarrow> \<not> tr_online r \<and> sw_cancelled s) \<and>
     (SwSkipped \<in> set ls \<longrightarrow> sw_cancelled s)"

fun sweep_rank :: "sweep_worker \<Rightarrow> nat" where
  "sweep_rank (SwStart p) = 4"
| "sweep_rank (SwProbe p) = 3"
| "sweep_rank (SwGot r) = 2"
| "sweep_rank (SwSend r) = 1"
| "sweep_rank _ = 0"

definition sweep_fuse :: "sweep_state \<Rightarrow> nat" where
  "sweep_fuse s = (if sw_cancelled s then 0 else 1)"

lemma sent_bound: "l \<in> set ls \<Longrightarrow> \<not> sweep_sent l \<Longrightarrow> length (filter sweep_sent ls) < length ls"
  by (metis length_filter_less)

interpretation sweep: pool_weight "sweep_step cap" sweep_cancel sweep_fuse sweep_rank
  by unfold_locales (auto simp: sweep_fuse_def sweep_cancel_def elim!: sweep_stepE)

lemma sweep_inv_step:
  assumes "sweep_inv cap s (xs @ l # ys)" and "sweep_step cap s l s' l'"
  shows "sweep_inv cap s' (xs @ l' # ys)"
  using assms(2,1)
proof (cases rule: sweep_step.cases)
  case (drop r)
  have "length (sw_chan s) < cap"
    using assms(1) drop sent_bound [of l "xs @ l # ys"] by (auto simp: sweep_inv_def)
  then show ?thesis using assms(1) drop by (auto simp: sweep_inv_def)
qed (auto simp: sweep_inv_def)

interpretation sweep: worker_pool "sweep_step cap" sweep_cancel "sweep_inv cap" sweep_fuse sweep_rank
  "\<lambda>s ls. list_all sweep_ended ls"
proof unfold_locales
  fix s s' xs l l' ys assume "sweep_inv cap s (xs @ l # ys)" "sweep_step cap s l s' l'"
  then show "sweep_inv cap s' (xs @ l' # ys)" by (rule sweep_inv_step)
next
  fix s ls s' assume "sweep_inv cap s ls" "sweep_cancel s s'"
  then show "sweep_inv cap s' ls" by (auto simp: sweep_inv_def sweep_cancel_def)
next
  fix s ls assume inv: "sweep_inv cap s ls" and st: "stuck (sweep_step cap) sweep_cancel (s, ls)"
  have "sweep_ended l" if l: "l \<in> set ls" for l
  proof (cases l)
    case (SwStart p)
    then show ?thesis using stuck_worker [OF st l] by (blast intro: give_up go)
  next
    case (SwProbe p)
    then show ?thesis using stuck_worker [OF st l] by (blast intro: probed)
  next
    case (SwGot r)
    then show ?thesis using stuck_worker [OF st l] by (blast intro: answered unanswered)
  next
    case (SwSend r)
    then have "length (sw_chan s) < cap" using inv sent_bound [OF l] by (simp add: sweep_inv_def)
    then show ?thesis using SwSend stuck_worker [OF st l] by (blast intro: send)
  qed simp_all
  then show "list_all sweep_ended ls" by (simp add: list_all_iff)
qed

lemma sweep_inv_init: "sweep_inv (length ports) (fst (sweep_init ports)) (snd (sweep_init ports))"
  by (auto simp: sweep_inv_def sweep_init_def)

lemma tcp_outcome_exclusive: "\<not> (tr_online (tcp_outcome err) \<and> tr_unreachable (tcp_outcome err))"
  by (simp add: tcp_outcome_def)

lemma ended_found: "sweep_ended l \<Longrightarrow> r \<in> set (sweep_found l) \<Longrightarrow> l = SwSent r \<or> l = SwDropped r"
  by (cases l) auto

lemma sweep_outcome_hit: "fst (sweep_outcome rs) \<longleftrightarrow> (\<exists>r \<in> set rs. tr_online r)"
  by (simp add: sweep_outcome_def Let_def list_ex_iff)

lemma filter_length_all: "length (filter P xs) = length xs \<longleftrightarrow> list_all P xs"
  by (metis filter_True length_filter_less less_irrefl list_all_iff)

lemma sweep_hit:
  assumes inv: "sweep_inv cap s ls" and ended: "list_all sweep_ended ls"
  shows "fst (sweep_outcome (sw_chan s)) \<longleftrightarrow> (\<exists>l \<in> set ls. \<exists>r \<in> set (sweep_found l). tr_online r)"
proof
  assume "fst (sweep_outcome (sw_chan s))"
  then obtain r where "r \<in> set (sw_chan s)" and on: "tr_online r" unfolding sweep_outcome_hit by blast
  then have "SwSent r \<in> set ls" using inv by (simp add: sweep_inv_def)
  with on show "\<exists>l \<in> set ls. \<exists>r \<in> set (sweep_found l). tr_online r" by (intro bexI [of _ "SwSent r"]) simp_all
next
  assume "\<exists>l \<in> set ls. \<exists>r \<in> set (sweep_found l). tr_online r"
  then obtain l r where l: "l \<in> set ls" and r: "r \<in> set (sweep_found l)" and on: "tr_online r" by blast
  from l ended have "sweep_ended l" by (simp add: list_all_iff)
  from ended_found [OF this r] l have "SwSent r \<in> set ls \<or> SwDropped r \<in> set ls" by auto
  then have "r \<in> set (sw_chan s)" using inv on by (auto simp: sweep_inv_def)
  with on show "fst (sweep_outcome (sw_chan s))" unfolding sweep_outcome_hit by blast
qed

lemma sweep_sent_iff: "sweep_sent l \<longleftrightarrow> (\<exists>r. l = SwSent r)"
  by (cases l) auto

lemma sweep_ended_iff: "sweep_ended l \<longleftrightarrow> sweep_sent l \<or> (\<exists>r. l = SwDropped r) \<or> l = SwSkipped"
  by (cases l) auto

lemma sweep_all_sent:
  assumes "sweep_inv cap s ls" and "list_all sweep_ended ls" and "\<not> sw_cancelled s"
  shows "list_all sweep_sent ls"
  using assms unfolding sweep_inv_def list_all_iff sweep_ended_iff by metis

definition all_unreachable :: "sweep_worker list \<Rightarrow> bool" where
  "all_unreachable ls \<longleftrightarrow> ls \<noteq> [] \<and> (\<forall>l \<in> set ls. \<forall>r \<in> set (sweep_found l). tr_unreachable r \<and> \<not> tr_online r)"

lemma sweep_unreachable:
  assumes inv: "sweep_inv cap s ls" and all: "list_all sweep_sent ls"
  shows "fst (snd (sweep_outcome (sw_chan s))) \<longleftrightarrow> all_unreachable ls"
proof -
  have "length (sw_chan s) = length ls"
    using inv all filter_length_all unfolding sweep_inv_def by metis
  then have ne: "sw_chan s \<noteq> [] \<longleftrightarrow> ls \<noteq> []" by auto
  have each: "(\<forall>r \<in> set (sw_chan s). P r) \<longleftrightarrow> (\<forall>l \<in> set ls. \<forall>r \<in> set (sweep_found l). P r)" for P
  proof -
    have sent: "\<exists>r. l = SwSent r" if "l \<in> set ls" for l
      using that all by (simp add: list_all_iff sweep_sent_iff)
    have "set (sw_chan s) = {r. SwSent r \<in> set ls}" using inv by (simp add: sweep_inv_def)
    then show ?thesis using sent by force
  qed
  have "fst (snd (sweep_outcome (sw_chan s))) \<longleftrightarrow>
      sw_chan s \<noteq> [] \<and> (\<forall>r \<in> set (sw_chan s). tr_unreachable r \<and> \<not> tr_online r)"
    using filter_length_all [of tr_unreachable "sw_chan s"]
    by (auto simp: sweep_outcome_def Let_def list_ex_iff list_all_iff)
  then show ?thesis unfolding all_unreachable_def ne each .
qed

lemma sweep_reachable:
  assumes "(pool_step (sweep_step (length ports)) sweep_cancel ^^ n) (sweep_init ports) (s, ls)"
  shows "sweep_inv (length ports) s ls" and "n \<le> 4 * length ports + 1"
proof -
  have "pool_steps (sweep_step (length ports)) sweep_cancel (sweep_init ports) (s, ls)"
    using assms by (rule relpowp_imp_rtranclp)
  then show "sweep_inv (length ports) s ls"
    using sweep.steps_keep [of "length ports" "fst (sweep_init ports)" "snd (sweep_init ports)"] sweep_inv_init
    by simp
  have "n + sweep.weight (s, ls) \<le> sweep.weight (sweep_init ports)"
    by (rule sweep.run_bounded [OF assms])
  then show "n \<le> 4 * length ports + 1"
    by (simp add: sweep.weight_def sweep_init_def sweep_fuse_def o_def sum_list_triv)
qed


lemma pool_step_single: "T s l s' l' \<Longrightarrow> pool_step T E (s, [l]) (s', [l'])"
  using pool_step.worker [of 0 "[l]" T s s' l' E] by simp


section \<open>A batch\<close>

text \<open>
  Workers read indices from an unbuffered channel into which the caller writes them in order, and
  store each result at its index; the caller closes the channel and waits for the workers.
\<close>

record batch_state =
  bs_next :: nat
  bs_results :: "presence list"

datatype batch_worker = BIdle | BBusy nat | BDone

inductive batch_step :: "(probe_target \<Rightarrow> presence \<Rightarrow> bool) \<Rightarrow> probe_target list \<Rightarrow> batch_state \<Rightarrow> batch_worker \<Rightarrow> batch_state \<Rightarrow> batch_worker \<Rightarrow> bool"
  for P targets where
  take_job: "bs_next s < length targets \<Longrightarrow>
     batch_step P targets s BIdle (s\<lparr>bs_next := bs_next s + 1\<rparr>) (BBusy (bs_next s))"
| store_result: "P (targets ! i) r \<Longrightarrow>
     batch_step P targets s (BBusy i) (s\<lparr>bs_results := (bs_results s)[i := r]\<rparr>) BIdle"
| no_more_jobs: "bs_next s \<ge> length targets \<Longrightarrow> batch_step P targets s BIdle s BDone"

inductive_cases batch_stepE: "batch_step P targets s l s' l'"

definition batch_quiet :: "batch_state \<Rightarrow> batch_state \<Rightarrow> bool" where
  "batch_quiet s s' \<longleftrightarrow> False"

definition no_presence :: presence where
  "no_presence = \<lparr>pr_device_id = [], pr_ip = [], pr_status = StatusUnknown, pr_method = MethodNone,
     pr_latency = 0, pr_checked = [], pr_expires = [], pr_cached = False, pr_message = []\<rparr>"

definition batch_workers :: "detector \<Rightarrow> nat \<Rightarrow> nat" where
  "batch_workers d n =
     (let c = (if dt_concurrency d \<le> 0 then 16 else dt_concurrency d) in
      nat (if c > int n then int n else c))"

definition batch_init :: "detector \<Rightarrow> probe_target list \<Rightarrow> batch_state \<times> batch_worker list" where
  "batch_init d targets =
     (\<lparr>bs_next = 0, bs_results = replicate (length targets) no_presence\<rparr>,
      replicate (batch_workers d (length targets)) BIdle)"

text \<open>Any probe of the target, in whatever surroundings.\<close>

definition probed_as :: "detector \<Rightarrow> int \<Rightarrow> probe_target \<Rightarrow> presence \<Rightarrow> bool" where
  "probed_as d timeout t r \<longleftrightarrow> (\<exists>env. r = Probe d env t (if timeout \<le> 0 then 2000 * millisecond else timeout))"

fun busy_index :: "batch_worker \<Rightarrow> nat list" where
  "busy_index (BBusy i) = [i]"
| "busy_index _ = []"

definition busy :: "batch_worker list \<Rightarrow> nat list" where
  "busy ls = concat (map busy_index ls)"

definition batch_inv :: "(probe_target \<Rightarrow> presence \<Rightarrow> bool) \<Rightarrow> probe_target list \<Rightarrow> nat \<Rightarrow> batch_state \<Rightarrow> batch_worker list \<Rightarrow> bool" where
  "batch_inv P targets k s ls \<longleftrightarrow> length ls = k \<and> length (bs_results s) = length targets \<and>
     bs_next s \<le> length targets \<and> distinct (busy ls) \<and> (\<forall>i \<in> set (busy ls). i < bs_next s) \<and>
     (\<forall>i < bs_next s. i \<notin> set (busy ls) \<longrightarrow> P (targets ! i) (bs_results s ! i)) \<and>
     (BDone \<in> set ls \<longrightarrow> bs_next s = length targets)"

fun batch_rank :: "batch_worker \<Rightarrow> nat" where
  "batch_rank BDone = 0"
| "batch_rank BIdle = 1"
| "batch_rank (BBusy i) = 2"

definition batch_left :: "probe_target list \<Rightarrow> batch_state \<Rightarrow> nat" where
  "batch_left targets s = 2 * (length targets - bs_next s)"

lemma busy_simps [simp]:
  "busy [] = []" "busy (l # ls) = busy_index l @ busy ls" "busy (xs @ ys) = busy xs @ busy ys"
  by (simp_all add: busy_def)

lemma batch_inv_step:
  assumes "batch_inv P targets k s (xs @ l # ys)" and "batch_step P targets s l s' l'"
  shows "batch_inv P targets k s' (xs @ l' # ys)"
  using assms(2,1)
proof (cases rule: batch_step.cases)
  case take_job
  then show ?thesis using assms(1) by (auto simp: batch_inv_def less_Suc_eq)
next
  case (store_result i r)
  then show ?thesis using assms(1) by (auto simp: batch_inv_def nth_list_update)
next
  case no_more_jobs
  then show ?thesis using assms(1) by (auto simp: batch_inv_def)
qed

lemma probed_as_total: "\<exists>r. probed_as d timeout t r"
  unfolding probed_as_def by blast

interpretation batch: worker_pool "batch_step (probed_as d timeout) targets" batch_quiet
  "batch_inv (probed_as d timeout) targets k" "batch_left targets" batch_rank "\<lambda>s ls. list_all (\<lambda>l. l = BDone) ls"
proof unfold_locales
  fix s s' xs l l' ys
  show "batch_inv (probed_as d timeout) targets k s (xs @ l # ys) \<Longrightarrow>
      batch_step (probed_as d timeout) targets s l s' l' \<Longrightarrow> batch_inv (probed_as d timeout) targets k s' (xs @ l' # ys)"
    by (rule batch_inv_step)
next
  fix s l s' l' assume "batch_step (probed_as d timeout) targets s l s' l'"
  then show "batch_left targets s' + batch_rank l' < batch_left targets s + batch_rank l"
    by (auto simp: batch_left_def elim!: batch_stepE)
next
  fix s ls assume st: "stuck (batch_step (probed_as d timeout) targets) batch_quiet (s, ls)"
  have "l = BDone" if l: "l \<in> set ls" for l
  proof (cases l)
    case BIdle
    then show ?thesis using stuck_worker [OF st l]
      by (cases "bs_next s < length targets") (blast intro: take_job no_more_jobs not_less [THEN iffD1])+
  next
    case (BBusy i)
    then show ?thesis using stuck_worker [OF st l] probed_as_total [of d timeout "targets ! i"]
      by (blast intro: store_result)
  qed
  then show "list_all (\<lambda>l. l = BDone) ls" by (simp add: list_all_iff)
qed (simp_all add: batch_quiet_def)

lemma batch_workers_bounds:
  "batch_workers d n \<le> n" "0 < n \<Longrightarrow> 0 < batch_workers d n"
  "0 < dt_concurrency d \<Longrightarrow> int (batch_workers d n) \<le> dt_concurrency d"
  "dt_concurrency d \<le> 0 \<Longrightarrow> batch_workers d n \<le> 16"
  by (auto simp: batch_workers_def Let_def)

lemma batch_inv_init:
  "batch_inv P targets (batch_workers d (length targets)) (fst (batch_init d targets)) (snd (batch_init d targets))"
proof -
  have "busy (replicate n BIdle) = []" for n by (induction n) simp_all
  then show ?thesis by (auto simp: batch_inv_def batch_init_def)
qed

lemma batch_done:
  assumes inv: "batch_inv P targets (batch_workers d (length targets)) s ls" and fin: "list_all (\<lambda>l. l = BDone) ls"
  shows "list_all2 P targets (bs_results s)"
proof (cases "targets = []")
  case True
  then show ?thesis using inv by (simp add: batch_inv_def)
next
  case False
  then have "ls \<noteq> []" using inv batch_workers_bounds(2) [of "length targets" d] by (auto simp: batch_inv_def)
  then have "BDone \<in> set ls" using fin by (cases ls) auto
  moreover have "busy ls = []" using fin by (induction ls) auto
  ultimately show ?thesis using inv by (auto simp: batch_inv_def list_all2_conv_all_nth)
qed

lemma count_fold:
  "su_total (fold count_result rs s) = su_total s"
  "su_online (fold count_result rs s) = su_online s + length (filter (\<lambda>r. pr_status r = StatusOnline) rs)"
  "su_offline (fold count_result rs s) = su_offline s + length (filter (\<lambda>r. pr_status r = StatusOffline) rs)"
  "su_unknown (fold count_result rs s) = su_unknown s + length (filter (\<lambda>r. pr_status r = StatusUnknown) rs)"
  by (induction rs arbitrary: s) (auto simp: count_result_def split: presence_status.split)

lemma status_counts:
  "length (filter (\<lambda>r. pr_status r = StatusOnline) rs) + length (filter (\<lambda>r. pr_status r = StatusOffline) rs) +
    length (filter (\<lambda>r. pr_status r = StatusUnknown) rs) = length rs"
proof (induction rs)
  case (Cons r rs)
  then show ?case by (cases "pr_status r") simp_all
qed simp

lemma Summarize_counts:
  "su_total (Summarize rs) = length rs \<and>
   su_online (Summarize rs) + su_offline (Summarize rs) + su_unknown (Summarize rs) = length rs \<and>
   su_online (Summarize rs) = length (filter (\<lambda>r. pr_status r = StatusOnline) rs)"
  unfolding Summarize_def using status_counts [of rs] by (simp add: count_fold)

text \<open>
  A batch probes every target exactly once and stores its result at the target's place, in
  whatever order its workers run; it returns within two steps per target and one per worker; it
  never has more workers than targets, nor more than the configured concurrency; and its summary
  counts every result once.
\<close>

theorem ProbeBatch_in_place:
  assumes "(pool_step (batch_step (probed_as d timeout) targets) batch_quiet ^^ n) (batch_init d targets) (s, ls)"
  shows "n \<le> 2 * length targets + length ls \<and> length ls \<le> length targets \<and>
    int (length ls) \<le> (if dt_concurrency d \<le> 0 then 16 else dt_concurrency d) \<and>
    (stuck (batch_step (probed_as d timeout) targets) batch_quiet (s, ls) \<longrightarrow>
      list_all (\<lambda>l. l = BDone) ls \<and> list_all2 (probed_as d timeout) targets (bs_results s) \<and>
      su_total (Summarize (bs_results s)) = length targets \<and>
      su_online (Summarize (bs_results s)) + su_offline (Summarize (bs_results s)) +
        su_unknown (Summarize (bs_results s)) = length targets)"
proof -
  let ?k = "batch_workers d (length targets)" and ?T = "batch_step (probed_as d timeout) targets"
  have "pool_steps ?T batch_quiet (batch_init d targets) (s, ls)" using assms by (rule relpowp_imp_rtranclp)
  then have inv: "batch_inv (probed_as d timeout) targets ?k s ls"
    using batch.steps_keep [of d timeout targets "fst (batch_init d targets)" "snd (batch_init d targets)"]
      batch_inv_init by simp
  have len: "length ls = ?k" using inv by (simp add: batch_inv_def)
  have "n + batch.weight targets (s, ls) \<le> batch.weight targets (batch_init d targets)"
    by (rule batch.run_bounded [OF assms])
  then have "n \<le> 2 * length targets + ?k"
    by (simp add: batch.weight_def batch_init_def batch_left_def sum_list_replicate)
  moreover have "int ?k \<le> (if dt_concurrency d \<le> 0 then 16 else dt_concurrency d)"
    using batch_workers_bounds(3,4) [of d "length targets"] by auto
  ultimately show ?thesis
    using batch_workers_bounds(1) [of d "length targets"] len batch.progress [OF inv] batch_done [OF inv]
      Summarize_counts [of "bs_results s"] inv by (auto simp: batch_inv_def)
qed

definition one_target :: probe_target where
  "one_target = \<lparr>pt_device_id = ''d1'', pt_ip = ''192.168.1.20'', pt_verify_port = 22\<rparr>"

lemma one_worker: "batch_init (NewDetector []) [one_target] = (\<lparr>bs_next = 0, bs_results = [no_presence]\<rparr>, [BIdle])"
  by (simp add: batch_init_def batch_workers_def NewDetector_def Let_def)

theorem ProbeBatch_in_place_witness:
  "\<exists>r. probed_as (NewDetector []) 0 one_target r \<and>
     (pool_step (batch_step (probed_as (NewDetector []) 0) [one_target]) batch_quiet ^^ 3)
       (batch_init (NewDetector []) [one_target]) (\<lparr>bs_next = 1, bs_results = [r]\<rparr>, [BDone]) \<and>
     su_total (Summarize [r]) = 1"
proof -
  let ?T = "batch_step (probed_as (NewDetector []) 0) [one_target]"
  obtain r where r: "probed_as (NewDetector []) 0 one_target r" using probed_as_total by blast
  let ?s = "\<lparr>bs_next = 1, bs_results = [no_presence]\<rparr>" and ?e = "\<lparr>bs_next = 1, bs_results = [r]\<rparr>"
  have "pool_step ?T batch_quiet (batch_init (NewDetector []) [one_target]) (?s, [BBusy 0])"
    using take_job [of "\<lparr>bs_next = 0, bs_results = [no_presence]\<rparr>" "[one_target]" "probed_as (NewDetector []) 0"]
    by (simp add: one_worker pool_step_single)
  moreover have "pool_step ?T batch_quiet (?s, [BBusy 0]) (?e, [BIdle])"
    using store_result [of "probed_as (NewDetector []) 0" "[one_target]" 0 r ?s] r by (simp add: pool_step_single)
  moreover have "pool_step ?T batch_quiet (?e, [BIdle]) (?e, [BDone])"
    by (intro pool_step_single no_more_jobs) simp
  ultimately have run: "(pool_step ?T batch_quiet ^^ 3) (batch_init (NewDetector []) [one_target]) (?e, [BDone])"
    by (auto simp: numeral_eq_Suc)
  have "stuck ?T batch_quiet (?e, [BDone])"
    by (auto simp: stuck_def batch_quiet_def elim!: pool_stepE batch_stepE)
  with ProbeBatch_in_place [OF run] have "su_total (Summarize [r]) = 1" by simp
  with r run show ?thesis by blast
qed

section \<open>The status of a probe\<close>

text \<open>The TCP results a probe saw: the configured port's, and what the sweep delivered.\<close>

definition tcp_seen :: "detector \<Rightarrow> probe_env \<Rightarrow> probe_target \<Rightarrow> string \<Rightarrow> int \<Rightarrow> tcp_result list" where
  "tcp_seen d env t host timeout =
     (case verify_probe d env t host timeout of Some r \<Rightarrow> [r] | None \<Rightarrow> []) @
     (if dt_ports d \<noteq> [] \<and> \<not> pv_done env 0 then pv_delivered env host (dt_ports d) (sweep_timeout timeout) else [])"

definition ping_answers :: "detector \<Rightarrow> probe_env \<Rightarrow> string \<Rightarrow> bool" where
  "ping_answers d env host \<longleftrightarrow> \<not> pv_done env 1 \<and> snd (ping d env host (ping_timeout (pv_remaining env))) = None"

text \<open>The status the evidence supports, without stages and flags.\<close>

definition supported_status :: "detector \<Rightarrow> probe_env \<Rightarrow> probe_target \<Rightarrow> int \<Rightarrow> presence_status" where
  "supported_status d env t timeout =
     (case validateTargetIP (pt_ip t) (dt_loopback d) of
        Inl _ \<Rightarrow> StatusUnknown
      | Inr ip \<Rightarrow>
          let seen = tcp_seen d env t (ip_string ip) (if timeout \<le> 0 then 2000 * millisecond else timeout) in
          if (\<exists>r \<in> set seen. tr_online r) \<or> ping_answers d env (ip_string ip) then StatusOnline
          else if (seen \<noteq> [] \<and> (\<forall>r \<in> set seen. tr_unreachable r)) \<or> pv_caller_done env then StatusUnknown
          else StatusOffline)"

lemma ping_probe_answers: "ping_probe d env host \<noteq> None \<longleftrightarrow> ping_answers d env host"
  by (auto simp: ping_probe_def ping_answers_def split: prod.splits option.splits)

lemma probe_tail_status:
  "pr_status (probe_tail d env t host imm) =
    (if ping_answers d env host then StatusOnline
     else if imm \<or> pv_caller_done env then StatusUnknown else StatusOffline)"
  using ping_probe_answers [of d env host]
  by (auto simp: probe_tail_def probe_result_def split: option.splits)

lemma immediate_unreachable_iff:
  assumes "\<not> (\<exists>r \<in> set delivered. tr_online r)"
  shows "immediate_unreachable verify (sweep_outcome delivered) \<longleftrightarrow>
    (case verify of Some r \<Rightarrow> [r] | None \<Rightarrow> []) @ delivered \<noteq> [] \<and>
    (\<forall>r \<in> set ((case verify of Some r \<Rightarrow> [r] | None \<Rightarrow> []) @ delivered). tr_unreachable r)"
  using assms filter_length_all [of tr_unreachable delivered]
  by (cases verify) (auto simp: immediate_unreachable_def sweep_outcome_def Let_def list_ex_iff list_all_iff)

lemma sweep_probe_outcome:
  "sweep_probe d env host timeout =
    sweep_outcome (if dt_ports d \<noteq> [] \<and> \<not> pv_done env 0 then pv_delivered env host (dt_ports d) (sweep_timeout timeout) else [])"
  by (simp add: sweep_probe_def sweepTCP_def sweep_outcome_def)

text \<open>The status of the valid branch, stage by stage.\<close>

definition staged_status :: "detector \<Rightarrow> probe_env \<Rightarrow> string \<Rightarrow> tcp_result option \<Rightarrow> tcp_result list \<Rightarrow> presence_status" where
  "staged_status d env host verify delivered =
     (if (case verify of Some r \<Rightarrow> tr_online r | None \<Rightarrow> False) then StatusOnline
      else if \<exists>r \<in> set delivered. tr_online r then StatusOnline
      else if ping_answers d env host then StatusOnline
      else if immediate_unreachable verify (sweep_outcome delivered) \<or> pv_caller_done env then StatusUnknown
      else StatusOffline)"

lemma status_of_result [simp]: "pr_status (probe_result env t st m l msg) = st"
  by (simp add: probe_result_def)

lemma Probe_staged:
  assumes "validateTargetIP (pt_ip t) (dt_loopback d) = Inr ip"
    and "time = (if timeout \<le> 0 then 2000 * millisecond else timeout)"
  shows "pr_status (Probe d env t timeout) =
    staged_status d env (ip_string ip) (verify_probe d env t (ip_string ip) time)
      (if dt_ports d \<noteq> [] \<and> \<not> pv_done env 0 then pv_delivered env (ip_string ip) (dt_ports d) (sweep_timeout time) else [])"
  unfolding Probe_def assms(1) assms(2) [symmetric] Let_def sum.case sweep_probe_outcome sweep_outcome_hit
    staged_status_def if_distrib [of pr_status] status_of_result probe_tail_status ..

lemma staged_supported:
  "staged_status d env host verify delivered =
    (let seen = (case verify of Some r \<Rightarrow> [r] | None \<Rightarrow> []) @ delivered in
     if (\<exists>r \<in> set seen. tr_online r) \<or> ping_answers d env host then StatusOnline
     else if (seen \<noteq> [] \<and> (\<forall>r \<in> set seen. tr_unreachable r)) \<or> pv_caller_done env
     then StatusUnknown else StatusOffline)"
proof (cases "\<exists>r \<in> set delivered. tr_online r")
  case True
  then show ?thesis by (cases verify) (simp_all add: staged_status_def Let_def)
next
  case False
  show ?thesis
  proof (cases verify)
    case None
    have "immediate_unreachable None (sweep_outcome delivered) \<longleftrightarrow>
        delivered \<noteq> [] \<and> (\<forall>r \<in> set delivered. tr_unreachable r)"
      using immediate_unreachable_iff [OF False, of None] by (simp only: option.case append_Nil)
    then show ?thesis using False None by (simp only: staged_status_def Let_def option.case append_Nil if_False simp_thms)
  next
    case (Some x)
    have "immediate_unreachable (Some x) (sweep_outcome delivered) \<longleftrightarrow>
        x # delivered \<noteq> [] \<and> (\<forall>r \<in> set (x # delivered). tr_unreachable r)"
      using immediate_unreachable_iff [OF False, of "Some x"] by (simp only: option.case append_Cons append_Nil)
    then show ?thesis using False Some
      by (cases "tr_online x"; cases "ping_answers d env host") (simp_all add: staged_status_def)
  qed
qed

text \<open>
  C34. The status of a probe is the one its evidence supports: the staged code, with its early
  returns and its two flags, computes the reference definition. A device is online exactly when
  a TCP port or ping answered; it is offline only for a valid address, when nothing answered,
  the caller still waits and the failures are not all \<open>unreachable\<close> errors.
\<close>

theorem Probe_status: "pr_status (Probe d env t timeout) = supported_status d env t timeout"
proof (cases "validateTargetIP (pt_ip t) (dt_loopback d)")
  case (Inl e)
  show ?thesis unfolding Probe_def supported_status_def Inl Let_def sum.case status_of_result ..
next
  case (Inr ip)
  show ?thesis
    unfolding Probe_staged [OF Inr refl] supported_status_def Inr Let_def sum.case staged_supported tcp_seen_def ..
qed

end
