(* ===== verification/PresenceCache.thy ===== *)
theory PresenceCache
  imports PresencePool
begin

text \<open>
  \<open>internal/presence/cache.go\<close>: the short-lived cache of probe results, and \<open>Resolve\<close>, whose
  concurrent callers for one key share a probe. The clock is an argument of the sequential
  operations and part of the shared state of the callers; \<open>fmt\<close> prints a time.
\<close>

section \<open>The cache\<close>

record cache =
  ca_ttl :: int
  ca_entries :: "string \<rightharpoonup> presence \<times> int"

definition NewCache :: "int \<Rightarrow> cache" where
  "NewCache ttl = \<lparr>ca_ttl = if ttl \<le> 0 then 30000000000 else ttl, ca_entries = Map.empty\<rparr>"

definition TTL :: "cache option \<Rightarrow> int" where
  "TTL c = (case c of None \<Rightarrow> 0 | Some c \<Rightarrow> ca_ttl c)"

definition Get :: "(int \<Rightarrow> string) \<Rightarrow> int \<Rightarrow> string \<Rightarrow> bool \<Rightarrow> cache \<Rightarrow> presence option \<times> cache" where
  "Get fmt now key force c =
     (if key = [] \<or> force then (None, c)
      else case ca_entries c key of
        None \<Rightarrow> (None, c)
      | Some (r, expires) \<Rightarrow>
          if \<not> now < expires then (None, c\<lparr>ca_entries := (ca_entries c)(key := None)\<rparr>)
          else (Some (r\<lparr>pr_cached := True, pr_expires := fmt expires\<rparr>), c))"

definition Set :: "(int \<Rightarrow> string) \<Rightarrow> int \<Rightarrow> string \<Rightarrow> presence \<Rightarrow> cache \<Rightarrow> presence \<times> cache" where
  "Set fmt now key r c =
     (if key = [] then (r, c)
      else
        let expires = now + ca_ttl c;
            r' = r\<lparr>pr_cached := False, pr_expires := fmt expires\<rparr> in
        (r', c\<lparr>ca_entries := (ca_entries c)(key \<mapsto> (r', expires))\<rparr>))"

definition Invalidate :: "string \<Rightarrow> cache \<Rightarrow> cache" where
  "Invalidate key c = (if key = [] then c else c\<lparr>ca_entries := (ca_entries c)(key := None)\<rparr>)"

text \<open>
  A stored result is returned, marked as cached and with its expiry time, exactly until its
  time to live has passed, whatever is stored or invalidated under other keys in between;
  forcing and invalidating bypass it.
\<close>

theorem Get_after_Set:
  assumes "key \<noteq> []" and "other \<noteq> key"
  shows "fst (Get fmt later key force (Invalidate other (snd (Set fmt now' other r' (snd (Set fmt now key r c)))))) =
      (if \<not> force \<and> later < now + ca_ttl c
       then Some (r\<lparr>pr_cached := True, pr_expires := fmt (now + ca_ttl c)\<rparr>) else None) \<and>
    fst (Get fmt later key force (Invalidate key (snd (Set fmt now key r c)))) = None"
  using assms by (auto simp: Get_def Set_def Invalidate_def Let_def)

theorem Get_after_Set_witness:
  "fst (Get itoa 40 ''k'' False (Invalidate ''j'' (snd (Set itoa 20 ''j'' no_presence
     (snd (Set itoa 10 ''k'' no_presence (NewCache 50))))))) =
     Some (no_presence\<lparr>pr_cached := True, pr_expires := itoa 60\<rparr>)"
  using Get_after_Set [of "''k''" "''j''" itoa 40 False 20 no_presence 10 no_presence "NewCache 50"]
  by (simp add: NewCache_def)

section \<open>Concurrent callers of Resolve\<close>

text \<open>
  A call in flight is an index into the list of calls; it is closed when it has a result. The
  steps are the critical sections of \<open>Resolve\<close> and the places where it blocks.
\<close>

type_synonym outcome = "presence \<times> error option"

record resolve_state =
  rs_cache :: cache
  rs_flight :: "string \<rightharpoonup> nat"
  rs_calls :: "outcome option list"
  rs_now :: int

datatype resolver =
    RvStart string bool
  | RvMissed string
  | RvWait nat
  | RvProbe string nat
  | RvProbed string nat presence
  | RvClose string nat outcome
  | RvDone outcome

inductive resolve_step :: "(int \<Rightarrow> string) \<Rightarrow> resolve_state \<Rightarrow> resolver \<Rightarrow> resolve_state \<Rightarrow> resolver \<Rightarrow> bool"
  for fmt where
  hit: "Get fmt (rs_now s) k f (rs_cache s) = (Some r, c) \<Longrightarrow>
     resolve_step fmt s (RvStart k f) (s\<lparr>rs_cache := c\<rparr>) (RvDone (r, None))"
| miss: "Get fmt (rs_now s) k f (rs_cache s) = (None, c) \<Longrightarrow>
     resolve_step fmt s (RvStart k f) (s\<lparr>rs_cache := c\<rparr>) (RvMissed k)"
| join: "rs_flight s k = Some n \<Longrightarrow> resolve_step fmt s (RvMissed k) s (RvWait n)"
| lead: "rs_flight s k = None \<Longrightarrow>
     resolve_step fmt s (RvMissed k)
       (s\<lparr>rs_calls := rs_calls s @ [None], rs_flight := (rs_flight s)(k \<mapsto> length (rs_calls s))\<rparr>)
       (RvProbe k (length (rs_calls s)))"
| wait_done: "rs_calls s ! n = Some x \<Longrightarrow> resolve_step fmt s (RvWait n) s (RvDone x)"
| wait_cancelled: "e \<in> {ErrCanceled, ErrDeadlineExceeded} \<Longrightarrow>
     resolve_step fmt s (RvWait n) s (RvDone (no_presence, Some e))"
| probed: "resolve_step fmt s (RvProbe k n) s (RvProbed k n r)"
| cancelled: "e \<in> {ErrCanceled, ErrDeadlineExceeded} \<Longrightarrow>
     resolve_step fmt s (RvProbed k n r) s (RvClose k n (r, Some e))"
| store: "Set fmt (rs_now s) k r (rs_cache s) = (r', c) \<Longrightarrow>
     resolve_step fmt s (RvProbed k n r) (s\<lparr>rs_cache := c\<rparr>) (RvClose k n (r', None))"
| close: "resolve_step fmt s (RvClose k n (r, e))
     (s\<lparr>rs_calls := (rs_calls s)[n := Some (r, e)], rs_flight := (rs_flight s)(k := None)\<rparr>)
     (RvDone (if e = None then r else no_presence, e))"

inductive_cases resolve_stepE: "resolve_step fmt s l s' l'"

text \<open>Time passes, and other operations use the cache.\<close>

inductive resolve_outside :: "(int \<Rightarrow> string) \<Rightarrow> resolve_state \<Rightarrow> resolve_state \<Rightarrow> bool" for fmt where
  tick: "0 \<le> d \<Longrightarrow> resolve_outside fmt s (s\<lparr>rs_now := rs_now s + d\<rparr>)"
| put: "resolve_outside fmt s (s\<lparr>rs_cache := snd (Set fmt (rs_now s) k r (rs_cache s))\<rparr>)"
| drop_entry: "resolve_outside fmt s (s\<lparr>rs_cache := Invalidate k (rs_cache s)\<rparr>)"

definition resolve_init :: "cache \<Rightarrow> int \<Rightarrow> (string \<times> bool) list \<Rightarrow> resolve_state \<times> resolver list" where
  "resolve_init c now callers =
     (\<lparr>rs_cache = c, rs_flight = Map.empty, rs_calls = [], rs_now = now\<rparr>, map (\<lambda>(k, f). RvStart k f) callers)"

text \<open>The keys and calls of the callers that lead.\<close>

fun leads :: "resolver \<Rightarrow> (string \<times> nat) list" where
  "leads (RvProbe k n) = [(k, n)]"
| "leads (RvProbed k n r) = [(k, n)]"
| "leads (RvClose k n x) = [(k, n)]"
| "leads _ = []"

definition leaders :: "resolver list \<Rightarrow> (string \<times> nat) list" where
  "leaders ls = concat (map leads ls)"

lemma leaders_simps [simp]:
  "leaders [] = []" "leaders (l # ls) = leads l @ leaders ls" "leaders (xs @ ys) = leaders xs @ leaders ys"
  by (simp_all add: leaders_def)

definition call_open :: "resolve_state \<Rightarrow> nat \<Rightarrow> bool" where
  "call_open s n \<longleftrightarrow> n < length (rs_calls s) \<and> rs_calls s ! n = None"

definition flight_inv :: "resolve_state \<Rightarrow> resolver list \<Rightarrow> bool" where
  "flight_inv s ls \<longleftrightarrow> distinct (map fst (leaders ls)) \<and> distinct (map snd (leaders ls)) \<and>
     (\<forall>k n. rs_flight s k = Some n \<longleftrightarrow> (k, n) \<in> set (leaders ls)) \<and>
     (\<forall>n < length (rs_calls s). rs_calls s ! n = None \<longleftrightarrow> n \<in> snd ` set (leaders ls)) \<and>
     (\<forall>n \<in> snd ` set (leaders ls). n < length (rs_calls s)) \<and>
     (\<forall>n. RvWait n \<in> set ls \<longrightarrow> n < length (rs_calls s))"

lemma flight_inv_init: "flight_inv (fst (resolve_init c now callers)) (snd (resolve_init c now callers))"
proof -
  have "leaders (map (\<lambda>(k, f). RvStart k f) callers) = []" by (induction callers) auto
  then show ?thesis by (auto simp: flight_inv_def resolve_init_def)
qed

lemma flight_lead:
  assumes "flight_inv s (xs @ RvMissed k # ys)" and "rs_flight s k = None"
  shows "flight_inv (s\<lparr>rs_calls := rs_calls s @ [None], rs_flight := (rs_flight s)(k \<mapsto> length (rs_calls s))\<rparr>)
       (xs @ RvProbe k (length (rs_calls s)) # ys)"
proof -
  define R where "R = set (leaders xs) \<union> set (leaders ys)"
  have dist: "distinct (map fst (leaders xs @ leaders ys))" "distinct (map snd (leaders xs @ leaders ys))"
    and fl: "\<And>k n. rs_flight s k = Some n \<longleftrightarrow> (k, n) \<in> R"
    and op: "\<And>n. n < length (rs_calls s) \<Longrightarrow> rs_calls s ! n = None \<longleftrightarrow> n \<in> snd ` R"
    and bd: "\<And>n. n \<in> snd ` R \<Longrightarrow> n < length (rs_calls s)"
    and wt: "\<And>n. RvWait n \<in> set xs \<union> set ys \<Longrightarrow> n < length (rs_calls s)"
    using assms(1) by (auto simp: flight_inv_def R_def)
  have fresh: "k \<notin> fst ` R" using assms(2) fl by force
  have new: "length (rs_calls s) \<notin> snd ` R" using bd by blast
  have fl': "((rs_flight s)(k \<mapsto> length (rs_calls s))) k' = Some n \<longleftrightarrow> (k', n) \<in> insert (k, length (rs_calls s)) R" for k' n
    using fl [of k' n] fresh by force
  have op': "n < Suc (length (rs_calls s)) \<Longrightarrow> 
    ((rs_calls s @ [None]) ! n = None \<longleftrightarrow> n \<in> insert (length (rs_calls s)) (snd ` R))" for n
    using op [of n] new by (auto simp: nth_append less_Suc_eq)
  have lead: "set (leaders (xs @ RvProbe k (length (rs_calls s)) # ys)) = insert (k, length (rs_calls s)) R"
    by (auto simp: R_def)
  show ?thesis unfolding flight_inv_def lead 
    using dist fresh new fl' op' bd wt by (auto simp: R_def less_Suc_eq)
qed

lemma flight_close:
  assumes "flight_inv s (xs @ RvClose k n x # ys)"
  shows "flight_inv (s\<lparr>rs_calls := (rs_calls s)[n := Some x], rs_flight := (rs_flight s)(k := None)\<rparr>)
     (xs @ RvDone y # ys)"
proof -
  define R where "R = set (leaders xs) \<union> set (leaders ys)"
  have dist: "distinct (map fst (leaders xs @ leaders ys))" "distinct (map snd (leaders xs @ leaders ys))"
    and out: "k \<notin> fst ` R" "n \<notin> snd ` R"
    and fl: "\<And>j m. rs_flight s j = Some m \<longleftrightarrow> (j, m) \<in> insert (k, n) R"
    and op: "\<And>m. m < length (rs_calls s) \<Longrightarrow> rs_calls s ! m = None \<longleftrightarrow> m \<in> insert n (snd ` R)"
    and bd: "\<And>m. m \<in> snd ` R \<Longrightarrow> m < length (rs_calls s)"
    and wt: "\<And>m. RvWait m \<in> set xs \<union> set ys \<Longrightarrow> m < length (rs_calls s)"
    using assms by (auto simp: flight_inv_def R_def)
  have fl': "((rs_flight s)(k := None)) j = Some m \<longleftrightarrow> (j, m) \<in> R" for j m
    using fl [of j m] out by force
  have op': "m < length (rs_calls s) \<Longrightarrow> (rs_calls s)[n := Some x] ! m = None \<longleftrightarrow> m \<in> snd ` R" for m
    using op [of m] out by (cases "m = n") auto
  have lead: "set (leaders (xs @ RvDone y # ys)) = R"
    by (auto simp: R_def)
  show ?thesis unfolding flight_inv_def lead
    using dist fl' op' bd wt by auto
qed

lemma flight_keep:
  assumes "flight_inv s (xs @ l # ys)" and "leads l' = leads l" and "\<And>n. l' = RvWait n \<Longrightarrow> n < length (rs_calls s)"
    and "rs_flight s' = rs_flight s" and "rs_calls s' = rs_calls s"
  shows "flight_inv s' (xs @ l' # ys)"
  using assms by (auto simp: flight_inv_def)

lemma flight_member: "flight_inv s ls \<Longrightarrow> rs_flight s k = Some n \<Longrightarrow> n < length (rs_calls s)"
  unfolding flight_inv_def by force

lemma flight_step:
  assumes inv: "flight_inv s (xs @ l # ys)" and "resolve_step fmt s l s' l'"
  shows "flight_inv s' (xs @ l' # ys)"
  using assms(2)
proof (cases rule: resolve_step.cases)
  case lead
  then show ?thesis using flight_lead inv by simp
next
  case (close k n r e)
  then show ?thesis using flight_close inv by simp
next
  case (join k n)
  then show ?thesis using flight_keep [OF inv, of "RvWait n" s] flight_member [OF inv, of k n] by simp
qed (rule flight_keep [OF inv]; simp)+

lemma flight_outside: "flight_inv s ls \<Longrightarrow> resolve_outside fmt s s' \<Longrightarrow> flight_inv s' ls"
  by (erule resolve_outside.cases) (simp_all add: flight_inv_def)

interpretation resolve: pool_invariant "resolve_step fmt" "resolve_outside fmt" flight_inv
  by unfold_locales (rule flight_step, assumption+, rule flight_outside)
lemma leads_filter:
  "length (filter (\<lambda>l. k \<in> fst ` set (leads l)) ls) = length (filter (\<lambda>x. fst x = k) (leaders ls))"
proof (induction ls)
  case (Cons l ls)
  then show ?case by (cases l) auto
qed simp

lemma distinct_filter_one: "distinct xs \<Longrightarrow> length (filter (\<lambda>x. x = k) xs) \<le> 1"
  by (induction xs) (auto simp: filter_empty_conv)

text \<open>
  C32. Concurrent callers share a probe: in every state that any number of callers can reach, in
  any order, with other uses of the cache and the passing of time in between, at most one caller
  probes a key at a time, and every caller that waits, waits for a call that is closed or that
  some caller is still probing or closing: no wakeup is lost.
\<close>

theorem Resolve_single_flight:
  assumes "pool_steps (resolve_step fmt) (resolve_outside fmt) (resolve_init c now callers) (s, ls)"
  shows "length (filter (\<lambda>l. k \<in> fst ` set (leads l)) ls) \<le> 1 \<and>
    (RvWait n \<in> set ls \<longrightarrow> n < length (rs_calls s) \<and>
       (rs_calls s ! n \<noteq> None \<or> (\<exists>l \<in> set ls. n \<in> snd ` set (leads l))))"
proof -
  have inv: "flight_inv s ls"
    using resolve.steps_keep [of fmt "fst (resolve_init c now callers)" "snd (resolve_init c now callers)"]
      assms flight_inv_init by simp
  have "length (filter (\<lambda>l. k \<in> fst ` set (leads l)) ls) = length (filter (\<lambda>x. fst x = k) (leaders ls))"
    by (rule leads_filter)
  also have "\<dots> = length (filter (\<lambda>x. x = k) (map fst (leaders ls)))" by (simp add: filter_map o_def)
  also have "\<dots> \<le> 1" using inv by (intro distinct_filter_one) (simp add: flight_inv_def)
  finally have "length (filter (\<lambda>l. k \<in> fst ` set (leads l)) ls) \<le> 1" .
  moreover have "n < length (rs_calls s)" if "RvWait n \<in> set ls"
    using that inv by (simp add: flight_inv_def)
  moreover have "\<exists>l \<in> set ls. n \<in> snd ` set (leads l)" if "n < length (rs_calls s)" "rs_calls s ! n = None"
  proof -
    have "n \<in> snd ` set (leaders ls)" using that inv by (simp add: flight_inv_def)
    then show ?thesis by (auto simp: leaders_def)
  qed
  ultimately show ?thesis by blast
qed

text \<open>Two callers of one key: the first leads, the second joins it.\<close>

lemma pool_step_fst: "T s l s' l' \<Longrightarrow> pool_step T E (s, [l, m]) (s', [l', m])"
  using pool_step.worker [of 0 "[l, m]" T s s' l' E] by simp

lemma pool_step_snd: "T s m s' m' \<Longrightarrow> pool_step T E (s, [l, m]) (s', [l, m'])"
  using pool_step.worker [of 1 "[l, m]" T s s' m' E] by simp

definition two_callers :: "resolve_state \<times> resolver list" where
  "two_callers = resolve_init (NewCache 50) 0 [(''k'', False), (''k'', False)]"

definition with_call :: "outcome option \<Rightarrow> (string \<rightharpoonup> nat) \<Rightarrow> resolve_state" where
  "with_call x flight = \<lparr>rs_cache = NewCache 50, rs_flight = flight, rs_calls = [x], rs_now = 0\<rparr>"

lemma Get_empty: "Get fmt t k f (NewCache 50) = (None, NewCache 50)"
  by (simp add: Get_def NewCache_def)

lemma first_leads:
  "pool_steps (resolve_step itoa) (resolve_outside itoa) two_callers
     (with_call None [''k'' \<mapsto> 0], [RvProbe ''k'' 0, RvMissed ''k''])"
proof -
  let ?P = "pool_step (resolve_step itoa) (resolve_outside itoa)"
  let ?s = "\<lparr>rs_cache = NewCache 50, rs_flight = Map.empty, rs_calls = [], rs_now = 0\<rparr>"
  have miss': "resolve_step itoa ?s (RvStart ''k'' False) ?s (RvMissed ''k'')"
    using miss [of itoa ?s "''k''" False "NewCache 50"] by (simp add: Get_empty)
  have "?P two_callers (?s, [RvMissed ''k'', RvStart ''k'' False])"
    using miss' by (simp add: two_callers_def resolve_init_def pool_step_fst)
  moreover have "?P (?s, [RvMissed ''k'', RvStart ''k'' False]) (?s, [RvMissed ''k'', RvMissed ''k''])"
    using miss' by (rule pool_step_snd)
  moreover have "?P (?s, [RvMissed ''k'', RvMissed ''k'']) (with_call None [''k'' \<mapsto> 0], [RvProbe ''k'' 0, RvMissed ''k''])"
    using lead [of ?s "''k''" itoa] by (simp add: with_call_def pool_step_fst)
  ultimately show ?thesis by (meson converse_rtranclp_into_rtranclp r_into_rtranclp)
qed

theorem Resolve_single_flight_witness:
  "\<exists>s ls. pool_steps (resolve_step itoa) (resolve_outside itoa) two_callers (s, ls) \<and>
     ls = [RvProbe ''k'' 0, RvWait 0] \<and> (\<exists>l \<in> set ls. 0 \<in> snd ` set (leads l))"
proof -
  let ?s = "with_call None [''k'' \<mapsto> 0]" and ?ls = "[RvProbe ''k'' 0, RvWait 0]"
  have "resolve_step itoa ?s (RvMissed ''k'') ?s (RvWait 0)"
    by (rule join) (simp add: with_call_def)
  then have run: "pool_steps (resolve_step itoa) (resolve_outside itoa) two_callers (?s, ?ls)"
    using first_leads pool_step_snd by (meson rtranclp.rtrancl_into_rtrancl)
  from Resolve_single_flight [OF run [unfolded two_callers_def], of "''k''" 0]
  have "\<exists>l \<in> set ?ls. 0 \<in> snd ` set (leads l)" by (simp add: with_call_def)
  with run show ?thesis by blast
qed

text \<open>
  A caller that missed the cache before another caller's probe finished may find no call in
  flight and probe the same key again, although a fresh result is in the cache by then.
\<close>

lemma second_probe_of_fresh_key:
  "\<exists>s r. pool_steps (resolve_step itoa) (resolve_outside itoa) two_callers (s, [RvDone (r, None), RvProbe ''k'' 1]) \<and>
     fst (Get itoa (rs_now s) ''k'' False (rs_cache s)) \<noteq> None"
proof -
  let ?P = "pool_step (resolve_step itoa) (resolve_outside itoa)"
  let ?s = "with_call None [''k'' \<mapsto> 0]" and ?m = "RvMissed ''k''"
  obtain r c where put: "Set itoa 0 ''k'' no_presence (NewCache 50) = (r, c)" by fastforce
  then have fresh: "fst (Get itoa 0 ''k'' False c) \<noteq> None"
    by (auto simp: Set_def Get_def NewCache_def Let_def)
  let ?t = "\<lparr>rs_cache = c, rs_flight = [''k'' \<mapsto> 0], rs_calls = [None], rs_now = 0\<rparr>"
  let ?u = "\<lparr>rs_cache = c, rs_flight = Map.empty, rs_calls = [Some (r, None)], rs_now = 0\<rparr>"
  let ?v = "\<lparr>rs_cache = c, rs_flight = [''k'' \<mapsto> 1], rs_calls = [Some (r, None), None], rs_now = 0\<rparr>"
  have "?P (?s, [RvProbe ''k'' 0, ?m]) (?s, [RvProbed ''k'' 0 no_presence, ?m])"
    by (intro pool_step_fst probed)
  moreover have "?P (?s, [RvProbed ''k'' 0 no_presence, ?m]) (?t, [RvClose ''k'' 0 (r, None), ?m])"
    using store [of itoa ?s "''k''" no_presence r c 0] put by (simp add: with_call_def pool_step_fst)
  moreover have "?P (?t, [RvClose ''k'' 0 (r, None), ?m]) (?u, [RvDone (r, None), ?m])"
    using close [of itoa ?t "''k''" 0 r None] by (simp add: pool_step_fst)
  moreover have "?P (?u, [RvDone (r, None), ?m]) (?v, [RvDone (r, None), RvProbe ''k'' 1])"
    using lead [of ?u "''k''" itoa] by (simp add: pool_step_snd)
  ultimately have "pool_steps (resolve_step itoa) (resolve_outside itoa) two_callers (?v, [RvDone (r, None), RvProbe ''k'' 1])"
    using first_leads by (meson rtranclp.rtrancl_into_rtrancl)
  then show ?thesis using fresh by (intro exI [of _ ?v] exI [of _ r]) simp
qed

end
