(* ===== verification/Neighbor.thy ===== *)
theory Neighbor
  imports Wol
begin

text \<open>
  \<open>internal/presence/neighbor.go\<close>: reading the ARP or neighbour table the system prints. The
  regular expressions are matchers: in each of them a shorter repetition can never be followed by
  what must come next, so the leftmost greedy match needs no backtracking. The output of the
  command and the addresses of the local interfaces are arguments.
\<close>

section \<open>The regular expressions\<close>

text \<open>Up to \<open>n\<close> leading characters that satisfy \<open>p\<close>, and the rest.\<close>

fun span_upto :: "nat \<Rightarrow> (char \<Rightarrow> bool) \<Rightarrow> string \<Rightarrow> string \<times> string" where
  "span_upto n p [] = ([], [])"
| "span_upto n p (c # cs) =
     (if 0 < n \<and> p c then (case span_upto (n - 1) p cs of (a, b) \<Rightarrow> (c # a, b)) else ([], c # cs))"

definition hex_char :: "char \<Rightarrow> bool" where
  "hex_char c \<longleftrightarrow> hex_val c \<noteq> None"

text \<open>\<open>n\<close> times one to \<open>k\<close> characters of \<open>p\<close> and a separator, then one to \<open>k\<close> characters.\<close>

fun match_groups :: "nat \<Rightarrow> (char \<Rightarrow> bool) \<Rightarrow> (char \<Rightarrow> bool) \<Rightarrow> nat \<Rightarrow> string \<Rightarrow> (string \<times> string) option" where
  "match_groups k p sep 0 s =
     (case span_upto k p s of (a, rest) \<Rightarrow> if a = [] then None else Some (a, rest))"
| "match_groups k p sep (Suc n) s =
     (case span_upto k p s of (a, rest) \<Rightarrow>
        if a = [] then None
        else (case rest of
                [] \<Rightarrow> None
              | c # cs \<Rightarrow> if sep c then map_option (\<lambda>(b, r). (a @ c # b, r)) (match_groups k p sep n cs) else None))"

fun find_mac :: "string \<Rightarrow> string" where
  "find_mac [] = []"
| "find_mac (c # cs) =
     (case match_groups 2 hex_char (\<lambda>x. x = CHR '':'' \<or> x = CHR ''-'') 5 (c # cs) of
        Some (m, _) \<Rightarrow> m
      | None \<Rightarrow> find_mac cs)"

definition word_char :: "char \<Rightarrow> bool" where
  "word_char c \<longleftrightarrow> is_alnum c \<or> c = CHR ''_''"

text \<open>The first argument says whether the character before is a word character.\<close>

fun find_ipv4 :: "bool \<Rightarrow> string \<Rightarrow> string" where
  "find_ipv4 prev [] = []"
| "find_ipv4 prev (c # cs) =
     (case (if prev then None else match_groups 3 is_digit (\<lambda>x. x = CHR ''.'') 3 (c # cs)) of
        Some (m, rest) \<Rightarrow>
          if rest \<noteq> [] \<and> word_char (hd rest) then find_ipv4 (word_char c) cs else m
      | None \<Rightarrow> find_ipv4 (word_char c) cs)"

text \<open>\<open>\s\<close> of the regular expressions: no vertical tab, no Unicode spaces.\<close>

definition re_space :: "char \<Rightarrow> bool" where
  "re_space c \<longleftrightarrow> code c \<in> {9, 10, 12, 13, 32}"

text \<open>\<open>(?i)\s\<close>word\<open>\s+(\S+)\<close>: the captured token of the leftmost match.\<close>

definition match_word :: "string \<Rightarrow> string \<Rightarrow> string option" where
  "match_word w s =
     (case s of
        [] \<Rightarrow> None
      | c # cs \<Rightarrow>
          if re_space c \<and> to_lower (take (length w) cs) = w
          then (let rest = drop (length w) cs;
                    token = takeWhile (\<lambda>x. \<not> re_space x) (dropWhile re_space rest) in
                if rest \<noteq> [] \<and> re_space (hd rest) \<and> token \<noteq> [] then Some token else None)
          else None)"

fun find_word :: "string \<Rightarrow> string \<Rightarrow> string option" where
  "find_word w [] = None"
| "find_word w (c # cs) =
     (case match_word w (c # cs) of Some t \<Rightarrow> Some t | None \<Rightarrow> find_word w cs)"

section \<open>A line of the table\<close>

record neighbor_entry =
  nb_ip :: string
  nb_mac :: string
  nb_iface :: string

definition neighborIface :: "string \<Rightarrow> string" where
  "neighborIface line =
     (case find_word ''on'' line of
        Some i \<Rightarrow> i
      | None \<Rightarrow>
          (case find_word ''dev'' line of
             Some i \<Rightarrow> i
           | None \<Rightarrow>
               let fs = GoBase.fields line in
               if fs = [] then []
               else if contains (last fs) '':'' \<or> contains (last fs) ''.'' then []
               else last fs))"

definition virtualPrefixes :: "string list" where
  "virtualPrefixes = [''bridge'', ''br'', ''docker'', ''veth'', ''vmenet'', ''vmnet'', ''vboxnet'',
     ''feth'', ''utun'', ''awdl'', ''llw'', ''anpi'', ''gif'', ''stf'', ''ap'',
     ''virbr'', ''cni'', ''flannel'', ''cali'', ''tun'', ''tap'', ''wg'', ''zt'',
     ''tailscale'', ''cbridge'', ''p2p'', ''pdp'', ''awdl'']"

definition isPhysicalIface :: "string \<Rightarrow> bool" where
  "isPhysicalIface name =
     (let name = trim_suffix (trim_space (to_lower name)) '':'' in
      if name = [] \<or> name = ''lo'' \<or> name = ''lo0'' then False
      else \<not> list_ex (\<lambda>p. name = p \<or> has_prefix name p) virtualPrefixes)"

text \<open>The loop over the six parts with its two flags.\<close>

fun ignored_parts :: "bool \<Rightarrow> bool \<Rightarrow> string list \<Rightarrow> bool" where
  "ignored_parts allZero allFF [] = (allZero \<or> allFF)"
| "ignored_parts allZero allFF (p # ps) =
     (if p = ''0'' \<or> p = ''00'' then ignored_parts allZero False ps
      else if p = ''ff'' then ignored_parts False allFF ps
      else False)"

definition isIgnoredMAC :: "string \<Rightarrow> bool" where
  "isIgnoredMAC mac =
     (let normalized = to_lower (map (\<lambda>c. if c = CHR ''-'' \<or> c = CHR ''.'' then CHR '':'' else c) mac);
          parts = split_char CHR '':'' normalized in
      if length parts \<noteq> 6 then True else ignored_parts True True parts)"

definition skipped_line :: "string \<Rightarrow> bool" where
  "skipped_line line =
     (let lower = to_lower line in
      line = [] \<or> has_prefix lower ''address'' \<or> has_prefix lower ''interface:'' \<or>
      contains lower ''incomplete'' \<or> contains lower ''failed'')"

text \<open>The entry a line gives, before the duplicates are removed.\<close>

definition parse_neighbor :: "string \<Rightarrow> string list \<Rightarrow> string \<Rightarrow> neighbor_entry option" where
  "parse_neighbor goos local line0 =
     (let line = trim_space line0; macRaw = find_mac line; ip = find_ipv4 False line; iface = neighborIface line in
      if skipped_line line then None
      else if macRaw = [] \<or> isIgnoredMAC macRaw then None
      else case ParseMAC macRaw of
        Inl _ \<Rightarrow> None
      | Inr m \<Rightarrow>
          if ip = [] \<or> ip \<in> set local then None
          else case parse_ip ip of
            None \<Rightarrow> None
          | Some a \<Rightarrow>
              if is_unspecified a \<or> is_multicast a \<or> is_loopback a then None
              else if goos \<noteq> ''windows'' \<and> (iface = [] \<or> \<not> isPhysicalIface iface) then None
              else Some \<lparr>nb_ip = ip, nb_mac = mac_string m, nb_iface = iface\<rparr>)"

definition neighbor_key :: "neighbor_entry \<Rightarrow> string" where
  "neighbor_key n = nb_mac n @ ''/'' @ nb_ip n"

fun table_loop :: "string \<Rightarrow> string list \<Rightarrow> string list \<Rightarrow> string list \<Rightarrow> neighbor_entry list" where
  "table_loop goos local seen [] = []"
| "table_loop goos local seen (line # ls) =
     (case parse_neighbor goos local line of
        None \<Rightarrow> table_loop goos local seen ls
      | Some n \<Rightarrow>
          if neighbor_key n \<in> set seen then table_loop goos local seen ls
          else n # table_loop goos local (neighbor_key n # seen) ls)"

definition parseNeighborTable :: "string list \<Rightarrow> string \<Rightarrow> string \<Rightarrow> neighbor_entry list" where
  "parseNeighborTable local goos output = table_loop goos local [] (split_char (char_of (10 :: nat)) output)"

definition parseNeighborOutput :: "string list \<Rightarrow> string \<Rightarrow> string \<Rightarrow> bool" where
  "parseNeighborOutput local goos output \<longleftrightarrow> length (parseNeighborTable local goos output) > 0"

section \<open>The commands\<close>

definition list_command :: "string \<Rightarrow> bool \<Rightarrow> string list" where
  "list_command goos has_ip =
     (if goos = ''windows'' then [''arp'', ''-a'']
      else if goos = ''linux'' then (if has_ip then [''ip'', ''neigh'', ''show''] else [''arp'', ''-an''])
      else [''arp'', ''-an''])"

definition host_command :: "string \<Rightarrow> bool \<Rightarrow> string \<Rightarrow> string list" where
  "host_command goos has_ip host =
     (if goos = ''windows'' then [''arp'', ''-a'', host]
      else if goos = ''linux'' then (if has_ip then [''ip'', ''neigh'', ''show'', ''to'', host] else [''arp'', ''-n'', host])
      else [''arp'', ''-n'', host])"

text \<open>\<open>run\<close> executes a command: its combined output and its error.\<close>

definition ListNeighbors ::
  "(string list \<Rightarrow> string \<times> error option) \<Rightarrow> string list \<Rightarrow> string \<Rightarrow> bool \<Rightarrow> neighbor_entry list result" where
  "ListNeighbors run local goos has_ip =
     (case run (list_command goos has_ip) of
        (out, err) \<Rightarrow>
          (case err of
             Some e \<Rightarrow> if out = [] then Inl e else Inr (parseNeighborTable local goos out)
           | None \<Rightarrow> Inr (parseNeighborTable local goos out)))"

definition defaultNeighbor ::
  "(string list \<Rightarrow> string \<times> error option) \<Rightarrow> string list \<Rightarrow> string \<Rightarrow> bool \<Rightarrow> string \<Rightarrow> bool" where
  "defaultNeighbor run local goos has_ip host0 =
     (let host = trim_space host0 in
      if host = [] then False
      else parseNeighborOutput local goos (fst (run (host_command goos has_ip host))))"

section \<open>The table\<close>

text \<open>A unicast hardware address, a foreign IPv4 host address, and a physical interface where the
  system names one.\<close>

definition neighbor_ok :: "string \<Rightarrow> string list \<Rightarrow> neighbor_entry \<Rightarrow> bool" where
  "neighbor_ok goos local n \<longleftrightarrow>
     (\<exists>m. nb_mac n = mac_string m \<and> length m = 6 \<and> \<not> multicast_bit m \<and> m \<noteq> replicate 6 0) \<and>
     nb_ip n \<notin> set local \<and>
     (\<exists>a. parse_ip (nb_ip n) = Some a \<and> \<not> is_unspecified a \<and> \<not> is_multicast a \<and> \<not> is_loopback a) \<and>
     (goos \<noteq> ''windows'' \<longrightarrow> isPhysicalIface (nb_iface n))"

lemma parse_neighbor_ok:
  assumes "parse_neighbor goos local line = Some n"
  shows "neighbor_ok goos local n"
proof -
  from assms obtain m where mac: "ParseMAC (find_mac (trim_space line)) = Inr m" and n: "nb_mac n = mac_string m"
    and rest: "nb_ip n \<notin> set local"
      "\<exists>a. parse_ip (nb_ip n) = Some a \<and> \<not> is_unspecified a \<and> \<not> is_multicast a \<and> \<not> is_loopback a"
      "goos \<noteq> ''windows'' \<longrightarrow> isPhysicalIface (nb_iface n)"
    by (auto simp: parse_neighbor_def Let_def split: if_splits sum.splits option.splits)
  show ?thesis unfolding neighbor_ok_def using n ParseMAC_Inr(1,2,3) [OF mac] rest by blast
qed

lemma table_loop_facts:
  "list_all (neighbor_ok goos local) (table_loop goos local seen ls) \<and>
   distinct (map neighbor_key (table_loop goos local seen ls)) \<and>
   neighbor_key ` set (table_loop goos local seen ls) =
     {neighbor_key n |n line. line \<in> set ls \<and> parse_neighbor goos local line = Some n} - set seen"
proof (induction ls arbitrary: seen)
  case (Cons line ls)
  show ?case
  proof (cases "parse_neighbor goos local line")
    case None
    then show ?thesis using Cons.IH [of seen] by auto
  next
    case (Some n)
    then have "neighbor_ok goos local n" by (rule parse_neighbor_ok)
    then show ?thesis using Some Cons.IH [of seen] Cons.IH [of "neighbor_key n # seen"]
      by (cases "neighbor_key n \<in> set seen") auto
  qed
qed simp

text \<open>
  C35. The neighbour table: every entry has a unicast hardware address in canonical form, an
  address of another host that is no loopback or multicast address, and a physical interface
  (except on Windows, which does not print one); no pair of hardware and IP address appears
  twice; and the pairs are exactly those of the lines of the output that give one.
\<close>

theorem parseNeighborTable_sound_complete:
  "list_all (neighbor_ok goos local) (parseNeighborTable local goos output) \<and>
   distinct (map neighbor_key (parseNeighborTable local goos output)) \<and>
   neighbor_key ` set (parseNeighborTable local goos output) =
     {neighbor_key n |n line. line \<in> set (split_char (char_of (10 :: nat)) output) \<and>
       parse_neighbor goos local line = Some n}"
  using table_loop_facts [of goos local "[]" "split_char (char_of (10 :: nat)) output"]
  by (simp add: parseNeighborTable_def)

text \<open>On Windows the last column, the type of the entry, is reported as the interface.\<close>

lemma windows_iface_is_type:
  "map nb_iface (parseNeighborTable [] ''windows'' ''1.2.3.4 2-2-2-2-2-2 dynamic'') = [''dynamic'']"
  by code_simp

end
