(* ===== verification/Fleet.thy ===== *)
theory Fleet
  imports PresencePool Wake "HOL-Library.Multiset"
begin

text \<open>
  \<open>internal/fleet/fleet.go\<close>: running one operation on every device, with a pool of workers per
  site and one limit for all of them. The workers are a pool of \<open>Pool\<close>; the local variables of
  a worker are its state, the channels and the context are the shared state.
\<close>

section \<open>Results and operations\<close>

record fleet_result =
  fr_device_id :: string
  fr_name :: string
  fr_site_id :: string
  fr_status :: string
  fr_method :: string
  fr_checked :: string
  fr_message :: string

text \<open>An operation relates a device and a timeout to the results it may return.\<close>

type_synonym operation = "device \<Rightarrow> int \<Rightarrow> fleet_result \<Rightarrow> bool"

definition cancelled_result :: "device \<Rightarrow> string \<Rightarrow> fleet_result" where
  "cancelled_result d stamp = \<lparr>fr_device_id = d_id d, fr_name = d_name d, fr_site_id = d_site_id d,
     fr_status = ''cancelled'', fr_method = [], fr_checked = stamp, fr_message = []\<rparr>"

text \<open>The map from device IDs to profiles; the last profile of a device wins.\<close>

definition verify_ports :: "remote_profile list \<Rightarrow> string \<Rightarrow> int" where
  "verify_ports profiles = fold (\<lambda>p f. f(rp_device_id p := rp_verify_port p)) profiles (\<lambda>_. 0)"

definition check_target :: "remote_profile list \<Rightarrow> device \<Rightarrow> probe_target" where
  "check_target profiles d = \<lparr>pt_device_id = d_id d, pt_ip = d_ip d,
     pt_verify_port = if d_verify_port d = 0 then verify_ports profiles (d_id d) else d_verify_port d\<rparr>"

definition Check :: "detector \<Rightarrow> remote_profile list \<Rightarrow> operation" where
  "Check det profiles d timeout r \<longleftrightarrow>
     (\<exists>env. let p = Probe det env (check_target profiles d) timeout in
        r = \<lparr>fr_device_id = d_id d, fr_name = d_name d, fr_site_id = d_site_id d,
           fr_status = status_string (pr_status p), fr_method = method_string (pr_method p),
           fr_checked = pr_checked p, fr_message = pr_message p\<rparr>)"

definition wake_options :: wake_options where
  "wake_options = \<lparr>o_repeat = 3, o_interval = 200000000, o_verify = False, o_verify_port = 0,
     o_timeout = 0, o_force = False, o_target_type = []\<rparr>"

definition wake_row :: "device \<Rightarrow> string \<Rightarrow> wake_result \<Rightarrow> error option \<Rightarrow> fleet_result" where
  "wake_row d stamp result err =
     \<lparr>fr_device_id = d_id d, fr_name = d_name d, fr_site_id = d_site_id d,
      fr_status = (case err of None \<Rightarrow> ''sent'' | Some _ \<Rightarrow> ''failed''), fr_method = [], fr_checked = stamp,
      fr_message = (case err of None \<Rightarrow> wr_detail result | Some e \<Rightarrow> error_text e)\<rparr>"

definition fleet_wake :: "'w wake_repo \<Rightarrow> operation" where
  "fleet_wake R d timeout r \<longleftrightarrow>
     (\<exists>h w stamp. case WakeDevice R h (d_id d) wake_options w of
        ((result, err, calls), w') \<Rightarrow> r = wake_row d stamp result err)"

section \<open>Limits and groups\<close>

definition global_limit :: "int \<Rightarrow> nat" where
  "global_limit concurrency =
     (let c = (if concurrency < 1 then 16 else concurrency) in nat (if c > 32 then 32 else c))"

definition site_settings_map :: "site list \<Rightarrow> string \<rightharpoonup> site" where
  "site_settings_map sites = fold (\<lambda>s m. m(s_id s \<mapsto> s)) sites Map.empty"

definition grouped :: "device list \<Rightarrow> string \<Rightarrow> device list" where
  "grouped devices i = filter (\<lambda>d. d_site_id d = i) devices"

definition group_limit :: "site option \<Rightarrow> nat \<Rightarrow> nat" where
  "group_limit site n =
     (let limit = (case site of None \<Rightarrow> 0 | Some s \<Rightarrow> s_concurrency s);
          limit = (if limit < 1 then 4 else limit);
          limit = (if limit > 16 then 16 else limit) in
      nat (if limit > int n then int n else limit))"

definition group_timeout :: "site option \<Rightarrow> int" where
  "group_timeout site =
     (let t = (case site of None \<Rightarrow> 0 | Some s \<Rightarrow> s_timeout_ms s * millisecond) in
      if t \<le> 0 then 2500 * millisecond else t)"

section \<open>The workers\<close>

record fleet_cfg =
  fc_limit :: nat
  fc_cap :: nat
  fc_timeouts :: "int list"
  fc_op :: operation

record fleet_state =
  fl_queues :: "device list list"
  fl_used :: nat
  fl_cancelled :: bool
  fl_buffer :: "fleet_result list"
  fl_received :: "fleet_result list"

text \<open>The number is the worker's group; the result is the local variable of the Go code.\<close>

datatype fleet_worker =
    FwIdle nat
  | FwGot nat device fleet_result
  | FwSelect nat device fleet_result
  | FwHold nat device fleet_result
  | FwRun nat device
  | FwRelease nat fleet_result
  | FwSend nat fleet_result
  | FwExit nat

inductive fleet_step :: "fleet_cfg \<Rightarrow> fleet_state \<Rightarrow> fleet_worker \<Rightarrow> fleet_state \<Rightarrow> fleet_worker \<Rightarrow> bool"
  for cfg where
  take_job: "g < length (fl_queues s) \<Longrightarrow> fl_queues s ! g = d # q \<Longrightarrow>
     fleet_step cfg s (FwIdle g) (s\<lparr>fl_queues := (fl_queues s)[g := q]\<rparr>) (FwGot g d (cancelled_result d stamp))"
| no_more: "fl_queues s ! g = [] \<Longrightarrow> fleet_step cfg s (FwIdle g) s (FwExit g)"
| live: "\<not> fl_cancelled s \<Longrightarrow> fleet_step cfg s (FwGot g d r) s (FwSelect g d r)"
| dead: "fl_cancelled s \<Longrightarrow> fleet_step cfg s (FwGot g d r) s (FwSend g r)"
| acquire: "fl_used s < fc_limit cfg \<Longrightarrow>
     fleet_step cfg s (FwSelect g d r) (s\<lparr>fl_used := fl_used s + 1\<rparr>) (FwHold g d r)"
| abandon: "fl_cancelled s \<Longrightarrow> fleet_step cfg s (FwSelect g d r) s (FwSend g r)"
| start: "\<not> fl_cancelled s \<Longrightarrow> fleet_step cfg s (FwHold g d r) s (FwRun g d)"
| skip: "fl_cancelled s \<Longrightarrow> fleet_step cfg s (FwHold g d r) s (FwRelease g r)"
| finish_op: "fc_op cfg d (fc_timeouts cfg ! g) r \<Longrightarrow> fleet_step cfg s (FwRun g d) s (FwRelease g r)"
| release: "0 < fl_used s \<Longrightarrow> fleet_step cfg s (FwRelease g r) (s\<lparr>fl_used := fl_used s - 1\<rparr>) (FwSend g r)"
| send_result: "length (fl_buffer s) < fc_cap cfg \<Longrightarrow>
     fleet_step cfg s (FwSend g r) (s\<lparr>fl_buffer := fl_buffer s @ [r]\<rparr>) (FwIdle g)"

inductive_cases fleet_stepE: "fleet_step cfg s l s' l'"

text \<open>The caller may cancel the context once, and receives from the result channel.\<close>

inductive fleet_outside :: "fleet_state \<Rightarrow> fleet_state \<Rightarrow> bool" where
  cancel: "\<not> fl_cancelled s \<Longrightarrow> fleet_outside s (s\<lparr>fl_cancelled := True\<rparr>)"
| receive: "fl_buffer s = r # rs \<Longrightarrow>
     fleet_outside s (s\<lparr>fl_buffer := rs, fl_received := fl_received s @ [r]\<rparr>)"

inductive_cases fleet_outsideE: "fleet_outside s s'"

text \<open>
  The start of \<open>Run\<close>: \<open>ids\<close> is the order in which the map of groups is iterated over; each group
  gets its queue and its workers.
\<close>

definition fleet_cfg_of :: "operation \<Rightarrow> device list \<Rightarrow> site list \<Rightarrow> int \<Rightarrow> string list \<Rightarrow> fleet_cfg" where
  "fleet_cfg_of op devices sites concurrency ids =
     \<lparr>fc_limit = global_limit concurrency, fc_cap = length devices,
      fc_timeouts = map (\<lambda>i. group_timeout (site_settings_map sites i)) ids, fc_op = op\<rparr>"

definition fleet_workers :: "device list \<Rightarrow> site list \<Rightarrow> string list \<Rightarrow> fleet_worker list" where
  "fleet_workers devices sites ids =
     concat (map (\<lambda>g. replicate (group_limit (site_settings_map sites (ids ! g)) (length (grouped devices (ids ! g))))
       (FwIdle g)) [0..<length ids])"

definition Run :: "device list \<Rightarrow> site list \<Rightarrow> string list \<Rightarrow> fleet_state \<times> fleet_worker list" where
  "Run devices sites ids =
     (\<lparr>fl_queues = map (grouped devices) ids, fl_used = 0, fl_cancelled = False, fl_buffer = [], fl_received = []\<rparr>,
      fleet_workers devices sites ids)"

end
