(* ===== verification/FleetSpec.thy ===== *)
theory FleetSpec
  imports Fleet
begin

text \<open>
  What \<open>fleet.Run\<close> promises: the limits are kept, no worker ever blocks on the result channel,
  and every device gets exactly one result, for every interleaving, with or without cancellation.
\<close>

section \<open>Operations\<close>

text \<open>The contract of an operation: it returns, with a result for the device it was given.\<close>

locale fleet_operation =
  fixes op :: operation
  assumes returns: "\<exists>r. op d t r"
    and names_device: "op d t r \<Longrightarrow> fr_device_id r = d_id d"

interpretation check_op: fleet_operation "Check det profiles"
  by unfold_locales (auto simp: Check_def Let_def)

interpretation wake_op: fleet_operation "fleet_wake R"
proof unfold_locales
  fix d :: device and t :: int
  obtain result err calls w' where
    "WakeDevice R undefined (d_id d) wake_options undefined = ((result, err, calls), w')"
    by (metis prod.collapse)
  then have "fleet_wake R d t (wake_row d [] result err)"
    unfolding fleet_wake_def by (intro exI [of _ undefined] exI [of _ "[]"]) simp
  then show "\<exists>r. fleet_wake R d t r" ..
  show "fr_device_id r = d_id d" if "fleet_wake R d t r" for r
    using that by (auto simp: fleet_wake_def wake_row_def case_prod_beta)
qed

section \<open>The invariant\<close>

fun worker_group :: "fleet_worker \<Rightarrow> nat" where
  "worker_group (FwIdle g) = g"
| "worker_group (FwGot g d r) = g"
| "worker_group (FwSelect g d r) = g"
| "worker_group (FwHold g d r) = g"
| "worker_group (FwRun g d) = g"
| "worker_group (FwRelease g r) = g"
| "worker_group (FwSend g r) = g"
| "worker_group (FwExit g) = g"

fun holds_slot :: "fleet_worker \<Rightarrow> bool" where
  "holds_slot (FwHold g d r) = True"
| "holds_slot (FwRun g d) = True"
| "holds_slot (FwRelease g r) = True"
| "holds_slot _ = False"

text \<open>The device a worker is busy with, by its ID; the result it carries is for that device.\<close>

fun worker_device :: "fleet_worker \<Rightarrow> string list" where
  "worker_device (FwGot g d r) = [d_id d]"
| "worker_device (FwSelect g d r) = [d_id d]"
| "worker_device (FwHold g d r) = [d_id d]"
| "worker_device (FwRun g d) = [d_id d]"
| "worker_device (FwRelease g r) = [fr_device_id r]"
| "worker_device (FwSend g r) = [fr_device_id r]"
| "worker_device _ = []"

fun worker_ok :: "fleet_worker \<Rightarrow> bool" where
  "worker_ok (FwGot g d r) = (fr_device_id r = d_id d)"
| "worker_ok (FwSelect g d r) = (fr_device_id r = d_id d)"
| "worker_ok (FwHold g d r) = (fr_device_id r = d_id d)"
| "worker_ok _ = True"

text \<open>The devices in the queues, with the workers, and among the results.\<close>

definition accounted :: "fleet_state \<Rightarrow> fleet_worker list \<Rightarrow> string multiset" where
  "accounted s ls = mset (map d_id (concat (fl_queues s))) + mset (concat (map worker_device ls)) +
     mset (map fr_device_id (fl_buffer s @ fl_received s))"

definition fleet_inv :: "fleet_cfg \<Rightarrow> string multiset \<Rightarrow> nat list \<Rightarrow> fleet_state \<Rightarrow> fleet_worker list \<Rightarrow> bool" where
  "fleet_inv cfg ids groups s ls \<longleftrightarrow> map worker_group ls = groups \<and> list_all worker_ok ls \<and>
     list_all (\<lambda>l. worker_group l < length (fc_timeouts cfg)) ls \<and>
     fl_used s = length (filter holds_slot ls) \<and> fl_used s \<le> fc_limit cfg \<and>
     accounted s ls = ids \<and> size ids = fc_cap cfg \<and>
     length (fl_queues s) = length (fc_timeouts cfg) \<and>
     (\<forall>g. FwExit g \<in> set ls \<longrightarrow> fl_queues s ! g = [])"

lemma mset_concat_update:
  "g < length qs \<Longrightarrow> qs ! g = d # q \<Longrightarrow>
    mset (map d_id (concat qs)) = add_mset (d_id d) (mset (map d_id (concat (qs[g := q]))))"
proof (induction qs arbitrary: g)
  case (Cons x xs)
  then show ?case by (cases g) auto
qed simp

lemma busy_positive: "l \<in> set ls \<Longrightarrow> worker_device l \<noteq> [] \<Longrightarrow> 0 < length (concat (map worker_device ls))"
  by (induction ls) auto

lemma fleet_inv_keep:
  assumes "fleet_inv cfg ids groups s (xs @ l # ys)" and "worker_group l' = worker_group l" and "worker_ok l'"
    and "holds_slot l' = holds_slot l" and "worker_device l' = worker_device l"
    and "\<And>g. l' = FwExit g \<Longrightarrow> fl_queues s ! g = []"
  shows "fleet_inv cfg ids groups s (xs @ l' # ys)"
  using assms by (auto simp: fleet_inv_def accounted_def)

lemma fleet_take:
  assumes inv: "fleet_inv cfg ids groups s (xs @ FwIdle g # ys)" and q: "fl_queues s ! g = d # q"
  shows "fleet_inv cfg ids groups (s\<lparr>fl_queues := (fl_queues s)[g := q]\<rparr>)
    (xs @ FwGot g d (cancelled_result d stamp) # ys)"
proof -
  have g: "g < length (fl_queues s)" using inv by (simp add: fleet_inv_def)
  have "accounted (s\<lparr>fl_queues := (fl_queues s)[g := q]\<rparr>) (xs @ FwGot g d (cancelled_result d stamp) # ys) =
      accounted s (xs @ FwIdle g # ys)"
    using mset_concat_update [OF g q] by (simp add: accounted_def)
  then show ?thesis using inv q g
    by (auto simp: fleet_inv_def cancelled_result_def nth_list_update)
qed

lemma fleet_inv_step:
  assumes inv: "fleet_inv cfg ids groups s (xs @ l # ys)" and "fleet_step cfg s l s' l'"
    and op: "\<And>d t r. fc_op cfg d t r \<Longrightarrow> fr_device_id r = d_id d"
  shows "fleet_inv cfg ids groups s' (xs @ l' # ys)"
  using assms(2)
proof (cases rule: fleet_step.cases)
  case (take_job g d q stamp)
  then show ?thesis using fleet_take inv by simp
next
  case (acquire g d r)
  then show ?thesis using inv by (simp add: fleet_inv_def accounted_def)
next
  case (release g r)
  then show ?thesis using inv by (auto simp: fleet_inv_def accounted_def)
next
  case (send_result g r)
  then show ?thesis using inv by (auto simp: fleet_inv_def accounted_def)
next
  case (finish_op d g r)
  then show ?thesis using fleet_inv_keep [OF inv, of l'] op by simp
qed (use inv in \<open>auto simp: fleet_inv_def accounted_def\<close>)

lemma fleet_inv_outside: "fleet_inv cfg ids groups s ls \<Longrightarrow> fleet_outside s s' \<Longrightarrow> fleet_inv cfg ids groups s' ls"
  by (erule fleet_outside.cases) (simp_all add: fleet_inv_def accounted_def)

section \<open>A run\<close>

fun fleet_rank :: "fleet_worker \<Rightarrow> nat" where
  "fleet_rank (FwExit g) = 0"
| "fleet_rank (FwIdle g) = 1"
| "fleet_rank (FwSend g r) = 3"
| "fleet_rank (FwRelease g r) = 4"
| "fleet_rank (FwRun g d) = 5"
| "fleet_rank (FwHold g d r) = 6"
| "fleet_rank (FwSelect g d r) = 7"
| "fleet_rank (FwGot g d r) = 8"

definition fleet_left :: "fleet_state \<Rightarrow> nat" where
  "fleet_left s = 8 * length (concat (fl_queues s)) + length (fl_buffer s) + (if fl_cancelled s then 0 else 1)"

fun has_exited :: "fleet_worker \<Rightarrow> bool" where
  "has_exited (FwExit g) = True"
| "has_exited _ = False"

definition fleet_finished :: "fleet_state \<Rightarrow> fleet_worker list \<Rightarrow> bool" where
  "fleet_finished s ls \<longleftrightarrow> list_all has_exited ls \<and> fl_buffer s = []"

lemma length_concat_update:
  "qs ! g = d # q \<Longrightarrow> g < length qs \<Longrightarrow> length (concat qs) = Suc (length (concat (qs[g := q])))"
proof (induction qs arbitrary: g)
  case (Cons x xs)
  then show ?case by (cases g) auto
qed simp

lemma global_limit_bounds: "1 \<le> global_limit c" "global_limit c \<le> 32"
  by (auto simp: global_limit_def Let_def)

lemma group_limit_bounds: "group_limit site n \<le> 16" "group_limit site n \<le> n" "0 < n \<Longrightarrow> 0 < group_limit site n"
  by (auto simp: group_limit_def Let_def split: option.splits)

lemma stuck_holder:
  assumes "stuck (fleet_step cfg) fleet_outside (s, ls)" and "l \<in> set ls" and "fl_used s = length (filter holds_slot ls)"
    and "\<And>d t. \<exists>r. fc_op cfg d t r"
  shows "\<not> holds_slot l"
proof
  assume h: "holds_slot l"
  then have used: "0 < fl_used s" using assms(2,3) by (auto simp: filter_empty_conv)
  note no = stuck_worker [OF assms(1,2)]
  from h show False
  proof (cases l)
    case (FwHold g d r)
    then show ?thesis using no by (cases "fl_cancelled s") (blast intro: start skip)+
  next
    case (FwRun g d)
    then show ?thesis using no assms(4) by (blast intro: finish_op)
  next
    case (FwRelease g r)
    then show ?thesis using no used by (blast intro: release)
  qed simp_all
qed

lemma stuck_buffer: "stuck (fleet_step cfg) fleet_outside (s, ls) \<Longrightarrow> fl_buffer s = []"
  by (cases "fl_buffer s") (auto simp: stuck_def dest: receive pool_step.outside)

lemma fleet_progress:
  assumes inv: "fleet_inv cfg ids groups s ls" and st: "stuck (fleet_step cfg) fleet_outside (s, ls)"
    and op: "\<And>d t. \<exists>r. fc_op cfg d t r" and limit: "1 \<le> fc_limit cfg"
  shows "fleet_finished s ls"
proof -
  have used: "fl_used s = length (filter holds_slot ls)" using inv by (simp add: fleet_inv_def)
  have "filter holds_slot ls = []" using stuck_holder [OF st _ used op] by (simp add: filter_empty_conv)
  with used limit have free: "fl_used s < fc_limit cfg" by simp
  have buf: "fl_buffer s = []" using st by (rule stuck_buffer)
  have "has_exited l" if l: "l \<in> set ls" for l
  proof (cases l)
    case (FwIdle g)
    then have "g < length (fl_queues s)" using inv l by (auto simp: fleet_inv_def list_all_iff)
    then show ?thesis using FwIdle stuck_worker [OF st l]
      by (cases "fl_queues s ! g") (blast intro: take_job no_more)+
  next
    case (FwGot g d r)
    then show ?thesis using stuck_worker [OF st l] by (cases "fl_cancelled s") (blast intro: live dead)+
  next
    case (FwSelect g d r)
    then show ?thesis using stuck_worker [OF st l] free by (blast intro: acquire)
  next
    case (FwSend g r)
    have "0 < length (concat (map worker_device ls))" using FwSend by (intro busy_positive [OF l]) simp
    moreover have "length (concat (map worker_device ls)) \<le> size ids"
      using inv by (auto simp: fleet_inv_def accounted_def)
    ultimately have "0 < size ids" by linarith
    then have "length (fl_buffer s) < fc_cap cfg" using inv buf by (simp add: fleet_inv_def)
    then show ?thesis using FwSend stuck_worker [OF st l] by (blast intro: send_result)
  qed (use stuck_holder [OF st l used op] in simp_all)
  then show ?thesis using buf by (simp add: fleet_finished_def list_all_iff)
qed

lemma fleet_weight: "fleet_step cfg s l s' l' \<Longrightarrow> fleet_left s' + fleet_rank l' < fleet_left s + fleet_rank l"
  by (erule fleet_step.cases) (auto simp: fleet_left_def length_concat_update)

lemma fleet_pool_weight: "pool_weight (fleet_step cfg) fleet_outside fleet_left fleet_rank"
  by unfold_locales (rule fleet_weight, assumption, auto simp: fleet_left_def elim!: fleet_outsideE)

section \<open>Every run\<close>

locale fleet_run = fleet_operation op for op :: operation +
  fixes devices :: "device list" and sites :: "site list" and concurrency :: int and ids :: "string list"
  assumes order: "distinct ids" "set ids = d_site_id ` set devices"
begin

abbreviation cfg :: fleet_cfg where
  "cfg \<equiv> fleet_cfg_of op devices sites concurrency ids"

abbreviation groups :: "nat list" where
  "groups \<equiv> map worker_group (fleet_workers devices sites ids)"

lemma grouped_mset: "mset (concat (map (grouped devices) is)) = mset (filter (\<lambda>d. d_site_id d \<in> set is) devices)"
  if "distinct is" for "is"
  using that
proof (induction "is")
  case (Cons i js)
  have "mset (filter (\<lambda>d. d_site_id d \<in> set (i # js)) devices) =
      mset (filter (\<lambda>d. d_site_id d = i) devices) + mset (filter (\<lambda>d. d_site_id d \<in> set js) devices)"
    using Cons.prems by (induction devices) auto
  then show ?case using Cons by (simp add: grouped_def)
qed simp

lemma queued: "mset (concat (map (grouped devices) ids)) = mset devices"
proof -
  have "filter (\<lambda>d. d_site_id d \<in> set ids) devices = devices" using order by (simp add: filter_id_conv)
  then show ?thesis using grouped_mset [OF order(1)] by simp
qed

lemma workers_idle: "l \<in> set (fleet_workers devices sites ids) \<Longrightarrow> \<exists>g < length ids. l = FwIdle g"
  by (auto simp: fleet_workers_def)

lemma workers_of_group:
  assumes "g < length ids"
  shows "length (filter (\<lambda>x. x = g) (map worker_group (fleet_workers devices sites ids))) =
    group_limit (site_settings_map sites (ids ! g)) (length (grouped devices (ids ! g)))"
proof -
  let ?n = "\<lambda>h. group_limit (site_settings_map sites (ids ! h)) (length (grouped devices (ids ! h)))"
  have "length (filter (\<lambda>x. x = g) (map worker_group (concat (map (\<lambda>h. replicate (?n h) (FwIdle h)) hs)))) =
      (if g \<in> set hs then ?n g else 0)" if "distinct hs" for hs
    using that by (induction hs) (auto simp: filter_replicate)
  from this [of "[0..<length ids]"] show ?thesis using assms by (simp add: fleet_workers_def)
qed

lemma init_inv: "fleet_inv cfg (mset (map d_id devices)) groups (fst (Run devices sites ids)) (snd (Run devices sites ids))"
proof -
  let ?ws = "fleet_workers devices sites ids"
  have idle: "\<exists>g < length ids. l = FwIdle g" if "l \<in> set ?ws" for l using workers_idle that by blast
  have "concat (map worker_device ?ws) = []" "filter holds_slot ?ws = []"
    using idle by (fastforce simp: filter_empty_conv)+
  moreover have "accounted (fst (Run devices sites ids)) [] = mset (map d_id devices)"
    using arg_cong [OF queued, of "image_mset d_id"] by (simp add: accounted_def Run_def)
  moreover have "list_all worker_ok ?ws" "list_all (\<lambda>l. worker_group l < length ids) ?ws"
    using idle by (fastforce simp: list_all_iff)+
  moreover have "FwExit g \<notin> set ?ws" for g using idle by blast
  ultimately show ?thesis
    by (simp add: fleet_inv_def Run_def accounted_def fleet_cfg_of_def)
qed

end

sublocale fleet_run \<subseteq> pool: worker_pool "fleet_step cfg" fleet_outside
  "fleet_inv cfg (mset (map d_id devices)) groups" fleet_left fleet_rank fleet_finished
proof unfold_locales
  have op: "fc_op cfg = op" and limit: "1 \<le> fc_limit cfg"
    using global_limit_bounds(1) [of concurrency] by (simp_all add: fleet_cfg_of_def)
  fix s xs l ys s' l'
  show "fleet_inv cfg (mset (map d_id devices)) groups s (xs @ l # ys) \<Longrightarrow> fleet_step cfg s l s' l' \<Longrightarrow>
      fleet_inv cfg (mset (map d_id devices)) groups s' (xs @ l' # ys)"
    by (rule fleet_inv_step) (auto simp: op dest: names_device)
  fix ls
  show "fleet_inv cfg (mset (map d_id devices)) groups s ls \<Longrightarrow> stuck (fleet_step cfg) fleet_outside (s, ls) \<Longrightarrow>
      fleet_finished s ls"
    using fleet_progress [of cfg] returns limit unfolding op by blast
qed (use fleet_inv_outside fleet_weight in \<open>auto simp: fleet_left_def elim!: fleet_outsideE\<close>)

context fleet_run begin

lemma run_inv:
  assumes "pool_steps (fleet_step cfg) fleet_outside (Run devices sites ids) (s, ls)"
  shows "fleet_inv cfg (mset (map d_id devices)) groups s ls"
  using pool.steps_keep [of "fst (Run devices sites ids)" "snd (Run devices sites ids)"] assms init_inv by simp

lemma group_has_worker: "g < length ids \<Longrightarrow> g \<in> set groups"
proof -
  assume g: "g < length ids"
  then have "grouped devices (ids ! g) \<noteq> []"
    using order(2) nth_mem [of g ids] by (auto simp: grouped_def filter_empty_conv)
  then have "0 < group_limit (site_settings_map sites (ids ! g)) (length (grouped devices (ids ! g)))"
    by (intro group_limit_bounds(3)) simp
  then have "FwIdle g \<in> set (fleet_workers devices sites ids)" using g by (force simp: fleet_workers_def)
  then show "g \<in> set groups" by force
qed

lemma finished_queues:
  assumes inv: "fleet_inv cfg (mset (map d_id devices)) groups s ls" and fin: "list_all has_exited ls"
  shows "concat (fl_queues s) = []"
proof -
  have "fl_queues s ! g = []" if "g < length (fl_queues s)" for g
  proof -
    from that inv have "g \<in> set (map worker_group ls)"
      using group_has_worker by (simp add: fleet_inv_def fleet_cfg_of_def)
    then obtain l where l: "l \<in> set ls" "worker_group l = g" by auto
    with fin have "FwExit g \<in> set ls" by (cases l) (auto simp: list_all_iff)
    then show ?thesis using inv by (simp add: fleet_inv_def)
  qed
  then show ?thesis by (auto simp: in_set_conv_nth)
qed

lemma finished_results:
  assumes inv: "fleet_inv cfg (mset (map d_id devices)) groups s ls" and fin: "fleet_finished s ls"
  shows "mset (map fr_device_id (fl_received s)) = mset (map d_id devices)"
proof -
  have "worker_device l = []" if "l \<in> set ls" for l
  proof -
    have "has_exited l" using that fin by (simp add: fleet_finished_def list_all_iff)
    then show ?thesis by (cases l) auto
  qed
  then have idle: "concat (map worker_device ls) = []" by auto
  have empty: "concat (fl_queues s) = []" and buf: "fl_buffer s = []"
    using fin finished_queues [OF inv] by (simp_all only: fleet_finished_def)
  have "accounted s ls = mset (map d_id devices)" using inv by (simp only: fleet_inv_def)
  then show ?thesis unfolding accounted_def idle empty buf by simp
qed

lemma run_weight: "pool.weight (Run devices sites ids) = 8 * length devices + length (fleet_workers devices sites ids) + 1"
proof -
  have "fleet_rank l = 1" if "l \<in> set (fleet_workers devices sites ids)" for l
    using workers_idle [OF that] by auto
  then have "sum_list (map fleet_rank (fleet_workers devices sites ids)) = length (fleet_workers devices sites ids)"
    by (simp add: sum_list_triv cong: map_cong)
  moreover have "length (concat (map (grouped devices) ids)) = length devices"
    using arg_cong [OF queued, of size] by simp
  ultimately show ?thesis by (simp add: pool.weight_def Run_def fleet_left_def)
qed

lemma each_device_once:
  assumes "(pool_step (fleet_step cfg) fleet_outside ^^ n) (Run devices sites ids) (s, ls)"
  shows "n \<le> 8 * length devices + length (fleet_workers devices sites ids) + 1 \<and>
    (stuck (fleet_step cfg) fleet_outside (s, ls) \<longrightarrow>
      list_all has_exited ls \<and> fl_buffer s = [] \<and> mset (map fr_device_id (fl_received s)) = mset (map d_id devices))"
proof -
  have inv: "fleet_inv cfg (mset (map d_id devices)) groups s ls"
    using run_inv relpowp_imp_rtranclp [OF assms] by blast
  show ?thesis
    using pool.run_bounded [OF assms] run_weight pool.progress [OF inv] finished_results [OF inv]
    by (auto simp: fleet_finished_def)
qed

text \<open>The workers that run an operation, all of them and those of one group.\<close>

lemma running_bounds:
  assumes "pool_steps (fleet_step cfg) fleet_outside (Run devices sites ids) (s, ls)"
  shows "length (filter holds_slot ls) \<le> global_limit concurrency"
    and "g < length ids \<Longrightarrow> length (filter (\<lambda>l. worker_group l = g) ls) =
      group_limit (site_settings_map sites (ids ! g)) (length (grouped devices (ids ! g)))"
    and "FwSend g r \<in> set ls \<Longrightarrow> length (fl_buffer s) < length devices"
proof -
  note inv = run_inv [OF assms]
  show "length (filter holds_slot ls) \<le> global_limit concurrency"
    using inv by (simp add: fleet_inv_def fleet_cfg_of_def)
  show "length (filter (\<lambda>l. worker_group l = g) ls) =
      group_limit (site_settings_map sites (ids ! g)) (length (grouped devices (ids ! g)))" if "g < length ids"
  proof -
    have "length (filter (\<lambda>l. worker_group l = g) ls) = length (filter (\<lambda>x. x = g) (map worker_group ls))"
      by (simp add: filter_map o_def)
    also have "\<dots> = length (filter (\<lambda>x. x = g) groups)" using inv by (simp add: fleet_inv_def)
    also have "\<dots> = group_limit (site_settings_map sites (ids ! g)) (length (grouped devices (ids ! g)))"
      using that by (rule workers_of_group)
    finally show ?thesis .
  qed
  show "length (fl_buffer s) < length devices" if send: "FwSend g r \<in> set ls"
  proof -
    have "0 < length (concat (map worker_device ls))" by (intro busy_positive [OF send]) simp
    moreover have "length (concat (map worker_device ls)) + length (fl_buffer s) \<le> size (accounted s ls)"
      by (simp add: accounted_def)
    ultimately have "length (fl_buffer s) < size (accounted s ls)" by linarith
    then show ?thesis using inv by (simp add: fleet_inv_def)
  qed
qed

end

lemma filter_conj_le: "length (filter (\<lambda>l. P l \<and> Q l) xs) \<le> length (filter P xs)"
  by (induction xs) auto

lemma fleet_run_of:
  assumes "op = Check det profiles \<or> op = fleet_wake R" and "distinct ids" and "set ids = d_site_id ` set devices"
  shows "fleet_run op devices ids"
proof -
  have "fleet_operation op"
    using assms(1) check_op.fleet_operation_axioms wake_op.fleet_operation_axioms by auto
  then show ?thesis using assms(2,3) by (simp add: fleet_run_def fleet_run_axioms_def)
qed

interpretation check_run: fleet_run "Check det profiles" devices sites concurrency "remdups (map d_site_id devices)"
  for det profiles devices sites concurrency
  by (rule fleet_run_of [where R = undefined]) auto

text \<open>
  C30. Checking or waking a fleet gives every device exactly one result and always ends: for any
  order of the groups, any interleaving of the workers and any moment of cancellation, a run has
  at most eight steps per device, one per worker and one more, and when no step is left all
  workers have ended, the result channel is drained, and the results received are for exactly
  the devices asked for, each as often as it was asked for.
\<close>

theorem fleet_each_device_once:
  assumes "op = Check det profiles \<or> op = fleet_wake R"
    and "distinct ids" and "set ids = d_site_id ` set devices"
    and "(pool_step (fleet_step (fleet_cfg_of op devices sites concurrency ids)) fleet_outside ^^ n)
      (Run devices sites ids) (s, ls)"
  shows "n \<le> 8 * length devices + length ls + 1 \<and>
    (stuck (fleet_step (fleet_cfg_of op devices sites concurrency ids)) fleet_outside (s, ls) \<longrightarrow>
      list_all has_exited ls \<and> fl_buffer s = [] \<and> mset (map fr_device_id (fl_received s)) = mset (map d_id devices))"
proof -
  show ?thesis
    using fleet_run.each_device_once [OF fleet_run_of [OF assms(1-3)] assms(4)]
      fleet_run.run_inv [OF fleet_run_of [OF assms(1-3)] relpowp_imp_rtranclp [OF assms(4)]]
    by (auto simp: fleet_inv_def dest!: arg_cong [of _ _ length])
qed

text \<open>
  C31. The limits: at no moment do more operations run than the limit of the call, which is
  between 1 and 32, nor more on one site than the limit of the site, which is at most 16; a
  site's timeout is positive; and no worker ever waits for room on the result channel, even when
  nobody receives from it.
\<close>

theorem fleet_limits:
  assumes "op = Check det profiles \<or> op = fleet_wake R"
    and "distinct ids" and "set ids = d_site_id ` set devices"
    and "pool_steps (fleet_step (fleet_cfg_of op devices sites concurrency ids)) fleet_outside (Run devices sites ids) (s, ls)"
  shows "length (filter holds_slot ls) \<le> global_limit concurrency \<and>
    1 \<le> global_limit concurrency \<and> global_limit concurrency \<le> 32 \<and>
    (\<forall>g < length ids. length (filter (\<lambda>l. worker_group l = g \<and> holds_slot l) ls)
        \<le> group_limit (site_settings_map sites (ids ! g)) (length (grouped devices (ids ! g))) \<and>
      group_limit (site_settings_map sites (ids ! g)) (length (grouped devices (ids ! g))) \<le> 16 \<and>
      0 < group_timeout (site_settings_map sites (ids ! g))) \<and>
    (\<forall>g r. FwSend g r \<in> set ls \<longrightarrow> length (fl_buffer s) < length devices)"
proof -
  note run = fleet_run_of [OF assms(1-3)]
  note bounds = fleet_run.running_bounds [OF run assms(4)]
  have "length (filter (\<lambda>l. worker_group l = g \<and> holds_slot l) ls)
      \<le> group_limit (site_settings_map sites (ids ! g)) (length (grouped devices (ids ! g)))" if "g < length ids" for g
    using filter_conj_le [of "\<lambda>l. worker_group l = g" holds_slot ls] bounds(2) [OF that] by simp
  moreover have "0 < group_timeout site" for site by (simp add: group_timeout_def Let_def)
  ultimately show ?thesis using bounds(1,3) global_limit_bounds group_limit_bounds(1) by blast
qed

text \<open>The witnesses: one device without a site, checked by the default detector.\<close>

abbreviation one_check :: "fleet_state \<times> fleet_worker list \<Rightarrow> fleet_state \<times> fleet_worker list \<Rightarrow> bool" where
  "one_check \<equiv> pool_step (fleet_step (fleet_cfg_of (Check (NewDetector []) []) [sample_device] [] 0 [[]])) fleet_outside"

theorem fleet_each_device_once_witness:
  "\<exists>n s ls. (one_check ^^ n) (Run [sample_device] [] [[]]) (s, ls) \<and> map fr_device_id (fl_received s) = [d_id sample_device]"
proof -
  have ids: "distinct [[]]" "set [[]] = d_site_id ` set [sample_device]" by (simp_all add: sample_device_def)
  note run = fleet_run_of [OF disjI1 [OF refl] ids]
  obtain c where c: "one_check\<^sup>*\<^sup>* (Run [sample_device] [] [[]]) c"
    and st: "stuck (fleet_step (fleet_cfg_of (Check (NewDetector []) []) [sample_device] [] 0 [[]])) fleet_outside c"
    using pool_weight.run_ends [OF fleet_pool_weight] by blast
  obtain n where n: "(one_check ^^ n) (Run [sample_device] [] [[]]) c" using rtranclp_imp_relpowp [OF c] by blast
  obtain s ls where "c = (s, ls)" by fastforce
  with n st have n': "(one_check ^^ n) (Run [sample_device] [] [[]]) (s, ls)"
    and st': "stuck (fleet_step (fleet_cfg_of (Check (NewDetector []) []) [sample_device] [] 0 [[]])) fleet_outside (s, ls)"
    by simp_all
  from fleet_each_device_once [OF disjI1 [OF refl] ids n'] st'
  have "mset (map fr_device_id (fl_received s)) = mset (map d_id [sample_device])" by blast
  then have "mset (map fr_device_id (fl_received s)) = {#d_id sample_device#}" by simp
  then have "map fr_device_id (fl_received s) = [d_id sample_device]" by (simp only: mset_single_iff)
  with n' show ?thesis by (intro exI conjI)
qed

theorem fleet_limits_witness: "length (filter holds_slot [FwIdle 0]) \<le> global_limit 0 \<and> global_limit 0 \<le> 32"
proof -
  have ids: "distinct [[]]" "set [[]] = d_site_id ` set [sample_device]" by (simp_all add: sample_device_def)
  have "snd (Run [sample_device] [] [[]]) = [FwIdle 0]"
    by (simp add: Run_def fleet_workers_def grouped_def sample_device_def site_settings_map_def group_limit_def Let_def)
  then have "pool_steps (fleet_step (fleet_cfg_of (Check (NewDetector []) []) [sample_device] [] 0 [[]])) fleet_outside
      (Run [sample_device] [] [[]]) (fst (Run [sample_device] [] [[]]), [FwIdle 0])"
    by (metis prod.collapse rtranclp.rtrancl_refl)
  from fleet_limits [OF disjI1 [OF refl] ids this] show ?thesis by blast
qed

end
