(* ===== verification/PowerOff.thy ===== *)
theory PowerOff
  imports NetAddr
begin

text \<open>
  \<open>internal/power\<close>: shutting a machine down over ssh. \<open>driver.go\<close> builds the command for each
  platform, \<open>service.go\<close> validates the request, chooses the command and runs ssh. Durations are
  nanoseconds; \<open>int(delay.Seconds())\<close> and \<open>int(delay.Minutes())\<close> are truncations (the rounding
  of the intermediate float64, from 97 days on, is left out). Running ssh is an argument.
\<close>

section \<open>Platforms and drivers\<close>

definition PlatformWindows :: string where "PlatformWindows = ''windows''"
definition PlatformLinux :: string where "PlatformLinux = ''linux''"
definition PlatformDarwin :: string where "PlatformDarwin = ''darwin''"

definition NormalizePlatform :: "string \<Rightarrow> string" where
  "NormalizePlatform val =
     (let v = to_lower (trim_space val) in
      if v = ''win'' \<or> v = ''windows'' then PlatformWindows
      else if v = ''linux'' then PlatformLinux
      else if v = ''darwin'' \<or> v = ''mac'' \<or> v = ''macos'' \<or> v = ''osx'' then PlatformDarwin
      else [])"

datatype driver = WindowsDriver | LinuxDriver bool | DarwinDriver bool

abbreviation nanos_per_second :: int where "nanos_per_second \<equiv> 1000000000"
abbreviation nanos_per_minute :: int where "nanos_per_minute \<equiv> 60000000000"

text \<open>Truncating division of a duration.\<close>

definition whole :: "int \<Rightarrow> int \<Rightarrow> int" where
  "whole unit delay = (if delay < 0 then - ((- delay) div unit) else delay div unit)"

definition windows_shutdown :: "int \<Rightarrow> bool \<Rightarrow> string" where
  "windows_shutdown delay force =
     (let seconds = whole nanos_per_second delay;
          seconds = (if seconds < 0 then 0 else seconds);
          flag = (if force then ''/s /f'' else ''/s'') in
      ''shutdown.exe '' @ flag @ '' /t '' @ itoa seconds)"

definition unix_shutdown :: "bool \<Rightarrow> int \<Rightarrow> bool \<Rightarrow> string" where
  "unix_shutdown sudo delay force =
     (let prefix = (if sudo then ''sudo '' else []) in
      if delay \<le> 0 then prefix @ ''shutdown -h now''
      else
        let minutes = whole nanos_per_minute delay;
            minutes = (if minutes < 1 then 1 else minutes) in
        prefix @ ''shutdown -h +'' @ itoa minutes)"

fun BuildShutdownCommand :: "driver \<Rightarrow> int \<Rightarrow> bool \<Rightarrow> string" where
  "BuildShutdownCommand WindowsDriver = windows_shutdown"
| "BuildShutdownCommand (LinuxDriver sudo) = unix_shutdown sudo"
| "BuildShutdownCommand (DarwinDriver sudo) = unix_shutdown sudo"

fun BuildCancelCommand :: "driver \<Rightarrow> string" where
  "BuildCancelCommand WindowsDriver = ''shutdown.exe /a''"
| "BuildCancelCommand (LinuxDriver sudo) = (if sudo then ''sudo shutdown -c'' else ''shutdown -c'')"
| "BuildCancelCommand (DarwinDriver sudo) = (if sudo then ''sudo killall shutdown'' else ''killall shutdown'')"

definition NewDriver :: "string \<Rightarrow> bool \<Rightarrow> driver" where
  "NewDriver platform useSudo =
     (let p = NormalizePlatform platform in
      if p = PlatformWindows then WindowsDriver
      else if p = PlatformDarwin then DarwinDriver useSudo
      else if p = PlatformLinux then LinuxDriver useSudo
      else LinuxDriver useSudo)"

section \<open>Requests\<close>

datatype action = ActionShutdownNow | ActionSchedule | ActionCancel

record power_target =
  po_device_id :: string
  po_device_name :: string
  po_host :: string
  po_port :: int
  po_user :: string
  po_key :: string
  po_platform :: string
  po_sudo :: bool

record power_request =
  rq_target :: power_target
  rq_delay :: int
  rq_cancel :: bool
  rq_force :: bool

record power_result =
  pw_target :: power_target
  pw_action :: action
  pw_command :: string
  pw_output :: string
  pw_delay :: int
  pw_scheduled :: "int option"

type_synonym ssh_runner = "power_target \<Rightarrow> string \<Rightarrow> string \<times> error option"

definition unsafe_char :: "char \<Rightarrow> bool" where
  "unsafe_char c \<longleftrightarrow> code c \<in> {39, 34, 59, 38, 124, 36, 96, 92, 60, 62, 10, 13}"

definition safeSSHToken_power :: "string \<Rightarrow> bool" where
  "safeSSHToken_power val \<longleftrightarrow> val \<noteq> [] \<and> \<not> has_prefix val ''-'' \<and>
     list_all (\<lambda>c. \<not> (code c \<le> 32 \<or> unsafe_char c)) val"

definition safeSSHPath :: "string \<Rightarrow> bool" where
  "safeSSHPath val \<longleftrightarrow> val \<noteq> [] \<and> \<not> has_prefix val ''-'' \<and>
     list_all (\<lambda>c. \<not> (code c < 32 \<or> (unsafe_char c \<and> code c \<noteq> 92))) val"

text \<open>The checks before anything is run.\<close>

definition validate_request :: "power_request \<Rightarrow> string result" where
  "validate_request rq =
     (let t = rq_target rq; platform = NormalizePlatform (po_platform t) in
      if trim_space (po_host t) = [] then Inl (Errorf ''remote target host cannot be empty'')
      else if \<not> safeSSHToken_power (po_host t)
      then Inl (Errorf ''remote target host contains unsafe characters'')
      else if po_user t \<noteq> [] \<and> \<not> safeSSHToken_power (po_user t)
      then Inl (Errorf ''remote target user contains unsafe characters'')
      else if platform = [] then Inl (Errorf ''target platform must be windows, linux, or darwin'')
      else if rq_force rq \<and> platform \<noteq> PlatformWindows
      then Inl (Errorf ''force is only supported on Windows'')
      else if rq_delay rq > 0 \<and> \<not> rq_cancel rq \<and> platform = PlatformWindows \<and> whole nanos_per_second (rq_delay rq) < 1
      then Inl (Errorf ''windows delay must be at least 1s'')
      else if rq_delay rq > 0 \<and> \<not> rq_cancel rq \<and> platform \<noteq> PlatformWindows \<and>
        (rq_delay rq < nanos_per_minute \<or> rq_delay rq mod nanos_per_minute \<noteq> 0)
      then Inl (Errorf ''linux/darwin delay must be a whole number of minutes (e.g. 15m, 1h)'')
      else Inr platform)"

definition choose_command :: "driver \<Rightarrow> power_request \<Rightarrow> int \<Rightarrow> action \<times> string \<times> int option" where
  "choose_command driver rq now =
     (if rq_cancel rq then (ActionCancel, BuildCancelCommand driver, None)
      else if rq_delay rq > 0
      then (ActionSchedule, BuildShutdownCommand driver (rq_delay rq) (rq_force rq), Some (now + rq_delay rq))
      else (ActionShutdownNow, BuildShutdownCommand driver 0 (rq_force rq), None))"

definition Execute :: "ssh_runner \<Rightarrow> int \<Rightarrow> power_request \<Rightarrow> power_result option \<times> error option" where
  "Execute runner now rq =
     (case validate_request rq of
        Inl e \<Rightarrow> (None, Some e)
      | Inr platform \<Rightarrow>
          (case choose_command (NewDriver platform (po_sudo (rq_target rq))) rq now of
             (action, command, scheduled) \<Rightarrow>
               (case runner (rq_target rq) command of
                  (out, err) \<Rightarrow>
                    (Some \<lparr>pw_target = rq_target rq, pw_action = action, pw_command = command,
                       pw_output = trim_space out, pw_delay = rq_delay rq, pw_scheduled = scheduled\<rparr>, err))))"

section \<open>Running ssh\<close>

definition ssh_args :: "power_target \<Rightarrow> string \<Rightarrow> (string list) result" where
  "ssh_args t command =
     (let port = (if po_port t \<le> 0 then 22 else po_port t);
          destination = (if po_user t \<noteq> [] then trim_space (po_user t) @ ''@'' @ trim_space (po_host t)
            else trim_space (po_host t));
          args = [''-o'', ''BatchMode=yes'', ''-o'', ''ConnectTimeout=5'', ''-p'', itoa port];
          keyPath = trim_space (po_key t) in
      if po_key t \<noteq> [] \<and> (has_prefix keyPath ''-'' \<or> \<not> safeSSHPath keyPath)
      then Inl (Errorf ''unsafe ssh key path'')
      else Inr (args @ (if po_key t \<noteq> [] then [''-i'', keyPath] else []) @ [''--'', destination, command]))"

definition DefaultSSHRunner :: "(string list \<Rightarrow> string \<times> error option) \<Rightarrow> ssh_runner" where
  "DefaultSSHRunner run t command =
     (case ssh_args t command of
        Inl e \<Rightarrow> ([], Some e)
      | Inr args \<Rightarrow>
          (case run args of
             (output, None) \<Rightarrow> (trim_space output, None)
           | (output, Some e) \<Rightarrow>
               let outStr = trim_space output in
               if outStr \<noteq> []
               then (outStr, Some (Errorf (''ssh execution failed: '' @ outStr @ '' ('' @ error_text e @ '')'')))
               else ([], Some (Wrapf ''ssh execution failed'' e))))"

section \<open>The contract of a driver\<close>

text \<open>
  A driver's commands are made of letters, digits, blanks and the characters of options, and a
  scheduled command carries the delay in the driver's unit.
\<close>

definition plain_char :: "char \<Rightarrow> bool" where
  "plain_char c \<longleftrightarrow> is_alnum c \<or> c \<in> {CHR '' '', CHR ''.'', CHR ''/'', CHR ''+'', CHR ''-''}"

lemma plain_append [simp]: "list_all plain_char (a @ b) \<longleftrightarrow> list_all plain_char a \<and> list_all plain_char b"
  by (rule list_all_append)

lemma plain_digit: "n < 10 \<Longrightarrow> plain_char (digit_char n)"
  by (simp add: plain_char_def is_alnum_def is_digit_def digit_char_def)

lemma plain_dec_digits: "list_all plain_char (dec_digits n)"
  by (induction n rule: dec_digits.induct) (subst dec_digits.simps, simp add: plain_digit)

lemma plain_itoa: "list_all plain_char (itoa n)"
  using plain_dec_digits by (simp add: itoa_def plain_char_def [of "CHR ''-''"])

locale power_driver =
  fixes build :: "int \<Rightarrow> bool \<Rightarrow> string" and cancel :: string and unit :: int and scheduled :: "int \<Rightarrow> bool \<Rightarrow> string"
  assumes plain_build: "list_all plain_char (build delay force)"
    and plain_cancel: "list_all plain_char cancel"
    and unit_positive: "0 < unit"
    and build_scheduled: "unit \<le> delay \<Longrightarrow> build delay force = scheduled (delay div unit) force"
begin

text \<open>A whole number of units is passed on exactly; otherwise less than a unit is lost.\<close>

lemma exact_schedule:
  assumes "unit \<le> delay"
  shows "\<exists>n \<ge> 1. build delay force = scheduled n force \<and> n * unit \<le> delay \<and> delay < (n + 1) * unit"
proof (intro exI conjI)
  show "1 \<le> delay div unit" using assms pos_imp_zdiv_pos_iff [OF unit_positive, of delay] by simp
  show "build delay force = scheduled (delay div unit) force" by (rule build_scheduled [OF assms])
  have eq: "delay = delay div unit * unit + delay mod unit" by (rule div_mult_mod_eq [symmetric])
  have rest: "0 \<le> delay mod unit" "delay mod unit < unit" using unit_positive by simp_all
  show "delay div unit * unit \<le> delay" using eq rest by linarith
  show "delay < (delay div unit + 1) * unit" unfolding distrib_right using eq rest by linarith
qed

end

definition windows_scheduled :: "int \<Rightarrow> bool \<Rightarrow> string" where
  "windows_scheduled n force = ''shutdown.exe '' @ (if force then ''/s /f'' else ''/s'') @ '' /t '' @ itoa n"

definition unix_scheduled :: "bool \<Rightarrow> int \<Rightarrow> bool \<Rightarrow> string" where
  "unix_scheduled sudo n force = (if sudo then ''sudo '' else []) @ ''shutdown -h +'' @ itoa n"

lemma plain_words:
  "list_all plain_char ''shutdown.exe ''" "list_all plain_char ''/s /f''" "list_all plain_char ''/s''"
  "list_all plain_char '' /t ''" "list_all plain_char ''sudo ''" "list_all plain_char ''shutdown -h now''"
  "list_all plain_char ''shutdown -h +''" "list_all plain_char ''shutdown.exe /a''"
  "list_all plain_char ''sudo shutdown -c''" "list_all plain_char ''shutdown -c''"
  "list_all plain_char ''sudo killall shutdown''" "list_all plain_char ''killall shutdown''"
  by code_simp+

lemma whole_div: "0 < u \<Longrightarrow> u \<le> d \<Longrightarrow> whole u d = d div u \<and> 1 \<le> d div u"
  using pos_imp_zdiv_pos_iff [of u d] by (simp add: whole_def)

lemma windows_plain: "list_all plain_char (windows_shutdown delay force)"
  unfolding windows_shutdown_def Let_def plain_append using plain_words plain_itoa by auto

lemma unix_plain: "list_all plain_char (unix_shutdown sudo delay force)"
  unfolding unix_shutdown_def Let_def using plain_words plain_itoa by auto

interpretation windows_driver: power_driver "BuildShutdownCommand WindowsDriver" "BuildCancelCommand WindowsDriver"
  nanos_per_second windows_scheduled
  using whole_div [of nanos_per_second] plain_words windows_plain
  by unfold_locales (auto simp: windows_shutdown_def windows_scheduled_def Let_def)

interpretation linux_driver: power_driver "BuildShutdownCommand (LinuxDriver sudo)" "BuildCancelCommand (LinuxDriver sudo)"
  nanos_per_minute "unix_scheduled sudo"
  using whole_div [of nanos_per_minute] plain_words unix_plain
  by unfold_locales (auto simp: unix_shutdown_def unix_scheduled_def Let_def)

interpretation darwin_driver: power_driver "BuildShutdownCommand (DarwinDriver sudo)" "BuildCancelCommand (DarwinDriver sudo)"
  nanos_per_minute "unix_scheduled sudo"
  using whole_div [of nanos_per_minute] plain_words unix_plain
  by unfold_locales (auto simp: unix_shutdown_def unix_scheduled_def Let_def)

section \<open>What Execute runs\<close>

lemma platforms_fixed:
  "NormalizePlatform PlatformWindows = PlatformWindows" "NormalizePlatform PlatformLinux = PlatformLinux"
  "NormalizePlatform PlatformDarwin = PlatformDarwin"
  by code_simp+

lemma platforms_distinct:
  "PlatformWindows \<noteq> PlatformLinux" "PlatformWindows \<noteq> PlatformDarwin" "PlatformLinux \<noteq> PlatformDarwin"
  "PlatformWindows \<noteq> []" "PlatformLinux \<noteq> []" "PlatformDarwin \<noteq> []"
  by (simp_all add: PlatformWindows_def PlatformLinux_def PlatformDarwin_def)

lemma NormalizePlatform_range: "NormalizePlatform v \<in> {PlatformWindows, PlatformLinux, PlatformDarwin, []}"
  by (simp add: NormalizePlatform_def Let_def)

lemma validate_request_Inr:
  assumes "validate_request rq = Inr p"
  shows "p = NormalizePlatform (po_platform (rq_target rq))" and "p \<noteq> []"
    and "safeSSHToken_power (po_host (rq_target rq))"
    and "po_user (rq_target rq) = [] \<or> safeSSHToken_power (po_user (rq_target rq))"
    and "rq_force rq \<Longrightarrow> p = PlatformWindows"
    and "0 < rq_delay rq \<Longrightarrow> \<not> rq_cancel rq \<Longrightarrow> p = PlatformWindows \<Longrightarrow> 1 \<le> whole nanos_per_second (rq_delay rq)"
    and "0 < rq_delay rq \<Longrightarrow> \<not> rq_cancel rq \<Longrightarrow> p \<noteq> PlatformWindows \<Longrightarrow>
      nanos_per_minute \<le> rq_delay rq \<and> rq_delay rq mod nanos_per_minute = 0"
  using assms by (auto simp: validate_request_def Let_def split: if_splits)

lemma NewDriver_of: "NewDriver PlatformWindows sudo = WindowsDriver" "NewDriver PlatformLinux sudo = LinuxDriver sudo"
  "NewDriver PlatformDarwin sudo = DarwinDriver sudo"
  using platforms_distinct by (simp_all add: NewDriver_def platforms_fixed)

text \<open>What a request asks for, in the terms of its platform.\<close>

definition asked_windows :: "power_request \<Rightarrow> string \<Rightarrow> bool" where
  "asked_windows rq command \<longleftrightarrow>
     (if rq_cancel rq then command = ''shutdown.exe /a''
      else \<exists>n \<ge> 0. command = windows_scheduled n (rq_force rq) \<and>
        (if rq_delay rq > 0 then 1 \<le> n \<and> n * nanos_per_second \<le> rq_delay rq \<and> rq_delay rq < (n + 1) * nanos_per_second
         else n = 0))"

definition asked_unix :: "string \<Rightarrow> power_request \<Rightarrow> string \<Rightarrow> bool" where
  "asked_unix abort rq command \<longleftrightarrow>
     (let sudo = (if po_sudo (rq_target rq) then ''sudo '' else []) in
      if rq_cancel rq then command = sudo @ abort
      else if rq_delay rq > 0 then \<exists>n \<ge> 1. command = sudo @ ''shutdown -h +'' @ itoa n \<and> n * nanos_per_minute = rq_delay rq
      else command = sudo @ ''shutdown -h now'')"

lemma driver_plain: "list_all plain_char (BuildShutdownCommand d delay force)" "list_all plain_char (BuildCancelCommand d)"
  using windows_driver.plain_build windows_driver.plain_cancel linux_driver.plain_build
    linux_driver.plain_cancel darwin_driver.plain_build darwin_driver.plain_cancel
  by (cases d; blast)+

lemma choose_command_plain:
  assumes "choose_command driver rq now = (a, command, at)"
  shows "list_all plain_char command"
  using assms driver_plain [of driver] by (auto simp: choose_command_def split: if_splits)

lemma choose_windows:
  assumes "choose_command WindowsDriver rq now = (a, command, at)"
    and "0 < rq_delay rq \<Longrightarrow> \<not> rq_cancel rq \<Longrightarrow> 1 \<le> whole nanos_per_second (rq_delay rq)"
  shows "asked_windows rq command"
proof (cases "0 < rq_delay rq \<and> \<not> rq_cancel rq")
  case True
  then have "nanos_per_second \<le> rq_delay rq"
    using assms(2) pos_imp_zdiv_pos_iff [of nanos_per_second "rq_delay rq"] by (simp add: whole_def)
  from windows_driver.exact_schedule [OF this, of "rq_force rq"] obtain n where "1 \<le> n"
    and "BuildShutdownCommand WindowsDriver (rq_delay rq) (rq_force rq) = windows_scheduled n (rq_force rq)"
    and "n * nanos_per_second \<le> rq_delay rq" and "rq_delay rq < (n + 1) * nanos_per_second"
    by blast
  then show ?thesis
    using assms(1) True by (auto simp: choose_command_def asked_windows_def intro!: exI [of _ n])
next
  case False
  then show ?thesis using assms(1)
    by (auto simp: choose_command_def asked_windows_def windows_shutdown_def windows_scheduled_def whole_def)
qed

lemma choose_unix:
  assumes "choose_command driver rq now = (a, command, at)"
    and "driver = LinuxDriver (po_sudo (rq_target rq)) \<and> abort = ''shutdown -c'' \<or>
      driver = DarwinDriver (po_sudo (rq_target rq)) \<and> abort = ''killall shutdown''"
    and "0 < rq_delay rq \<Longrightarrow> \<not> rq_cancel rq \<Longrightarrow>
      nanos_per_minute \<le> rq_delay rq \<and> rq_delay rq mod nanos_per_minute = 0"
  shows "asked_unix abort rq command"
proof -
  have now: "command = (if po_sudo (rq_target rq) then ''sudo '' else []) @ ''shutdown -h now''"
    if "\<not> rq_cancel rq" "\<not> rq_delay rq > 0"
    using that assms(1,2) by (auto simp: choose_command_def unix_shutdown_def)
  have cancel: "command = (if po_sudo (rq_target rq) then ''sudo '' else []) @ abort" if "rq_cancel rq"
    using that assms(1,2) by (auto simp: choose_command_def)
  have later: "\<exists>n \<ge> 1. command = (if po_sudo (rq_target rq) then ''sudo '' else []) @ ''shutdown -h +'' @ itoa n \<and>
      n * nanos_per_minute = rq_delay rq" if "\<not> rq_cancel rq" "rq_delay rq > 0"
  proof (intro exI conjI)
    note d = assms(3) [OF that(2,1)]
    have w: "whole nanos_per_minute (rq_delay rq) = rq_delay rq div nanos_per_minute \<and> 1 \<le> rq_delay rq div nanos_per_minute"
      using whole_div [of nanos_per_minute "rq_delay rq"] d by simp
    then show "1 \<le> rq_delay rq div nanos_per_minute" ..
    show "rq_delay rq div nanos_per_minute * nanos_per_minute = rq_delay rq" using d by auto
    show "command = (if po_sudo (rq_target rq) then ''sudo '' else []) @ ''shutdown -h +'' @
        itoa (rq_delay rq div nanos_per_minute)"
      using that assms(1,2) w by (auto simp: choose_command_def unix_shutdown_def Let_def)
  qed
  show ?thesis using now cancel later by (simp add: asked_unix_def Let_def)
qed

lemma Execute_some:
  assumes "Execute runner now rq = (Some r, err)"
  obtains platform a command at where "validate_request rq = Inr platform"
    and "choose_command (NewDriver platform (po_sudo (rq_target rq))) rq now = (a, command, at)"
    and "pw_command r = command" and "err = snd (runner (rq_target rq) command)"
  using assms unfolding Execute_def by (auto split: sum.splits prod.splits)

text \<open>
  C36. The command that is run is the one that was asked for. It contains no character the remote
  shell would interpret. A cancellation runs the platform's abort command and never a shutdown;
  an immediate shutdown is immediate; a scheduled one carries the requested delay, exactly in
  minutes on Linux and macOS and rounded down to whole seconds, at least one, on Windows; force
  is passed on only to Windows. The error is the runner's.
\<close>

theorem Execute_runs_what_was_asked:
  assumes "Execute runner now rq = (Some r, err)"
  shows "list_all plain_char (pw_command r) \<and> err = snd (runner (rq_target rq) (pw_command r)) \<and>
    (let p = NormalizePlatform (po_platform (rq_target rq)) in
      (p = PlatformWindows \<and> asked_windows rq (pw_command r)) \<or>
      (p = PlatformLinux \<and> \<not> rq_force rq \<and> asked_unix ''shutdown -c'' rq (pw_command r)) \<or>
      (p = PlatformDarwin \<and> \<not> rq_force rq \<and> asked_unix ''killall shutdown'' rq (pw_command r)))"
proof -
  let ?sudo = "po_sudo (rq_target rq)"
  from assms obtain p a command at where v: "validate_request rq = Inr p"
    and ch: "choose_command (NewDriver p ?sudo) rq now = (a, command, at)"
    and r: "pw_command r = command" "err = snd (runner (rq_target rq) command)"
    by (rule Execute_some)
  note ok = validate_request_Inr [OF v]
  have p: "p = PlatformWindows \<or> p = PlatformLinux \<or> p = PlatformDarwin"
    using NormalizePlatform_range [of "po_platform (rq_target rq)"] ok(1,2) by auto
  have windows: "asked_windows rq command" if "p = PlatformWindows"
    using choose_windows [of rq now a command at] ch ok(6) that by (simp add: NewDriver_of)
  have linux: "asked_unix ''shutdown -c'' rq command" if "p = PlatformLinux"
    using choose_unix [OF ch, of "''shutdown -c''"] ok(7) that platforms_distinct by (simp add: NewDriver_of)
  have darwin: "asked_unix ''killall shutdown'' rq command" if "p = PlatformDarwin"
    using choose_unix [OF ch, of "''killall shutdown''"] ok(7) that platforms_distinct by (simp add: NewDriver_of)
  have force: "\<not> rq_force rq" if "p \<noteq> PlatformWindows" using ok(5) that by blast
  show ?thesis
    using p windows linux darwin force platforms_distinct choose_command_plain [OF ch] r ok(1)
    unfolding Let_def by metis
qed

definition linux_in_15_minutes :: power_request where
  "linux_in_15_minutes = \<lparr>rq_target = \<lparr>po_device_id = ''d1'', po_device_name = ''Desk'', po_host = ''192.168.1.20'',
     po_port = 0, po_user = ''me'', po_key = [], po_platform = ''Linux'', po_sudo = True\<rparr>,
     rq_delay = 900000000000, rq_cancel = False, rq_force = False\<rparr>"

definition quiet_runner :: ssh_runner where
  "quiet_runner t command = ([], None)"

lemma sample_execute:
  "Execute quiet_runner 0 linux_in_15_minutes =
    (Some \<lparr>pw_target = rq_target linux_in_15_minutes, pw_action = ActionSchedule, pw_command = ''sudo shutdown -h +15'',
       pw_output = [], pw_delay = 900000000000, pw_scheduled = Some 900000000000\<rparr>, None)"
  by code_simp

theorem Execute_runs_what_was_asked_witness:
  "\<exists>r. Execute quiet_runner 0 linux_in_15_minutes = (Some r, None) \<and>
     pw_command r = ''sudo shutdown -h +15'' \<and> list_all plain_char (pw_command r)"
  using sample_execute Execute_runs_what_was_asked [OF sample_execute] by simp

section \<open>The ssh command line\<close>

lemma set_strip: "set (strip ws n s) \<subseteq> set s"
  using strip_suffix [of s ws n] by (metis set_append Un_upper2)

lemma set_trim_space: "set (trim_space s) \<subseteq> set s"
  unfolding trim_space_def trim_right_def trim_left_def using set_strip by (metis (no_types, lifting) set_rev subset_trans)

definition safe_char :: "char \<Rightarrow> bool" where
  "safe_char c \<longleftrightarrow> 32 < code c \<and> \<not> unsafe_char c"

lemma token_power_safe: "safeSSHToken_power v \<Longrightarrow> list_all safe_char (trim_space v)"
  using set_trim_space [of v] unfolding safeSSHToken_power_def list_all_iff safe_char_def not_le [symmetric] by blast



end
