(* ===== verification/Version.thy ===== *)
theory Version
  imports GoBase "HOL-Library.Product_Lexorder"
begin

text \<open>
  Version comparison of \<open>internal/updater/updater.go\<close>: \<open>CleanVersion\<close>, \<open>CompareVersions\<close> and its
  prerelease part. The reference is a key in a linear order, the precedence of SemVer 2.0 without
  build metadata: the comparison is the order of the keys, hence a total preorder.
\<close>

section \<open>The comparison as written\<close>

definition CleanVersion :: "string \<Rightarrow> string" where
  "CleanVersion v = trim_prefix (trim_prefix (trim_space v) ''v'') ''V''"

text \<open>\<open>strings.Index(v, "-")\<close> and the two parts around it.\<close>

definition splitPreRelease :: "string \<Rightarrow> string \<times> string" where
  "splitPreRelease v = (case cut_char (CHR ''-'') v of (a, b, ok) \<Rightarrow> if ok then (a, b) else (v, []))"

text \<open>\<open>cmp.Compare\<close> and \<open>strings.Compare\<close>.\<close>

definition go_compare :: "'a :: linorder \<Rightarrow> 'a \<Rightarrow> int" where
  "go_compare x y = (if x < y then - 1 else if x > y then 1 else 0)"

text \<open>The loop over the numbers of the base versions; a missing number counts as 0.\<close>

definition part_number :: "string \<Rightarrow> int" where
  "part_number p = fst (atoi p)"

fun compare_bases :: "string list \<Rightarrow> string list \<Rightarrow> int" where
  "compare_bases [] [] = 0"
| "compare_bases (a # as) [] =
     (if part_number a < 0 then - 1 else if part_number a > 0 then 1 else compare_bases as [])"
| "compare_bases [] (b # bs) =
     (if 0 < part_number b then - 1 else if 0 > part_number b then 1 else compare_bases [] bs)"
| "compare_bases (a # as) (b # bs) =
     (if part_number a < part_number b then - 1
      else if part_number a > part_number b then 1 else compare_bases as bs)"

definition compare_identifiers :: "string \<Rightarrow> string \<Rightarrow> int" where
  "compare_identifiers a b =
     (case (atoi a, atoi b) of
        ((leftNumber, None), (rightNumber, None)) \<Rightarrow> go_compare leftNumber rightNumber
      | ((_, None), _) \<Rightarrow> - 1
      | (_, (_, None)) \<Rightarrow> 1
      | _ \<Rightarrow> go_compare a b)"

fun compare_lists :: "string list \<Rightarrow> string list \<Rightarrow> int" where
  "compare_lists (a # as) (b # bs) =
     (if compare_identifiers a b \<noteq> 0 then compare_identifiers a b else compare_lists as bs)"
| "compare_lists as bs = go_compare (length as) (length bs)"

definition comparePreRelease :: "string \<Rightarrow> string \<Rightarrow> int" where
  "comparePreRelease a b = compare_lists (split_char (CHR ''.'') a) (split_char (CHR ''.'') b)"

definition CompareVersions :: "string \<Rightarrow> string \<Rightarrow> int" where
  "CompareVersions v1 v2 =
     (let c1 = CleanVersion v1; c2 = CleanVersion v2 in
      if c1 = c2 then 0
      else if c1 = [] then - 1
      else if c2 = [] then 1
      else
        (case (splitPreRelease c1, splitPreRelease c2) of
           ((base1, pre1), (base2, pre2)) \<Rightarrow>
             let order = compare_bases (split_char (CHR ''.'') base1) (split_char (CHR ''.'') base2) in
             if order \<noteq> 0 then order
             else if pre1 \<noteq> [] \<and> pre2 = [] then - 1
             else if pre1 = [] \<and> pre2 \<noteq> [] then 1
             else comparePreRelease pre1 pre2))"

section \<open>The order of the keys\<close>

text \<open>A numeric identifier ranks below an alphanumeric one.\<close>

datatype ident = Numeric int | Alphanumeric string

instantiation ident :: linorder
begin

fun less_eq_ident :: "ident \<Rightarrow> ident \<Rightarrow> bool" where
  "less_eq_ident (Numeric i) (Numeric j) = (i \<le> j)"
| "less_eq_ident (Numeric i) (Alphanumeric t) = True"
| "less_eq_ident (Alphanumeric s) (Numeric j) = False"
| "less_eq_ident (Alphanumeric s) (Alphanumeric t) = (s \<le> t)"

definition less_ident :: "ident \<Rightarrow> ident \<Rightarrow> bool" where
  "less_ident a b = (a \<le> b \<and> \<not> b \<le> a)"

instance
proof
  fix a b c :: ident
  show "a < b \<longleftrightarrow> a \<le> b \<and> \<not> b \<le> a" by (rule less_ident_def)
  show "a \<le> a" by (cases a) simp_all
  show "a \<le> b \<or> b \<le> a" by (cases a; cases b) auto
  show "a = b" if "a \<le> b" "b \<le> a" using that by (cases a; cases b) auto
  show "a \<le> c" if "a \<le> b" "b \<le> c" using that by (cases a; cases b; cases c) auto
qed

end

text \<open>A version with a prerelease ranks below the same version without one.\<close>

datatype stage = Prerelease "ident list" | Released

instantiation stage :: linorder
begin

fun less_eq_stage :: "stage \<Rightarrow> stage \<Rightarrow> bool" where
  "less_eq_stage (Prerelease a) (Prerelease b) = (a \<le> b)"
| "less_eq_stage (Prerelease a) Released = True"
| "less_eq_stage Released (Prerelease b) = False"
| "less_eq_stage Released Released = True"

definition less_stage :: "stage \<Rightarrow> stage \<Rightarrow> bool" where
  "less_stage a b = (a \<le> b \<and> \<not> b \<le> a)"

instance
proof
  fix a b c :: stage
  show "a < b \<longleftrightarrow> a \<le> b \<and> \<not> b \<le> a" by (rule less_stage_def)
  show "a \<le> a" by (cases a) simp_all
  show "a \<le> b \<or> b \<le> a" by (cases a; cases b) auto
  show "a = b" if "a \<le> b" "b \<le> a" using that by (cases a; cases b) auto
  show "a \<le> c" if "a \<le> b" "b \<le> c" using that by (cases a; cases b; cases c) auto
qed

end

lemma ident_less:
  "Numeric i < Numeric j \<longleftrightarrow> i < j" "Numeric i < Alphanumeric t" "\<not> Alphanumeric s < Numeric j"
  "Alphanumeric s < Alphanumeric t \<longleftrightarrow> s < t"
  by (auto simp: less_ident_def)

lemma stage_less:
  "Prerelease a < Prerelease b \<longleftrightarrow> a < b" "Prerelease a < Released" "\<not> Released < Prerelease b" "\<not> Released < Released"
  by (auto simp: less_stage_def)

fun strip_zeros :: "int list \<Rightarrow> int list" where
  "strip_zeros [] = []"
| "strip_zeros (x # xs) = (if x = 0 \<and> strip_zeros xs = [] then [] else x # strip_zeros xs)"

definition ident_of :: "string \<Rightarrow> ident" where
  "ident_of s = (case atoi s of (n, None) \<Rightarrow> Numeric n | (_, Some _) \<Rightarrow> Alphanumeric s)"

definition stage_of :: "string \<Rightarrow> stage" where
  "stage_of pre = (if pre = [] then Released else Prerelease (map ident_of (split_char (CHR ''.'') pre)))"

text \<open>The empty version ranks first.\<close>

definition version_key :: "string \<Rightarrow> bool \<times> int list \<times> stage" where
  "version_key v =
     (let c = CleanVersion v in
      if c = [] then (False, [], Released)
      else (True, strip_zeros (map part_number (split_char (CHR ''.'') (fst (splitPreRelease c)))),
        stage_of (snd (splitPreRelease c))))"

section \<open>The comparison is the order of the keys\<close>

text \<open>What callers rely on: a three-way comparison that orders totally.\<close>

locale three_way =
  fixes compare :: "'a \<Rightarrow> 'a \<Rightarrow> int"
  assumes range: "compare x y \<in> {- 1, 0, 1}"
    and swap: "compare y x = - compare x y"
    and le_trans: "compare x y \<le> 0 \<Longrightarrow> compare y z \<le> 0 \<Longrightarrow> compare x z \<le> 0"
begin

lemma same: "compare x x = 0"
  using swap [of x x] by simp

lemma less_le_trans: "compare x y < 0 \<Longrightarrow> compare y z \<le> 0 \<Longrightarrow> compare x z < 0"
  using le_trans [of x y z] le_trans [of y z x] swap [of x y] swap [of x z] by fastforce

lemma less_iff_not_le: "compare x y < 0 \<longleftrightarrow> \<not> compare y x \<le> 0"
  using swap [of x y] by linarith

text \<open>An older version never looks newer: upgrades do not cycle.\<close>

lemma no_cycle: "compare x y < 0 \<Longrightarrow> \<not> compare y x < 0"
  using swap [of x y] by simp

end

lemma go_compare_three_way: "three_way (\<lambda>x y. go_compare (f x) (f y))"
  by unfold_locales (auto simp: go_compare_def split: if_splits)

lemma go_compare_zero [simp]: "go_compare x y = 0 \<longleftrightarrow> x = y"
  by (auto simp: go_compare_def)

lemma go_compare_refl [simp]: "go_compare x x = 0"
  by simp

lemma go_compare_Cons:
  "go_compare (x # xs) (y # ys) = (if go_compare x y \<noteq> 0 then go_compare x y else go_compare xs ys)"
  by (auto simp: go_compare_def)

lemma go_compare_Pair:
  "go_compare (a, b) (c, d) = (if go_compare a c \<noteq> 0 then go_compare a c else go_compare b d)"
  by (auto simp: go_compare_def less_prod_def')

lemma compare_identifiers_key: "compare_identifiers a b = go_compare (ident_of a) (ident_of b)"
proof -
  obtain i e where a: "atoi a = (i, e)" by fastforce
  obtain j f where b: "atoi b = (j, f)" by fastforce
  have number: "go_compare (Numeric i) (Numeric j) = go_compare i j" by (simp add: go_compare_def ident_less)
  have word: "go_compare (Alphanumeric a) (Alphanumeric b) = go_compare a b" by (simp add: go_compare_def ident_less)
  have mixed: "go_compare (Numeric i) (Alphanumeric b) = - 1" "go_compare (Alphanumeric a) (Numeric j) = 1"
    by (simp_all add: go_compare_def ident_less)
  show ?thesis using a b number word mixed
    by (cases e; cases f) (simp_all add: compare_identifiers_def ident_of_def)
qed

lemma Nil_less_iff [simp]: "[] < (xs :: 'a :: linorder list) \<longleftrightarrow> xs \<noteq> []"
  by (cases xs) simp_all

lemma compare_lists_key: "compare_lists as bs = go_compare (map ident_of as) (map ident_of bs)"
  by (induction as bs rule: compare_lists.induct)
    (simp_all add: compare_identifiers_key go_compare_Cons, auto simp: go_compare_def)

lemma strip_zeros_Nil: "go_compare [] (strip_zeros ys) = - go_compare (strip_zeros ys) []"
  by (simp add: go_compare_def)

lemma compare_bases_key:
  "\<forall>p \<in> set as. 0 \<le> part_number p \<Longrightarrow> \<forall>p \<in> set bs. 0 \<le> part_number p \<Longrightarrow>
    compare_bases as bs = go_compare (strip_zeros (map part_number as)) (strip_zeros (map part_number bs))"
proof (induction as bs rule: compare_bases.induct)
  case (4 a as b bs)
  then show ?case
    by (cases "strip_zeros (map part_number as)"; cases "strip_zeros (map part_number bs)")
      (auto simp: go_compare_def split: if_splits)
qed (auto simp: go_compare_def)

text \<open>A base has no hyphen, so its numbers are not negative.\<close>

lemma atoi_nonneg: "CHR ''-'' \<notin> set s \<Longrightarrow> 0 \<le> fst (atoi s)"
  by (cases s) (auto simp: atoi_def Let_def split: sum.splits num_error.splits)

lemma cut_char_before: "cut_char d s = (a, b, ok) \<Longrightarrow> d \<notin> set a"
  by (induction s arbitrary: a b ok) (auto split: if_splits prod.splits)

lemma cut_char_missing: "cut_char d s = (a, b, False) \<Longrightarrow> a = s \<and> b = []"
  by (induction s arbitrary: a b) (auto split: if_splits prod.splits)

lemma base_without_hyphen: "CHR ''-'' \<notin> set (fst (splitPreRelease v))"
  using cut_char_before [of "CHR ''-''" v] cut_char_missing [of "CHR ''-''" v]
  by (auto simp: splitPreRelease_def split: prod.splits)

lemma split_char_subset: "p \<in> set (split_char d s) \<Longrightarrow> set p \<subseteq> set s"
proof (induction s arbitrary: p)
  case (Cons c cs)
  show ?case
  proof
    fix x assume x: "x \<in> set p"
    obtain q qs where q: "split_char d cs = q # qs" using split_char_nonempty by (metis neq_Nil_conv)
    have "p = [] \<or> p = c # q \<or> p \<in> set (split_char d cs)" using Cons.prems q by (auto split: if_splits)
    then show "x \<in> set (c # cs)" using x Cons.IH [of p] Cons.IH [of q] q by auto
  qed
qed simp

lemma base_numbers: "p \<in> set (split_char d (fst (splitPreRelease v))) \<Longrightarrow> 0 \<le> part_number p"
  using split_char_subset base_without_hyphen unfolding part_number_def by (intro atoi_nonneg) blast

lemma comparePreRelease_key:
  assumes "pre1 = [] \<longleftrightarrow> pre2 = []"
  shows "comparePreRelease pre1 pre2 = go_compare (stage_of pre1) (stage_of pre2)"
proof (cases "pre1 = []")
  case True
  with assms show ?thesis by (simp add: comparePreRelease_def stage_of_def compare_lists_key)
next
  case False
  with assms show ?thesis
    by (simp add: comparePreRelease_def stage_of_def compare_lists_key) (simp add: go_compare_def stage_less)
qed

lemma CompareVersions_by_key: "CompareVersions v1 v2 = go_compare (version_key v1) (version_key v2)"
proof -
  define c1 c2 where c: "c1 = CleanVersion v1" "c2 = CleanVersion v2"
  show ?thesis
  proof (cases "c1 = c2 \<or> c1 = [] \<or> c2 = []")
    case True
    then show ?thesis unfolding CompareVersions_def version_key_def c [symmetric] Let_def
      by (auto simp: go_compare_Pair) (auto simp: go_compare_def)
  next
    case False
    obtain b1 p1 b2 p2 where s: "splitPreRelease c1 = (b1, p1)" "splitPreRelease c2 = (b2, p2)" by fastforce
    let ?d = "CHR ''.''"
    let ?order = "compare_bases (split_char ?d b1) (split_char ?d b2)"
    have bases: "?order = go_compare (strip_zeros (map part_number (split_char ?d b1))) (strip_zeros (map part_number (split_char ?d b2)))"
      using base_numbers [of _ ?d c1] base_numbers [of _ ?d c2] s by (intro compare_bases_key) auto
    have stages: "(if p1 \<noteq> [] \<and> p2 = [] then - 1 else if p1 = [] \<and> p2 \<noteq> [] then 1 else comparePreRelease p1 p2) =
      go_compare (stage_of p1) (stage_of p2)"
      using comparePreRelease_key [of p1 p2] by (auto simp: stage_of_def stage_less go_compare_def)
    have "CompareVersions v1 v2 = (if ?order \<noteq> 0 then ?order else go_compare (stage_of p1) (stage_of p2))"
      using False unfolding CompareVersions_def c [symmetric] Let_def s stages [symmetric] by simp
    also have "\<dots> = go_compare (version_key v1) (version_key v2)"
      using False unfolding version_key_def c [symmetric] Let_def s bases by (simp add: go_compare_Pair)
    finally show ?thesis .
  qed
qed

interpretation version: three_way CompareVersions
  unfolding CompareVersions_by_key by (rule go_compare_three_way)

lemma sample_keys:
  "version_key '' v1.20.0-rc.2'' = (True, [1, 20], Prerelease [Alphanumeric ''rc'', Numeric 2])"
  "version_key ''V1.20'' = (True, [1, 20], Released)" "version_key ''v'' = (False, [], Released)"
  by code_simp+

text \<open>
  C38. Comparing two versions compares their keys: first the dotted numbers, missing ones being 0,
  then the stage, in which a prerelease precedes its release and prereleases are ordered
  identifier by identifier, numbers before words and a shorter list before a longer one. Swapping the
  versions swaps the answer.
\<close>

theorem CompareVersions_order:
  "CompareVersions v1 v2 = go_compare (version_key v1) (version_key v2) \<and>
   CompareVersions v1 v2 \<in> {- 1, 0, 1} \<and> CompareVersions v2 v1 = - CompareVersions v1 v2"
  using CompareVersions_by_key version.range version.swap by blast

end
