(* ===== verification/Assets.thy ===== *)
theory Assets
  imports GoBase
begin

text \<open>
  Release assets of \<open>internal/updater\<close>: the choice of the archive for a platform (\<open>MatchAsset\<close> in
  \<open>updater.go\<close>) and the checksum manifest (\<open>checksumForAsset\<close> in \<open>checksum.go\<close>). Downloaded bytes
  are strings.
\<close>

record asset =
  as_name :: string
  as_size :: int
  as_url :: string

section \<open>Choosing an archive\<close>

definition osSynonyms :: "(string \<times> string list) list" where
  "osSynonyms =
    [(''darwin'', [''darwin'', ''macos'', ''osx'']),
     (''linux'', [''linux'']),
     (''windows'', [''windows'', ''win'', ''win32'', ''win64''])]"

definition archSynonyms :: "(string \<times> string list) list" where
  "archSynonyms =
    [(''arm64'', [''arm64'', ''aarch64'']),
     (''amd64'', [''amd64'', ''x86_64'', ''x64'']),
     (''386'', [''386'', ''i386'', ''x86'']),
     (''arm'', [''arm'', ''armv7'', ''armv6''])]"

definition wanted_terms :: "(string \<times> string list) list \<Rightarrow> string \<Rightarrow> string list" where
  "wanted_terms table key =
     (let terms = (case map_of table key of None \<Rightarrow> [] | Some l \<Rightarrow> l) in if terms = [] then [key] else terms)"

definition negative_terms :: "(string \<times> string list) list \<Rightarrow> string \<Rightarrow> string list" where
  "negative_terms table key = concat (map snd (filter (\<lambda>(k, l). k \<noteq> key) table))"

definition filenameTokens :: "string \<Rightarrow> string list" where
  "filenameTokens name = fields_by (\<lambda>r. r = CHR ''_'' \<or> r = CHR ''-'' \<or> r = CHR ''.'') [] (to_lower name)"

definition tokenContains :: "string list \<Rightarrow> string \<Rightarrow> bool" where
  "tokenContains tokens t \<longleftrightarrow> list_ex (\<lambda>tok. tok = t) tokens"

definition excluded_name :: "string \<Rightarrow> bool" where
  "excluded_name nameLower \<longleftrightarrow>
     has_suffix nameLower ''.sha256'' \<or> has_suffix nameLower ''.md5'' \<or> has_suffix nameLower ''.txt'' \<or>
     has_suffix nameLower ''.sig'' \<or> has_suffix nameLower ''.sbom''"

text \<open>One round of the loop: whether the asset is taken.\<close>

definition suitable :: "string \<Rightarrow> string \<Rightarrow> asset \<Rightarrow> bool" where
  "suitable targetOS targetArch a =
     (let nameLower = to_lower (as_name a); tokens = filenameTokens nameLower in
      if excluded_name nameLower then False
      else if \<not> list_ex (tokenContains tokens) (wanted_terms osSynonyms targetOS) then False
      else if list_ex (tokenContains tokens) (negative_terms osSynonyms targetOS) then False
      else if \<not> list_ex (tokenContains tokens) (wanted_terms archSynonyms targetArch) then False
      else if list_ex (tokenContains tokens) (negative_terms archSynonyms targetArch) then False
      else True)"

fun MatchAsset :: "asset list \<Rightarrow> string \<Rightarrow> string \<Rightarrow> asset option" where
  "MatchAsset [] targetOS targetArch = None"
| "MatchAsset (a # as) targetOS targetArch =
     (if suitable targetOS targetArch a then Some a else MatchAsset as targetOS targetArch)"

lemma MatchAsset_first:
  "MatchAsset as os arch = Some a \<Longrightarrow>
    \<exists>before after. as = before @ a # after \<and> suitable os arch a \<and> (\<forall>b \<in> set before. \<not> suitable os arch b)"
proof (induction as)
  case (Cons b bs)
  show ?case
  proof (cases "suitable os arch b")
    case True
    with Cons.prems have "a = b" by simp
    with True have "b # bs = [] @ a # bs \<and> suitable os arch a \<and> (\<forall>x \<in> set []. \<not> suitable os arch x)" by simp
    then show ?thesis by blast
  next
    case False
    with Cons obtain u v where "bs = u @ a # v" "suitable os arch a" "\<forall>x \<in> set u. \<not> suitable os arch x" by auto
    with False have "b # bs = (b # u) @ a # v \<and> suitable os arch a \<and> (\<forall>x \<in> set (b # u). \<not> suitable os arch x)" by simp
    then show ?thesis by blast
  qed
qed simp

text \<open>A term wanted for one key of a table conflicts with every other key.\<close>

lemma wanted_is_negative:
  assumes "distinct (map fst table)" and "(k, l) \<in> set table" and "l \<noteq> []" and "k \<noteq> key"
    and "t \<in> set (wanted_terms table k)"
  shows "t \<in> set (negative_terms table key)"
proof -
  have "map_of table k = Some l" using assms(1,2) by simp
  with assms show ?thesis by (force simp: wanted_terms_def negative_terms_def)
qed

lemma tables_ok:
  "distinct (map fst osSynonyms)" "distinct (map fst archSynonyms)"
  "list_all (\<lambda>(k, l). l \<noteq> []) osSynonyms" "list_all (\<lambda>(k, l). l \<noteq> []) archSynonyms"
  by code_simp+

lemma conflict:
  assumes "distinct (map fst table)" and "list_all (\<lambda>(k, l). l \<noteq> []) table" and "k \<in> fst ` set table"
    and "list_ex P (wanted_terms table k)" and "\<not> list_ex P (negative_terms table key)"
  shows "k = key"
proof (rule ccontr)
  assume "k \<noteq> key"
  obtain l where l: "(k, l) \<in> set table" using assms(3) by force
  with assms(2) have "l \<noteq> []" by (auto simp: list_all_iff)
  obtain t where "t \<in> set (wanted_terms table k)" "P t" using assms(4) by (auto simp: list_ex_iff)
  with wanted_is_negative [OF assms(1) l \<open>l \<noteq> []\<close> \<open>k \<noteq> key\<close>] assms(5) show False by (auto simp: list_ex_iff)
qed

lemma suitable_parts:
  assumes "suitable os arch a"
  shows "\<not> excluded_name (to_lower (as_name a))"
    and "list_ex (tokenContains (filenameTokens (to_lower (as_name a)))) (wanted_terms osSynonyms os)"
    and "\<not> list_ex (tokenContains (filenameTokens (to_lower (as_name a)))) (negative_terms osSynonyms os)"
    and "list_ex (tokenContains (filenameTokens (to_lower (as_name a)))) (wanted_terms archSynonyms arch)"
    and "\<not> list_ex (tokenContains (filenameTokens (to_lower (as_name a)))) (negative_terms archSynonyms arch)"
  using assms unfolding suitable_def Let_def by (simp_all split: if_splits)

text \<open>
  The asset chosen for a platform is the first suitable one of the release; it is no checksum,
  signature or bill of materials, and it would not be chosen for another of the known operating
  systems or architectures, whatever else the release holds.
\<close>

theorem MatchAsset_exclusive:
  assumes "MatchAsset as os arch = Some a"
  shows "(\<exists>before after. as = before @ a # after \<and> (\<forall>b \<in> set before. \<not> suitable os arch b)) \<and>
    \<not> excluded_name (to_lower (as_name a)) \<and>
    (\<forall>os' arch'. suitable os' arch' a \<longrightarrow>
      (os' \<in> fst ` set osSynonyms \<longrightarrow> os' = os) \<and> (arch' \<in> fst ` set archSynonyms \<longrightarrow> arch' = arch))"
proof -
  from assms obtain before after where split: "as = before @ a # after" "\<forall>b \<in> set before. \<not> suitable os arch b"
    and a: "suitable os arch a" using MatchAsset_first by blast
  have "os' = os" if "suitable os' arch' a" "os' \<in> fst ` set osSynonyms" for os' arch'
    using conflict [OF tables_ok(1,3) that(2) suitable_parts(2) [OF that(1)] suitable_parts(3) [OF a]] .
  moreover have "arch' = arch" if "suitable os' arch' a" "arch' \<in> fst ` set archSynonyms" for os' arch'
    using conflict [OF tables_ok(2,4) that(2) suitable_parts(4) [OF that(1)] suitable_parts(5) [OF a]] .
  ultimately show ?thesis using split suitable_parts(1) [OF a] by blast
qed

definition named :: "string \<Rightarrow> asset" where
  "named n = \<lparr>as_name = n, as_size = 0, as_url = n\<rparr>"

definition sample_assets :: "asset list" where
  "sample_assets = map named [''wol_0.4.8_checksums.txt'', ''wol_0.4.8_linux_amd64.tar.gz.sha256'',
     ''wol_0.4.8_darwin_arm64.tar.gz'', ''wol_0.4.8_linux_amd64.tar.gz'', ''wol_0.4.8_windows_amd64.zip'']"

lemma sample_match:
  "MatchAsset sample_assets ''linux'' ''amd64'' = Some (named ''wol_0.4.8_linux_amd64.tar.gz'')"
  "MatchAsset sample_assets ''freebsd'' ''amd64'' = None"
  by code_simp+

theorem MatchAsset_exclusive_witness:
  "MatchAsset sample_assets ''linux'' ''amd64'' = Some (named ''wol_0.4.8_linux_amd64.tar.gz'') \<and>
   \<not> suitable ''darwin'' ''amd64'' (named ''wol_0.4.8_linux_amd64.tar.gz'')"
proof -
  have "''darwin'' \<in> fst ` set osSynonyms" and "''darwin'' \<noteq> ''linux''" by (simp_all add: osSynonyms_def)
  with MatchAsset_exclusive [OF sample_match(1)] sample_match(1) show ?thesis by blast
qed

text \<open>
  The synonym \<open>x86_64\<close> can never be found, because names are split at underscores: the two tokens
  are \<open>x86\<close> and \<open>64\<close>. An archive named with it is refused for \<open>amd64\<close> and chosen for \<open>386\<close>.
\<close>

lemma x86_64_taken_for_386:
  "MatchAsset [named ''wol_linux_x86_64.tar.gz''] ''linux'' ''amd64'' = None"
  "MatchAsset [named ''wol_linux_x86_64.tar.gz''] ''linux'' ''386'' = Some (named ''wol_linux_x86_64.tar.gz'')"
  by code_simp+

section \<open>The checksum manifest\<close>

definition checksum_limit :: nat where
  "checksum_limit = 65536"

definition digest_size :: nat where
  "digest_size = 32"

text \<open>One line: the file name and the digest.\<close>

definition parse_entry :: "string \<Rightarrow> (string \<times> byte list) result" where
  "parse_entry line =
     (if length line < 67 \<or> line ! 64 \<noteq> CHR '' '' \<or> (line ! 65 \<noteq> CHR '' '' \<and> line ! 65 \<noteq> CHR ''*'')
      then Inl (Errorf ''invalid checksum manifest entry'')
      else
        (case hex_decode (take 64 line) of
           None \<Rightarrow> Inl (Errorf ''invalid checksum manifest digest'')
         | Some digest \<Rightarrow>
             if length digest \<noteq> digest_size then Inl (Errorf ''invalid checksum manifest digest'')
             else if drop 66 line = [] then Inl (Errorf ''invalid checksum manifest filename'')
             else Inr (drop 66 line, digest)))"

fun checksum_loop :: "string \<Rightarrow> string list \<Rightarrow> byte list option \<Rightarrow> string list \<Rightarrow> (byte list option) result" where
  "checksum_loop name seen expected [] = Inr expected"
| "checksum_loop name seen expected (line # ls) =
     (if trim_space line = [] then checksum_loop name seen expected ls
      else (case parse_entry line of
              Inl e \<Rightarrow> Inl e
            | Inr (filename, digest) \<Rightarrow>
                if List.member seen filename then Inl (Errorf (''duplicate checksum for '' @ filename))
                else checksum_loop name (filename # seen) (if filename = name then Some digest else expected) ls))"

definition checksumForAsset :: "string \<Rightarrow> string \<Rightarrow> (byte list) result" where
  "checksumForAsset data name =
     (case scan_tokens checksum_limit data of
        (ls, too_long) \<Rightarrow>
          (case checksum_loop name [] None ls of
             Inl e \<Rightarrow> Inl e
           | Inr expected \<Rightarrow>
               if too_long then Inl (Wrapf ''invalid checksum manifest'' (Errorf ''bufio.Scanner: token too long''))
               else (case expected of
                       None \<Rightarrow> Inl (Errorf (''missing checksum for '' @ name))
                     | Some digest \<Rightarrow> Inr digest)))"

text \<open>What the loop computes: all entries parse, no name comes twice, and the name is looked up.\<close>

fun all_entries :: "string list \<Rightarrow> (string \<times> byte list) list option" where
  "all_entries [] = Some []"
| "all_entries (l # ls) =
     (if trim_space l = [] then all_entries ls
      else (case parse_entry l of Inl e \<Rightarrow> None | Inr e \<Rightarrow> map_option (\<lambda>es. e # es) (all_entries ls)))"

definition update_expected :: "byte list option \<Rightarrow> byte list option \<Rightarrow> byte list option" where
  "update_expected expected found = (case found of None \<Rightarrow> expected | Some d \<Rightarrow> Some d)"

lemma update_expected_Cons:
  assumes "f \<notin> fst ` set es"
  shows "update_expected (if f = name then Some d else x) (map_of es name) = update_expected x (map_of ((f, d) # es) name)"
proof -
  have "map_of es f = None" using assms by (simp add: map_of_eq_None_iff)
  then show ?thesis by (cases "f = name") (simp_all add: update_expected_def)
qed

lemma checksum_loop_entries:
  "checksum_loop name seen x ls = Inr r \<longleftrightarrow>
    (case all_entries ls of None \<Rightarrow> False
     | Some es \<Rightarrow> distinct (map fst es) \<and> fst ` set es \<inter> set seen = {} \<and> r = update_expected x (map_of es name))"
proof (induction ls arbitrary: seen x)
  case Nil
  then show ?case by (auto simp: update_expected_def)
next
  case (Cons l ls)
  show ?case
  proof (cases "trim_space l = []")
    case True
    then show ?thesis using Cons.IH by simp
  next
    case False
    show ?thesis
    proof (cases "parse_entry l")
      case (Inl e)
      with False show ?thesis by simp
    next
      case (Inr e)
      obtain f d where e: "e = (f, d)" by fastforce
      show ?thesis
      proof (cases "all_entries ls")
        case None
        with False Inr e Cons.IH show ?thesis by simp
      next
        case (Some es)
        have "checksum_loop name seen x (l # ls) = Inr r \<longleftrightarrow> f \<notin> set seen \<and> distinct (map fst es) \<and>
            fst ` set es \<inter> set (f # seen) = {} \<and> r = update_expected (if f = name then Some d else x) (map_of es name)"
          using False Inr e Cons.IH [of "f # seen" "if f = name then Some d else x"] Some by simp
        also have "\<dots> \<longleftrightarrow> distinct (f # map fst es) \<and> fst ` set ((f, d) # es) \<inter> set seen = {} \<and>
            r = update_expected x (map_of ((f, d) # es) name)"
          using update_expected_Cons [of f es name d x] by auto
        finally show ?thesis using False Inr e Some by simp
      qed
    qed
  qed
qed

lemma checksumForAsset_entries:
  "checksumForAsset data name = Inr d \<longleftrightarrow>
    (\<exists>es. all_entries (fst (scan_tokens checksum_limit data)) = Some es \<and>
      \<not> snd (scan_tokens checksum_limit data) \<and> distinct (map fst es) \<and> map_of es name = Some d)"
proof -
  obtain ls long where scan: "scan_tokens checksum_limit data = (ls, long)" by fastforce
  have "checksumForAsset data name = Inr d \<longleftrightarrow> \<not> long \<and> checksum_loop name [] None ls = Inr (Some d)"
    unfolding checksumForAsset_def scan by (auto split: sum.splits option.splits)
  then show ?thesis unfolding checksum_loop_entries scan by (auto simp: update_expected_def split: option.splits)
qed

section \<open>Manifests as sha256sum writes them\<close>

definition manifest_line :: "string \<times> byte list \<Rightarrow> string" where
  "manifest_line e = hex_encode (snd e) @ ''  '' @ fst e"

definition manifest :: "(string \<times> byte list) list \<Rightarrow> string" where
  "manifest es = concat (map (\<lambda>e. manifest_line e @ [char_of (10::nat)]) es)"

definition good_entry :: "string \<times> byte list \<Rightarrow> bool" where
  "good_entry e \<longleftrightarrow> fst e \<noteq> [] \<and> char_of (10::nat) \<notin> set (fst e) \<and> code (last (fst e)) \<noteq> 13 \<and>
     length (fst e) < 65000 \<and> length (snd e) = digest_size"

lemma length_hex_encode: "length (hex_encode bs) = 2 * length bs"
  using hex_decode_length [OF hex_roundtrip] .

lemma parse_manifest_line: "good_entry e \<Longrightarrow> parse_entry (manifest_line e) = Inr e"
  using length_hex_encode [of "snd e"] hex_roundtrip [of "snd e"]
  by (cases e) (auto simp: parse_entry_def manifest_line_def good_entry_def digest_size_def nth_append neq_Nil_conv)

lemma concat_lines_join: "concat (map (\<lambda>l. l @ [c]) ls) = join [c] (ls @ [[]])"
  by (induction ls rule: induct_list012) auto

lemma raw_lines_concat:
  assumes "\<forall>l \<in> set ls. char_of (10::nat) \<notin> set l"
  shows "raw_lines (concat (map (\<lambda>l. l @ [char_of (10::nat)]) ls)) = ls"
proof -
  have "split_char (char_of (10::nat)) (join [char_of (10::nat)] (ls @ [[]])) = ls @ [[]]"
    using assms by (intro split_char_join) auto
  then show ?thesis by (simp add: concat_lines_join raw_lines_def)
qed

lemma hex_digit_plain: "n < 16 \<Longrightarrow> ink (hex_digit n) \<and> code (hex_digit n) \<noteq> 10"
  by (auto simp: hex_digit_def ink_def ascii_def is_space_def)

lemma hex_encode_plain: "c \<in> set (hex_encode bs) \<Longrightarrow> ink c \<and> code c \<noteq> 10"
proof (induction bs)
  case (Cons b bs)
  have "unat b div 16 < 16" "unat b mod 16 < 16" using unat_lt2p_byte [of b] by auto
  with Cons show ?case using hex_digit_plain by (auto simp: hex_encode_def hex_byte_def)
qed (simp add: hex_encode_def)

lemma manifest_line_facts:
  assumes "good_entry e"
  shows "char_of (10::nat) \<notin> set (manifest_line e)" and "trim_space (manifest_line e) \<noteq> []"
    and "drop_cr (manifest_line e) = manifest_line e" and "length (manifest_line e) < checksum_limit"
proof -
  have len: "length (hex_encode (snd e)) = 64" and e: "fst e \<noteq> []" "char_of (10::nat) \<notin> set (fst e)"
    "code (last (fst e)) \<noteq> 13" "length (fst e) < 65000"
    using assms length_hex_encode [of "snd e"] by (auto simp: good_entry_def digest_size_def)
  have "char_of (10::nat) \<notin> set (hex_encode (snd e))" using hex_encode_plain [of "char_of (10::nat)" "snd e"] by auto
  then show "char_of (10::nat) \<notin> set (manifest_line e)" using e by (auto simp: manifest_line_def char_of_eq_iff)
  obtain c cs where "hex_encode (snd e) = c # cs" using len by (cases "hex_encode (snd e)") auto
  with hex_encode_plain [of c "snd e"] show "trim_space (manifest_line e) \<noteq> []"
    by (simp add: manifest_line_def trim_space_nonempty)
  show "drop_cr (manifest_line e) = manifest_line e" using e by (simp add: drop_cr_def manifest_line_def)
  show "length (manifest_line e) < checksum_limit" using e len by (simp add: manifest_line_def checksum_limit_def)
qed

lemma all_entries_manifest: "list_all good_entry es \<Longrightarrow> all_entries (map manifest_line es) = Some es"
  by (induction es) (simp_all add: manifest_line_facts(2) parse_manifest_line)

text \<open>
  C39. A manifest in the format of sha256sum reads back: for every list of distinct, printable file
  names with 32-byte digests, the checksum found for a name is the digest listed for it, and a
  name that is not listed is refused.
\<close>

theorem checksumForAsset_manifest:
  assumes "list_all good_entry es" and "distinct (map fst es)"
  shows "checksumForAsset (manifest es) name =
    (case map_of es name of Some d \<Rightarrow> Inr d | None \<Rightarrow> Inl (Errorf (''missing checksum for '' @ name)))"
proof -
  let ?ls = "map manifest_line es"
  note facts = manifest_line_facts
  have good: "good_entry e" if "e \<in> set es" for e using assms(1) that by (simp add: list_all_iff)
  have raw: "raw_lines (manifest es) = ?ls"
    using raw_lines_concat [of ?ls] facts(1) good by (auto simp: manifest_def comp_def)
  have fits: "takeWhile (\<lambda>l. length l < checksum_limit) ?ls = ?ls" using facts(4) good by (auto simp: takeWhile_eq_all_conv)
  have cr: "map drop_cr ?ls = ?ls" using facts(3) good by (auto intro: map_idI)
  have scan: "scan_tokens checksum_limit (manifest es) = (?ls, False)"
    by (simp only: scan_tokens_def raw fits cr Let_def less_irrefl)
  have "all_entries ?ls = Some es" using assms(1) by (rule all_entries_manifest)
  then have "checksum_loop name [] None ?ls = Inr (update_expected None (map_of es name))"
    unfolding checksum_loop_entries using assms(2) by simp
  then show ?thesis
    unfolding checksumForAsset_def scan by (simp add: update_expected_def split: option.split)
qed

definition sample_entries :: "(string \<times> byte list) list" where
  "sample_entries = [(''wol_1.tar.gz'', replicate 32 7), (''wol_2.zip'', replicate 32 9)]"

theorem checksumForAsset_manifest_witness:
  "checksumForAsset (manifest sample_entries) ''wol_2.zip'' = Inr (replicate 32 9)"
proof -
  have g: "list_all good_entry sample_entries" and d: "distinct (map fst sample_entries)"
    by code_simp+
  have "map_of sample_entries ''wol_2.zip'' = Some (replicate 32 9)" by (simp add: sample_entries_def)
  with checksumForAsset_manifest [OF g d, of "''wol_2.zip''"] show ?thesis by simp
qed

end
