(* ===== verification/ZipDir.thy ===== *)
theory ZipDir
  imports GoBase
begin

text \<open>
  \<open>internal/updater/zip_limits.go\<close>: counting the records of a ZIP central directory before the
  library allocates one object for each. Bytes are strings, positions are Go's \<open>int\<close>, the fields
  of the file are natural numbers read from two, four or eight little-endian bytes. Reading past
  the end of the content would panic in Go: it is the value \<open>None\<close> here.
\<close>

section \<open>Fields\<close>

fun little_endian :: "string \<Rightarrow> nat" where
  "little_endian [] = 0"
| "little_endian (c # cs) = code c + 256 * little_endian cs"

definition read_le :: "nat \<Rightarrow> string \<Rightarrow> int \<Rightarrow> nat option" where
  "read_le k content i =
     (if 0 \<le> i \<and> i + int k \<le> int (length content) then Some (little_endian (take k (drop (nat i) content)))
      else None)"

abbreviation uint16_at :: "string \<Rightarrow> int \<Rightarrow> nat option" where "uint16_at \<equiv> read_le 2"
abbreviation uint32_at :: "string \<Rightarrow> int \<Rightarrow> nat option" where "uint32_at \<equiv> read_le 4"
abbreviation uint64_at :: "string \<Rightarrow> int \<Rightarrow> nat option" where "uint64_at \<equiv> read_le 8"

text \<open>A step that may panic, fail or go on.\<close>

type_synonym 'a run = "('a result) option"

definition and_then :: "nat option \<Rightarrow> (nat \<Rightarrow> 'a run) \<Rightarrow> 'a run" where
  "and_then v f = (case v of None \<Rightarrow> None | Some n \<Rightarrow> f n)"

definition err :: "error \<Rightarrow> 'a run" where "err e = Some (Inl e)"
definition yield :: "'a \<Rightarrow> 'a run" where "yield x = Some (Inr x)"

definition chain :: "'a run \<Rightarrow> ('a \<Rightarrow> 'b run) \<Rightarrow> 'b run" where
  "chain r f = (case r of None \<Rightarrow> None | Some (Inl e) \<Rightarrow> err e | Some (Inr x) \<Rightarrow> f x)"

definition too_many :: error where
  "too_many = Errorf ''archive exceeds entry count limit''"

section \<open>Counting\<close>

function count_loop :: "string \<Rightarrow> nat \<Rightarrow> int \<Rightarrow> nat \<Rightarrow> unit run" where
  "count_loop content maxEntries position count =
     (if position \<le> int (length content) - 4 then
        and_then (uint32_at content position) (\<lambda>signature.
        if signature \<noteq> 0x02014b50 then yield ()
        else if count \<ge> maxEntries then err too_many
        else if position > int (length content) - 46 then err ErrFormat
        else
          and_then (uint16_at content (position + 28)) (\<lambda>a.
          and_then (uint16_at content (position + 30)) (\<lambda>b.
          and_then (uint16_at content (position + 32)) (\<lambda>c.
          let l = 46 + int a + int b + int c in
          if l > int (length content) - position then err ErrFormat
          else count_loop content maxEntries (position + l) (count + 1)))))
      else yield ())"
  by pat_completeness auto
termination
  by (relation "measure (\<lambda>(content, maxEntries, position, count). nat (int (length content) - position))") auto

declare count_loop.simps [simp del]

definition countZipDirectory :: "string \<Rightarrow> int \<Rightarrow> nat \<Rightarrow> unit run" where
  "countZipDirectory content position maxEntries = count_loop content maxEntries position 0"

section \<open>The end record\<close>

text \<open>The search from the end of the file for the end-of-directory record.\<close>

function search_end :: "string \<Rightarrow> int \<Rightarrow> int \<Rightarrow> (int option) run" where
  "search_end content minimum i =
     (if i \<ge> minimum then
        and_then (uint32_at content i) (\<lambda>signature.
        if signature \<noteq> 0x06054b50 then search_end content minimum (i - 1)
        else
          and_then (uint16_at content (i + 20)) (\<lambda>comment.
          if int comment > int (length content) - i - 22 then err ErrFormat else yield (Some i)))
      else yield None)"
  by pat_completeness auto
termination
  by (relation "measure (\<lambda>(content, minimum, i). nat (i - minimum + 1))") auto

declare search_end.simps [simp del]

record end_record =
  er_records :: nat
  er_size :: nat
  er_offset :: nat
  er_end :: int

text \<open>The 64-bit record that replaces the counts when one of them is saturated.\<close>

definition zip64_record :: "string \<Rightarrow> end_record \<Rightarrow> end_record run" where
  "zip64_record content r =
     (if er_records r = 0xffff \<or> er_size r = 0xffffffff \<or> er_offset r = 0xffffffff then
        let locator = er_end r - 20 in
        if locator \<ge> 0 then
          and_then (uint32_at content locator) (\<lambda>signature.
          if signature \<noteq> 0x07064b50 then yield r
          else
            and_then (uint32_at content (locator + 4)) (\<lambda>disk.
            and_then (uint32_at content (locator + 16)) (\<lambda>disks.
            if disk \<noteq> 0 \<or> disks \<noteq> 1 then err ErrFormat
            else
              and_then (uint64_at content (locator + 8)) (\<lambda>position.
              if length content < 56 \<or> position > length content - 56 then err ErrFormat
              else
                let p = int position in
                and_then (uint32_at content p) (\<lambda>signature.
                if signature \<noteq> 0x06064b50 then err ErrFormat
                else
                  and_then (uint64_at content (p + 32)) (\<lambda>records.
                  and_then (uint64_at content (p + 40)) (\<lambda>size.
                  and_then (uint64_at content (p + 48)) (\<lambda>offset.
                  yield \<lparr>er_records = records, er_size = size, er_offset = offset, er_end = p\<rparr>))))))))
        else yield r
      else yield r)"

definition find_end_record :: "string \<Rightarrow> end_record run" where
  "find_end_record content =
     (let minimum = max 0 (int (length content) - 65 * 1024) in
      chain (search_end content minimum (int (length content) - 22)) (\<lambda>found.
      case found of
        None \<Rightarrow> err ErrFormat
      | Some e \<Rightarrow>
          and_then (uint16_at content (e + 10)) (\<lambda>records.
          and_then (uint32_at content (e + 12)) (\<lambda>size.
          and_then (uint32_at content (e + 16)) (\<lambda>offset.
          zip64_record content \<lparr>er_records = records, er_size = size, er_offset = offset, er_end = e\<rparr>)))))"

definition preflightZipDirectory :: "string \<Rightarrow> nat \<Rightarrow> unit run" where
  "preflightZipDirectory content maxEntries =
     chain (find_end_record content) (\<lambda>r.
     if er_records r > maxEntries then err too_many
     else if int (er_size r) > er_end r \<or> er_offset r > length content then err ErrFormat
     else
       let start = er_end r - int (er_size r) in
       chain (countZipDirectory content start maxEntries) (\<lambda>_.
       if int (er_offset r) \<noteq> start then countZipDirectory content (int (er_offset r)) maxEntries else yield ()))"

section \<open>Never out of range\<close>

lemma run_simps [simp]:
  "and_then (Some n) f = f n" "chain (yield x) g = g x" "chain (err e) g = err e" "chain None g = None"
  by (simp_all add: and_then_def chain_def yield_def err_def)

lemma run_distinct [simp]:
  "yield x \<noteq> None" "err e \<noteq> None" "yield x \<noteq> err e" "err e \<noteq> yield x" "yield x = yield y \<longleftrightarrow> x = y"
  by (simp_all add: yield_def err_def)

lemma and_then_None [simp]: "and_then None f = None"
  by (simp add: and_then_def)

definition in_range :: "'a run \<Rightarrow> bool" where
  "in_range r \<longleftrightarrow> r \<noteq> None"

named_theorems total_intros "a run that does not read out of range"

lemma total_yield [total_intros]: "in_range (yield x)" and total_err [total_intros]: "in_range (err e)"
  by (simp_all add: in_range_def yield_def err_def)

lemma total_if [total_intros]: "(c \<Longrightarrow> in_range a) \<Longrightarrow> (\<not> c \<Longrightarrow> in_range b) \<Longrightarrow> in_range (if c then a else b)"
  by simp

lemma total_read [total_intros]:
  assumes "0 \<le> i" "i + int k \<le> int (length content)" "\<And>n. in_range (f n)"
  shows "in_range (and_then (read_le k content i) f)"
  using assms by (simp add: read_le_def)

lemma total_chain:
  assumes "in_range r" "\<And>x. r = yield x \<Longrightarrow> in_range (f x)"
  shows "in_range (chain r f)"
proof (cases r)
  case (Some v)
  show ?thesis
  proof (cases v)
    case (Inl e)
    with Some show ?thesis by (simp add: chain_def total_err)
  next
    case (Inr x)
    with Some assms(2) [of x] show ?thesis by (simp add: chain_def yield_def)
  qed
qed (use assms(1) in \<open>simp add: in_range_def\<close>)

text \<open>One record of the directory and its length.\<close>

definition record_at :: "string \<Rightarrow> int \<Rightarrow> nat option" where
  "record_at content p =
     (if 0 \<le> p \<and> p + 46 \<le> int (length content) \<and> uint32_at content p = Some 0x02014b50 then
        (case (uint16_at content (p + 28), uint16_at content (p + 30), uint16_at content (p + 32)) of
           (Some a, Some b, Some c) \<Rightarrow>
             if p + int (46 + a + b + c) \<le> int (length content) then Some (46 + a + b + c) else None
         | _ \<Rightarrow> None)
      else None)"

text \<open>\<open>n\<close> records one after the other.\<close>

fun directory :: "string \<Rightarrow> nat \<Rightarrow> int \<Rightarrow> bool" where
  "directory content 0 p = True"
| "directory content (Suc n) p =
     (case record_at content p of None \<Rightarrow> False | Some l \<Rightarrow> directory content n (p + int l))"

lemma count_loop_total: "0 \<le> p \<Longrightarrow> in_range (count_loop content m p k)"
proof (induction content m p k rule: count_loop.induct)
  case (1 content m p k)
  show ?case
    by (subst count_loop.simps, unfold Let_def, intro total_intros) (use 1 in auto)
qed

lemma record_at_Some:
  assumes "record_at content p = Some l"
  obtains a b c where "0 \<le> p" "p + 46 \<le> int (length content)" "uint32_at content p = Some 0x02014b50"
    "uint16_at content (p + 28) = Some a" "uint16_at content (p + 30) = Some b" "uint16_at content (p + 32) = Some c"
    "p + int l \<le> int (length content)" "int l = 46 + int a + int b + int c"
  using assms unfolding record_at_def by (auto split: if_splits option.splits)

lemma count_loop_record:
  assumes "record_at content p = Some l"
  shows "count_loop content m p k = (if k \<ge> m then err too_many else count_loop content m (p + int l) (k + 1))"
proof -
  from record_at_Some [OF assms] obtain a b c where r: "0 \<le> p" "p + 46 \<le> int (length content)"
    "uint32_at content p = Some 0x02014b50"
    "uint16_at content (p + 28) = Some a" "uint16_at content (p + 30) = Some b" "uint16_at content (p + 32) = Some c"
    "p + int l \<le> int (length content)" "int l = 46 + int a + int b + int c" .
  have guards: "p \<le> int (length content) - 4" "\<not> p > int (length content) - 46"
    "\<not> int l > int (length content) - p" using r by simp_all
  show ?thesis
    by (subst count_loop.simps) (simp only: r(3-6) run_simps Let_def guards if_True if_False not_True_eq_False simp_thms r(8) [symmetric])
qed

lemma count_loop_bound: "count_loop content m p k = yield () \<Longrightarrow> k \<le> m \<Longrightarrow> directory content n p \<Longrightarrow> k + n \<le> m"
proof (induction n arbitrary: p k)
  case (Suc n)
  from Suc.prems(3) obtain l where l: "record_at content p = Some l" and d: "directory content n (p + int l)"
    by (auto split: option.splits)
  from Suc.prems(1) have "k < m" and "count_loop content m (p + int l) (k + 1) = yield ()"
    unfolding count_loop_record [OF l] by (simp_all split: if_splits)
  with Suc.IH [OF _ _ d, of "k + 1"] show ?case by simp
qed simp

lemma count_loop_nonneg: "directory content (Suc n) p \<Longrightarrow> 0 \<le> p"
  by (auto simp: record_at_def split: option.splits if_splits)

text \<open>The end record is found inside the file.\<close>

lemma search_end_total: "0 \<le> minimum \<Longrightarrow> i + 22 \<le> int (length content) \<Longrightarrow> in_range (search_end content minimum i)"
proof (induction content minimum i rule: search_end.induct)
  case (1 content minimum i)
  show ?case
    by (subst search_end.simps, intro total_intros) (use 1 in auto)
qed

lemma and_then_yield: "and_then v f = yield x \<longleftrightarrow> (\<exists>n. v = Some n \<and> f n = yield x)"
  by (cases v) (simp_all add: and_then_def yield_def)

lemma chain_yield: "chain r f = yield x \<longleftrightarrow> (\<exists>y. r = yield y \<and> f y = yield x)"
  by (auto simp: chain_def yield_def err_def split: option.splits sum.splits)

lemma if_yield: "(if c then a else b) = yield x \<longleftrightarrow> (c \<and> a = yield x) \<or> (\<not> c \<and> b = yield x)"
  by simp

lemma search_end_Some:
  "search_end content minimum i = yield (Some e) \<Longrightarrow> 0 \<le> minimum \<Longrightarrow> i + 22 \<le> int (length content) \<Longrightarrow>
    0 \<le> e \<and> e + 22 \<le> int (length content)"
proof (induction content minimum i rule: search_end.induct)
  case (1 content minimum i)
  show ?case
  proof (cases "minimum \<le> i")
    case False
    with 1(2) show ?thesis by (simp add: search_end.simps [of content minimum i])
  next
    case True
    then obtain s where s: "uint32_at content i = Some s" using 1(3,4) by (simp add: read_le_def)
    show ?thesis
    proof (cases "s = 0x06054b50")
      case True
      with s 1(2) \<open>minimum \<le> i\<close> have "e = i"
        by (subst (asm) search_end.simps) (auto simp: and_then_yield split: if_splits)
      with 1(3,4) \<open>minimum \<le> i\<close> show ?thesis by simp
    next
      case False
      with s 1(2) \<open>minimum \<le> i\<close> have "search_end content minimum (i - 1) = yield (Some e)"
        by (subst (asm) search_end.simps) simp
      with 1(1) [OF True False] 1(3,4) show ?thesis by simp
    qed
  qed
qed

lemma zip64_record_total:
  assumes "er_end r + 22 \<le> int (length content)"
  shows "in_range (zip64_record content r)"
  unfolding zip64_record_def Let_def
  by (intro total_intros) (use assms in auto)

lemma zip64_record_end:
  assumes "zip64_record content r = yield r'" and "0 \<le> er_end r" "er_end r \<le> int (length content)"
  shows "0 \<le> er_end r' \<and> er_end r' \<le> int (length content)"
  using assms unfolding zip64_record_def Let_def if_yield and_then_yield by fastforce

lemma find_end_record_total: "in_range (find_end_record content)"
  unfolding find_end_record_def Let_def
proof (intro total_chain search_end_total)
  fix found
  assume s: "search_end content (max 0 (int (length content) - 65 * 1024)) (int (length content) - 22) = yield found"
  show "in_range (case found of None \<Rightarrow> err ErrFormat | Some e \<Rightarrow>
          and_then (uint16_at content (e + 10)) (\<lambda>records.
          and_then (uint32_at content (e + 12)) (\<lambda>size.
          and_then (uint32_at content (e + 16)) (\<lambda>offset.
          zip64_record content \<lparr>er_records = records, er_size = size, er_offset = offset, er_end = e\<rparr>))))"
  proof (cases found)
    case (Some e)
    with search_end_Some s have "0 \<le> e \<and> e + 22 \<le> int (length content)" by fastforce
    then show ?thesis unfolding Some option.case by (intro total_intros zip64_record_total) simp_all
  qed (simp add: total_err)
qed simp_all

lemma find_end_record_end:
  assumes "find_end_record content = yield r"
  shows "0 \<le> er_end r \<and> er_end r \<le> int (length content)"
proof -
  from assms obtain e r0 where s: "search_end content (max 0 (int (length content) - 65 * 1024)) (int (length content) - 22) = yield (Some e)"
    and z: "zip64_record content r0 = yield r" "er_end r0 = e"
    unfolding find_end_record_def Let_def chain_yield by (auto simp: and_then_yield split: option.splits)
  from search_end_Some [OF s] have "0 \<le> e \<and> e + 22 \<le> int (length content)" by simp
  with zip64_record_end [OF z(1)] z(2) show ?thesis by simp
qed

lemma preflight_in_range: "in_range (preflightZipDirectory content m)"
  unfolding preflightZipDirectory_def Let_def countZipDirectory_def
  by (intro total_intros total_chain find_end_record_total count_loop_total) (use find_end_record_end in auto)

text \<open>
  The preflight of a ZIP file never reads outside the file, whatever the bytes are, and ends.
  If it accepts, then no chain of directory records starting at either of the two places the
  reader may choose, before the end record or at the declared offset, is longer than the limit.
\<close>

theorem preflight_bounds_entries:
  "preflightZipDirectory content m \<noteq> None \<and>
   (preflightZipDirectory content m = Some (Inr ()) \<longrightarrow>
     (\<exists>r. find_end_record content = Some (Inr r) \<and> er_records r \<le> m \<and>
       (\<forall>n. directory content n (er_end r - int (er_size r)) \<longrightarrow> n \<le> m) \<and>
       (\<forall>n. directory content n (int (er_offset r)) \<longrightarrow> n \<le> m)))"
proof
  show "preflightZipDirectory content m \<noteq> None" using preflight_in_range by (simp add: in_range_def)
  show "preflightZipDirectory content m = Some (Inr ()) \<longrightarrow>
     (\<exists>r. find_end_record content = Some (Inr r) \<and> er_records r \<le> m \<and>
       (\<forall>n. directory content n (er_end r - int (er_size r)) \<longrightarrow> n \<le> m) \<and>
       (\<forall>n. directory content n (int (er_offset r)) \<longrightarrow> n \<le> m))"
  proof
    assume "preflightZipDirectory content m = Some (Inr ())"
    then have "preflightZipDirectory content m = yield ()" by (simp add: yield_def)
    then obtain r where r: "find_end_record content = yield r" "\<not> er_records r > m"
      and c1: "count_loop content m (er_end r - int (er_size r)) 0 = yield ()"
      and c2: "int (er_offset r) \<noteq> er_end r - int (er_size r) \<Longrightarrow> count_loop content m (int (er_offset r)) 0 = yield ()"
      unfolding preflightZipDirectory_def chain_yield Let_def countZipDirectory_def if_yield by auto
    have "count_loop content m (int (er_offset r)) 0 = yield ()" using c1 c2 by fastforce
    then show "\<exists>r. find_end_record content = Some (Inr r) \<and> er_records r \<le> m \<and>
       (\<forall>n. directory content n (er_end r - int (er_size r)) \<longrightarrow> n \<le> m) \<and>
       (\<forall>n. directory content n (int (er_offset r)) \<longrightarrow> n \<le> m)"
      using r c1 count_loop_bound [of content m _ 0] by (intro exI [of _ r]) (auto simp: yield_def)
  qed
qed

text \<open>An archive with one empty record.\<close>

definition sample_archive :: string where
  "sample_archive =
     map char_of ([0x50, 0x4b, 0x01, 0x02] @ replicate 42 (0::nat)
       @ [0x50, 0x4b, 0x05, 0x06, 0, 0, 0, 0, 1, 0, 1, 0, 46, 0, 0, 0, 0, 0, 0, 0, 0, 0])"

lemma sample_preflight:
  "preflightZipDirectory sample_archive 1 = Some (Inr ())"
  "preflightZipDirectory sample_archive 0 = Some (Inl too_many)"
  "find_end_record sample_archive = Some (Inr \<lparr>er_records = 1, er_size = 46, er_offset = 0, er_end = 46\<rparr>)"
  "directory sample_archive 1 0"
  by code_simp+

theorem preflight_bounds_entries_witness:
  "directory sample_archive 1 0 \<and> \<not> directory sample_archive 2 0"
proof -
  from preflight_bounds_entries [of sample_archive 1] sample_preflight(1,3)
  have "\<forall>n. directory sample_archive n 0 \<longrightarrow> n \<le> 1" by simp
  then have "\<not> directory sample_archive 2 0" by (metis not_less one_less_numeral_iff semiring_norm(76))
  with sample_preflight(4) show ?thesis by blast
qed

end
