(* ===== verification/Extract.thy ===== *)
theory Extract
  imports ZipDir
begin

text \<open>
  Extraction of the executable from a downloaded archive: \<open>internal/updater/limits.go\<close>, and
  \<open>extractFromTarGz\<close>, \<open>extractFromZip\<close> and \<open>isWolBinary\<close> of \<open>updater.go\<close>. The archive readers of the
  Go library are arguments: what a gzip and tar reader or a ZIP reader yields for the content.
  File names are separated by slashes, as in archives.
\<close>

record extraction_limits =
  binaryBytes :: int
  totalBytes :: int
  entries :: nat

definition releaseExtractionLimits :: extraction_limits where
  "releaseExtractionLimits = \<lparr>binaryBytes = 128 * 1024 * 1024, totalBytes = 256 * 1024 * 1024, entries = 4096\<rparr>"

section \<open>Readers\<close>

text \<open>What an \<open>io.Reader\<close> promises: at most as many bytes as asked for.\<close>

locale byte_reader =
  fixes read_from :: "nat \<Rightarrow> 'r \<Rightarrow> (string \<times> error option) \<times> 'r"
  assumes at_most: "length (fst (fst (read_from n r))) \<le> n"

text \<open>\<open>expansionReader.Read\<close>: a reader and the number of bytes it may still deliver.\<close>

definition expansion_read ::
  "(nat \<Rightarrow> 'r \<Rightarrow> (string \<times> error option) \<times> 'r) \<Rightarrow> nat \<Rightarrow> 'r \<times> nat \<Rightarrow> (string \<times> error option) \<times> ('r \<times> nat)" where
  "expansion_read read_from n s =
     (case s of (r, remaining) \<Rightarrow>
        if n = 0 then (([], None), s)
        else if remaining = 0 then
          (case read_from 1 r of
             ((probe, e), r') \<Rightarrow>
               if length probe > 0
               then (([], Some (Errorf ''archive exceeds total extraction size limit'')), (r', remaining))
               else (([], e), (r', remaining)))
        else
          (case read_from (min n remaining) r of
             ((data, e), r') \<Rightarrow> ((data, e), (r', remaining - length data))))"

text \<open>Any sequence of reads of the given sizes.\<close>

fun read_many :: "(nat \<Rightarrow> 's \<Rightarrow> (string \<times> error option) \<times> 's) \<Rightarrow> nat list \<Rightarrow> 's \<Rightarrow> string \<times> 's" where
  "read_many read_from [] s = ([], s)"
| "read_many read_from (n # ns) s =
     (case read_from n s of ((data, e), s') \<Rightarrow>
        case read_many read_from ns s' of (rest, s'') \<Rightarrow> (data @ rest, s''))"

context byte_reader
begin

lemma expansion_account:
  "expansion_read read_from n (r, remaining) = ((data, e), (r', remaining')) \<Longrightarrow>
    length data + remaining' = remaining \<and> length data \<le> n"
  using at_most [of "min n remaining" r]
  by (auto simp: expansion_read_def split: if_splits prod.splits)

text \<open>The budgeted reader is a reader again, and delivers no more than its budget.\<close>

lemma expansion_reader: "byte_reader (expansion_read read_from)"
proof
  fix n s
  show "length (fst (fst (expansion_read read_from n s))) \<le> n"
    using expansion_account [of n "fst s" "snd s"] by (cases "expansion_read read_from n s") (auto simp: split_beta)
qed

lemma budget_respected:
  "read_many (expansion_read read_from) ns (r, remaining) = (data, (r', remaining')) \<Longrightarrow>
    length data + remaining' = remaining"
proof (induction ns arbitrary: r remaining data)
  case (Cons n ns)
  obtain d e r1 m1 where step: "expansion_read read_from n (r, remaining) = ((d, e), (r1, m1))" by (metis prod.collapse)
  obtain rest where "read_many (expansion_read read_from) ns (r1, m1) = (rest, (r', remaining'))" "data = d @ rest"
    using Cons.prems step by (auto split: prod.splits)
  with Cons.IH expansion_account [OF step] show ?case by fastforce
qed simp

end

text \<open>\<open>bytes.NewReader\<close>: the rest of the content.\<close>

definition bytes_read :: "error \<Rightarrow> nat \<Rightarrow> string \<Rightarrow> (string \<times> error option) \<times> string" where
  "bytes_read eof n s = ((take n s, if s = [] \<and> 0 < n then Some eof else None), drop n s)"

interpretation content_reader: byte_reader "bytes_read eof" for eof
  by unfold_locales (simp add: bytes_read_def)

interpretation budgeted_reader: byte_reader "expansion_read (bytes_read eof)" for eof
  by (rule content_reader.expansion_reader)

text \<open>
  \<open>readBoundedBinary\<close> on a reader given by the bytes it yields and the error after them:
  \<open>io.ReadAll\<close> of the first \<open>limit + 1\<close> bytes.
\<close>

definition readBoundedBinary :: "string \<times> error option \<Rightarrow> int \<Rightarrow> string result" where
  "readBoundedBinary body limit =
     (case limited_read (nat (limit + 1)) body of
        Inl e \<Rightarrow> Inl e
      | Inr data \<Rightarrow>
          if int (length data) > limit then Inl (Errorf ''binary exceeds extraction size limit'')
          else if length data = 0 then Inl (Errorf ''archive contains an empty binary'')
          else Inr data)"

section \<open>Names\<close>

text \<open>\<open>filepath.Base\<close>.\<close>

definition base_name :: "string \<Rightarrow> string" where
  "base_name p =
     (if p = [] then ''.''
      else
        let q = rev (dropWhile (\<lambda>c. c = CHR ''/'') (rev p)) in
        if q = [] then ''/'' else rev (takeWhile (\<lambda>c. c \<noteq> CHR ''/'') (rev q)))"

definition isWolBinary :: "string \<Rightarrow> bool" where
  "isWolBinary name = (let lower = to_lower name in lower = ''wol'' \<or> lower = ''wol.exe'')"

section \<open>tar.gz\<close>

record tar_header =
  th_name :: string
  th_size :: int
  th_regular :: bool

text \<open>The tar reader over the budgeted gzip stream: \<open>Next\<close>, the payload and the rest of the budget.\<close>

record 'r tar_api =
  tar_next :: "'r \<Rightarrow> (error + tar_header option) \<times> 'r"
  tar_body :: "'r \<Rightarrow> string \<times> error option"
  tar_remaining :: "'r \<Rightarrow> int"

function tar_loop :: "'r tar_api \<Rightarrow> extraction_limits \<Rightarrow> nat \<Rightarrow> 'r \<Rightarrow> string result" where
  "tar_loop T limits count r =
     (case tar_next T r of
        (Inl e, r') \<Rightarrow> Inl (Wrapf ''read tar entry'' e)
      | (Inr None, r') \<Rightarrow> Inl (Errorf ''wol binary not found inside tar.gz archive'')
      | (Inr (Some header), r') \<Rightarrow>
          if count \<ge> entries limits then Inl too_many
          else if th_size header > tar_remaining T r' then Inl (Errorf ''tar entry exceeds total extraction size limit'')
          else if \<not> th_regular header then tar_loop T limits (count + 1) r'
          else if isWolBinary (base_name (th_name header)) then
            if th_size header > binaryBytes limits then Inl (Errorf ''binary exceeds extraction size limit'')
            else (case readBoundedBinary (tar_body T r') (binaryBytes limits) of
                    Inl e \<Rightarrow> Inl (Wrapf ''extract binary from tar'' e)
                  | Inr data \<Rightarrow> Inr data)
          else tar_loop T limits (count + 1) r')"
  by pat_completeness auto
termination
  by (relation "measure (\<lambda>(T, limits, count, r). entries limits - count)") auto

declare tar_loop.simps [simp del]

definition extractFromTarGz :: "'r tar_api \<Rightarrow> (string \<Rightarrow> int \<Rightarrow> 'r result) \<Rightarrow> string \<Rightarrow> extraction_limits \<Rightarrow> string result" where
  "extractFromTarGz T gunzip content limits =
     (case gunzip content (totalBytes limits) of
        Inl e \<Rightarrow> Inl (Wrapf ''create gzip reader'' e)
      | Inr r \<Rightarrow> tar_loop T limits 0 r)"

section \<open>zip\<close>

record zip_file =
  zf_name :: string
  zf_size :: "64 word"
  zf_dir :: bool
  zf_open :: "(string \<times> error option) result"

text \<open>The declared sizes are added up in unsigned 64-bit arithmetic.\<close>

fun zip_total :: "64 word \<Rightarrow> 64 word \<Rightarrow> zip_file list \<Rightarrow> (64 word) result" where
  "zip_total budget expanded [] = Inr expanded"
| "zip_total budget expanded (f # fs) =
     (if zf_size f > budget - expanded then Inl (Errorf ''zip archive exceeds total extraction size limit'')
      else zip_total budget (expanded + zf_size f) fs)"

fun zip_loop :: "extraction_limits \<Rightarrow> zip_file list \<Rightarrow> string result" where
  "zip_loop limits [] = Inl (Errorf ''wol binary not found inside zip archive'')"
| "zip_loop limits (f # fs) =
     (if zf_dir f then zip_loop limits fs
      else if isWolBinary (base_name (zf_name f)) then
        if zf_size f > word_of_int (binaryBytes limits) then Inl (Errorf ''binary exceeds extraction size limit'')
        else (case zf_open f of
                Inl e \<Rightarrow> Inl (Wrapf ''open zip entry'' e)
              | Inr body \<Rightarrow>
                  (case readBoundedBinary body (binaryBytes limits) of
                     Inl e \<Rightarrow> Inl (Wrapf ''extract binary from zip'' e)
                   | Inr data \<Rightarrow> Inr data))
      else zip_loop limits fs)"

definition extractFromZip :: "(string \<Rightarrow> (zip_file list) result) \<Rightarrow> string \<Rightarrow> extraction_limits \<Rightarrow> string run" where
  "extractFromZip unzip content limits =
     chain (preflightZipDirectory content (entries limits)) (\<lambda>_.
     case unzip content of
       Inl e \<Rightarrow> err (Wrapf ''create zip reader'' e)
     | Inr fs \<Rightarrow>
         if length fs > entries limits then err too_many
         else (case zip_total (word_of_int (totalBytes limits)) 0 fs of
                 Inl e \<Rightarrow> err e
               | Inr _ \<Rightarrow> Some (zip_loop limits fs)))"

section \<open>Dispatch\<close>

record 'r archive_lib =
  lib_tar :: "'r tar_api"
  lib_gunzip :: "string \<Rightarrow> int \<Rightarrow> 'r result"
  lib_unzip :: "string \<Rightarrow> (zip_file list) result"

definition extractBinaryWithLimits :: "'r archive_lib \<Rightarrow> string \<Rightarrow> string \<Rightarrow> extraction_limits \<Rightarrow> string run" where
  "extractBinaryWithLimits L content name limits =
     (let lower = to_lower name in
      if has_suffix lower ''.tar.gz'' \<or> has_suffix lower ''.tgz''
      then Some (extractFromTarGz (lib_tar L) (lib_gunzip L) content limits)
      else if has_suffix lower ''.zip'' then extractFromZip (lib_unzip L) content limits
      else if int (length content) > binaryBytes limits then err (Errorf ''raw binary exceeds extraction size limit'')
      else if length content = 0 then err (Errorf ''release contains an empty binary'')
      else yield content)"

definition ExtractBinary :: "'r archive_lib \<Rightarrow> string \<Rightarrow> string \<Rightarrow> string run" where
  "ExtractBinary L content assetName = extractBinaryWithLimits L content assetName releaseExtractionLimits"

section \<open>Bounds\<close>

lemma readBounded_bounds:
  "readBoundedBinary body limit = Inr data \<Longrightarrow> data \<noteq> [] \<and> int (length data) \<le> limit \<and> fst body = data \<and> snd body = None"
proof -
  assume "readBoundedBinary body limit = Inr data"
  then have got: "limited_read (nat (limit + 1)) body = Inr data" "int (length data) \<le> limit" "data \<noteq> []"
    unfolding readBoundedBinary_def by (auto split: sum.splits if_splits)
  then have "nat (limit + 1) = Suc (nat limit)" and "length data \<le> nat limit" by auto
  with got limited_read_complete [of "nat limit" body data] show ?thesis by auto
qed

text \<open>The entry a tar archive's binary comes from: one of the first \<open>entries\<close> headers.\<close>

inductive tar_entry :: "'r tar_api \<Rightarrow> 'r \<Rightarrow> nat \<Rightarrow> tar_header \<Rightarrow> 'r \<Rightarrow> bool" for T where
  first: "tar_next T r = (Inr (Some h), r') \<Longrightarrow> tar_entry T r 0 h r'"
| later: "tar_next T r = (Inr (Some h), r') \<Longrightarrow> tar_entry T r' n g r'' \<Longrightarrow> tar_entry T r (Suc n) g r''"

lemma tar_loop_entry:
  "tar_loop T limits count r = Inr data \<Longrightarrow>
    \<exists>n h r'. tar_entry T r n h r' \<and> count + n < entries limits \<and> isWolBinary (base_name (th_name h)) \<and>
      th_regular h \<and> th_size h \<le> tar_remaining T r' \<and> th_size h \<le> binaryBytes limits \<and>
      readBoundedBinary (tar_body T r') (binaryBytes limits) = Inr data"
proof (induction T limits count r rule: tar_loop.induct)
  case (1 T limits count r)
  obtain x r' where next_: "tar_next T r = (x, r')" by fastforce
  with 1(3) obtain h where x: "x = Inr (Some h)"
    by (subst (asm) tar_loop.simps) (auto split: sum.splits option.splits)
  note step = 1(3) [unfolded tar_loop.simps [of T limits count r] next_ x prod.case sum.case option.case]
  have small: "\<not> count \<ge> entries limits" "\<not> th_size h > tar_remaining T r'" using step by (auto split: if_splits)
  show ?case
  proof (cases "th_regular h \<and> isWolBinary (base_name (th_name h))")
    case True
    with step small have "\<not> th_size h > binaryBytes limits" "readBoundedBinary (tar_body T r') (binaryBytes limits) = Inr data"
      by (auto split: if_splits sum.splits)
    with True small tar_entry.first [of T r h r'] next_ x show ?thesis
      by (intro exI [of _ 0] exI [of _ h] exI [of _ r']) auto
  next
    case False
    with step small have rest: "tar_loop T limits (count + 1) r' = Inr data" by (auto split: if_splits)
    have "\<exists>n g r''. tar_entry T r' n g r'' \<and> count + 1 + n < entries limits \<and> isWolBinary (base_name (th_name g)) \<and>
      th_regular g \<and> th_size g \<le> tar_remaining T r'' \<and> th_size g \<le> binaryBytes limits \<and>
      readBoundedBinary (tar_body T r'') (binaryBytes limits) = Inr data"
      using 1(1) [OF next_ [symmetric] x refl small] 1(2) [OF next_ [symmetric] x refl small] rest False by blast
    then obtain n g r'' where "tar_entry T r' n g r''" "count + Suc n < entries limits" and good: "isWolBinary (base_name (th_name g)) \<and>
      th_regular g \<and> th_size g \<le> tar_remaining T r'' \<and> th_size g \<le> binaryBytes limits \<and>
      readBoundedBinary (tar_body T r'') (binaryBytes limits) = Inr data" by auto
    with tar_entry.later [OF next_ [unfolded x]] show ?thesis by blast
  qed
qed

lemma zip_loop_entry:
  "zip_loop limits fs = Inr data \<Longrightarrow>
    \<exists>f \<in> set fs. isWolBinary (base_name (zf_name f)) \<and> \<not> zf_dir f \<and>
      (\<exists>body. zf_open f = Inr body \<and> readBoundedBinary body (binaryBytes limits) = Inr data)"
  by (induction limits fs rule: zip_loop.induct) (auto split: if_splits sum.splits)

text \<open>No wrap-around: the sizes add up to at most the total.\<close>

lemma zip_total_sum:
  "zip_total budget expanded fs = Inr r \<Longrightarrow> expanded \<le> budget \<Longrightarrow>
    unat expanded + sum_list (map (\<lambda>f. unat (zf_size f)) fs) \<le> unat budget"
proof (induction budget expanded fs rule: zip_total.induct)
  case (2 budget expanded f fs)
  then have le: "zf_size f \<le> budget - expanded" and rest: "zip_total budget (expanded + zf_size f) fs = Inr r"
    by (auto split: if_splits)
  have "unat (budget - expanded) = unat budget - unat expanded" using 2(3) by (rule unat_sub)
  with le have bound: "unat (zf_size f) + unat expanded \<le> unat budget"
    using 2(3) by (simp add: word_le_nat_alt)
  then have "unat expanded + unat (zf_size f) < 2 ^ 64" using unsigned_less [of budget, where ?'a = nat] by simp
  then have sum: "unat (expanded + zf_size f) = unat expanded + unat (zf_size f)"
    using unat_add_lem [of expanded "zf_size f"] by simp
  then have "expanded + zf_size f \<le> budget" using bound by (simp add: word_le_nat_alt)
  have "\<not> zf_size f > budget - expanded" using le by simp
  from 2(1) [OF this rest \<open>expanded + zf_size f \<le> budget\<close>] sum show ?case by simp
qed (simp add: word_le_nat_alt)

lemma zip_bounds:
  assumes "extractFromZip unzip content limits = Some (Inr data)"
  obtains fs where "unzip content = Inr fs" "length fs \<le> entries limits"
    "sum_list (map (\<lambda>f. unat (zf_size f)) fs) \<le> unat (word_of_int (totalBytes limits) :: 64 word)"
    "zip_loop limits fs = Inr data" "preflightZipDirectory content (entries limits) = Some (Inr ())"
proof -
  have "extractFromZip unzip content limits = yield data" using assms by (simp add: yield_def)
  then have p: "preflightZipDirectory content (entries limits) = yield ()"
    and rest: "(case unzip content of Inl e \<Rightarrow> err (Wrapf ''create zip reader'' e)
     | Inr fs \<Rightarrow> if length fs > entries limits then err too_many
         else (case zip_total (word_of_int (totalBytes limits)) 0 fs of Inl e \<Rightarrow> err e
               | Inr _ \<Rightarrow> Some (zip_loop limits fs))) = yield data"
    unfolding extractFromZip_def chain_yield by auto
  from rest obtain fs where fs: "unzip content = Inr fs" by (auto split: sum.splits)
  with rest have n: "length fs \<le> entries limits" by (auto split: if_splits)
  with rest fs obtain z where z: "zip_total (word_of_int (totalBytes limits)) 0 fs = Inr z"
    and "Some (zip_loop limits fs) = yield data" by (auto split: sum.splits)
  then show thesis
    using that [OF fs n] zip_total_sum [OF z] p by (simp add: yield_def)
qed

lemma extract_in_range: "extractBinaryWithLimits L content name limits \<noteq> None"
proof -
  have "in_range (extractFromZip unzip content limits)" for unzip
    unfolding extractFromZip_def
  proof (rule total_chain)
    show "in_range (preflightZipDirectory content (entries limits))" by (rule preflight_in_range)
  qed (auto intro: total_intros simp: in_range_def yield_def err_def split: sum.splits)
  then show ?thesis unfolding extractBinaryWithLimits_def Let_def by (auto simp: in_range_def err_def yield_def)
qed

text \<open>Where a binary may come from.\<close>

definition binary_origin :: "'r archive_lib \<Rightarrow> string \<Rightarrow> extraction_limits \<Rightarrow> string \<Rightarrow> bool" where
  "binary_origin L content limits data \<longleftrightarrow>
     data = content \<or>
     (\<exists>s n h s'. lib_gunzip L content (totalBytes limits) = Inr s \<and> tar_entry (lib_tar L) s n h s' \<and>
        n < entries limits \<and> th_regular h \<and> isWolBinary (base_name (th_name h)) \<and>
        tar_body (lib_tar L) s' = (data, None)) \<or>
     (\<exists>fs f. lib_unzip L content = Inr fs \<and> length fs \<le> entries limits \<and> f \<in> set fs \<and> \<not> zf_dir f \<and>
        isWolBinary (base_name (zf_name f)) \<and> zf_open f = Inr (data, None) \<and>
        sum_list (map (\<lambda>f. unat (zf_size f)) fs) \<le> unat (word_of_int (totalBytes limits) :: 64 word))"


text \<open>A library whose tar archives hold a directory and a binary.\<close>

definition sample_headers :: "tar_header list" where
  "sample_headers = [\<lparr>th_name = ''wol_1/'', th_size = 0, th_regular = False\<rparr>,
     \<lparr>th_name = ''wol_1/wol'', th_size = 3, th_regular = True\<rparr>]"

definition sample_tar :: "(tar_header list) tar_api" where
  "sample_tar = \<lparr>tar_next = (\<lambda>r. case r of [] \<Rightarrow> (Inr None, []) | h # hs \<Rightarrow> (Inr (Some h), hs)),
     tar_body = (\<lambda>r. (''ELF'', None)), tar_remaining = (\<lambda>r. 1000)\<rparr>"

definition sample_lib :: "(tar_header list) archive_lib" where
  "sample_lib = \<lparr>lib_tar = sample_tar, lib_gunzip = (\<lambda>c n. Inr sample_headers), lib_unzip = (\<lambda>c. Inl ErrFormat)\<rparr>"

lemma sample_extract:
  "extractBinaryWithLimits sample_lib ''xyz'' ''wol_1_linux_amd64.tar.gz'' releaseExtractionLimits = Some (Inr ''ELF'')"
  by code_simp


end
