(* ===== verification/Install.thy ===== *)
theory Install
  imports GoBase
begin

text \<open>
  Installing the new executable: \<open>ReplaceExecutable\<close>, \<open>IsTemporaryExecutable\<close> and
  \<open>RemoveStaleExecutable\<close> of \<open>internal/updater/updater.go\<close>. The file system is a map from paths to
  files; of a file, the bytes written and the bytes that would survive a crash are kept apart, as
  only \<open>Sync\<close> makes them equal. Every system call adds the state it leaves to a trace, a write the
  states in between too, so that a crash at any moment is a state of the trace. Which calls fail
  is an argument, and so are the operations on paths (\<open>os.Executable\<close>, \<open>filepath.EvalSymlinks\<close>,
  \<open>Clean\<close> and \<open>Dir\<close>).
\<close>

record disk_file =
  f_data :: string
  f_durable :: string
  f_mode :: nat

type_synonym fs = "string \<Rightarrow> disk_file option"

record machine =
  m_fs :: fs
  m_trace :: "fs list"

record host =
  h_windows :: bool
  h_executable :: "string result"
  h_eval_symlinks :: "string \<Rightarrow> string result"
  h_clean :: "string \<Rightarrow> string"
  h_dir :: "string \<Rightarrow> string"
  h_temp_name :: "string \<Rightarrow> string"
  h_flushed :: nat

text \<open>The failures of the calls, in the order of the code.\<close>

record faults =
  e_create :: "error option"
  e_write :: "(error \<times> nat) option"
  e_chmod :: "error option"
  e_sync :: "error option"
  e_close :: "error option"
  e_remove_old :: "error option"
  e_move_old :: "error option"
  e_rename :: "error option"
  e_restore :: "error option"
  e_remove_moved :: "error option"
  e_remove_temp :: "error option"

section \<open>System calls\<close>

definition goes_to :: "fs list \<Rightarrow> machine \<Rightarrow> machine" where
  "goes_to states m = \<lparr>m_fs = last (m_fs m # states), m_trace = m_trace m @ states\<rparr>"

text \<open>A call that fails changes nothing; one that succeeds leaves the given state.\<close>

definition call :: "error option \<Rightarrow> (fs \<Rightarrow> fs) \<Rightarrow> machine \<Rightarrow> error option \<times> machine" where
  "call e f m = (case e of Some x \<Rightarrow> (Some x, m) | None \<Rightarrow> (None, goes_to [f (m_fs m)] m))"

definition remove_file :: "string \<Rightarrow> fs \<Rightarrow> fs" where
  "remove_file p d = d(p := None)"

definition rename_file :: "string \<Rightarrow> string \<Rightarrow> fs \<Rightarrow> fs" where
  "rename_file p q d = (d(q := d p))(p := None)"

definition partly_written :: "nat \<Rightarrow> nat \<Rightarrow> string \<Rightarrow> disk_file" where
  "partly_written flushed n bytes = \<lparr>f_data = take n bytes, f_durable = take (min flushed n) bytes, f_mode = 384\<rparr>"

text \<open>A write goes through all prefixes of the bytes, up to the one where it fails.\<close>

definition write_file :: "(error \<times> nat) option \<Rightarrow> nat \<Rightarrow> string \<Rightarrow> string \<Rightarrow> machine \<Rightarrow> error option \<times> machine" where
  "write_file e flushed p bytes m =
     (let upto = (case e of None \<Rightarrow> length bytes | Some (_, n) \<Rightarrow> min n (length bytes));
          states = map (\<lambda>n. (m_fs m)(p := Some (partly_written flushed n bytes))) [0..<Suc upto] in
      (map_option fst e, goes_to states m))"

definition change_file :: "string \<Rightarrow> (disk_file \<Rightarrow> disk_file) \<Rightarrow> fs \<Rightarrow> fs" where
  "change_file p f d = d(p := map_option f (d p))"

section \<open>Replacing the executable\<close>

definition to_slash :: "bool \<Rightarrow> string \<Rightarrow> string" where
  "to_slash windows p = (if windows then map (\<lambda>c. if code c = 92 then CHR ''/'' else c) p else p)"

definition back_slash :: string where
  "back_slash = [char_of (92::nat)]"

definition IsTemporaryExecutable :: "bool \<Rightarrow> string \<Rightarrow> bool" where
  "IsTemporaryExecutable windows path =
     (let lower = to_lower (to_slash windows path) in
      contains lower ''/go-build'' \<or> contains lower (back_slash @ ''go-build'') \<or>
      contains lower ''/tmp/go-'' \<or> contains lower (back_slash @ ''tmp'' @ back_slash @ ''go-''))"

definition real_path :: "host \<Rightarrow> string \<Rightarrow> string" where
  "real_path h p = h_clean h (case h_eval_symlinks h p of Inl _ \<Rightarrow> p | Inr q \<Rightarrow> q)"

text \<open>Moving the finished file into place; on Windows the running program is moved away first.\<close>

definition move_into_place :: "host \<Rightarrow> faults \<Rightarrow> string \<Rightarrow> string \<Rightarrow> machine \<Rightarrow> error option \<times> machine" where
  "move_into_place h x tmp real m =
     (if h_windows h then
        let old = real @ ''.old'' in
        (case call (e_remove_old x) (remove_file old) m of (_, m) \<Rightarrow>
         case call (if m_fs m real = None then Some (Errorf ''file does not exist'') else e_move_old x) (rename_file real old) m of
           (Some e, m) \<Rightarrow> (Some (Wrapf ''move old binary on windows'' e), m)
         | (None, m) \<Rightarrow>
             (case call (e_rename x) (rename_file tmp real) m of
                (Some e, m) \<Rightarrow> (Some (Wrapf ''install new binary on windows'' e), snd (call (e_restore x) (rename_file old real) m))
              | (None, m) \<Rightarrow> (None, snd (call (e_remove_moved x) (remove_file old) m))))
      else
        (case call (e_rename x) (rename_file tmp real) m of
           (Some e, m) \<Rightarrow> (Some (Wrapf ''install new binary'' e), m)
         | (None, m) \<Rightarrow> (None, m)))"

text \<open>Filling the temporary file; a failure closes the file and stops.\<close>

definition fill :: "host \<Rightarrow> faults \<Rightarrow> string \<Rightarrow> string \<Rightarrow> machine \<Rightarrow> error option \<times> machine" where
  "fill h x tmp newBinary m =
     (case write_file (e_write x) (h_flushed h) tmp newBinary m of
        (Some e, m) \<Rightarrow> (Some (Wrapf ''write binary content'' e), m)
      | (None, m) \<Rightarrow>
          (case call (e_chmod x) (change_file tmp (\<lambda>f. f\<lparr>f_mode := 493\<rparr>)) m of
             (Some e, m) \<Rightarrow> (Some (Wrapf ''chmod binary'' e), m)
           | (None, m) \<Rightarrow>
               (case call (e_sync x) (change_file tmp (\<lambda>f. f\<lparr>f_durable := f_data f\<rparr>)) m of
                  (Some e, m) \<Rightarrow> (Some (Wrapf ''sync binary'' e), m)
                | (None, m) \<Rightarrow>
                    (case call (e_close x) (\<lambda>d. d) m of
                       (Some e, m) \<Rightarrow> (Some (Wrapf ''close temp binary'' e), m)
                     | (None, m) \<Rightarrow> (None, m)))))"

definition fill_and_move :: "host \<Rightarrow> faults \<Rightarrow> string \<Rightarrow> string \<Rightarrow> string \<Rightarrow> machine \<Rightarrow> error option \<times> machine" where
  "fill_and_move h x tmp real newBinary m =
     (case fill h x tmp newBinary m of
        (Some e, m) \<Rightarrow> (Some e, m)
      | (None, m) \<Rightarrow> move_into_place h x tmp real m)"

definition temporary_error :: "string \<Rightarrow> error" where
  "temporary_error real = Errorf (''current executable is running from a temporary directory ('' @ real
     @ ''), likely via 'go run'. Specify a permanent destination with --target'')"

definition create_error :: "string \<Rightarrow> error \<Rightarrow> error" where
  "create_error dir e = Wrapf (''cannot create temporary file in '' @ dir @ '' (check write permissions)'') e"

definition replace_at :: "host \<Rightarrow> faults \<Rightarrow> string \<Rightarrow> string \<Rightarrow> machine \<Rightarrow> (string \<times> error option) \<times> machine" where
  "replace_at h x real newBinary m =
     (if IsTemporaryExecutable (h_windows h) real then ((real, Some (temporary_error real)), m)
      else
        let tmp = h_temp_name h (h_dir h real) in
        (case call (e_create x) (\<lambda>d. d(tmp \<mapsto> \<lparr>f_data = [], f_durable = [], f_mode = 384\<rparr>)) m of
           (Some e, m) \<Rightarrow> ((real, Some (create_error (h_dir h real) e)), m)
         | (None, m) \<Rightarrow>
             (case fill_and_move h x tmp real newBinary m of
                (Some e, m) \<Rightarrow> ((real, Some e), snd (call (e_remove_temp x) (remove_file tmp) m))
              | (None, m) \<Rightarrow> ((real, None), m))))"

definition ReplaceExecutable :: "host \<Rightarrow> faults \<Rightarrow> string \<Rightarrow> string \<Rightarrow> machine \<Rightarrow> (string \<times> error option) \<times> machine" where
  "ReplaceExecutable h x targetPath newBinary m =
     (if length newBinary = 0 then (([], Some (Errorf ''empty binary data'')), m)
      else
        (case (if targetPath = [] then h_executable h else Inr targetPath) of
           Inl e \<Rightarrow> (([], Some (Wrapf ''locate executable'' e)), m)
         | Inr p \<Rightarrow> replace_at h x (real_path h p) newBinary m))"

definition RemoveStaleExecutable :: "host \<Rightarrow> error option \<Rightarrow> string \<Rightarrow> machine \<Rightarrow> machine" where
  "RemoveStaleExecutable h e executable m =
     snd (call e (remove_file (real_path h executable @ ''.old'')) m)"

section \<open>Atomic replacement\<close>

definition installed :: "string \<Rightarrow> disk_file" where
  "installed bytes = \<lparr>f_data = bytes, f_durable = bytes, f_mode = 493\<rparr>"

text \<open>
  What a crash may find: the target is the old program or the complete new one; on Windows it may
  be absent while the old program is beside it. No file is touched besides the target, the
  temporary file and, on Windows, the moved program.
\<close>

definition crash_safe :: "bool \<Rightarrow> fs \<Rightarrow> string \<Rightarrow> string \<Rightarrow> string \<Rightarrow> fs \<Rightarrow> bool" where
  "crash_safe windows d0 real tmp bytes d \<longleftrightarrow>
     (d real = d0 real \<or> d real = Some (installed bytes) \<or>
      (windows \<and> d real = None \<and> d (real @ ''.old'') = d0 real)) \<and>
     (\<forall>p. p \<noteq> real \<longrightarrow> p \<noteq> tmp \<longrightarrow> (windows \<longrightarrow> p \<noteq> real @ ''.old'') \<longrightarrow> d p = d0 p)"

lemma crash_safeI:
  assumes "d real = d0 real \<or> d real = Some (installed bytes) \<or> (windows \<and> d real = None \<and> d (real @ ''.old'') = d0 real)"
    and "\<And>p. p \<noteq> real \<Longrightarrow> p \<noteq> tmp \<Longrightarrow> (windows \<Longrightarrow> p \<noteq> real @ ''.old'') \<Longrightarrow> d p = d0 p"
  shows "crash_safe windows d0 real tmp bytes d"
  using assms unfolding crash_safe_def by blast

definition all_states :: "(fs \<Rightarrow> bool) \<Rightarrow> machine \<Rightarrow> bool" where
  "all_states P m \<longleftrightarrow> (\<forall>d \<in> set (m_trace m). P d) \<and> P (m_fs m)"

lemma call_None: "call e f m = (None, m') \<Longrightarrow> e = None \<and> m_fs m' = f (m_fs m) \<and> m_trace m' = m_trace m @ [f (m_fs m)]"
  by (auto simp: call_def goes_to_def split: option.splits)

lemma call_Some: "call e f m = (Some y, m') \<Longrightarrow> m' = m \<and> e = Some y"
  by (auto simp: call_def split: option.splits)

lemma call_states: "all_states P m \<Longrightarrow> P (f (m_fs m)) \<Longrightarrow> all_states P (snd (call e f m))"
  by (auto simp: call_def goes_to_def all_states_def split: option.splits)

lemma call_all_states: "call e f m = (r, m') \<Longrightarrow> all_states P m \<Longrightarrow> P (f (m_fs m)) \<Longrightarrow> all_states P m'"
  using call_states [of P m f e] by simp

lemma call_fs: "m_fs (snd (call e f m)) = (if e = None then f (m_fs m) else m_fs m)"
  by (auto simp: call_def goes_to_def split: option.splits)

lemma write_file_fs:
  "write_file e k p bytes m = (r, m') \<Longrightarrow>
    r = map_option fst e \<and> (\<exists>n. m_fs m' = (m_fs m)(p := Some (partly_written k n bytes)) \<and> (e = None \<longrightarrow> n = length bytes))"
  by (auto simp: write_file_def goes_to_def Let_def)

lemma write_file_states:
  "write_file e k p bytes m = (r, m') \<Longrightarrow> all_states P m \<Longrightarrow> (\<And>y. P ((m_fs m)(p := y))) \<Longrightarrow> all_states P m'"
  by (auto simp: write_file_def goes_to_def Let_def all_states_def)

text \<open>While the file is filled, only the temporary file changes; when it is filled, it is complete.\<close>

definition only_temp :: "(fs \<Rightarrow> bool) \<Rightarrow> fs \<Rightarrow> string \<Rightarrow> machine \<Rightarrow> bool" where
  "only_temp P d0 tmp m \<longleftrightarrow> all_states P m \<and> (\<exists>z. m_fs m = d0(tmp := z)) \<and> (\<forall>z. P (d0(tmp := z)))"

lemma only_temp_call:
  assumes "call e f m = (r, m')" and "only_temp P d0 tmp m" and "\<And>z. \<exists>z'. f (d0(tmp := z)) = d0(tmp := z')"
  shows "only_temp P d0 tmp m' \<and> (r = None \<longrightarrow> m_fs m' = f (m_fs m))"
proof (cases r)
  case None
  with assms(1) call_None have c: "m_fs m' = f (m_fs m)" "m_trace m' = m_trace m @ [f (m_fs m)]" by blast+
  from assms(2) obtain z where z: "m_fs m = d0(tmp := z)" by (auto simp: only_temp_def)
  obtain z' where "f (m_fs m) = d0(tmp := z')" using assms(3) [of z] z by auto
  with assms(2) c show ?thesis by (auto simp: only_temp_def all_states_def)
next
  case (Some y)
  with assms call_Some show ?thesis by blast
qed

lemma only_temp_write:
  assumes "write_file e k tmp bytes m = (r, m')" and "only_temp P d0 tmp m"
  shows "only_temp P d0 tmp m' \<and> (r = None \<longrightarrow> m_fs m' = d0(tmp := Some (partly_written k (length bytes) bytes)))"
proof -
  from assms(2) obtain z where z: "m_fs m = d0(tmp := z)" and P: "\<And>z. P (d0(tmp := z))" and s: "all_states P m"
    by (auto simp: only_temp_def)
  have "all_states P m'" using write_file_states [OF assms(1) s] P z by simp
  with write_file_fs [OF assms(1)] z P show ?thesis by (auto simp: only_temp_def)
qed

lemma change_file_upd: "change_file p f (d(p \<mapsto> y)) = d(p \<mapsto> f y)"
  by (simp add: change_file_def)

lemma fill_result:
  assumes run: "fill h x tmp bytes m = (r, m')" and m: "only_temp P d0 tmp m"
  shows "only_temp P d0 tmp m' \<and> (r = None \<longrightarrow> m_fs m' = d0(tmp := Some (installed bytes)))"
proof -
  let ?chmod = "change_file tmp (\<lambda>f. f\<lparr>f_mode := 493\<rparr>)" and ?sync = "change_file tmp (\<lambda>f. f\<lparr>f_durable := f_data f\<rparr>)"
  obtain r1 m1 where w: "write_file (e_write x) (h_flushed h) tmp bytes m = (r1, m1)" by fastforce
  obtain r2 m2 where c: "call (e_chmod x) ?chmod m1 = (r2, m2)" by fastforce
  obtain r3 m3 where y: "call (e_sync x) ?sync m2 = (r3, m3)" by fastforce
  obtain r4 m4 where l: "call (e_close x) (\<lambda>d. d) m3 = (r4, m4)" by fastforce
  have changes: "\<exists>z'. change_file tmp f (d0(tmp := z)) = d0(tmp := z')" for f z by (auto simp: change_file_def)
  note s1 = only_temp_write [OF w m]
  note s2 = only_temp_call [OF c conjunct1 [OF s1] changes]
  note s3 = only_temp_call [OF y conjunct1 [OF s2] changes]
  have s4: "only_temp P d0 tmp m4 \<and> (r4 = None \<longrightarrow> m_fs m4 = m_fs m3)" using only_temp_call [OF l conjunct1 [OF s3]] by auto
  have run: "(r, m') = (case r1 of Some e \<Rightarrow> (Some (Wrapf ''write binary content'' e), m1) | None \<Rightarrow>
      (case r2 of Some e \<Rightarrow> (Some (Wrapf ''chmod binary'' e), m2) | None \<Rightarrow>
        (case r3 of Some e \<Rightarrow> (Some (Wrapf ''sync binary'' e), m3) | None \<Rightarrow>
          (case r4 of Some e \<Rightarrow> (Some (Wrapf ''close temp binary'' e), m4) | None \<Rightarrow> (None, m4)))))"
    using run unfolding fill_def w prod.case by (cases r1; cases r2; cases r3; cases r4) (simp_all add: c y l)
  have "m_fs m4 = d0(tmp := Some (installed bytes))" if "r1 = None" "r2 = None" "r3 = None" "r4 = None"
  proof -
    define y0 where "y0 = partly_written (h_flushed h) (length bytes) bytes"
    from s1 that have e1: "m_fs m1 = d0(tmp \<mapsto> y0)" by (simp only: y0_def simp_thms)
    from s2 that have "m_fs m2 = ?chmod (m_fs m1)" by blast
    then have e2: "m_fs m2 = d0(tmp \<mapsto> y0\<lparr>f_mode := 493\<rparr>)" unfolding e1 change_file_upd .
    from s3 that have "m_fs m3 = ?sync (m_fs m2)" by blast
    then have e3: "m_fs m3 = d0(tmp \<mapsto> y0\<lparr>f_mode := 493, f_durable := f_data (y0\<lparr>f_mode := 493\<rparr>)\<rparr>)"
      unfolding e2 change_file_upd .
    have "y0\<lparr>f_mode := 493, f_durable := f_data (y0\<lparr>f_mode := 493\<rparr>)\<rparr> = installed bytes"
      by (simp add: y0_def partly_written_def installed_def)
    with e3 s4 that show ?thesis by (simp only: simp_thms)
  qed
  with run s1 s2 s3 s4 show ?thesis by (cases r1; cases r2; cases r3; cases r4) simp_all
qed

text \<open>The renamings.\<close>

lemma move_unix:
  assumes "\<not> h_windows h" and run: "move_into_place h x tmp real m = (r, m')" and "tmp \<noteq> real"
    and fs: "m_fs m = d0(tmp \<mapsto> installed bytes)" and "all_states (crash_safe False d0 real tmp bytes) m"
  shows "all_states (crash_safe False d0 real tmp bytes) m' \<and>
    (case r of None \<Rightarrow> m_fs m' = d0(real \<mapsto> installed bytes, tmp := None) | Some e \<Rightarrow> m_fs m' = m_fs m)"
proof -
  obtain r1 m1 where c: "call (e_rename x) (rename_file tmp real) m = (r1, m1)" by fastforce
  have run: "(r, m') = (case r1 of Some e \<Rightarrow> (Some (Wrapf ''install new binary'' e), m1) | None \<Rightarrow> (None, m1))"
    using run \<open>\<not> h_windows h\<close> unfolding move_into_place_def by (simp add: c split: option.splits)
  have moved: "rename_file tmp real (m_fs m) = d0(real \<mapsto> installed bytes, tmp := None)"
    unfolding rename_file_def fs using \<open>tmp \<noteq> real\<close> by (simp add: fun_eq_iff)
  have "crash_safe False d0 real tmp bytes (rename_file tmp real (m_fs m))"
    unfolding moved by (rule crash_safeI) (use \<open>tmp \<noteq> real\<close> in simp_all)
  then have s: "all_states (crash_safe False d0 real tmp bytes) m1" by (rule call_all_states [OF c assms(5)])
  show ?thesis
  proof (cases r1)
    case None
    with run s call_None [OF c [unfolded None]] moved show ?thesis by simp
  next
    case (Some e)
    with run s call_Some [OF c [unfolded Some]] show ?thesis by simp
  qed
qed

lemma move_windows:
  assumes "h_windows h" and run: "move_into_place h x tmp real m = (r, m')" and "tmp \<noteq> real" "tmp \<noteq> real @ ''.old''"
    and fs: "m_fs m = d0(tmp \<mapsto> installed bytes)" and states: "all_states (crash_safe True d0 real tmp bytes) m"
  shows "all_states (crash_safe True d0 real tmp bytes) m' \<and>
    (case r of None \<Rightarrow> m_fs m' real = Some (installed bytes) \<and> m_fs m' tmp = None
     | Some e \<Rightarrow> e_restore x = None \<longrightarrow> m_fs m' real = d0 real)"
proof -
  let ?old = "real @ ''.old''" and ?P = "crash_safe True d0 real tmp bytes"
  have old: "?old \<noteq> real" by simp
  obtain r1 m1 where c1: "call (e_remove_old x) (remove_file ?old) m = (r1, m1)" by fastforce
  define missing where "missing = (if m_fs m1 real = None then Some (Errorf ''file does not exist'') else e_move_old x)"
  obtain r2 m2 where c2: "call missing (rename_file real ?old) m1 = (r2, m2)" by fastforce
  obtain r3 m3 where c3: "call (e_rename x) (rename_file tmp real) m2 = (r3, m3)" by fastforce
  have run: "(r, m') = (case r2 of Some e \<Rightarrow> (Some (Wrapf ''move old binary on windows'' e), m2) | None \<Rightarrow>
      (case r3 of Some e \<Rightarrow> (Some (Wrapf ''install new binary on windows'' e), snd (call (e_restore x) (rename_file ?old real) m3))
       | None \<Rightarrow> (None, snd (call (e_remove_moved x) (remove_file ?old) m3))))"
    using run \<open>h_windows h\<close> unfolding move_into_place_def Let_def
    by (simp add: c1 c2 missing_def [symmetric] c3 split: option.splits)
  have f1: "m_fs m1 real = d0 real" "m_fs m1 tmp = Some (installed bytes)"
    "\<And>p. p \<noteq> real \<Longrightarrow> p \<noteq> tmp \<Longrightarrow> p \<noteq> ?old \<Longrightarrow> m_fs m1 p = d0 p"
    using call_fs [of "e_remove_old x" "remove_file ?old" m] c1 fs assms(3,4) by (auto simp: remove_file_def)
  have "?P (remove_file ?old (m_fs m))" 
    by (rule crash_safeI) (use fs assms(3,4) in \<open>simp_all add: remove_file_def\<close>)
  then have s1: "all_states ?P m1" by (rule call_all_states [OF c1 states])
  show ?thesis
  proof (cases r2)
    case (Some e)
    with call_Some [OF c2 [unfolded Some]] run s1 f1 show ?thesis by simp
  next
    case None
    from call_None [OF c2 [unfolded None]] have m2: "m_fs m2 = rename_file real ?old (m_fs m1)"
      "m_trace m2 = m_trace m1 @ [rename_file real ?old (m_fs m1)]" by auto
    then have f2: "m_fs m2 real = None" "m_fs m2 ?old = d0 real" "m_fs m2 tmp = Some (installed bytes)"
      "\<And>p. p \<noteq> real \<Longrightarrow> p \<noteq> tmp \<Longrightarrow> p \<noteq> ?old \<Longrightarrow> m_fs m2 p = d0 p"
      using f1 assms(3,4) old by (auto simp: rename_file_def)
    have "?P (m_fs m2)" by (rule crash_safeI) (use f2 in simp_all)
    then have s2: "all_states ?P m2" unfolding m2(1) by (rule call_all_states [OF c2 s1])
    show ?thesis
    proof (cases r3)
      case (Some e)
      then have m3: "m3 = m2" using call_Some c3 by blast
      have P: "?P (rename_file ?old real (m_fs m2))" by (rule crash_safeI) (use f2 in \<open>simp_all add: rename_file_def\<close>)
      have "m_fs (snd (call (e_restore x) (rename_file ?old real) m2)) real = d0 real" if "e_restore x = None"
        using that f2 old by (simp add: call_fs rename_file_def)
      with run \<open>r2 = None\<close> Some m3 call_states [where e = "e_restore x" and f = "rename_file ?old real", OF s2 P] show ?thesis by simp
    next
      case None
      from call_None [OF c3 [unfolded None]] have m3: "m_fs m3 = rename_file tmp real (m_fs m2)"
        "m_trace m3 = m_trace m2 @ [rename_file tmp real (m_fs m2)]" by auto
      then have f3: "m_fs m3 real = Some (installed bytes)" "m_fs m3 tmp = None"
        "\<And>p. p \<noteq> real \<Longrightarrow> p \<noteq> tmp \<Longrightarrow> p \<noteq> ?old \<Longrightarrow> m_fs m3 p = d0 p"
        using f2 assms(3,4) by (auto simp: rename_file_def)
      have "?P (m_fs m3)" by (rule crash_safeI) (use f3 in simp_all)
      then have s3: "all_states ?P m3" unfolding m3(1) by (rule call_all_states [OF c3 s2])
      have P: "?P (remove_file ?old (m_fs m3))" by (rule crash_safeI) (use f3 in \<open>simp_all add: remove_file_def\<close>)
      have "m_fs (snd (call (e_remove_moved x) (remove_file ?old) m3)) real = Some (installed bytes) \<and>
        m_fs (snd (call (e_remove_moved x) (remove_file ?old) m3)) tmp = None"
        using f3 assms(3,4) old by (simp add: call_fs remove_file_def)
      with run \<open>r2 = None\<close> None call_states [where e = "e_remove_moved x" and f = "remove_file ?old", OF s3 P] show ?thesis by simp
    qed
  qed
qed

lemma fill_and_move_result:
  assumes run: "fill_and_move h x tmp real bytes m = (r, m')" and "tmp \<noteq> real" "tmp \<noteq> real @ ''.old''"
    and m: "only_temp (crash_safe (h_windows h) d0 real tmp bytes) d0 tmp m"
  shows "all_states (crash_safe (h_windows h) d0 real tmp bytes) m' \<and>
    (case r of None \<Rightarrow> m_fs m' real = Some (installed bytes) \<and> m_fs m' tmp = None
     | Some e \<Rightarrow> (h_windows h \<longrightarrow> e_restore x = None) \<longrightarrow> m_fs m' real = d0 real)"
proof -
  let ?P = "crash_safe (h_windows h) d0 real tmp bytes"
  obtain r1 m1 where f: "fill h x tmp bytes m = (r1, m1)" by fastforce
  note filled = fill_result [OF f m]
  show ?thesis
  proof (cases r1)
    case (Some e)
    with run f have "r = Some e" "m' = m1" by (simp_all add: fill_and_move_def)
    with filled \<open>tmp \<noteq> real\<close> show ?thesis by (auto simp: only_temp_def)
  next
    case None
    with run f have mv: "move_into_place h x tmp real m1 = (r, m')" by (simp add: fill_and_move_def)
    from filled None have m1: "m_fs m1 = d0(tmp \<mapsto> installed bytes)" and s: "all_states ?P m1" by (simp_all add: only_temp_def)
    show ?thesis
    proof (cases "h_windows h")
      case True
      with s have "all_states (crash_safe True d0 real tmp bytes) m1" by simp
      from move_windows [OF True mv assms(2,3) m1 this] True show ?thesis by (cases r) simp_all
    next
      case False
      with s have "all_states (crash_safe False d0 real tmp bytes) m1" by simp
      from move_unix [OF False mv assms(2) m1 this] have
        "all_states (crash_safe False d0 real tmp bytes) m' \<and>
         (case r of None \<Rightarrow> m_fs m' = d0(real \<mapsto> installed bytes, tmp := None) | Some e \<Rightarrow> m_fs m' = m_fs m1)" .
      with False m1 \<open>tmp \<noteq> real\<close> show ?thesis by (cases r) simp_all
    qed
  qed
qed


definition sample_host :: host where
  "sample_host = \<lparr>h_windows = False, h_executable = Inr ''/opt/wol'', h_eval_symlinks = (\<lambda>p. Inr p), h_clean = (\<lambda>p. p),
     h_dir = (\<lambda>p. ''/opt''), h_temp_name = (\<lambda>d. d @ ''/.wol-update-1''), h_flushed = 1\<rparr>"

definition no_faults :: faults where
  "no_faults = \<lparr>e_create = None, e_write = None, e_chmod = None, e_sync = None, e_close = None, e_remove_old = None,
     e_move_old = None, e_rename = None, e_restore = None, e_remove_moved = None, e_remove_temp = None\<rparr>"

definition old_program :: machine where
  "old_program = \<lparr>m_fs = (\<lambda>p. if p = ''/opt/wol'' then Some (installed ''old'') else None), m_trace = []\<rparr>"

lemma sample_replace:
  "fst (ReplaceExecutable sample_host no_faults [] ''new'' old_program) = (''/opt/wol'', None)"
  "length (m_trace (snd (ReplaceExecutable sample_host no_faults [] ''new'' old_program))) = 9"
  by code_simp+

lemma sample_temp:
  "m_fs old_program (h_temp_name sample_host (h_dir sample_host (real_path sample_host ''/opt/wol''))) = None"
  "h_temp_name sample_host (h_dir sample_host (real_path sample_host ''/opt/wol'')) \<noteq> real_path sample_host ''/opt/wol''"
  "h_temp_name sample_host (h_dir sample_host (real_path sample_host ''/opt/wol'')) \<noteq> real_path sample_host ''/opt/wol'' @ ''.old''"
  "real_path sample_host ''/opt/wol'' = ''/opt/wol''" "\<not> h_windows sample_host"
  "(if [] = ([] :: string) then h_executable sample_host else Inr []) = Inr ''/opt/wol''" "m_trace old_program = []"
  by code_simp+


end
