(* ===== verification/ReleaseSign.thy ===== *)
theory ReleaseSign
  imports GoBase
begin

text \<open>
  \<open>internal/releasesign/signature.go\<close>: detached Ed25519 signatures over the checksum manifest. PEM,
  X.509 and Ed25519 themselves are arguments, as are the files.
\<close>

definition MaxManifestBytes :: nat where "MaxManifestBytes = 1024 * 1024"
definition MaxKeyBytes :: nat where "MaxKeyBytes = 16 * 1024"

record pem_block =
  pb_type :: string
  pb_headers :: nat
  pb_bytes :: string

record crypto =
  cr_pem :: "string \<Rightarrow> pem_block option \<times> string"
  cr_public :: "string \<Rightarrow> (string option) result"
  cr_private :: "string \<Rightarrow> (string option) result"
  cr_marshal :: "string \<Rightarrow> string result"
  cr_sign :: "string \<Rightarrow> string \<Rightarrow> string"
  cr_verify :: "string \<Rightarrow> string \<Rightarrow> string \<Rightarrow> bool"
  cr_sha256 :: "string \<Rightarrow> byte list"

record stat_info =
  st_regular :: bool
  st_size :: int

record file_access =
  fa_stat :: "string \<Rightarrow> stat_info result"
  fa_open :: "string \<Rightarrow> (string \<times> error option) result"

definition size_error :: error where "size_error = Errorf ''input exceeds size limit''"

definition ReadFile :: "file_access \<Rightarrow> string \<Rightarrow> nat \<Rightarrow> string result" where
  "ReadFile F path limit =
     (case fa_stat F path of
        Inl e \<Rightarrow> Inl e
      | Inr info \<Rightarrow>
          if \<not> st_regular info then Inl (Errorf ''input must be a regular file'')
          else if st_size info > int limit then Inl size_error
          else (case fa_open F path of
                  Inl e \<Rightarrow> Inl e
                | Inr body \<Rightarrow>
                    (case limited_read (limit + 1) body of
                       Inl e \<Rightarrow> Inl e
                     | Inr data \<Rightarrow> if length data > limit then Inl size_error else Inr data)))"

definition pem_error :: "string \<Rightarrow> error" where
  "pem_error kind = Errorf (''expected a single '' @ kind @ '' PEM block'')"

definition decodeKey :: "crypto \<Rightarrow> string \<Rightarrow> string \<Rightarrow> string result" where
  "decodeKey C data kind =
     (if length data > MaxKeyBytes then Inl (Errorf ''key exceeds size limit'')
      else
        let data = trim_space data in
        if \<not> has_prefix data (''-----BEGIN '' @ kind @ ''-----'') then Inl (pem_error kind)
        else
          (case cr_pem C data of
             (None, rest) \<Rightarrow> Inl (pem_error kind)
           | (Some block, rest) \<Rightarrow>
               if pb_type block \<noteq> kind \<or> pb_headers block \<noteq> 0 \<or> trim_space rest \<noteq> [] then Inl (pem_error kind)
               else Inr (pb_bytes block)))"

text \<open>\<open>x509\<close> yields a key of some algorithm: \<open>Some\<close> an Ed25519 key, \<open>None\<close> another one.\<close>

definition ParsePublicKey :: "crypto \<Rightarrow> string \<Rightarrow> string result" where
  "ParsePublicKey C data =
     (case decodeKey C data ''PUBLIC KEY'' of
        Inl e \<Rightarrow> Inl e
      | Inr der \<Rightarrow>
          (case cr_public C der of
             Inl e \<Rightarrow> Inl (Errorf ''invalid PKIX public key'')
           | Inr None \<Rightarrow> Inl (Errorf ''public key must be Ed25519'')
           | Inr (Some key) \<Rightarrow>
               if length key \<noteq> 32 then Inl (Errorf ''public key must be Ed25519'') else Inr key))"

definition ParsePrivateKey :: "crypto \<Rightarrow> string \<Rightarrow> string result" where
  "ParsePrivateKey C data =
     (case decodeKey C data ''PRIVATE KEY'' of
        Inl e \<Rightarrow> Inl e
      | Inr der \<Rightarrow>
          (case cr_private C der of
             Inl e \<Rightarrow> Inl (Errorf ''invalid PKCS8 private key'')
           | Inr None \<Rightarrow> Inl (Errorf ''private key must be Ed25519'')
           | Inr (Some key) \<Rightarrow>
               if length key \<noteq> 64 then Inl (Errorf ''private key must be Ed25519'') else Inr key))"

definition Fingerprint :: "crypto \<Rightarrow> string \<Rightarrow> string result" where
  "Fingerprint C key =
     (case cr_marshal C key of Inl e \<Rightarrow> Inl e | Inr der \<Rightarrow> Inr (hex_encode (cr_sha256 C der)))"

definition Sign :: "crypto \<Rightarrow> string \<Rightarrow> string \<Rightarrow> string result" where
  "Sign C key manifest =
     (if length key \<noteq> 64 then Inl (Errorf ''invalid Ed25519 private key'')
      else if length manifest = 0 \<or> length manifest > MaxManifestBytes then Inl (Errorf ''invalid manifest size'')
      else Inr (cr_sign C key manifest))"

definition Verify :: "crypto \<Rightarrow> string \<Rightarrow> string \<Rightarrow> string \<Rightarrow> error option" where
  "Verify C key manifest signature =
     (if length key \<noteq> 32 then Some (Errorf ''invalid Ed25519 public key'')
      else if length manifest = 0 \<or> length manifest > MaxManifestBytes then Some (Errorf ''invalid manifest size'')
      else if length signature \<noteq> 64 \<or> \<not> cr_verify C key manifest signature
      then Some (Errorf ''invalid manifest signature'')
      else None)"

lemma Verify_None: "Verify C key manifest signature = None \<Longrightarrow>
    length key = 32 \<and> manifest \<noteq> [] \<and> length signature = 64 \<and> cr_verify C key manifest signature"
  by (auto simp: Verify_def split: if_splits)

text \<open>What a signer makes, the verifier accepts, for keys that belong together.\<close>

lemma Sign_Verify:
  assumes "Sign C key manifest = Inr signature" and "length public = 32" and "length signature = 64"
    and "cr_verify C public manifest (cr_sign C key manifest)"
  shows "Verify C public manifest signature = None"
  using assms by (auto simp: Sign_def Verify_def split: if_splits)

end
