(* ===== verification/Update.thy ===== *)
theory Update
  imports Version Assets Extract Install ReleaseSign
begin

text \<open>
  The updater of \<open>internal/updater\<close>: looking a release up, downloading and verifying an asset
  (\<open>checksum.go\<close>), and \<open>ExecuteUpdate\<close>. The state threaded through an update is the network's and
  the machine's: what a request answers may change from one to the next. JSON decoding, HTTP, the
  Go toolchain and cryptography are arguments.
\<close>

section \<open>The surroundings\<close>

record release =
  rl_tag :: string
  rl_name :: string
  rl_html_url :: string
  rl_assets :: "asset list"

datatype http_method = GET | HEAD

record http_response =
  rs_status :: int
  rs_body :: "string \<times> error option"
  rs_location :: string

text \<open>\<open>http_do follow method url\<close>; \<open>follow\<close> is whether redirects are followed.\<close>

record 's http_api =
  http_new :: "string \<Rightarrow> error option"
  http_do :: "bool \<Rightarrow> http_method \<Rightarrow> string \<Rightarrow> 's \<Rightarrow> http_response result \<times> 's"
  http_json :: "string \<times> error option \<Rightarrow> release result"

record toolchain =
  tc_look_path :: "error option"
  tc_mkdir_temp :: "error option"
  tc_install :: "string \<Rightarrow> string \<times> error option"
  tc_read :: "string \<Rightarrow> string result"

record client =
  c_version :: string
  c_repo :: string
  c_api :: string
  c_web :: string
  c_key_file :: string

record ('s, 'r) env =
  en_http :: "'s http_api"
  en_crypto :: crypto
  en_files :: file_access
  en_archives :: "'r archive_lib"
  en_tools :: toolchain
  en_host :: host
  en_faults :: faults
  en_os :: string
  en_arch :: string

text \<open>Steps that pass the state on and stop at the first error.\<close>

definition after :: "'a result \<times> 's \<Rightarrow> ('a \<Rightarrow> 's \<Rightarrow> 'b result \<times> 's) \<Rightarrow> 'b result \<times> 's" where
  "after r f = (case r of (Inl e, s) \<Rightarrow> (Inl e, s) | (Inr x, s) \<Rightarrow> f x s)"

definition wrap :: "string \<Rightarrow> 'a result \<times> 's \<Rightarrow> 'a result \<times> 's" where
  "wrap msg r = (case r of (Inl e, s) \<Rightarrow> (Inl (Wrapf msg e), s) | (Inr x, s) \<Rightarrow> (Inr x, s))"

lemma after_Inr: "after r f = (Inr y, s') \<longleftrightarrow> (\<exists>x s. r = (Inr x, s) \<and> f x s = (Inr y, s'))"
  by (cases r) (auto simp: after_def split: sum.splits)

lemma wrap_Inr: "wrap msg r = (Inr y, s) \<longleftrightarrow> r = (Inr y, s)"
  by (cases r) (auto simp: wrap_def split: sum.splits)

section \<open>Releases\<close>

definition StatusOK :: int where "StatusOK = 200"
definition StatusNotFound :: int where "StatusNotFound = 404"

definition tag_of_location :: "string \<Rightarrow> string result" where
  "tag_of_location loc =
     (if loc = [] then Inl (Errorf ''no redirect location found'')
      else
        let parts = split_str ''/releases/tag/'' loc in
        if length parts = 2 \<and> parts ! 1 \<noteq> [] then Inr (trim_space (parts ! 1))
        else Inl (Errorf (''unexpected redirect location: '' @ loc)))"

definition fetchTagFromRedirect :: "('s, 'r) env \<Rightarrow> string \<Rightarrow> 's \<Rightarrow> string result \<times> 's" where
  "fetchTagFromRedirect E url s =
     (case http_new (en_http E) url of
        Some e \<Rightarrow> (Inl e, s)
      | None \<Rightarrow> after (http_do (en_http E) False HEAD url s) (\<lambda>resp s. (tag_of_location (rs_location resp), s)))"

definition decode_release :: "('s, 'r) env \<Rightarrow> http_response \<Rightarrow> release result" where
  "decode_release E resp =
     (case http_json (en_http E) (rs_body resp) of
        Inl e \<Rightarrow> Inl (Wrapf ''decode release metadata'' e) | Inr r \<Rightarrow> Inr r)"

definition FetchLatestRelease :: "('s, 'r) env \<Rightarrow> client \<Rightarrow> 's \<Rightarrow> release result \<times> 's" where
  "FetchLatestRelease E c s =
     (let apiURL = c_api c @ ''/repos/'' @ c_repo c @ ''/releases/latest'';
          webURL = c_web c @ ''/'' @ c_repo c @ ''/releases/latest'';
          fallback = (\<lambda>s. after (wrap ''fetch latest release'' (fetchTagFromRedirect E webURL s)) (\<lambda>tag s.
            (Inr \<lparr>rl_tag = tag, rl_name = tag, rl_html_url = c_web c @ ''/'' @ c_repo c @ ''/releases/tag/'' @ tag,
               rl_assets = []\<rparr>, s))) in
      case http_new (en_http E) apiURL of
        Some e \<Rightarrow> (Inl (Wrapf ''create release request'' e), s)
      | None \<Rightarrow>
          (case http_do (en_http E) True GET apiURL s of
             (Inr resp, s) \<Rightarrow> if rs_status resp = StatusOK then (decode_release E resp, s) else fallback s
           | (Inl e, s) \<Rightarrow> fallback s))"

definition v_tag :: "string \<Rightarrow> string" where
  "v_tag tag = (if \<not> has_prefix tag ''v'' \<and> \<not> has_prefix tag ''V'' then ''v'' @ tag else tag)"

definition FetchReleaseByTag :: "('s, 'r) env \<Rightarrow> client \<Rightarrow> string \<Rightarrow> 's \<Rightarrow> release result \<times> 's" where
  "FetchReleaseByTag E c tag s =
     (let normTag = v_tag tag; apiURL = c_api c @ ''/repos/'' @ c_repo c @ ''/releases/tags/'' @ normTag in
      case http_new (en_http E) apiURL of
        Some e \<Rightarrow> (Inl (Wrapf ''create release tag request'' e), s)
      | None \<Rightarrow>
          after (wrap (''fetch release '' @ normTag) (http_do (en_http E) True GET apiURL s)) (\<lambda>resp s.
            (if rs_status resp = StatusOK then decode_release E resp
             else if rs_status resp = StatusNotFound
             then Inl (Errorf (''github release '' @ normTag @ '' was not found''))
             else Inl (Errorf (''github returned HTTP '' @ itoa (rs_status resp) @ '' for release '' @ normTag)), s)))"

record check_result =
  ck_latest :: string
  ck_available :: bool
  ck_release :: release

definition CheckLatest :: "('s, 'r) env \<Rightarrow> client \<Rightarrow> 's \<Rightarrow> check_result result \<times> 's" where
  "CheckLatest E c s =
     after (FetchLatestRelease E c s) (\<lambda>rel s.
       (Inr \<lparr>ck_latest = rl_tag rel,
          ck_available = (CompareVersions (CleanVersion (c_version c)) (CleanVersion (rl_tag rel)) < 0),
          ck_release = rel\<rparr>, s))"

section \<open>Downloads\<close>

definition maxArchiveBytes :: nat where "maxArchiveBytes = 128 * 1024 * 1024"
definition maxChecksumBytes :: nat where "maxChecksumBytes = 1024 * 1024"

definition received :: "nat \<Rightarrow> http_response \<Rightarrow> string result" where
  "received maxBytes resp =
     (if rs_status resp \<noteq> StatusOK then Inl (Errorf (''download asset returned HTTP '' @ itoa (rs_status resp)))
      else (case limited_read (maxBytes + 1) (rs_body resp) of
              Inl e \<Rightarrow> Inl (Wrapf ''read download content'' e)
            | Inr data \<Rightarrow>
                if length data > maxBytes
                then Inl (Errorf (''download exceeds '' @ itoa (int maxBytes) @ '' byte limit''))
                else Inr data))"

definition downloadAsset :: "('s, 'r) env \<Rightarrow> string \<Rightarrow> nat \<Rightarrow> 's \<Rightarrow> string result \<times> 's" where
  "downloadAsset E downloadURL maxBytes s =
     (case http_new (en_http E) downloadURL of
        Some e \<Rightarrow> (Inl (Wrapf ''create download request'' e), s)
      | None \<Rightarrow> after (wrap ''download asset'' (http_do (en_http E) True GET downloadURL s)) (\<lambda>resp s.
          (received maxBytes resp, s)))"

definition DownloadAsset :: "('s, 'r) env \<Rightarrow> string \<Rightarrow> 's \<Rightarrow> string result \<times> 's" where
  "DownloadAsset E downloadURL = downloadAsset E downloadURL maxArchiveBytes"

definition legacy_name :: "release \<Rightarrow> string" where
  "legacy_name rel = ''wol_'' @ CleanVersion (rl_tag rel) @ ''_checksums.txt''"

text \<open>The manifest: the first \<open>SHA256SUMS\<close>, else the last asset with the legacy name.\<close>

fun choose_manifest :: "string \<Rightarrow> asset option \<Rightarrow> asset list \<Rightarrow> asset option" where
  "choose_manifest legacy chosen [] = chosen"
| "choose_manifest legacy chosen (a # as) =
     (if as_name a = ''SHA256SUMS'' then Some a
      else if as_name a = legacy then choose_manifest legacy (Some a) as
      else choose_manifest legacy chosen as)"

fun choose_signature :: "string \<Rightarrow> asset option \<Rightarrow> asset list \<Rightarrow> (asset option) result" where
  "choose_signature name chosen [] = Inr chosen"
| "choose_signature name chosen (a # as) =
     (if as_name a = name
      then (if chosen \<noteq> None then Inl (Errorf ''duplicate checksum signature asset'')
            else choose_signature name (Some a) as)
      else choose_signature name chosen as)"

definition trusted_key :: "('s, 'r) env \<Rightarrow> client \<Rightarrow> string result" where
  "trusted_key E c =
     (case ReadFile (en_files E) (c_key_file c) MaxKeyBytes of
        Inl e \<Rightarrow> Inl (Wrapf ''read trusted public key'' e)
      | Inr keyBytes \<Rightarrow>
          (case ParsePublicKey (en_crypto E) keyBytes of
             Inl e \<Rightarrow> Inl (Wrapf ''parse trusted public key'' e)
           | Inr key \<Rightarrow> Inr key))"

text \<open>The signature of the manifest, checked when a trusted key is configured.\<close>

definition check_signature ::
  "('s, 'r) env \<Rightarrow> client \<Rightarrow> release \<Rightarrow> asset \<Rightarrow> asset \<Rightarrow> string \<Rightarrow> 's \<Rightarrow> unit result \<times> 's" where
  "check_signature E c rel a manifest_asset checksums s =
     (if c_key_file c = [] then (Inr (), s)
      else if \<not> has_prefix (as_name a) (''wol_'' @ CleanVersion (rl_tag rel) @ ''_'')
      then (Inl (Errorf (''signed asset name does not match release version '' @ rl_tag rel)), s)
      else
        after (trusted_key E c, s) (\<lambda>key s.
        after (choose_signature (as_name manifest_asset @ ''.sig'') None (rl_assets rel), s) (\<lambda>signature s.
        case signature of
          None \<Rightarrow> (Inl (Errorf (''release '' @ rl_tag rel @ '' has no checksum signature'')), s)
        | Some sig_asset \<Rightarrow>
            after (wrap ''download checksum signature'' (downloadAsset E (as_url sig_asset) 64 s)) (\<lambda>sig s.
            (case Verify (en_crypto E) key checksums sig of Some e \<Rightarrow> Inl e | None \<Rightarrow> Inr (), s)))))"

definition downloadVerifiedAsset ::
  "('s, 'r) env \<Rightarrow> client \<Rightarrow> release \<Rightarrow> asset \<Rightarrow> 's \<Rightarrow> string result \<times> 's" where
  "downloadVerifiedAsset E c rel a s =
     (case choose_manifest (legacy_name rel) None (rl_assets rel) of
        None \<Rightarrow> (Inl (Errorf (''release '' @ rl_tag rel
          @ '' has no checksum manifest; download and verify it manually before installation'')), s)
      | Some manifest_asset \<Rightarrow>
          after (wrap ''download checksum manifest'' (downloadAsset E (as_url manifest_asset) maxChecksumBytes s)) (\<lambda>checksums s.
          after (check_signature E c rel a manifest_asset checksums s) (\<lambda>_ s.
          after (checksumForAsset checksums (as_name a), s) (\<lambda>expected s.
          after (DownloadAsset E (as_url a) s) (\<lambda>data s.
          (if cr_sha256 (en_crypto E) data \<noteq> expected
           then Inl (Errorf (''checksum mismatch for '' @ as_name a @ ''; executable unchanged''))
           else Inr data, s))))))"

section \<open>Building from source\<close>

text \<open>The output of a failed build, which the error message carries after the cause, is left out.\<close>

definition BuildFromSource :: "('s, 'r) env \<Rightarrow> string \<Rightarrow> string \<Rightarrow> string result" where
  "BuildFromSource E repo tag =
     (let T = en_tools E; targetPackage = ''github.com/'' @ repo @ ''/cmd/wol@'' @ v_tag tag in
      if en_os E = ''darwin''
      then Inl (Errorf (''automatic source fallback is disabled on macOS to preserve network-permission packaging; download the matching release archive, or check out the release tag and run make install BINDIR='' @ [CHR 0x22] @ ''$HOME/.local/bin'' @ [CHR 0x22]))
      else case tc_look_path T of
        Some e \<Rightarrow> Inl (Wrapf ''go toolchain not found in PATH'' e)
      | None \<Rightarrow>
          (case tc_mkdir_temp T of
             Some e \<Rightarrow> Inl (Wrapf ''create temporary build directory'' e)
           | None \<Rightarrow>
               (case tc_install T targetPackage of
                  (out, Some e) \<Rightarrow> Inl (Wrapf (''failed to build '' @ targetPackage) e)
                | (out, None) \<Rightarrow>
                    (case tc_read T (if en_os E = ''windows'' then ''wol.exe'' else ''wol'') of
                       Inl e \<Rightarrow> Inl (Wrapf ''read compiled binary'' e)
                     | Inr data \<Rightarrow> Inr data))))"

section \<open>ExecuteUpdate\<close>

record update_options =
  uo_check_only :: bool
  uo_force :: bool
  uo_version :: string
  uo_target :: string

record update_result =
  ur_previous :: string
  ur_new :: string
  ur_path :: string
  ur_check_only :: bool
  ur_up_to_date :: bool
  ur_release :: release

record 's world =
  w_net :: 's
  w_machine :: machine

text \<open>
  The decision before anything is downloaded: \<open>Inl\<close> the answer when there is nothing to do,
  \<open>Inr\<close> the release to install.
\<close>

definition plan_update ::
  "('s, 'r) env \<Rightarrow> client \<Rightarrow> update_options \<Rightarrow> 's \<Rightarrow> (update_result + release) result \<times> 's" where
  "plan_update E c opts s =
     (let answer = (\<lambda>rel checkOnly upToDate. \<lparr>ur_previous = c_version c, ur_new = rl_tag rel, ur_path = [],
            ur_check_only = checkOnly, ur_up_to_date = upToDate, ur_release = rel\<rparr>);
          decide = (\<lambda>rel isNewer. if uo_check_only opts then Inl (answer rel True (\<not> isNewer)) else Inr rel) in
      if trim_space (uo_version opts) \<noteq> [] then
        after (FetchReleaseByTag E c (uo_version opts) s) (\<lambda>rel s.
          if c_key_file c \<noteq> [] \<and> CleanVersion (rl_tag rel) \<noteq> CleanVersion (uo_version opts)
          then (Inl (Errorf (''signed release does not match requested version '' @ uo_version opts)), s)
          else
            let order = CompareVersions (CleanVersion (c_version c)) (CleanVersion (rl_tag rel)) in
            if order = 0 \<and> \<not> uo_force opts then (Inr (Inl (answer rel (uo_check_only opts) True)), s)
            else (Inr (decide rel (order < 0)), s))
      else
        after (CheckLatest E c s) (\<lambda>check s.
          if \<not> ck_available check \<and> \<not> uo_force opts
          then (Inr (Inl (answer (ck_release check) (uo_check_only opts) True)), s)
          else (Inr (decide (ck_release check) (ck_available check)), s)))"

text \<open>The new program's bytes: from the matching asset, else from source.\<close>

definition binary_for :: "('s, 'r) env \<Rightarrow> client \<Rightarrow> release \<Rightarrow> 's \<Rightarrow> string run \<times> 's" where
  "binary_for E c rel s =
     (case MatchAsset (rl_assets rel) (en_os E) (en_arch E) of
        Some a \<Rightarrow>
          (case downloadVerifiedAsset E c rel a s of
             (Inl e, s) \<Rightarrow> (err (Wrapf (''download release asset '' @ as_name a) e), s)
           | (Inr data, s) \<Rightarrow>
               (case ExtractBinary (en_archives E) data (as_name a) of
                  None \<Rightarrow> (None, s)
                | Some (Inl e) \<Rightarrow> (err (Wrapf (''extract binary from asset '' @ as_name a) e), s)
                | Some (Inr extracted) \<Rightarrow> (yield extracted, s)))
      | None \<Rightarrow>
          if c_key_file c \<noteq> []
          then (err (Errorf ''signed update requires a matching prebuilt release archive; source fallback is disabled''), s)
          else (case BuildFromSource E (c_repo c) (rl_tag rel) of
                  Inl e \<Rightarrow> (err (Wrapf (''no prebuilt release asset for '' @ en_os E @ ''/'' @ en_arch E
                    @ '', and build from source failed'') e), s)
                | Inr data \<Rightarrow> (yield data, s)))"

definition ExecuteUpdate ::
  "('s, 'r) env \<Rightarrow> client \<Rightarrow> update_options \<Rightarrow> 's world \<Rightarrow> update_result run \<times> 's world" where
  "ExecuteUpdate E c opts w =
     (case plan_update E c opts (w_net w) of
        (Inl e, s) \<Rightarrow> (err e, w\<lparr>w_net := s\<rparr>)
      | (Inr (Inl result), s) \<Rightarrow> (yield result, w\<lparr>w_net := s\<rparr>)
      | (Inr (Inr rel), s) \<Rightarrow>
          (case binary_for E c rel s of
             (None, s) \<Rightarrow> (None, w\<lparr>w_net := s\<rparr>)
           | (Some (Inl e), s) \<Rightarrow> (err e, w\<lparr>w_net := s\<rparr>)
           | (Some (Inr binaryData), s) \<Rightarrow>
               (case ReplaceExecutable (en_host E) (en_faults E) (uo_target opts) binaryData (w_machine w) of
                  ((path, Some e), m) \<Rightarrow> (err (Wrapf ''install updated binary'' e), \<lparr>w_net = s, w_machine = m\<rparr>)
                | ((path, None), m) \<Rightarrow>
                    (yield \<lparr>ur_previous = c_version c, ur_new = rl_tag rel, ur_path = path, ur_check_only = False,
                       ur_up_to_date = False, ur_release = rel\<rparr>, \<lparr>w_net = s, w_machine = m\<rparr>))))"

section \<open>Only verified bytes are installed\<close>

definition verified :: "('s, 'r) env \<Rightarrow> client \<Rightarrow> release \<Rightarrow> asset \<Rightarrow> string \<Rightarrow> bool" where
  "verified E c rel a data \<longleftrightarrow>
     (\<exists>manifest_asset checksums s1 s1' s2 s2'.
        choose_manifest (legacy_name rel) None (rl_assets rel) = Some manifest_asset \<and>
        downloadAsset E (as_url manifest_asset) maxChecksumBytes s1 = (Inr checksums, s1') \<and>
        DownloadAsset E (as_url a) s2 = (Inr data, s2') \<and>
        checksumForAsset checksums (as_name a) = Inr (cr_sha256 (en_crypto E) data) \<and>
        (c_key_file c \<noteq> [] \<longrightarrow>
          has_prefix (as_name a) (''wol_'' @ CleanVersion (rl_tag rel) @ ''_'') \<and>
          (\<exists>key sig. trusted_key E c = Inr key \<and> length key = 32 \<and> cr_verify (en_crypto E) key checksums sig)))"

definition approved :: "('s, 'r) env \<Rightarrow> client \<Rightarrow> release \<Rightarrow> string \<Rightarrow> bool" where
  "approved E c rel bytes \<longleftrightarrow>
     (\<exists>a data. MatchAsset (rl_assets rel) (en_os E) (en_arch E) = Some a \<and> verified E c rel a data \<and>
        ExtractBinary (en_archives E) data (as_name a) = Some (Inr bytes)) \<or>
     (MatchAsset (rl_assets rel) (en_os E) (en_arch E) = None \<and> c_key_file c = [] \<and>
        BuildFromSource E (c_repo c) (rl_tag rel) = Inr bytes)"

lemma check_signature_Inr:
  assumes "check_signature E c rel a m checksums s = (Inr (), s')" and "c_key_file c \<noteq> []"
  shows "has_prefix (as_name a) (''wol_'' @ CleanVersion (rl_tag rel) @ ''_'') \<and>
    (\<exists>key sig. trusted_key E c = Inr key \<and> length key = 32 \<and> cr_verify (en_crypto E) key checksums sig)"
proof -
  have prefix: "has_prefix (as_name a) (''wol_'' @ CleanVersion (rl_tag rel) @ ''_'')"
    using assms unfolding check_signature_def by (auto split: if_splits)
  from assms prefix obtain key sig where "trusted_key E c = Inr key"
    and "Verify (en_crypto E) key checksums sig = None"
    unfolding check_signature_def by (auto simp: after_Inr split: option.splits if_splits)
  with Verify_None prefix show ?thesis by blast
qed

lemma downloadVerifiedAsset_verified:
  assumes "downloadVerifiedAsset E c rel a s = (Inr data, s')"
  shows "verified E c rel a data"
proof -
  obtain m where m: "choose_manifest (legacy_name rel) None (rl_assets rel) = Some m"
    using assms unfolding downloadVerifiedAsset_def by (auto split: option.splits)
  obtain checksums s1 where d: "downloadAsset E (as_url m) maxChecksumBytes s = (Inr checksums, s1)"
    and rest: "after (check_signature E c rel a m checksums s1) (\<lambda>_ s.
          after (checksumForAsset checksums (as_name a), s) (\<lambda>expected s.
          after (DownloadAsset E (as_url a) s) (\<lambda>data s.
          (if cr_sha256 (en_crypto E) data \<noteq> expected
           then Inl (Errorf (''checksum mismatch for '' @ as_name a @ ''; executable unchanged''))
           else Inr data, s)))) = (Inr data, s')"
    using assms unfolding downloadVerifiedAsset_def m by (auto simp: after_Inr wrap_Inr)
  then obtain s2 s3 expected where sig: "check_signature E c rel a m checksums s1 = (Inr (), s2)"
    and ck: "checksumForAsset checksums (as_name a) = Inr expected"
    and dl: "DownloadAsset E (as_url a) s2 = (Inr data, s3)" and "cr_sha256 (en_crypto E) data = expected"
    by (auto simp: after_Inr split: if_splits)
  with m d check_signature_Inr [OF sig] show ?thesis unfolding verified_def by blast
qed

lemma binary_for_approved: "binary_for E c rel s = (Some (Inr bytes), s') \<Longrightarrow> approved E c rel bytes"
  unfolding binary_for_def approved_def
  by (auto simp: err_def yield_def dest: downloadVerifiedAsset_verified split: option.splits sum.splits prod.splits if_splits)

lemma binary_for_in_range:
  fixes E :: "('s, 'r) env"
  shows "binary_for E c rel s \<noteq> (None, s')"
proof -
  have "ExtractBinary L data name \<noteq> None" for L :: "'r archive_lib" and data name
    unfolding ExtractBinary_def by (rule extract_in_range)
  then have never: "ExtractBinary (en_archives E) data name = None \<longleftrightarrow> False" for data name by blast
  show ?thesis unfolding binary_for_def
    by (auto simp: never err_def yield_def split: option.splits sum.splits prod.splits)
qed

lemma plan_update_proceeds:
  "plan_update E c opts s = (Inr (Inr rel), s') \<Longrightarrow> \<not> uo_check_only opts"
  unfolding plan_update_def Let_def by (auto simp: after_Inr split: if_splits)

text \<open>
  C17. An update never touches the disk unless the new program's bytes are approved: extracted from
  the archive chosen for this platform, whose SHA-256 digest is the one a downloaded manifest lists
  for its name, and, when a public key is configured, whose manifest carries a signature by that
  key and whose name carries the release's version; or built from source, only when no archive
  matches and no key is configured. The disk then changes only through the replacement of the
  executable by exactly these bytes, and never in a mere check. An update never reads out of range.
\<close>

theorem ExecuteUpdate_installs_verified:
  assumes "ExecuteUpdate E c opts w = (r, w')"
  shows "r \<noteq> None \<and>
    (w_machine w' = w_machine w \<or>
     (\<exists>rel bytes path e. approved E c rel bytes \<and> \<not> uo_check_only opts \<and>
        ReplaceExecutable (en_host E) (en_faults E) (uo_target opts) bytes (w_machine w) = ((path, e), w_machine w')))"
proof -
  obtain p s where plan: "plan_update E c opts (w_net w) = (p, s)" by fastforce
  consider (error) e where "p = Inl e" | (answer) x where "p = Inr (Inl x)" | (install) rel where "p = Inr (Inr rel)"
    by (metis sumE)
  then show ?thesis
  proof cases
    case install
    note check = plan_update_proceeds [OF plan [unfolded install]]
    obtain b s2 where b: "binary_for E c rel s = (b, s2)" by fastforce
    show ?thesis
    proof (cases b)
      case None
      with b binary_for_in_range [of E c rel s s2] show ?thesis by simp
    next
      case (Some v)
      show ?thesis
      proof (cases v)
        case (Inl e)
        with assms plan install b Some show ?thesis by (auto simp: ExecuteUpdate_def err_def)
      next
        case (Inr bytes)
        obtain path e m where rep: "ReplaceExecutable (en_host E) (en_faults E) (uo_target opts) bytes (w_machine w) = ((path, e), m)"
          by (metis prod.collapse)
        have "r \<noteq> None \<and> w_machine w' = m"
          using assms plan install b Some Inr rep
          by (cases e) (auto simp: ExecuteUpdate_def err_def yield_def)
        moreover have "approved E c rel bytes" using b Some Inr by (intro binary_for_approved [of E c rel s bytes s2]) simp
        ultimately show ?thesis using rep check by blast
      qed
    qed
  qed (use assms plan in \<open>auto simp: ExecuteUpdate_def err_def yield_def\<close>)
qed

text \<open>A release with a signed manifest, and a client that has the key.\<close>

definition archive_name :: string where "archive_name = ''wol_1.1_linux_amd64.tar.gz''"

definition sample_digest :: "byte list" where "sample_digest = replicate 32 7"

definition sample_release :: release where
  "sample_release = \<lparr>rl_tag = ''v1.1'', rl_name = ''1.1'', rl_html_url = [],
     rl_assets = map named [''SHA256SUMS'', ''SHA256SUMS.sig'', archive_name]\<rparr>"

definition sample_answer :: "string \<Rightarrow> string" where
  "sample_answer url =
     (if url = ''SHA256SUMS'' then manifest [(archive_name, sample_digest)]
      else if url = ''SHA256SUMS.sig'' then replicate 64 CHR ''s''
      else ''xyz'')"

definition sample_http :: "nat http_api" where
  "sample_http = \<lparr>http_new = (\<lambda>url. None),
     http_do = (\<lambda>follow m url s. (Inr \<lparr>rs_status = 200, rs_body = (sample_answer url, None), rs_location = []\<rparr>, s + 1)),
     http_json = (\<lambda>b. Inr sample_release)\<rparr>"

definition sample_crypto :: crypto where
  "sample_crypto = \<lparr>cr_pem = (\<lambda>d. (Some \<lparr>pb_type = ''PUBLIC KEY'', pb_headers = 0, pb_bytes = ''der''\<rparr>, [])),
     cr_public = (\<lambda>d. Inr (Some (replicate 32 CHR ''k''))), cr_private = (\<lambda>d. Inr None), cr_marshal = (\<lambda>k. Inr k),
     cr_sign = (\<lambda>k m. []), cr_verify = (\<lambda>k m g. g = replicate 64 CHR ''s''), cr_sha256 = (\<lambda>d. sample_digest)\<rparr>"

definition sample_env :: "(nat, tar_header list) env" where
  "sample_env = \<lparr>en_http = sample_http, en_crypto = sample_crypto,
     en_files = \<lparr>fa_stat = (\<lambda>p. Inr \<lparr>st_regular = True, st_size = 30\<rparr>),
       fa_open = (\<lambda>p. Inr (''-----BEGIN PUBLIC KEY-----'', None))\<rparr>,
     en_archives = sample_lib,
     en_tools = \<lparr>tc_look_path = None, tc_mkdir_temp = None, tc_install = (\<lambda>p. ([], None)), tc_read = (\<lambda>p. Inr [])\<rparr>,
     en_host = sample_host, en_faults = no_faults, en_os = ''linux'', en_arch = ''amd64''\<rparr>"

definition sample_client :: client where
  "sample_client = \<lparr>c_version = ''1.0'', c_repo = ''aklkbqx/wol'', c_api = ''https://api.github.com'',
     c_web = ''https://github.com'', c_key_file = ''/etc/wol.pub''\<rparr>"

definition plain_update :: update_options where
  "plain_update = \<lparr>uo_check_only = False, uo_force = False, uo_version = [], uo_target = []\<rparr>"

definition sample_world :: "nat world" where
  "sample_world = \<lparr>w_net = 0, w_machine = old_program\<rparr>"

text \<open>The sample evaluated part by part.\<close>

lemma sample_latest: "FetchLatestRelease sample_env sample_client 0 = (Inr sample_release, 1)"
  by (simp add: FetchLatestRelease_def sample_env_def sample_http_def decode_release_def StatusOK_def)

lemma sample_order: "CompareVersions (CleanVersion ''1.0'') (CleanVersion ''v1.1'') = - 1"
  by code_simp

lemma sample_plan: "plan_update sample_env sample_client plain_update 0 = (Inr (Inr sample_release), 1)"
proof -
  have "trim_space [] = []" by code_simp
  then show ?thesis
    using sample_order
    by (simp add: plan_update_def CheckLatest_def after_def sample_latest plain_update_def)
      (simp add: sample_client_def sample_release_def)
qed

lemma sample_match_asset: "MatchAsset (rl_assets sample_release) (en_os sample_env) (en_arch sample_env) = Some (named archive_name)"
  by code_simp

lemma sample_download:
  "downloadVerifiedAsset sample_env sample_client sample_release (named archive_name) 1 = (Inr ''xyz'', 4)"
  by code_simp

lemma sample_binary: "binary_for sample_env sample_client sample_release 1 = (yield ''ELF'', 4)"
proof -
  have "ExtractBinary (en_archives sample_env) ''xyz'' (as_name (named archive_name)) = Some (Inr ''ELF'')" by code_simp
  then show ?thesis by (simp add: binary_for_def sample_match_asset sample_download del: One_nat_def)
qed

lemma sample_installed:
  "fst (ReplaceExecutable (en_host sample_env) (en_faults sample_env) (uo_target plain_update) ''ELF'' old_program) = (''/opt/wol'', None)"
  "m_fs (snd (ReplaceExecutable (en_host sample_env) (en_faults sample_env) (uo_target plain_update) ''ELF'' old_program)) ''/opt/wol''
     = Some (installed ''ELF'')"
  by code_simp+

lemma sample_update:
  "m_fs (w_machine (snd (ExecuteUpdate sample_env sample_client plain_update sample_world))) ''/opt/wol'' = Some (installed ''ELF'')"
  "m_fs (w_machine sample_world) ''/opt/wol'' = Some (installed ''old'')"
proof -
  let ?x = "ReplaceExecutable (en_host sample_env) (en_faults sample_env) (uo_target plain_update) ''ELF'' old_program"
  obtain m where m: "?x = ((''/opt/wol'', None), m)" using sample_installed(1) by (metis prod.collapse)
  have "w_machine (snd (ExecuteUpdate sample_env sample_client plain_update sample_world)) = m"
    by (simp add: ExecuteUpdate_def sample_world_def sample_plan sample_binary m yield_def del: One_nat_def)
  then show "m_fs (w_machine (snd (ExecuteUpdate sample_env sample_client plain_update sample_world))) ''/opt/wol'' = Some (installed ''ELF'')"
    using sample_installed(2) m by simp
  show "m_fs (w_machine sample_world) ''/opt/wol'' = Some (installed ''old'')" by (simp add: sample_world_def old_program_def)
qed

theorem ExecuteUpdate_installs_verified_witness:
  "\<exists>rel bytes. approved sample_env sample_client rel bytes \<and>
     m_fs (w_machine (snd (ExecuteUpdate sample_env sample_client plain_update sample_world))) ''/opt/wol'' = Some (installed ''ELF'')"
proof -
  let ?r = "ExecuteUpdate sample_env sample_client plain_update sample_world"
  have "?r = (fst ?r, snd ?r)" by simp
  from ExecuteUpdate_installs_verified [OF this]
  have "w_machine (snd ?r) = w_machine sample_world \<or> (\<exists>rel bytes. approved sample_env sample_client rel bytes)" by blast
  moreover have "w_machine (snd ?r) \<noteq> w_machine sample_world" using sample_update by (auto simp: installed_def)
  ultimately show ?thesis using sample_update(1) by blast
qed

end
