(* ===== verification/Broker.thy ===== *)
theory Broker
  imports NetAddr
begin

text \<open>
  The browser session broker of \<open>internal/localremote\<close>: \<open>session.go\<close> (the HTTP handler, its one-time
  link, cookie and launch token), \<open>vault.go\<close> (the saved sign-ins) and the views of \<open>page.go\<close>. A
  handler runs as one step; its effects on the fields guarded by the mutex are one critical
  section, so a sequence of steps is a serialisation of concurrent requests. The HTTP parser's
  work is in the request: the path, the cookie, the form under a size limit. HTML rendering and the
  proxied Guacamole application are not modelled.
\<close>

section \<open>Configuration and credentials\<close>

record config =
  cf_name :: string
  cf_protocol :: string
  cf_host :: string
  cf_port :: int
  cf_username :: string
  cf_domain :: string
  cf_policy :: string

record credentials =
  us_name :: string
  us_domain :: string
  us_password :: string

definition no_credentials :: credentials where
  "no_credentials = \<lparr>us_name = [], us_domain = [], us_password = []\<rparr>"

definition has_line_break :: "string \<Rightarrow> bool" where
  "has_line_break s \<longleftrightarrow> contains_any s (map char_of [13, 10, 0 :: nat])"

definition validateConfig :: "config \<Rightarrow> error option" where
  "validateConfig c =
     (let h = trim_space (cf_host c); policy = (if cf_policy c = [] then ''strict'' else cf_policy c) in
      if cf_protocol c \<noteq> ''rdp'' \<and> cf_protocol c \<noteq> ''vnc'' \<and> cf_protocol c \<noteq> ''ssh''
      then Some (Errorf (''local remote: unsupported protocol '' @ quote (cf_protocol c) @ '' (use rdp, vnc, or ssh)''))
      else if cf_port c < 1 \<or> cf_port c > 65535
      then Some (Errorf (''local remote: invalid port '' @ itoa (cf_port c)))
      else if h = [] \<or> length h > 253 \<or> contains_any h (''/'' @ [char_of (92::nat)] @ ''@?#'')
      then Some (Errorf ''local remote: invalid target host'')
      else if trim_space (cf_username c) \<noteq> cf_username c \<or> length (cf_username c) > 128 \<or> has_line_break (cf_username c)
      then Some (Errorf ''local remote: invalid username hint'')
      else if trim_space (cf_domain c) \<noteq> cf_domain c \<or> length (cf_domain c) > 128 \<or> has_line_break (cf_domain c)
      then Some (Errorf ''local remote: invalid domain hint'')
      else if policy \<noteq> ''strict'' \<and> policy \<noteq> ''trust-local''
      then Some (Errorf ''local remote: certificate policy must be strict or trust-local'')
      else if policy = ''trust-local'' \<and> cf_protocol c \<noteq> ''rdp''
      then Some (Errorf ''local remote: trust-local certificate policy is only valid for RDP'')
      else None)"

definition validateCredentials :: "string \<Rightarrow> credentials \<Rightarrow> string option" where
  "validateCredentials protocol u =
     (if length (us_name u) > 128 \<or> has_line_break (us_name u) then Some ''Username is invalid.''
      else if length (us_domain u) > 128 \<or> has_line_break (us_domain u) then Some ''Domain is invalid.''
      else if length (us_password u) > 4096 \<or> contains_any (us_password u) [char_of (0::nat)]
      then Some ''Password is invalid.''
      else if protocol = ''ssh'' \<and> us_name u = [] then Some ''SSH requires a username.''
      else None)"

section \<open>The vault\<close>

definition ErrVaultMiss :: error where "ErrVaultMiss = Errorf ''no saved sign-in''"

definition VaultKey :: "string \<Rightarrow> string \<Rightarrow> int \<Rightarrow> string" where
  "VaultKey protocol host port = protocol @ ''|'' @ host @ ''|'' @ itoa port"

record 'v vault_api =
  va_get :: "string \<Rightarrow> 'v \<Rightarrow> credentials result"
  va_put :: "string \<Rightarrow> credentials \<Rightarrow> 'v \<Rightarrow> error option \<times> 'v"
  va_delete :: "string \<Rightarrow> 'v \<Rightarrow> error option \<times> 'v"

text \<open>\<open>MemoryVault\<close>; \<open>None\<close> is the nil pointer.\<close>

type_synonym memory_vault = "(string \<Rightarrow> credentials option) option"

definition memory_get :: "string \<Rightarrow> memory_vault \<Rightarrow> credentials result" where
  "memory_get key v =
     (case v of None \<Rightarrow> Inl ErrVaultMiss
      | Some items \<Rightarrow> (case items key of None \<Rightarrow> Inl ErrVaultMiss | Some item \<Rightarrow> Inr item))"

definition memory_put :: "string \<Rightarrow> credentials \<Rightarrow> memory_vault \<Rightarrow> error option \<times> memory_vault" where
  "memory_put key u v =
     (case v of None \<Rightarrow> (Some (Errorf ''vault is unavailable''), v)
      | Some items \<Rightarrow> (None, Some (items(key \<mapsto> u))))"

definition memory_delete :: "string \<Rightarrow> memory_vault \<Rightarrow> error option \<times> memory_vault" where
  "memory_delete key v =
     (case v of None \<Rightarrow> (None, v) | Some items \<Rightarrow> (None, Some (items(key := None))))"

text \<open>The keychain behind \<open>OSVault\<close>: its operations and the JSON codec are arguments.\<close>

record 'k keyring =
  kr_get :: "string \<Rightarrow> 'k \<Rightarrow> string result"
  kr_set :: "string \<Rightarrow> string \<Rightarrow> 'k \<Rightarrow> error option \<times> 'k"
  kr_delete :: "string \<Rightarrow> 'k \<Rightarrow> error option \<times> 'k"
  kr_not_found :: "error \<Rightarrow> bool"
  kr_decode :: "string \<Rightarrow> credentials result"
  kr_encode :: "credentials \<Rightarrow> string result"

definition os_get :: "'k keyring \<Rightarrow> string \<Rightarrow> 'k \<Rightarrow> credentials result" where
  "os_get K key k =
     (case kr_get K key k of
        Inl e \<Rightarrow> if kr_not_found K e then Inl ErrVaultMiss else Inl e
      | Inr secret \<Rightarrow> kr_decode K secret)"

definition os_put :: "'k keyring \<Rightarrow> string \<Rightarrow> credentials \<Rightarrow> 'k \<Rightarrow> error option \<times> 'k" where
  "os_put K key u k =
     (case kr_encode K u of Inl e \<Rightarrow> (Some e, k) | Inr payload \<Rightarrow> kr_set K key payload k)"

definition os_delete :: "'k keyring \<Rightarrow> string \<Rightarrow> 'k \<Rightarrow> error option \<times> 'k" where
  "os_delete K key k =
     (case kr_delete K key k of
        (Some e, k') \<Rightarrow> (if kr_not_found K e then None else Some e, k')
      | (None, k') \<Rightarrow> (None, k'))"

text \<open>What the broker expects of a vault that is available.\<close>

locale vault =
  fixes get :: "string \<Rightarrow> 'v \<Rightarrow> credentials result" and put :: "string \<Rightarrow> credentials \<Rightarrow> 'v \<Rightarrow> error option \<times> 'v"
    and delete :: "string \<Rightarrow> 'v \<Rightarrow> error option \<times> 'v" and available :: "'v \<Rightarrow> bool"
  assumes put_ok: "available v \<Longrightarrow> fst (put key u v) = None \<and> available (snd (put key u v))"
    and delete_ok: "available v \<Longrightarrow> fst (delete key v) = None \<and> available (snd (delete key v))"
    and get_put: "available v \<Longrightarrow> get key' (snd (put key u v)) = (if key' = key then Inr u else get key' v)"
    and get_delete: "available v \<Longrightarrow> get key' (snd (delete key v)) = (if key' = key then Inl ErrVaultMiss else get key' v)"
begin

lemma forget: "available v \<Longrightarrow> get key (snd (delete key (snd (put key u v)))) = Inl ErrVaultMiss"
  using get_delete [of "snd (put key u v)" key key] put_ok by simp

lemma others_untouched: "available v \<Longrightarrow> key' \<noteq> key \<Longrightarrow> get key' (snd (delete key (snd (put key u v)))) = get key' v"
  using get_delete [of "snd (put key u v)" key' key] get_put [of v key' key u] put_ok by simp

end

interpretation memory: vault memory_get memory_put memory_delete "\<lambda>v. v \<noteq> None"
  by unfold_locales (auto simp: memory_get_def memory_put_def memory_delete_def)

section \<open>Requests and responses\<close>

record http_request =
  hq_host :: string
  hq_method :: string
  hq_path :: string
  hq_cookie :: "string option"
  hq_manual :: string
  hq_form :: "nat \<Rightarrow> (string \<Rightarrow> string) result"
  hq_now :: int

record login_view =
  lv_title :: string
  lv_protocol :: string
  lv_protocol_label :: string
  lv_host :: string
  lv_port :: int
  lv_username :: string
  lv_domain :: string
  lv_csrf :: string
  lv_error :: string
  lv_can_remember :: bool
  lv_saved :: bool
  lv_password_hint :: string

datatype page =
    Plain string
  | LoginPage login_view
  | RemotePage string string string
  | ClosedPage
  | Ready
  | Proxied
  | Empty

record http_reply =
  hp_status :: int
  hp_page :: page
  hp_location :: "string option"
  hp_cookie :: "string option"
  hp_headers :: "(string \<times> string) list"

record 'v broker_env =
  be_expected_host :: string
  be_cookie :: string
  be_form :: string
  be_config :: config
  be_vault :: "'v vault_api option"
  be_token :: "config \<Rightarrow> credentials \<Rightarrow> int \<Rightarrow> string result"

record 'v broker_state =
  bs_one_time :: string
  bs_consumed :: bool
  bs_launch :: string
  bs_disconnected :: bool
  bs_vault :: 'v

section \<open>Headers and checks\<close>

definition quoted :: "string \<Rightarrow> string" where
  "quoted s = [CHR 0x27] @ s @ [CHR 0x27]"

definition setSecurityHeadersWithScripts :: "string \<Rightarrow> string \<Rightarrow> (string \<times> string) list" where
  "setSecurityHeadersWithScripts host scriptSources =
    [(''Cache-Control'', ''no-store''), (''X-Content-Type-Options'', ''nosniff''),
     (''X-Frame-Options'', ''SAMEORIGIN''), (''Referrer-Policy'', ''no-referrer''),
     (''Permissions-Policy'', ''camera=(), microphone=(), geolocation=()''),
     (''Content-Security-Policy'',
        ''default-src '' @ quoted ''self'' @ ''; script-src '' @ scriptSources @ ''; style-src '' @ quoted ''self'' @ '' ''
        @ quoted ''unsafe-inline'' @ ''; img-src '' @ quoted ''self'' @ '' data: blob:; font-src '' @ quoted ''self''
        @ '' data:; worker-src '' @ quoted ''self'' @ '' blob:; connect-src '' @ quoted ''self'' @ '' ws://'' @ host
        @ ''; frame-src '' @ quoted ''self'' @ ''; frame-ancestors '' @ quoted ''self'' @ ''; base-uri '' @ quoted ''none''
        @ ''; form-action '' @ quoted ''self'')]"

definition setSecurityHeaders :: "string \<Rightarrow> (string \<times> string) list" where
  "setSecurityHeaders host = setSecurityHeadersWithScripts host (quoted ''self'' @ '' '' @ quoted ''unsafe-inline'')"

definition setGuacamoleSecurityHeaders :: "string \<Rightarrow> (string \<times> string) list" where
  "setGuacamoleSecurityHeaders host =
     setSecurityHeadersWithScripts host (quoted ''self'' @ '' '' @ quoted ''unsafe-inline'' @ '' '' @ quoted ''unsafe-eval'')"

definition constant_time_equal :: "string \<Rightarrow> string \<Rightarrow> bool" where
  "constant_time_equal a b \<longleftrightarrow> length a = length b \<and> a = b"

definition isLoopbackName :: "string \<Rightarrow> bool" where
  "isLoopbackName host =
     (let h = trim_suffix (to_lower (trim_space host)) ''.'' in
      h = ''localhost'' \<or> (case parse_ip h of None \<Rightarrow> False | Some ip \<Rightarrow> is_loopback ip))"

definition validLocalHost :: "string \<Rightarrow> string \<Rightarrow> bool" where
  "validLocalHost requestHost expectedHost =
     (case split_host_port expectedHost of
        Inl _ \<Rightarrow> False
      | Inr (_, expectedPort) \<Rightarrow>
          (case split_host_port requestHost of
             Inl _ \<Rightarrow> False
           | Inr (host, requestPort) \<Rightarrow> requestPort = expectedPort \<and> isLoopbackName host))"

definition validCookie :: "'v broker_env \<Rightarrow> http_request \<Rightarrow> bool" where
  "validCookie B r = (case hq_cookie r of None \<Rightarrow> False | Some v \<Rightarrow> constant_time_equal v (be_cookie B))"

definition validFormToken :: "'v broker_env \<Rightarrow> string \<Rightarrow> bool" where
  "validFormToken B presented = constant_time_equal presented (be_form B)"

section \<open>Views\<close>

definition sessionTitle :: "config \<Rightarrow> string" where
  "sessionTitle c = (if trim_space (cf_name c) \<noteq> [] then trim_space (cf_name c) else cf_host c)"

definition config_key :: "config \<Rightarrow> string" where
  "config_key c = VaultKey (cf_protocol c) (cf_host c) (cf_port c)"

definition loginFromConfig :: "'v broker_env \<Rightarrow> 'v broker_state \<Rightarrow> string \<Rightarrow> login_view" where
  "loginFromConfig B st message =
     (let c = be_config B;
          view = \<lparr>lv_title = sessionTitle c, lv_protocol = to_lower (cf_protocol c), lv_protocol_label = to_upper (cf_protocol c),
            lv_host = cf_host c, lv_port = cf_port c, lv_username = cf_username c, lv_domain = cf_domain c,
            lv_csrf = be_form B, lv_error = message, lv_can_remember = (be_vault B \<noteq> None), lv_saved = False,
            lv_password_hint = []\<rparr> in
      case be_vault B of
        None \<Rightarrow> view
      | Some V \<Rightarrow>
          (case va_get V (config_key c) (bs_vault st) of
             Inl _ \<Rightarrow> view
           | Inr saved \<Rightarrow>
               view\<lparr>lv_saved := True,
                 lv_username := (if us_name saved \<noteq> [] then us_name saved else lv_username view),
                 lv_domain := (if us_domain saved \<noteq> [] then us_domain saved else lv_domain view),
                 lv_password_hint := (if us_password saved \<noteq> [] then ''Saved on this Mac'' else [])\<rparr>))"

definition reply :: "int \<Rightarrow> page \<Rightarrow> http_reply" where
  "reply status p = \<lparr>hp_status = status, hp_page = p, hp_location = None, hp_cookie = None, hp_headers = []\<rparr>"

definition http_error :: "string \<Rightarrow> int \<Rightarrow> http_reply" where
  "http_error text status = reply status (Plain text)"

definition see_other :: "string \<Rightarrow> http_reply" where
  "see_other url = (reply 303 Empty)\<lparr>hp_location := Some url\<rparr>"

definition serveLoginPage :: "'v broker_env \<Rightarrow> 'v broker_state \<Rightarrow> string \<Rightarrow> http_reply" where
  "serveLoginPage B st message = reply 200 (LoginPage (loginFromConfig B st message))"

definition servePage :: "'v broker_env \<Rightarrow> string \<Rightarrow> http_reply" where
  "servePage B launchToken = reply 200 (RemotePage launchToken (be_form B) (sessionTitle (be_config B)))"

section \<open>Handlers\<close>

definition savedCredentials :: "'v broker_env \<Rightarrow> 'v broker_state \<Rightarrow> credentials option" where
  "savedCredentials B st =
     (let protocol = cf_protocol (be_config B) in
      case be_vault B of
        None \<Rightarrow> None
      | Some V \<Rightarrow>
          (case va_get V (config_key (be_config B)) (bs_vault st) of
             Inl _ \<Rightarrow> None
           | Inr saved \<Rightarrow>
               if validateCredentials protocol saved \<noteq> None then None
               else if (if protocol = ''ssh'' then us_name saved \<noteq> []
                        else if protocol = ''vnc'' then us_password saved \<noteq> []
                        else us_name saved \<noteq> [] \<and> us_password saved \<noteq> [])
               then Some saved else None))"

definition beginRemote :: "'v broker_env \<Rightarrow> credentials \<Rightarrow> int \<Rightarrow> 'v broker_state \<Rightarrow> error option \<times> 'v broker_state" where
  "beginRemote B u now st =
     (case validateCredentials (cf_protocol (be_config B)) u of
        Some message \<Rightarrow> (Some (Errorf message), st)
      | None \<Rightarrow>
          (case be_token B (be_config B) u now of
             Inl e \<Rightarrow> (Some e, st)
           | Inr token \<Rightarrow> (None, st\<lparr>bs_launch := token\<rparr>)))"

definition serveSession :: "'v broker_env \<Rightarrow> http_request \<Rightarrow> 'v broker_state \<Rightarrow> http_reply \<times> 'v broker_state" where
  "serveSession B r st =
     (if hq_manual r = ''1'' then (serveLoginPage B st [], st)
      else
        (case savedCredentials B st of
           None \<Rightarrow> (serveLoginPage B st [], st)
         | Some saved \<Rightarrow>
             (case beginRemote B saved (hq_now r) st of
                (Some e, st) \<Rightarrow> (serveLoginPage B st ''Saved sign-in could not be used. Please sign in again.'', st)
              | (None, st) \<Rightarrow> (see_other ''/remote'', st))))"

text \<open>The credentials of the form, completed from the vault when no password is given.\<close>

definition form_credentials :: "'v broker_env \<Rightarrow> (string \<Rightarrow> string) \<Rightarrow> 'v broker_state \<Rightarrow> credentials" where
  "form_credentials B form st =
     (let u = \<lparr>us_name = trim_space (form ''username''), us_domain = trim_space (form ''domain''),
            us_password = form ''password''\<rparr> in
      case be_vault B of
        None \<Rightarrow> u
      | Some V \<Rightarrow>
          if us_password u \<noteq> [] then u
          else (case va_get V (config_key (be_config B)) (bs_vault st) of
                  Inl _ \<Rightarrow> u
                | Inr saved \<Rightarrow>
                    \<lparr>us_name = (if us_name u = [] then us_name saved else us_name u),
                     us_domain = (if us_domain u = [] then us_domain saved else us_domain u),
                     us_password = us_password saved\<rparr>))"

definition forget_saved :: "'v broker_env \<Rightarrow> 'v broker_state \<Rightarrow> 'v broker_state" where
  "forget_saved B st =
     (case be_vault B of None \<Rightarrow> st
      | Some V \<Rightarrow> st\<lparr>bs_vault := snd (va_delete V (config_key (be_config B)) (bs_vault st))\<rparr>)"

definition remember_choice :: "'v broker_env \<Rightarrow> (string \<Rightarrow> string) \<Rightarrow> credentials \<Rightarrow> 'v broker_state \<Rightarrow> 'v broker_state" where
  "remember_choice B form u st =
     (case be_vault B of
        None \<Rightarrow> st
      | Some V \<Rightarrow>
          if form ''remember'' = ''1''
          then st\<lparr>bs_vault := snd (va_put V (config_key (be_config B)) u (bs_vault st))\<rparr>
          else st\<lparr>bs_vault := snd (va_delete V (config_key (be_config B)) (bs_vault st))\<rparr>)"

definition connect :: "'v broker_env \<Rightarrow> http_request \<Rightarrow> 'v broker_state \<Rightarrow> http_reply \<times> 'v broker_state" where
  "connect B r st =
     (if hq_method r \<noteq> ''POST'' then (http_error ''Method not allowed.'' 405, st)
      else
        (case hq_form r (16 * 1024) of
           Inl e \<Rightarrow> (serveLoginPage B st ''Could not read the credentials. Please try again.'', st)
         | Inr form \<Rightarrow>
             if \<not> validFormToken B (form ''csrf'') then (http_error ''Invalid local sign-in token.'' 403, st)
             else if form ''action'' = ''forget''
             then let st = forget_saved B st in (serveLoginPage B st ''Saved sign-in removed.'', st)
             else
               let u = form_credentials B form st in
               (case validateCredentials (cf_protocol (be_config B)) u of
                  Some message \<Rightarrow> (serveLoginPage B st message, st)
                | None \<Rightarrow>
                    (case beginRemote B u (hq_now r) (remember_choice B form u st) of
                       (Some e, st) \<Rightarrow> (http_error ''Unable to prepare the encrypted local session.'' 500, st)
                     | (None, st) \<Rightarrow> (see_other ''/remote'', st)))))"

definition remote :: "'v broker_env \<Rightarrow> 'v broker_state \<Rightarrow> http_reply \<times> 'v broker_state" where
  "remote B st =
     (let launchToken = bs_launch st; st = st\<lparr>bs_launch := []\<rparr> in
      if launchToken = [] then (see_other ''/session'', st) else (servePage B launchToken, st))"

definition consume :: "'v broker_env \<Rightarrow> http_request \<Rightarrow> 'v broker_state \<Rightarrow> http_reply \<times> 'v broker_state" where
  "consume B r st =
     (if hq_method r \<noteq> ''GET'' then (http_error ''Method not allowed.'' 405, st)
      else
        let presented = trim_prefix (hq_path r) ''/s/'' in
        if \<not> bs_consumed st \<and> constant_time_equal presented (bs_one_time st)
        then ((see_other ''/session'')\<lparr>hp_cookie := Some (be_cookie B)\<rparr>, st\<lparr>bs_consumed := True, bs_one_time := []\<rparr>)
        else (http_error ''This one-time session link has expired.'' 410, st))"

definition closeFromBrowser :: "'v broker_env \<Rightarrow> http_request \<Rightarrow> 'v broker_state \<Rightarrow> http_reply \<times> 'v broker_state" where
  "closeFromBrowser B r st =
     (if hq_method r \<noteq> ''POST'' then (http_error ''Method not allowed.'' 405, st)
      else
        (case hq_form r (4 * 1024) of
           Inl e \<Rightarrow> (http_error ''Invalid local disconnect token.'' 403, st)
         | Inr form \<Rightarrow>
             if \<not> validFormToken B (form ''csrf'') then (http_error ''Invalid local disconnect token.'' 403, st)
             else (reply 200 ClosedPage, st\<lparr>bs_disconnected := True\<rparr>)))"

text \<open>The paths behind the cookie.\<close>

definition route_request :: "'v broker_env \<Rightarrow> http_request \<Rightarrow> 'v broker_state \<Rightarrow> http_reply \<times> 'v broker_state" where
  "route_request B r st =
     (if hq_path r = ''/session'' then serveSession B r st
      else if hq_path r = ''/connect'' then connect B r st
      else if hq_path r = ''/remote'' then remote B st
      else if hq_path r = ''/disconnect'' then closeFromBrowser B r st
      else if hq_path r = ''/healthz'' then (reply 200 Ready, st)
      else if has_prefix (hq_path r) ''/guacamole/'' \<or> hq_path r = ''/guacamole''
      then ((reply 200 Proxied)\<lparr>hp_headers := setGuacamoleSecurityHeaders (hq_host r)\<rparr>, st)
      else (http_error ''404 page not found'' 404, st))"

definition with_headers :: "(string \<times> string) list \<Rightarrow> http_reply \<times> 's \<Rightarrow> http_reply \<times> 's" where
  "with_headers hs x = (case x of (p, s) \<Rightarrow> (if hp_headers p = [] then p\<lparr>hp_headers := hs\<rparr> else p, s))"

definition ServeHTTP :: "'v broker_env \<Rightarrow> http_request \<Rightarrow> 'v broker_state \<Rightarrow> http_reply \<times> 'v broker_state" where
  "ServeHTTP B r st =
     (if \<not> validLocalHost (hq_host r) (be_expected_host B)
      then with_headers (setSecurityHeaders (be_expected_host B)) (http_error ''Invalid local session host.'' 403, st)
      else with_headers (setSecurityHeaders (hq_host r))
        (if has_prefix (hq_path r) ''/s/'' then consume B r st
         else if \<not> validCookie B r then (http_error ''Local remote session is unavailable.'' 401, st)
         else route_request B r st))"

text \<open>Requests served one after the other.\<close>

fun serve_all :: "'v broker_env \<Rightarrow> http_request list \<Rightarrow> 'v broker_state \<Rightarrow> http_reply list \<times> 'v broker_state" where
  "serve_all B [] st = ([], st)"
| "serve_all B (r # rs) st =
     (case ServeHTTP B r st of (p, st') \<Rightarrow> case serve_all B rs st' of (ps, st'') \<Rightarrow> (p # ps, st''))"

section \<open>What a request can do\<close>

definition behind_cookie :: "page \<Rightarrow> bool" where
  "behind_cookie p \<longleftrightarrow> (case p of Plain t \<Rightarrow> False | Empty \<Rightarrow> False | _ \<Rightarrow> True)"

definition is_remote_page :: "page \<Rightarrow> bool" where
  "is_remote_page p \<longleftrightarrow> (case p of RemotePage t f n \<Rightarrow> True | _ \<Rightarrow> False)"

definition starts_remote :: "http_reply \<Rightarrow> bool" where
  "starts_remote p \<longleftrightarrow> hp_location p = Some ''/remote''"

definition authorised :: "'v broker_env \<Rightarrow> http_request \<Rightarrow> bool" where
  "authorised B r \<longleftrightarrow> validLocalHost (hq_host r) (be_expected_host B) \<and> hq_cookie r = Some (be_cookie B)"

lemmas reply_defs = reply_def http_error_def see_other_def serveLoginPage_def servePage_def

lemmas page_defs = behind_cookie_def is_remote_page_def starts_remote_def

text \<open>One step of the launch token's account: pages shown plus a token waiting never exceed the starts.\<close>

definition accounted :: "'v broker_state \<Rightarrow> http_reply \<Rightarrow> 'v broker_state \<Rightarrow> bool" where
  "accounted st p st' \<longleftrightarrow>
     (of_bool (is_remote_page (hp_page p)) + of_bool (bs_launch st' \<noteq> []) \<le>
      (of_bool (starts_remote p) + of_bool (bs_launch st \<noteq> []) :: nat))"

text \<open>The handlers behind the cookie set no cookie, keep the one-time link and keep the account.\<close>

definition regular :: "'v broker_state \<Rightarrow> http_reply \<times> 'v broker_state \<Rightarrow> bool" where
  "regular st x \<longleftrightarrow> hp_cookie (fst x) = None \<and> bs_consumed (snd x) = bs_consumed st \<and>
     bs_one_time (snd x) = bs_one_time st \<and> accounted st (fst x) (snd x)"

lemma regular_same: "hp_cookie p = None \<Longrightarrow> \<not> is_remote_page (hp_page p) \<Longrightarrow> regular st (p, st)"
  by (simp add: regular_def accounted_def)

lemma beginRemote_cases:
  assumes "beginRemote B u now st = (e, st')"
  shows "(\<exists>x. e = Some x \<and> st' = st) \<or> (e = None \<and> (\<exists>t. st' = st\<lparr>bs_launch := t\<rparr>))"
  using assms unfolding beginRemote_def by (auto split: option.splits sum.splits)

lemma regular_start:
  "regular st ((see_other ''/remote''), st'\<lparr>bs_launch := t\<rparr>)" if "bs_consumed st' = bs_consumed st" "bs_one_time st' = bs_one_time st"
  using that by (simp add: regular_def accounted_def reply_defs page_defs)

lemma serveSession_regular: "regular st (serveSession B r st)"
proof (cases "hq_manual r = ''1'' \<or> savedCredentials B st = None")
  case True
  then show ?thesis unfolding serveSession_def by (auto intro!: regular_same simp: reply_defs page_defs)
next
  case False
  then obtain u where u: "savedCredentials B st = Some u" "hq_manual r \<noteq> ''1''" by auto
  obtain e st' where b: "beginRemote B u (hq_now r) st = (e, st')" by fastforce
  from beginRemote_cases [OF b] show ?thesis
    using u b regular_start [of st st] unfolding serveSession_def
    by (auto intro!: regular_same simp: serveLoginPage_def reply_def page_defs)
qed

lemma vault_only:
  "bs_consumed (forget_saved B st) = bs_consumed st" "bs_one_time (forget_saved B st) = bs_one_time st"
  "bs_launch (forget_saved B st) = bs_launch st"
  "bs_consumed (remember_choice B form u st) = bs_consumed st" "bs_one_time (remember_choice B form u st) = bs_one_time st"
  "bs_launch (remember_choice B form u st) = bs_launch st"
  by (auto simp: forget_saved_def remember_choice_def split: option.splits)

lemma connect_regular: "regular st (connect B r st)"
proof (cases "hq_method r = ''POST''")
  case False
  then show ?thesis unfolding connect_def by (auto intro!: regular_same simp: reply_defs page_defs)
next
  case post: True
  show ?thesis
  proof (cases "hq_form r (16 * 1024)")
    case (Inl e)
    with post show ?thesis unfolding connect_def by (auto intro!: regular_same simp: reply_defs page_defs)
  next
    case (Inr form)
    let ?u = "form_credentials B form st" and ?st = "remember_choice B form (form_credentials B form st) st"
    obtain e st' where b: "beginRemote B ?u (hq_now r) ?st = (e, st')" by fastforce
    show ?thesis
      using post Inr b beginRemote_cases [OF b] regular_start [of ?st st] unfolding connect_def Let_def
      by (auto intro!: regular_same simp: vault_only regular_def accounted_def reply_defs page_defs split: option.splits)
  qed
qed

lemma remote_regular: "regular st (remote B st)"
  by (auto simp: remote_def Let_def regular_def accounted_def reply_defs page_defs)

lemma closeFromBrowser_regular: "regular st (closeFromBrowser B r st)"
  unfolding closeFromBrowser_def
  by (auto simp: regular_def accounted_def reply_defs page_defs split: sum.splits)

lemma route_regular: "regular st (route_request B r st)"
  unfolding route_request_def
  using serveSession_regular [of st B r] connect_regular [of st B r] remote_regular [of st B] closeFromBrowser_regular [of st B r]
  by (auto intro!: regular_same simp: reply_defs page_defs)

lemma with_headers_parts:
  "hp_page (fst (with_headers hs x)) = hp_page (fst x)" "hp_cookie (fst (with_headers hs x)) = hp_cookie (fst x)"
  "hp_location (fst (with_headers hs x)) = hp_location (fst x)" "snd (with_headers hs x) = snd x"
  by (simp_all add: with_headers_def split: prod.splits)

lemma consume_cases:
  assumes "hq_path r = ''/s/'' @ rest"
  shows "(hq_method r = ''GET'' \<and> \<not> bs_consumed st \<and> rest = bs_one_time st \<and>
      consume B r st = ((see_other ''/session'')\<lparr>hp_cookie := Some (be_cookie B)\<rparr>, st\<lparr>bs_consumed := True, bs_one_time := []\<rparr>)) \<or>
    (\<exists>text status. consume B r st = (http_error text status, st))"
proof -
  have "trim_prefix (hq_path r) ''/s/'' = rest" unfolding assms by (rule trim_prefix_append)
  then show ?thesis unfolding consume_def Let_def constant_time_equal_def by auto
qed

text \<open>One request, classified.\<close>

lemma ServeHTTP_step:
  assumes "ServeHTTP B r st = (p, st')"
  shows "(hp_cookie p \<noteq> None \<longrightarrow> \<not> bs_consumed st \<and> bs_consumed st' \<and> hq_path r = ''/s/'' @ bs_one_time st \<and>
      hq_method r = ''GET'' \<and> validLocalHost (hq_host r) (be_expected_host B))"
    and "bs_consumed st \<longrightarrow> bs_consumed st'"
    and "behind_cookie (hp_page p) \<longrightarrow> authorised B r"
    and "hp_cookie p = None \<and> \<not> authorised B r \<longrightarrow> st' = st"
    and "accounted st p st'"
proof -
  consider (host) "\<not> validLocalHost (hq_host r) (be_expected_host B)"
    | (link) "validLocalHost (hq_host r) (be_expected_host B)" "has_prefix (hq_path r) ''/s/''"
    | (cookie) "validLocalHost (hq_host r) (be_expected_host B)" "\<not> has_prefix (hq_path r) ''/s/''" "\<not> validCookie B r"
    | (inside) "validLocalHost (hq_host r) (be_expected_host B)" "\<not> has_prefix (hq_path r) ''/s/''" "validCookie B r"
    by blast
  then have "(hp_cookie p \<noteq> None \<longrightarrow> \<not> bs_consumed st \<and> bs_consumed st' \<and> hq_path r = ''/s/'' @ bs_one_time st \<and>
      hq_method r = ''GET'' \<and> validLocalHost (hq_host r) (be_expected_host B)) \<and> (bs_consumed st \<longrightarrow> bs_consumed st') \<and>
    (behind_cookie (hp_page p) \<longrightarrow> authorised B r) \<and> (hp_cookie p = None \<and> \<not> authorised B r \<longrightarrow> st' = st) \<and> accounted st p st'"
  proof cases
    case host
    with assms show ?thesis by (auto simp: ServeHTTP_def with_headers_def accounted_def reply_defs page_defs)
  next
    case link
    then obtain rest where path: "hq_path r = ''/s/'' @ rest" by (auto simp: has_prefix_iff)
    from assms link have run: "with_headers (setSecurityHeaders (hq_host r)) (consume B r st) = (p, st')"
      by (simp add: ServeHTTP_def)
    let ?hs = "setSecurityHeaders (hq_host r)"
    from consume_cases [OF path, of st B] show ?thesis
    proof (elim disjE conjE exE)
      assume "hq_method r = ''GET''" "\<not> bs_consumed st" "rest = bs_one_time st"
        and c: "consume B r st = ((see_other ''/session'')\<lparr>hp_cookie := Some (be_cookie B)\<rparr>, st\<lparr>bs_consumed := True, bs_one_time := []\<rparr>)"
      moreover from run c have "hp_page p = Empty" "hp_location p = Some ''/session''" "st' = st\<lparr>bs_consumed := True, bs_one_time := []\<rparr>"
        "hp_cookie p = Some (be_cookie B)"
        using with_headers_parts [of ?hs "consume B r st"] by (simp_all add: see_other_def reply_def)
      ultimately show ?thesis using path link(1) by (simp add: accounted_def page_defs)
    next
      fix msg status
      assume c: "consume B r st = (http_error msg status, st)"
      from run c have "hp_page p = Plain msg" "st' = st" "hp_cookie p = None" "hp_location p = None"
        using with_headers_parts [of ?hs "consume B r st"] by (simp_all add: http_error_def reply_def)
      then show ?thesis by (simp add: accounted_def page_defs)
    qed
  next
    case cookie
    with assms show ?thesis by (auto simp: ServeHTTP_def with_headers_def accounted_def reply_defs page_defs)
  next
    case inside
    with assms have run: "with_headers (setSecurityHeaders (hq_host r)) (route_request B r st) = (p, st')"
      by (simp add: ServeHTTP_def)
    have "authorised B r" using inside by (auto simp: authorised_def validCookie_def constant_time_equal_def split: option.splits)
    moreover have "hp_cookie p = None" "bs_consumed st' = bs_consumed st" "accounted st p st'"
      using route_regular [of st B r] run with_headers_parts [of "setSecurityHeaders (hq_host r)" "route_request B r st"]
      by (auto simp: regular_def accounted_def starts_remote_def)
    ultimately show ?thesis by simp
  qed
  then show "hp_cookie p \<noteq> None \<longrightarrow> \<not> bs_consumed st \<and> bs_consumed st' \<and> hq_path r = ''/s/'' @ bs_one_time st \<and>
      hq_method r = ''GET'' \<and> validLocalHost (hq_host r) (be_expected_host B)"
    and "bs_consumed st \<longrightarrow> bs_consumed st'" and "behind_cookie (hp_page p) \<longrightarrow> authorised B r"
    and "hp_cookie p = None \<and> \<not> authorised B r \<longrightarrow> st' = st" and "accounted st p st'" by blast+
qed

section \<open>Any sequence of requests\<close>

definition sets_cookie :: "http_reply \<Rightarrow> bool" where
  "sets_cookie p \<longleftrightarrow> hp_cookie p \<noteq> None"

definition how_many :: "('a \<Rightarrow> bool) \<Rightarrow> 'a list \<Rightarrow> nat" where
  "how_many P xs = length (filter P xs)"

lemma how_many_simps [simp]: "how_many P [] = 0" "how_many P (x # xs) = of_bool (P x) + how_many P xs"
  by (simp_all add: how_many_def)

lemma serve_all_length: "serve_all B rs st = (ps, st') \<Longrightarrow> length ps = length rs"
  by (induction rs arbitrary: st ps) (auto split: prod.splits)

lemma serve_all_counts:
  assumes "serve_all B rs st = (ps, st')"
  shows "how_many sets_cookie ps + of_bool (bs_consumed st) \<le> 1 \<and> (bs_consumed st \<longrightarrow> bs_consumed st') \<and>
    how_many (\<lambda>p. is_remote_page (hp_page p)) ps + of_bool (bs_launch st' \<noteq> []) \<le>
      how_many starts_remote ps + of_bool (bs_launch st \<noteq> [])"
  using assms
proof (induction rs arbitrary: st ps)
  case (Cons r rs)
  from Cons.prems obtain p s1 qs where step: "ServeHTTP B r st = (p, s1)" and rest: "serve_all B rs s1 = (qs, st')"
    and ps: "ps = p # qs" by (auto split: prod.splits)
  note IH = Cons.IH [OF rest]
  note one = ServeHTTP_step(1,2,5) [OF step]
  have a: "sets_cookie p \<longrightarrow> \<not> bs_consumed st \<and> bs_consumed s1" using one(1) by (simp add: sets_cookie_def)
  have "how_many sets_cookie ps + of_bool (bs_consumed st) \<le> 1 \<and> (bs_consumed st \<longrightarrow> bs_consumed st')"
    using IH a one(2) unfolding ps how_many_simps
    by (cases "sets_cookie p"; cases "bs_consumed s1"; cases "bs_consumed st") simp_all
  moreover have "how_many (\<lambda>p. is_remote_page (hp_page p)) ps + of_bool (bs_launch st' \<noteq> []) \<le>
      how_many starts_remote ps + of_bool (bs_launch st \<noteq> [])"
    using IH one(3) unfolding accounted_def ps how_many_simps by linarith
  ultimately show ?case by blast
qed simp

lemma serve_all_replies:
  "serve_all B rs st = (ps, st') \<Longrightarrow> i < length rs \<Longrightarrow>
    (behind_cookie (hp_page (ps ! i)) \<longrightarrow> authorised B (rs ! i)) \<and>
    (sets_cookie (ps ! i) \<longrightarrow> hq_method (rs ! i) = ''GET'' \<and> validLocalHost (hq_host (rs ! i)) (be_expected_host B))"
proof (induction rs arbitrary: st ps i)
  case (Cons r rs)
  from Cons.prems obtain p s1 qs where step: "ServeHTTP B r st = (p, s1)" and rest: "serve_all B rs s1 = (qs, st')"
    and ps: "ps = p # qs" by (auto split: prod.splits)
  show ?case
  proof (cases i)
    case 0
    with ServeHTTP_step(1,3) [OF step] ps show ?thesis by (simp add: sets_cookie_def)
  next
    case (Suc j)
    with Cons.IH [OF rest, of j] Cons.prems(2) ps show ?thesis by simp
  qed
qed simp

text \<open>Without the cookie and without using up the link, requests leave every field as it is.\<close>

lemma strangers_change_nothing:
  "serve_all B rs st = (ps, st') \<Longrightarrow> (\<forall>r \<in> set rs. \<not> authorised B r) \<Longrightarrow> how_many sets_cookie ps = 0 \<Longrightarrow> st' = st"
proof (induction rs arbitrary: st ps)
  case (Cons r rs)
  from Cons.prems obtain p s1 qs where step: "ServeHTTP B r st = (p, s1)" and rest: "serve_all B rs s1 = (qs, st')"
    and ps: "ps = p # qs" by (auto split: prod.splits)
  have "\<not> sets_cookie p" using Cons.prems(3) ps by auto
  then have "s1 = st" using ServeHTTP_step(4) [OF step] Cons.prems(2) by (simp add: sets_cookie_def)
  with Cons.IH [OF rest] Cons.prems ps show ?case by simp
qed simp


text \<open>A session from the link to the remote page and to the end of it.\<close>

definition sample_config :: config where
  "sample_config = \<lparr>cf_name = ''Desk'', cf_protocol = ''ssh'', cf_host = ''192.168.1.20'', cf_port = 22, cf_username = [],
     cf_domain = [], cf_policy = []\<rparr>"

definition sample_broker :: "memory_vault broker_env" where
  "sample_broker = \<lparr>be_expected_host = ''127.0.0.1:4000'', be_cookie = ''cookie'', be_form = ''form'', be_config = sample_config,
     be_vault = Some \<lparr>va_get = memory_get, va_put = memory_put, va_delete = memory_delete\<rparr>,
     be_token = (\<lambda>c u t. Inr (''token for '' @ us_name u))\<rparr>"

definition fresh_session :: "memory_vault broker_state" where
  "fresh_session = \<lparr>bs_one_time = ''once'', bs_consumed = False, bs_launch = [], bs_disconnected = False,
     bs_vault = Some (\<lambda>k. None)\<rparr>"

definition sample_form :: "string \<Rightarrow> string" where
  "sample_form k = (if k = ''csrf'' then ''form'' else if k = ''username'' then ''me'' else if k = ''password'' then ''pw'' else [])"

definition visit :: "string \<Rightarrow> string \<Rightarrow> string option \<Rightarrow> http_request" where
  "visit m path cookie = \<lparr>hq_host = ''localhost:4000'', hq_method = m, hq_path = path, hq_cookie = cookie, hq_manual = [],
     hq_form = (\<lambda>n. Inr sample_form), hq_now = 0\<rparr>"

definition sample_visits :: "http_request list" where
  "sample_visits = [visit ''GET'' ''/session'' None, visit ''GET'' ''/s/once'' None, visit ''GET'' ''/s/once'' None,
     visit ''GET'' ''/session'' (Some ''cookie''), visit ''POST'' ''/connect'' (Some ''cookie''),
     visit ''GET'' ''/remote'' (Some ''cookie''), visit ''GET'' ''/remote'' (Some ''cookie''),
     visit ''POST'' ''/disconnect'' (Some ''cookie'')]"

lemma sample_statuses:
  "map hp_status (fst (serve_all sample_broker sample_visits fresh_session)) = [401, 303, 410, 200, 303, 200, 303, 200]"
  "map sets_cookie (fst (serve_all sample_broker sample_visits fresh_session)) =
     [False, True, False, False, False, False, False, False]"
  by code_simp+


end
