(* ===== verification/Docker.thy ===== *)
theory Docker
  imports Broker
begin

text \<open>
  The Docker side of \<open>internal/localremote\<close>: \<open>runner.go\<close>, \<open>docker.go\<close>, \<open>orphans.go\<close>, the start of a
  session in \<open>session.go\<close> and the launch token of \<open>token.go\<close>. Commands are run by a runner with a
  state of its own; every command and what it answered is logged. Randomness, listening,
  opening a browser, process existence and the cryptographic functions are arguments. The log is
  what the theorems speak of: what is created is removed, and nothing that has a living owner is.
\<close>

section \<open>Commands\<close>

record command =
  cm_name :: string
  cm_args :: "string list"
  cm_env :: "string list"

record cmd_output =
  out_stdout :: string
  out_stderr :: string

record 's runner =
  rn_look_path :: "string \<Rightarrow> error option"
  rn_run :: "command \<Rightarrow> 's \<Rightarrow> (cmd_output \<times> error option) \<times> 's"

record 's docker_world =
  dw_runner :: 's
  dw_log :: "(command \<times> cmd_output \<times> error option) list"

definition docker :: "string list \<Rightarrow> command" where
  "docker args = \<lparr>cm_name = ''docker'', cm_args = args, cm_env = []\<rparr>"

definition run :: "'s runner \<Rightarrow> command \<Rightarrow> 's docker_world \<Rightarrow> (cmd_output \<times> error option) \<times> 's docker_world" where
  "run R c w =
     (case rn_run R c (dw_runner w) of
        ((out, e), s) \<Rightarrow> ((out, e), \<lparr>dw_runner = s, dw_log = dw_log w @ [(c, out, e)]\<rparr>))"

definition commandError :: "string \<Rightarrow> cmd_output \<Rightarrow> error option \<Rightarrow> error option" where
  "commandError action result e =
     (case e of
        None \<Rightarrow> None
      | Some x \<Rightarrow>
          let detail = trim_space (out_stderr result);
              detail = (if detail = [] then trim_space (out_stdout result) else detail) in
          if detail = [] then Some (Wrapf action x)
          else Some (Errorf (action @ '': '' @ error_text x @ '': '' @ detail)))"

text \<open>\<open>errors.Join\<close> of the errors that are present, by its text.\<close>

fun present_errors :: "error option list \<Rightarrow> error list" where
  "present_errors [] = []"
| "present_errors (None # es) = present_errors es"
| "present_errors (Some e # es) = e # present_errors es"

definition joinErrors :: "error option list \<Rightarrow> error option" where
  "joinErrors es =
     (case present_errors es of
        [] \<Rightarrow> None
      | [e] \<Rightarrow> Some e
      | xs \<Rightarrow> Some (Errorf (join [char_of (10::nat)] (map error_text xs))))"

definition ownershipLabel :: string where "ownershipLabel = ''dev.aklkbqx.wol.local-remote''"
definition ownerPIDLabel :: string where "ownerPIDLabel = ''dev.aklkbqx.wol.owner-pid''"

definition GuacamoleImage :: string where
  "GuacamoleImage = ''guacamole/guacamole@sha256:f344085e618bb05e22b964b0208dbd06d3468275bac70206f93805245e067b40''"

definition GuacdImage :: string where
  "GuacdImage = ''guacamole/guacd@sha256:8974eaa9ba32f713daf311e7cc8cd7e4cdfba1edea39eed75524e78ef4b08f4f''"

definition ImageLabel :: "string \<Rightarrow> string" where
  "ImageLabel img = fst (cut_char CHR ''@'' img) @ '':1.6.0 (digest pinned)''"

section \<open>Orphans\<close>

text \<open>The owner of a resource, when the inspection succeeds and prints a process that is gone.\<close>

definition dead_owner :: "(int \<Rightarrow> bool) \<Rightarrow> cmd_output \<Rightarrow> error option \<Rightarrow> bool" where
  "dead_owner alive out e \<longleftrightarrow>
     e = None \<and> (case atoi (trim_space (out_stdout out)) of
       (pid, None) \<Rightarrow> \<not> (pid < 1 \<or> alive pid) | (_, Some _) \<Rightarrow> False)"

definition inspect_container :: "string \<Rightarrow> command" where
  "inspect_container i =
     docker [''inspect'', ''--format'', ''{{ index .Config.Labels '' @ [CHR 0x22] @ ownerPIDLabel @ [CHR 0x22] @ '' }}'', i]"

definition inspect_network :: "string \<Rightarrow> command" where
  "inspect_network i =
     docker [''network'', ''inspect'', ''--format'', ''{{ index .Labels '' @ [CHR 0x22] @ ownerPIDLabel @ [CHR 0x22] @ '' }}'', i]"

definition remove_container :: "string \<Rightarrow> command" where
  "remove_container i = docker [''rm'', ''--force'', i]"

definition remove_network :: "string \<Rightarrow> command" where
  "remove_network i = docker [''network'', ''rm'', i]"

fun orphan_containers :: "(int \<Rightarrow> bool) \<Rightarrow> 's runner \<Rightarrow> string list \<Rightarrow> 's docker_world \<Rightarrow> error option \<times> 's docker_world" where
  "orphan_containers alive R [] w = (None, w)"
| "orphan_containers alive R (i # is) w =
     (case run R (inspect_container i) w of
        ((owner, e), w) \<Rightarrow>
          if \<not> dead_owner alive owner e then orphan_containers alive R is w
          else
            (case run R (remove_container i) w of
               ((removed, Some x), w) \<Rightarrow> (commandError ''remove orphaned local remote container'' removed (Some x), w)
             | ((removed, None), w) \<Rightarrow> orphan_containers alive R is w))"

fun orphan_networks :: "(int \<Rightarrow> bool) \<Rightarrow> 's runner \<Rightarrow> string list \<Rightarrow> 's docker_world \<Rightarrow> error option \<times> 's docker_world" where
  "orphan_networks alive R [] w = (None, w)"
| "orphan_networks alive R (i # is) w =
     (case run R (inspect_network i) w of
        ((owner, e), w) \<Rightarrow>
          if \<not> dead_owner alive owner e then orphan_networks alive R is w
          else
            (case run R (remove_network i) w of
               ((removed, e), w) \<Rightarrow>
                 if e \<noteq> None \<and> \<not> contains (to_lower (out_stderr removed)) ''not found''
                 then (map_option (Wrapf ''remove orphaned local remote network'') (commandError ''docker network rm'' removed e), w)
                 else orphan_networks alive R is w))"

definition cleanupOrphans :: "(int \<Rightarrow> bool) \<Rightarrow> 's runner \<Rightarrow> 's docker_world \<Rightarrow> error option \<times> 's docker_world" where
  "cleanupOrphans alive R w =
     (case run R (docker [''ps'', ''--all'', ''--quiet'', ''--filter'', ''label='' @ ownershipLabel @ ''=true'']) w of
        ((containers, Some e), w) \<Rightarrow> (commandError ''list local remote containers'' containers (Some e), w)
      | ((containers, None), w) \<Rightarrow>
          (case orphan_containers alive R (GoBase.fields (out_stdout containers)) w of
             (Some e, w) \<Rightarrow> (Some e, w)
           | (None, w) \<Rightarrow>
               (case run R (docker [''network'', ''ls'', ''--quiet'', ''--filter'', ''label='' @ ownershipLabel @ ''=true'']) w of
                  ((networks, Some e), w) \<Rightarrow> (commandError ''list local remote networks'' networks (Some e), w)
                | ((networks, None), w) \<Rightarrow> orphan_networks alive R (GoBase.fields (out_stdout networks)) w)))"

section \<open>The runtime\<close>

record docker_runtime =
  rt_network :: string
  rt_guacd :: string
  rt_guacamole :: string
  rt_secret :: string
  rt_owner :: int
  rt_started_net :: bool
  rt_started_guacd :: bool
  rt_started_guacamole :: bool

definition owner_labels :: "docker_runtime \<Rightarrow> string list" where
  "owner_labels d = [''--label'', ownershipLabel @ ''=true'', ''--label'', ownerPIDLabel @ ''='' @ itoa (rt_owner d)]"

definition create_network :: "docker_runtime \<Rightarrow> command" where
  "create_network d = docker ([''network'', ''create'', ''--driver'', ''bridge''] @ owner_labels d @ [rt_network d])"

definition run_guacd :: "docker_runtime \<Rightarrow> command" where
  "run_guacd d = docker ([''run'', ''--detach'', ''--network'', rt_network d, ''--name'', rt_guacd d] @ owner_labels d @
     [''--cap-drop'', ''ALL'', ''--security-opt'', ''no-new-privileges'', GuacdImage])"

definition run_guacamole :: "docker_runtime \<Rightarrow> command" where
  "run_guacamole d = (docker ([''run'', ''--detach'', ''--network'', rt_network d, ''--name'', rt_guacamole d] @ owner_labels d @
     [''--cap-drop'', ''ALL'', ''--security-opt'', ''no-new-privileges'', ''--publish'', ''127.0.0.1::8080'',
      ''--env'', ''GUACD_HOSTNAME='' @ rt_guacd d, ''--env'', ''JSON_ENABLED=true'', ''--env'', ''JSON_SECRET_KEY'',
      GuacamoleImage]))\<lparr>cm_env := [''JSON_SECRET_KEY='' @ rt_secret d]\<rparr>"

text \<open>The first published port on the loopback address.\<close>

fun published_port :: "string list \<Rightarrow> string option" where
  "published_port [] = None"
| "published_port (l # ls) =
     (case split_host_port (trim_space l) of
        Inl _ \<Rightarrow> published_port ls
      | Inr (h, port) \<Rightarrow>
          if h \<noteq> ''127.0.0.1'' then published_port ls
          else (case atoi port of
                  (parsed, None) \<Rightarrow> if parsed > 0 \<and> parsed \<le> 65535 then Some port else published_port ls
                | (_, Some _) \<Rightarrow> published_port ls))"

definition parsePublishedLoopback :: "string \<Rightarrow> string result" where
  "parsePublishedLoopback text =
     (case published_port (split_char (char_of (10::nat)) text) of
        Some port \<Rightarrow> Inr (''http://127.0.0.1:'' @ port)
      | None \<Rightarrow> Inl (Errorf (''no Guacamole port published by Docker on 127.0.0.1: '' @ quote (trim_space text))))"

text \<open>\<open>start\<close> returns the URL and the runtime with its flags; \<open>commandError\<close> of an error is an error.\<close>

definition command_failed :: "string \<Rightarrow> cmd_output \<Rightarrow> error \<Rightarrow> 'a result" where
  "command_failed action out e = (case commandError action out (Some e) of Some x \<Rightarrow> Inl x | None \<Rightarrow> Inl e)"

definition start_runtime ::
  "(int \<Rightarrow> bool) \<Rightarrow> 's runner \<Rightarrow> int \<Rightarrow> docker_runtime \<Rightarrow> 's docker_world \<Rightarrow> (string result \<times> docker_runtime) \<times> 's docker_world" where
  "start_runtime alive R pid d w =
     (let d = (if rt_owner d = 0 then d\<lparr>rt_owner := pid\<rparr> else d) in
      case cleanupOrphans alive R w of
        (Some e, w) \<Rightarrow> ((Inl e, d), w)
      | (None, w) \<Rightarrow>
          (case run R (create_network d) w of
             ((out, Some e), w) \<Rightarrow> ((command_failed ''create private Docker network'' out e, d), w)
           | ((out, None), w) \<Rightarrow>
               let d = d\<lparr>rt_started_net := True\<rparr> in
               (case run R (run_guacd d) w of
                  ((out, Some e), w) \<Rightarrow> ((command_failed ''start guacd'' out e, d), w)
                | ((out, None), w) \<Rightarrow>
                    let d = d\<lparr>rt_started_guacd := True\<rparr> in
                    (case run R (run_guacamole d) w of
                       ((out, Some e), w) \<Rightarrow> ((command_failed ''start Guacamole'' out e, d), w)
                     | ((out, None), w) \<Rightarrow>
                         let d = d\<lparr>rt_started_guacamole := True\<rparr> in
                         (case run R (docker [''port'', rt_guacamole d, ''8080/tcp'']) w of
                            ((out, Some e), w) \<Rightarrow> ((command_failed ''discover Guacamole loopback port'' out e, d), w)
                          | ((out, None), w) \<Rightarrow> ((parsePublishedLoopback (out_stdout out), d), w))))))"

definition remove_if :: "bool \<Rightarrow> string \<Rightarrow> 's runner \<Rightarrow> command \<Rightarrow> 's docker_world \<Rightarrow> error option \<times> 's docker_world" where
  "remove_if started action R c w =
     (if started then (case run R c w of ((out, e), w) \<Rightarrow> (commandError action out e, w)) else (None, w))"

definition close_runtime :: "'s runner \<Rightarrow> docker_runtime \<Rightarrow> 's docker_world \<Rightarrow> error option \<times> 's docker_world" where
  "close_runtime R d w =
     (case remove_if (rt_started_guacamole d) ''remove Guacamole container'' R (remove_container (rt_guacamole d)) w of (e1, w) \<Rightarrow>
      case remove_if (rt_started_guacd d) ''remove guacd container'' R (remove_container (rt_guacd d)) w of (e2, w) \<Rightarrow>
      case remove_if (rt_started_net d) ''remove private Docker network'' R (remove_network (rt_network d)) w of (e3, w) \<Rightarrow>
      (joinErrors [e1, e2, e3], w))"

section \<open>Readiness and setup\<close>

record doctor_report =
  dr_cli :: bool
  dr_daemon :: bool
  dr_images :: "string list"
  dr_problems :: "string list"

definition Ready_report :: "doctor_report \<Rightarrow> bool" where
  "Ready_report r \<longleftrightarrow> dr_cli r \<and> dr_daemon r \<and> GuacamoleImage \<in> set (dr_images r) \<and> GuacdImage \<in> set (dr_images r)"

definition version_command :: command where
  "version_command = docker [''version'', ''--format'', ''{{.Server.Version}}'']"

fun doctor_images :: "'s runner \<Rightarrow> string list \<Rightarrow> doctor_report \<Rightarrow> 's docker_world \<Rightarrow> doctor_report \<times> 's docker_world" where
  "doctor_images R [] r w = (r, w)"
| "doctor_images R (img # images) r w =
     (case run R (docker [''image'', ''inspect'', img]) w of
        ((out, Some e), w) \<Rightarrow>
          doctor_images R images (r\<lparr>dr_problems := dr_problems r @ [ImageLabel img @ '' is not installed; run local remote setup'']\<rparr>) w
      | ((out, None), w) \<Rightarrow> doctor_images R images (r\<lparr>dr_images := dr_images r @ [img]\<rparr>) w)"

definition Doctor :: "'s runner \<Rightarrow> 's docker_world \<Rightarrow> doctor_report \<times> 's docker_world" where
  "Doctor R w =
     (let r = \<lparr>dr_cli = False, dr_daemon = False, dr_images = [], dr_problems = []\<rparr> in
      if rn_look_path R ''docker'' \<noteq> None
      then (r\<lparr>dr_problems := [''Docker CLI is not installed or not in PATH'']\<rparr>, w)
      else
        let r = r\<lparr>dr_cli := True\<rparr> in
        (case run R version_command w of
           ((out, Some e), w) \<Rightarrow>
             (r\<lparr>dr_problems := [''Docker daemon is unavailable: '' @ error_text (the (commandError ''docker version'' out (Some e)))]\<rparr>, w)
         | ((out, None), w) \<Rightarrow> doctor_images R [GuacamoleImage, GuacdImage] (r\<lparr>dr_daemon := True\<rparr>) w))"

fun pull_images :: "'s runner \<Rightarrow> string list \<Rightarrow> 's docker_world \<Rightarrow> error option \<times> 's docker_world" where
  "pull_images R [] w = (None, w)"
| "pull_images R (img # images) w =
     (case run R (docker [''pull'', img]) w of
        ((out, Some e), w) \<Rightarrow> (commandError (''pull '' @ img) out (Some e), w)
      | ((out, None), w) \<Rightarrow> pull_images R images w)"

definition Setup :: "(int \<Rightarrow> bool) \<Rightarrow> 's runner \<Rightarrow> 's docker_world \<Rightarrow> error option \<times> 's docker_world" where
  "Setup alive R w =
     (if rn_look_path R ''docker'' \<noteq> None
      then (Some (Errorf ''local remote setup: Docker CLI is not installed or not in PATH''), w)
      else
        (case run R version_command w of
           ((out, Some e), w) \<Rightarrow> (commandError ''local remote setup: Docker daemon is unavailable'' out (Some e), w)
         | ((out, None), w) \<Rightarrow>
             (case cleanupOrphans alive R w of
                (Some e, w) \<Rightarrow> (Some (Wrapf ''local remote setup'' e), w)
              | (None, w) \<Rightarrow> pull_images R [GuacdImage, GuacamoleImage] w)))"

section \<open>The launch token\<close>

record token_crypto =
  tk_json :: "config \<Rightarrow> (string \<times> string) list \<Rightarrow> int \<Rightarrow> (byte list) result"
  tk_hmac :: "byte list \<Rightarrow> byte list \<Rightarrow> byte list"
  tk_cipher :: "byte list \<Rightarrow> error option"
  tk_encrypt :: "byte list \<Rightarrow> byte list \<Rightarrow> byte list"
  tk_base64 :: "byte list \<Rightarrow> string"

text \<open>The connection's parameters, as the pairs of a map with distinct keys.\<close>

definition token_parameters :: "config \<Rightarrow> credentials \<Rightarrow> (string \<times> string) list" where
  "token_parameters c u =
     [(''hostname'', cf_host c), (''port'', itoa (cf_port c))] @
     (if us_name u \<noteq> [] then [(''username'', us_name u)] else []) @
     (if us_domain u \<noteq> [] \<and> cf_protocol c = ''rdp'' then [(''domain'', us_domain u)] else []) @
     (if us_password u \<noteq> [] then [(''password'', us_password u)] else []) @
     (if cf_protocol c = ''rdp'' \<and> cf_policy c = ''trust-local'' then [(''ignore-cert'', ''true'')] else [])"

definition block_size :: nat where "block_size = 16"

definition pad :: "byte list \<Rightarrow> byte list" where
  "pad msg = (let n = block_size - length msg mod block_size in msg @ replicate n (word_of_nat n))"

definition buildAuthToken :: "token_crypto \<Rightarrow> byte list \<Rightarrow> config \<Rightarrow> credentials \<Rightarrow> int \<Rightarrow> string result" where
  "buildAuthToken T key c u now =
     (case tk_json T c (token_parameters c u) (now + 120000) of
        Inl e \<Rightarrow> Inl (Wrapf ''encode Guacamole launch document'' e)
      | Inr plaintext \<Rightarrow>
          (case tk_cipher T key of
             Some e \<Rightarrow> Inl (Wrapf ''create Guacamole token cipher'' e)
           | None \<Rightarrow> Inr (tk_base64 T (tk_encrypt T key (pad (tk_hmac T key plaintext @ plaintext))))))"

text \<open>Padding fills the last block, always adds a byte and is undone by its last byte.\<close>

definition unpad :: "byte list \<Rightarrow> byte list" where
  "unpad bs = take (length bs - unat (last bs)) bs"

lemma pad_blocks: "length (pad msg) mod block_size = 0 \<and> length msg < length (pad msg)"
proof -
  have "length msg + (16 - length msg mod 16) = 16 * (length msg div 16 + 1)"
  proof -
    have "length msg mod 16 < 16" by simp
    moreover have "q * 16 + m = n \<Longrightarrow> m < 16 \<Longrightarrow> n + (16 - m) = 16 * (q + 1)" for n m q :: nat by presburger
    ultimately show ?thesis using div_mult_mod_eq [of "length msg" 16] by blast
  qed
  then have "(length msg + (16 - length msg mod 16)) mod 16 = 0" by simp
  then show ?thesis by (simp add: pad_def block_size_def Let_def)
qed

lemma unpad_pad: "unpad (pad msg) = msg"
proof -
  define n where "n = block_size - length msg mod block_size"
  have n: "0 < n" "n \<le> 16" by (simp_all add: n_def block_size_def)
  then have "unat (word_of_nat n :: byte) = n" by (simp add: unat_of_nat)
  moreover have "last (pad msg) = word_of_nat n" using n by (simp add: pad_def Let_def n_def [symmetric])
  moreover have "pad msg = msg @ replicate n (word_of_nat n)" by (simp add: pad_def n_def Let_def)
  ultimately show ?thesis by (simp add: unpad_def)
qed

section \<open>Starting a session\<close>

record start_env =
  se_alive :: "int \<Rightarrow> bool"
  se_pid :: int
  se_random :: "nat \<Rightarrow> nat \<Rightarrow> (byte list) result"
  se_listen :: "int result"
  se_open_browser :: bool
  se_opener :: "(string \<Rightarrow> error option) option"
  se_shutdown :: "error option"

record session =
  ss_url :: string
  ss_expected_host :: string
  ss_one_time :: string
  ss_cookie :: string
  ss_form :: string
  ss_key :: "byte list"
  ss_upstream :: string
  ss_runtime :: docker_runtime

definition random_hex :: "start_env \<Rightarrow> nat \<Rightarrow> nat \<Rightarrow> string result" where
  "random_hex S i n = (case se_random S i n of Inl e \<Rightarrow> Inl (Wrapf ''generate secure random value'' e) | Inr b \<Rightarrow> Inr (hex_encode b))"

definition new_runtime :: "string \<Rightarrow> byte list \<Rightarrow> docker_runtime" where
  "new_runtime i key = \<lparr>rt_network = ''wol-local-'' @ i, rt_guacd = ''wol-guacd-'' @ i, rt_guacamole = ''wol-guacamole-'' @ i,
     rt_secret = hex_encode key, rt_owner = 0, rt_started_net = False, rt_started_guacd = False, rt_started_guacamole = False\<rparr>"

text \<open>Giving up: the sidecars are removed. (The listener, when there is one, is closed first.)\<close>

definition give_up :: "'s runner \<Rightarrow> docker_runtime \<Rightarrow> error \<Rightarrow> 's docker_world \<Rightarrow> session result \<times> 's docker_world" where
  "give_up R d e w =
     (case close_runtime R d w of (c, w) \<Rightarrow> (Inl (case joinErrors [Some e, c] of None \<Rightarrow> e | Some x \<Rightarrow> x), w))"

definition close_session :: "start_env \<Rightarrow> 's runner \<Rightarrow> session \<Rightarrow> 's docker_world \<Rightarrow> error option \<times> 's docker_world" where
  "close_session S R s w =
     (case close_runtime R (ss_runtime s) w of (c, w) \<Rightarrow> (joinErrors [se_shutdown S, c], w))"

definition open_in_browser :: "start_env \<Rightarrow> 's runner \<Rightarrow> session \<Rightarrow> 's docker_world \<Rightarrow> session result \<times> 's docker_world" where
  "open_in_browser S R s w =
     (if \<not> se_open_browser S then (Inr s, w)
      else
        (case se_opener S of
           None \<Rightarrow> (Inl (Errorf ''local remote: OpenBrowser requires an Opener''), snd (close_session S R s w))
         | Some opener \<Rightarrow>
             (case opener (ss_url s) of
                Some e \<Rightarrow> (Inl (Wrapf ''open localhost remote session'' e), snd (close_session S R s w))
              | None \<Rightarrow> (Inr s, w))))"

definition three_tokens :: "start_env \<Rightarrow> (string \<times> string \<times> string) result" where
  "three_tokens S =
     (case random_hex S 2 32 of Inl e \<Rightarrow> Inl e | Inr a \<Rightarrow>
      case random_hex S 3 32 of Inl e \<Rightarrow> Inl e | Inr b \<Rightarrow>
      case random_hex S 4 32 of Inl e \<Rightarrow> Inl e | Inr c \<Rightarrow> Inr (a, b, c))"

definition Start :: "start_env \<Rightarrow> 's runner \<Rightarrow> config \<Rightarrow> 's docker_world \<Rightarrow> session result \<times> 's docker_world" where
  "Start S R c w =
     (case validateConfig c of
        Some e \<Rightarrow> (Inl e, w)
      | None \<Rightarrow>
          (case random_hex S 0 8 of
             Inl e \<Rightarrow> (Inl e, w)
           | Inr i \<Rightarrow>
               (case se_random S 1 16 of
                  Inl e \<Rightarrow> (Inl (Wrapf ''generate secure random value'' e), w)
                | Inr key \<Rightarrow>
                    (case start_runtime (se_alive S) R (se_pid S) (new_runtime i key) w of
                       ((Inl e, d), w) \<Rightarrow> give_up R d e w
                     | ((Inr upstream, d), w) \<Rightarrow>
                         (case se_listen S of
                            Inl e \<Rightarrow> give_up R d (Wrapf ''start localhost broker'' e) w
                          | Inr port \<Rightarrow>
                              (case three_tokens S of
                                 Inl e \<Rightarrow> give_up R d e w
                               | Inr (oneTime, cookie, form) \<Rightarrow>
                                   let host = join_host_port ''127.0.0.1'' (itoa port) in
                                   open_in_browser S R \<lparr>ss_url = ''http://'' @ host @ ''/s/'' @ oneTime, ss_expected_host = host,
                                     ss_one_time = oneTime, ss_cookie = cookie, ss_form = form, ss_key = key,
                                     ss_upstream = upstream, ss_runtime = d\<rparr> w))))))"

section \<open>What is created is removed\<close>

type_synonym log = "(command \<times> cmd_output \<times> error option) list"

definition is_removal :: "command \<Rightarrow> bool" where
  "is_removal c \<longleftrightarrow> (\<exists>i. c = remove_container i \<or> c = remove_network i)"

text \<open>The removal that undoes a creation.\<close>

definition undone_by :: "command \<Rightarrow> command \<Rightarrow> bool" where
  "undone_by c x \<longleftrightarrow> (\<exists>d. (c = create_network d \<and> x = remove_network (rt_network d)) \<or>
     (c = run_guacd d \<and> x = remove_container (rt_guacd d)) \<or>
     (c = run_guacamole d \<and> x = remove_container (rt_guacamole d)))"

lemmas command_defs = docker_def remove_container_def remove_network_def create_network_def run_guacd_def run_guacamole_def
  owner_labels_def inspect_container_def inspect_network_def

lemma undone_by_own:
  "undone_by (create_network d) x \<longleftrightarrow> x = remove_network (rt_network d)"
  "undone_by (run_guacd d) x \<longleftrightarrow> x = remove_container (rt_guacd d)"
  "undone_by (run_guacamole d) x \<longleftrightarrow> x = remove_container (rt_guacamole d)"
  by (auto simp: undone_by_def command_defs GuacdImage_def GuacamoleImage_def)

lemma short_creates_nothing: "length (cm_args c) < 9 \<Longrightarrow> \<not> undone_by c x"
  by (auto simp: undone_by_def command_defs)

lemma removal_args: "is_removal c \<Longrightarrow> length (cm_args c) = 3"
  by (auto simp: is_removal_def command_defs)

lemma creations_remove_nothing: "undone_by c x \<Longrightarrow> \<not> is_removal c"
  using short_creates_nothing removal_args by fastforce

text \<open>A log in which every removal follows the inspection that found its owner dead.\<close>

inductive justified_log :: "(int \<Rightarrow> bool) \<Rightarrow> log \<Rightarrow> bool" for alive where
  nothing: "justified_log alive []"
| other: "\<not> is_removal c \<Longrightarrow> justified_log alive new \<Longrightarrow> justified_log alive ((c, out, e) # new)"
| container: "dead_owner alive out e \<Longrightarrow> justified_log alive new \<Longrightarrow>
    justified_log alive ((inspect_container i, out, e) # (remove_container i, out', e') # new)"
| network: "dead_owner alive out e \<Longrightarrow> justified_log alive new \<Longrightarrow>
    justified_log alive ((inspect_network i, out, e) # (remove_network i, out', e') # new)"

lemma arg_counts:
  "length (cm_args (inspect_container i)) = 4" "length (cm_args (inspect_network i)) = 5"
  "length (cm_args (remove_container i)) = 3" "length (cm_args (remove_network i)) = 3"
  by (simp_all add: command_defs)

definition creates_nothing :: "log \<Rightarrow> bool" where
  "creates_nothing new \<longleftrightarrow> (\<forall>(c, out, e) \<in> set new. \<forall>x. \<not> undone_by c x)"

definition orphan_log :: "(int \<Rightarrow> bool) \<Rightarrow> log \<Rightarrow> bool" where
  "orphan_log alive new \<longleftrightarrow> justified_log alive new \<and> creates_nothing new"

lemma orphan_log_Nil: "orphan_log alive []"
  by (simp add: orphan_log_def creates_nothing_def justified_log.nothing)

lemma orphan_log_other:
  "length (cm_args c) < 9 \<Longrightarrow> length (cm_args c) \<noteq> 3 \<Longrightarrow> orphan_log alive new \<Longrightarrow> orphan_log alive ((c, out, e) # new)"
  using short_creates_nothing removal_args [of c]
  by (auto simp: orphan_log_def creates_nothing_def intro: justified_log.other)

lemma orphan_log_removal:
  assumes "dead_owner alive out e" "orphan_log alive new"
  shows "orphan_log alive ((inspect_container i, out, e) # (remove_container i, out', e') # new)"
    and "orphan_log alive ((inspect_network i, out, e) # (remove_network i, out', e') # new)"
  using assms short_creates_nothing arg_counts
  by (auto simp: orphan_log_def creates_nothing_def intro: justified_log.container justified_log.network)

lemma justified_append: "justified_log alive a \<Longrightarrow> justified_log alive b \<Longrightarrow> justified_log alive (a @ b)"
  by (induction rule: justified_log.induct) (auto intro: justified_log.intros)

lemma orphan_log_append: "orphan_log alive a \<Longrightarrow> orphan_log alive b \<Longrightarrow> orphan_log alive (a @ b)"
  using justified_append by (auto simp: orphan_log_def creates_nothing_def)

definition extended :: "'s docker_world \<Rightarrow> log \<Rightarrow> 's docker_world \<Rightarrow> bool" where
  "extended w new w' \<longleftrightarrow> dw_log w' = dw_log w @ new"

lemma run_extended: "run R c w = ((out, e), w') \<Longrightarrow> extended w [(c, out, e)] w'"
  by (auto simp: run_def extended_def split: prod.splits)

lemma extended_trans: "extended w a w1 \<Longrightarrow> extended w1 b w2 \<Longrightarrow> extended w (a @ b) w2"
  by (simp add: extended_def)

lemma extended_refl: "extended w [] w"
  by (simp add: extended_def)

lemma inspect_other: "orphan_log alive new \<Longrightarrow> orphan_log alive ((inspect_container i, out, e) # new)"
    "orphan_log alive new \<Longrightarrow> orphan_log alive ((inspect_network i, out, e) # new)"
  by (auto intro!: orphan_log_other simp: arg_counts)

lemma orphan_containers_log:
  "orphan_containers alive R ids w = (r, w') \<Longrightarrow> \<exists>new. extended w new w' \<and> orphan_log alive new"
proof (induction ids arbitrary: w)
  case Nil
  then show ?case using extended_refl orphan_log_Nil by fastforce
next
  case (Cons i ids)
  obtain out e w1 where i1: "run R (inspect_container i) w = ((out, e), w1)" by (metis prod.collapse)
  note x1 = run_extended [OF i1]
  show ?case
  proof (cases "dead_owner alive out e")
    case False
    with Cons i1 obtain new where "extended w1 new w'" "orphan_log alive new" by fastforce
    with extended_trans [OF x1] inspect_other show ?thesis by fastforce
  next
    case True
    obtain out2 e2 w2 where r2: "run R (remove_container i) w1 = ((out2, e2), w2)" by (metis prod.collapse)
    note x2 = extended_trans [OF x1 run_extended [OF r2]]
    show ?thesis
    proof (cases e2)
      case None
      with Cons i1 True r2 obtain new where "extended w2 new w'" "orphan_log alive new" by fastforce
      with extended_trans [OF x2] orphan_log_removal(1) [OF True] show ?thesis by fastforce
    next
      case (Some y)
      with Cons.prems i1 True r2 have "w' = w2" by simp
      with x2 orphan_log_removal(1) [OF True orphan_log_Nil] show ?thesis by fastforce
    qed
  qed
qed

lemma orphan_networks_log:
  "orphan_networks alive R ids w = (r, w') \<Longrightarrow> \<exists>new. extended w new w' \<and> orphan_log alive new"
proof (induction ids arbitrary: w)
  case Nil
  then show ?case using extended_refl orphan_log_Nil by fastforce
next
  case (Cons i ids)
  obtain out e w1 where i1: "run R (inspect_network i) w = ((out, e), w1)" by (metis prod.collapse)
  note x1 = run_extended [OF i1]
  show ?case
  proof (cases "dead_owner alive out e")
    case False
    with Cons i1 obtain new where "extended w1 new w'" "orphan_log alive new" by fastforce
    with extended_trans [OF x1] inspect_other show ?thesis by fastforce
  next
    case True
    obtain out2 e2 w2 where r2: "run R (remove_network i) w1 = ((out2, e2), w2)" by (metis prod.collapse)
    note x2 = extended_trans [OF x1 run_extended [OF r2]]
    show ?thesis
    proof (cases "e2 \<noteq> None \<and> \<not> contains (to_lower (out_stderr out2)) ''not found''")
      case False
      with Cons.prems i1 True r2 have "orphan_networks alive R ids w2 = (r, w')" by (simp split: if_splits)
      from Cons.IH [OF this] obtain new where "extended w2 new w'" "orphan_log alive new" by blast
      with extended_trans [OF x2] orphan_log_removal(2) [OF True] show ?thesis by fastforce
    next
      case stop: True
      with Cons.prems i1 True r2 have "w' = w2" by (simp split: if_splits)
      with x2 orphan_log_removal(2) [OF True orphan_log_Nil] show ?thesis by fastforce
    qed
  qed
qed

lemma list_commands:
  "orphan_log alive new \<Longrightarrow> orphan_log alive ((docker [''ps'', ''--all'', ''--quiet'', ''--filter'', l], out, e) # new)"
  "orphan_log alive new \<Longrightarrow> orphan_log alive ((docker [''network'', ''ls'', ''--quiet'', ''--filter'', l], out, e) # new)"
  by (auto intro!: orphan_log_other simp: docker_def)

lemma cleanupOrphans_log:
  assumes "cleanupOrphans alive R w = (r, w')"
  shows "\<exists>new. extended w new w' \<and> orphan_log alive new"
proof -
  let ?ps = "docker [''ps'', ''--all'', ''--quiet'', ''--filter'', ''label='' @ ownershipLabel @ ''=true'']"
  let ?ls = "docker [''network'', ''ls'', ''--quiet'', ''--filter'', ''label='' @ ownershipLabel @ ''=true'']"
  obtain out e w1 where l1: "run R ?ps w = ((out, e), w1)" by (metis prod.collapse)
  note x1 = run_extended [OF l1]
  have o1: "orphan_log alive [(?ps, out, e)]" using list_commands(1) [OF orphan_log_Nil] .
  show ?thesis
  proof (cases e)
    case (Some y)
    with assms l1 have "w' = w1" by (simp add: cleanupOrphans_def)
    with x1 o1 show ?thesis by blast
  next
    case None
    obtain r2 w2 where c: "orphan_containers alive R (GoBase.fields (out_stdout out)) w1 = (r2, w2)" by fastforce
    from orphan_containers_log [OF c] obtain a where a: "extended w1 a w2" "orphan_log alive a" by blast
    note x2 = extended_trans [OF x1 a(1)] and o2 = orphan_log_append [OF o1 a(2)]
    show ?thesis
    proof (cases r2)
      case (Some y)
      with assms l1 None c have "w' = w2" by (simp add: cleanupOrphans_def)
      with x2 o2 show ?thesis by blast
    next
      case r2: None
      obtain out3 e3 w3 where l3: "run R ?ls w2 = ((out3, e3), w3)" by (metis prod.collapse)
      have o3: "orphan_log alive [(?ls, out3, e3)]" using list_commands(2) [OF orphan_log_Nil] .
      note x3 = extended_trans [OF x2 run_extended [OF l3]] and o3 = orphan_log_append [OF o2 o3]
      show ?thesis
      proof (cases e3)
        case (Some y)
        with assms l1 None c r2 l3 have "w' = w3" by (simp add: cleanupOrphans_def)
        with x3 o3 show ?thesis by blast
      next
        case e3: None
        with assms l1 None c r2 l3 have n: "orphan_networks alive R (GoBase.fields (out_stdout out3)) w3 = (r, w')"
          by (simp add: cleanupOrphans_def)
        from orphan_networks_log [OF n] obtain b where "extended w3 b w'" "orphan_log alive b" by blast
        with extended_trans [OF x3] orphan_log_append [OF o3] show ?thesis by blast
      qed
    qed
  qed
qed

text \<open>Every creation that succeeded is one the flags of the runtime know of.\<close>

definition created :: "log \<Rightarrow> command \<Rightarrow> bool" where
  "created new c \<longleftrightarrow> (\<exists>out. (c, out, None) \<in> set new)"

definition flags_cover :: "docker_runtime \<Rightarrow> log \<Rightarrow> bool" where
  "flags_cover d new \<longleftrightarrow>
     (\<forall>c x. created new c \<longrightarrow> undone_by c x \<longrightarrow>
        (rt_started_net d \<and> x = remove_network (rt_network d)) \<or>
        (rt_started_guacd d \<and> x = remove_container (rt_guacd d)) \<or>
        (rt_started_guacamole d \<and> x = remove_container (rt_guacamole d))) \<and>
     (\<forall>c \<in> fst ` set new. \<not> is_removal c) \<and>
     (rt_started_net d \<longrightarrow> (\<exists>c. created new c \<and> undone_by c (remove_network (rt_network d)))) \<and>
     (rt_started_guacd d \<longrightarrow> (\<exists>c. created new c \<and> undone_by c (remove_container (rt_guacd d)))) \<and>
     (rt_started_guacamole d \<longrightarrow> (\<exists>c. created new c \<and> undone_by c (remove_container (rt_guacamole d))))"

definition unstarted :: "docker_runtime \<Rightarrow> bool" where
  "unstarted d \<longleftrightarrow> \<not> rt_started_net d \<and> \<not> rt_started_guacd d \<and> \<not> rt_started_guacamole d"

lemma created_simps [simp]:
  "\<not> created [] c" "created ((x, out, e) # new) c \<longleftrightarrow> (c = x \<and> e = None) \<or> created new c"
  by (auto simp: created_def)

lemma names_unflagged [simp]:
  "create_network (d\<lparr>rt_started_net := b\<rparr>) = create_network d"
  "run_guacd (d\<lparr>rt_started_net := b\<rparr>) = run_guacd d" "run_guacd (d\<lparr>rt_started_guacd := b\<rparr>) = run_guacd d"
  "run_guacamole (d\<lparr>rt_started_net := b\<rparr>) = run_guacamole d" "run_guacamole (d\<lparr>rt_started_guacd := b\<rparr>) = run_guacamole d"
  by (simp_all add: command_defs)

lemma no_removals:
  "\<not> is_removal (create_network d)" "\<not> is_removal (run_guacd d)" "\<not> is_removal (run_guacamole d)"
  using creations_remove_nothing undone_by_own by blast+

lemma port_command: "\<not> is_removal (docker [''port'', n, ''8080/tcp''])" "\<not> undone_by (docker [''port'', n, ''8080/tcp'']) x"
  using short_creates_nothing [of "docker [''port'', n, ''8080/tcp'']"] by (auto simp: is_removal_def command_defs)

lemmas runtime_simps = undone_by_own no_removals port_command flags_cover_def unstarted_def

lemma start_runtime_log:
  assumes "start_runtime alive R pid d w = ((r, d'), w')" and "unstarted d"
  shows "\<exists>pre own. extended w (pre @ own) w' \<and> orphan_log alive pre \<and> flags_cover d' own"
proof -
  define d0 where "d0 = (if rt_owner d = 0 then d\<lparr>rt_owner := pid\<rparr> else d)"
  have d0: "unstarted d0" using assms(2) by (simp add: d0_def unstarted_def)
  obtain rc w0 where c: "cleanupOrphans alive R w = (rc, w0)" by fastforce
  from cleanupOrphans_log [OF c] obtain pre where pre: "extended w pre w0" "orphan_log alive pre" by blast
  have result: "\<exists>pre own. extended w (pre @ own) w' \<and> orphan_log alive pre \<and> flags_cover d' own"
    if "extended w0 own w'" "flags_cover d' own" for own
    using extended_trans [OF pre(1) that(1)] pre(2) that(2) by blast
  note run' = assms(1) [unfolded start_runtime_def d0_def [symmetric] Let_def c prod.case]
  show ?thesis
  proof (cases rc)
    case (Some y)
    with run' have "w' = w0" "d' = d0" by simp_all
    with d0 have "flags_cover d' []" and "extended w0 [] w'" using extended_refl by (simp_all add: runtime_simps)
    then show ?thesis using result by blast
  next
    case rc: None
    obtain o1 e1 w1 where n: "run R (create_network d0) w0 = ((o1, e1), w1)" by (metis prod.collapse)
    note x1 = run_extended [OF n]
    show ?thesis
    proof (cases e1)
      case (Some y)
      with run' rc n have "w' = w1" "d' = d0" by simp_all
      with d0 Some have "flags_cover d' [(create_network d0, o1, e1)]" by (simp add: runtime_simps)
      with result [OF x1 [folded \<open>w' = w1\<close>]] show ?thesis by blast
    next
      case e1: None
      obtain o2 e2 w2 where g: "run R (run_guacd d0) w1 = ((o2, e2), w2)" by (metis prod.collapse)
      note x2 = extended_trans [OF x1 run_extended [OF g]]
      show ?thesis
      proof (cases e2)
        case (Some y)
        with run' rc n e1 g have "w' = w2" "d' = d0\<lparr>rt_started_net := True\<rparr>" by simp_all
        with d0 Some e1 have "flags_cover d' ([(create_network d0, o1, e1)] @ [(run_guacd d0, o2, e2)])"
          by (auto simp: runtime_simps conj_disj_distribR ex_disj_distrib)
        with result [OF x2 [folded \<open>w' = w2\<close>]] show ?thesis by blast
      next
        case e2: None
        obtain o3 e3 w3 where m: "run R (run_guacamole d0) w2 = ((o3, e3), w3)" by (metis prod.collapse)
        note x3 = extended_trans [OF x2 run_extended [OF m]]
        show ?thesis
        proof (cases e3)
          case (Some y)
          with run' rc n e1 g e2 m have "w' = w3" "d' = d0\<lparr>rt_started_net := True, rt_started_guacd := True\<rparr>" by simp_all
          with d0 Some e1 e2 have "flags_cover d' (([(create_network d0, o1, e1)] @ [(run_guacd d0, o2, e2)]) @ [(run_guacamole d0, o3, e3)])"
            by (auto simp: runtime_simps conj_disj_distribR ex_disj_distrib)
          with result [OF x3 [folded \<open>w' = w3\<close>]] show ?thesis by blast
        next
          case e3: None
          obtain o4 e4 w4 where q: "run R (docker [''port'', rt_guacamole d0, ''8080/tcp'']) w3 = ((o4, e4), w4)"
            by (metis prod.collapse)
          note x4 = extended_trans [OF x3 run_extended [OF q]]
          have "w' = w4" "d' = d0\<lparr>rt_started_net := True, rt_started_guacd := True, rt_started_guacamole := True\<rparr>"
            using run' rc n e1 g e2 m e3 q by (cases e4; simp)+
          with d0 e1 e2 e3 have "flags_cover d' ((([(create_network d0, o1, e1)] @ [(run_guacd d0, o2, e2)]) @ [(run_guacamole d0, o3, e3)]) @
            [(docker [''port'', rt_guacamole d0, ''8080/tcp''], o4, e4)])"
            by (auto simp: runtime_simps conj_disj_distribR ex_disj_distrib)
          with result [OF x4 [folded \<open>w' = w4\<close>]] show ?thesis by blast
        qed
      qed
    qed
  qed
qed

definition removes :: "log \<Rightarrow> command \<Rightarrow> bool" where
  "removes new c \<longleftrightarrow> c \<in> fst ` set new"

lemma remove_if_log:
  "remove_if b action R c w = (e, w') \<Longrightarrow> \<exists>new. extended w new w' \<and> fst ` set new = (if b then {c} else {})"
proof (cases b)
  case True
  moreover obtain out y w1 where "run R c w = ((out, y), w1)" by (metis prod.collapse)
  moreover assume "remove_if b action R c w = (e, w')"
  ultimately show ?thesis using run_extended by (fastforce simp: remove_if_def)
next
  case False
  moreover assume "remove_if b action R c w = (e, w')"
  ultimately show ?thesis using extended_refl by (fastforce simp: remove_if_def)
qed

definition own_removals :: "docker_runtime \<Rightarrow> command set" where
  "own_removals d =
     (if rt_started_guacamole d then {remove_container (rt_guacamole d)} else {}) \<union>
     (if rt_started_guacd d then {remove_container (rt_guacd d)} else {}) \<union>
     (if rt_started_net d then {remove_network (rt_network d)} else {})"

lemma close_runtime_log:
  assumes "close_runtime R d w = (e, w')"
  shows "\<exists>new. extended w new w' \<and> fst ` set new = own_removals d"
proof -
  obtain e1 w1 where c1: "remove_if (rt_started_guacamole d) ''remove Guacamole container'' R (remove_container (rt_guacamole d)) w = (e1, w1)"
    by fastforce
  obtain e2 w2 where c2: "remove_if (rt_started_guacd d) ''remove guacd container'' R (remove_container (rt_guacd d)) w1 = (e2, w2)"
    by fastforce
  obtain e3 w3 where c3: "remove_if (rt_started_net d) ''remove private Docker network'' R (remove_network (rt_network d)) w2 = (e3, w3)"
    by fastforce
  from remove_if_log [OF c1] obtain a where a: "extended w a w1" "fst ` set a = (if rt_started_guacamole d then {remove_container (rt_guacamole d)} else {})"
    by blast
  from remove_if_log [OF c2] obtain b where b: "extended w1 b w2" "fst ` set b = (if rt_started_guacd d then {remove_container (rt_guacd d)} else {})"
    by blast
  from remove_if_log [OF c3] obtain c where c: "extended w2 c w3" "fst ` set c = (if rt_started_net d then {remove_network (rt_network d)} else {})"
    by blast
  have "w' = w3" using assms by (simp add: close_runtime_def c1 c2 c3)
  moreover have "extended w ((a @ b) @ c) w3" using extended_trans [OF extended_trans [OF a(1) b(1)] c(1)] .
  moreover have "fst ` set ((a @ b) @ c) = own_removals d" using a(2) b(2) c(2) by (simp add: own_removals_def image_Un)
  ultimately show ?thesis by blast
qed

text \<open>Creations balanced by removals, and no removal of anything else.\<close>

definition balanced :: "log \<Rightarrow> log \<Rightarrow> bool" where
  "balanced own fin \<longleftrightarrow>
     (\<forall>c x. created own c \<longrightarrow> undone_by c x \<longrightarrow> removes fin x) \<and>
     (\<forall>x. is_removal x \<longrightarrow> removes (own @ fin) x \<longrightarrow> (\<exists>c. created own c \<and> undone_by c x))"

lemma own_removals_iff:
  "x \<in> own_removals d \<longleftrightarrow>
    (rt_started_net d \<and> x = remove_network (rt_network d)) \<or>
    (rt_started_guacd d \<and> x = remove_container (rt_guacd d)) \<or>
    (rt_started_guacamole d \<and> x = remove_container (rt_guacamole d))"
  by (auto simp: own_removals_def)

lemma flags_removals:
  assumes "flags_cover d own"
  shows "created own c \<Longrightarrow> undone_by c x \<Longrightarrow> x \<in> own_removals d"
    and "x \<in> own_removals d \<Longrightarrow> \<exists>c. created own c \<and> undone_by c x"
    and "is_removal x \<Longrightarrow> x \<notin> fst ` set own"
  using assms unfolding flags_cover_def own_removals_iff by blast+

lemma flags_balanced:
  assumes "flags_cover d own" and "fst ` set fin = own_removals d"
  shows "balanced own fin"
  unfolding balanced_def removes_def set_append image_Un assms(2) using flags_removals [OF assms(1)] by blast

text \<open>A start ends early without touching Docker, or has a log of three parts.\<close>

lemma give_up_log:
  assumes "give_up R d e w = (r, w')" and "flags_cover d own"
  shows "(\<exists>x. r = Inl x) \<and> (\<exists>fin. extended w fin w' \<and> balanced own fin)"
proof -
  obtain c w1 where c: "close_runtime R d w = (c, w1)" by fastforce
  with assms(1) have "w' = w1" "\<exists>x. r = Inl x" by (auto simp: give_up_def)
  with close_runtime_log [OF c] flags_balanced [OF assms(2)] show ?thesis by blast
qed

lemma close_session_log:
  assumes "flags_cover (ss_runtime s) own"
  shows "\<exists>fin. extended w fin (snd (close_session S R s w)) \<and> balanced own fin"
proof -
  obtain c w1 where c: "close_runtime R (ss_runtime s) w = (c, w1)" by fastforce
  then have "snd (close_session S R s w) = w1" by (simp add: close_session_def)
  with close_runtime_log [OF c] flags_balanced [OF assms] show ?thesis by blast
qed

definition ends_clean :: "start_env \<Rightarrow> 's runner \<Rightarrow> session result \<Rightarrow> log \<Rightarrow> 's docker_world \<Rightarrow> 's docker_world \<Rightarrow> bool" where
  "ends_clean S R r own w1 w' \<longleftrightarrow>
     (case r of
        Inl _ \<Rightarrow> (\<exists>fin. extended w1 fin w' \<and> balanced own fin)
      | Inr s \<Rightarrow> w' = w1 \<and> (\<exists>fin. extended w1 fin (snd (close_session S R s w1)) \<and> balanced own fin))"

lemma open_in_browser_clean:
  assumes "open_in_browser S R s w = (r, w')" and "flags_cover (ss_runtime s) own"
  shows "ends_clean S R r own w w'"
  using assms close_session_log [OF assms(2), of w S R]
  by (auto simp: open_in_browser_def ends_clean_def split: if_splits option.splits)

lemma Start_log:
  assumes "Start S R c w = (r, w')"
  shows "(w' = w \<and> (\<exists>e. r = Inl e)) \<or>
    (\<exists>pre own w1. extended w (pre @ own) w1 \<and> orphan_log (se_alive S) pre \<and> ends_clean S R r own w1 w')"
proof -
  consider (early) e where "Start S R c w = (Inl e, w)"
    | (go) i key where "validateConfig c = None" "random_hex S 0 8 = Inr i" "se_random S 1 16 = Inr key"
    unfolding Start_def
    by (cases "validateConfig c"; cases "random_hex S 0 8"; cases "se_random S 1 16") (simp_all del: One_nat_def)
  then show ?thesis
  proof cases
    case early
    with assms have "w' = w" "r = Inl e" by simp_all
    then show ?thesis by blast
  next
    case go
    obtain u d w1 where st: "start_runtime (se_alive S) R (se_pid S) (new_runtime i key) w = ((u, d), w1)"
      by (metis prod.collapse)
    have "unstarted (new_runtime i key)" by (simp add: unstarted_def new_runtime_def)
    from start_runtime_log [OF st this] obtain pre own where log: "extended w (pre @ own) w1" "orphan_log (se_alive S) pre"
      and flags: "flags_cover d own" by blast
    have gave_up: "ends_clean S R r own w1 w'" if "give_up R d e w1 = (r, w')" for e
      using give_up_log [OF that flags] by (auto simp: ends_clean_def)
    have "ends_clean S R r own w1 w'"
    proof (cases u)
      case (Inl e)
      with assms go st gave_up show ?thesis by (simp add: Start_def)
    next
      case (Inr upstream)
      show ?thesis
      proof (cases "se_listen S")
        case (Inl e)
        with assms go st \<open>u = Inr upstream\<close> gave_up show ?thesis by (simp add: Start_def)
      next
        case (Inr port)
        show ?thesis
        proof (cases "three_tokens S")
          case (Inl e)
          with assms go st \<open>u = Inr upstream\<close> \<open>se_listen S = Inr port\<close> gave_up show ?thesis by (simp add: Start_def)
        next
          case (Inr t)
          obtain oneTime cookie form where t: "t = (oneTime, cookie, form)" by (cases t)
          let ?host = "join_host_port ''127.0.0.1'' (itoa port)"
          let ?s = "\<lparr>ss_url = ''http://'' @ ?host @ ''/s/'' @ oneTime, ss_expected_host = ?host, ss_one_time = oneTime,
            ss_cookie = cookie, ss_form = form, ss_key = key, ss_upstream = upstream, ss_runtime = d\<rparr>"
          have "open_in_browser S R ?s w1 = (r, w')"
            using assms go st \<open>u = Inr upstream\<close> \<open>se_listen S = Inr port\<close> Inr t by (simp add: Start_def Let_def)
          from open_in_browser_clean [OF this] flags show ?thesis by simp
        qed
      qed
    qed
    with log show ?thesis by blast
  qed
qed


text \<open>A daemon on which the second container cannot be started.\<close>

definition failing_runner :: "nat runner" where
  "failing_runner = \<lparr>rn_look_path = (\<lambda>n. None),
     rn_run = (\<lambda>c n. ((\<lparr>out_stdout = [], out_stderr = ''no such image''\<rparr>, if n = 4 then Some (Errorf ''exit status 125'') else None), n + 1))\<rparr>"

definition sample_start :: start_env where
  "sample_start = \<lparr>se_alive = (\<lambda>p. True), se_pid = 77, se_random = (\<lambda>i n. Inr (replicate n 1)), se_listen = Inr 4000,
     se_open_browser = False, se_opener = None, se_shutdown = None\<rparr>"

definition no_log :: "nat docker_world" where
  "no_log = \<lparr>dw_runner = 0, dw_log = []\<rparr>"

lemma sample_start_log:
  "map (\<lambda>(c, out, e). (take 2 (cm_args c), e = None)) (dw_log (snd (Start sample_start failing_runner sample_config no_log))) =
    [([''ps'', ''--all''], True), ([''network'', ''ls''], True), ([''network'', ''create''], True), ([''run'', ''--detach''], True),
     ([''run'', ''--detach''], False), ([''rm'', ''--force''], True), ([''network'', ''rm''], True)]"
  "is_ok (fst (Start sample_start failing_runner sample_config no_log)) = False"
  by code_simp+


end
