(* ===== verification/LanScan.thy ===== *)
theory LanScan
  imports Neighbor StoreSpec NetUtil
begin

text \<open>
  \<open>internal/scanner/lan.go\<close>: matching the hosts of the neighbour table with the inventory
  (\<open>ClassifyLAN\<close>), following addresses that have moved (\<open>SyncDeviceIPs\<close>), and what is
  suggested for a host that is not in the inventory: a name, a platform and a free name.

  DNS answers and TCP connections are arguments. The main result says which rows a sweep of
  the table may change: the address of a machine whose MAC was seen exactly once, which has
  no relay of its own, and only from the address the caller knew.
\<close>

section \<open>Classification\<close>

record lan_host =
  lh_neighbor :: neighbor_entry
  lh_device :: "device option"
  lh_moved :: bool

text \<open>The map \<open>byMAC\<close>: of several devices with one MAC the last wins.\<close>

definition by_mac :: "device list \<Rightarrow> string \<Rightarrow> device option" where
  "by_mac devices = foldl (\<lambda>m dev. case ParseMAC (d_mac dev) of
      Inl _ \<Rightarrow> m
    | Inr mac \<Rightarrow> m(mac_string mac \<mapsto> dev)) Map.empty devices"

fun classify_loop :: "(string \<Rightarrow> device option) \<Rightarrow> neighbor_entry list
    \<Rightarrow> lan_host list \<times> lan_host list \<times> neighbor_entry list" where
  "classify_loop m [] = ([], [], [])"
| "classify_loop m (n # ns) =
     (case classify_loop m ns of (known, moved, unknown) \<Rightarrow>
        (case m (nb_mac n) of
           None \<Rightarrow> (known, moved, n # unknown)
         | Some dev \<Rightarrow>
             let host = \<lparr>lh_neighbor = n, lh_device = Some dev, lh_moved = d_ip dev \<noteq> nb_ip n\<rparr> in
             if lh_moved host then (known, host # moved, unknown) else (host # known, moved, unknown)))"

definition ClassifyLAN :: "device list \<Rightarrow> neighbor_entry list
    \<Rightarrow> lan_host list \<times> lan_host list \<times> neighbor_entry list" where
  "ClassifyLAN devices neighbors = classify_loop (by_mac devices) neighbors"

section \<open>Following addresses\<close>

definition mac_count :: "neighbor_entry list \<Rightarrow> string \<Rightarrow> nat" where
  "mac_count neighbors mac = length (filter (\<lambda>n. nb_mac n = mac) neighbors)"

text \<open>The site's part of the decision: a site with a relay is not local, and a site with a
  subnet only has addresses of that subnet.\<close>

definition site_allows :: "site \<Rightarrow> string \<Rightarrow> bool" where
  "site_allows site ip \<longleftrightarrow> s_relay_id site = [] \<and>
     (s_subnet site = [] \<or>
      (case (parse_cidr (s_subnet site), parse_ip ip) of
         (Some (_, subnet), Some addr) \<Rightarrow> net_contains subnet addr
       | _ \<Rightarrow> False))"

type_synonym sync_outcome = "(int \<times> error option) \<times> world"

definition sync_address :: "(int \<Rightarrow> world \<Rightarrow> sync_outcome) \<Rightarrow> device \<Rightarrow> string \<Rightarrow> int \<Rightarrow> world \<Rightarrow> sync_outcome" where
  "sync_address go item ip updated w =
     (case SyncDeviceAddress (d_id item) (d_ip item) ip w of
        (Inl e, w') \<Rightarrow> ((updated, Some e), w')
      | (Inr changed, w') \<Rightarrow> if changed then go (updated + 1) w' else go updated w')"

fun sync_loop :: "neighbor_entry list \<Rightarrow> lan_host list \<Rightarrow> int \<Rightarrow> world \<Rightarrow> sync_outcome" where
  "sync_loop neighbors [] updated w = ((updated, None), w)"
| "sync_loop neighbors (host # hosts) updated w =
     (case lh_device host of
        None \<Rightarrow> sync_loop neighbors hosts updated w
      | Some item \<Rightarrow>
          if mac_count neighbors (nb_mac (lh_neighbor host)) \<noteq> 1 \<or> d_relay_id item \<noteq> []
          then sync_loop neighbors hosts updated w
          else if d_site_id item = []
          then sync_address (sync_loop neighbors hosts) item (nb_ip (lh_neighbor host)) updated w
          else (case GetSite (d_site_id item) w of
                  (Inl e, w') \<Rightarrow> ((updated, Some e), w')
                | (Inr site, w') \<Rightarrow>
                    if \<not> site_allows site (nb_ip (lh_neighbor host)) then sync_loop neighbors hosts updated w'
                    else sync_address (sync_loop neighbors hosts) item (nb_ip (lh_neighbor host)) updated w'))"

definition SyncDeviceIPs :: "device list \<Rightarrow> neighbor_entry list \<Rightarrow> world \<Rightarrow> sync_outcome" where
  "SyncDeviceIPs devices neighbors w =
     (case ClassifyLAN devices neighbors of (_, moved, _) \<Rightarrow> sync_loop neighbors moved 0 w)"

definition BroadcastOf :: "iface list option \<Rightarrow> string \<Rightarrow> string" where
  "BroadcastOf interfaces ip = LocalBroadcast interfaces ip []"

section \<open>Suggestions\<close>

fun reverse_name :: "string list \<Rightarrow> string option" where
  "reverse_name [] = None"
| "reverse_name (addr # addrs) =
     (let name = trim_suffix (to_lower (trim_space addr)) ''.'' in
      if name \<noteq> [] \<and> \<not> contains name ''in-addr.arpa'' then
        (case cut_char CHR ''.'' name of
           (host, _, ok) \<Rightarrow> if ok \<and> host \<noteq> [] then Some host else Some name)
      else reverse_name addrs)"

text \<open>\<open>lookup\<close> is \<open>net.LookupAddr\<close>.\<close>

definition SuggestName :: "(string \<Rightarrow> (string list) result) \<Rightarrow> string \<Rightarrow> string \<Rightarrow> string" where
  "SuggestName lookup ip mac =
     (case (case lookup ip of Inl _ \<Rightarrow> None | Inr addrs \<Rightarrow> reverse_name addrs) of
        Some name \<Rightarrow> name
      | None \<Rightarrow>
          (case parse_to4 ip of
             Some p \<Rightarrow> ''lan-'' @ dec_digits (unat (p ! 2)) @ ''-'' @ dec_digits (unat (p ! 3))
           | None \<Rightarrow>
               (case ParseMAC mac of
                  Inr clean \<Rightarrow> ''lan-'' @ drop 6 (filter (\<lambda>c. c \<noteq> CHR '':'') (mac_string clean))
                | Inl _ \<Rightarrow> ''lan-host'')))"

text \<open>The ports probed for the platform, in order; \<open>live i\<close> says whether the context is still
  live before the i-th probe, \<open>accepts\<close> whether a connection to an address is accepted.\<close>

definition identity_probes :: "(int \<times> string) list" where
  "identity_probes = [(3389, ''windows''), (22, ''linux''), (47989, ''windows'')]"

fun guess_loop :: "(nat \<Rightarrow> bool) \<Rightarrow> (string \<Rightarrow> bool) \<Rightarrow> string \<Rightarrow> nat \<Rightarrow> (int \<times> string) list \<Rightarrow> string \<times> int" where
  "guess_loop live accepts ip i [] = (''unknown'', 0)"
| "guess_loop live accepts ip i ((port, platform) # probes) =
     (if \<not> live i then (''unknown'', 0)
      else if accepts (join_host_port ip (itoa port)) then (platform, port)
      else guess_loop live accepts ip (Suc i) probes)"

definition GuessIdentity :: "(nat \<Rightarrow> bool) \<Rightarrow> (string \<Rightarrow> bool) \<Rightarrow> string \<Rightarrow> string \<times> int" where
  "GuessIdentity live accepts ip = guess_loop live accepts ip 0 identity_probes"

definition used_names :: "device list \<Rightarrow> string list" where
  "used_names existing = map (\<lambda>dev. to_lower (d_name dev)) existing"

definition numbered :: "string \<Rightarrow> nat \<Rightarrow> string" where
  "numbered name i = name @ ''-'' @ itoa (int i)"

definition UniqueDeviceName :: "device list \<Rightarrow> string \<Rightarrow> string" where
  "UniqueDeviceName existing name0 =
     (let name = (if trim_space name0 = [] then ''lan-host'' else trim_space name0);
          used = used_names existing in
      if to_lower name \<notin> set used then name
      else case find (\<lambda>i. to_lower (numbered name i) \<notin> set used) [2..<100] of
             Some i \<Rightarrow> numbered name i
           | None \<Rightarrow> name @ ''-new'')"

section \<open>What classification gives\<close>

text \<open>Every neighbour lands in exactly one of the three lists, in the order of the table.\<close>

lemma classify_loop_partition:
  assumes "classify_loop m ns = (known, moved, unknown)"
  shows "unknown = filter (\<lambda>n. m (nb_mac n) = None) ns \<and>
    map (\<lambda>h. (lh_neighbor h, lh_device h)) known =
      map (\<lambda>n. (n, m (nb_mac n))) (filter (\<lambda>n. \<exists>dev. m (nb_mac n) = Some dev \<and> d_ip dev = nb_ip n) ns) \<and>
    map (\<lambda>h. (lh_neighbor h, lh_device h)) moved =
      map (\<lambda>n. (n, m (nb_mac n))) (filter (\<lambda>n. \<exists>dev. m (nb_mac n) = Some dev \<and> d_ip dev \<noteq> nb_ip n) ns)"
  using assms
proof (induction ns arbitrary: known moved unknown)
  case (Cons n ns)
  obtain k mv u where r: "classify_loop m ns = (k, mv, u)" by (metis prod_cases3)
  from Cons.IH [OF r] Cons.prems show ?case
    by (cases "m (nb_mac n)") (auto simp: r Let_def split: if_splits)
qed simp

lemma by_mac_snoc: "by_mac (devices @ [dev]) =
    (case ParseMAC (d_mac dev) of Inl _ \<Rightarrow> by_mac devices | Inr mac \<Rightarrow> (by_mac devices)(mac_string mac \<mapsto> dev))"
  unfolding by_mac_def foldl_append foldl.simps ..

lemma by_mac_Some: "by_mac devices k = Some dev \<Longrightarrow>
    dev \<in> set devices \<and> (\<exists>mac. ParseMAC (d_mac dev) = Inr mac \<and> mac_string mac = k)"
  by (induction devices rule: rev_induct)
    (auto simp: by_mac_snoc by_mac_def [of "[]"] split: sum.splits if_splits)

lemma by_mac_None: "by_mac devices k = None \<longleftrightarrow>
    (\<forall>dev \<in> set devices. \<forall>mac. ParseMAC (d_mac dev) = Inr mac \<longrightarrow> mac_string mac \<noteq> k)"
  by (induction devices rule: rev_induct)
    (auto simp: by_mac_snoc by_mac_def [of "[]"] split: sum.splits if_splits)

section \<open>What following addresses changes\<close>

text \<open>The host the sweep may act on: a device of the caller's list with the host's MAC, seen
  once, without a relay, known under another address.\<close>

definition sync_target :: "device list \<Rightarrow> neighbor_entry list \<Rightarrow> device \<Rightarrow> neighbor_entry \<Rightarrow> bool" where
  "sync_target devices neighbors item n \<longleftrightarrow> item \<in> set devices \<and> n \<in> set neighbors \<and>
     (\<exists>mac. ParseMAC (d_mac item) = Inr mac \<and> mac_string mac = nb_mac n) \<and>
     mac_count neighbors (nb_mac n) = 1 \<and> d_relay_id item = [] \<and> d_ip item \<noteq> nb_ip n"

text \<open>A chain of address changes of such hosts, each applied to the database before it.\<close>

inductive sync_chain :: "device list \<Rightarrow> neighbor_entry list \<Rightarrow> db \<Rightarrow> int \<Rightarrow> db \<Rightarrow> bool"
  for devices :: "device list" and neighbors :: "neighbor_entry list" where
  start: "sync_chain devices neighbors d 0 d"
| move: "sync_target devices neighbors item n \<Longrightarrow>
    \<exists>v \<in> set (t_devices d). has_address (d_id item) (d_ip item) v \<Longrightarrow>
    sync_chain devices neighbors (moved_address (d_id item) (d_ip item) (nb_ip n) t d) k d' \<Longrightarrow>
    sync_chain devices neighbors d (k + 1) d'"

lemma GetSite_db: "GetSite i w = (r, w') \<Longrightarrow> wdb w' = wdb w"
proof -
  assume g: "GetSite i w = (r, w')"
  have "readonly (GetSite i)" unfolding GetSite_def by simp
  then show ?thesis using g unfolding readonly_def by (metis snd_conv)
qed

lemma sync_failed: "SyncDeviceAddress i a b w = (Inl e, w') \<Longrightarrow> wdb w' = wdb w"
  using atomic_transfers(1) unfolding atomic_def by blast

text \<open>What the loop is given: hosts of the sweep that have moved.\<close>

definition moved_host :: "device list \<Rightarrow> neighbor_entry list \<Rightarrow> lan_host \<Rightarrow> bool" where
  "moved_host devices neighbors h \<longleftrightarrow> lh_neighbor h \<in> set neighbors \<and>
     (\<forall>item. lh_device h = Some item \<longrightarrow> item \<in> set devices \<and> d_ip item \<noteq> nb_ip (lh_neighbor h) \<and>
        (\<exists>mac. ParseMAC (d_mac item) = Inr mac \<and> mac_string mac = nb_mac (lh_neighbor h)))"

lemma classified_moved:
  assumes "ClassifyLAN devices neighbors = (known, moved, unknown)"
  shows "list_all (moved_host devices neighbors) moved"
proof -
  have "map (\<lambda>h. (lh_neighbor h, lh_device h)) moved = map (\<lambda>n. (n, by_mac devices (nb_mac n)))
      (filter (\<lambda>n. \<exists>dev. by_mac devices (nb_mac n) = Some dev \<and> d_ip dev \<noteq> nb_ip n) neighbors)"
    using classify_loop_partition [OF assms [unfolded ClassifyLAN_def]] by blast
  from arg_cong [OF this, of set]
  have sets: "(\<lambda>h. (lh_neighbor h, lh_device h)) ` set moved = (\<lambda>n. (n, by_mac devices (nb_mac n))) `
      {n \<in> set neighbors. \<exists>dev. by_mac devices (nb_mac n) = Some dev \<and> d_ip dev \<noteq> nb_ip n}" by simp
  show ?thesis unfolding list_all_iff
  proof
    fix h assume "h \<in> set moved"
    then have "(lh_neighbor h, lh_device h) \<in> (\<lambda>h. (lh_neighbor h, lh_device h)) ` set moved" by (rule imageI)
    then obtain n dev where "n \<in> set neighbors" "by_mac devices (nb_mac n) = Some dev" "d_ip dev \<noteq> nb_ip n"
      and "lh_neighbor h = n" "lh_device h = Some dev" unfolding sets by auto
    then show "moved_host devices neighbors h" using by_mac_Some [of devices "nb_mac n" dev]
      by (simp add: moved_host_def)
  qed
qed

lemma sync_address_chain:
  assumes step: "sync_address go item (nb_ip n) u w = ((k, err), w')"
    and target: "sync_target devices neighbors item n"
    and go: "\<And>u w k err w'. go u w = ((k, err), w') \<Longrightarrow> sync_chain devices neighbors (wdb w) (k - u) (wdb w')"
  shows "sync_chain devices neighbors (wdb w) (k - u) (wdb w')"
proof (cases "SyncDeviceAddress (d_id item) (d_ip item) (nb_ip n) w")
  case (Pair r v)
  show ?thesis
  proof (cases r)
    case (Inl e)
    with step Pair have "k = u" and "wdb w' = wdb w" by (auto simp: sync_address_def dest: sync_failed)
    then show ?thesis by (simp add: sync_chain.start)
  next
    case (Inr b)
    note eff = SyncDeviceAddress_effect [OF Pair [unfolded Inr]]
    show ?thesis
    proof (cases b)
      case True
      then obtain t where v: "wdb v = moved_address (d_id item) (d_ip item) (nb_ip n) t (wdb w)"
        and e: "\<exists>x \<in> set (t_devices (wdb w)). has_address (d_id item) (d_ip item) x" using eff by auto
      from step Pair Inr True have "go (u + 1) v = ((k, err), w')" by (simp add: sync_address_def)
      from go [OF this] have "sync_chain devices neighbors (wdb v) (k - (u + 1)) (wdb w')" .
      from sync_chain.move [OF target e this [unfolded v]] show ?thesis by simp
    next
      case False
      with eff step Pair Inr show ?thesis using go [of u v k err w'] by (simp add: sync_address_def)
    qed
  qed
qed

lemma sync_loop_chain:
  assumes "sync_loop neighbors hosts u w = ((k, err), w')" and "list_all (moved_host devices neighbors) hosts"
  shows "sync_chain devices neighbors (wdb w) (k - u) (wdb w')"
  using assms
proof (induction hosts arbitrary: u w k err w')
  case Nil
  then show ?case by (simp add: sync_chain.start)
next
  case (Cons h hs)
  let ?n = "lh_neighbor h"
  have IH: "sync_loop neighbors hs u v = ((k, err), w') \<Longrightarrow> sync_chain devices neighbors (wdb v) (k - u) (wdb w')"
    for u v k err w' using Cons.IH Cons.prems(2) by simp
  show ?case
  proof (cases "lh_device h")
    case None
    with Cons.prems show ?thesis using IH by simp
  next
    case (Some item)
    show ?thesis
    proof (cases "mac_count neighbors (nb_mac ?n) \<noteq> 1 \<or> d_relay_id item \<noteq> []")
      case True
      with Some Cons.prems show ?thesis using IH by auto
    next
      case False
      with Some Cons.prems(2) have target: "sync_target devices neighbors item ?n"
        by (auto simp: sync_target_def moved_host_def)
      have step: "sync_address (sync_loop neighbors hs) item (nb_ip ?n) u v = ((k, err), w') \<Longrightarrow>
          sync_chain devices neighbors (wdb v) (k - u) (wdb w')" for v
        using sync_address_chain target IH by blast
      show ?thesis
      proof (cases "d_site_id item = []")
        case True
        with Cons.prems(1) Some False show ?thesis using step by simp
      next
        case site: False
        obtain r v where g: "GetSite (d_site_id item) w = (r, v)" by fastforce
        have v: "wdb v = wdb w" using GetSite_db [OF g] .
        show ?thesis
        proof (cases r)
          case (Inl e)
          with Cons.prems(1) Some False site g have "k = u" and "w' = v" by auto
          with v show ?thesis by (simp add: sync_chain.start)
        next
          case (Inr s)
          with Cons.prems(1) Some False site g
          have "(if \<not> site_allows s (nb_ip ?n) then sync_loop neighbors hs u v
            else sync_address (sync_loop neighbors hs) item (nb_ip ?n) u v) = ((k, err), w')" by simp
          then show ?thesis using step [of v] IH [of u v k err w'] v by (simp split: if_splits)
        qed
      qed
    qed
  qed
qed

section \<open>Rows that change\<close>

text \<open>A row as it was, or with the address of a host the sweep may act on.\<close>

definition follows :: "device list \<Rightarrow> neighbor_entry list \<Rightarrow> device \<Rightarrow> device \<Rightarrow> bool" where
  "follows devices neighbors v v' \<longleftrightarrow> v' = v \<or>
     (\<exists>item n. sync_target devices neighbors item n \<and> d_id item = d_id v \<and>
        v' = v\<lparr>d_ip := nb_ip n, d_updated := d_updated v'\<rparr>)"

lemma follows_then:
  assumes "sync_target devices neighbors item n" and "follows devices neighbors
      (if has_address (d_id item) a v then v\<lparr>d_ip := nb_ip n, d_updated := t\<rparr> else v) v'"
  shows "follows devices neighbors v v'"
proof (cases "has_address (d_id item) a v")
  case True
  then have i: "d_id item = d_id v" by (simp add: has_address_def)
  from True assms(2) have "follows devices neighbors (v\<lparr>d_ip := nb_ip n, d_updated := t\<rparr>) v'" by simp
  then consider "v' = v\<lparr>d_ip := nb_ip n, d_updated := t\<rparr>"
    | item' n' where "sync_target devices neighbors item' n'" "d_id item' = d_id v"
        "v' = v\<lparr>d_ip := nb_ip n', d_updated := d_updated v'\<rparr>"
    by (auto simp: follows_def)
  then show ?thesis
  proof cases
    case 1
    with assms(1) i show ?thesis unfolding follows_def by (metis device.select_convs(17) device.surjective device.update_convs(17))
  next
    case 2
    then show ?thesis unfolding follows_def by blast
  qed
next
  case False
  with assms(2) show ?thesis by simp
qed

lemma chain_rows:
  assumes "sync_chain devices neighbors d k d'"
  shows "list_all2 (follows devices neighbors) (t_devices d) (t_devices d') \<and> 0 \<le> k \<and> (k = 0 \<longrightarrow> d' = d) \<and>
    d' = d\<lparr>t_devices := t_devices d', t_profiles := t_profiles d'\<rparr>"
  using assms
proof (induction rule: sync_chain.induct)
  case (start d)
  then show ?case by (simp add: list.rel_refl follows_def)
next
  case (move item n d t k d')
  from move.IH have "list_all2 (\<lambda>v v'. follows devices neighbors
      (if has_address (d_id item) (d_ip item) v then v\<lparr>d_ip := nb_ip n, d_updated := t\<rparr> else v) v')
      (t_devices d) (t_devices d')"
    by (simp add: moved_address_def list_all2_map1)
  then have "list_all2 (follows devices neighbors) (t_devices d) (t_devices d')"
    by (rule list_all2_mono) (rule follows_then [OF move.hyps(1)])
  moreover have "d' = d\<lparr>t_devices := t_devices d', t_profiles := t_profiles d'\<rparr>"
  proof -
    have "d' = (moved_address (d_id item) (d_ip item) (nb_ip n) t d)
        \<lparr>t_devices := t_devices d', t_profiles := t_profiles d'\<rparr>" using move.IH by blast
    then show ?thesis by (simp add: moved_address_def)
  qed
  ultimately show ?case using move.IH by simp
qed


definition seen_at_31 :: "neighbor_entry list" where
  "seen_at_31 = [\<lparr>nb_ip = ''192.168.1.31'', nb_mac = ''02:00:00:00:00:0a'', nb_iface = ''en0''\<rparr>]"


section \<open>Free names\<close>

lemma lower_digits: "to_lower (dec_digits n) = dec_digits n"
proof (induction n rule: dec_digits.induct)
  case (1 n)
  have "lower_char (digit_char (n mod 10)) = digit_char (n mod 10)"
    by (simp add: lower_char_def is_upper_def digit_char_def)
  moreover have "n < 10 \<Longrightarrow> lower_char (digit_char n) = digit_char n"
    by (simp add: lower_char_def is_upper_def digit_char_def)
  ultimately show ?case using 1 by (subst (1 2) dec_digits.simps) (simp add: to_lower_def)
qed

lemma lower_itoa: "to_lower (itoa i) = itoa i"
  by (simp add: itoa_def lower_digits) (simp add: to_lower_def lower_digits [unfolded to_lower_def]
    lower_char_def is_upper_def)

lemma lower_numbered: "to_lower (numbered name i) = to_lower name @ ''-'' @ itoa (int i)"
  unfolding numbered_def to_lower_append lower_itoa by (simp add: to_lower_def lower_char_def is_upper_def)

lemma distinct_itoa: "distinct (map (\<lambda>i. itoa (int i)) [2..<100])"
  by code_simp

lemma distinct_prefixed: "distinct (map f xs) \<Longrightarrow> distinct (map (\<lambda>i. a @ b @ f i) xs)"
  by (auto simp: distinct_map inj_on_def)

lemma numbered_distinct: "distinct (to_lower name # map (\<lambda>i. to_lower (numbered name i)) [2..<100])"
  unfolding lower_numbered distinct.simps
proof
  show "to_lower name \<notin> set (map (\<lambda>i. to_lower name @ ''-'' @ itoa (int i)) [2..<100])"
    by (auto simp del: upt_Suc upt_conv_Cons upt_rec_numeral)
qed (rule distinct_prefixed [OF distinct_itoa])

text \<open>A name that is free whatever the case of its letters, while fewer than 99 devices exist.\<close>

lemma UniqueDeviceName_fresh:
  assumes "length existing < 99"
  shows "to_lower (UniqueDeviceName existing name0) \<notin> set (used_names existing)"
proof -
  define name where "name = (if trim_space name0 = [] then ''lan-host'' else trim_space name0)"
  let ?used = "set (used_names existing)"
  let ?names = "to_lower name # map (\<lambda>i. to_lower (numbered name i)) [2..<100]"
  have used: "card ?used < 99" using assms card_length [of "used_names existing"] by (simp add: used_names_def)
  have "length ?names = 99" by (simp del: upt_Suc upt_conv_Cons upt_rec_numeral)
  then have names: "card (set ?names) = 99" using distinct_card [OF numbered_distinct [of name]] by (simp only:)
  have "\<not> set ?names \<subseteq> ?used"
  proof
    assume "set ?names \<subseteq> ?used"
    then have "card (set ?names) \<le> card ?used" by (intro card_mono) simp_all
    with used names show False by linarith
  qed
  then have "to_lower name \<notin> ?used \<or> (\<exists>i \<in> set [2..<100]. to_lower (numbered name i) \<notin> ?used)"
    unfolding list.set set_map by blast
  then show ?thesis
    unfolding UniqueDeviceName_def Let_def name_def [symmetric]
    by (auto split: option.splits simp: find_None_iff find_Some_iff simp del: upt_Suc upt_conv_Cons upt_rec_numeral)
qed

end
