(* ===== verification/Discovery.thy ===== *)
theory Discovery
  imports NetConfig LanScan "HOL-Library.Multiset" "HOL-Library.Product_Lexorder"
begin

text \<open>
  \<open>internal/scanner\<close> beside the LAN sweep (\<open>scanner.go\<close>, \<open>ssh_hosts.go\<close>, \<open>types.go\<close>): the
  address of this machine, the probes of the configured network targets, the simulators and
  the Android devices of a developer machine, and the aliases of the SSH configuration.

  Goroutines append their results in any order; the order is an argument (\<open>arrive\<close>) and the
  main result is that it cannot be seen in the answer.
\<close>

section \<open>Targets\<close>

record found_target =
  ft_type :: string
  ft_name :: string
  ft_host :: string
  ft_ip :: string
  ft_port :: int
  ft_status :: string
  ft_ssh_reachable :: bool
  ft_details :: string
  ft_udid :: string
  ft_mac :: string

definition target_rank :: "found_target \<Rightarrow> string \<times> string" where
  "target_rank t = (ft_type t, ft_name t)"

definition sort_targets :: "found_target list \<Rightarrow> found_target list" where
  "sort_targets ts = sort_key target_rank ts"

section \<open>The local address\<close>

text \<open>The loop over one interface's addresses; an address is given by its \<open>String()\<close>.\<close>

definition usable_ip :: "string \<Rightarrow> string option" where
  "usable_ip addr =
     (case (case parse_cidr addr of Some (ip, _) \<Rightarrow> Some ip | None \<Rightarrow> parse_ip addr) of
        None \<Rightarrow> None
      | Some ip \<Rightarrow> if to4 ip \<noteq> None \<and> \<not> is_loopback ip then Some (ip_string ip) else None)"

fun first_usable :: "string list \<Rightarrow> string option" where
  "first_usable [] = None"
| "first_usable (a # as) = (case usable_ip a of Some s \<Rightarrow> Some s | None \<Rightarrow> first_usable as)"

fun local_ip_loop :: "iface list \<Rightarrow> string" where
  "local_ip_loop [] = ''127.0.0.1''"
| "local_ip_loop (i # is) =
     (if \<not> if_up i \<or> if_loopback i then local_ip_loop is
      else case if_addrs i of
        None \<Rightarrow> local_ip_loop is
      | Some addrs \<Rightarrow> (case first_usable addrs of Some s \<Rightarrow> s | None \<Rightarrow> local_ip_loop is))"

definition GetLocalIP :: "iface list option \<Rightarrow> string" where
  "GetLocalIP interfaces = (case interfaces of None \<Rightarrow> ''127.0.0.1'' | Some is \<Rightarrow> local_ip_loop is)"

section \<open>Network targets\<close>

definition targetType :: "string \<Rightarrow> string" where
  "targetType v =
     (if v = ''router'' then ''router'' else if v = ''zerotier'' then ''zerotier''
      else if v = ''ssh-host'' then ''ssh-host'' else ''server'')"

text \<open>\<open>accepts\<close>: a TCP connection to the address is accepted within 600 ms.\<close>

definition probe_target :: "(string \<Rightarrow> bool) \<Rightarrow> target \<Rightarrow> found_target" where
  "probe_target accepts def =
     (let online = accepts (join_host_port (nt_host def) (itoa (nt_port def))) in
      \<lparr>ft_type = targetType (nt_type def), ft_name = nt_name def, ft_host = nt_host def, ft_ip = nt_host def,
       ft_port = nt_port def, ft_status = if online then ''online'' else ''offline'',
       ft_ssh_reachable = online, ft_details = nt_details def, ft_udid = [], ft_mac = []\<rparr>)"

type_synonym arrival = "found_target list \<Rightarrow> found_target list"

definition ScanNetworkTargetsWithEnv ::
  "(string \<Rightarrow> bool) \<Rightarrow> arrival \<Rightarrow> (target list) result \<Rightarrow> (found_target list) result" where
  "ScanNetworkTargetsWithEnv accepts arrive loaded =
     (case loaded of
        Inl e \<Rightarrow> Inl e
      | Inr definitions \<Rightarrow> Inr (sort_targets (arrive (map (probe_target accepts) definitions))))"

section \<open>Simulators and Android devices\<close>

text \<open>The decoded answer of \<open>xcrun simctl\<close>: for every runtime its devices.\<close>

record sim_device =
  sim_name :: string
  sim_udid :: string
  sim_state :: string

definition ios_target :: "string \<Rightarrow> sim_device \<Rightarrow> found_target" where
  "ios_target rt dev =
     \<lparr>ft_type = ''ios-sim'', ft_name = sim_name dev, ft_host = ''localhost'', ft_ip = ''127.0.0.1'', ft_port = 0,
      ft_status = ''booted'', ft_ssh_reachable = False,
      ft_details = ''iOS Simulator ('' @ trim_prefix rt ''com.apple.CoreSimulator.SimRuntime.'' @ '')'',
      ft_udid = sim_udid dev, ft_mac = []\<rparr>"

text \<open>\<open>None\<close>: the command or the decoding failed. The runtimes come in the map's order.\<close>

definition ScanIosSimulators :: "(string \<times> sim_device list) list option \<Rightarrow> found_target list" where
  "ScanIosSimulators answer =
     (case answer of
        None \<Rightarrow> []
      | Some runtimes \<Rightarrow> concat (map (\<lambda>(rt, devs).
          map (ios_target rt) (filter (\<lambda>dev. sim_state dev = ''Booted'') devs)) runtimes))"

definition android_target :: "string \<Rightarrow> found_target" where
  "android_target i =
     \<lparr>ft_type = ''android-adb'', ft_name = ''Android '' @ i, ft_host = i, ft_ip = i, ft_port = 0,
      ft_status = ''connected'', ft_ssh_reachable = False,
      ft_details = ''ADB (Wi-Fi: '' @ (if CHR '':'' \<in> set i then ''true'' else ''false'') @ '')'',
      ft_udid = [], ft_mac = []\<rparr>"

definition adb_line :: "string \<Rightarrow> found_target option" where
  "adb_line line =
     (case GoBase.fields line of
        i # state # _ \<Rightarrow>
          if state \<noteq> ''offline'' \<and> state \<noteq> ''unauthorized'' then Some (android_target i) else None
      | _ \<Rightarrow> None)"

text \<open>The first line of \<open>adb devices -l\<close> is a heading.\<close>

definition ScanAndroidDevices :: "string option \<Rightarrow> found_target list" where
  "ScanAndroidDevices out =
     (case out of
        None \<Rightarrow> []
      | Some text0 \<Rightarrow>
          concat (map (\<lambda>line. if trim_space line = [] then []
              else (case adb_line line of Some t \<Rightarrow> [t] | None \<Rightarrow> []))
            (tl (split_char (char_of (10::nat)) text0))))"

text \<open>The three scans in any order of arrival, sorted, and the error of the first.\<close>

definition ScanAllWithEnv ::
  "arrival \<Rightarrow> (found_target list) result \<Rightarrow> found_target list \<Rightarrow> found_target list \<Rightarrow> found_target list \<times> error option" where
  "ScanAllWithEnv arrive network sims androids =
     (sort_targets (arrive ((case network of Inl _ \<Rightarrow> [] | Inr ts \<Rightarrow> ts) @ sims @ androids)),
      case network of Inl e \<Rightarrow> Some e | Inr _ \<Rightarrow> None)"

section \<open>SSH aliases\<close>

definition host_aliases :: "string \<Rightarrow> string list" where
  "host_aliases line0 =
     (let line = trim_space line0 in
      if has_prefix (to_lower line) ''host '' then
        filter (\<lambda>a. CHR ''*'' \<notin> set a \<and> a \<noteq> ''github.com'') (tl (GoBase.fields line))
      else [])"

text \<open>The aliases of the lines read from \<open>~/.ssh/config\<close>, without repetition; the map that
  collects them gives no order.\<close>

definition GetKnownSSHHosts :: "string option \<Rightarrow> string list" where
  "GetKnownSSHHosts config =
     (case config of
        None \<Rightarrow> []
      | Some text0 \<Rightarrow> remdups (concat (map host_aliases (fst (scan_tokens 65536 text0)))))"

section \<open>The order of arrival cannot be seen\<close>

lemma ranks_fix: "mset xs = mset ys \<Longrightarrow> distinct (map target_rank ys) \<Longrightarrow> sort_targets xs = sort_targets ys"
  unfolding sort_targets_def
  by (rule sort_key_inj_key_eq) (auto simp: distinct_map dest: mset_eq_setD)

text \<open>
  Whatever order the probes finish in, the answer lists each configured target once, sorted by
  type and name, and it is the same answer for every order when no two targets have the same
  type and name.
\<close>

theorem ScanNetworkTargets_order_free:
  assumes "mset (arrive (map (probe_target accepts) defs)) = mset (map (probe_target accepts) defs)"
    and "ScanNetworkTargetsWithEnv accepts arrive (Inr defs) = Inr ts"
  shows "mset ts = mset (map (probe_target accepts) defs) \<and> sorted (map target_rank ts) \<and>
    (distinct (map target_rank ts) \<longrightarrow> ts = sort_targets (map (probe_target accepts) defs))"
proof -
  let ?ts = "map (probe_target accepts) defs"
  have ts: "ts = sort_targets (arrive ?ts)" using assms(2) by (simp add: ScanNetworkTargetsWithEnv_def)
  have m: "mset ts = mset ?ts" using ts assms(1) by (simp add: sort_targets_def)
  moreover have "sorted (map target_rank ts)" by (simp add: ts sort_targets_def)
  moreover have "ts = sort_targets ?ts" if "distinct (map target_rank ts)"
  proof -
    have "mset (map target_rank ts) = mset (map target_rank ?ts)" using m by (metis mset_map)
    with that have "distinct (map target_rank ?ts)" by (metis mset_eq_imp_distinct_iff)
    with ranks_fix [OF assms(1)] show ?thesis by (simp add: ts)
  qed
  ultimately show ?thesis by blast
qed

definition two_targets :: "target list" where
  "two_targets = map (\<lambda>name. \<lparr>nt_name = name, nt_host = ''10.0.0.'' @ name, nt_port = 22, nt_type = ''server'',
     nt_details = [], nt_ssh_host = [], nt_relay = False\<rparr>) [''2'', ''1'']"

theorem ScanNetworkTargets_order_free_witness:
  "map (map ft_name) (case ScanNetworkTargetsWithEnv (\<lambda>_. True) rev (Inr two_targets) of Inl _ \<Rightarrow> [] | Inr ts \<Rightarrow> [ts])
     = [[''1'', ''2'']] \<and>
   mset (case ScanNetworkTargetsWithEnv (\<lambda>_. True) rev (Inr two_targets) of Inl _ \<Rightarrow> [] | Inr ts \<Rightarrow> ts)
     = mset (map (probe_target (\<lambda>_. True)) two_targets)"
proof -
  have "map (map ft_name) (case ScanNetworkTargetsWithEnv (\<lambda>_. True) rev (Inr two_targets) of Inl _ \<Rightarrow> [] | Inr ts \<Rightarrow> [ts])
     = [[''1'', ''2'']]" by code_simp
  moreover obtain ts where "ScanNetworkTargetsWithEnv (\<lambda>_. True) rev (Inr two_targets) = Inr ts"
    by (simp add: ScanNetworkTargetsWithEnv_def)
  ultimately show ?thesis
    using ScanNetworkTargets_order_free [of rev "\<lambda>_. True" two_targets ts] by simp
qed

lemma aliases_plain: "a \<in> set (GetKnownSSHHosts config) \<Longrightarrow> CHR ''*'' \<notin> set a \<and> a \<noteq> ''github.com''"
  by (auto simp: GetKnownSSHHosts_def host_aliases_def Let_def split: option.splits if_splits)

end
