(* ===== verification/RemoteOpen.thy ===== *)
theory RemoteOpen
  imports StoreData NetAddr
begin

text \<open>
  \<open>internal/remoteopen\<close> (\<open>desktop.go\<close>, \<open>remote.go\<close>) and \<open>internal/moonlight/client.go\<close>: the
  URL handed to the desktop's ssh, vnc or rdp client, the check of the loopback URL handed to
  the browser, the Moonlight client that is found and the arguments it is run with.

  Running a program, looking it up in the path and \<open>url.Parse\<close> are arguments. The escaping of
  \<open>net/url\<close> is written out for the two modes the code reaches (host and user).
\<close>

section \<open>Desktop clients\<close>

definition DesktopProtocol :: "string \<Rightarrow> bool" where
  "DesktopProtocol protocol \<longleftrightarrow> to_lower (trim_space protocol) \<in> {''rdp'', ''ssh'', ''vnc''}"

definition NativeDesktop :: "remote_profile \<Rightarrow> bool" where
  "NativeDesktop profile \<longleftrightarrow> DesktopProtocol (rp_protocol profile) \<and>
     to_lower (trim_space (rp_mode profile)) \<in> {''native'', []}"

definition defaultDesktopPort :: "string \<Rightarrow> int" where
  "defaultDesktopPort protocol = (if protocol = ''ssh'' then 22 else if protocol = ''vnc'' then 5900 else 3389)"

definition upper_hex :: "nat \<Rightarrow> char" where
  "upper_hex n = (if n < 10 then char_of (48 + n) else char_of (55 + n))"

definition escape_with :: "(char \<Rightarrow> bool) \<Rightarrow> string \<Rightarrow> string" where
  "escape_with kept s = concat (map (\<lambda>c. if kept c then [c]
     else [CHR ''%'', upper_hex (code c div 16), upper_hex (code c mod 16)]) s)"

definition url_unreserved :: "char \<Rightarrow> bool" where
  "url_unreserved c \<longleftrightarrow> is_alnum c \<or> c \<in> set ''-_.~''"

definition host_kept :: "char \<Rightarrow> bool" where
  "host_kept c \<longleftrightarrow> url_unreserved c \<or> c \<in> set ''!$&()*+,;=:[]<>'' \<or> code c = 39 \<or> code c = 34"

definition user_kept :: "char \<Rightarrow> bool" where
  "user_kept c \<longleftrightarrow> url_unreserved c \<or> c \<in> set ''$&+,;=''"

text \<open>\<open>(&url.URL{Scheme, User, Host}).String()\<close>.\<close>

definition url_string :: "string \<Rightarrow> string option \<Rightarrow> string \<Rightarrow> string" where
  "url_string scheme user host = scheme @ ''://'' @
     (case user of None \<Rightarrow> [] | Some u \<Rightarrow> escape_with user_kept u @ ''@'') @ escape_with host_kept host"

definition control_chars :: string where
  "control_chars = [char_of (13::nat), char_of (10::nat), char_of (0::nat)]"

definition DesktopURL :: "string \<Rightarrow> string \<Rightarrow> int \<Rightarrow> string \<Rightarrow> string result" where
  "DesktopURL protocol0 host0 port0 user0 =
     (let host = trim_space host0; protocol = to_lower (trim_space protocol0); user = trim_space user0 in
      if host = [] then Inl (Errorf ''desktop remote host is empty'')
      else if contains_any host control_chars
      then Inl (Errorf ''desktop remote host contains control characters'')
      else if \<not> DesktopProtocol protocol
      then Inl (Errorf (''desktop protocol '' @ quote protocol @ '' is not supported''))
      else
        let port = (if port0 \<le> 0 then defaultDesktopPort protocol else port0);
            hostPort = join_host_port host (itoa port) in
        if protocol = ''ssh'' then Inr (url_string ''ssh'' (if user = [] then None else Some user) hostPort)
        else if protocol = ''vnc'' then Inr (url_string ''vnc'' None hostPort)
        else Inr (url_string ''rdp'' None hostPort))"

text \<open>The program started for a URL on this system.\<close>

definition url_handler :: "string \<Rightarrow> string \<Rightarrow> string list" where
  "url_handler goos target =
     (if goos = ''darwin'' then [''open'', target]
      else if goos = ''windows'' then [''rundll32.exe'', ''url.dll,FileProtocolHandler'', target]
      else [''xdg-open'', target])"

text \<open>\<open>start\<close> starts a program without waiting for it, \<open>run\<close> waits and gives its combined output.\<close>

record launcher =
  la_goos :: string
  la_start :: "string list \<Rightarrow> error option"
  la_run :: "string list \<Rightarrow> string \<times> error option"

definition mstsc_host :: "remote_profile \<Rightarrow> string" where
  "mstsc_host p = (if rp_port p > 0 \<and> rp_port p \<noteq> 3389 then join_host_port (rp_host p) (itoa (rp_port p)) else rp_host p)"

definition OpenDesktop :: "launcher \<Rightarrow> error option \<Rightarrow> remote_profile \<Rightarrow> error option" where
  "OpenDesktop l ctx_err p =
     (case ctx_err of
        Some e \<Rightarrow> Some e
      | None \<Rightarrow>
          (case DesktopURL (rp_protocol p) (rp_host p) (rp_port p) (rp_username p) of
             Inl e \<Rightarrow> Some e
           | Inr target \<Rightarrow>
               if la_goos l = ''windows'' \<and> equal_fold (rp_protocol p) ''rdp''
               then map_option (Wrapf ''open Remote Desktop'') (la_start l [''mstsc'', ''/v:'' @ mstsc_host p])
               else (case la_run l (url_handler (la_goos l) target) of
                       (out, Some e) \<Rightarrow> Some (Wraps (''open '' @ rp_protocol p @ '' session'') e (trim_space out))
                     | (_, None) \<Rightarrow> None)))"

section \<open>The loopback URL of a browser session\<close>

text \<open>What the code reads of a parsed URL.\<close>

record parsed_url =
  pu_scheme :: string
  pu_host :: string
  pu_hostname :: string
  pu_has_user :: bool
  pu_query :: string
  pu_fragment :: string
  pu_string :: string

definition Validate :: "(string \<Rightarrow> parsed_url option) \<Rightarrow> string \<Rightarrow> string result" where
  "Validate parse target0 =
     (let target = trim_space target0 in
      if target = [] then Inl (Errorf ''remote URL is not configured'')
      else if contains_any target control_chars then Inl (Errorf ''remote URL contains control characters'')
      else case parse target of
        None \<Rightarrow> Inl (Errorf ''remote URL must include a scheme and host'')
      | Some u \<Rightarrow>
          let hostname = to_lower (pu_hostname u) in
          if pu_scheme u = [] \<or> pu_host u = [] then Inl (Errorf ''remote URL must include a scheme and host'')
          else if to_lower (pu_scheme u) \<noteq> ''http''
          then Inl (Errorf (''localhost remote URL scheme '' @ quote (pu_scheme u) @ '' is not supported''))
          else if hostname \<noteq> ''localhost'' \<and> (case parse_ip hostname of None \<Rightarrow> True | Some ip \<Rightarrow> \<not> is_loopback ip)
          then Inl (Errorf ''remote URL must use a loopback host'')
          else if pu_has_user u then Inl (Errorf ''remote URL must not contain a username or password'')
          else if pu_query u \<noteq> [] \<or> pu_fragment u \<noteq> []
          then Inl (Errorf ''remote URL must not contain a query string or fragment'')
          else Inr (pu_string u))"

definition CommandFor :: "(string \<Rightarrow> parsed_url option) \<Rightarrow> string \<Rightarrow> string \<Rightarrow> (string list) result" where
  "CommandFor parse goos target =
     (case Validate parse target of Inl e \<Rightarrow> Inl e | Inr validated \<Rightarrow> Inr (url_handler goos validated))"

definition OpenURL :: "launcher \<Rightarrow> (string \<Rightarrow> parsed_url option) \<Rightarrow> string \<Rightarrow> error option" where
  "OpenURL l parse target =
     (case CommandFor parse (la_goos l) target of
        Inl e \<Rightarrow> Some e
      | Inr argv \<Rightarrow> map_option (Wrapf ''open remote session'') (la_start l argv))"

section \<open>Moonlight\<close>

record moonlight_client =
  mc_executable :: string
  mc_flatpak :: string

text \<open>The system Moonlight is looked for on: \<open>exec.LookPath\<close>, the test for a regular file, the
  environment, and the name of the system.\<close>

record host_system =
  hs_goos :: string
  hs_look :: "string \<Rightarrow> string option"
  hs_exists :: "string \<Rightarrow> bool"
  hs_env :: "string \<Rightarrow> string"

definition bslash :: string where
  "bslash = [char_of (92::nat)]"

definition app_paths :: "host_system \<Rightarrow> string list" where
  "app_paths s =
     (if hs_goos s = ''darwin'' then
        [''/Applications/Moonlight.app/Contents/MacOS/Moonlight'',
         ''/Applications/Moonlight Game Streaming.app/Contents/MacOS/Moonlight'',
         hs_env s ''HOME'' @ ''/Applications/Moonlight.app/Contents/MacOS/Moonlight'',
         hs_env s ''HOME'' @ ''/Applications/Moonlight Game Streaming.app/Contents/MacOS/Moonlight'']
      else if hs_goos s = ''windows'' then
        [join bslash [''C:'', ''Program Files'', ''Moonlight Game Streaming'', ''Moonlight.exe''],
         join bslash [''C:'', ''Program Files (x86)'', ''Moonlight Game Streaming'', ''Moonlight.exe''],
         join bslash [hs_env s ''LOCALAPPDATA'', ''Programs'', ''Moonlight Game Streaming'', ''Moonlight.exe''],
         join bslash [hs_env s ''PROGRAMFILES'', ''Moonlight Game Streaming'', ''Moonlight.exe'']]
      else [])"

definition in_path :: "host_system \<Rightarrow> string \<Rightarrow> string option" where
  "in_path s name = (case hs_look s name of Some p \<Rightarrow> if p = [] then None else Some p | None \<Rightarrow> None)"

definition flatpak_dir :: string where
  "flatpak_dir = ''/var/lib/flatpak/app/com.moonlight_stream.Moonlight''"

definition moonlight_missing :: error where
  "moonlight_missing = Errorf ''moonlight client not found (please install Moonlight from https://moonlight-stream.org)''"

definition Detect :: "host_system \<Rightarrow> moonlight_client result" where
  "Detect s =
     (case List.find (\<lambda>name. in_path s name \<noteq> None) [''moonlight'', ''moonlight-qt'', ''Moonlight''] of
        Some name \<Rightarrow> Inr \<lparr>mc_executable = the (in_path s name), mc_flatpak = []\<rparr>
      | None \<Rightarrow>
          (case List.find (hs_exists s) (app_paths s) of
             Some path \<Rightarrow> Inr \<lparr>mc_executable = path, mc_flatpak = []\<rparr>
           | None \<Rightarrow>
               (case (hs_goos s = ''linux'', in_path s ''flatpak'') of
                  (True, Some path) \<Rightarrow>
                    if hs_exists s flatpak_dir
                    then Inr \<lparr>mc_executable = path, mc_flatpak = ''com.moonlight_stream.Moonlight''\<rparr>
                    else Inl moonlight_missing
                | _ \<Rightarrow> Inl moonlight_missing)))"

definition prefixArgs :: "moonlight_client \<Rightarrow> string list" where
  "prefixArgs c = (if mc_flatpak c = [] then [] else [''run'', mc_flatpak c])"

definition BuildStreamArgs :: "moonlight_client \<Rightarrow> string \<Rightarrow> string \<Rightarrow> int \<Rightarrow> string \<Rightarrow> int \<Rightarrow> string list" where
  "BuildStreamArgs c host app0 fps resolution bitrate =
     (let app = (if trim_space app0 = [] then ''Desktop'' else app0); res = trim_space resolution in
      prefixArgs c @ [''stream'', trim_space host, trim_space app] @
      (if fps > 0 then [''--fps'', itoa fps] else []) @
      (if res = [] then [] else [''--resolution'', to_lower res]) @
      (if bitrate > 0 then [''--bitrate'', itoa bitrate] else []))"

definition BuildPairArgs :: "moonlight_client \<Rightarrow> string \<Rightarrow> string \<Rightarrow> string list" where
  "BuildPairArgs c host pin0 =
     (let pin = trim_space pin0 in
      prefixArgs c @ [''pair'', trim_space host] @ (if pin = [] then [] else [''--pin'', pin]))"

definition executable :: "moonlight_client \<Rightarrow> string result" where
  "executable c =
     (if mc_executable c = [] \<and> mc_flatpak c = [] then Inl moonlight_missing else Inr (mc_executable c))"

text \<open>The program and arguments of a stream; starting it is the system's.\<close>

definition StreamCommand :: "moonlight_client \<Rightarrow> string \<Rightarrow> string \<Rightarrow> int \<Rightarrow> string \<Rightarrow> int \<Rightarrow> (string list) result" where
  "StreamCommand c host app fps resolution bitrate =
     (case executable c of
        Inl e \<Rightarrow> Inl e
      | Inr path \<Rightarrow> Inr (path # BuildStreamArgs c host app fps resolution bitrate))"

definition StartStream :: "(string list \<Rightarrow> error option) \<Rightarrow> moonlight_client \<Rightarrow> string \<Rightarrow> string \<Rightarrow> int \<Rightarrow> string \<Rightarrow> int
    \<Rightarrow> error option" where
  "StartStream start c host app fps resolution bitrate =
     (case StreamCommand c host app fps resolution bitrate of
        Inl e \<Rightarrow> Some e
      | Inr argv \<Rightarrow> map_option (Wrapf ''start moonlight stream'') (start argv))"

definition PairMoonlight :: "(string list \<Rightarrow> error option) \<Rightarrow> moonlight_client \<Rightarrow> string \<Rightarrow> string \<Rightarrow> error option" where
  "PairMoonlight run c host pin =
     (case executable c of
        Inl e \<Rightarrow> Some e
      | Inr path \<Rightarrow> map_option (Wrapf (''moonlight pair '' @ host)) (run (path # BuildPairArgs c host pin)))"

section \<open>Trimming and case\<close>

lemma lower_ascii: "ascii (lower_char c) = ascii c" "is_space (lower_char c) = is_space c"
  by (auto simp: lower_char_def is_upper_def ascii_def is_space_def)

lemma lower_wide: "\<not> ascii d \<Longrightarrow> lower_char c = d \<longleftrightarrow> c = d"
  by (auto simp: lower_char_def is_upper_def ascii_def)

lemma map_lower_wide: "list_all (\<lambda>d. \<not> ascii d) w \<Longrightarrow> map lower_char s = w \<longleftrightarrow> s = w"
proof (induction s arbitrary: w)
  case (Cons c s)
  then show ?case by (cases w) (simp_all add: lower_wide)
qed simp

lemma space_len_lower:
  assumes "list_all (list_all (\<lambda>d. \<not> ascii d)) ws"
  shows "space_len_in ws (map lower_char s) = space_len_in ws s"
proof (cases s)
  case (Cons c cs)
  have "find (\<lambda>w. take (length w) (map lower_char s) = w) ws = find (\<lambda>w. take (length w) s = w) ws"
    by (rule find_cong [OF refl]) (use assms in \<open>simp add: take_map list_all_iff map_lower_wide\<close>)
  with Cons show ?thesis by (simp add: lower_ascii)
qed simp

lemma strip_lower:
  assumes "list_all (list_all (\<lambda>d. \<not> ascii d)) ws"
  shows "strip ws n (map lower_char s) = map lower_char (strip ws n s)"
  by (induction n arbitrary: s) (simp_all add: space_len_lower [OF assms] drop_map)

lemma wide_lower: "list_all (list_all (\<lambda>d. \<not> ascii d)) wide_spaces"
    "list_all (list_all (\<lambda>d. \<not> ascii d)) (map rev wide_spaces)"
  by code_simp+

lemma trim_lower: "trim_space (to_lower s) = to_lower (trim_space s)"
  by (simp add: trim_space_def trim_left_def trim_right_def to_lower_def strip_lower wide_lower rev_map)

section \<open>The URL is a safe argument\<close>

definition url_char :: "char \<Rightarrow> bool" where
  "url_char c \<longleftrightarrow> 33 \<le> code c \<and> code c \<le> 126"

lemma upper_hex_char: "n < 16 \<Longrightarrow> url_char (upper_hex n)"
  by (auto simp: url_char_def upper_hex_def)

lemma kept_chars: "list_all (\<lambda>c. url_char c) ''-_.~!$&()*+,;=:[]<>''"
  by code_simp

lemma host_kept_char: "host_kept c \<Longrightarrow> url_char c"
  using kept_chars by (auto simp: host_kept_def url_unreserved_def is_alnum_def is_digit_def is_upper_def
    is_lower_def url_char_def)

lemma user_kept_char: "user_kept c \<Longrightarrow> url_char c"
  using kept_chars by (auto simp: user_kept_def url_unreserved_def is_alnum_def is_digit_def is_upper_def
    is_lower_def url_char_def)

lemma escape_chars:
  assumes "\<And>c. kept c \<Longrightarrow> url_char c"
  shows "list_all url_char (escape_with kept s)"
proof -
  have "url_char CHR ''%''" by (simp add: url_char_def)
  moreover have "url_char (upper_hex (code c div 16))" "url_char (upper_hex (code c mod 16))" for c
    by (rule upper_hex_char, simp add: less_mult_imp_div_less)+
  ultimately show ?thesis using assms by (induction s) (simp_all add: escape_with_def)
qed

lemma url_string_chars: "list_all url_char scheme \<Longrightarrow> list_all url_char (url_string scheme user host)"
  using escape_chars [of host_kept, OF host_kept_char] escape_chars [of user_kept, OF user_kept_char]
  by (auto simp: url_string_def url_char_def split: option.splits)

text \<open>
  C16. A URL handed to the desktop starts with the scheme of one of the three supported protocols and
  contains only visible ASCII characters, whatever the host and the user name are: it is no
  option of the program it is given to, and no white space or control character gets through.
\<close>

theorem DesktopURL_safe:
  assumes "DesktopURL protocol host port user = Inr target"
  shows "list_all url_char target \<and>
    (\<exists>scheme \<in> {''ssh'', ''vnc'', ''rdp''}. to_lower (trim_space protocol) = scheme \<and> has_prefix target (scheme @ ''://''))"
proof -
  have p: "DesktopProtocol (to_lower (trim_space protocol))" and i: "trim_space host \<noteq> []"
    using assms by (auto simp: DesktopURL_def Let_def split: if_splits)
  obtain scheme u hp where t: "target = url_string scheme u hp" and s: "scheme \<in> {''ssh'', ''vnc'', ''rdp''}"
    and same: "scheme = ''rdp'' \<or> to_lower (trim_space protocol) = scheme"
    and other: "scheme = ''rdp'' \<Longrightarrow> to_lower (trim_space protocol) \<notin> {''ssh'', ''vnc''}"
    using assms by (auto simp: DesktopURL_def Let_def split: if_splits)
  have q: "to_lower (trim_space protocol) \<in> {''rdp'', ''ssh'', ''vnc''}"
    using p by (simp add: DesktopProtocol_def trim_lower)
  with same other have "to_lower (trim_space protocol) = scheme" by auto
  moreover have "list_all url_char scheme" using s by (auto simp: url_char_def)
  moreover have "has_prefix target (scheme @ ''://'')"
    unfolding t url_string_def by (metis append.assoc has_prefix_append)
  ultimately show ?thesis using s url_string_chars t by blast
qed

theorem DesktopURL_safe_witness:
  "DesktopURL '' SSH '' '' 10.0.0.5'' 0 ''an admin'' = Inr ''ssh://an%20admin@10.0.0.5:22'' \<and>
   list_all url_char ''ssh://an%20admin@10.0.0.5:22''"
proof -
  have *: "DesktopURL '' SSH '' '' 10.0.0.5'' 0 ''an admin'' = Inr ''ssh://an%20admin@10.0.0.5:22''" by code_simp
  with DesktopURL_safe [OF *] show ?thesis by blast
qed

text \<open>Only a loopback URL is handed to the browser.\<close>

lemma Validate_loopback:
  assumes "Validate parse target = Inr url"
  obtains u where "parse (trim_space target) = Some u" and "url = pu_string u" and "to_lower (pu_scheme u) = ''http''"
    and "to_lower (pu_hostname u) = ''localhost'' \<or>
      (\<exists>ip. parse_ip (to_lower (pu_hostname u)) = Some ip \<and> is_loopback ip)"
    and "\<not> pu_has_user u" and "pu_query u = []" and "pu_fragment u = []"
  using assms by (auto simp: Validate_def Let_def split: if_splits option.splits)

end
