(* ===== verification/RemoteFlow.thy ===== *)
theory RemoteFlow
  imports RemoteOpen Pool
begin

text \<open>
  \<open>internal/remoteflow/flow.go\<close>: the manager of remote sessions. \<open>Open\<close> makes sure the machine
  can be reached, waking it if asked, and opens a desktop client, a Moonlight stream or a
  browser session; the last two are owned by the manager until \<open>Stop\<close>, a replacement or \<open>Close\<close>.

  The manager's two maps (\<open>sessions\<close> and \<open>streams\<close>) are one map from the kind and the machine to
  a handle; \<open>fs_live\<close> are the handles that were started and not closed. Calls run concurrently
  and are cut at their critical sections; the theorems hold for every schedule.
\<close>

section \<open>Reaching the machine\<close>

text \<open>What a \<open>select\<close> of \<open>waitUntilReachable\<close> receives.\<close>

datatype wait_event = CtxDone error | Deadline | Tick

text \<open>The loop: probe, then wait for the next event; \<open>None\<close> while it still waits.\<close>

fun wait_reachable :: "(nat \<Rightarrow> bool) \<Rightarrow> nat \<Rightarrow> wait_event list \<Rightarrow> error option option" where
  "wait_reachable probe i events =
     (if probe i then Some None
      else case events of
        [] \<Rightarrow> None
      | CtxDone e # _ \<Rightarrow> Some (Some e)
      | Deadline # _ \<Rightarrow> Some (Some (Errorf ''remote service did not become reachable within 60 seconds''))
      | Tick # rest \<Rightarrow> wait_reachable probe (Suc i) rest)"

declare wait_reachable.simps [simp del]

record flow_env =
  fe_probe :: "string \<Rightarrow> int \<Rightarrow> nat \<Rightarrow> bool"
  fe_wake :: "string \<Rightarrow> error option"
  fe_events :: "wait_event list"
  fe_desktop :: "remote_profile \<Rightarrow> error option"
  fe_stream :: "string \<Rightarrow> string \<Rightarrow> int \<Rightarrow> string \<Rightarrow> int \<Rightarrow> error option"
  fe_session :: "device \<Rightarrow> remote_profile \<Rightarrow> error option"

definition ensureReachable :: "flow_env \<Rightarrow> device \<Rightarrow> remote_profile \<Rightarrow> bool \<Rightarrow> error option option" where
  "ensureReachable env dev p autoWake =
     (let probe = fe_probe env (rp_host p) (rp_verify_port p) in
      if probe 0 then Some None
      else if \<not> autoWake
      then Some (Some (Errorf (d_name dev @ '' is not reachable; run without --no-wake to wake it first'')))
      else case fe_wake env (d_id dev) of
        Some e \<Rightarrow> Some (Some (Wrapf (''wake '' @ d_name dev) e))
      | None \<Rightarrow> map_option (map_option (Wrapf (''wait for '' @ d_name dev)))
          (wait_reachable probe 1 (fe_events env)))"

section \<open>Opening\<close>

datatype flow_kind = Browser | Stream

text \<open>What \<open>Open\<close> comes to before it takes the lock: an answer, or a session that was started.\<close>

datatype open_step = Answer "string result" | Started flow_kind | Waiting

definition open_call :: "flow_env \<Rightarrow> device \<Rightarrow> remote_profile \<Rightarrow> bool \<Rightarrow> open_step" where
  "open_call env dev p autoWake =
     (if \<not> rp_enabled p \<or> rp_device_id p \<noteq> d_id dev
      then Answer (Inl (Errorf ''local remote profile is not enabled for this machine''))
      else case ensureReachable env dev p autoWake of
        None \<Rightarrow> Waiting
      | Some (Some e) \<Rightarrow> Answer (Inl e)
      | Some None \<Rightarrow>
          if NativeDesktop p then
            (case fe_desktop env p of
               Some e \<Rightarrow> Answer (Inl (Wrapf (''open '' @ rp_protocol p @ '' client'') e))
             | None \<Rightarrow> Answer (Inr (''Opened '' @ to_upper (rp_protocol p) @ '' for '' @ d_name dev @
                 '' ('' @ rp_host p @ '')'')))
          else if rp_mode p = ''native-moonlight'' \<or> rp_protocol p = ''sunshine'' then
            (case fe_stream env (rp_host p) (rp_app p) (rp_fps p) (rp_resolution p) (rp_bitrate p) of
               Some e \<Rightarrow> Answer (Inl (Wrapf ''launch moonlight'' e))
             | None \<Rightarrow> Started Stream)
          else if rp_mode p \<noteq> ''browser-local''
          then Answer (Inl (Errorf (''remote mode '' @ quote (rp_mode p) @
                 '' is not supported; use native, browser-local, or native-moonlight'')))
          else (case fe_session env dev p of Some e \<Rightarrow> Answer (Inl e) | None \<Rightarrow> Started Browser))"

definition manager_closed :: error where
  "manager_closed = Errorf ''local remote manager is closed''"

record flow_state =
  fs_closed :: bool
  fs_owned :: "flow_kind \<times> string \<Rightarrow> nat option"
  fs_live :: "nat set"
  fs_next :: nat

definition flow_init :: flow_state where
  "flow_init = \<lparr>fs_closed = False, fs_owned = Map.empty, fs_live = {}, fs_next = 0\<rparr>"

text \<open>The critical section after a start: a closed manager refuses the session, which is then
  closed; an open one owns it, and the session it replaces is closed.\<close>

definition register_session :: "flow_kind \<Rightarrow> string \<Rightarrow> nat \<Rightarrow> flow_state \<Rightarrow> flow_state \<times> nat list" where
  "register_session k i h s =
     (if fs_closed s then (s, [h])
      else (s\<lparr>fs_owned := (fs_owned s)((k, i) \<mapsto> h)\<rparr>, case fs_owned s (k, i) of None \<Rightarrow> [] | Some p \<Rightarrow> [p]))"

text \<open>The critical section of \<open>Stop\<close>: the stream, then the session of the machine.\<close>

definition take_device :: "string \<Rightarrow> flow_state \<Rightarrow> flow_state \<times> nat list" where
  "take_device i s =
     (s\<lparr>fs_owned := (fs_owned s)((Stream, i) := None, (Browser, i) := None)\<rparr>,
      (case fs_owned s (Stream, i) of None \<Rightarrow> [] | Some h \<Rightarrow> [h]) @
      (case fs_owned s (Browser, i) of None \<Rightarrow> [] | Some h \<Rightarrow> [h]))"

definition Streaming :: "string \<Rightarrow> (nat \<Rightarrow> bool) \<Rightarrow> flow_state \<Rightarrow> bool" where
  "Streaming i alive s = (case fs_owned s (Stream, i) of None \<Rightarrow> False | Some h \<Rightarrow> alive h)"

section \<open>Concurrent calls\<close>

datatype flow_worker =
    FwOpen flow_env device remote_profile bool
  | FwStarted flow_kind string nat
  | FwStop string
  | FwClose
  | FwTake
  | FwClosing "nat list"
  | FwDone

inductive flow_step :: "flow_state \<Rightarrow> flow_worker \<Rightarrow> flow_state \<Rightarrow> flow_worker \<Rightarrow> bool" where
  answered: "open_call env dev p wake = Answer r \<Longrightarrow> flow_step s (FwOpen env dev p wake) s FwDone"
| started: "open_call env dev p wake = Started k \<Longrightarrow>
     flow_step s (FwOpen env dev p wake) (s\<lparr>fs_live := insert (fs_next s) (fs_live s), fs_next := Suc (fs_next s)\<rparr>)
       (FwStarted k (d_id dev) (fs_next s))"
| registered: "register_session k i h s = (s', hs) \<Longrightarrow> flow_step s (FwStarted k i h) s' (FwClosing hs)"
| stopped: "take_device i s = (s', hs) \<Longrightarrow> flow_step s (FwStop i) s' (FwClosing hs)"
| shut: "flow_step s FwClose (s\<lparr>fs_closed := True\<rparr>) FwTake"
| taken: "distinct hs \<Longrightarrow> set hs = ran (fs_owned s) \<Longrightarrow>
     flow_step s FwTake (s\<lparr>fs_owned := Map.empty\<rparr>) (FwClosing hs)"
| closed: "flow_step s (FwClosing (h # hs)) (s\<lparr>fs_live := fs_live s - {h}\<rparr>) (FwClosing hs)"
| finished: "flow_step s (FwClosing []) s FwDone"

inductive_cases flow_stepE: "flow_step s l s' l'"

definition flow_outside :: "flow_state \<Rightarrow> flow_state \<Rightarrow> bool" where
  "flow_outside s s' \<longleftrightarrow> False"

text \<open>The handles a call holds itself.\<close>

fun holds :: "flow_worker \<Rightarrow> nat list" where
  "holds (FwStarted k i h) = [h]"
| "holds (FwClosing hs) = hs"
| "holds _ = []"

definition held :: "flow_worker list \<Rightarrow> nat list" where
  "held ls = concat (map holds ls)"

lemma held_simps [simp]: "held [] = []" "held (l # ls) = holds l @ held ls" "held (xs @ ys) = held xs @ held ys"
  by (simp_all add: held_def)

definition one_owner :: "('k \<Rightarrow> 'h option) \<Rightarrow> bool" where
  "one_owner m \<longleftrightarrow> (\<forall>a b v. m a = Some v \<longrightarrow> m b = Some v \<longrightarrow> a = b)"

text \<open>Every live session has exactly one owner: the manager's map or one call; after \<open>Close\<close> has
  taken the sessions the map stays empty.\<close>

definition flow_inv :: "flow_state \<Rightarrow> flow_worker list \<Rightarrow> bool" where
  "flow_inv s ls \<longleftrightarrow> fs_live s = ran (fs_owned s) \<union> set (held ls) \<and> distinct (held ls) \<and>
     ran (fs_owned s) \<inter> set (held ls) = {} \<and> one_owner (fs_owned s) \<and>
     finite (fs_live s) \<and> (\<forall>h \<in> fs_live s. h < fs_next s) \<and>
     (fs_closed s \<longrightarrow> FwTake \<notin> set ls \<longrightarrow> fs_owned s = Map.empty)"

lemma flow_inv_init: "list_all (\<lambda>l. holds l = []) ls \<Longrightarrow> flow_inv flow_init ls"
  by (induction ls) (auto simp: flow_inv_def flow_init_def one_owner_def)

definition flow_weight :: "flow_worker \<Rightarrow> nat" where
  "flow_weight l = (case l of
     FwOpen _ _ _ _ \<Rightarrow> 6 | FwStarted _ _ _ \<Rightarrow> 5 | FwStop _ \<Rightarrow> 4 | FwClose \<Rightarrow> 3 | FwTake \<Rightarrow> 2
   | FwClosing hs \<Rightarrow> 1 + length hs | FwDone \<Rightarrow> 0)"

section \<open>The invariant\<close>

lemma ran_remove: "one_owner m \<Longrightarrow> ran (m(a := None)) = ran m - set_option (m a)"
  unfolding one_owner_def ran_def by (rule set_eqI) (simp, metis)

lemma one_remove: "one_owner m \<Longrightarrow> one_owner (m(a := None))"
  by (simp add: one_owner_def)

lemma ran_update: "one_owner m \<Longrightarrow> ran (m(a \<mapsto> b)) = insert b (ran m - set_option (m a))"
  unfolding one_owner_def ran_def by (rule set_eqI) (simp, metis)

lemma one_update: "one_owner m \<Longrightarrow> b \<notin> ran m \<Longrightarrow> one_owner (m(a \<mapsto> b))"
  by (auto simp: one_owner_def ran_def)

lemma inv_other:
  assumes "flow_inv s (xs @ l # ys)" and "holds l' = holds l" and "l \<noteq> FwTake"
  shows "flow_inv s (xs @ l' # ys)"
  using assms by (auto simp: flow_inv_def)

lemma inv_started:
  assumes "flow_inv s (xs @ FwOpen env dev p wake # ys)"
  shows "flow_inv (s\<lparr>fs_live := insert (fs_next s) (fs_live s), fs_next := Suc (fs_next s)\<rparr>)
    (xs @ FwStarted k i (fs_next s) # ys)"
proof -
  have "fs_next s \<notin> fs_live s" using assms by (auto simp: flow_inv_def)
  then show ?thesis using assms by (auto simp: flow_inv_def less_Suc_eq)
qed

lemma inv_registered:
  assumes inv: "flow_inv s (xs @ FwStarted k i h # ys)" and reg: "register_session k i h s = (s', hs)"
  shows "flow_inv s' (xs @ FwClosing hs # ys)"
proof (cases "fs_closed s")
  case True
  with reg have "s' = s" and "hs = [h]" by (simp_all add: register_session_def)
  then show ?thesis using inv_other [OF inv, of "FwClosing [h]"] by simp
next
  case False
  define m where "m = fs_owned s"
  have s': "s' = s\<lparr>fs_owned := m((k, i) \<mapsto> h)\<rparr>" and hs: "set hs = set_option (m (k, i))" "distinct hs"
    using reg False by (auto simp: register_session_def m_def split: option.splits)
  have m: "one_owner m" "h \<notin> ran m" "ran m \<inter> set (held xs @ held ys) = {}"
    and h: "h \<notin> set (held xs @ held ys)" using inv by (auto simp: flow_inv_def m_def)
  have sub: "set_option (m (k, i)) \<subseteq> ran m" by (auto simp: ran_def)
  have r: "ran (m((k, i) \<mapsto> h)) = insert h (ran m - set hs)" using ran_update [OF m(1)] hs(1) by simp
  have live: "fs_live s = ran m \<union> {h} \<union> set (held xs @ held ys)" using inv by (auto simp: flow_inv_def m_def)
  have "fs_owned s \<noteq> Map.empty \<longrightarrow> \<not> fs_closed s \<or> FwTake \<in> set xs \<union> set ys" using inv by (auto simp: flow_inv_def)
  moreover have "distinct (held xs @ held ys)" "finite (fs_live s)" "\<forall>h \<in> fs_live s. h < fs_next s"
    using inv by (auto simp: flow_inv_def)
  moreover have "fs_live s = ran (m((k, i) \<mapsto> h)) \<union> set (held xs @ hs @ held ys)" using live r hs sub by auto
  moreover have "distinct (held xs @ hs @ held ys)"
    using hs sub m(3) \<open>distinct (held xs @ held ys)\<close> by (auto dest: subsetD)
  moreover have "ran (m((k, i) \<mapsto> h)) \<inter> set (held xs @ hs @ held ys) = {}" using r m h sub hs(1) by auto
  ultimately show ?thesis using one_update [OF m(1,2)] False by (simp add: flow_inv_def s')
qed

lemma inv_stopped:
  assumes inv: "flow_inv s (xs @ FwStop i # ys)" and stop: "take_device i s = (s', hs)"
  shows "flow_inv s' (xs @ FwClosing hs # ys)"
proof -
  define m where "m = fs_owned s"
  define m' where "m' = m((Stream, i) := None, (Browser, i) := None)"
  have s': "s' = s\<lparr>fs_owned := m'\<rparr>" using stop by (auto simp: take_device_def m_def m'_def)
  have m: "one_owner m" and disj: "ran m \<inter> set (held xs @ held ys) = {}"
    using inv by (auto simp: flow_inv_def m_def)
  have two: "m (Stream, i) \<noteq> m (Browser, i) \<or> m (Stream, i) = None"
    using m unfolding one_owner_def by (metis (no_types, lifting) flow_kind.distinct(1) not_None_eq prod.inject)
  have hs: "set hs = set_option (m (Stream, i)) \<union> set_option (m (Browser, i))" "distinct hs"
    using stop two by (auto simp: take_device_def m_def split: option.splits)
  have r: "ran m' = ran m - set hs" and i: "one_owner m'"
    using ran_remove [OF m, of "(Stream, i)"] one_remove [OF m, of "(Stream, i)"]
      ran_remove [OF one_remove [OF m], of "(Stream, i)" "(Browser, i)"]
      one_remove [OF one_remove [OF m], of "(Stream, i)" "(Browser, i)"]
    by (auto simp: m'_def hs)
  have sub: "set hs \<subseteq> ran m" by (auto simp: hs ran_def)
  have live: "fs_live s = ran m \<union> set (held xs @ held ys)" using inv by (auto simp: flow_inv_def m_def)
  have empty: "m = Map.empty \<Longrightarrow> m' = Map.empty" by (simp add: m'_def)
  have d: "distinct (held xs @ held ys)" "finite (fs_live s)" "\<forall>h \<in> fs_live s. h < fs_next s"
    using inv by (auto simp: flow_inv_def)
  moreover have "fs_closed s \<longrightarrow> FwTake \<notin> set xs \<union> set ys \<longrightarrow> m' = Map.empty"
    using inv empty by (auto simp: flow_inv_def m_def)
  moreover have "fs_live s = ran m' \<union> set (held xs @ hs @ held ys)" using live r sub by auto
  moreover have "distinct (held xs @ hs @ held ys)" using hs(2) sub disj d(1) by auto
  moreover have "ran m' \<inter> set (held xs @ hs @ held ys) = {}" using r disj by auto
  ultimately show ?thesis using i by (simp add: flow_inv_def s')
qed

lemma inv_taken:
  assumes inv: "flow_inv s (xs @ FwTake # ys)" and "distinct hs" and "set hs = ran (fs_owned s)"
  shows "flow_inv (s\<lparr>fs_owned := Map.empty\<rparr>) (xs @ FwClosing hs # ys)"
  using assms by (auto simp: flow_inv_def one_owner_def)

lemma inv_closed:
  assumes "flow_inv s (xs @ FwClosing (h # hs) # ys)"
  shows "flow_inv (s\<lparr>fs_live := fs_live s - {h}\<rparr>) (xs @ FwClosing hs # ys)"
  using assms by (auto simp: flow_inv_def)

lemma flow_keeps: "flow_inv s (xs @ l # ys) \<Longrightarrow> flow_step s l s' l' \<Longrightarrow> flow_inv s' (xs @ l' # ys)"
proof (erule flow_stepE, goal_cases)
  case 5
  then show ?case by (auto simp: flow_inv_def)
qed (simp_all add: inv_other inv_started inv_registered inv_stopped inv_taken inv_closed)

section \<open>Every call ends\<close>

lemma finite_set_option: "finite (set_option x)"
  by (cases x) simp_all

lemma ran_update_le: "card (ran (m(a \<mapsto> b))) \<le> Suc (card (ran m))"
proof (cases "finite (ran m)")
  case True
  have "ran (m(a \<mapsto> b)) \<subseteq> insert b (ran m)" by (auto simp: ran_def)
  then have "card (ran (m(a \<mapsto> b))) \<le> card (insert b (ran m))" using True by (intro card_mono) simp_all
  also have "\<dots> \<le> Suc (card (ran m))" using True by (simp add: card_insert_if)
  finally show ?thesis .
next
  case False
  have "ran m \<subseteq> ran (m(a \<mapsto> b)) \<union> set_option (m a)" by (auto simp: ran_def)
  with False have "infinite (ran (m(a \<mapsto> b)))" by (meson finite_UnI finite_set_option finite_subset)
  then show ?thesis by simp
qed

lemma ran_remove_le: "card (ran (m(a := None))) \<le> card (ran m)"
proof (cases "finite (ran m)")
  case True
  then show ?thesis by (rule card_mono) (auto simp: ran_def)
next
  case False
  have "ran m \<subseteq> ran (m(a := None)) \<union> set_option (m a)" by (auto simp: ran_def)
  with False have "infinite (ran (m(a := None)))" by (meson finite_UnI finite_set_option finite_subset)
  then show ?thesis by simp
qed

lemma flow_lowers:
  assumes "flow_step s l s' l'"
  shows "card (ran (fs_owned s')) + flow_weight l' < card (ran (fs_owned s)) + flow_weight l"
  using assms
proof cases
  case (registered k i h hs)
  then show ?thesis using ran_update_le [of "fs_owned s" "(k, i)" h]
    by (auto simp: register_session_def flow_weight_def split: if_splits option.splits)
next
  case (stopped i hs)
  let ?m = "(fs_owned s)((Stream, i) := None)"
  have "length hs \<le> 2" using stopped by (auto simp: take_device_def split: option.splits)
  moreover have "card (ran (fs_owned s')) \<le> card (ran (fs_owned s))"
    using stopped ran_remove_le [of "fs_owned s" "(Stream, i)"] ran_remove_le [of ?m "(Browser, i)"]
    by (auto simp: take_device_def)
  ultimately show ?thesis using stopped by (simp add: flow_weight_def)
next
  case (taken hs)
  then have "length hs = card (ran (fs_owned s))" using distinct_card by metis
  with taken show ?thesis by (simp add: flow_weight_def)
qed (simp_all add: flow_weight_def)

section \<open>The manager leaves nothing behind\<close>

text \<open>A call is over, or it still waits for its machine.\<close>

fun call_over :: "flow_worker \<Rightarrow> bool" where
  "call_over FwDone = True"
| "call_over (FwOpen env dev p wake) = (open_call env dev p wake = Waiting)"
| "call_over _ = False"

definition calls_over :: "flow_state \<Rightarrow> flow_worker list \<Rightarrow> bool" where
  "calls_over s ls \<longleftrightarrow> list_all call_over ls"

lemma flow_progress:
  assumes "flow_inv s ls" and "stuck flow_step flow_outside (s, ls)"
  shows "calls_over s ls"
  unfolding calls_over_def list_all_iff
proof
  fix l assume "l \<in> set ls"
  then have none: "\<not> flow_step s l s' l'" for s' l' using stuck_worker assms(2) by metis
  show "call_over l"
  proof (cases l)
    case (FwOpen env dev p wake)
    with none show ?thesis by (cases "open_call env dev p wake") (auto intro: answered started)
  next
    case (FwStarted k i h)
    with none show ?thesis by (metis registered surj_pair)
  next
    case (FwStop i)
    with none show ?thesis by (metis stopped surj_pair)
  next
    case FwTake
    have "finite (ran (fs_owned s))" using assms(1) by (auto simp: flow_inv_def)
    then obtain hs where "distinct hs" "set hs = ran (fs_owned s)" using finite_distinct_list by blast
    with none FwTake show ?thesis by (metis taken)
  next
    case (FwClosing hs)
    with none show ?thesis by (cases hs) (auto intro: closed finished)
  qed (use none shut in auto)
qed

interpretation manager: worker_pool flow_step flow_outside flow_inv "\<lambda>s. card (ran (fs_owned s))" flow_weight calls_over
proof unfold_locales
qed (auto simp: flow_outside_def flow_keeps flow_lowers flow_progress)

lemma over_holds_nothing: "list_all call_over ls \<Longrightarrow> held ls = []"
proof (induction ls)
  case (Cons l ls)
  then show ?case by (cases l) auto
qed simp

text \<open>The calls of the interface, before they have done anything.\<close>

fun is_call :: "flow_worker \<Rightarrow> bool" where
  "is_call (FwOpen env dev p wake) = True"
| "is_call (FwStop i) = True"
| "is_call FwClose = True"
| "is_call _ = False"

lemma calls_start: "list_all is_call ls \<Longrightarrow> flow_inv flow_init ls"
proof (rule flow_inv_init, rule list.pred_mono_strong, assumption)
  show "is_call l \<Longrightarrow> holds l = []" for l by (cases l) simp_all
qed

interpretation closing: pool_invariant flow_step flow_outside "\<lambda>s ls. FwClose \<in> set ls \<or> fs_closed s"
  by unfold_locales (auto simp: flow_outside_def register_session_def take_device_def
    elim!: flow_stepE split: if_splits)

text \<open>
  C14. Whatever calls of \<open>Open\<close>, \<open>Stop\<close> and \<open>Close\<close> run concurrently and however they interleave, once
  they are over the sessions still running are exactly those the manager owns, at most one of a
  kind for a machine; and after a \<open>Close\<close> none is left, also when it raced with an \<open>Open\<close>.
\<close>

theorem Manager_owns_what_runs:
  assumes "pool_steps flow_step flow_outside (flow_init, ls) (s, ls')"
    and "list_all is_call ls" and "list_all call_over ls'"
  shows "fs_live s = ran (fs_owned s) \<and> one_owner (fs_owned s) \<and> (FwClose \<in> set ls \<longrightarrow> fs_live s = {})"
proof -
  have inv: "flow_inv s ls'" using manager.steps_keep [OF assms(1) calls_start [OF assms(2)]] .
  have gone: "FwClose \<notin> set ls'" "FwTake \<notin> set ls'" using assms(3) by (auto simp: list_all_iff)
  have "fs_owned s = Map.empty" if "FwClose \<in> set ls"
    using closing.steps_keep [OF assms(1)] that gone inv by (auto simp: flow_inv_def)
  with inv show ?thesis by (simp add: flow_inv_def over_holds_nothing [OF assms(3)])
qed

text \<open>The calls do end: a schedule has a bounded length, and one that cannot go on is over.\<close>

lemma Manager_calls_end:
  assumes "list_all is_call ls"
  shows "\<exists>s ls'. pool_steps flow_step flow_outside (flow_init, ls) (s, ls') \<and> calls_over s ls'"
  using manager.completes [OF calls_start [OF assms]] by blast

section \<open>A close that races with an open\<close>

definition quick_env :: flow_env where
  "quick_env = \<lparr>fe_probe = \<lambda>_ _ _. True, fe_wake = \<lambda>_. None, fe_events = [], fe_desktop = \<lambda>_. None,
     fe_stream = \<lambda>_ _ _ _ _. None, fe_session = \<lambda>_ _. None\<rparr>"

definition flow_device :: device where
  "flow_device = \<lparr>d_id = ''desk'', d_name = ''Desk'', d_mac = [], d_ip = ''10.0.0.5'', d_broadcast = [], d_port = 0,
     d_interface = [], d_site_id = [], d_type = [], d_platform = [], d_strategy = [], d_relay_id = [],
     d_verify_port = 0, d_description = [], d_enabled = True, d_created = [], d_updated = []\<rparr>"

definition stream_profile :: remote_profile where
  "stream_profile = \<lparr>rp_id = ''p'', rp_device_id = ''desk'', rp_protocol = ''sunshine'', rp_host = ''10.0.0.5'',
     rp_port = 47989, rp_verify_port = 47989, rp_username = [], rp_domain = [], rp_cert_policy = [],
     rp_mode = ''native-moonlight'', rp_app = ''Desktop'', rp_fps = 60, rp_resolution = [], rp_bitrate = 0,
     rp_enabled = True, rp_created = [], rp_updated = []\<rparr>"

lemma quick_open: "open_call quick_env flow_device stream_profile True = Started Stream"
  by code_simp

theorem Manager_owns_what_runs_witness:
  "\<exists>s. pool_steps flow_step flow_outside (flow_init, [FwOpen quick_env flow_device stream_profile True, FwClose])
       (s, [FwDone, FwDone]) \<and> fs_next s = 1 \<and> fs_live s = {}"
proof -
  let ?open = "FwOpen quick_env flow_device stream_profile True"
  let ?s1 = "flow_init\<lparr>fs_live := {0}, fs_next := 1\<rparr>"
  let ?s2 = "?s1\<lparr>fs_closed := True\<rparr>"
  let ?s3 = "?s2\<lparr>fs_live := {}\<rparr>"
  note w = pool_step.worker [of _ _ flow_step, where E = flow_outside]
  let ?R = "pool_step flow_step flow_outside"
  have a: "?R (flow_init, [?open, FwClose]) (?s1, [FwStarted Stream (d_id flow_device) 0, FwClose])"
    using w [of 0 "[?open, FwClose]" flow_init] started [OF quick_open, of flow_init] by (simp add: flow_init_def)
  have b: "?R (?s1, [FwStarted Stream (d_id flow_device) 0, FwClose]) (?s2, [FwStarted Stream (d_id flow_device) 0, FwTake])"
    using w [of 1 "[FwStarted Stream (d_id flow_device) 0, FwClose]" ?s1] shut [of ?s1] by simp
  have c: "?R (?s2, [FwStarted Stream (d_id flow_device) 0, FwTake]) (?s2, [FwClosing [0], FwTake])"
    using w [of 0 "[FwStarted Stream (d_id flow_device) 0, FwTake]" ?s2]
      registered [of Stream "d_id flow_device" 0 ?s2 ?s2 "[0]"] by (simp add: register_session_def)
  have d: "?R (?s2, [FwClosing [0], FwTake]) (?s2, [FwClosing [0], FwClosing []])"
    using w [of 1 "[FwClosing [0], FwTake]" ?s2] taken [of "[]" ?s2] by (simp add: flow_init_def)
  have e: "?R (?s2, [FwClosing [0], FwClosing []]) (?s3, [FwClosing [], FwClosing []])"
    using w [of 0 "[FwClosing [0], FwClosing []]" ?s2] closed [of ?s2 0 "[]"] by simp
  have f: "?R (?s3, [FwClosing [], FwClosing []]) (?s3, [FwDone, FwClosing []])"
    using w [of 0 "[FwClosing [], FwClosing []]" ?s3] finished [of ?s3] by simp
  have g: "?R (?s3, [FwDone, FwClosing []]) (?s3, [FwDone, FwDone])"
    using w [of 1 "[FwDone, FwClosing []]" ?s3] finished [of ?s3] by simp
  have run: "?R\<^sup>*\<^sup>* (flow_init, [?open, FwClose]) (?s3, [FwDone, FwDone])"
    using a b c d e f g by (meson converse_rtranclp_into_rtranclp rtranclp.rtrancl_refl)
  have "fs_live ?s3 = {}" using Manager_owns_what_runs [OF run] by simp
  with run show ?thesis by (intro exI [of _ ?s3]) simp
qed

end
