(* ===== verification/TuiText.thy ===== *)
theory TuiText
  imports GoBase
begin

text \<open>
  The text helpers of the terminal interface (\<open>internal/tui\<close>: \<open>text.go\<close>, \<open>layout.go\<close>,
  \<open>privacy.go\<close>, \<open>motion.go\<close>): stripping escape sequences, fitting a text into a number of
  cells, hiding identifiers, and the clock of the animations.

  \<open>lipgloss.Width\<close>, the number of cells a text takes, is an argument. What the bounds use of it
  is that a text is at most as wide as its pieces together and that \<open>...\<close> takes three cells.
\<close>

section \<open>Runes\<close>

definition cont_byte :: "char \<Rightarrow> bool" where
  "cont_byte c \<longleftrightarrow> 128 \<le> code c \<and> code c < 192"

text \<open>The length of the valid UTF-8 encoding a string starts with, 0 if there is none.\<close>

fun utf8_len :: "string \<Rightarrow> nat" where
  "utf8_len [] = 0"
| "utf8_len (a # s) =
     (if code a < 128 then 1
      else if 194 \<le> code a \<and> code a \<le> 223 then (case s of b # _ \<Rightarrow> if cont_byte b then 2 else 0 | _ \<Rightarrow> 0)
      else if 224 \<le> code a \<and> code a \<le> 239 then
        (case s of
           b # c # _ \<Rightarrow>
             if cont_byte b \<and> cont_byte c \<and> (code a = 224 \<longrightarrow> 160 \<le> code b) \<and> (code a = 237 \<longrightarrow> code b < 160)
             then 3 else 0
         | _ \<Rightarrow> 0)
      else if 240 \<le> code a \<and> code a \<le> 244 then
        (case s of
           b # c # d # _ \<Rightarrow>
             if cont_byte b \<and> cont_byte c \<and> cont_byte d \<and> (code a = 240 \<longrightarrow> 144 \<le> code b) \<and>
               (code a = 244 \<longrightarrow> code b < 144)
             then 4 else 0
         | _ \<Rightarrow> 0)
      else 0)"

definition replacement :: string where
  "replacement = [char_of (0xEF::nat), char_of (0xBF::nat), char_of (0xBD::nat)]"

text \<open>\<open>[]rune(s)\<close>, every rune as its encoding; an invalid byte becomes U+FFFD.\<close>

function runes :: "string \<Rightarrow> string list" where
  "runes [] = []"
| "runes (c # s) =
     (if utf8_len (c # s) = 0 then replacement # runes s
      else take (utf8_len (c # s)) (c # s) # runes (drop (utf8_len (c # s)) (c # s)))"
  by pat_completeness auto
termination
proof (relation "measure length")
  show "utf8_len (c # s) \<noteq> 0 \<Longrightarrow> (drop (utf8_len (c # s)) (c # s), c # s) \<in> measure length" for c s
    by (simp add: diff_Suc_less del: utf8_len.simps)
qed auto

section \<open>Fitting text into cells\<close>

text \<open>The loop of \<open>stripANSI\<close>: escape sequences up to their final \<open>m\<close> are dropped.\<close>

fun strip_loop :: "bool \<Rightarrow> string \<Rightarrow> string" where
  "strip_loop inEscape [] = []"
| "strip_loop inEscape (c # s) =
     (if code c = 27 then strip_loop True s
      else if inEscape then strip_loop (c \<noteq> CHR ''m'') s
      else c # strip_loop False s)"

definition stripANSI :: "string \<Rightarrow> string" where
  "stripANSI v = strip_loop False v"

fun prefix_loop :: "(string \<Rightarrow> int) \<Rightarrow> int \<Rightarrow> int \<Rightarrow> string list \<Rightarrow> string list" where
  "prefix_loop W width used [] = []"
| "prefix_loop W width used (r # rs) =
     (if used + W r > width then [] else r # prefix_loop W width (used + W r) rs)"

definition visiblePrefix :: "(string \<Rightarrow> int) \<Rightarrow> string list \<Rightarrow> int \<Rightarrow> string" where
  "visiblePrefix W rs width = (if width \<le> 0 then [] else concat (prefix_loop W width 0 rs))"

definition truncateANSI :: "(string \<Rightarrow> int) \<Rightarrow> string \<Rightarrow> int \<Rightarrow> string" where
  "truncateANSI W text0 width =
     (if width \<le> 0 then []
      else
        let plain = stripANSI text0 in
        if W plain \<le> width then text0
        else if width \<le> 3 then visiblePrefix W (runes plain) width
        else visiblePrefix W (runes plain) (width - 3) @ ''...'')"

definition fitText :: "(string \<Rightarrow> int) \<Rightarrow> string \<Rightarrow> int \<Rightarrow> string" where
  "fitText W text0 width =
     (if width \<le> 0 then [] else if W text0 \<le> width then text0 else truncateANSI W text0 width)"

definition padVisible :: "(string \<Rightarrow> int) \<Rightarrow> string \<Rightarrow> int \<Rightarrow> string" where
  "padVisible W text0 width =
     (let t = fitText W text0 width in t @ replicate (nat (max 0 (width - W t))) CHR '' '')"

definition contentWidth :: "int \<Rightarrow> int" where
  "contentWidth width = (if width \<le> 0 then 76 else if width < 12 then width else width - 2)"

definition clampWidth :: "int \<Rightarrow> int \<Rightarrow> int \<Rightarrow> int" where
  "clampWidth width minimum maximum =
     (if width < minimum then minimum else if maximum > 0 \<and> width > maximum then maximum else width)"

datatype layout_mode = LayoutWide | LayoutCompact | LayoutNarrow

definition ResolveLayout :: "int \<Rightarrow> int \<Rightarrow> layout_mode" where
  "ResolveLayout width height =
     (if width \<ge> 110 \<and> height \<ge> 30 then LayoutWide
      else if width \<ge> 76 \<and> height \<ge> 20 then LayoutCompact else LayoutNarrow)"

section \<open>Hiding identifiers\<close>

definition privateField :: "bool \<Rightarrow> string \<Rightarrow> string" where
  "privateField redact v = (if redact \<and> v \<noteq> [] then ''[hidden]'' else v)"

definition privateMessage :: "bool \<Rightarrow> string \<Rightarrow> string" where
  "privateMessage redact v =
     (if \<not> redact \<or> v = [] then v
      else
        let lower = to_lower v in
        if has_suffix lower ''cancelled.'' \<or> has_suffix lower ''canceled.'' \<or> lower = ''cancelled''
        then ''Action cancelled.''
        else if contains lower ''failed:'' \<or> has_suffix lower ''failed''
        then ''Operation failed. Details hidden.''
        else ''Details hidden.'')"

section \<open>Motion\<close>

datatype stage = StageIdle | StageSelect | StageSignal

text \<open>Times are in nanoseconds; \<open>None\<close> is the zero time.\<close>

record motion =
  mo_enabled :: bool
  mo_frame :: nat
  mo_started :: "int option"
  mo_duration :: int
  mo_until :: "int option"
  mo_stage :: stage
  mo_origin :: int
  mo_dest :: int

definition NewMotion :: "bool \<Rightarrow> motion" where
  "NewMotion enabled = \<lparr>mo_enabled = enabled, mo_frame = 0, mo_started = None, mo_duration = 0, mo_until = None,
     mo_stage = StageIdle, mo_origin = 0, mo_dest = 0\<rparr>"

definition TriggerStage :: "int \<Rightarrow> stage \<Rightarrow> int \<Rightarrow> int \<Rightarrow> int \<Rightarrow> motion \<Rightarrow> motion" where
  "TriggerStage now st duration0 origin dest m =
     (if \<not> mo_enabled m then m
      else
        let duration = (if duration0 \<le> 0 then 800000000 else duration0) in
        m\<lparr>mo_stage := st, mo_origin := origin, mo_dest := dest, mo_started := Some now,
          mo_duration := duration, mo_until := Some (now + duration)\<rparr>)"

definition Active :: "int \<Rightarrow> motion \<Rightarrow> bool" where
  "Active now m \<longleftrightarrow> mo_enabled m \<and> mo_stage m \<noteq> StageIdle \<and>
     (case mo_until m of None \<Rightarrow> False | Some t \<Rightarrow> now < t)"

definition Step :: "int \<Rightarrow> motion \<Rightarrow> bool \<times> motion" where
  "Step now m = (if Active now m then (True, m\<lparr>mo_frame := mo_frame m + 1\<rparr>) else (False, m))"

definition TickInterval :: "motion \<Rightarrow> int" where
  "TickInterval m = (case mo_stage m of StageSelect \<Rightarrow> 40000000 | StageSignal \<Rightarrow> 33000000 | StageIdle \<Rightarrow> 0)"

section \<open>A fitted text fits\<close>

lemma prefix_loop_width:
  "used \<le> width \<Longrightarrow> used + sum_list (map W (prefix_loop W width used rs)) \<le> width"
proof (induction rs arbitrary: used)
  case (Cons r rs)
  show ?case
  proof (cases "used + W r > width")
    case False
    then show ?thesis using Cons.IH [of "used + W r"] by (simp add: algebra_simps)
  qed (use Cons.prems in simp)
qed simp

text \<open>What is used of \<open>lipgloss.Width\<close>.\<close>

definition cell_width :: "(string \<Rightarrow> int) \<Rightarrow> bool" where
  "cell_width W \<longleftrightarrow> W [] = 0 \<and> W ''...'' = 3 \<and> (\<forall>a b. W (a @ b) \<le> W a + W b)"

lemma width_concat: "cell_width W \<Longrightarrow> W (concat rs) \<le> sum_list (map W rs)"
proof (induction rs)
  case (Cons r rs)
  then have "W (r @ concat rs) \<le> W r + W (concat rs)" by (simp add: cell_width_def)
  with Cons show ?case by simp
qed (simp add: cell_width_def)

lemma width_prefix:
  assumes "cell_width W" and "0 \<le> width"
  shows "W (visiblePrefix W rs width) \<le> width"
  using prefix_loop_width [of 0 width W rs] width_concat [OF assms(1), of "prefix_loop W width 0 rs"] assms
  by (auto simp: visiblePrefix_def cell_width_def)

lemma strip_plain: "list_all (\<lambda>c. code c \<noteq> 27) s \<Longrightarrow> stripANSI s = s"
  unfolding stripANSI_def by (induction s) auto

text \<open>
  A fitted text takes no more cells than it is given, and one that fits is left alone, for every
  text without escape sequences: wide, combining and invalid characters included.
\<close>

theorem fitText_fits:
  assumes "cell_width W" and "list_all (\<lambda>c. code c \<noteq> 27) text0"
  shows "W (fitText W text0 width) \<le> max 0 width \<and> (W text0 \<le> width \<and> 0 < width \<longrightarrow> fitText W text0 width = text0)"
proof (cases "width \<le> 0 \<or> W text0 \<le> width")
  case True
  then show ?thesis using assms(1) by (auto simp: fitText_def cell_width_def)
next
  case False
  have "W (visiblePrefix W (runes text0) (width - 3) @ ''...'') \<le> width" if "3 < width"
  proof -
    have "W (visiblePrefix W (runes text0) (width - 3) @ ''...'') \<le> W (visiblePrefix W (runes text0) (width - 3)) + 3"
      using assms(1) unfolding cell_width_def by metis
    also have "\<dots> \<le> width" using width_prefix [OF assms(1), of "width - 3" "runes text0"] that by simp
    finally show ?thesis .
  qed
  then show ?thesis using False width_prefix [OF assms(1), of width "runes text0"] strip_plain [OF assms(2)]
    by (auto simp: fitText_def truncateANSI_def Let_def)
qed

theorem fitText_fits_witness:
  "fitText (\<lambda>s. int (length s)) ''a long machine name'' 9 = ''a long...'' \<and>
   int (length (fitText (\<lambda>s. int (length s)) ''a long machine name'' 9)) \<le> 9"
proof -
  have "cell_width (\<lambda>s. int (length s))" by (simp add: cell_width_def)
  moreover have "list_all (\<lambda>c. code c \<noteq> 27) ''a long machine name''" by code_simp
  moreover have "fitText (\<lambda>s. int (length s)) ''a long machine name'' 9 = ''a long...''" by code_simp
  ultimately show ?thesis using fitText_fits [of "\<lambda>s. int (length s)" "''a long machine name''" 9] by simp
qed

text \<open>An escape sequence that does not end in \<open>m\<close> hides the rest of the text from the check, and
  a text that does not fit is returned as it is.\<close>

lemma escape_defeats_fit:
  "fitText (\<lambda>s. int (length s)) (char_of (27::nat) # ''[2J wide label'') 5 = char_of (27::nat) # ''[2J wide label''"
  by code_simp

text \<open>With redaction on, a field shows nothing of its value but whether there is one.\<close>

lemma privateField_hides: "v \<noteq> [] \<Longrightarrow> w \<noteq> [] \<Longrightarrow> privateField True v = privateField True w"
  by (simp add: privateField_def)

lemma privateMessage_hides: "privateMessage True v \<in> {[], ''Action cancelled.'', ''Operation failed. Details hidden.'', ''Details hidden.''}"
  by (auto simp: privateMessage_def Let_def)

end
