(* ===== verification/TuiModel.thy ===== *)
theory TuiModel
  imports TuiText Fleet Discovery StoreProfiles "HOL-Library.Monad_Syntax"
begin

text \<open>
  The state of the Wake Desk (\<open>internal/tui\<close>: the struct \<open>WakeModel\<close> of \<open>wake.go\<close> and
  \<open>wakeForm\<close> of \<open>wake_forms.go\<close>), its messages and commands, and what it reads off its state
  (\<open>state_helpers.go\<close>, and the selection of \<open>render_machines.go\<close>).

  The struct is one record, built up by extension in the order of its concerns. Go's maps are
  functions, a nil map being the empty one: every write of the code makes the map first. A
  \<open>context.CancelFunc\<close> is the number of its context, so calling a nil one can be told from
  calling a real one; cancelled contexts are listed. The counters are \<open>uint64\<close> in the code and
  unbounded here. Styles and the theme are left out.

  The text inputs belong to a library: a type \<open>'i\<close> and the operations the code calls on it.
\<close>

section \<open>Forms\<close>

datatype form_kind = DeviceForm | RelayForm | RemoteProfileForm | PowerForm | SiteForm | ImportForm | ExportForm

record 'i input_lib =
  in_new :: 'i
  in_set :: "string \<Rightarrow> 'i \<Rightarrow> 'i"
  in_value :: "'i \<Rightarrow> string"
  in_focus :: "'i \<Rightarrow> 'i"
  in_blur :: "'i \<Rightarrow> 'i"
  in_key :: "string \<Rightarrow> 'i \<Rightarrow> 'i"

record 'i wake_form =
  wf_kind :: form_kind
  wf_id :: string
  wf_labels :: "string list"
  wf_values :: "string list"
  wf_inputs :: "'i list"
  wf_selected :: int
  wf_error :: string
  wf_saving :: bool

section \<open>The model\<close>

datatype view_phase = PhaseReady | PhaseBootLoading | PhaseRefreshing | PhaseCheckingMachine | PhaseLoadError

datatype loading_kind = LoadingBoot | LoadingRefresh

datatype loading_stage = StageInventory | StagePresence

record wake_data =
  wd_request :: nat
  wd_kind :: loading_kind
  wd_devices :: "device list"
  wd_sites :: "site list"
  wd_relays :: "wake_relay list"
  wd_profiles :: "remote_profile list"
  wd_history :: "wake_attempt list"
  wd_err :: "error option"

record desk_inventory =
  m_devices :: "device list"
  m_sites :: "site list"
  m_relays :: "wake_relay list"
  m_history :: "wake_attempt list"
  m_profiles :: "string \<Rightarrow> remote_profile option"
  m_presence :: "string \<Rightarrow> string option"
  m_presenceMethod :: "string \<Rightarrow> string option"
  m_presenceMessages :: "string \<Rightarrow> string option"
  m_streaming :: "string \<Rightarrow> bool"
  m_checkedDevice :: "string \<Rightarrow> int option"
  m_checkedAt :: "int option"

record desk_view = desk_inventory +
  m_width :: int
  m_height :: int
  m_tab :: int
  m_selected :: int
  m_siteFilter :: string
  m_stateFilter :: string
  m_filter :: string
  m_filterInput :: string
  m_filtering :: bool
  m_showHelp :: bool
  m_marked :: "string list"
  m_confirm :: string
  m_actionPicker :: bool
  m_pickerSelected :: int
  m_status :: string
  m_selectAfterLoad :: string
  m_motion :: motion
  m_motionID :: nat
  m_frame :: nat

record desk_batch = desk_view +
  m_lastBatchKind :: string
  m_showBatchResults :: bool
  m_batchPreviewIndex :: int
  m_batchKind :: string
  m_batchTargets :: "device list"
  m_batchResults :: "fleet_result list"
  m_batchID :: nat
  m_batchCancel :: "nat option"
  m_batchRunning :: bool
  m_scanDone :: int
  m_scanTotal :: int

record desk_lan = desk_batch +
  m_lanOpen :: bool
  m_lanHosts :: "lan_host list"
  m_lanUnknown :: "neighbor_entry list"
  m_lanSelected :: int
  m_lanUpdated :: int
  m_lanID :: nat
  m_lanIface :: string
  m_lanIfaces :: "string list"
  m_lanMarked :: "string \<Rightarrow> bool"
  m_lanQueue :: "neighbor_entry list"
  m_lanPrepareID :: nat
  m_lanPreparing :: bool

record desk_load = desk_lan +
  m_phase :: view_phase
  m_loadingKind :: loading_kind
  m_loadingStage :: loading_stage
  m_loadingTarget :: string
  m_loadingError :: string
  m_requestID :: nat
  m_loadContext :: "nat option"
  m_loadCancel :: "nat option"
  m_stale :: bool
  m_loading :: bool
  m_checking :: bool
  m_pending :: "wake_data option"

record desk_action = desk_load +
  m_waking :: bool
  m_opening :: bool
  m_shuttingDown :: bool
  m_action :: string
  m_actionCancel :: "nat option"
  m_actionContext :: "nat option"
  m_actionID :: nat
  m_actionTargetID :: string
  m_actionTarget :: string
  m_hasRemote :: bool
  m_hasStop :: bool

record 'i wake_model = desk_action +
  m_form :: "'i wake_form option"
  m_contexts :: nat
  m_cancelled :: "nat list"

text \<open>\<open>NewWakeModel\<close>; the two hooks are set by \<open>RunWakeDesk\<close> afterwards.\<close>

definition NewWakeModel :: "bool \<Rightarrow> bool \<Rightarrow> bool \<Rightarrow> 'i wake_model" where
  "NewWakeModel motion remote stop =
     \<lparr>m_devices = [], m_sites = [], m_relays = [], m_history = [], m_profiles = Map.empty, m_presence = Map.empty,
      m_presenceMethod = Map.empty, m_presenceMessages = Map.empty, m_streaming = (\<lambda>_. False),
      m_checkedDevice = Map.empty, m_checkedAt = None,
      m_width = 80, m_height = 24, m_tab = 0, m_selected = 0, m_siteFilter = [], m_stateFilter = [], m_filter = [],
      m_filterInput = [], m_filtering = False, m_showHelp = False, m_marked = [], m_confirm = [],
      m_actionPicker = False, m_pickerSelected = 0, m_status = ''Loading local inventory...'', m_selectAfterLoad = [],
      m_motion = NewMotion motion, m_motionID = 0, m_frame = 0,
      m_lastBatchKind = [], m_showBatchResults = False, m_batchPreviewIndex = 0, m_batchKind = [], m_batchTargets = [],
      m_batchResults = [], m_batchID = 0, m_batchCancel = None, m_batchRunning = False, m_scanDone = 0, m_scanTotal = 0,
      m_lanOpen = False, m_lanHosts = [], m_lanUnknown = [], m_lanSelected = 0, m_lanUpdated = 0, m_lanID = 0,
      m_lanIface = [], m_lanIfaces = [], m_lanMarked = (\<lambda>_. False), m_lanQueue = [], m_lanPrepareID = 0,
      m_lanPreparing = False,
      m_phase = PhaseBootLoading, m_loadingKind = LoadingBoot, m_loadingStage = StageInventory, m_loadingTarget = [],
      m_loadingError = [], m_requestID = 0, m_loadContext = None, m_loadCancel = None, m_stale = False, m_loading = True,
      m_checking = False, m_pending = None,
      m_waking = False, m_opening = False, m_shuttingDown = False, m_action = [], m_actionCancel = None,
      m_actionContext = None, m_actionID = 0, m_actionTargetID = [], m_actionTarget = [], m_hasRemote = remote,
      m_hasStop = stop,
      m_form = None, m_contexts = 0, m_cancelled = []\<rparr>"

section \<open>Commands and messages\<close>

text \<open>One run of \<open>fleet.Run\<close>, whose channel a command reads from: its context, its devices and
  sites, and whether it wakes them or checks them with the profiles of its start.\<close>

record fleet_run =
  fr_context :: nat
  fr_devices :: "device list"
  fr_sites :: "site list"
  fr_wakes :: bool
  fr_profiles :: "string \<Rightarrow> remote_profile option"

text \<open>A \<open>tea.Cmd\<close> is given by what its closure captures.\<close>

datatype desk_cmd =
    CmdQuit
  | CmdTick nat
  | CmdLoad nat nat loading_kind
  | CmdNextFleet fleet_run nat bool
  | CmdWake nat nat device bool
  | CmdOpenRemote nat nat device remote_profile
  | CmdDisconnect string string
  | CmdVerifyWake "nat option" nat device int
  | CmdVerifyShutdown "nat option" nat device int
  | CmdProbe nat nat device int
  | CmdDelete string
  | CmdSave form_kind string "string list" "site list" "wake_relay list"
  | CmdScanLAN nat string "device list"
  | CmdGuess nat neighbor_entry
  | CmdSiteCheck site

record lan_report =
  ld_ifaces :: "string list"
  ld_devices :: "device list"
  ld_profiles :: "remote_profile list"
  ld_known :: "lan_host list"
  ld_moved :: "lan_host list"
  ld_unknown :: "neighbor_entry list"
  ld_updated :: int
  ld_err :: "error option"

datatype desk_msg =
    MsgInterrupt
  | MsgWindow int int
  | MsgKey string
  | MsgData wake_data
  | MsgSiteCheck string
  | MsgFleet nat bool "fleet_result option" fleet_run
  | MsgWakeResult nat string string wake_result "error option"
  | MsgWakeVerify nat string string string
  | MsgRemoteResult nat string string "error option"
  | MsgDisconnect string string "error option"
  | MsgProbeResult nat string string string string "error option"
  | MsgProbeBatch nat "string \<Rightarrow> string option" "string \<Rightarrow> string option" presence_summary "error option"
  | MsgLANDiscover nat lan_report
  | MsgLANPrepare nat neighbor_entry string int
  | MsgTick nat
  | MsgShutdownInitiated string string
  | MsgShutdownVerify nat string string string
  | MsgFormSaved string string bool

text \<open>What a handler reads outside the model: the clock, the text inputs, two rows of the store,
  the interfaces, reverse DNS, and \<open>unicode.IsPrint\<close> on the rune of a key.\<close>

record 'i desk_env =
  de_now :: int
  de_inputs :: "'i input_lib"
  de_power :: "string \<Rightarrow> power_profile option"
  de_remote :: "string \<Rightarrow> remote_profile option"
  de_interfaces :: "iface list option"
  de_lookup :: "string \<Rightarrow> (string list) result"
  de_printable :: "string \<Rightarrow> bool"

text \<open>A handler gives the new model and the commands to run; \<open>None\<close> where the code would panic (an
  index out of range, a nil function called).\<close>

type_synonym 'i handled = "('i wake_model \<times> desk_cmd list) option"

definition go_index :: "'a list \<Rightarrow> int \<Rightarrow> 'a option" where
  "go_index xs i = (if 0 \<le> i \<and> i < int (length xs) then Some (xs ! nat i) else None)"

text \<open>Go's remainder for a positive divisor takes the sign of the dividend.\<close>

definition go_rem :: "int \<Rightarrow> int \<Rightarrow> int" where
  "go_rem a b = (if a < 0 then - ((- a) mod b) else a mod b)"

definition still :: "'i wake_model \<Rightarrow> 'i handled" where
  "still m = Some (m, [])"

definition say :: "string \<Rightarrow> 'i wake_model \<Rightarrow> 'i handled" where
  "say s m = still (m\<lparr>m_status := s\<rparr>)"

definition dot :: string where
  "dot = [CHR '' '', char_of (0xC2::nat), char_of (0xB7::nat), CHR '' '']"

section \<open>Contexts\<close>

definition cancel_context :: "nat option \<Rightarrow> 'i wake_model \<Rightarrow> 'i wake_model" where
  "cancel_context c m = (case c of None \<Rightarrow> m | Some k \<Rightarrow> m\<lparr>m_cancelled := k # m_cancelled m\<rparr>)"

text \<open>Calling a cancel function that may be nil.\<close>

definition call_cancel :: "nat option \<Rightarrow> 'i wake_model \<Rightarrow> 'i wake_model option" where
  "call_cancel c m = (case c of None \<Rightarrow> None | Some k \<Rightarrow> Some (cancel_context c m))"

section \<open>Motion\<close>

definition motionTick :: "'i desk_env \<Rightarrow> 'i wake_model \<Rightarrow> desk_cmd list" where
  "motionTick env m =
     (if \<not> Active (de_now env) (m_motion m) \<or> TickInterval (m_motion m) \<le> 0 then [] else [CmdTick (m_motionID m)])"

definition triggerMotion :: "'i desk_env \<Rightarrow> stage \<Rightarrow> int \<Rightarrow> int \<Rightarrow> int \<Rightarrow> 'i wake_model \<Rightarrow> 'i wake_model \<times> desk_cmd list" where
  "triggerMotion env st duration origin dest m =
     (let m' = m\<lparr>m_motionID := m_motionID m + 1, m_motion := TriggerStage (de_now env) st duration origin dest (m_motion m)\<rparr> in
      (m', motionTick env m'))"

definition stopMotion :: "'i wake_model \<Rightarrow> 'i wake_model" where
  "stopMotion m = m\<lparr>m_motionID := m_motionID m + 1, m_motion := (m_motion m)\<lparr>mo_until := None\<rparr>\<rparr>"

definition sig_motion :: "'i desk_env \<Rightarrow> int \<Rightarrow> 'i wake_model \<Rightarrow> 'i wake_model \<times> desk_cmd list" where
  "sig_motion env ms m = triggerMotion env StageSignal (ms * 1000000) 0 0 m"

section \<open>Reading the state\<close>

definition deviceState :: "'i wake_model \<Rightarrow> device \<Rightarrow> string" where
  "deviceState m dev =
     (if \<not> d_enabled dev then ''DISABLED''
      else case m_presence m (d_id dev) of
        None \<Rightarrow> ''UNKNOWN''
      | Some st \<Rightarrow> if st = [] then ''UNKNOWN'' else to_upper st)"

fun site_name_in :: "site list \<Rightarrow> string \<Rightarrow> string" where
  "site_name_in [] i = (if i = [] then ''Unassigned'' else i)"
| "site_name_in (s # ss) i = (if s_id s = i then s_name s else site_name_in ss i)"

definition siteName :: "'i wake_model \<Rightarrow> string \<Rightarrow> string" where
  "siteName m i = site_name_in (m_sites m) i"

definition in_filter :: "'i wake_model \<Rightarrow> device \<Rightarrow> bool" where
  "in_filter m item =
     (if m_siteFilter m = ''unassigned'' \<and> d_site_id item \<noteq> [] then False
      else if m_siteFilter m \<noteq> [] \<and> m_siteFilter m \<noteq> ''unassigned'' \<and> d_site_id item \<noteq> m_siteFilter m then False
      else if m_stateFilter m \<noteq> [] \<and> \<not> equal_fold (deviceState m item) (m_stateFilter m) then False
      else contains (to_lower (join '' '' [d_name item, d_mac item, d_ip item, d_relay_id item, siteName m (d_site_id item)]))
             (to_lower (trim_space (m_filter m))))"

definition filteredDevices :: "'i wake_model \<Rightarrow> device list" where
  "filteredDevices m = filter (in_filter m) (m_devices m)"

definition filterMessage :: "string \<Rightarrow> string" where
  "filterMessage v = (if v = [] then ''Showing all machines.'' else ''Filtering machines by '' @ v @ ''.'')"

definition statusNeedsAttention :: "string \<Rightarrow> bool" where
  "statusNeedsAttention v = list_ex (contains (to_lower v)) [''failed'', ''invalid'', ''required'', ''unavailable'', ''could not'']"

definition routeLabel :: "route \<Rightarrow> string" where
  "routeLabel r =
     (if rt_kind r = ''relay'' then ''relay '' @ rt_name r
      else case rt_destination r of None \<Rightarrow> ''direct'' | Some ip \<Rightarrow> ip_string ip)"

text \<open>The relay a device takes from its site: the last site with the device's site ID wins.\<close>

definition inherit_relay :: "site list \<Rightarrow> device \<Rightarrow> device" where
  "inherit_relay sites dev =
     (if d_relay_id dev \<noteq> [] then dev
      else foldl (\<lambda>dv s. if s_id s = d_site_id dv then dv\<lparr>d_relay_id := s_relay_id s\<rparr> else dv) dev sites)"

definition routeTarget :: "'i wake_model \<Rightarrow> device \<Rightarrow> string \<times> int" where
  "routeTarget m dev =
     (let destination = trim_space (d_broadcast dev);
          (destination, port) =
            (if d_site_id dev = [] then (destination, d_port dev)
             else case List.find (\<lambda>s. s_id s = d_site_id dev) (m_sites m) of
               None \<Rightarrow> (destination, d_port dev)
             | Some s \<Rightarrow> (if destination = [] then trim_space (s_broadcast s) else destination,
                 if d_port dev = 0 then s_port s else d_port dev)) in
      (if destination = [] then ''255.255.255.255'' else destination, if port = 0 then 9 else port))"

record capability =
  cap_state :: string
  cap_detail :: string

definition blocked :: "string \<Rightarrow> capability" where
  "blocked s = \<lparr>cap_state = ''BLOCKED'', cap_detail = s\<rparr>"

text \<open>\<open>W\<close> is \<open>lipgloss.Width\<close>.\<close>

definition relay_capability :: "(string \<Rightarrow> int) \<Rightarrow> wake_relay \<Rightarrow> capability" where
  "relay_capability W relay =
     (if \<not> r_enabled relay then blocked (''relay '' @ fitText W (r_name relay) 18 @ '' is disabled'')
      else if trim_space (r_address relay) = [] then blocked ''relay has no SSH address''
      else if r_port relay < 0 \<or> r_port relay > 65535 then blocked ''relay has invalid SSH port''
      else if trim_space (r_transport relay) \<noteq> [] \<and> \<not> equal_fold (trim_space (r_transport relay)) ''ssh_etherwake''
      then blocked ''relay transport is unsupported''
      else \<lparr>cap_state = ''READY'', cap_detail = ''relay '' @ fitText W (r_name relay) 18\<rparr>)"

definition wakeCapability :: "(string \<Rightarrow> int) \<Rightarrow> 'i wake_model \<Rightarrow> device \<Rightarrow> capability" where
  "wakeCapability W m dev0 =
     (let dev = inherit_relay (m_sites m) dev0 in
      if \<not> d_enabled dev then blocked ''machine disabled (use f to force)''
      else if \<not> is_ok (ParseMAC (d_mac dev)) then blocked ''invalid MAC address''
      else if equal_fold (trim_space (d_strategy dev)) ''relay'' \<or> trim_space (d_relay_id dev) \<noteq> [] then
        (if trim_space (d_relay_id dev) = [] then blocked ''relay route is missing''
         else case List.find (\<lambda>r. r_id r = d_relay_id dev) (m_relays m) of
           None \<Rightarrow> blocked ''relay route not found''
         | Some relay \<Rightarrow> relay_capability W relay)
      else case routeTarget m dev of (destination, port) \<Rightarrow>
        if parse_to4 destination = None then blocked ''invalid broadcast address''
        else if port < 1 \<or> port > 65535 then blocked ''invalid UDP port''
        else \<lparr>cap_state = ''READY'', cap_detail = ''direct broadcast '' @ destination @ '':'' @ itoa port\<rparr>)"

definition powerWord :: "string \<Rightarrow> string" where
  "powerWord st =
     (let u = to_upper (trim_space st) in
      if u = ''ONLINE'' then ''online'' else if u = ''OFFLINE'' then ''unreachable''
      else if u = ''DISABLED'' then ''off'' else if u = ''CHECKING'' then ''check'' else ''unknown'')"

definition presenceDetail :: "bool \<Rightarrow> 'i wake_model \<Rightarrow> device \<Rightarrow> string" where
  "presenceDetail redact m dev =
     (let st = powerWord (deviceState m dev);
          method = trim_space (case m_presenceMethod m (d_id dev) of None \<Rightarrow> [] | Some s \<Rightarrow> s) in
      if method \<noteq> [] \<and> method \<noteq> ''none'' then st @ '' via '' @ privateField redact method else st)"

definition streamProfile :: "remote_profile \<Rightarrow> bool" where
  "streamProfile p \<longleftrightarrow> rp_protocol p = ''sunshine'' \<or> rp_mode p = ''native-moonlight''"

definition actionWord :: "(string \<Rightarrow> int) \<Rightarrow> 'i wake_model \<Rightarrow> device \<Rightarrow> string" where
  "actionWord W m dev =
     (if m_streaming m (d_id dev) then ''streaming''
      else if cap_state (wakeCapability W m dev) = ''BLOCKED'' then ''blocked''
      else case m_profiles m (d_id dev) of
        None \<Rightarrow> ''setup''
      | Some p \<Rightarrow> if streamProfile p then ''stream'' else ''remote'')"

definition actionState :: "string \<Rightarrow> string" where
  "actionState word =
     (if word \<in> {''streaming'', ''stream'', ''remote'', ''online''} then ''ONLINE''
      else if word = ''blocked'' then ''BLOCKED'' else if word = ''setup'' then ''UNKNOWN'' else ''READY'')"

definition routeText :: "'i wake_model \<Rightarrow> device \<Rightarrow> string" where
  "routeText m dev0 =
     (let dev = inherit_relay (m_sites m) dev0 in
      if equal_fold (d_strategy dev) ''relay'' \<or> d_relay_id dev \<noteq> [] then
        (if d_relay_id dev = [] then ''relay missing''
         else case List.find (\<lambda>r. r_id r = d_relay_id dev) (m_relays m) of
           None \<Rightarrow> ''relay unavailable'' | Some r \<Rightarrow> ''relay '' @ r_name r)
      else case routeTarget m dev of (destination, port) \<Rightarrow> ''broadcast '' @ destination @ '':'' @ itoa port)"

text \<open>Online, offline, unknown, disabled, checking, ready and blocked machines.\<close>

record machine_summary =
  ms_online :: nat
  ms_offline :: nat
  ms_unknown :: nat
  ms_disabled :: nat
  ms_checking :: nat
  ms_ready :: nat
  ms_blocked :: nat

definition count_machine :: "(string \<Rightarrow> int) \<Rightarrow> 'i wake_model \<Rightarrow> machine_summary \<Rightarrow> device \<Rightarrow> machine_summary" where
  "count_machine W m s dev =
     (let st = deviceState m dev;
          s = (if st = ''ONLINE'' then s\<lparr>ms_online := ms_online s + 1\<rparr>
               else if st = ''OFFLINE'' then s\<lparr>ms_offline := ms_offline s + 1\<rparr>
               else if st = ''CHECKING'' then s\<lparr>ms_checking := ms_checking s + 1\<rparr>
               else if st = ''DISABLED'' then s\<lparr>ms_disabled := ms_disabled s + 1\<rparr>
               else s\<lparr>ms_unknown := ms_unknown s + 1\<rparr>) in
      if cap_state (wakeCapability W m dev) = ''READY'' then s\<lparr>ms_ready := ms_ready s + 1\<rparr>
      else s\<lparr>ms_blocked := ms_blocked s + 1\<rparr>)"

definition machineSummary :: "(string \<Rightarrow> int) \<Rightarrow> 'i wake_model \<Rightarrow> device list \<Rightarrow> machine_summary" where
  "machineSummary W m devs = foldl (count_machine W m)
     \<lparr>ms_online = 0, ms_offline = 0, ms_unknown = 0, ms_disabled = 0, ms_checking = 0, ms_ready = 0, ms_blocked = 0\<rparr> devs"

section \<open>The selection\<close>

definition busy :: "'i wake_model \<Rightarrow> bool" where
  "busy m \<longleftrightarrow> m_waking m \<or> m_opening m \<or> m_shuttingDown m"

text \<open>\<open>devices[min(m.selected, len(devices)-1)]\<close>.\<close>

definition pick :: "'i wake_model \<Rightarrow> 'a list \<Rightarrow> 'a option" where
  "pick m xs = go_index xs (min (m_selected m) (int (length xs) - 1))"

text \<open>\<open>actionDevice\<close>: the outer \<open>None\<close> is a panic, the inner one the missing device.\<close>

definition actionDevice :: "'i wake_model \<Rightarrow> device option option" where
  "actionDevice m =
     (if m_actionTargetID m = [] then
        (let devs = filteredDevices m in
         if busy m \<and> devs \<noteq> [] then map_option Some (pick m devs) else Some None)
      else Some (List.find (\<lambda>dev. d_id dev = m_actionTargetID m) (m_devices m)))"

definition selectedDevice :: "'i wake_model \<Rightarrow> device list \<Rightarrow> device option option" where
  "selectedDevice m devs =
     (if devs = [] then Some None
      else case actionDevice m of
        None \<Rightarrow> None
      | Some t \<Rightarrow> if t \<noteq> None \<and> busy m then Some t else map_option Some (pick m devs))"

text \<open>The loop over the number of rows that fit.\<close>

fun fit_rows :: "int \<Rightarrow> int \<Rightarrow> nat \<Rightarrow> nat" where
  "fit_rows base budget 0 = 0"
| "fit_rows base budget (Suc 0) = 1"
| "fit_rows base budget (Suc (Suc n)) =
     (if int (Suc (Suc n)) * base + 2 \<le> budget then Suc (Suc n) else fit_rows base budget (Suc n))"

definition machineViewport :: "'i wake_model \<Rightarrow> device list \<Rightarrow> int \<Rightarrow> device list \<times> int" where
  "machineViewport m devs width =
     (if devs = [] \<or> m_height m \<le> 0 then (devs, 0)
      else
        let base = (if width < 36 then 2 else 1);
            budget = max (base + 1) (m_height m - 10 - (if m_showHelp m then 8 else 0));
            count = fit_rows base budget (length devs) in
        if count \<ge> length devs then (devs, 0)
        else
          let start = max 0 (min (m_selected m - int count div 2) (int (length devs) - int count)) in
          (take count (drop (nat start) devs), start))"

end
