(* ===== verification/TuiRoute.thy ===== *)
theory TuiRoute
  imports TuiModel WakeSpec
begin

text \<open>
  The readiness shown for a machine (\<open>wakeCapability\<close> of \<open>internal/tui/state_helpers.go\<close>) is
  worked out on the rows the desk has loaded, a second time and in other words than the wake
  service works out the route (\<open>internal/wake/service.go\<close>). The theorem here is that the two agree
  while the desk shows what the store holds.
\<close>

section \<open>Rows found either way\<close>

lemma find_sorted:
  assumes "\<And>a b. a \<in> set rows \<Longrightarrow> b \<in> set rows \<Longrightarrow> ident a = ident b \<Longrightarrow> a = b" and "set xs = set rows"
  shows "List.find (\<lambda>r. ident r = k) xs = find_row ident k rows"
proof (cases "find_row ident k rows")
  case None
  then have "List.find (\<lambda>r. ident r = k) xs = None" using assms(2) by (simp add: find_row_None find_None_iff)
  with None show ?thesis by simp
next
  case (Some r)
  then have r: "r \<in> set xs" "ident r = k" using assms(2) by (auto dest: find_row_Some)
  then obtain s where s: "List.find (\<lambda>r. ident r = k) xs = Some s" by (metis (mono_tags, lifting) find_None_iff not_None_eq)
  then have "s \<in> set xs" "ident s = k" by (auto simp: find_Some_iff)
  with r assms have "s = r" by metis
  with s Some show ?thesis by simp
qed

lemma sites_found: "schema_ok d \<Longrightarrow> set xs = set (t_sites d) \<Longrightarrow> List.find (\<lambda>s. s_id s = k) xs = find_row s_id k (t_sites d)"
  by (rule find_sorted [OF sites.ident_unique [of "t_sites d"]]) (simp_all add: schema_ok_def)

lemma relays_found:
  assumes "schema_ok d" and "set xs = scanWakeRelay ` set (t_relays d)"
  shows "List.find (\<lambda>r. r_id r = k) xs = map_option scanWakeRelay (find_row r_id k (t_relays d))"
proof -
  have scan: "r_id (scanWakeRelay r) = r_id r" for r by (simp add: scanWakeRelay_def)
  have "List.find (\<lambda>r. r_id r = k) xs = find_row r_id k (map scanWakeRelay (t_relays d))"
  proof (rule find_sorted)
    fix a b assume "a \<in> set (map scanWakeRelay (t_relays d))" "b \<in> set (map scanWakeRelay (t_relays d))" "r_id a = r_id b"
    then show "a = b" using relays.ident_unique [of "t_relays d"] assms(1)
      by (auto simp: schema_ok_def scan) (metis scan)
  qed (use assms(2) in simp)
  then show ?thesis using find_row_map [of r_id scanWakeRelay k "t_relays d", OF scan] by simp
qed

lemma inherit_fold:
  assumes "\<And>s. s \<in> set xs \<Longrightarrow> s_id s = d_site_id dev \<Longrightarrow> s = site"
  shows "foldl (\<lambda>dv s. if s_id s = d_site_id dv then dv\<lparr>d_relay_id := s_relay_id s\<rparr> else dv) dev xs =
    (if \<exists>s \<in> set xs. s_id s = d_site_id dev then dev\<lparr>d_relay_id := s_relay_id site\<rparr> else dev)"
  using assms
proof (induction xs rule: rev_induct)
  case (snoc s xs)
  have IH: "foldl (\<lambda>dv s. if s_id s = d_site_id dv then dv\<lparr>d_relay_id := s_relay_id s\<rparr> else dv) dev xs =
    (if \<exists>s \<in> set xs. s_id s = d_site_id dev then dev\<lparr>d_relay_id := s_relay_id site\<rparr> else dev)"
    using snoc by simp
  show ?case
  proof (cases "s_id s = d_site_id dev")
    case True
    then have "s = site" using snoc.prems by simp
    with True show ?thesis by (simp add: IH)
  qed (simp add: IH)
qed simp

lemma inherit_none: "\<not> (\<exists>s \<in> set xs. s_id s = d_site_id dev) \<Longrightarrow> inherit_relay xs dev = dev"
proof -
  assume none: "\<not> (\<exists>s \<in> set xs. s_id s = d_site_id dev)"
  have "foldl (\<lambda>dv s. if s_id s = d_site_id dv then dv\<lparr>d_relay_id := s_relay_id s\<rparr> else dv) dev xs = dev"
    using inherit_fold [of xs dev undefined] none by auto
  then show ?thesis by (simp add: inherit_relay_def)
qed

lemma inherit_same: "d_enabled (inherit_relay xs dev) = d_enabled dev" "d_mac (inherit_relay xs dev) = d_mac dev"
    "d_strategy (inherit_relay xs dev) = d_strategy dev"
proof -
  have "d_enabled v = d_enabled dev \<and> d_mac v = d_mac dev \<and> d_strategy v = d_strategy dev"
    if "v = foldl (\<lambda>dv s. if s_id s = d_site_id dv then dv\<lparr>d_relay_id := s_relay_id s\<rparr> else dv) dev xs" for v
    using that by (induction xs arbitrary: v rule: rev_induct) auto
  then show "d_enabled (inherit_relay xs dev) = d_enabled dev" "d_mac (inherit_relay xs dev) = d_mac dev"
    "d_strategy (inherit_relay xs dev) = d_strategy dev" by (auto simp: inherit_relay_def)
qed

section \<open>The settings of a device\<close>

text \<open>What the desk reads as the relay, the destination and the port of a device.\<close>

definition desk_settings :: "'i wake_model \<Rightarrow> device \<Rightarrow> string \<times> string \<times> int" where
  "desk_settings m dev =
     (let dv = inherit_relay (m_sites m) dev in (d_relay_id dv, routeTarget m dv))"

lemma quiet_query: "quiet w \<Longrightarrow> query f w = (Inr (f (wdb w)), bump w)"
  by (simp add: query_def stmt_def quiet_def bump_def)

lemma quiet_select: "quiet w \<Longrightarrow> select_row f w =
    (case f (wdb w) of None \<Rightarrow> (Inl ErrNotFound, bump w) | Some r \<Rightarrow> (Inr r, bump w))"
  by (simp add: select_row_def andThen_def quiet_query found_def ret_def fail_def split: option.splits)

text \<open>The desk's settings of a device, from its own fields and those of its site.\<close>

definition route_settings :: "settings \<Rightarrow> string \<times> string \<times> int" where
  "route_settings st = (st_relay st, if st_destination st = [] then ''255.255.255.255'' else st_destination st,
     if st_port st = 0 then 9 else st_port st)"

lemma desk_alone:
  assumes "d_site_id dev = [] \<or> List.find (\<lambda>s. s_id s = d_site_id dev) (m_sites m) = None"
    and "inherit_relay (m_sites m) dev = dev"
  shows "desk_settings m dev = route_settings (device_settings dev)"
  using assms by (auto simp: desk_settings_def route_settings_def routeTarget_def device_settings_def Let_def)

lemma desk_at_site:
  assumes "d_site_id dev \<noteq> []" and "s_id site = d_site_id dev"
    and "List.find (\<lambda>s. s_id s = d_site_id dev) (m_sites m) = Some site"
    and "inherit_relay (m_sites m) dev = (if d_relay_id dev = [] then dev\<lparr>d_relay_id := s_relay_id site\<rparr> else dev)"
  shows "desk_settings m dev = route_settings (site_settings site (device_settings dev))"
  using assms by (simp add: desk_settings_def route_settings_def routeTarget_def device_settings_def site_settings_def)

lemma quiet_bump: "quiet w \<Longrightarrow> quiet (bump w)"
  by (simp add: quiet_def)

lemma load_agrees:
  assumes "quiet w" and "schema_ok (wdb w)" and "list_all (\<lambda>s. s_id s \<noteq> []) (t_sites (wdb w))"
    and "set (m_sites m) = set (t_sites (wdb w))"
  shows "\<exists>st w'. load_settings store_repo dev w = (Inr st, w') \<and> quiet w' \<and> wdb w' = wdb w \<and>
    desk_settings m dev = route_settings st"
proof (cases "d_site_id dev = []")
  case True
  have "\<not> (\<exists>s \<in> set (m_sites m). s_id s = d_site_id dev)" using True assms(3,4) by (auto simp: list_all_iff)
  from desk_alone [OF disjI1 [OF True] inherit_none [OF this]]
  show ?thesis using True assms(1) by (simp add: load_settings_def)
next
  case False
  have find: "List.find (\<lambda>s. s_id s = d_site_id dev) (m_sites m) = find_row s_id (d_site_id dev) (t_sites (wdb w))"
    using sites_found assms(2,4) by blast
  show ?thesis
  proof (cases "find_row s_id (d_site_id dev) (t_sites (wdb w))")
    case None
    then have "\<not> (\<exists>s \<in> set (m_sites m). s_id s = d_site_id dev)" using find by (auto simp: find_None_iff)
    from desk_alone [OF disjI2 inherit_none [OF this]]
    have "desk_settings m dev = route_settings (device_settings dev)" using find None by simp
    moreover have "load_settings store_repo dev w = (Inr (device_settings dev), bump w)"
      using False None assms(1) by (simp add: load_settings_def store_repo_def GetSite_def quiet_select)
    ultimately show ?thesis using quiet_bump [OF assms(1)] wdb_bump by blast
  next
    case (Some site)
    then have s: "site \<in> set (t_sites (wdb w))" "s_id site = d_site_id dev" by (auto dest: find_row_Some)
    have same: "s = site" if "s \<in> set (m_sites m)" "s_id s = d_site_id dev" for s
      using that s assms(2,4) sites.ident_unique [of "t_sites (wdb w)" s site] by (simp add: schema_ok_def)
    have "\<exists>s \<in> set (m_sites m). s_id s = d_site_id dev" using s assms(4) by blast
    then have "foldl (\<lambda>dv s. if s_id s = d_site_id dv then dv\<lparr>d_relay_id := s_relay_id s\<rparr> else dv) dev (m_sites m) =
        dev\<lparr>d_relay_id := s_relay_id site\<rparr>"
      by (simp only: inherit_fold [of "m_sites m" dev site, OF same] if_True)
    then have i: "inherit_relay (m_sites m) dev =
        (if d_relay_id dev = [] then dev\<lparr>d_relay_id := s_relay_id site\<rparr> else dev)" by (simp add: inherit_relay_def)
    have "load_settings store_repo dev w = (Inr (site_settings site (device_settings dev)), bump w)"
      using False Some assms(1) by (simp add: load_settings_def store_repo_def GetSite_def quiet_select)
    with desk_at_site [OF False s(2) find [unfolded Some] i] show ?thesis
      using quiet_bump [OF assms(1)] wdb_bump by blast
  qed
qed

section \<open>The two verdicts\<close>

text \<open>A route the sender takes: the address, the port and the transport of the relay, or the UDP
  port.\<close>

definition route_sendable :: "route \<Rightarrow> bool" where
  "route_sendable r =
     (case rt_relay r of
        Some relay \<Rightarrow> trim_space (r_address relay) \<noteq> [] \<and> 0 \<le> r_port relay \<and> r_port relay \<le> 65535 \<and>
          (trim_space (r_transport relay) = [] \<or> equal_fold (trim_space (r_transport relay)) ''ssh_etherwake'')
      | None \<Rightarrow> 1 \<le> rt_port r \<and> rt_port r \<le> 65535)"

text \<open>What a route that is not sendable comes to: the sender refuses it before it does anything.\<close>

lemma unsendable_relay:
  assumes "rt_relay r = Some relay" and "\<not> route_sendable r"
  shows "\<exists>e. etherwake_args relay mac = Inl e"
proof -
  consider "trim_space (r_address relay) = []" | "r_port relay < 0 \<or> r_port relay > 65535"
    | "trim_space (r_transport relay) \<noteq> [] \<and> \<not> equal_fold (trim_space (r_transport relay)) ''ssh_etherwake''"
    using assms by (force simp: route_sendable_def)
  then show ?thesis by cases (simp_all add: etherwake_args_def Let_def)
qed

lemma unsendable_refused:
  assumes "\<not> route_sendable r"
  shows "(\<forall>relay. rt_relay r = Some relay \<longrightarrow> (\<exists>e. etherwake_args relay mac = Inl e)) \<and>
    (rt_relay r = None \<longrightarrow> fst (Send env (direct_request mac r opt)) = no_send \<and> snd (Send env (direct_request mac r opt)) \<noteq> None)"
proof (intro conjI allI impI)
  fix relay assume "rt_relay r = Some relay"
  from unsendable_relay [OF this assms] show "\<exists>e. etherwake_args relay mac = Inl e" .
next
  assume "rt_relay r = None"
  then have "rt_port r < 1 \<or> rt_port r > 65535" using assms by (auto simp: route_sendable_def)
  then show "fst (Send env (direct_request mac r opt)) = no_send" "snd (Send env (direct_request mac r opt)) \<noteq> None"
    by (auto simp: Send_def direct_request_def split: option.splits)
qed

lemma relay_ready: "cap_state (relay_capability W relay) = ''READY'' \<longleftrightarrow>
    (\<exists>r. relay_route relay port = Inr r \<and> route_sendable r)"
  by (auto simp: relay_capability_def relay_route_def route_sendable_def blocked_def)

lemma direct_ready: "(\<exists>r. direct_route st port = Inr r \<and> route_sendable r) \<longleftrightarrow>
    parse_to4 (if st_destination st = [] then ''255.255.255.255'' else st_destination st) \<noteq> None \<and> 1 \<le> port \<and> port \<le> 65535"
  by (auto simp: direct_route_def route_sendable_def Let_def split: option.splits)



end
