(* ===== verification/TuiActions.thy ===== *)
theory TuiActions
  imports TuiModel
begin

text \<open>
  What the Wake Desk does outside its forms: loading and refreshing (\<open>wake_lifecycle.go\<close>),
  checking one machine (\<open>wake_presence.go\<close>), waking, opening and disconnecting
  (\<open>wake_actions.go\<close>), batches (\<open>fleet.go\<close>) and the cursor (\<open>wake.go\<close>, \<open>sites.go\<close>).
\<close>

section \<open>Loading\<close>

definition finishLoadContext :: "'i wake_model \<Rightarrow> 'i wake_model" where
  "finishLoadContext m = (cancel_context (m_loadCancel m) m)\<lparr>m_loadCancel := None, m_loadContext := None\<rparr>"

definition open_load_context :: "'i wake_model \<Rightarrow> 'i wake_model" where
  "open_load_context m = m\<lparr>m_loadContext := Some (m_contexts m), m_loadCancel := Some (m_contexts m),
     m_contexts := m_contexts m + 1\<rparr>"

definition beginRefresh :: "'i desk_env \<Rightarrow> loading_kind \<Rightarrow> 'i wake_model \<Rightarrow> 'i handled" where
  "beginRefresh env kind m =
     (let m = cancel_context (m_loadCancel m) m;
          m = m\<lparr>m_requestID := m_requestID m + 1, m_loadingKind := kind, m_loadingStage := StageInventory,
               m_loadingTarget := [], m_loadingError := [], m_pending := None, m_loading := True, m_checking := False,
               m_phase := if kind = LoadingBoot then PhaseBootLoading else PhaseReady,
               m_status := ''Reading local inventory...''\<rparr>;
          (m, motion) = sig_motion env 15000 m;
          m = open_load_context m in
      Some (m, CmdLoad (m_contexts m - 1) (m_requestID m) kind # motion))"

definition failLoading :: "string \<Rightarrow> 'i wake_model \<Rightarrow> 'i handled" where
  "failLoading message m =
     (let wasBoot = (m_phase m = PhaseBootLoading \<and> m_devices m = []);
          m = finishLoadContext (stopMotion (m\<lparr>m_pending := None, m_loading := False, m_checking := False\<rparr>)) in
      if wasBoot then still (m\<lparr>m_phase := PhaseLoadError, m_loadingError := message, m_status := message\<rparr>)
      else still (m\<lparr>m_phase := PhaseReady, m_stale := True,
             m_status := message @ '' Showing the last verified state. Press r to retry.''\<rparr>))"

definition cancelLoading :: "'i wake_model \<Rightarrow> 'i wake_model" where
  "cancelLoading m =
     (stopMotion ((finishLoadContext m)\<lparr>m_requestID := m_requestID m + 1, m_pending := None, m_loading := False,
        m_checking := False, m_phase := PhaseReady\<rparr>))
       \<lparr>m_status := ''Check cancelled. Showing the last verified state.''\<rparr>"

text \<open>The position of the first machine with an ID.\<close>

fun index_of :: "string \<Rightarrow> device list \<Rightarrow> nat option" where
  "index_of i [] = None"
| "index_of i (v # vs) = (if d_id v = i then Some 0 else map_option Suc (index_of i vs))"

definition reselect :: "string \<Rightarrow> 'i wake_model \<Rightarrow> 'i wake_model" where
  "reselect i m =
     (if i = [] then m
      else case index_of i (filteredDevices m) of None \<Rightarrow> m | Some k \<Rightarrow> m\<lparr>m_selected := int k\<rparr>)"

text \<open>The machine under the cursor, on the machines tab.\<close>

definition selectedID :: "'i wake_model \<Rightarrow> string option" where
  "selectedID m =
     (if m_tab m = 0
      then map_option (\<lambda>d. case d of None \<Rightarrow> [] | Some v \<Rightarrow> d_id v) (selectedDevice m (filteredDevices m))
      else Some [])"

definition row_count :: "'i wake_model \<Rightarrow> int" where
  "row_count m =
     (if m_tab m = 0 then int (length (filteredDevices m))
      else if m_tab m = 3 then int (length (m_sites m))
      else if m_tab m = 1 then int (length (m_relays m))
      else int (length (m_history m)))"

definition profile_map :: "remote_profile list \<Rightarrow> string \<Rightarrow> remote_profile option" where
  "profile_map ps = foldl (\<lambda>f p. f(rp_device_id p \<mapsto> p)) Map.empty ps"

definition commitPending :: "(string \<Rightarrow> string option) \<Rightarrow> (string \<Rightarrow> string option) \<Rightarrow> presence_summary
    \<Rightarrow> 'i wake_model \<Rightarrow> 'i wake_model option" where
  "commitPending statuses methods summary m =
     (case m_pending m of
        None \<Rightarrow> Some m
      | Some data \<Rightarrow> do {
          under \<leftarrow> selectedID m;
          let i = (if m_selectAfterLoad m = [] then under else m_selectAfterLoad m);
          let m = m\<lparr>m_selectAfterLoad := [], m_devices := wd_devices data, m_sites := wd_sites data,
                m_relays := wd_relays data, m_history := wd_history data, m_profiles := profile_map (wd_profiles data),
                m_presence := statuses, m_presenceMethod := methods\<rparr>;
          let m = m\<lparr>m_selected := if row_count m = 0 then 0
                else if m_selected m \<ge> row_count m then row_count m - 1 else m_selected m\<rparr>;
          let m = reselect i m;
          let m = m\<lparr>m_pending := None, m_phase := PhaseReady, m_loading := False, m_checking := False,
                m_loadingError := [], m_loadingTarget := [], m_stale := False\<rparr>;
          let m = finishLoadContext (stopMotion m);
          Some (m\<lparr>m_status := if m_devices m = []
            then ''Inventory ready: '' @ itoa 0 @ '' machine(s), '' @ itoa (int (length (m_relays m))) @ '' route(s).''
            else ''Latest state ready: '' @ itoa (int (su_online summary)) @ '' online'' @ dot @ '' '' @
              itoa (int (su_offline summary)) @ '' offline'' @ dot @ '' '' @ itoa (int (su_unknown summary)) @
              '' unknown. Wake readiness is shown separately.''\<rparr>)
        })"

definition swap_first :: "'a list \<Rightarrow> nat \<Rightarrow> 'a list" where
  "swap_first xs i = (if xs = [] then xs else xs[0 := xs ! i, i := xs ! 0])"

text \<open>\<open>startPresenceScan\<close>, called with the devices of the model and no parent context.\<close>

definition startPresenceScan :: "device list \<Rightarrow> nat \<Rightarrow> 'i wake_model \<Rightarrow> 'i handled" where
  "startPresenceScan devices request m = do {
     under \<leftarrow> (if m_tab m = 0 then selectedDevice m (filteredDevices m) else Some None);
     let devices = (case under of
          None \<Rightarrow> devices
        | Some d \<Rightarrow> (case index_of (d_id d) devices of None \<Rightarrow> devices | Some i \<Rightarrow> swap_first devices i));
     if devices = [] then still m
     else (
       let m = open_load_context m;
           run = \<lparr>fr_context = m_contexts m - 1, fr_devices = devices, fr_sites = m_sites m, fr_wakes = False,
             fr_profiles = m_profiles m\<rparr>;
           m = m\<lparr>m_checking := True, m_scanDone := 0, m_scanTotal := int (length devices),
             m_status := ''Checking 0/'' @ itoa (int (length devices)) @ '' machines. Esc cancels.''\<rparr> in
       Some (m, [CmdNextFleet run request False]))
   }"

definition probe_port :: "'i wake_model \<Rightarrow> device \<Rightarrow> int" where
  "probe_port m dev =
     (case (d_verify_port dev = 0, m_profiles m (d_id dev)) of
        (True, Some p) \<Rightarrow> rp_verify_port p
      | _ \<Rightarrow> d_verify_port dev)"

definition probeSelected :: "'i desk_env \<Rightarrow> 'i wake_model \<Rightarrow> 'i handled" where
  "probeSelected env m =
     (let devices = filteredDevices m in
      if devices = [] then say ''No machine selected.'' m
      else if m_checking m then say ''Power scan is already running.'' m
      else do {
        dev \<leftarrow> go_index devices (max 0 (min (m_selected m) (int (length devices) - 1)));
        if trim_space (d_ip dev) = [] then say ''Status unavailable: machine has no IP address.'' m
        else (
          let port = probe_port m dev;
              m = cancel_context (m_loadCancel m) m;
              m = m\<lparr>m_requestID := m_requestID m + 1, m_phase := PhaseReady, m_loading := False,
                   m_loadingStage := StagePresence, m_loadingTarget := d_name dev,
                   m_status := if port > 0 then ''Checking power at '' @ d_ip dev @ '':'' @ itoa port @ ''...''
                     else ''Checking power for '' @ d_ip dev @ '' with automatic local probes...'',
                   m_checking := True\<rparr>;
              (m, motion) = sig_motion env 15000 m;
              m = open_load_context m in
          Some (m, CmdProbe (m_contexts m - 1) (m_requestID m) dev port # motion))
      })"

section \<open>Actions\<close>

definition finishAction :: "'i wake_model \<Rightarrow> 'i wake_model" where
  "finishAction m = (cancel_context (m_actionCancel m) m)\<lparr>m_actionCancel := None, m_actionContext := None,
     m_actionTargetID := [], m_actionTarget := [], m_action := []\<rparr>"

definition cancelAction :: "'i wake_model \<Rightarrow> 'i wake_model" where
  "cancelAction m = finishAction (stopMotion (m\<lparr>m_actionID := m_actionID m + 1, m_waking := False,
     m_opening := False, m_shuttingDown := False\<rparr>))"

definition open_action_context :: "'i wake_model \<Rightarrow> 'i wake_model" where
  "open_action_context m = m\<lparr>m_actionContext := Some (m_contexts m), m_actionCancel := Some (m_contexts m),
     m_contexts := m_contexts m + 1\<rparr>"

definition beginWake :: "'i desk_env \<Rightarrow> bool \<Rightarrow> 'i wake_model \<Rightarrow> 'i handled" where
  "beginWake env force m =
     (let devices = filteredDevices m in
      if devices = [] then say ''No machine selected. Press a to add one.'' m
      else if busy m then say ''Finish the current action before starting another.'' m
      else do {
        dev \<leftarrow> pick m devices;
        let m = m\<lparr>m_actionID := m_actionID m + 1, m_actionTargetID := d_id dev, m_actionTarget := d_name dev,
             m_waking := True, m_action := ''wake'', m_status := ''Sending wake packet to '' @ d_name dev @ ''...''\<rparr>;
        let (m, motion) = sig_motion env 800 m;
        let m = open_action_context m;
        Some (m, CmdWake (m_contexts m - 1) (m_actionID m) dev force # motion)
      })"

definition validateRemoteProfile :: "remote_profile \<Rightarrow> error option" where
  "validateRemoteProfile p =
     (if to_lower (trim_space (rp_protocol p)) \<notin> {''sunshine'', ''rdp'', ''vnc'', ''ssh''}
      then Some (Errorf ''protocol must be sunshine, rdp, vnc, or ssh'')
      else if trim_space (rp_host p) = [] then Some (Errorf ''host is required'')
      else if rp_port p < 1 \<or> rp_port p > 65535 then Some (Errorf ''port must be between 1 and 65535'')
      else if rp_verify_port p < 1 \<or> rp_verify_port p > 65535
      then Some (Errorf ''verify port must be between 1 and 65535'')
      else None)"

definition desktop_protocol :: "string \<Rightarrow> bool" where
  "desktop_protocol protocol \<longleftrightarrow> to_lower (trim_space protocol) \<in> {''rdp'', ''ssh'', ''vnc''}"

definition beginWakeAndRemote :: "'i desk_env \<Rightarrow> 'i wake_model \<Rightarrow> 'i handled" where
  "beginWakeAndRemote env m =
     (let devices = filteredDevices m in
      if devices = [] then say ''No machine selected. Press a to add one.'' m
      else if busy m then say ''Finish the current action before starting another.'' m
      else do {
        dev \<leftarrow> pick m devices;
        case m_profiles m (d_id dev) of
          None \<Rightarrow> say (''Local remote needs setup for '' @ d_name dev @ ''. Press p to configure it.'') m
        | Some p \<Rightarrow>
            if \<not> rp_enabled p
            then say (''Local remote needs setup for '' @ d_name dev @ ''. Press p to configure it.'') m
            else (case validateRemoteProfile p of
              Some e \<Rightarrow> say (''Local remote profile is incomplete: '' @ error_text e @ ''. Press p to fix it.'') m
            | None \<Rightarrow>
                if \<not> m_hasRemote m
                then say ''Local remote runtime is unavailable. Run wol remote doctor, then try again.'' m
                else (
                  let p = (if desktop_protocol (rp_protocol p) then p\<lparr>rp_mode := ''native''\<rparr> else p);
                      m = m\<lparr>m_opening := True, m_actionID := m_actionID m + 1, m_actionTargetID := d_id dev,
                        m_actionTarget := d_name dev, m_action := ''wake-remote'',
                        m_status := if streamProfile p then ''Wake & stream. Esc cancels.''
                          else ''Wake & remote. Esc cancels.''\<rparr>;
                      (m, motion) = sig_motion env 95000 m;
                      m = open_action_context m in
                  Some (m, CmdOpenRemote (m_contexts m - 1) (m_actionID m) dev p # motion)))
      })"

definition beginDisconnect :: "'i wake_model \<Rightarrow> 'i handled" where
  "beginDisconnect m =
     (let devices = filteredDevices m in
      if devices = [] then say ''No machine selected.'' m
      else do {
        dev \<leftarrow> pick m devices;
        if \<not> m_hasStop m then say ''Disconnect is unavailable.'' m
        else if \<not> m_streaming m (d_id dev) then say (d_name dev @ '' is not streaming.'') m
        else Some (m, [CmdDisconnect (d_id dev) (d_name dev)])
      })"

definition verifyWake :: "nat \<Rightarrow> device \<Rightarrow> 'i wake_model \<Rightarrow> desk_cmd" where
  "verifyWake op dev m = CmdVerifyWake (m_actionContext m) op dev (probe_port m dev)"

definition verifyShutdown :: "nat \<Rightarrow> device \<Rightarrow> 'i wake_model \<Rightarrow> desk_cmd" where
  "verifyShutdown op dev m = CmdVerifyShutdown (m_actionContext m) op dev (probe_port m dev)"

fun device_name :: "device list \<Rightarrow> string \<Rightarrow> string" where
  "device_name [] i = ''Machine''"
| "device_name (v # vs) i = (if d_id v = i then d_name v else device_name vs i)"

definition prependWakeAttempt :: "wake_attempt \<Rightarrow> 'i wake_model \<Rightarrow> 'i wake_model" where
  "prependWakeAttempt a m =
     (if wa_id a = [] \<or> wa_id a \<in> wa_id ` set (m_history m) then m
      else m\<lparr>m_history := take 80 (a # m_history m)\<rparr>)"

section \<open>Batches\<close>

definition toggleMarked :: "'i wake_model \<Rightarrow> 'i handled" where
  "toggleMarked m =
     (if m_tab m \<noteq> 0 then still m
      else do {
        under \<leftarrow> selectedDevice m (filteredDevices m);
        case under of
          None \<Rightarrow> still m
        | Some d \<Rightarrow> (
            let m = m\<lparr>m_marked := if d_id d \<in> set (m_marked m) then removeAll (d_id d) (m_marked m)
                  else d_id d # m_marked m\<rparr> in
            say (itoa (int (length (m_marked m))) @ '' selected across sites. W wake'' @ dot @ '' S check'' @ dot @
              '' Esc clear.'') m)
      })"

definition prepareBatch :: "string \<Rightarrow> 'i wake_model \<Rightarrow> 'i wake_model" where
  "prepareBatch kind m =
     (if m_batchRunning m then m\<lparr>m_status := ''A batch is already running. Esc cancels.''\<rparr>
      else
        let m = m\<lparr>m_batchPreviewIndex := 0,
              m_batchTargets := filter (\<lambda>d. d_id d \<in> set (m_marked m)) (m_devices m)\<rparr> in
        if m_batchTargets m = [] then m\<lparr>m_status := ''Select machines with Space first.''\<rparr>
        else m\<lparr>m_batchKind := kind, m_status := ''Review '' @ kind @ '' for '' @
               itoa (int (length (m_batchTargets m))) @ '' machines across sites. Enter confirms; Esc cancels.''\<rparr>)"

definition startBatch :: "'i wake_model \<Rightarrow> 'i handled" where
  "startBatch m =
     (if m_batchTargets m = [] then still m
      else
        let m = cancelLoading m;
            m = m\<lparr>m_batchRunning := True, m_lastBatchKind := m_batchKind m, m_batchID := m_batchID m + 1,
              m_batchResults := [], m_batchCancel := Some (m_contexts m), m_contexts := m_contexts m + 1\<rparr>;
            run = \<lparr>fr_context = m_contexts m - 1, fr_devices = m_batchTargets m, fr_sites = m_sites m,
              fr_wakes = (m_batchKind m = ''wake''), fr_profiles = m_profiles m\<rparr> in
        Some (m, [CmdNextFleet run (m_batchID m) True]))"

definition retry_kind :: "fleet_result list \<Rightarrow> string \<Rightarrow> string" where
  "retry_kind results kind =
     (if list_ex (\<lambda>r. fr_status r = ''sent'' \<or> fr_status r = ''failed'') results then ''wake''
      else if kind = [] then ''check'' else kind)"

definition retryBatch :: "'i wake_model \<Rightarrow> 'i wake_model" where
  "retryBatch m =
     (if m_batchRunning m then m
      else prepareBatch (retry_kind (m_batchResults m) (m_lastBatchKind m))
        (m\<lparr>m_marked := remdups (map fr_device_id
             (filter (\<lambda>r. fr_status r \<noteq> ''sent'' \<and> fr_status r \<noteq> ''online'') (m_batchResults m)))\<rparr>))"

definition record_presence :: "'i desk_env \<Rightarrow> fleet_result \<Rightarrow> 'i wake_model \<Rightarrow> 'i wake_model" where
  "record_presence env r m =
     (if fr_status r = ''cancelled'' then m
      else m\<lparr>m_presence := (m_presence m)(fr_device_id r \<mapsto> fr_status r),
        m_presenceMethod := (m_presenceMethod m)(fr_device_id r \<mapsto> fr_method r),
        m_presenceMessages := (m_presenceMessages m)(fr_device_id r \<mapsto> fr_message r),
        m_checkedDevice := (m_checkedDevice m)(fr_device_id r \<mapsto> de_now env)\<rparr>)"

definition counted :: "int \<Rightarrow> int \<Rightarrow> string" where
  "counted a b = itoa a @ ''/'' @ itoa b"

definition fleet_result_msg :: "'i desk_env \<Rightarrow> nat \<Rightarrow> bool \<Rightarrow> fleet_result \<Rightarrow> fleet_run \<Rightarrow> 'i wake_model \<Rightarrow> 'i handled" where
  "fleet_result_msg env i batch r run m = do {
     under \<leftarrow> selectedID m;
     let m = (if \<not> batch \<or> m_batchKind m = ''check'' then record_presence env r m else m);
     let m = (if under = [] then m
       else reselect under (m\<lparr>m_selected := min (m_selected m) (max 0 (int (length (filteredDevices m)) - 1))\<rparr>));
     let m = (if batch
       then m\<lparr>m_status := ''Batch '' @ m_batchKind m @ '' '' @
           counted (int (length (m_batchResults m))) (int (length (m_batchTargets m))) @ dot @ '' '' @ fr_name r @ '': '' @
           fr_status r @ ''. Esc cancels.''\<rparr>
       else m\<lparr>m_scanDone := m_scanDone m + 1, m_status := ''Checking '' @ counted (m_scanDone m + 1) (m_scanTotal m) @ dot @
           '' '' @ fr_name r @ '': '' @ fr_status r @ ''. Esc cancels.''\<rparr>);
     Some (m, [CmdNextFleet run i batch])
   }"

text \<open>A message without a result says that the channel is closed.\<close>

definition applyFleetMsg :: "'i desk_env \<Rightarrow> nat \<Rightarrow> bool \<Rightarrow> fleet_result option \<Rightarrow> fleet_run \<Rightarrow> 'i wake_model \<Rightarrow> 'i handled" where
  "applyFleetMsg env i batch result run m =
     (if batch then
        (if i \<noteq> m_batchID m then still m
         else case result of
           None \<Rightarrow> do {
             m \<leftarrow> call_cancel (m_batchCancel m) (m\<lparr>m_batchRunning := False, m_batchKind := []\<rparr>);
             say (''Batch complete: '' @ itoa (int (length (m_batchResults m))) @
               '' results. R retries failures; Esc clears selection.'') m
           }
         | Some r \<Rightarrow> fleet_result_msg env i True r run (m\<lparr>m_batchResults := m_batchResults m @ [r]\<rparr>))
      else if i \<noteq> m_requestID m then still m
      else case result of
        None \<Rightarrow> say (''Checked '' @ counted (m_scanDone m) (m_scanTotal m) @
            '' machines. Unreachable does not prove power is off.'')
          (finishLoadContext (m\<lparr>m_checking := False, m_checkedAt := Some (de_now env)\<rparr>))
      | Some r \<Rightarrow> fleet_result_msg env i False r run m)"

section \<open>Filters\<close>

fun position :: "string \<Rightarrow> string list \<Rightarrow> nat" where
  "position x [] = 0"
| "position x (y # ys) = (if x = y then 0 else if x \<in> set ys then Suc (position x ys) else 0)"

definition next_choice :: "string \<Rightarrow> string list \<Rightarrow> string" where
  "next_choice x xs = xs ! ((position x xs + 1) mod length xs)"

definition cycleSite :: "'i wake_model \<Rightarrow> 'i wake_model" where
  "cycleSite m =
     (let ids = [[], ''unassigned''] @ map s_id (m_sites m); f = next_choice (m_siteFilter m) ids;
          m = m\<lparr>m_siteFilter := f, m_selected := 0\<rparr> in
      m\<lparr>m_status := if f = [] then ''Site filter: all sites'' else ''Site filter: '' @ siteName m f\<rparr>)"

definition cycleState :: "'i wake_model \<Rightarrow> 'i wake_model" where
  "cycleState m =
     (let f = next_choice (m_stateFilter m) [[], ''online'', ''offline'', ''unknown''] in
      m\<lparr>m_stateFilter := f, m_selected := 0,
        m_status := if f = [] then ''Status filter: all'' else ''Status filter: '' @ f\<rparr>)"

section \<open>The cursor\<close>

definition move_cursor :: "'i desk_env \<Rightarrow> int \<Rightarrow> 'i wake_model \<Rightarrow> 'i handled" where
  "move_cursor env delta m =
     (let count = row_count m in
      if count = 0 then still (m\<lparr>m_selected := 0\<rparr>)
      else
        let before = m_selected m;
            m = m\<lparr>m_selected := go_rem (before + delta + count) count\<rparr> in
        if m_tab m \<noteq> 0 \<or> m_actionPicker m \<or> before = m_selected m then still m
        else case machineViewport m (filteredDevices m) (contentWidth (m_width m)) of
          (visible, start) \<Rightarrow>
            if before < start \<or> before \<ge> start + int (length visible) then still m
            else Some (triggerMotion env StageSelect 180000000 before (m_selected m) m))"

definition openActionPicker :: "'i wake_model \<Rightarrow> 'i handled" where
  "openActionPicker m =
     (if filteredDevices m = [] then say ''No machine selected. Press a to add one.'' m
      else if m_waking m \<or> m_opening m \<or> m_checking m
      then say ''Finish the current action before choosing another.'' m
      else still (m\<lparr>m_actionPicker := True, m_pickerSelected := 0, m_status := ''Choose an action.''\<rparr>))"

definition checkSelectedSite :: "'i wake_model \<Rightarrow> 'i handled" where
  "checkSelectedSite m =
     (if m_sites m = [] then say ''Add a site first.'' m
      else do {
        site \<leftarrow> pick m (m_sites m);
        Some (m\<lparr>m_status := ''Checking site '' @ s_name site @ ''...''\<rparr>, [CmdSiteCheck site])
      })"

end
