(* ===== verification/TuiForms.thy ===== *)
theory TuiForms
  imports TuiActions
begin

text \<open>
  The forms of the Wake Desk (\<open>wake_forms.go\<close>, the forms of \<open>sites.go\<close>) and the LAN sweep
  (\<open>wake_discover.go\<close>): opening a form on the selected item, its keys, the check of a field, and
  what is handed to the command that saves it.
\<close>

section \<open>Forms and their inputs\<close>

definition initial_value :: "string list \<Rightarrow> nat \<Rightarrow> string" where
  "initial_value vs i = (if i < length vs then vs ! i else [])"

definition make_inputs :: "'i input_lib \<Rightarrow> string list \<Rightarrow> string list \<Rightarrow> int \<Rightarrow> 'i list" where
  "make_inputs lib labels vs focus =
     map (\<lambda>i. (if int i = focus then in_focus lib else in_blur lib) (in_set lib (initial_value vs i) (in_new lib)))
       [0..<length labels]"

definition newWakeForm :: "'i input_lib \<Rightarrow> form_kind \<Rightarrow> string \<Rightarrow> string list \<Rightarrow> string list \<Rightarrow> 'i wake_form" where
  "newWakeForm lib kind i labels vs =
     \<lparr>wf_kind = kind, wf_id = i, wf_labels = labels, wf_values = map (initial_value vs) [0..<length labels],
      wf_inputs = make_inputs lib labels vs 0, wf_selected = 0, wf_error = [], wf_saving = False\<rparr>"

definition sync_input :: "'i input_lib \<Rightarrow> string list \<Rightarrow> int \<Rightarrow> nat \<Rightarrow> 'i \<Rightarrow> 'i" where
  "sync_input lib vs focus i inp =
     (let inp = (if i < length vs \<and> in_value lib inp \<noteq> vs ! i then in_set lib (vs ! i) inp else inp) in
      (if int i = focus then in_focus lib else in_blur lib) inp)"

definition ensureInputs :: "'i input_lib \<Rightarrow> 'i wake_form \<Rightarrow> 'i wake_form" where
  "ensureInputs lib f =
     (if length (wf_inputs f) \<noteq> length (wf_labels f)
      then f\<lparr>wf_inputs := make_inputs lib (wf_labels f) (wf_values f) (wf_selected f)\<rparr>
      else f\<lparr>wf_inputs := map (\<lambda>i. sync_input lib (wf_values f) (wf_selected f) i (wf_inputs f ! i))
             [0..<length (wf_inputs f)]\<rparr>)"

definition setSelected :: "'i input_lib \<Rightarrow> int \<Rightarrow> 'i wake_form \<Rightarrow> 'i wake_form" where
  "setSelected lib index f =
     (if wf_labels f = [] then f\<lparr>wf_selected := 0\<rparr>
      else
        let sel = go_rem (index + int (length (wf_labels f))) (int (length (wf_labels f))) in
        f\<lparr>wf_selected := sel,
          wf_inputs := map (\<lambda>i. (if int i = sel then in_focus lib else in_blur lib) (wf_inputs f ! i))
             [0..<length (wf_inputs f)]\<rparr>)"

section \<open>Labels\<close>

definition deviceFormLabels :: "string list" where
  "deviceFormLabels = [''Name'', ''MAC address'', ''IP address'', ''Broadcast'', ''UDP port'', ''Interface'',
     ''Verify port'', ''Wake strategy'', ''Relay name (Ctrl+N)'', ''Site name (Ctrl+N)'']"

definition relayFormLabels :: "string list" where
  "relayFormLabels = [''Name'', ''SSH address'', ''SSH port'', ''Router interface'', ''SSH user'']"

definition remoteProfileFormLabels :: "string list" where
  "remoteProfileFormLabels = [''Protocol (sunshine/rdp/vnc/ssh)'', ''Host'', ''Port'', ''Verify port'',
     ''FPS (60/120)'', ''Resolution (e.g. 1920x1080)'', ''App name (Desktop)'']"

definition powerFormLabels :: "string list" where
  "powerFormLabels = [''Action (now/15m/30m/1h/cancel)'', ''SSH user'', ''SSH port'',
     ''Platform (windows/linux/darwin)'', ''Use sudo (yes/no)'']"

definition siteLabels :: "string list" where
  "siteLabels = [''Name'', ''IPv4 subnet (CIDR)'', ''Broadcast (blank=auto)'', ''Local interface'',
     ''Relay name (blank=direct)'', ''UDP port'', ''Probe timeout ms'', ''Concurrent probes'']"

definition open_form :: "'i wake_form \<Rightarrow> string \<Rightarrow> 'i wake_model \<Rightarrow> 'i wake_model" where
  "open_form f status m = m\<lparr>m_form := Some f, m_status := status\<rparr>"

section \<open>Opening a form\<close>

definition relay_names :: "wake_relay list \<Rightarrow> string \<Rightarrow> string" where
  "relay_names relays i = foldl (\<lambda>n r. if r_id r = i then r_name r else n) [] relays"

definition site_values :: "'i wake_model \<Rightarrow> site \<Rightarrow> string list" where
  "site_values m s =
     [s_name s, s_subnet s,
      if Broadcast (s_subnet s) = Inr (s_broadcast s) then [] else s_broadcast s,
      s_interface s, relay_names (m_relays m) (s_relay_id s), itoa (s_port s), itoa (s_timeout_ms s),
      itoa (s_concurrency s)]"

definition beginSite :: "'i desk_env \<Rightarrow> bool \<Rightarrow> 'i wake_model \<Rightarrow> 'i handled" where
  "beginSite env edit m =
     (let status = ''Site defaults apply when machine fields are empty. Ctrl+N cycles relay choices.'' in
      if \<not> edit
      then still (open_form (newWakeForm (de_inputs env) SiteForm [] siteLabels [[], [], [], [], [], ''9'', ''2500'', ''4''])
        status m)
      else if m_sites m = [] then still m
      else do {
        s \<leftarrow> pick m (m_sites m);
        still (open_form (newWakeForm (de_inputs env) SiteForm (s_id s) siteLabels (site_values m s)) status m)
      })"

definition beginInventoryFile :: "'i desk_env \<Rightarrow> bool \<Rightarrow> 'i wake_model \<Rightarrow> 'i wake_model" where
  "beginInventoryFile env export m =
     open_form (newWakeForm (de_inputs env) (if export then ExportForm else ImportForm) [] [''Inventory JSON path'']
       [if export then ''inventory.json'' else []])
       ''Import merges by identity. Export creates a new private file; existing files are preserved.'' m"

definition beginAdd :: "'i desk_env \<Rightarrow> 'i wake_model \<Rightarrow> 'i handled" where
  "beginAdd env m =
     (if m_tab m = 3 then beginSite env False m
      else if m_tab m = 0 then
        still (open_form (newWakeForm (de_inputs env) DeviceForm [] deviceFormLabels
          [[], [], [], [], ''9'', [], [], [], [],
           if m_siteFilter m \<noteq> [] \<and> m_siteFilter m \<noteq> ''unassigned'' then siteName m (m_siteFilter m) else []])
          ''Add machine: fill each field and press Enter.'' m)
      else if m_tab m = 1 then
        still (open_form (newWakeForm (de_inputs env) RelayForm [] relayFormLabels [[], [], ''22'', ''br-lan'', []])
          ''Add route: fill each field and press Enter.'' m)
      else still m)"

definition device_values :: "'i wake_model \<Rightarrow> device \<Rightarrow> string list" where
  "device_values m v = [d_name v, d_mac v, d_ip v, d_broadcast v, itoa (d_port v), d_interface v,
     itoa (d_verify_port v), d_strategy v, d_relay_id v, siteName m (d_site_id v)]"

definition beginEdit :: "'i desk_env \<Rightarrow> 'i wake_model \<Rightarrow> 'i handled" where
  "beginEdit env m =
     (if m_tab m = 3 then beginSite env True m
      else if m_tab m = 0 then
        (let devices = filteredDevices m in
         if devices = [] then say ''No machine selected.'' m
         else do {
           v \<leftarrow> pick m devices;
           still (open_form (newWakeForm (de_inputs env) DeviceForm (d_id v) deviceFormLabels (device_values m v))
             ''Edit machine: press Enter to advance and save.'' m)
         })
      else if m_tab m = 1 then
        (if m_relays m = [] then say ''No route selected.'' m
         else do {
           r \<leftarrow> pick m (m_relays m);
           still (open_form (newWakeForm (de_inputs env) RelayForm (r_id r) relayFormLabels
             [r_name r, r_address r, itoa (r_port r), r_interface r, r_ssh_user r])
             ''Edit route: press Enter to advance and save.'' m)
         })
      else still m)"

definition default_profile :: "device \<Rightarrow> remote_profile" where
  "default_profile v =
     (let win = equal_fold (d_platform v) ''windows''; port = (if win then 3389 else 22) in
      \<lparr>rp_id = [], rp_device_id = d_id v, rp_protocol = if win then ''rdp'' else ''ssh'', rp_host = d_ip v, rp_port = port,
       rp_verify_port = port, rp_username = [], rp_domain = [], rp_cert_policy = [], rp_mode = ''native'',
       rp_app = ''Desktop'', rp_fps = 60, rp_resolution = ''1920x1080'', rp_bitrate = 0, rp_enabled = True,
       rp_created = [], rp_updated = []\<rparr>)"

definition profile_values :: "remote_profile \<Rightarrow> string list" where
  "profile_values p = [rp_protocol p, rp_host p, itoa (rp_port p), itoa (rp_verify_port p), itoa (rp_fps p),
     rp_resolution p, rp_app p]"

definition beginRemoteProfile :: "'i desk_env \<Rightarrow> 'i wake_model \<Rightarrow> 'i handled" where
  "beginRemoteProfile env m =
     (if m_tab m \<noteq> 0 then still m
      else
        let devices = filteredDevices m in
        if devices = [] then say ''No machine selected.'' m
        else do {
          v \<leftarrow> pick m devices;
          let p = (case m_profiles m (d_id v) of Some p \<Rightarrow> p | None \<Rightarrow> default_profile v);
          still (open_form (newWakeForm (de_inputs env) RemoteProfileForm (d_id v) remoteProfileFormLabels
            (profile_values p)) ''Remote profile. Passwords are never stored.'' m)
        })"

text \<open>The initial user, port, platform and sudo choice of the power form.\<close>

definition power_values :: "'i desk_env \<Rightarrow> device \<Rightarrow> string list" where
  "power_values env v =
     (let platform = (if d_platform v = [] \<or> d_platform v = ''unknown'' then ''windows'' else d_platform v) in
      case de_power env (d_id v) of
        Some p \<Rightarrow> [pp_ssh_user p, if pp_ssh_port p > 0 then itoa (pp_ssh_port p) else ''22'',
          if pp_platform p \<noteq> [] then pp_platform p else platform, if pp_use_sudo p then ''yes'' else ''no'']
      | None \<Rightarrow> [case de_remote env (d_id v) of Some r \<Rightarrow> rp_username r | None \<Rightarrow> [], ''22'', platform, ''no''])"

definition beginShutdownForm :: "'i desk_env \<Rightarrow> 'i wake_model \<Rightarrow> 'i handled" where
  "beginShutdownForm env m =
     (if m_tab m \<noteq> 0 then still m
      else
        let devices = filteredDevices m in
        if devices = [] then say ''No machine selected.'' m
        else do {
          v \<leftarrow> pick m devices;
          still (open_form (newWakeForm (de_inputs env) PowerForm (d_id v) powerFormLabels (''now'' # power_values env v))
            (''Power off '' @ d_name v @ ''. Enter action/delay (now, 15m, 30m, 1h, cancel).'') m)
        })"

section \<open>Deleting\<close>

definition ask_delete :: "string \<Rightarrow> string \<Rightarrow> 'i wake_model \<Rightarrow> 'i handled" where
  "ask_delete what question m = still (m\<lparr>m_confirm := what, m_status := question\<rparr>)"

definition beginDelete :: "'i wake_model \<Rightarrow> 'i handled" where
  "beginDelete m =
     (if m_tab m = 3 \<and> m_sites m \<noteq> [] then do {
        s \<leftarrow> pick m (m_sites m);
        ask_delete (''site:'' @ s_id s) (''Delete site '' @ s_name s @ ''? Reassign its machines first. y confirms.'') m
      }
      else if m_tab m = 0 then
        (if filteredDevices m = [] then still m
         else do {
           v \<leftarrow> pick m (filteredDevices m);
           ask_delete (''machine:'' @ d_id v) (''Delete '' @ d_name v @ ''? press y/Enter to confirm.'') m
         })
      else if m_tab m = 1 then
        (if m_relays m = [] then still m
         else do {
           r \<leftarrow> pick m (m_relays m);
           ask_delete (''relay:'' @ r_id r) (''Delete route '' @ r_name r @ ''? press y/Enter to confirm.'') m
         })
      else still m)"

definition deleteConfirmed :: "'i wake_model \<Rightarrow> 'i handled" where
  "deleteConfirmed m = Some (m\<lparr>m_confirm := []\<rparr>, [CmdDelete (m_confirm m)])"

section \<open>The keys of a form\<close>

definition parseFormInt :: "string \<Rightarrow> int \<Rightarrow> int result" where
  "parseFormInt v fallback =
     (if trim_space v = [] then Inr fallback
      else case atoi (trim_space v) of
        (parsed, err) \<Rightarrow>
          if err \<noteq> None \<or> parsed < 0 \<or> parsed > 65535 then Inl (Errorf ''invalid port'') else Inr parsed)"

definition ports_message :: string where
  "ports_message = ''port must be 0'' @ en_dash @ ''65535; 0 inherits defaults''"

text \<open>The check of the selected field: the outer \<open>None\<close> is a panic.\<close>

definition validateFormField :: "'i wake_form \<Rightarrow> error option option" where
  "validateFormField f =
     (if wf_selected f < 0 \<or> wf_selected f \<ge> int (length (wf_values f)) then Some None
      else
        let v = trim_space (wf_values f ! nat (wf_selected f)); sel = wf_selected f in
        if sel = 0 \<and> v = []
        then map_option (\<lambda>l. Some (Errorf (l @ '' is required''))) (go_index (wf_labels f) 0)
        else Some
         (if wf_kind f = SiteForm \<and> sel = 1 \<and> v \<noteq> []
          then (case Broadcast v of Inl e \<Rightarrow> Some e | Inr _ \<Rightarrow> None)
          else if wf_kind f \<noteq> DeviceForm then None
          else if sel = 1
          then (if is_ok (ParseMAC v) then None else Some (Errorf ''enter a valid unicast MAC address''))
          else if sel = 2 \<or> sel = 3
          then (if v \<noteq> [] \<and> parse_to4 v = None then Some (Errorf ''enter an IPv4 address, or leave blank'') else None)
          else if sel = 4 \<or> sel = 6
          then (if is_ok (parseFormInt v 0) then None else Some (Errorf ports_message))
          else None))"

text \<open>The values handed to the save: those of the inputs, where there is one.\<close>

definition form_values :: "'i input_lib \<Rightarrow> 'i wake_form \<Rightarrow> string list" where
  "form_values lib f0 =
     (let f = ensureInputs lib f0 in
      map (\<lambda>i. if i < length (wf_inputs f) then in_value lib (wf_inputs f ! i) else wf_values f ! i)
        [0..<length (wf_values f)])"

definition saveForm :: "'i desk_env \<Rightarrow> 'i wake_model \<Rightarrow> 'i handled" where
  "saveForm env m =
     (case m_form m of
        None \<Rightarrow> still m
      | Some f \<Rightarrow>
          if wf_saving f then still m
          else Some (m\<lparr>m_form := Some (f\<lparr>wf_saving := True\<rparr>)\<rparr>,
            [CmdSave (wf_kind f) (wf_id f) (form_values (de_inputs env) f) (m_sites m) (m_relays m)]))"

definition choices_of :: "'i wake_model \<Rightarrow> 'i wake_form \<Rightarrow> string list option" where
  "choices_of m f =
     (if wf_kind f = DeviceForm \<and> wf_selected f = 9 then Some ([] # map s_name (m_sites m))
      else if (wf_kind f = SiteForm \<and> wf_selected f = 4) \<or> (wf_kind f = DeviceForm \<and> wf_selected f = 8)
      then Some ([] # map r_name (m_relays m))
      else None)"

text \<open>The loop without \<open>break\<close>: the last choice equal to the value.\<close>

definition last_position :: "string \<Rightarrow> string list \<Rightarrow> nat" where
  "last_position v xs = foldl (\<lambda>i j. if xs ! j = v then j else i) 0 [0..<length xs]"

definition set_field :: "'i input_lib \<Rightarrow> string \<Rightarrow> 'i wake_form \<Rightarrow> 'i wake_form option" where
  "set_field lib v f = do {
     _ \<leftarrow> go_index (wf_values f) (wf_selected f);
     inp \<leftarrow> go_index (wf_inputs f) (wf_selected f);
     Some (f\<lparr>wf_values := (wf_values f)[nat (wf_selected f) := v],
       wf_inputs := (wf_inputs f)[nat (wf_selected f) := in_set lib v inp]\<rparr>)
   }"

definition cycle_field :: "'i desk_env \<Rightarrow> 'i wake_form \<Rightarrow> 'i wake_model \<Rightarrow> 'i handled" where
  "cycle_field env f m =
     (case choices_of m f of
        None \<Rightarrow> still (m\<lparr>m_form := Some f\<rparr>)
      | Some choices \<Rightarrow> do {
          v \<leftarrow> go_index (wf_values f) (wf_selected f);
          f \<leftarrow> set_field (de_inputs env) (choices ! ((last_position v choices + 1) mod length choices)) f;
          still (m\<lparr>m_form := Some f\<rparr>)
        })"

definition type_key :: "'i desk_env \<Rightarrow> string \<Rightarrow> 'i wake_form \<Rightarrow> 'i wake_model \<Rightarrow> 'i handled" where
  "type_key env key f m =
     (case go_index (wf_inputs f) (wf_selected f) of
        None \<Rightarrow> still (m\<lparr>m_form := Some f\<rparr>)
      | Some inp \<Rightarrow> do {
          let inp = in_key (de_inputs env) key inp;
          _ \<leftarrow> go_index (wf_values f) (wf_selected f);
          still (m\<lparr>m_form := Some (f\<lparr>wf_inputs := (wf_inputs f)[nat (wf_selected f) := inp],
            wf_values := (wf_values f)[nat (wf_selected f) := in_value (de_inputs env) inp], wf_error := []\<rparr>)\<rparr>)
        })"

definition moving_keys :: "string set" where
  "moving_keys = {''tab'', ''down'', ''enter'', ''ctrl+s''}"

text \<open>The keys that leave a field that has passed its check.\<close>

definition leave_field :: "'i desk_env \<Rightarrow> string \<Rightarrow> 'i wake_form \<Rightarrow> 'i wake_model \<Rightarrow> 'i handled" where
  "leave_field env key f m =
     (let next_field = still (m\<lparr>m_form := Some (setSelected (de_inputs env) (wf_selected f + 1) f)\<rparr>);
          m = m\<lparr>m_form := Some f\<rparr> in
      if key = ''down'' \<or> key = ''tab'' then next_field
      else if key = ''ctrl+s'' then saveForm env m
      else if wf_saving f then still m
      else if wf_selected f < int (length (wf_labels f)) - 1 then next_field
      else saveForm env m)"

definition handleFormKey :: "'i desk_env \<Rightarrow> string \<Rightarrow> 'i wake_model \<Rightarrow> 'i handled" where
  "handleFormKey env key m =
     (case m_form m of
        None \<Rightarrow> still m
      | Some f0 \<Rightarrow>
          let f = ensureInputs (de_inputs env) f0 in
          if key = ''ctrl+n'' then cycle_field env f m
          else if key = ''ctrl+c'' then Some (finishLoadContext (m\<lparr>m_form := Some f\<rparr>), [CmdQuit])
          else if key = ''esc'' then still (m\<lparr>m_lanQueue := [], m_form := None, m_status := ''Edit cancelled.''\<rparr>)
          else if key = ''up'' \<or> key = ''shift+tab''
          then still (m\<lparr>m_form := Some (setSelected (de_inputs env) (wf_selected f - 1) f)\<rparr>)
          else if key \<in> moving_keys then
            (case validateFormField f of
               None \<Rightarrow> None
             | Some (Some e) \<Rightarrow> still (m\<lparr>m_form := Some (f\<lparr>wf_error := error_text e\<rparr>)\<rparr>)
             | Some None \<Rightarrow> leave_field env key f m)
          else type_key env key f m)"

section \<open>The LAN sweep\<close>

definition beginLANDiscover :: "'i wake_model \<Rightarrow> 'i handled" where
  "beginLANDiscover m =
     (let m = m\<lparr>m_lanID := m_lanID m + 1, m_lanOpen := True, m_status := ''Scanning LAN neighbors...''\<rparr> in
      Some (m, [CmdScanLAN (m_lanID m) (m_lanIface m) (m_devices m)]))"

definition applyLANDiscover :: "lan_report \<Rightarrow> 'i wake_model \<Rightarrow> 'i handled" where
  "applyLANDiscover r m =
     (case ld_err r of
        Some e \<Rightarrow> say (''LAN scan failed: '' @ error_text e) m
      | None \<Rightarrow> still (m\<lparr>m_devices := ld_devices r, m_profiles := profile_map (ld_profiles r), m_lanIfaces := ld_ifaces r,
          m_lanOpen := True, m_lanSelected := 0, m_lanUpdated := ld_updated r, m_lanUnknown := ld_unknown r,
          m_lanHosts := ld_moved r @ ld_known r,
          m_status := ''LAN: '' @ itoa (int (length (ld_known r) + length (ld_moved r))) @ '' known'' @ dot @ '' '' @
            itoa (int (length (ld_unknown r))) @ '' new'' @ dot @ '' '' @ itoa (ld_updated r) @
            '' IP updates. Enter adds a new host.''\<rparr>))"

definition lanCount :: "'i wake_model \<Rightarrow> int" where
  "lanCount m = int (length (m_lanUnknown m) + length (m_lanHosts m))"

definition beginAddFromLAN :: "neighbor_entry \<Rightarrow> 'i wake_model \<Rightarrow> 'i handled" where
  "beginAddFromLAN n m =
     (let m = m\<lparr>m_lanPrepareID := m_lanPrepareID m + 1, m_lanPreparing := True,
           m_status := ''Checking discovered services. Esc cancels.''\<rparr> in
      Some (m, [CmdGuess (m_lanPrepareID m) n]))"

definition show_known :: "lan_host \<Rightarrow> 'i wake_model \<Rightarrow> 'i wake_model" where
  "show_known h m =
     (case lh_device h of
        None \<Rightarrow> m
      | Some v \<Rightarrow> (case index_of (d_id v) (filteredDevices m) of None \<Rightarrow> m | Some i \<Rightarrow> m\<lparr>m_selected := int i\<rparr>)
          \<lparr>m_lanOpen := False, m_status := d_name v @ '' is already in inventory.''\<rparr>)"

definition addSelectedLANHost :: "'i wake_model \<Rightarrow> 'i handled" where
  "addSelectedLANHost m =
     (case filter (\<lambda>n. m_lanMarked m (nb_mac n)) (m_lanUnknown m) of
        n # ns \<Rightarrow> beginAddFromLAN n (m\<lparr>m_lanOpen := False, m_lanMarked := (\<lambda>_. False), m_lanQueue := ns\<rparr>)
      | [] \<Rightarrow>
          if m_lanSelected m < int (length (m_lanUnknown m)) then do {
            n \<leftarrow> go_index (m_lanUnknown m) (m_lanSelected m);
            beginAddFromLAN n (m\<lparr>m_lanOpen := False\<rparr>)
          }
          else (case go_index (m_lanHosts m) (m_lanSelected m - int (length (m_lanUnknown m))) of
                  None \<Rightarrow> still m
                | Some h \<Rightarrow> still (show_known h m)))"

definition mark_neighbor :: "'i wake_model \<Rightarrow> 'i handled" where
  "mark_neighbor m =
     (if m_lanSelected m < int (length (m_lanUnknown m)) then do {
        n \<leftarrow> go_index (m_lanUnknown m) (m_lanSelected m);
        still (m\<lparr>m_lanMarked := (m_lanMarked m)(nb_mac n := \<not> m_lanMarked m (nb_mac n))\<rparr>)
      }
      else still m)"

definition handleLANKey :: "string \<Rightarrow> 'i wake_model \<Rightarrow> 'i handled" where
  "handleLANKey key m =
     (if key = ''esc'' \<or> key = ''q''
      then still (m\<lparr>m_lanOpen := False, m_lanID := m_lanID m + 1, m_status := ''Closed LAN discover.''\<rparr>)
      else if key = ''f'' then
        (let choices = [] # m_lanIfaces m in
         beginLANDiscover (m\<lparr>m_lanIface := choices ! ((last_position (m_lanIface m) choices + 1) mod length choices)\<rparr>))
      else if key = '' '' then mark_neighbor m
      else if key = ''n'' \<or> key = ''r'' then beginLANDiscover m
      else if key = ''j'' \<or> key = ''down''
      then still (if m_lanSelected m < lanCount m - 1 then m\<lparr>m_lanSelected := m_lanSelected m + 1\<rparr> else m)
      else if key = ''k'' \<or> key = ''up''
      then still (if m_lanSelected m > 0 then m\<lparr>m_lanSelected := m_lanSelected m - 1\<rparr> else m)
      else if key = ''enter'' then addSelectedLANHost m
      else still m)"

definition showNeighborForm :: "'i desk_env \<Rightarrow> neighbor_entry \<Rightarrow> string \<Rightarrow> int \<Rightarrow> 'i wake_model \<Rightarrow> 'i wake_model" where
  "showNeighborForm env n platform port m =
     (let name = UniqueDeviceName (m_devices m) (SuggestName (de_lookup env) (nb_ip n) (nb_mac n));
          site = (if m_siteFilter m \<noteq> [] \<and> m_siteFilter m \<noteq> ''unassigned'' then siteName m (m_siteFilter m) else []) in
      open_form (newWakeForm (de_inputs env) DeviceForm [] deviceFormLabels
        [name, nb_mac n, nb_ip n, LocalBroadcast (de_interfaces env) (nb_ip n) (nb_iface n), ''9'', nb_iface n, itoa port,
         ''broadcast'', [], site])
        (''Review '' @ name @ dot @ '' suggested '' @ platform @ dot @ '' '' @ itoa (int (length (m_lanQueue m))) @
          '' more selected. Ctrl+S saves; Esc cancels remaining.'') m)"

end
