(* ===== verification/TuiUpdate.thy ===== *)
theory TuiUpdate
  imports TuiForms
begin

text \<open>
  The loop of the Wake Desk (\<open>wake.go\<close>: \<open>Init\<close>, \<open>Update\<close>, \<open>handleKey\<close>, \<open>handleActionPicker\<close>): what
  every message does to the model and which commands it starts. \<open>handleKey\<close> is a chain of guards,
  each of which claims the keyboard for one mode of the screen; the order of the guards is kept.
\<close>

section \<open>Keys\<close>

definition leave :: "'i wake_model \<Rightarrow> 'i handled" where
  "leave m = Some (finishLoadContext m, [CmdQuit])"

definition pick_action :: "'i desk_env \<Rightarrow> nat \<Rightarrow> 'i wake_model \<Rightarrow> 'i handled" where
  "pick_action env i m =
     (if i = 0 then beginWake env False m
      else if i = 1 then beginWakeAndRemote env m
      else if i = 2 then probeSelected env m
      else if i = 3 then beginShutdownForm env m
      else say ''Action cancelled.'' m)"

definition handleActionPicker :: "'i desk_env \<Rightarrow> string \<Rightarrow> 'i wake_model \<Rightarrow> 'i handled" where
  "handleActionPicker env key m =
     (let closed = m\<lparr>m_actionPicker := False\<rparr> in
      if key \<in> {''esc'', ''q'', ''5''} then pick_action env 4 closed
      else if key \<in> {''j'', ''down''} then still (m\<lparr>m_pickerSelected := go_rem (m_pickerSelected m + 1) 5\<rparr>)
      else if key \<in> {''k'', ''up''} then still (m\<lparr>m_pickerSelected := go_rem (m_pickerSelected m + 4) 5\<rparr>)
      else if key \<in> {''1'', ''w''} then pick_action env 0 closed
      else if key \<in> {''2'', ''c''} then pick_action env 1 closed
      else if key \<in> {''3'', ''s''} then pick_action env 2 closed
      else if key \<in> {''4'', ''p'', ''P''} then pick_action env 3 closed
      else if key = ''enter''
      then pick_action env (if m_pickerSelected m < 0 then 4 else nat (m_pickerSelected m)) closed
      else still m)"

text \<open>While nothing can be shown yet.\<close>

definition loading_key :: "'i desk_env \<Rightarrow> string \<Rightarrow> 'i wake_model \<Rightarrow> 'i handled" where
  "loading_key env key m =
     (if key = ''q'' then leave m
      else if key = ''r'' then (if m_phase m = PhaseLoadError then beginRefresh env LoadingBoot m else still m)
      else if key = ''esc''
      then still (if m_phase m = PhaseRefreshing \<or> m_phase m = PhaseCheckingMachine then cancelLoading m else m)
      else still m)"

definition scroll :: "string \<Rightarrow> nat \<Rightarrow> 'i wake_model \<Rightarrow> 'i wake_model" where
  "scroll key n m =
     (if key \<in> {''j'', ''down''} then m\<lparr>m_batchPreviewIndex := min (m_batchPreviewIndex m + 1) (int n - 1)\<rparr>
      else if key \<in> {''k'', ''up''} then m\<lparr>m_batchPreviewIndex := max 0 (m_batchPreviewIndex m - 1)\<rparr>
      else m)"

definition preview_key :: "string \<Rightarrow> 'i wake_model \<Rightarrow> 'i handled" where
  "preview_key key m =
     (if key \<in> {''enter'', ''y''} then startBatch m
      else if key \<in> {''esc'', ''n''}
      then say ''Batch cancelled.'' (m\<lparr>m_batchKind := [], m_batchTargets := []\<rparr>)
      else still (scroll key (length (m_batchTargets m)) m))"

definition results_key :: "string \<Rightarrow> 'i wake_model \<Rightarrow> 'i handled" where
  "results_key key m =
     (if key \<in> {''esc'', ''b'', ''q''} then still (m\<lparr>m_showBatchResults := False\<rparr>)
      else still (scroll key (length (m_batchResults m)) m))"

definition confirm_key :: "string \<Rightarrow> 'i wake_model \<Rightarrow> 'i handled" where
  "confirm_key key m =
     (if to_lower key \<in> {''y'', ''enter''} then deleteConfirmed m
      else if to_lower key \<in> {''n'', ''esc'', ''q''} then say ''Delete cancelled.'' (m\<lparr>m_confirm := []\<rparr>)
      else still m)"

definition filter_key :: "'i desk_env \<Rightarrow> string \<Rightarrow> 'i wake_model \<Rightarrow> 'i handled" where
  "filter_key env key m =
     (if key = ''enter''
      then say (filterMessage (trim_space (m_filterInput m)))
        (m\<lparr>m_filter := trim_space (m_filterInput m), m_filtering := False, m_selected := 0\<rparr>)
      else if key = ''esc'' then still (m\<lparr>m_filtering := False, m_filterInput := []\<rparr>)
      else if key = ''backspace''
      then still (m\<lparr>m_filterInput := if runes (m_filterInput m) = [] then m_filterInput m
        else concat (butlast (runes (m_filterInput m)))\<rparr>)
      else if length (runes key) = 1 \<and> de_printable env key
      then still (m\<lparr>m_filterInput := m_filterInput m @ key\<rparr>)
      else still m)"

definition batch_blocks :: "string \<Rightarrow> bool" where
  "batch_blocks key \<longleftrightarrow> contains ''wcfPedanWrsiESR'' key \<and> length key = 1"

definition show_tab :: "int \<Rightarrow> 'i wake_model \<Rightarrow> 'i handled" where
  "show_tab t m = still (m\<lparr>m_tab := t, m_selected := 0\<rparr>)"

text \<open>The keys of the inventory screen: those of every tab, then those of the machines.\<close>

definition machine_key :: "'i desk_env \<Rightarrow> string \<Rightarrow> 'i wake_model \<Rightarrow> 'i handled" where
  "machine_key env key m =
     (if m_tab m \<noteq> 0 then still m
      else if key = ''enter'' then openActionPicker m
      else if key = ''w'' then beginWake env False m
      else if key = ''c'' then beginWakeAndRemote env m
      else if key = ''f'' then beginWake env True m
      else if key = ''n'' then beginLANDiscover m
      else if key = ''P'' then beginShutdownForm env m
      else if key = ''x'' then beginDisconnect m
      else still m)"

definition tab_key :: "string \<Rightarrow> 'i wake_model \<Rightarrow> 'i handled option" where
  "tab_key key m =
     (if key = ''tab'' then Some (show_tab (go_rem (m_tab m + 1) 4) m)
      else if key = ''1'' then Some (show_tab 0 m)
      else if key \<in> {''2'', ''m''} then Some (show_tab 1 m)
      else if key \<in> {''3'', ''h''} then Some (show_tab 2 m)
      else if key = ''4'' then Some (show_tab 3 m)
      else None)"

definition batch_key :: "string \<Rightarrow> 'i wake_model \<Rightarrow> 'i handled option" where
  "batch_key key m =
     (if key = ''b'' then Some (still (m\<lparr>m_showBatchResults := True, m_batchPreviewIndex := 0\<rparr>))
      else if key \<in> {''['', '']''} then Some (still (cycleSite m))
      else if key = ''v'' then Some (still (cycleState m))
      else if key = '' '' then Some (toggleMarked m)
      else if key = ''W'' then Some (still (prepareBatch ''wake'' m))
      else if key = ''S'' then Some (still (prepareBatch ''check'' m))
      else if key = ''R'' then Some (still (retryBatch m))
      else None)"

definition list_key :: "'i desk_env \<Rightarrow> string \<Rightarrow> 'i wake_model \<Rightarrow> 'i handled" where
  "list_key env key m =
     (if key = ''i'' then still (beginInventoryFile env False m)
      else if key = ''E'' then still (beginInventoryFile env True m)
      else if key \<in> {''j'', ''down''} then move_cursor env 1 m
      else if key \<in> {''k'', ''up''} then move_cursor env (- 1) m
      else if key = ''s''
      then (if m_tab m = 3 then checkSelectedSite m else if m_tab m = 0 then probeSelected env m else still m)
      else if key = ''r'' then beginRefresh env LoadingRefresh m
      else if key = ''a'' then beginAdd env m
      else if key = ''e'' then beginEdit env m
      else if key = ''p'' then beginRemoteProfile env m
      else if key = ''d'' then beginDelete m
      else if key = ''/''
      then say ''Type a filter, then press Enter.'' (m\<lparr>m_filtering := True, m_filterInput := m_filter m\<rparr>)
      else if key = ''?'' then still (m\<lparr>m_showHelp := True\<rparr>)
      else if key = ''esc''
      then say ''Filter and selection cleared.'' (m\<lparr>m_marked := [], m_filter := [], m_selected := 0\<rparr>)
      else machine_key env key m)"

definition browse_key :: "'i desk_env \<Rightarrow> string \<Rightarrow> 'i wake_model \<Rightarrow> 'i handled" where
  "browse_key env key m =
     (if key = ''q'' then leave (cancel_context (m_batchCancel m) (cancel_context (m_batchCancel m) m))
      else case tab_key key m of
        Some r \<Rightarrow> r
      | None \<Rightarrow> (case batch_key key m of Some r \<Rightarrow> r | None \<Rightarrow> list_key env key m))"

text \<open>The modes that are below the forms and the picker.\<close>

definition idle_key :: "'i desk_env \<Rightarrow> string \<Rightarrow> 'i wake_model \<Rightarrow> 'i handled" where
  "idle_key env key m =
     (if key = ''esc'' \<and> busy m
      then say (m_actionTarget m @ dot @ '' action cancelled.'') (cancelAction m)
      else if m_confirm m \<noteq> [] then confirm_key key m
      else if m_showHelp m then still (if key \<in> {''?'', ''esc'', ''q''} then m\<lparr>m_showHelp := False\<rparr> else m)
      else if m_filtering m then filter_key env key m
      else if busy m
      then say (m_actionTarget m @ dot @ '' action in progress; selection is locked. Press Esc to cancel.'') m
      else if m_batchRunning m \<and> batch_blocks key
      then say ''Finish or cancel the batch before another machine action.'' m
      else browse_key env key m)"

definition quit_all :: "'i wake_model \<Rightarrow> 'i handled" where
  "quit_all m = leave (cancel_context (m_batchCancel m) (cancel_context (m_actionCancel m) m))"

definition handleKey :: "'i desk_env \<Rightarrow> string \<Rightarrow> 'i wake_model \<Rightarrow> 'i handled" where
  "handleKey env key m =
     (if key = ''ctrl+c'' then quit_all m
      else if m_phase m \<noteq> PhaseReady then loading_key env key m
      else if key = ''esc'' \<and> m_batchRunning m
      then (case call_cancel (m_batchCancel m) m of
              None \<Rightarrow> None
            | Some m \<Rightarrow> say ''Cancelling batch; completed results are retained.'' m)
      else if m_batchKind m \<noteq> [] \<and> \<not> m_batchRunning m then preview_key key m
      else if m_showBatchResults m then results_key key m
      else if key = ''esc'' \<and> m_lanPreparing m
      then say ''Discovery form cancelled.''
        (m\<lparr>m_lanPrepareID := m_lanPrepareID m + 1, m_lanPreparing := False, m_lanQueue := []\<rparr>)
      else if key = ''esc'' \<and> m_checking m then still (cancelLoading m)
      else if m_form m \<noteq> None then handleFormKey env key m
      else if busy m \<and> key = ''q'' then quit_all m
      else if m_actionPicker m then handleActionPicker env key m
      else if m_lanOpen m then handleLANKey key m
      else idle_key env key m)"

section \<open>Messages\<close>

definition zero_device :: device where
  "zero_device = \<lparr>d_id = [], d_name = [], d_mac = [], d_ip = [], d_broadcast = [], d_port = 0, d_interface = [],
     d_site_id = [], d_type = [], d_platform = [], d_strategy = [], d_relay_id = [], d_verify_port = 0,
     d_description = [], d_enabled = False, d_created = [], d_updated = []\<rparr>"

text \<open>The action has ended: its context is released and nothing moves.\<close>

definition end_action :: "'i wake_model \<Rightarrow> 'i wake_model" where
  "end_action m = stopMotion (finishAction m)"

definition mark_presence :: "'i desk_env \<Rightarrow> string \<Rightarrow> string \<Rightarrow> 'i wake_model \<Rightarrow> 'i wake_model" where
  "mark_presence env i st m =
     m\<lparr>m_presence := (m_presence m)(i \<mapsto> st), m_checkedDevice := (m_checkedDevice m)(i \<mapsto> de_now env)\<rparr>"

definition current_action :: "nat \<Rightarrow> string \<Rightarrow> 'i wake_model \<Rightarrow> bool" where
  "current_action op i m \<longleftrightarrow> op = m_actionID m \<and> i = m_actionTargetID m"

definition on_wake_result :: "'i desk_env \<Rightarrow> nat \<Rightarrow> string \<Rightarrow> wake_result \<Rightarrow> error option \<Rightarrow> 'i wake_model \<Rightarrow> 'i handled" where
  "on_wake_result env op name r err m =
     (case err of
        None \<Rightarrow>
          let m = prependWakeAttempt (wr_attempt r) m;
              m = m\<lparr>m_status := name @ dot @ '' packet sent via '' @ routeLabel (wr_route r) @ '' ('' @
                itoa (wa_packets (wr_attempt r)) @ ''). Waiting for power...'', m_action := ''wake-wait''\<rparr>;
              (m', motion) = sig_motion env 95000 m in
          Some (m', verifyWake op (case wr_device r of None \<Rightarrow> zero_device | Some v \<Rightarrow> v) m # motion)
      | Some e \<Rightarrow>
          say (name @ dot @ '' wake failed: '' @ error_text e)
            (end_action (prependWakeAttempt (wr_attempt r) (m\<lparr>m_waking := False\<rparr>))))"

definition on_wake_verify :: "'i desk_env \<Rightarrow> string \<Rightarrow> string \<Rightarrow> string \<Rightarrow> 'i wake_model \<Rightarrow> 'i handled" where
  "on_wake_verify env i name st m =
     (let m = end_action (m\<lparr>m_waking := False\<rparr>) in
      if st = ''online'' then say (name @ dot @ '' ONLINE after wake.'') (mark_presence env i ''online'' m)
      else say (name @ dot @ '' packet sent, but the machine is not online yet. Press s to check again.'') m)"

definition on_remote_result :: "'i desk_env \<Rightarrow> string \<Rightarrow> string \<Rightarrow> error option \<Rightarrow> 'i wake_model \<Rightarrow> 'i handled" where
  "on_remote_result env i name err m =
     (let m = end_action (m\<lparr>m_opening := False\<rparr>) in
      case err of
        Some e \<Rightarrow> say (if errors_is e ErrCanceled then name @ dot @ '' cancelled.''
            else name @ dot @ '' failed: '' @ error_text e) m
      | None \<Rightarrow>
          let m = mark_presence env i ''online'' m in
          if (case m_profiles m i of None \<Rightarrow> False | Some p \<Rightarrow> streamProfile p)
          then say (name @ dot @ '' streaming'') (m\<lparr>m_streaming := (m_streaming m)(i := True)\<rparr>)
          else say (name @ dot @ '' remote opened'') m)"

definition on_disconnect :: "string \<Rightarrow> string \<Rightarrow> error option \<Rightarrow> 'i wake_model \<Rightarrow> 'i handled" where
  "on_disconnect i name err m =
     say (case err of Some e \<Rightarrow> name @ dot @ '' disconnect failed: '' @ error_text e
          | None \<Rightarrow> name @ dot @ '' disconnected'')
       (m\<lparr>m_streaming := (m_streaming m)(i := False)\<rparr>)"

definition probe_text :: "'i wake_model \<Rightarrow> string \<Rightarrow> string \<Rightarrow> string \<Rightarrow> string \<Rightarrow> string" where
  "probe_text m i st method message =
     device_name (m_devices m) i @ dot @ '' power '' @ to_upper st @
     (if method \<noteq> [] \<and> method \<noteq> ''none'' then '' via '' @ method else []) @ ''.'' @
     (if message \<noteq> [] then CHR '' '' # message else [])"

definition on_probe :: "'i desk_env \<Rightarrow> string \<Rightarrow> string \<Rightarrow> string \<Rightarrow> string \<Rightarrow> error option \<Rightarrow> 'i wake_model \<Rightarrow> 'i handled" where
  "on_probe env i st method message err m =
     (let m = finishLoadContext (stopMotion (m\<lparr>m_checking := False, m_loading := False, m_phase := PhaseReady\<rparr>)) in
      case err of
        Some e \<Rightarrow> say (''Status check failed: '' @ error_text e) m
      | None \<Rightarrow>
          let m = mark_presence env i st m;
              m = (if method = [] then m else m\<lparr>m_presenceMethod := (m_presenceMethod m)(i \<mapsto> method)\<rparr>) in
          say (probe_text m i st method message) m)"

text \<open>An inventory has been read: it is shown at once, then its machines are checked.\<close>

definition zero_summary :: presence_summary where
  "zero_summary = \<lparr>su_total = 0, su_online = 0, su_offline = 0, su_unknown = 0\<rparr>"

definition on_data :: "wake_data \<Rightarrow> 'i wake_model \<Rightarrow> 'i handled" where
  "on_data data m =
     (if wd_request data \<noteq> m_requestID m then still m
      else if wd_err data \<noteq> None then failLoading ''Could not read the local inventory.'' m
      else do {
        m \<leftarrow> commitPending (m_presence m) (m_presenceMethod m) zero_summary (m\<lparr>m_pending := Some data\<rparr>);
        startPresenceScan (m_devices m) (wd_request data) m
      })"

definition on_shutdown :: "'i desk_env \<Rightarrow> string \<Rightarrow> string \<Rightarrow> 'i wake_model \<Rightarrow> 'i handled" where
  "on_shutdown env i name m = do {
     let m = m\<lparr>m_form := None, m_actionID := m_actionID m + 1, m_actionTargetID := i, m_actionTarget := name,
           m_action := ''shutdown-wait'', m_shuttingDown := True\<rparr>;
     found \<leftarrow> actionDevice m;
     case found of
       None \<Rightarrow> say (name @ dot @ '' machine not found in active inventory.'') (end_action (m\<lparr>m_shuttingDown := False\<rparr>))
     | Some v \<Rightarrow>
         let (m, motion) = sig_motion env 90000 m;
             m = open_action_context m in
         Some (m, verifyShutdown (m_actionID m) v m # motion)
   }"

definition on_shutdown_verify :: "'i desk_env \<Rightarrow> string \<Rightarrow> string \<Rightarrow> string \<Rightarrow> 'i wake_model \<Rightarrow> 'i handled" where
  "on_shutdown_verify env i name st m =
     (let m = end_action (m\<lparr>m_shuttingDown := False\<rparr>) in
      if st = ''offline''
      then say (name @ dot @ '' unreachable after shutdown; power-off is unconfirmed.'') (mark_presence env i ''offline'' m)
      else say (name @ dot @ '' shutdown command sent, but machine is still responding. Press s to check again.'') m)"

definition on_saved :: "'i desk_env \<Rightarrow> string \<Rightarrow> string \<Rightarrow> bool \<Rightarrow> 'i wake_model \<Rightarrow> 'i handled" where
  "on_saved env message selected keep m =
     (let m = (if selected = [] then m else m\<lparr>m_selectAfterLoad := selected\<rparr>);
          m = m\<lparr>m_form := (if keep then map_option (\<lambda>f. f\<lparr>wf_error := message, wf_saving := False\<rparr>) (m_form m) else None),
               m_status := message\<rparr> in
      if keep then still m
      else case m_lanQueue m of
        n # ns \<Rightarrow> beginAddFromLAN n (m\<lparr>m_lanQueue := ns\<rparr>)
      | [] \<Rightarrow> beginRefresh env LoadingRefresh m)"

definition on_tick :: "'i desk_env \<Rightarrow> nat \<Rightarrow> 'i wake_model \<Rightarrow> 'i handled" where
  "on_tick env i m =
     (if i \<noteq> 0 \<and> i \<noteq> m_motionID m then still m
      else case Step (de_now env) (m_motion m) of
        (False, _) \<Rightarrow> still m
      | (True, mo) \<Rightarrow> (let m = m\<lparr>m_motion := mo, m_frame := mo_frame mo\<rparr> in Some (m, motionTick env m)))"

fun Update :: "'i desk_env \<Rightarrow> desk_msg \<Rightarrow> 'i wake_model \<Rightarrow> 'i handled" where
  "Update env MsgInterrupt m = leave (cancel_context (m_actionCancel m) m)"
| "Update env (MsgWindow w h) m = still (m\<lparr>m_width := w, m_height := h\<rparr>)"
| "Update env (MsgKey key) m = handleKey env key m"
| "Update env (MsgData data) m = on_data data m"
| "Update env (MsgSiteCheck message) m = say message m"
| "Update env (MsgFleet i batch result run) m = applyFleetMsg env i batch result run m"
| "Update env (MsgWakeResult op i name r err) m =
     (if current_action op i m then on_wake_result env op name r err m else still m)"
| "Update env (MsgWakeVerify op i name st) m =
     (if current_action op i m then on_wake_verify env i name st m else still m)"
| "Update env (MsgRemoteResult op i name err) m =
     (if current_action op i m then on_remote_result env i name err m else still m)"
| "Update env (MsgDisconnect i name err) m = on_disconnect i name err m"
| "Update env (MsgProbeResult request i st method message err) m =
     (if request = m_requestID m then on_probe env i st method message err m else still m)"
| "Update env (MsgProbeBatch request statuses methods summary err) m =
     (if request \<noteq> m_requestID m then still m
      else if err \<noteq> None then failLoading ''Power check failed.'' m
      else case commitPending statuses methods summary m of None \<Rightarrow> None | Some m \<Rightarrow> still m)"
| "Update env (MsgLANDiscover i r) m = (if i = m_lanID m then applyLANDiscover r m else still m)"
| "Update env (MsgLANPrepare i n platform port) m =
     (if i = m_lanPrepareID m then still (showNeighborForm env n platform port (m\<lparr>m_lanPreparing := False\<rparr>))
      else still m)"
| "Update env (MsgTick i) m = on_tick env i m"
| "Update env (MsgShutdownInitiated i name) m = on_shutdown env i name m"
| "Update env (MsgShutdownVerify op i name st) m =
     (if current_action op i m then on_shutdown_verify env i name st m else still m)"
| "Update env (MsgFormSaved message selected keep) m = on_saved env message selected keep m"

definition Init :: "'i desk_env \<Rightarrow> 'i wake_model \<Rightarrow> 'i handled" where
  "Init env m = beginRefresh env LoadingBoot m"

end
