(* ===== verification/TuiSpec.thy ===== *)
theory TuiSpec
  imports TuiUpdate
begin

text \<open>
  The Wake Desk as a running program: its model together with the commands in flight, of which the
  runtime delivers the answers in any order, between the keys and the resizes of the terminal.
\<close>

section \<open>Handlers\<close>

definition good :: "('i wake_model \<Rightarrow> desk_cmd list \<Rightarrow> bool) \<Rightarrow> 'i handled \<Rightarrow> bool" where
  "good P r = (case r of None \<Rightarrow> False | Some (m, cs) \<Rightarrow> P m cs)"

lemma good_simps [simp]:
  "good P None = False"
  "good P (Some (m, cs)) = P m cs"
  "good P (still m) = P m []"
  "good P (say s m) = P (m\<lparr>m_status := s\<rparr>) []"
  by (simp_all add: good_def say_def still_def)

lemma good_if [simp]: "good P (if b then x else y) = (if b then good P x else good P y)"
  by simp

lemma good_ifI: "(b \<Longrightarrow> good P x) \<Longrightarrow> (\<not> b \<Longrightarrow> good P y) \<Longrightarrow> good P (if b then x else y)"
  by simp

lemma good_bind: "x = Some y \<Longrightarrow> good P (f y) \<Longrightarrow> good P (Option.bind x f)"
  by simp

section \<open>Tokens\<close>

text \<open>What a command carries to have its answer recognised.\<close>

fun is_action :: "desk_cmd \<Rightarrow> bool" where
  "is_action (CmdWake _ _ _ _) = True"
| "is_action (CmdOpenRemote _ _ _ _) = True"
| "is_action (CmdVerifyWake _ _ _ _) = True"
| "is_action (CmdVerifyShutdown _ _ _ _) = True"
| "is_action _ = False"

fun token_in :: "(nat \<Rightarrow> nat \<Rightarrow> bool) \<Rightarrow> 'i wake_model \<Rightarrow> desk_cmd \<Rightarrow> bool" where
  "token_in R m (CmdLoad _ i _) = R i (m_requestID m)"
| "token_in R m (CmdProbe _ i _ _) = R i (m_requestID m)"
| "token_in R m (CmdNextFleet _ i batch) = (if batch then 1 \<le> i \<and> R i (m_batchID m) else R i (m_requestID m))"
| "token_in R m (CmdWake _ i _ _) = R i (m_actionID m)"
| "token_in R m (CmdOpenRemote _ i _ _) = R i (m_actionID m)"
| "token_in R m (CmdVerifyWake _ i _ _) = R i (m_actionID m)"
| "token_in R m (CmdVerifyShutdown _ i _ _) = R i (m_actionID m)"
| "token_in R m (CmdScanLAN i _ _) = R i (m_lanID m)"
| "token_in R m (CmdGuess i _) = R i (m_lanPrepareID m)"
| "token_in R m _ = R 0 0"

definition stale :: "'i wake_model \<Rightarrow> desk_cmd \<Rightarrow> bool" where
  "stale m c = token_in (<) m c"

definition later :: "'i wake_model \<Rightarrow> 'i wake_model \<Rightarrow> bool" where
  "later m m' \<longleftrightarrow> m_actionID m \<le> m_actionID m' \<and> m_requestID m \<le> m_requestID m' \<and> m_batchID m \<le> m_batchID m' \<and>
     m_lanID m \<le> m_lanID m' \<and> m_lanPrepareID m \<le> m_lanPrepareID m'"

lemma later_trans: "later a b \<Longrightarrow> later b c \<Longrightarrow> later a c"
  unfolding later_def by auto

lemma token_in_later:
  assumes "later m m'" and "token_in R m c" and "\<And>a b d :: nat. R a b \<Longrightarrow> b \<le> d \<Longrightarrow> R a d"
  shows "token_in R m' c"
  using assms unfolding later_def by (cases c) (auto split: if_splits)

lemma stale_later: "later m m' \<Longrightarrow> stale m c \<Longrightarrow> stale m' c"
  unfolding stale_def by (erule token_in_later) auto

section \<open>The invariant\<close>

definition form_ok :: "'i wake_form \<Rightarrow> bool" where
  "form_ok f \<longleftrightarrow> length (wf_values f) = length (wf_labels f) \<and> 0 \<le> wf_selected f \<and>
     wf_selected f < int (length (wf_labels f))"

definition desk_ok :: "'i wake_model \<Rightarrow> bool" where
  "desk_ok m \<longleftrightarrow> 0 \<le> m_selected m \<and> 0 \<le> m_lanSelected m \<and>
     (m_batchRunning m \<or> 1 \<le> m_batchID m \<longrightarrow> m_batchCancel m \<noteq> None) \<and>
     (m_showBatchResults m \<longrightarrow> m_batchPreviewIndex m \<le> max 0 (int (length (m_batchResults m)) - 1) \<and>
       (m_batchKind m = [] \<or> m_batchRunning m)) \<and>
     (case m_form m of None \<Rightarrow> True | Some f \<Rightarrow> form_ok f)"

text \<open>The flags of the action that runs, and the command that will end it.\<close>

definition flags :: "'i wake_model \<Rightarrow> bool \<times> bool \<times> bool" where
  "flags m = (m_waking m, m_opening m, m_shuttingDown m)"

fun awaits :: "'i wake_model \<Rightarrow> desk_cmd \<Rightarrow> bool" where
  "awaits m (CmdWake _ i v _) \<longleftrightarrow> i = m_actionID m \<and> d_id v = m_actionTargetID m \<and> flags m = (True, False, False)"
| "awaits m (CmdVerifyWake _ i v _) \<longleftrightarrow> i = m_actionID m \<and> d_id v = m_actionTargetID m \<and> flags m = (True, False, False)"
| "awaits m (CmdOpenRemote _ i v _) \<longleftrightarrow> i = m_actionID m \<and> d_id v = m_actionTargetID m \<and> flags m = (False, True, False)"
| "awaits m (CmdVerifyShutdown _ i v _) \<longleftrightarrow> i = m_actionID m \<and> d_id v = m_actionTargetID m \<and> flags m = (False, False, True)"
| "awaits m _ \<longleftrightarrow> False"

text \<open>A handler that leaves the action alone, and one that gives it a new number: it then either
  ends it or, if none ran, starts exactly one.\<close>

definition kept :: "'i wake_model \<Rightarrow> 'i wake_model \<Rightarrow> desk_cmd list \<Rightarrow> bool" where
  "kept m m' cs \<longleftrightarrow> m_actionID m' = m_actionID m \<and> flags m' = flags m \<and> m_actionTargetID m' = m_actionTargetID m \<and>
     filter is_action cs = []"

definition settled :: "'i wake_model \<Rightarrow> desk_cmd list \<Rightarrow> bool" where
  "settled m cs \<longleftrightarrow> (case filter is_action cs of [] \<Rightarrow> \<not> busy m | [c] \<Rightarrow> awaits m c | _ \<Rightarrow> False)"

definition sound :: "'i wake_model \<Rightarrow> 'i wake_model \<Rightarrow> desk_cmd list \<Rightarrow> bool" where
  "sound m m' cs \<longleftrightarrow> desk_ok m' \<and> later m m' \<and> list_all (token_in (=) m') cs"

definition orderly :: "'i wake_model \<Rightarrow> 'i wake_model \<Rightarrow> desk_cmd list \<Rightarrow> bool" where
  "orderly m m' cs \<longleftrightarrow> sound m m' cs \<and> (kept m m' cs \<or>
     m_actionID m' = m_actionID m + 1 \<and> settled m' cs \<and> (busy m \<longrightarrow> \<not> busy m'))"

text \<open>What these say of the state before.\<close>

definition core :: "'i wake_model \<Rightarrow> (nat \<times> nat \<times> nat \<times> nat \<times> nat) \<times> (bool \<times> bool \<times> bool) \<times> string" where
  "core m = ((m_actionID m, m_requestID m, m_batchID m, m_lanID m, m_lanPrepareID m), flags m, m_actionTargetID m)"

lemmas desk_defs = orderly_def sound_def kept_def later_def desk_ok_def core_def flags_def settled_def

lemma busy_flags: "busy m \<longleftrightarrow> flags m \<noteq> (False, False, False)"
  by (simp add: busy_def flags_def)

section \<open>The selection\<close>

lemma go_index_some: "0 \<le> i \<Longrightarrow> i < int (length xs) \<Longrightarrow> go_index xs i = Some (xs ! nat i)"
  by (simp add: go_index_def)

lemma go_index_clamp: "xs \<noteq> [] \<Longrightarrow> \<exists>v. go_index xs (max 0 (min i (int (length xs) - 1))) = Some v"
proof -
  assume "xs \<noteq> []"
  then have "0 < length xs" by simp
  then have "0 \<le> max 0 (min i (int (length xs) - 1))" "max 0 (min i (int (length xs) - 1)) < int (length xs)"
    by linarith+
  from go_index_some [OF this] show ?thesis by blast
qed

lemma go_index_in: "go_index xs i = Some x \<Longrightarrow> x \<in> set xs"
  by (auto simp: go_index_def split: if_splits)

lemma pick_some: "xs \<noteq> [] \<Longrightarrow> 0 \<le> m_selected m \<Longrightarrow> \<exists>x \<in> set xs. pick m xs = Some x"
proof -
  assume xs: "xs \<noteq> []" and sel: "0 \<le> m_selected m"
  from xs have "0 < length xs" by simp
  then have "0 \<le> min (m_selected m) (int (length xs) - 1)" "min (m_selected m) (int (length xs) - 1) < int (length xs)"
    using sel by linarith+
  from go_index_some [OF this] show ?thesis by (auto simp: pick_def intro: go_index_in [unfolded pick_def])
qed

lemma actionDevice_some: "0 \<le> m_selected m \<Longrightarrow> \<exists>d. actionDevice m = Some d"
  using pick_some [of "filteredDevices m" m] by (auto simp: actionDevice_def Let_def)

lemma selectedDevice_some: "0 \<le> m_selected m \<Longrightarrow> \<exists>d. selectedDevice m devs = Some d"
  using pick_some [of devs m] actionDevice_some [of m] by (auto simp: selectedDevice_def)

lemma selectedID_some: "0 \<le> m_selected m \<Longrightarrow> \<exists>i. selectedID m = Some i"
  using selectedDevice_some [of m "filteredDevices m"] by (auto simp: selectedID_def)

lemma go_rem_bounds: "0 \<le> a \<Longrightarrow> 0 < b \<Longrightarrow> 0 \<le> go_rem a b \<and> go_rem a b < b"
  by (simp add: go_rem_def)

lemma cancel_context_fields [simp]:
  "m_selected (cancel_context c m) = m_selected m" "m_lanSelected (cancel_context c m) = m_lanSelected m"
  "m_batchRunning (cancel_context c m) = m_batchRunning m" "m_batchCancel (cancel_context c m) = m_batchCancel m"
  "m_batchID (cancel_context c m) = m_batchID m" "m_batchResults (cancel_context c m) = m_batchResults m"
  "m_batchPreviewIndex (cancel_context c m) = m_batchPreviewIndex m" "m_showBatchResults (cancel_context c m) = m_showBatchResults m"
  "m_form (cancel_context c m) = m_form m" "m_actionID (cancel_context c m) = m_actionID m"
  "m_requestID (cancel_context c m) = m_requestID m" "m_lanID (cancel_context c m) = m_lanID m"
  "m_lanPrepareID (cancel_context c m) = m_lanPrepareID m" "m_waking (cancel_context c m) = m_waking m"
  "m_opening (cancel_context c m) = m_opening m" "m_shuttingDown (cancel_context c m) = m_shuttingDown m"
  "m_actionTargetID (cancel_context c m) = m_actionTargetID m" "m_devices (cancel_context c m) = m_devices m"
  "m_contexts (cancel_context c m) = m_contexts m" "m_lanQueue (cancel_context c m) = m_lanQueue m"
  "m_actionContext (cancel_context c m) = m_actionContext m" "m_profiles (cancel_context c m) = m_profiles m"
  "m_batchKind (cancel_context c m) = m_batchKind m"
  by (simp_all add: cancel_context_def split: option.splits)

lemma finishLoadContext_fields [simp]:
  "m_selected (finishLoadContext m) = m_selected m" "m_lanSelected (finishLoadContext m) = m_lanSelected m"
  "m_batchRunning (finishLoadContext m) = m_batchRunning m" "m_batchCancel (finishLoadContext m) = m_batchCancel m"
  "m_batchID (finishLoadContext m) = m_batchID m" "m_batchResults (finishLoadContext m) = m_batchResults m"
  "m_batchPreviewIndex (finishLoadContext m) = m_batchPreviewIndex m" "m_showBatchResults (finishLoadContext m) = m_showBatchResults m"
  "m_form (finishLoadContext m) = m_form m" "m_actionID (finishLoadContext m) = m_actionID m"
  "m_requestID (finishLoadContext m) = m_requestID m" "m_lanID (finishLoadContext m) = m_lanID m"
  "m_lanPrepareID (finishLoadContext m) = m_lanPrepareID m" "m_waking (finishLoadContext m) = m_waking m"
  "m_opening (finishLoadContext m) = m_opening m" "m_shuttingDown (finishLoadContext m) = m_shuttingDown m"
  "m_actionTargetID (finishLoadContext m) = m_actionTargetID m" "m_devices (finishLoadContext m) = m_devices m"
  "m_contexts (finishLoadContext m) = m_contexts m" "m_lanQueue (finishLoadContext m) = m_lanQueue m"
  "m_actionContext (finishLoadContext m) = m_actionContext m" "m_profiles (finishLoadContext m) = m_profiles m"
  "m_batchKind (finishLoadContext m) = m_batchKind m"
  by (simp_all add: finishLoadContext_def)

lemma reselect_fields [simp]:
  "m_lanSelected (reselect i m) = m_lanSelected m" "m_batchRunning (reselect i m) = m_batchRunning m"
  "m_batchCancel (reselect i m) = m_batchCancel m" "m_batchID (reselect i m) = m_batchID m"
  "m_batchResults (reselect i m) = m_batchResults m" "m_batchPreviewIndex (reselect i m) = m_batchPreviewIndex m"
  "m_showBatchResults (reselect i m) = m_showBatchResults m" "m_form (reselect i m) = m_form m"
  "m_actionID (reselect i m) = m_actionID m" "m_requestID (reselect i m) = m_requestID m"
  "m_lanID (reselect i m) = m_lanID m" "m_lanPrepareID (reselect i m) = m_lanPrepareID m"
  "m_waking (reselect i m) = m_waking m" "m_opening (reselect i m) = m_opening m"
  "m_shuttingDown (reselect i m) = m_shuttingDown m" "m_actionTargetID (reselect i m) = m_actionTargetID m"
  "m_devices (reselect i m) = m_devices m" "m_contexts (reselect i m) = m_contexts m"
  "m_lanQueue (reselect i m) = m_lanQueue m" "m_actionContext (reselect i m) = m_actionContext m"
  "m_profiles (reselect i m) = m_profiles m" "m_batchKind (reselect i m) = m_batchKind m"
  by (simp_all add: reselect_def split: option.splits)

lemma cancel_context_same [simp]: "desk_ok (cancel_context c m) = desk_ok m" "core (cancel_context c m) = core m"
  by (simp_all add: desk_ok_def core_def flags_def)

lemma reselect_selected [simp]: "0 \<le> m_selected m \<Longrightarrow> 0 \<le> m_selected (reselect i m)"
  by (auto simp: reselect_def split: option.splits)

lemma motionTick_plain [simp]: "filter is_action (motionTick env m) = []" "list_all (token_in (=) mx) (motionTick env m)"
  by (simp_all add: motionTick_def)

lemmas motion_defs = sig_motion_def triggerMotion_def stopMotion_def Let_def

lemma ok_selected: "desk_ok m \<Longrightarrow> 0 \<le> m_selected m"
  by (simp add: desk_ok_def)

lemma pick_ok: "desk_ok m \<Longrightarrow> xs \<noteq> [] \<Longrightarrow> \<exists>v \<in> set xs. pick m xs = Some v"
  by (rule pick_some) (simp_all add: desk_ok_def)

lemma with_pick:
  assumes "desk_ok m" and "xs = [] \<Longrightarrow> good P a" and "\<And>v. xs \<noteq> [] \<Longrightarrow> v \<in> set xs \<Longrightarrow> good P (f v)"
  shows "good P (if xs = [] then a else Option.bind (pick m xs) f)"
  using assms pick_ok [OF assms(1), of xs] by force

lemma with_free_pick:
  assumes "desk_ok m" and "good P a" and "b \<Longrightarrow> good P a'" and "\<And>v. \<not> b \<Longrightarrow> good P (f v)"
  shows "good P (if xs = [] then a else if b then a' else Option.bind (pick m xs) f)"
  using assms pick_ok [OF assms(1), of xs] by force

lemma good_pick: "desk_ok m \<Longrightarrow> xs \<noteq> [] \<Longrightarrow> (\<And>v. good P (f v)) \<Longrightarrow> good P (Option.bind (pick m xs) f)"
  using pick_ok [of m xs] by force

lemma orderly_same:
  assumes "desk_ok m" and "core m = core k" and "filter is_action cs = []" and "list_all (token_in (=) m) cs"
  shows "orderly k m cs"
  using assms by (simp add: desk_defs)

lemma say_sound: "desk_ok m \<Longrightarrow> core m = core k \<Longrightarrow> good (orderly k) (say s m)"
  by (simp add: desk_defs)

lemma still_sound: "desk_ok m \<Longrightarrow> core m = core k \<Longrightarrow> good (orderly k) (still m)"
  by (simp add: desk_defs)

lemma good_option: "(\<And>x. o1 = Some x \<Longrightarrow> good P (f x)) \<Longrightarrow> (o1 = None \<Longrightarrow> good P a) \<Longrightarrow> good P (case o1 of None \<Rightarrow> a | Some x \<Rightarrow> f x)"
  by (cases o1) auto

section \<open>Loading\<close>

lemma beginRefresh_sound:
  assumes "desk_ok m" and "core m = core k"
  shows "good (orderly k) (beginRefresh env kind m)"
  using assms by (simp add: beginRefresh_def motion_defs open_load_context_def desk_defs)

lemma failLoading_sound:
  assumes "desk_ok m" and "core m = core k"
  shows "good (orderly k) (failLoading s m)"
  using assms by (simp add: failLoading_def motion_defs desk_defs)

lemma cancelLoading_sound:
  assumes "desk_ok m" and "core m = core k"
  shows "orderly k (cancelLoading m) []"
  using assms by (simp add: cancelLoading_def motion_defs desk_defs)

lemma probeSelected_sound:
  assumes "desk_ok m" and "core m = core k"
  shows "good (orderly k) (probeSelected env m)"
proof (cases "filteredDevices m = [] \<or> m_checking m")
  case True
  then show ?thesis using assms by (elim disjE) (simp_all add: probeSelected_def Let_def desk_defs)
next
  case False
  then obtain v where v:
      "go_index (filteredDevices m) (max 0 (min (m_selected m) (int (length (filteredDevices m)) - 1))) = Some v"
    using go_index_clamp by blast
  show ?thesis
  proof (cases "trim_space (d_ip v) = []")
    case True
    then show ?thesis using v False assms by (simp add: probeSelected_def desk_defs)
  next
    case ip: False
    then show ?thesis using v False assms
      by (simp add: probeSelected_def motion_defs open_load_context_def desk_defs)
  qed
qed

section \<open>Actions\<close>

lemma beginWake_sound:
  assumes "desk_ok m" and "core m = core k"
  shows "good (orderly k) (beginWake env force m)"
  unfolding beginWake_def Let_def
proof (rule with_free_pick, goal_cases)
  case (4 v)
  then show ?case using assms by (simp add: motion_defs open_action_context_def desk_defs busy_def)
qed (use assms in \<open>simp_all add: desk_defs\<close>)

lemma beginWakeAndRemote_sound:
  assumes "desk_ok m" and "core m = core k"
  shows "good (orderly k) (beginWakeAndRemote env m)"
  unfolding beginWakeAndRemote_def Let_def [of "filteredDevices m"]
proof (rule with_free_pick, goal_cases)
  case (4 v)
  then show ?case using assms
    by (simp add: motion_defs open_action_context_def desk_defs busy_def split: option.split)
qed (use assms in \<open>simp_all add: desk_defs\<close>)

lemma beginDisconnect_sound:
  assumes "desk_ok m" and "core m = core k"
  shows "good (orderly k) (beginDisconnect m)"
  unfolding beginDisconnect_def Let_def by (rule with_pick) (use assms in \<open>simp_all add: desk_defs\<close>)

section \<open>Batches\<close>

lemma toggleMarked_sound:
  assumes "desk_ok m" and "core m = core k"
  shows "good (orderly k) (toggleMarked m)"
proof -
  from assms(1) obtain d where "selectedDevice m (filteredDevices m) = Some d"
    using selectedDevice_some [of m "filteredDevices m"] by (auto simp: desk_ok_def)
  then show ?thesis using assms by (cases d) (simp_all add: toggleMarked_def desk_defs)
qed

lemma prepareBatch_sound:
  assumes "desk_ok m" and "core m = core k" and "\<not> m_showBatchResults m"
  shows "orderly k (prepareBatch kind m) []"
  using assms by (simp add: prepareBatch_def Let_def desk_defs)

lemma retryBatch_sound:
  assumes "desk_ok m" and "core m = core k" and "\<not> m_showBatchResults m"
  shows "orderly k (retryBatch m) []"
proof (cases "m_batchRunning m")
  case True
  then show ?thesis using orderly_same [OF assms(1,2), of "[]"] by (simp add: retryBatch_def)
next
  case False
  have "orderly k (prepareBatch kind (m\<lparr>m_marked := xs\<rparr>)) []" for kind xs
    by (rule prepareBatch_sound) (use assms in \<open>simp_all add: desk_ok_def core_def flags_def\<close>)
  then show ?thesis using False by (simp add: retryBatch_def)
qed

lemma startBatch_sound:
  assumes "desk_ok m" and "core m = core k" and "\<not> m_showBatchResults m"
  shows "good (orderly k) (startBatch m)"
  using assms by (simp add: startBatch_def cancelLoading_def motion_defs desk_defs)


text \<open>A message of a run of the fleet: the batch it belongs to has a cancel function.\<close>

lemma record_presence_fields [simp]:
  "core (record_presence env r m) = core m" "desk_ok (record_presence env r m) = desk_ok m"
  by (simp_all add: record_presence_def core_def flags_def desk_ok_def)

lemma desk_ok_reselect: "desk_ok m \<Longrightarrow> desk_ok (reselect i m)"
  by (simp add: desk_ok_def)

lemma core_reselect [simp]: "core (reselect i m) = core m"
  by (simp add: core_def flags_def)

lemma core_parts: "core n = core k \<Longrightarrow> m_batchID n = m_batchID k \<and> m_requestID n = m_requestID k"
  by (simp add: core_def)

lemma fleet_result_sound:
  assumes "desk_ok m" and "core m = core k" and "token_in (=) k (CmdNextFleet run i batch)"
  shows "good (orderly k) (fleet_result_msg env i batch r run m)"
proof -
  obtain under where u: "selectedID m = Some under"
    using selectedID_some assms(1) by (auto simp: desk_ok_def)
  define n where "n = (if \<not> batch \<or> m_batchKind m = ''check'' then record_presence env r m else m)"
  have n: "desk_ok n" "core n = core k" using assms by (simp_all add: n_def)
  define n' where "n' = (if under = [] then n
       else reselect under (n\<lparr>m_selected := min (m_selected n) (max 0 (int (length (filteredDevices n)) - 1))\<rparr>))"
  have n': "desk_ok n'" "core n' = core k" using n
    by (simp_all add: n'_def desk_ok_def core_def flags_def)
  define n'' where "n'' = (if batch
       then n'\<lparr>m_status := ''Batch '' @ m_batchKind n' @ '' '' @
           counted (int (length (m_batchResults n'))) (int (length (m_batchTargets n'))) @ dot @ '' '' @ fr_name r @ '': '' @
           fr_status r @ ''. Esc cancels.''\<rparr>
       else n'\<lparr>m_scanDone := m_scanDone n' + 1, m_status := ''Checking '' @ counted (m_scanDone n' + 1) (m_scanTotal n') @ dot @
           '' '' @ fr_name r @ '': '' @ fr_status r @ ''. Esc cancels.''\<rparr>)"
  have n'': "desk_ok n''" "core n'' = core k" using n' by (simp_all add: n''_def desk_ok_def core_def flags_def)
  have "token_in (=) n'' (CmdNextFleet run i batch)"
    using assms(3) core_parts [OF n''(2)] by (cases batch) simp_all
  then have "orderly k n'' [CmdNextFleet run i batch]" using n'' by (intro orderly_same) simp_all
  then show ?thesis
    unfolding fleet_result_msg_def u Option.bind.simps Let_def n_def [symmetric] n'_def [symmetric] n''_def [symmetric]
    by simp
qed

lemma fleet_end_sound:
  assumes "desk_ok m" and "core m = core k" and "batch \<longrightarrow> 1 \<le> i"
  shows "good (orderly k) (applyFleetMsg env i batch None run m)"
proof (cases batch)
  case True
  show ?thesis
  proof (cases "i = m_batchID m")
    case False
    then show ?thesis using True assms by (simp add: applyFleetMsg_def still_sound del: good_simps)
  next
    case current: True
    then obtain c where "m_batchCancel m = Some c" using True assms by (auto simp: desk_ok_def)
    then show ?thesis using True current assms by (simp add: applyFleetMsg_def call_cancel_def desk_defs)
  qed
next
  case False
  then show ?thesis using assms by (simp add: applyFleetMsg_def desk_defs)
qed

lemma applyFleetMsg_sound:
  assumes "desk_ok m" and "core m = core k" and "batch \<longrightarrow> 1 \<le> i"
  shows "good (orderly k) (applyFleetMsg env i batch result run m)"
proof (cases result)
  case None
  then show ?thesis using fleet_end_sound [OF assms] by simp
next
  case (Some r)
  have "desk_ok (m\<lparr>m_batchResults := m_batchResults m @ [r]\<rparr>)" using assms(1) by (auto simp: desk_ok_def)
  moreover have "core (m\<lparr>m_batchResults := m_batchResults m @ [r]\<rparr>) = core k" using assms(2) by (simp add: core_def flags_def)
  moreover have "token_in (=) k (CmdNextFleet run i batch)"
    if "i = (if batch then m_batchID m else m_requestID m)"
    using that assms(3) core_parts [OF assms(2)] by simp
  ultimately show ?thesis using Some assms
    by (cases batch) (simp_all add: applyFleetMsg_def fleet_result_sound orderly_same)
qed

section \<open>The screen\<close>

lemma move_cursor_sound:
  assumes "desk_ok m" and "core m = core k" and "- 1 \<le> delta"
  shows "good (orderly k) (move_cursor env delta m)"
proof -
  have 0: "0 \<le> row_count m" by (simp add: row_count_def)
  show ?thesis
  proof (cases "row_count m = 0")
    case True
    then show ?thesis using assms by (simp add: move_cursor_def desk_defs)
  next
    case False
    then have "0 \<le> go_rem (m_selected m + delta + row_count m) (row_count m)"
      using 0 assms go_rem_bounds [of "m_selected m + delta + row_count m" "row_count m"] by (simp add: desk_ok_def)
    then show ?thesis using assms False
      by (simp add: move_cursor_def motion_defs desk_defs split: prod.split)
  qed
qed

lemma cycle_sound:
  assumes "desk_ok m" and "core m = core k"
  shows "orderly k (cycleSite m) []" "orderly k (cycleState m) []"
  using assms by (simp_all add: cycleSite_def cycleState_def Let_def desk_defs)

lemma openActionPicker_sound:
  assumes "desk_ok m" and "core m = core k"
  shows "good (orderly k) (openActionPicker m)"
  using assms by (simp add: openActionPicker_def desk_defs)

lemma checkSelectedSite_sound:
  assumes "desk_ok m" and "core m = core k"
  shows "good (orderly k) (checkSelectedSite m)"
  unfolding checkSelectedSite_def by (rule with_pick) (use assms in \<open>simp_all add: desk_defs\<close>)


section \<open>Forms\<close>

lemma newWakeForm_ok: "labels \<noteq> [] \<Longrightarrow> form_ok (newWakeForm lib kind i labels vs)"
  by (simp add: newWakeForm_def form_ok_def)


lemma open_form_sound:
  assumes "desk_ok m" and "core m = core k" and "labels \<noteq> []"
  shows "orderly k (open_form (newWakeForm lib kind i labels vs) s m) []"
  using assms newWakeForm_ok [of labels lib kind i vs] by (simp add: open_form_def desk_defs)

lemmas form_labels = deviceFormLabels_def relayFormLabels_def remoteProfileFormLabels_def powerFormLabels_def siteLabels_def

lemma labels_some [simp]: "deviceFormLabels \<noteq> []" "relayFormLabels \<noteq> []" "remoteProfileFormLabels \<noteq> []"
    "powerFormLabels \<noteq> []" "siteLabels \<noteq> []"
  by (simp_all add: form_labels)

lemma still_form_sound:
  "desk_ok m \<Longrightarrow> core m = core k \<Longrightarrow> labels \<noteq> [] \<Longrightarrow> good (orderly k) (still (open_form (newWakeForm lib kind i labels vs) s m))"
  by (simp add: open_form_sound)

text \<open>What the handlers are put together from.\<close>

lemmas sound_steps = good_ifI good_pick say_sound still_sound still_form_sound

lemma beginSite_sound:
  assumes "desk_ok m" and "core m = core k"
  shows "good (orderly k) (beginSite env edit m)"
  unfolding beginSite_def Let_def by (intro sound_steps assms) simp_all

lemma beginInventoryFile_sound:
  assumes "desk_ok m" and "core m = core k"
  shows "orderly k (beginInventoryFile env export m) []"
  unfolding beginInventoryFile_def by (rule open_form_sound [OF assms]) simp

lemma beginAdd_sound:
  assumes "desk_ok m" and "core m = core k"
  shows "good (orderly k) (beginAdd env m)"
  unfolding beginAdd_def by (intro sound_steps beginSite_sound assms) simp_all

lemma beginEdit_sound:
  assumes "desk_ok m" and "core m = core k"
  shows "good (orderly k) (beginEdit env m)"
  unfolding beginEdit_def Let_def by (intro sound_steps beginSite_sound assms) simp_all

lemma beginRemoteProfile_sound:
  assumes "desk_ok m" and "core m = core k"
  shows "good (orderly k) (beginRemoteProfile env m)"
  unfolding beginRemoteProfile_def Let_def by (intro sound_steps assms) simp_all

lemma beginShutdownForm_sound:
  assumes "desk_ok m" and "core m = core k"
  shows "good (orderly k) (beginShutdownForm env m)"
  unfolding beginShutdownForm_def Let_def by (intro sound_steps assms) simp_all

lemma ask_delete_sound:
  "desk_ok m \<Longrightarrow> core m = core k \<Longrightarrow> good (orderly k) (ask_delete what q m)"
  by (simp add: ask_delete_def desk_defs)

lemma beginDelete_sound:
  assumes "desk_ok m" and "core m = core k"
  shows "good (orderly k) (beginDelete m)"
  unfolding beginDelete_def by (intro sound_steps ask_delete_sound assms) simp_all

lemma deleteConfirmed_sound:
  assumes "desk_ok m" and "core m = core k"
  shows "good (orderly k) (deleteConfirmed m)"
  using assms by (simp add: deleteConfirmed_def desk_defs)

section \<open>The keys of a form\<close>

lemma ensureInputs_ok:
  assumes "form_ok f"
  shows "form_ok (ensureInputs lib f)" "length (wf_inputs (ensureInputs lib f)) = length (wf_labels (ensureInputs lib f))"
    "wf_labels (ensureInputs lib f) = wf_labels f"
  using assms by (simp_all add: ensureInputs_def form_ok_def make_inputs_def)

definition inputs_ok :: "'i wake_form \<Rightarrow> bool" where
  "inputs_ok f \<longleftrightarrow> form_ok f \<and> length (wf_inputs f) = length (wf_labels f)"

lemma validate_some: "form_ok f \<Longrightarrow> \<exists>e. validateFormField f = Some e"
proof -
  assume ok: "form_ok f"
  then have "go_index (wf_labels f) 0 \<noteq> None" by (auto simp: form_ok_def go_index_def)
  then show ?thesis by (auto simp: validateFormField_def Let_def)
qed

lemma setSelected_ok: "form_ok f \<Longrightarrow> - 1 \<le> i \<Longrightarrow> form_ok (setSelected lib i f)"
  using go_rem_bounds [of "i + int (length (wf_labels f))" "int (length (wf_labels f))"]
  by (auto simp: form_ok_def setSelected_def Let_def)

lemma with_form_sound:
  "desk_ok m \<Longrightarrow> core m = core k \<Longrightarrow> form_ok f \<Longrightarrow> good (orderly k) (still (m\<lparr>m_form := Some f\<rparr>))"
  by (simp add: desk_defs)

lemma saveForm_sound:
  assumes "desk_ok m" and "core m = core k"
  shows "good (orderly k) (saveForm env m)"
  using assms by (cases "m_form m") (simp_all add: saveForm_def desk_defs form_ok_def)

lemma cycle_field_sound:
  assumes "desk_ok m" and "core m = core k" and "inputs_ok f"
  shows "good (orderly k) (cycle_field env f m)"
proof (cases "choices_of m f")
  case None
  then show ?thesis using assms by (simp add: cycle_field_def inputs_ok_def with_form_sound del: good_simps)
next
  case (Some choices)
  have "go_index (wf_values f) (wf_selected f) = Some (wf_values f ! nat (wf_selected f))"
    "go_index (wf_inputs f) (wf_selected f) = Some (wf_inputs f ! nat (wf_selected f))"
    using assms(3) by (auto intro!: go_index_some simp: inputs_ok_def form_ok_def)
  then show ?thesis using Some assms
    by (simp add: cycle_field_def set_field_def inputs_ok_def form_ok_def with_form_sound del: good_simps)
qed

lemma type_key_sound:
  assumes "desk_ok m" and "core m = core k" and "inputs_ok f"
  shows "good (orderly k) (type_key env key f m)"
proof -
  have "go_index (wf_values f) (wf_selected f) = Some (wf_values f ! nat (wf_selected f))"
    "go_index (wf_inputs f) (wf_selected f) = Some (wf_inputs f ! nat (wf_selected f))"
    using assms(3) by (auto intro!: go_index_some simp: inputs_ok_def form_ok_def)
  then show ?thesis using assms
    by (simp add: type_key_def Let_def inputs_ok_def form_ok_def with_form_sound del: good_simps)
qed

lemma leave_field_sound:
  assumes "desk_ok m" and "core m = core k" and "form_ok f"
  shows "good (orderly k) (leave_field env key f m)"
proof -
  have m: "desk_ok (m\<lparr>m_form := Some f\<rparr>)" "core (m\<lparr>m_form := Some f\<rparr>) = core k"
    using assms by (simp_all add: desk_ok_def core_def flags_def)
  have "form_ok (setSelected (de_inputs env) (wf_selected f + 1) f)"
    using assms(3) by (intro setSelected_ok) (auto simp: form_ok_def)
  then show ?thesis unfolding leave_field_def Let_def
    by (intro good_ifI saveForm_sound with_form_sound still_sound m assms)
qed

lemma handleFormKey_sound:
  assumes "desk_ok m" and "core m = core k"
  shows "good (orderly k) (handleFormKey env key m)"
proof (cases "m_form m")
  case None
  then show ?thesis using assms by (simp add: handleFormKey_def still_sound del: good_simps)
next
  case (Some f0)
  define f where "f = ensureInputs (de_inputs env) f0"
  have f: "inputs_ok f" "form_ok f"
    using ensureInputs_ok [of f0 "de_inputs env"] assms(1) Some by (simp_all add: f_def inputs_ok_def desk_ok_def)
  obtain e where e: "validateFormField f = Some e" using validate_some [OF f(2)] by blast
  have up: "form_ok (setSelected (de_inputs env) (wf_selected f - 1) f)"
    using f(2) by (intro setSelected_ok) (auto simp: form_ok_def)
  have quit: "good (orderly k) (Some (finishLoadContext (m\<lparr>m_form := Some f\<rparr>), [CmdQuit]))"
    using assms f(2) by (simp add: desk_defs)
  have esc: "good (orderly k) (still (m\<lparr>m_lanQueue := [], m_form := None, m_status := ''Edit cancelled.''\<rparr>))"
    using assms by (simp add: desk_defs)
  have err: "good (orderly k) (still (m\<lparr>m_form := Some (f\<lparr>wf_error := s\<rparr>)\<rparr>))" for s
    using assms f(2) by (intro with_form_sound) (simp_all add: form_ok_def)
  show ?thesis
    unfolding handleFormKey_def Some option.case Let_def f_def [symmetric] e
    by (cases e) (simp_all del: good_simps add: quit esc err up with_form_sound cycle_field_sound
      type_key_sound leave_field_sound assms f)
qed


section \<open>The LAN sweep\<close>

lemma beginLANDiscover_sound:
  assumes "desk_ok m" and "core m = core k"
  shows "good (orderly k) (beginLANDiscover m)"
  using assms by (simp add: beginLANDiscover_def Let_def desk_defs)

lemma applyLANDiscover_sound:
  assumes "desk_ok m" and "core m = core k"
  shows "good (orderly k) (applyLANDiscover r m)"
  using assms by (cases "ld_err r") (simp_all add: applyLANDiscover_def desk_defs)

lemma beginAddFromLAN_sound:
  assumes "desk_ok m" and "core m = core k"
  shows "good (orderly k) (beginAddFromLAN n m)"
  using assms by (simp add: beginAddFromLAN_def Let_def desk_defs)

lemma show_known_sound:
  assumes "desk_ok m" and "core m = core k"
  shows "good (orderly k) (still (show_known h m))"
proof (cases "lh_device h")
  case None
  then show ?thesis using assms by (simp add: show_known_def still_sound del: good_simps)
next
  case (Some v)
  then show ?thesis using assms
    by (cases "index_of (d_id v) (filteredDevices m)") (simp_all add: show_known_def desk_defs)
qed

lemma unknown_selected:
  "desk_ok m \<Longrightarrow> m_lanSelected m < int (length (m_lanUnknown m)) \<Longrightarrow>
    go_index (m_lanUnknown m) (m_lanSelected m) = Some (m_lanUnknown m ! nat (m_lanSelected m))"
  by (intro go_index_some) (simp_all add: desk_ok_def)

lemma lan_closed:
  assumes "desk_ok m" and "core m = core k"
  shows "desk_ok (m\<lparr>m_lanOpen := False\<rparr>)" "core (m\<lparr>m_lanOpen := False\<rparr>) = core k"
    "desk_ok (m\<lparr>m_lanOpen := False, m_lanMarked := u, m_lanQueue := q\<rparr>)"
    "core (m\<lparr>m_lanOpen := False, m_lanMarked := u, m_lanQueue := q\<rparr>) = core k"
  using assms by (simp_all add: desk_ok_def core_def flags_def)

lemma addSelectedLANHost_sound:
  assumes "desk_ok m" and "core m = core k"
  shows "good (orderly k) (addSelectedLANHost m)"
proof (cases "filter (\<lambda>n. m_lanMarked m (nb_mac n)) (m_lanUnknown m)")
  case (Cons n ns)
  then show ?thesis by (simp add: addSelectedLANHost_def beginAddFromLAN_sound lan_closed [OF assms])
next
  case Nil
  then show ?thesis using assms
    by (simp add: addSelectedLANHost_def unknown_selected beginAddFromLAN_sound lan_closed [OF assms]
        still_sound show_known_sound del: good_simps(3) split: option.split)
qed

lemma mark_neighbor_sound:
  assumes "desk_ok m" and "core m = core k"
  shows "good (orderly k) (mark_neighbor m)"
proof (cases "m_lanSelected m < int (length (m_lanUnknown m))")
  case True
  then show ?thesis using assms by (simp add: mark_neighbor_def unknown_selected) (simp add: desk_defs)
next
  case False
  then show ?thesis using assms by (simp add: mark_neighbor_def still_sound del: good_simps)
qed

lemma handleLANKey_sound:
  assumes "desk_ok m" and "core m = core k"
  shows "good (orderly k) (handleLANKey key m)"
proof -
  have esc: "good (orderly k) (still (m\<lparr>m_lanOpen := False, m_lanID := m_lanID m + 1, m_status := s\<rparr>))" for s
    using assms by (simp add: desk_defs)
  have iface: "good (orderly k) (beginLANDiscover (m\<lparr>m_lanIface := i\<rparr>))" for i
    by (rule beginLANDiscover_sound) (use assms in \<open>simp_all add: desk_ok_def core_def flags_def\<close>)
  have down: "good (orderly k) (still (if b then m\<lparr>m_lanSelected := m_lanSelected m + 1\<rparr> else m))" for b
    using assms by (simp add: desk_defs)
  have up: "good (orderly k) (still (if m_lanSelected m > 0 then m\<lparr>m_lanSelected := m_lanSelected m - 1\<rparr> else m))"
    using assms by (simp add: desk_defs)
  show ?thesis unfolding handleLANKey_def Let_def
    by (intro good_ifI esc iface down up mark_neighbor_sound beginLANDiscover_sound addSelectedLANHost_sound
        still_sound assms)
qed

lemma showNeighborForm_sound:
  assumes "desk_ok m" and "core m = core k"
  shows "good (orderly k) (still (showNeighborForm env n platform port (m\<lparr>m_lanPreparing := False\<rparr>)))"
proof -
  have "desk_ok (m\<lparr>m_lanPreparing := False\<rparr>)" "core (m\<lparr>m_lanPreparing := False\<rparr>) = core k"
    using assms by (simp_all add: desk_ok_def core_def flags_def)
  then show ?thesis by (simp add: showNeighborForm_def Let_def open_form_sound)
qed

section \<open>The keyboard\<close>

lemma leave_sound: "desk_ok m \<Longrightarrow> core m = core k \<Longrightarrow> good (orderly k) (leave m)"
  by (simp add: leave_def desk_defs)

lemma pick_action_sound:
  assumes "desk_ok m" and "core m = core k"
  shows "good (orderly k) (pick_action env i m)"
  unfolding pick_action_def
  by (intro good_ifI beginWake_sound beginWakeAndRemote_sound probeSelected_sound beginShutdownForm_sound say_sound assms)

lemma handleActionPicker_sound:
  assumes "desk_ok m" and "core m = core k"
  shows "good (orderly k) (handleActionPicker env key m)"
proof -
  have "desk_ok (m\<lparr>m_actionPicker := False\<rparr>)" "core (m\<lparr>m_actionPicker := False\<rparr>) = core k"
    using assms by (simp_all add: desk_ok_def core_def flags_def)
  then have pick: "good (orderly k) (pick_action env i (m\<lparr>m_actionPicker := False\<rparr>))" for i
    by (rule pick_action_sound)
  have move: "good (orderly k) (still (m\<lparr>m_pickerSelected := i\<rparr>))" for i
    using assms by (simp add: desk_defs)
  show ?thesis unfolding handleActionPicker_def Let_def
    by (intro good_ifI pick move still_sound assms)
qed

lemma loading_key_sound:
  assumes "desk_ok m" and "core m = core k"
  shows "good (orderly k) (loading_key env key m)"
proof -
  have esc: "good (orderly k) (still (if b then cancelLoading m else m))" for b
    using cancelLoading_sound [OF assms] still_sound [OF assms] by simp
  show ?thesis unfolding loading_key_def
    by (intro good_ifI leave_sound beginRefresh_sound esc still_sound assms)
qed

lemma scroll_sound:
  assumes "desk_ok m" and "core m = core k" and "m_showBatchResults m \<longrightarrow> n = length (m_batchResults m)"
  shows "good (orderly k) (still (scroll key n m))"
proof (rule still_sound)
  have "m_showBatchResults m \<longrightarrow> m_batchPreviewIndex (scroll key n m) \<le> max 0 (int (length (m_batchResults m)) - 1)"
  proof
    assume "m_showBatchResults m"
    then have "n = length (m_batchResults m)" "m_batchPreviewIndex m \<le> max 0 (int (length (m_batchResults m)) - 1)"
      using assms(1,3) by (simp_all add: desk_ok_def)
    then show "m_batchPreviewIndex (scroll key n m) \<le> max 0 (int (length (m_batchResults m)) - 1)"
      unfolding scroll_def by (simp split: if_split) linarith
  qed
  moreover have "desk_ok (m\<lparr>m_batchPreviewIndex := i\<rparr>)"
    if "m_showBatchResults m \<longrightarrow> i \<le> max 0 (int (length (m_batchResults m)) - 1)" for i
    using that assms(1) by (simp add: desk_ok_def)
  moreover have "scroll key n m = m\<lparr>m_batchPreviewIndex := m_batchPreviewIndex (scroll key n m)\<rparr>"
    by (simp add: scroll_def)
  ultimately show "desk_ok (scroll key n m)" by metis
  show "core (scroll key n m) = core k" using assms(2) by (simp add: scroll_def core_def flags_def)
qed

lemma preview_key_sound:
  assumes "desk_ok m" and "core m = core k" and "\<not> m_showBatchResults m"
  shows "good (orderly k) (preview_key key m)"
proof -
  have "good (orderly k) (say s (m\<lparr>m_batchKind := [], m_batchTargets := []\<rparr>))" for s
    using assms by (simp add: desk_defs)
  then show ?thesis unfolding preview_key_def
    by (intro good_ifI startBatch_sound scroll_sound assms) (simp_all add: assms)
qed

lemma results_key_sound:
  assumes "desk_ok m" and "core m = core k"
  shows "good (orderly k) (results_key key m)"
proof -
  have "good (orderly k) (still (m\<lparr>m_showBatchResults := False\<rparr>))" using assms by (simp add: desk_defs)
  then show ?thesis unfolding results_key_def by (intro good_ifI scroll_sound assms) simp_all
qed

lemma confirm_key_sound:
  assumes "desk_ok m" and "core m = core k"
  shows "good (orderly k) (confirm_key key m)"
proof -
  have "good (orderly k) (say s (m\<lparr>m_confirm := []\<rparr>))" for s using assms by (simp add: desk_defs)
  then show ?thesis unfolding confirm_key_def by (intro good_ifI deleteConfirmed_sound still_sound assms)
qed

lemma filter_key_sound:
  assumes "desk_ok m" and "core m = core k"
  shows "good (orderly k) (filter_key env key m)"
  using assms by (simp add: filter_key_def desk_defs)

lemma machine_key_sound:
  assumes "desk_ok m" and "core m = core k"
  shows "good (orderly k) (machine_key env key m)"
  unfolding machine_key_def
  by (intro good_ifI openActionPicker_sound beginWake_sound beginWakeAndRemote_sound beginLANDiscover_sound
      beginShutdownForm_sound beginDisconnect_sound still_sound assms)

lemma show_tab_sound: "desk_ok m \<Longrightarrow> core m = core k \<Longrightarrow> good (orderly k) (show_tab i m)"
  by (simp add: show_tab_def desk_defs)

lemma tab_key_sound:
  assumes "desk_ok m" and "core m = core k" and "tab_key key m = Some r"
  shows "good (orderly k) r"
  using assms(3) by (auto simp: tab_key_def intro: show_tab_sound [OF assms(1,2)] split: if_splits)

lemma batch_key_sound:
  assumes "desk_ok m" and "core m = core k" and "\<not> m_showBatchResults m" and "m_batchKind m = [] \<or> m_batchRunning m" and "batch_key key m = Some r"
  shows "good (orderly k) r"
proof -
  have b: "good (orderly k) (still (m\<lparr>m_showBatchResults := True, m_batchPreviewIndex := 0\<rparr>))"
    using assms(1,2,4) by (simp add: desk_defs)
  have pure: "good (orderly k) (still (cycleSite m))" "good (orderly k) (still (cycleState m))"
    "good (orderly k) (still (prepareBatch kind m))" "good (orderly k) (still (retryBatch m))" for kind
    using cycle_sound [OF assms(1,2)] prepareBatch_sound [OF assms(1-3)] retryBatch_sound [OF assms(1-3)] by simp_all
  show ?thesis using assms(5)
    by (auto simp: batch_key_def intro: b pure toggleMarked_sound [OF assms(1,2)] simp del: good_simps split: if_splits)
qed

lemma list_key_sound:
  assumes "desk_ok m" and "core m = core k"
  shows "good (orderly k) (list_key env key m)"
proof -
  have inv: "good (orderly k) (still (beginInventoryFile env export m))" for export
    using beginInventoryFile_sound [OF assms] by simp
  have modes: "good (orderly k) (say s (m\<lparr>m_filtering := True, m_filterInput := m_filter m\<rparr>))"
    "good (orderly k) (still (m\<lparr>m_showHelp := True\<rparr>))"
    "good (orderly k) (say s (m\<lparr>m_marked := [], m_filter := [], m_selected := 0\<rparr>))" for s
    using assms by (simp_all add: desk_defs)
  show ?thesis unfolding list_key_def
    by (intro good_ifI inv modes move_cursor_sound checkSelectedSite_sound probeSelected_sound beginRefresh_sound
        beginAdd_sound beginEdit_sound beginRemoteProfile_sound beginDelete_sound machine_key_sound still_sound assms)
      simp_all
qed

lemma browse_key_sound:
  assumes "desk_ok m" and "core m = core k" and "\<not> m_showBatchResults m" and "m_batchKind m = [] \<or> m_batchRunning m"
  shows "good (orderly k) (browse_key env key m)"
proof (cases "key = ''q''")
  case True
  then show ?thesis using assms by (simp add: browse_key_def leave_sound)
next
  case False
  then show ?thesis
    using tab_key_sound [OF assms(1,2)] batch_key_sound [OF assms] list_key_sound [OF assms(1,2)]
    by (simp add: browse_key_def split: option.split)
qed

lemma cancelAction_sound:
  assumes "desk_ok m" and "core m = core k"
  shows "good (orderly k) (say s (cancelAction m))"
  using assms by (simp add: cancelAction_def finishAction_def stopMotion_def desk_defs busy_def)

lemma idle_key_sound:
  assumes "desk_ok m" and "core m = core k" and "\<not> m_showBatchResults m" and "m_batchKind m = [] \<or> m_batchRunning m"
  shows "good (orderly k) (idle_key env key m)"
proof -
  have shut: "good (orderly k) (still (if b then m\<lparr>m_showHelp := False\<rparr> else m))" for b
    using assms by (simp add: desk_defs)
  show ?thesis unfolding idle_key_def
    by (intro good_ifI cancelAction_sound confirm_key_sound shut filter_key_sound say_sound browse_key_sound assms)
qed

lemma quit_all_sound:
  assumes "desk_ok m" and "core m = core k"
  shows "good (orderly k) (quit_all m)"
  using assms by (simp add: quit_all_def leave_sound)

lemma handleKey_sound:
  assumes "desk_ok m" and "core m = core k"
  shows "good (orderly k) (handleKey env key m)"
proof -
  have esc: "good (orderly k) (case call_cancel (m_batchCancel m) m of None \<Rightarrow> None | Some m \<Rightarrow> say s m)"
    if "key = ''esc'' \<and> m_batchRunning m" for s
  proof -
    from that assms(1) obtain c where c: "m_batchCancel m = Some c" by (auto simp: desk_ok_def)
    show ?thesis unfolding c call_cancel_def option.case by (intro say_sound) (simp_all add: assms)
  qed
  have form: "good (orderly k) (say s (m\<lparr>m_lanPrepareID := m_lanPrepareID m + 1, m_lanPreparing := False, m_lanQueue := []\<rparr>))" for s
    using assms by (simp add: desk_defs)
  have check: "good (orderly k) (still (cancelLoading m))" using cancelLoading_sound [OF assms] by simp
  have preview: "good (orderly k) (preview_key key m)" if "m_batchKind m \<noteq> [] \<and> \<not> m_batchRunning m"
    using that assms(1) by (intro preview_key_sound assms) (auto simp: desk_ok_def)
  show ?thesis unfolding handleKey_def
    by (intro good_ifI quit_all_sound loading_key_sound esc preview results_key_sound form check handleFormKey_sound
        handleActionPicker_sound handleLANKey_sound idle_key_sound assms) auto
qed


section \<open>Messages\<close>

lemma commitPending_ok:
  assumes "desk_ok m"
  shows "\<exists>m'. commitPending st me su m = Some m' \<and> desk_ok m' \<and> core m' = core m"
proof (cases "m_pending m")
  case None
  then show ?thesis using assms by (simp add: commitPending_def)
next
  case (Some d)
  obtain under where "selectedID m = Some under" using selectedID_some assms by (auto simp: desk_ok_def)
  then show ?thesis using Some assms
    by (simp add: commitPending_def row_count_def Let_def stopMotion_def desk_ok_def core_def flags_def)
qed

lemma startPresenceScan_sound:
  assumes "desk_ok m" and "core m = core k" and "request = m_requestID k"
  shows "good (orderly k) (startPresenceScan devs request m)"
proof -
  obtain under where u: "(if m_tab m = 0 then selectedDevice m (filteredDevices m) else Some None) = Some under"
    using selectedDevice_some [OF ok_selected [OF assms(1)], of "filteredDevices m"] by (cases "m_tab m = 0") auto
  have "good (orderly k)
    (let m = open_load_context m;
           run = \<lparr>fr_context = m_contexts m - 1, fr_devices = devices, fr_sites = m_sites m, fr_wakes = False,
             fr_profiles = m_profiles m\<rparr>;
           m = m\<lparr>m_checking := True, m_scanDone := 0, m_scanTotal := int (length devices), m_status := s\<rparr> in
       Some (m, [CmdNextFleet run request False]))" for devices s
    using assms by (simp add: open_load_context_def desk_defs)
  then show ?thesis unfolding startPresenceScan_def u Option.bind.simps Let_def [of "case under of None \<Rightarrow> _ | Some d \<Rightarrow> _ d"]
    by (intro good_ifI still_sound assms)
qed

lemma on_data_sound:
  assumes "desk_ok m" and "core m = core k"
  shows "good (orderly k) (on_data data m)"
proof -
  have "desk_ok (m\<lparr>m_pending := Some data\<rparr>)" "core (m\<lparr>m_pending := Some data\<rparr>) = core k"
    using assms by (simp_all add: desk_ok_def core_def flags_def)
  from commitPending_ok [OF this(1), of "m_presence m" "m_presenceMethod m" zero_summary] this(2)
  obtain m' where m': "commitPending (m_presence m) (m_presenceMethod m) zero_summary (m\<lparr>m_pending := Some data\<rparr>) = Some m'"
    "desk_ok m'" "core m' = core k" by auto
  have "wd_request data = m_requestID k" if "\<not> wd_request data \<noteq> m_requestID m"
    using that assms(2) by (simp add: core_def)
  then show ?thesis unfolding on_data_def m' Option.bind.simps
    by (intro good_ifI still_sound failLoading_sound startPresenceScan_sound m' assms) simp_all
qed

lemma on_saved_sound:
  assumes "desk_ok m" and "core m = core k"
  shows "good (orderly k) (on_saved env message selected keep m)"
proof -
  define n where "n = (if selected = [] then m else m\<lparr>m_selectAfterLoad := selected\<rparr>)"
  define n' where "n' = n\<lparr>m_form := (if keep then map_option (\<lambda>f. f\<lparr>wf_error := message, wf_saving := False\<rparr>) (m_form n) else None),
               m_status := message\<rparr>"
  have n: "desk_ok n" "core n = core k" using assms by (simp_all add: n_def desk_ok_def core_def flags_def)
  then have n': "desk_ok n'" "core n' = core k"
    by (simp_all add: n'_def desk_ok_def core_def flags_def form_ok_def split: option.splits)
  have "good (orderly k) (beginAddFromLAN h (n'\<lparr>m_lanQueue := hs\<rparr>))" for h hs
    by (rule beginAddFromLAN_sound) (use n' in \<open>simp_all add: desk_ok_def core_def flags_def\<close>)
  then show ?thesis
    unfolding on_saved_def Let_def n_def [symmetric] n'_def [symmetric]
    using still_sound [OF n'] beginRefresh_sound [OF n'] by (simp split: list.split)
qed

lemma mark_presence_same [simp]: "desk_ok (mark_presence env i st m) = desk_ok m" "core (mark_presence env i st m) = core m"
  by (simp_all add: mark_presence_def desk_ok_def core_def flags_def)

lemma on_probe_sound:
  assumes "desk_ok m" and "core m = core k"
  shows "good (orderly k) (on_probe env i st method message err m)"
proof -
  define n where "n = finishLoadContext (stopMotion (m\<lparr>m_checking := False, m_loading := False, m_phase := PhaseReady\<rparr>))"
  have n: "desk_ok n" "core n = core k" using assms by (simp_all add: n_def stopMotion_def desk_ok_def core_def flags_def)
  define n' where "n' = mark_presence env i st n"
  have n': "desk_ok n'" "core n' = core k" using n by (simp_all add: n'_def)
  have "desk_ok (if b then n' else n'\<lparr>m_presenceMethod := f\<rparr>)" "core (if b then n' else n'\<lparr>m_presenceMethod := f\<rparr>) = core k" for b f
    using n' by (simp_all add: desk_ok_def core_def flags_def)
  then show ?thesis
    unfolding on_probe_def Let_def n_def [symmetric] n'_def [symmetric]
    using say_sound [OF n] say_sound by (simp only: split: option.split) blast
qed

lemma on_disconnect_sound:
  assumes "desk_ok m" and "core m = core k"
  shows "good (orderly k) (on_disconnect i name err m)"
  unfolding on_disconnect_def by (rule say_sound) (use assms in \<open>simp_all add: desk_ok_def core_def flags_def\<close>)

lemma on_tick_sound:
  assumes "desk_ok m" and "core m = core k"
  shows "good (orderly k) (on_tick env i m)"
  using assms by (simp add: on_tick_def Step_def Let_def desk_defs)

section \<open>The answers to an action\<close>

definition tokens :: "'i wake_model \<Rightarrow> nat \<times> nat \<times> nat \<times> nat \<times> nat" where
  "tokens m = (m_actionID m, m_requestID m, m_batchID m, m_lanID m, m_lanPrepareID m)"

text \<open>An answer that ends the action: one flag goes down, and nothing is started.\<close>

definition ends :: "'i wake_model \<Rightarrow> bool \<times> bool \<times> bool \<Rightarrow> 'i wake_model \<Rightarrow> desk_cmd list \<Rightarrow> bool" where
  "ends m fl m' cs \<longleftrightarrow> cs = [] \<and> desk_ok m' \<and> tokens m' = tokens m \<and> flags m' = fl"

lemma ends_sound: "ends m fl m' cs \<Longrightarrow> sound m m' cs"
  by (simp add: ends_def sound_def later_def tokens_def)

lemma ends_say: "ends m fl m' [] \<Longrightarrow> good (ends m fl) (say s m')"
  by (simp add: ends_def desk_ok_def tokens_def flags_def)

lemma ends_end_action: "desk_ok n \<Longrightarrow> tokens n = tokens m \<Longrightarrow> ends m (flags n) (end_action n) []"
  by (simp add: ends_def end_action_def stopMotion_def finishAction_def desk_ok_def tokens_def flags_def)

lemma ends_mark: "ends m fl n [] \<Longrightarrow> ends m fl (mark_presence env i st n) []"
  by (simp add: ends_def mark_presence_def desk_ok_def tokens_def flags_def)

lemma ends_streaming: "ends m fl n [] \<Longrightarrow> ends m fl (n\<lparr>m_streaming := f\<rparr>) []"
  by (simp add: ends_def desk_ok_def tokens_def flags_def)

lemma flag_down:
  assumes "desk_ok m"
  shows "desk_ok (m\<lparr>m_waking := False\<rparr>)" "tokens (m\<lparr>m_waking := False\<rparr>) = tokens m"
    "desk_ok (m\<lparr>m_opening := False\<rparr>)" "tokens (m\<lparr>m_opening := False\<rparr>) = tokens m"
    "desk_ok (m\<lparr>m_shuttingDown := False\<rparr>)" "tokens (m\<lparr>m_shuttingDown := False\<rparr>) = tokens m"
  using assms by (simp_all add: desk_ok_def tokens_def)

lemma prependWakeAttempt_same [simp]:
  "desk_ok (prependWakeAttempt a m) = desk_ok m" "core (prependWakeAttempt a m) = core m"
  "tokens (prependWakeAttempt a m) = tokens m" "flags (prependWakeAttempt a m) = flags m"
  by (simp_all add: prependWakeAttempt_def desk_ok_def core_def flags_def tokens_def)

lemma flags_down:
  "flags (m\<lparr>m_waking := False\<rparr>) = (False, m_opening m, m_shuttingDown m)"
  "flags (m\<lparr>m_opening := False\<rparr>) = (m_waking m, False, m_shuttingDown m)"
  "flags (m\<lparr>m_shuttingDown := False\<rparr>) = (m_waking m, m_opening m, False)"
  by (simp_all add: flags_def)

lemma wake_failed_ends:
  assumes "desk_ok m"
  shows "good (ends m (False, m_opening m, m_shuttingDown m)) (on_wake_result env op name r (Some e) m)"
  using ends_end_action [of "prependWakeAttempt (wr_attempt r) (m\<lparr>m_waking := False\<rparr>)" m] flag_down [OF assms]
  by (simp add: on_wake_result_def flags_down ends_say del: good_simps)

lemma on_wake_verify_ends:
  assumes "desk_ok m"
  shows "good (ends m (False, m_opening m, m_shuttingDown m)) (on_wake_verify env i name st m)"
  using ends_end_action [of "m\<lparr>m_waking := False\<rparr>" m] flag_down [OF assms]
  by (simp add: on_wake_verify_def Let_def flags_down ends_say ends_mark del: good_simps)

lemma on_remote_result_ends:
  assumes "desk_ok m"
  shows "good (ends m (m_waking m, False, m_shuttingDown m)) (on_remote_result env i name err m)"
  using ends_end_action [of "m\<lparr>m_opening := False\<rparr>" m] flag_down [OF assms]
  by (cases err) (simp_all add: on_remote_result_def Let_def flags_down ends_say ends_mark ends_streaming del: good_simps)

lemma on_shutdown_verify_ends:
  assumes "desk_ok m"
  shows "good (ends m (m_waking m, m_opening m, False)) (on_shutdown_verify env i name st m)"
  using ends_end_action [of "m\<lparr>m_shuttingDown := False\<rparr>" m] flag_down [OF assms]
  by (simp add: on_shutdown_verify_def Let_def flags_down ends_say ends_mark del: good_simps)

text \<open>A wake that was sent goes on to be verified, under the same number.\<close>

definition goes_on :: "'i wake_model \<Rightarrow> wake_result \<Rightarrow> 'i wake_model \<Rightarrow> desk_cmd list \<Rightarrow> bool" where
  "goes_on m r m' cs \<longleftrightarrow> desk_ok m' \<and> core m' = core m \<and> list_all (token_in (=) m') cs \<and>
     (\<exists>ctx port. filter is_action cs =
        [CmdVerifyWake ctx (m_actionID m) (case wr_device r of None \<Rightarrow> zero_device | Some v \<Rightarrow> v) port])"

lemma wake_sent_goes_on:
  assumes "desk_ok m" and "current_action op i m"
  shows "good (goes_on m r) (on_wake_result env op name r None m)"
  using assms
  by (simp add: on_wake_result_def motion_defs verifyWake_def goes_on_def current_action_def prependWakeAttempt_def
      desk_ok_def core_def flags_def)

lemma on_shutdown_sound:
  assumes "desk_ok m"
  shows "good (sound m) (on_shutdown env i name m)"
proof -
  define n where "n = m\<lparr>m_form := None, m_actionID := m_actionID m + 1, m_actionTargetID := i, m_actionTarget := name,
           m_action := ''shutdown-wait'', m_shuttingDown := True\<rparr>"
  have n: "desk_ok n" using assms by (simp add: n_def desk_ok_def)
  obtain d where d: "actionDevice n = Some d" using actionDevice_some [OF ok_selected [OF n]] by blast
  have down: "desk_ok (n\<lparr>m_shuttingDown := False\<rparr>)" using n by (simp add: desk_ok_def)
  have "good (sound m) (say s (end_action (n\<lparr>m_shuttingDown := False\<rparr>)))" for s
    using assms by (simp add: n_def end_action_def stopMotion_def finishAction_def desk_defs)
  moreover have "good (sound m) (let (m, motion) = sig_motion env 90000 n;
             m = open_action_context m in
         Some (m, verifyShutdown (m_actionID m) v m # motion))" for v
    using assms by (simp add: n_def motion_defs open_action_context_def verifyShutdown_def desk_defs)
  ultimately show ?thesis
    unfolding on_shutdown_def n_def [symmetric] Let_def [of n] d Option.bind.simps
    by (cases d) (simp_all only: option.case)
qed

text \<open>A shutdown that arrives while nothing else runs.\<close>

lemma on_shutdown_orderly:
  assumes "desk_ok m" and "\<not> busy m" and "i \<noteq> []"
  shows "good (orderly m) (on_shutdown env i name m)"
proof -
  define n where "n = m\<lparr>m_form := None, m_actionID := m_actionID m + 1, m_actionTargetID := i, m_actionTarget := name,
           m_action := ''shutdown-wait'', m_shuttingDown := True\<rparr>"
  have n: "desk_ok n" using assms by (simp add: n_def desk_ok_def)
  obtain d where d: "actionDevice n = Some d" using actionDevice_some [OF ok_selected [OF n]] by blast
  have same: "d_id v = i" if "d = Some v" for v
    using that d assms(3) by (auto simp: n_def actionDevice_def find_Some_iff)
  have "good (orderly m) (say s (end_action (n\<lparr>m_shuttingDown := False\<rparr>)))" for s
    using assms by (simp add: n_def end_action_def stopMotion_def finishAction_def desk_defs busy_def)
  moreover have "good (orderly m) (let (m, motion) = sig_motion env 90000 n;
             m = open_action_context m in
         Some (m, verifyShutdown (m_actionID m) v m # motion))" if "d = Some v" for v
    using assms same [OF that] by (simp add: n_def motion_defs open_action_context_def verifyShutdown_def desk_defs busy_def)
  ultimately show ?thesis
    unfolding on_shutdown_def n_def [symmetric] Let_def [of n] d Option.bind.simps
    by (cases d) (simp_all only: option.case)
qed


section \<open>The program\<close>

text \<open>The messages a command can answer with.\<close>

definition answers :: "desk_cmd \<Rightarrow> desk_msg \<Rightarrow> bool" where
  "answers c msg \<longleftrightarrow> (case c of
     CmdQuit \<Rightarrow> False
   | CmdTick i \<Rightarrow> msg = MsgTick i
   | CmdLoad _ i kind \<Rightarrow> (\<exists>d. msg = MsgData d \<and> wd_request d = i \<and> wd_kind d = kind)
   | CmdNextFleet run i batch \<Rightarrow> (\<exists>r. msg = MsgFleet i batch r run)
   | CmdWake _ i v _ \<Rightarrow> (\<exists>r err. msg = MsgWakeResult i (d_id v) (d_name v) r err \<and>
        (err = None \<longrightarrow> (\<exists>u. wr_device r = Some u \<and> d_id u = d_id v)))
   | CmdOpenRemote _ i v _ \<Rightarrow> (\<exists>err. msg = MsgRemoteResult i (d_id v) (d_name v) err)
   | CmdDisconnect i name \<Rightarrow> (\<exists>err. msg = MsgDisconnect i name err)
   | CmdVerifyWake _ i v _ \<Rightarrow> (\<exists>st. msg = MsgWakeVerify i (d_id v) (d_name v) st \<and> st \<in> {''online'', ''timeout''})
   | CmdVerifyShutdown _ i v _ \<Rightarrow> (\<exists>st. msg = MsgShutdownVerify i (d_id v) (d_name v) st \<and> st \<in> {''offline'', ''timeout''})
   | CmdProbe _ i v _ \<Rightarrow> (\<exists>st method message. msg = MsgProbeResult i (d_id v) st method message None)
   | CmdDelete _ \<Rightarrow> (\<exists>s. msg = MsgFormSaved s [] False)
   | CmdSave kind _ _ _ _ \<Rightarrow> (\<exists>s i keep. msg = MsgFormSaved s i keep) \<or>
        (kind = PowerForm \<and> (\<exists>i name. msg = MsgShutdownInitiated i name \<and> i \<noteq> []))
   | CmdScanLAN i _ _ \<Rightarrow> (\<exists>r. msg = MsgLANDiscover i r)
   | CmdGuess i n \<Rightarrow> (\<exists>platform port. msg = MsgLANPrepare i n platform port)
   | CmdSiteCheck _ \<Rightarrow> (\<exists>s. msg = MsgSiteCheck s))"

fun from_terminal :: "desk_msg \<Rightarrow> bool" where
  "from_terminal (MsgKey _) = True"
| "from_terminal (MsgWindow _ _) = True"
| "from_terminal MsgInterrupt = True"
| "from_terminal _ = False"

type_synonym 'i desk = "'i wake_model \<times> desk_cmd list"

text \<open>A message is handled under whatever the clock, the store and the network then are. \<open>ok\<close>
  restricts the orders considered.\<close>

inductive desk_step :: "('i wake_model \<Rightarrow> desk_msg \<Rightarrow> bool) \<Rightarrow> 'i desk \<Rightarrow> 'i desk \<Rightarrow> bool"
  for ok :: "'i wake_model \<Rightarrow> desk_msg \<Rightarrow> bool" where
  from_user: "from_terminal msg \<Longrightarrow> Update env msg m = Some (m', new) \<Longrightarrow> desk_step ok (m, cs) (m', cs @ new)"
| answered: "c \<in> set cs \<Longrightarrow> answers c msg \<Longrightarrow> ok m msg \<Longrightarrow> Update env msg m = Some (m', new) \<Longrightarrow>
    desk_step ok (m, cs) (m', remove1 c cs @ new)"

inductive desk_reach :: "('i wake_model \<Rightarrow> desk_msg \<Rightarrow> bool) \<Rightarrow> 'i desk \<Rightarrow> bool"
  for ok :: "'i wake_model \<Rightarrow> desk_msg \<Rightarrow> bool" where
  started: "Init env (NewWakeModel motion remote stop) = Some (m, cs) \<Longrightarrow> desk_reach ok (m, cs)"
| moved: "desk_reach ok s \<Longrightarrow> desk_step ok s s' \<Longrightarrow> desk_reach ok s'"

text \<open>Every message is handled, and keeps the invariant.\<close>

lemma good_mono: "good P r \<Longrightarrow> (\<And>m cs. P m cs \<Longrightarrow> Q m cs) \<Longrightarrow> good Q r"
  by (auto simp: good_def split: option.splits prod.splits)

lemma still_good: "desk_ok m \<Longrightarrow> good (orderly m) (still m)"
  by (rule still_sound) simp_all

fun action_answer :: "desk_msg \<Rightarrow> bool" where
  "action_answer (MsgWakeResult _ _ _ _ _) = True"
| "action_answer (MsgWakeVerify _ _ _ _) = True"
| "action_answer (MsgRemoteResult _ _ _ _) = True"
| "action_answer (MsgShutdownVerify _ _ _ _) = True"
| "action_answer _ = False"

text \<open>What a message must satisfy: a fleet message names a batch that was started, a shutdown a
  machine.\<close>

fun msg_ok :: "desk_msg \<Rightarrow> bool" where
  "msg_ok (MsgFleet i batch _ _) = (batch \<longrightarrow> 1 \<le> i)"
| "msg_ok (MsgShutdownInitiated i _) = (i \<noteq> [])"
| "msg_ok _ = True"

fun starts_late :: "'i wake_model \<Rightarrow> desk_msg \<Rightarrow> bool" where
  "starts_late m (MsgShutdownInitiated _ _) = busy m"
| "starts_late m _ = False"

lemma Update_orderly:
  assumes "desk_ok m" and "msg_ok msg" and "\<not> action_answer msg" and "\<not> starts_late m msg"
  shows "good (orderly m) (Update env msg m)"
proof (cases msg)
  case MsgInterrupt
  then show ?thesis using assms(1) by (simp add: leave_sound)
next
  case (MsgWindow w h)
  then show ?thesis using assms(1) by (simp add: desk_defs)
next
  case (MsgProbeBatch request statuses methods summary err)
  obtain m' where "commitPending statuses methods summary m = Some m'" "desk_ok m'" "core m' = core m"
    using commitPending_ok [OF assms(1)] by blast
  then show ?thesis using assms(1) MsgProbeBatch
    by (simp add: still_sound failLoading_sound del: good_simps)
next
  case (MsgLANPrepare i n platform port)
  then show ?thesis using assms(1) showNeighborForm_sound [OF assms(1), of m]
    by (simp add: still_good del: good_simps)
qed (use assms in \<open>simp_all add: handleKey_sound on_data_sound say_sound applyFleetMsg_sound on_disconnect_sound
    on_probe_sound applyLANDiscover_sound on_tick_sound on_shutdown_orderly on_saved_sound still_good del: good_simps\<close>)

lemma orderly_sound: "orderly m m' cs \<Longrightarrow> sound m m' cs"
  by (simp add: orderly_def)

lemma good_ends: "good (ends m fl) r \<Longrightarrow> good (sound m) r"
  by (erule good_mono) (rule ends_sound)

lemma goes_on_sound: "goes_on m r m' cs \<Longrightarrow> sound m m' cs"
  by (simp add: goes_on_def sound_def later_def core_def)

lemma Update_sound:
  assumes "desk_ok m" and "msg_ok msg"
  shows "good (sound m) (Update env msg m)"
proof (cases "action_answer msg \<or> starts_late m msg")
  case False
  then have "good (orderly m) (Update env msg m)" using assms by (intro Update_orderly) auto
  then show ?thesis by (rule good_mono) (rule orderly_sound)
next
  case True
  have still: "good (sound m) (still m)" by (rule good_mono [OF still_good [OF assms(1)]]) (rule orderly_sound)
  show ?thesis
  proof (cases msg)
    case (MsgWakeResult op i name r err)
    show ?thesis
    proof (cases err)
      case None
      have "good (sound m) (on_wake_result env op name r None m)" if "current_action op i m"
        by (rule good_mono [OF wake_sent_goes_on [OF assms(1) that]]) (rule goes_on_sound)
      then show ?thesis using MsgWakeResult None still by (simp del: good_simps)
    next
      case (Some e)
      then show ?thesis using MsgWakeResult still good_ends [OF wake_failed_ends [OF assms(1)]]
        by (simp del: good_simps)
    qed
  qed (use True still assms(1) in \<open>simp_all add: good_ends [OF on_wake_verify_ends] good_ends [OF on_remote_result_ends]
      good_ends [OF on_shutdown_verify_ends] on_shutdown_sound del: good_simps\<close>)
qed


section \<open>Reachable states\<close>

definition tracked :: "'i wake_model \<Rightarrow> desk_cmd \<Rightarrow> bool" where
  "tracked m c = token_in (\<le>) m c"

definition desk_inv :: "'i desk \<Rightarrow> bool" where
  "desk_inv s \<longleftrightarrow> desk_ok (fst s) \<and> list_all (tracked (fst s)) (snd s)"

lemma tracked_now: "token_in (=) m c \<Longrightarrow> tracked m c"
  unfolding tracked_def by (cases c) (auto split: if_splits)

lemma tracked_later: "later m m' \<Longrightarrow> tracked m c \<Longrightarrow> tracked m' c"
  unfolding tracked_def by (erule token_in_later) auto

lemma tracked_answer: "tracked m c \<Longrightarrow> answers c msg \<Longrightarrow> msg_ok msg"
  by (cases c) (auto simp: tracked_def answers_def split: if_splits)

lemma terminal_ok: "from_terminal msg \<Longrightarrow> msg_ok msg"
  by (cases msg) auto

lemma desk_inv_step:
  assumes "desk_inv (m, cs)" and "msg_ok msg" and "Update env msg m = Some (m', new)" and "set cs' \<subseteq> set cs"
  shows "desk_inv (m', cs' @ new)" and "later m m'"
proof -
  have s: "sound m m' new"
    using Update_sound [of m msg env] assms by (simp add: desk_inv_def)
  then show "later m m'" by (simp add: sound_def)
  have "tracked m' c" if "c \<in> set cs'" for c
    using that assms(1,4) tracked_later [OF \<open>later m m'\<close>] by (auto simp: desk_inv_def list_all_iff)
  moreover have "tracked m' c" if "c \<in> set new" for c
    using that s by (auto simp: sound_def list_all_iff intro: tracked_now)
  ultimately show "desk_inv (m', cs' @ new)" using s by (auto simp: desk_inv_def sound_def list_all_iff)
qed

lemma desk_step_inv:
  assumes "desk_step ok s s'" and "desk_inv s"
  shows "desk_inv s' \<and> later (fst s) (fst s')"
  using assms
proof cases
  case (from_user msg env m m' new cs)
  then show ?thesis using desk_inv_step [OF _ terminal_ok, of m cs msg env m' new cs] assms(2) by simp
next
  case (answered c cs msg m env m' new)
  then have "msg_ok msg" using assms(2) tracked_answer by (auto simp: desk_inv_def list_all_iff)
  then show ?thesis
    using answered desk_inv_step [of m cs msg env m' new "remove1 c cs"] assms(2) set_remove1_subset [of c cs] by simp
qed

lemma NewWakeModel_ok: "desk_ok (NewWakeModel motion remote stop)"
  by (simp add: NewWakeModel_def desk_ok_def)

lemma Init_orderly: "good (orderly (NewWakeModel motion remote stop)) (Init env (NewWakeModel motion remote stop))"
  unfolding Init_def by (rule beginRefresh_sound [OF NewWakeModel_ok refl])

lemma Init_inv:
  assumes "Init env (NewWakeModel motion remote stop) = Some (m, cs)"
  shows "desk_inv (m, cs)"
  using Init_orderly [of motion remote stop env] unfolding assms
  by (auto simp: orderly_def sound_def desk_inv_def list_all_iff intro: tracked_now)

lemma desk_reach_inv: "desk_reach ok s \<Longrightarrow> desk_inv s"
  by (induction rule: desk_reach.induct) (auto intro: Init_inv dest: desk_step_inv)

text \<open>The messages that can arrive.\<close>

definition arrives :: "'i desk \<Rightarrow> desk_msg \<Rightarrow> bool" where
  "arrives s msg \<longleftrightarrow> from_terminal msg \<or> list_ex (\<lambda>c. answers c msg) (snd s)"

lemma arrives_ok: "desk_inv s \<Longrightarrow> arrives s msg \<Longrightarrow> msg_ok msg"
  by (auto simp: arrives_def list_ex_iff desk_inv_def list_all_iff intro: terminal_ok dest: tracked_answer)

text \<open>
  C7. The Wake Desk never panics: in every state it can reach, each key, resize and interrupt, and each
  answer of a command in flight, in whatever order they come, is handled, with no index out of its
  list and no missing cancel function called. The form that is then open has a value for every label
  and its cursor on one of them.
\<close>

theorem desk_never_panics:
  assumes "desk_reach ok s" and "arrives s msg"
  shows "\<exists>m' new. Update env msg (fst s) = Some (m', new) \<and>
    (case m_form m' of None \<Rightarrow> True | Some f \<Rightarrow> length (wf_values f) = length (wf_labels f) \<and> 0 \<le> wf_selected f \<and>
       wf_selected f < int (length (wf_labels f)))"
proof -
  have inv: "desk_inv s" by (rule desk_reach_inv [OF assms(1)])
  have "good (sound (fst s)) (Update env msg (fst s))"
    using Update_sound [of "fst s" msg env] arrives_ok [OF inv assms(2)] inv by (simp add: desk_inv_def)
  then show ?thesis by (auto simp: good_def sound_def desk_ok_def form_ok_def split: option.splits prod.splits)
qed

text \<open>A command whose number has passed: whatever it answers is dropped.\<close>

lemma stale_dropped:
  assumes "stale m c" and "answers c msg"
  shows "Update env msg m = Some (m, [])"
  using assms by (cases c) (auto simp: stale_def answers_def current_action_def on_data_def applyFleetMsg_def still_def
      split: if_splits)

lemma desk_steps_later:
  assumes "(desk_step ok)\<^sup>*\<^sup>* s s'" and "desk_inv s"
  shows "desk_inv s' \<and> later (fst s) (fst s')"
  using assms
proof (induction rule: rtranclp_induct)
  case base
  then show ?case by (simp add: later_def)
next
  case (step y z)
  then show ?case using desk_step_inv [of ok y z] later_trans by blast
qed

text \<open>
  C9. A cancelled action stays cancelled: once any message has moved the desk on from an action, because
  the user cancelled it or because another one began, nothing a command of that action reports
  later, however long it takes and whatever happens in between, changes the model or starts
  anything.
\<close>

theorem cancelled_stays_cancelled:
  assumes "desk_reach ok (m, cs)" and "c \<in> set cs" and "is_action c"
    and "arrives (m, cs) msg" and "Update env msg m = Some (m1, new)" and "m_actionID m1 \<noteq> m_actionID m"
    and "(desk_step ok)\<^sup>*\<^sup>* (m1, cs @ new) (m2, cs2)" and "answers c late"
  shows "Update env' late m2 = Some (m2, [])"
proof -
  have inv: "desk_inv (m, cs)" by (rule desk_reach_inv [OF assms(1)])
  have s: "desk_inv (m1, cs @ new)" "later m m1"
    using desk_inv_step [OF inv arrives_ok [OF inv assms(4)] assms(5) subset_refl] by simp_all
  have "tracked m c" using inv assms(2) by (simp add: desk_inv_def list_all_iff)
  then have "stale m1 c" using s(2) assms(3,6) by (cases c) (simp_all add: tracked_def stale_def later_def)
  moreover have "later m1 m2" using desk_steps_later [OF assms(7) s(1)] by simp
  ultimately show ?thesis using stale_later stale_dropped assms(8) by blast
qed


section \<open>One action at a time\<close>

text \<open>The orders in which no shutdown reports while another action runs.\<close>

definition in_order :: "'i wake_model \<Rightarrow> desk_msg \<Rightarrow> bool" where
  "in_order m msg \<longleftrightarrow> \<not> starts_late m msg"

definition running :: "'i wake_model \<Rightarrow> desk_cmd \<Rightarrow> bool" where
  "running m c \<longleftrightarrow> is_action c \<and> \<not> stale m c"

definition one_action :: "'i desk \<Rightarrow> bool" where
  "one_action s \<longleftrightarrow> (case filter (running (fst s)) (snd s) of [] \<Rightarrow> \<not> busy (fst s) | [c] \<Rightarrow> awaits (fst s) c | _ \<Rightarrow> False)"

lemma running_now: "token_in (=) m c \<Longrightarrow> running m c \<longleftrightarrow> is_action c"
  unfolding running_def stale_def by (cases c) auto

lemma running_kept: "m_actionID m' = m_actionID m \<Longrightarrow> running m' = running m"
proof
  fix c assume "m_actionID m' = m_actionID m"
  then show "running m' c = running m c" unfolding running_def stale_def by (cases c) auto
qed

lemma running_passed: "m_actionID m' = m_actionID m + 1 \<Longrightarrow> tracked m c \<Longrightarrow> \<not> running m' c"
  unfolding running_def stale_def tracked_def by (cases c) auto

lemma awaits_kept:
  "m_actionID m' = m_actionID m \<Longrightarrow> flags m' = flags m \<Longrightarrow> m_actionTargetID m' = m_actionTargetID m \<Longrightarrow>
    awaits m' c = awaits m c"
  by (cases c) auto

lemma new_running:
  assumes "sound m m' new"
  shows "filter (running m') new = filter is_action new"
  using assms by (intro filter_cong) (auto simp: sound_def list_all_iff running_now)

lemma one_action_iff:
  "one_action (m, cs) \<longleftrightarrow> filter (running m) cs = [] \<and> \<not> busy m \<or> (\<exists>c. filter (running m) cs = [c] \<and> awaits m c)"
  by (simp add: one_action_def split: list.split)

lemma settled_iff:
  "settled m cs \<longleftrightarrow> filter is_action cs = [] \<and> \<not> busy m \<or> (\<exists>c. filter is_action cs = [c] \<and> awaits m c)"
  by (simp add: settled_def split: list.split)

lemma one_action_orderly:
  assumes "one_action (m, cs)" and "orderly m m' new" and "list_all (tracked m) cs"
    and "filter (running m) cs' = filter (running m) cs" and "set cs' \<subseteq> set cs"
  shows "one_action (m', cs' @ new)"
proof -
  have new: "filter (running m') new = filter is_action new"
    using assms(2) by (intro new_running [of m]) (simp add: orderly_def)
  from assms(2) consider "kept m m' new" | "m_actionID m' = m_actionID m + 1" "settled m' new"
    by (auto simp: orderly_def)
  then show ?thesis
  proof cases
    case 1
    then have "filter (running m') cs' = filter (running m) cs" using assms(4) running_kept [of m' m] by (simp add: kept_def)
    moreover have "busy m' = busy m" "\<And>c. awaits m' c = awaits m c"
      using 1 by (simp_all add: kept_def busy_flags awaits_kept [of m' m])
    moreover have "filter (running m') new = []" using 1 new by (simp add: kept_def)
    ultimately show ?thesis using assms(1) by (simp add: one_action_iff)
  next
    case 2
    have "filter (running m') cs' = []"
      using running_passed [OF 2(1)] assms(3,5) by (auto simp: filter_empty_conv list_all_iff)
    then show ?thesis using 2(2) new by (simp add: one_action_iff settled_iff)
  qed
qed


lemma filter_remove_other: "\<not> P c \<Longrightarrow> filter P (remove1 c cs) = filter P cs"
  by (simp add: filter_remove1 remove1_idem)

lemma awaits_action: "awaits m c \<Longrightarrow> is_action c"
  by (cases c) auto

lemma awaits_busy: "awaits m c \<Longrightarrow> busy m"
  by (cases c) (auto simp: busy_flags)

text \<open>The answer to the action that runs.\<close>

lemma awaited_answer:
  assumes "desk_ok m" and "awaits m c" and "answers c msg" and "Update env msg m = Some (m', new)"
  shows "ends m (False, False, False) m' new \<or> (\<exists>r u. goes_on m r m' new \<and> wr_device r = Some u \<and>
    d_id u = m_actionTargetID m \<and> flags m = (True, False, False))"
  using assms(2)
proof (cases c)
  case (CmdWake ctx i v force)
  then obtain r err where msg: "msg = MsgWakeResult i (d_id v) (d_name v) r err"
    and dev: "err = None \<longrightarrow> (\<exists>u. wr_device r = Some u \<and> d_id u = d_id v)"
    using assms(3) by (auto simp: answers_def)
  have cur: "current_action i (d_id v) m" "flags m = (True, False, False)" "d_id v = m_actionTargetID m"
    using assms(2) CmdWake by (auto simp: current_action_def)
  have eq: "on_wake_result env i (d_name v) r err m = Some (m', new)"
    using assms(4) cur(1) unfolding msg by simp
  show ?thesis
  proof (cases err)
    case None
    have "goes_on m r m' new"
      using wake_sent_goes_on [OF assms(1) cur(1), of r env "d_name v"] eq unfolding None by simp
    then show ?thesis using dev None cur by auto
  next
    case (Some e)
    have "ends m (False, m_opening m, m_shuttingDown m) m' new"
      using wake_failed_ends [OF assms(1), of env i "d_name v" r e] eq unfolding Some by simp
    then show ?thesis using cur(2) by (simp add: flags_def)
  qed
next
  case (CmdOpenRemote ctx i v p)
  then obtain err where msg: "msg = MsgRemoteResult i (d_id v) (d_name v) err" using assms(3) by (auto simp: answers_def)
  have cur: "current_action i (d_id v) m" "flags m = (False, True, False)"
    using assms(2) CmdOpenRemote by (auto simp: current_action_def)
  have "ends m (m_waking m, False, m_shuttingDown m) m' new"
    using on_remote_result_ends [OF assms(1), of env "d_id v" "d_name v" err] assms(4) cur(1) unfolding msg by simp
  then show ?thesis using cur(2) by (simp add: flags_def)
next
  case (CmdVerifyWake ctx i v port)
  then obtain st where msg: "msg = MsgWakeVerify i (d_id v) (d_name v) st" using assms(3) by (auto simp: answers_def)
  have cur: "current_action i (d_id v) m" "flags m = (True, False, False)"
    using assms(2) CmdVerifyWake by (auto simp: current_action_def)
  have "ends m (False, m_opening m, m_shuttingDown m) m' new"
    using on_wake_verify_ends [OF assms(1), of env "d_id v" "d_name v" st] assms(4) cur(1) unfolding msg by simp
  then show ?thesis using cur(2) by (simp add: flags_def)
next
  case (CmdVerifyShutdown ctx i v port)
  then obtain st where msg: "msg = MsgShutdownVerify i (d_id v) (d_name v) st" using assms(3) by (auto simp: answers_def)
  have cur: "current_action i (d_id v) m" "flags m = (False, False, True)"
    using assms(2) CmdVerifyShutdown by (auto simp: current_action_def)
  have "ends m (m_waking m, m_opening m, False) m' new"
    using on_shutdown_verify_ends [OF assms(1), of env "d_id v" "d_name v" st] assms(4) cur(1) unfolding msg by simp
  then show ?thesis using cur(2) by (simp add: flags_def)
qed simp_all

lemma one_action_answered:
  assumes inv: "desk_inv (m, cs)" and one: "one_action (m, cs)" and c: "c \<in> set cs" "running m c"
    and ans: "answers c msg" "Update env msg m = Some (m', new)"
  shows "awaits m c" and "one_action (m', remove1 c cs @ new)"
proof -
  have mem: "c \<in> set (filter (running m) cs)" using c by simp
  with one obtain d where "filter (running m) cs = [d]" "awaits m d" by (cases "filter (running m) cs") (auto simp: one_action_iff)
  with mem have f: "filter (running m) cs = [c]" and aw: "awaits m c" by (simp_all del: set_filter)
  then show "awaits m c" by simp
  have ok: "desk_ok m" using inv by (simp add: desk_inv_def)
  have rest: "filter (running m) (remove1 c cs) = []" using f by (simp add: filter_remove1)
  have same: "filter (running m') (remove1 c cs) = []" if "m_actionID m' = m_actionID m"
    using rest running_kept [OF that] by simp
  from awaited_answer [OF ok aw ans] show "one_action (m', remove1 c cs @ new)"
  proof (elim disjE exE conjE)
    assume e: "ends m (False, False, False) m' new"
    then show ?thesis using same by (simp add: ends_def tokens_def one_action_iff busy_flags)
  next
    fix r u assume g: "goes_on m r m' new" and u: "wr_device r = Some u" "d_id u = m_actionTargetID m"
      and fl: "flags m = (True, False, False)"
    from g u(1) obtain ctx port where acts: "filter is_action new = [CmdVerifyWake ctx (m_actionID m) u port]"
      by (auto simp: goes_on_def)
    have new: "filter (running m') new = filter is_action new"
      using goes_on_sound [OF g] by (rule new_running)
    have core: "m_actionID m' = m_actionID m" "flags m' = flags m" "m_actionTargetID m' = m_actionTargetID m"
      using g by (simp_all add: goes_on_def core_def)
    then show ?thesis using same acts new u(2) fl by (simp add: one_action_iff)
  qed
qed

lemma answer_kind: "answers c msg \<Longrightarrow> \<not> is_action c \<Longrightarrow> \<not> action_answer msg"
  by (cases c) (auto simp: answers_def)

lemma one_action_step:
  assumes "desk_step in_order s s'" and "desk_inv s" and "one_action s"
  shows "one_action s'"
  using assms(1)
proof cases
  case (from_user msg env m m' new cs)
  have "\<not> action_answer msg" "\<not> starts_late m msg" using from_user(3) by (cases msg; simp)+
  then have "orderly m m' new"
    using Update_orderly [of m msg env] terminal_ok [OF from_user(3)] from_user(4) assms(2)
    by (simp add: desk_inv_def from_user(1))
  then show ?thesis using one_action_orderly [of m cs m' new cs] assms(2,3) from_user by (simp add: desk_inv_def)
next
  case (answered c cs msg m env m' new)
  have inv: "desk_inv (m, cs)" "one_action (m, cs)" using assms(2,3) answered(1) by simp_all
  have tracked: "list_all (tracked m) cs" "tracked m c"
    using inv(1) answered(3) by (auto simp: desk_inv_def list_all_iff)
  consider "running m c" | "is_action c" "stale m c" | "\<not> is_action c" by (auto simp: running_def)
  then show ?thesis
  proof cases
    case 1
    from one_action_answered(2) [OF inv answered(3) 1 answered(4,6)] show ?thesis using answered(2) by simp
  next
    case 2
    then have "m' = m" "new = []" using stale_dropped [OF 2(2) answered(4)] answered(6) by simp_all
    moreover have "filter (running m) (remove1 c cs) = filter (running m) cs"
      using 2 by (intro filter_remove_other) (simp add: running_def)
    ultimately show ?thesis using inv(2) answered(2) by (simp add: one_action_iff)
  next
    case 3
    have "orderly m m' new"
      using Update_orderly [of m msg env] tracked_answer [OF tracked(2) answered(4)] answer_kind [OF answered(4) 3]
        answered(5,6) inv(1) by (simp add: desk_inv_def in_order_def)
    moreover have "filter (running m) (remove1 c cs) = filter (running m) cs"
      using 3 by (intro filter_remove_other) (simp add: running_def)
    ultimately show ?thesis
      using one_action_orderly [of m cs m' new "remove1 c cs"] inv(2) tracked(1) set_remove1_subset [of c cs] answered(2)
      by simp
  qed
qed


lemma Init_one_action:
  assumes "Init env (NewWakeModel motion remote stop) = Some (m, cs)"
  shows "one_action (m, cs)"
proof -
  have "one_action (NewWakeModel motion remote stop, [])"
    by (simp add: one_action_iff busy_def NewWakeModel_def)
  moreover have "orderly (NewWakeModel motion remote stop) m cs" using Init_orderly [of motion remote stop env] assms by simp
  ultimately show ?thesis using one_action_orderly [of _ "[]" m cs "[]"] by fastforce
qed

lemma one_action_reach: "desk_reach in_order s \<Longrightarrow> one_action s"
  by (induction rule: desk_reach.induct) (auto intro: Init_one_action one_action_step desk_reach_inv)

text \<open>
  C8. A busy desk is waiting for something: in every state reached without a shutdown reporting in the
  middle of another action, the desk is busy exactly when one command of the current action is in
  flight, it is the only one, it is about the machine the action is for, and whatever it answers
  either frees the desk or is a wake that was sent, which goes on to be verified.
\<close>

theorem busy_desk_is_answered:
  assumes "desk_reach in_order (m, cs)"
  shows "(busy m \<longleftrightarrow> (\<exists>c. filter (running m) cs = [c])) \<and>
    (\<forall>c msg env m' new. c \<in> set cs \<longrightarrow> running m c \<longrightarrow> answers c msg \<longrightarrow> Update env msg m = Some (m', new) \<longrightarrow>
      \<not> busy m' \<or> (\<exists>ctx u port. filter is_action new = [CmdVerifyWake ctx (m_actionID m') u port] \<and>
        d_id u = m_actionTargetID m))"
proof (intro conjI allI impI)
  have one: "one_action (m, cs)" by (rule one_action_reach [OF assms])
  have inv: "desk_inv (m, cs)" by (rule desk_reach_inv [OF assms])
  show "busy m \<longleftrightarrow> (\<exists>c. filter (running m) cs = [c])"
    using one awaits_busy by (auto simp: one_action_iff)
  fix c msg env m' new
  assume c: "c \<in> set cs" "running m c" and ans: "answers c msg" "Update env msg m = Some (m', new)"
  have aw: "awaits m c" by (rule one_action_answered(1) [OF inv one c ans])
  have ok: "desk_ok m" using inv by (simp add: desk_inv_def)
  from awaited_answer [OF ok aw ans]
  show "\<not> busy m' \<or> (\<exists>ctx u port. filter is_action new = [CmdVerifyWake ctx (m_actionID m') u port] \<and>
        d_id u = m_actionTargetID m)"
    by (auto simp: ends_def busy_flags goes_on_def core_def)
qed


text \<open>
  A shutdown that reports while a wake runs takes the desk over without ending the wake: the wake's
  own answer is then dropped, and when the shutdown has been verified the desk still says it is
  waking, with nothing in flight to end it, until Esc is pressed.
\<close>

lemma shutdown_strands_wake:
  assumes "desk_ok m" and "flags m = (True, False, False)" and "i \<noteq> []"
    and "List.find (\<lambda>v. d_id v = i) (m_devices m) = Some v"
    and "Update env (MsgShutdownInitiated i name) m = Some (m1, new)"
    and "Update env' (MsgShutdownVerify (m_actionID m1) i name st) m1 = Some (m2, new2)"
  shows "busy m2 \<and> m_waking m2 \<and> new2 = [] \<and> (\<forall>c. is_action c \<longrightarrow> tracked m c \<longrightarrow> stale m2 c)"
proof -
  define n where "n = m\<lparr>m_form := None, m_actionID := m_actionID m + 1, m_actionTargetID := i, m_actionTarget := name,
           m_action := ''shutdown-wait'', m_shuttingDown := True\<rparr>"
  have "actionDevice n = Some (Some v)" using assms(3,4) by (simp add: n_def actionDevice_def)
  then have "m1 = open_action_context (fst (sig_motion env 90000 n))"
    using assms(5) by (simp only: Update.simps on_shutdown_def n_def [symmetric] Let_def Option.bind.simps option.case)
      (simp add: split_beta)
  then have m1: "m_actionID m1 = m_actionID m + 1" "m_actionTargetID m1 = i" "flags m1 = (True, False, True)" "desk_ok m1"
    using assms(1,2) by (simp_all add: n_def motion_defs open_action_context_def flags_def desk_ok_def)
  have "ends m1 (True, False, False) m2 new2"
    using on_shutdown_verify_ends [OF m1(4), of env' i name st] assms(6) m1(2,3)
    by (simp add: current_action_def flags_def)
  then have m2: "flags m2 = (True, False, False)" "new2 = []" "m_actionID m2 = m_actionID m + 1"
    using m1(1) by (simp_all add: ends_def tokens_def)
  have "stale m2 c" if "is_action c" "tracked m c" for c
    using that m2(3) by (cases c) (simp_all add: stale_def tracked_def)
  then show ?thesis using m2 by (simp add: busy_flags flags_def)
qed

section \<open>Runs\<close>

text \<open>The inventory screen with no mode on top of it.\<close>

definition resting :: "'i wake_model \<Rightarrow> bool" where
  "resting m \<longleftrightarrow> m_phase m = PhaseReady \<and> m_batchKind m = [] \<and> \<not> m_batchRunning m \<and> \<not> m_showBatchResults m \<and>
     \<not> m_lanPreparing m \<and> m_form m = None \<and> \<not> m_actionPicker m \<and> \<not> m_lanOpen m \<and> m_confirm m = [] \<and>
     \<not> m_showHelp m \<and> \<not> m_filtering m \<and> m_tab m = 0"

lemma key_w: "resting m \<Longrightarrow> \<not> busy m \<Longrightarrow> handleKey env ''w'' m = beginWake env False m"
  by (simp add: resting_def handleKey_def idle_key_def browse_key_def tab_key_def batch_key_def list_key_def
      machine_key_def)

lemma key_esc: "resting m \<Longrightarrow> handleKey env ''esc'' m =
    (if m_checking m then still (cancelLoading m)
     else if busy m then say (m_actionTarget m @ dot @ '' action cancelled.'') (cancelAction m)
     else say ''Filter and selection cleared.'' (m\<lparr>m_marked := [], m_filter := [], m_selected := 0\<rparr>))"
  by (simp add: resting_def handleKey_def idle_key_def browse_key_def tab_key_def batch_key_def list_key_def)

lemma resting_after [simp]:
  "resting (m\<lparr>m_status := s\<rparr>) = resting m"
  "resting m \<Longrightarrow> resting (cancelLoading m)"
  "resting (cancelAction m) = resting m"
  by (simp_all add: resting_def cancelLoading_def cancelAction_def stopMotion_def finishAction_def finishLoadContext_def
      cancel_context_def split: option.split)

text \<open>A desk that has one machine, whose check has been cancelled.\<close>

definition demo_device :: device where
  "demo_device = zero_device\<lparr>d_id := ''d1'', d_name := ''nas'', d_enabled := True\<rparr>"

definition demo_env :: "string desk_env" where
  "demo_env = \<lparr>de_now = 0,
     de_inputs = \<lparr>in_new = [], in_set = (\<lambda>s _. s), in_value = (\<lambda>s. s), in_focus = (\<lambda>s. s), in_blur = (\<lambda>s. s),
       in_key = (\<lambda>k s. s @ k)\<rparr>,
     de_power = Map.empty, de_remote = Map.empty, de_interfaces = None, de_lookup = (\<lambda>_. Inr []),
     de_printable = (\<lambda>_. True)\<rparr>"

definition demo_data :: wake_data where
  "demo_data = \<lparr>wd_request = 1, wd_kind = LoadingBoot, wd_devices = [demo_device], wd_sites = [], wd_relays = [],
     wd_profiles = [], wd_history = [], wd_err = None\<rparr>"

text \<open>The desk loads it; the user stops the check and wakes it; the packet is on its way.\<close>

fun yields :: "('i wake_model \<Rightarrow> desk_cmd list \<Rightarrow> bool) \<Rightarrow> 'i handled \<Rightarrow> bool" where
  "yields P None = False"
| "yields P (Some (m, cs)) = P m cs"

lemma yields_obtain: "yields P r \<Longrightarrow> \<exists>m cs. r = Some (m, cs) \<and> P m cs"
  by (cases r) auto

definition is_load :: "desk_cmd list \<Rightarrow> bool" where
  "is_load cs = (case cs of [CmdLoad _ i kind] \<Rightarrow> i = 1 \<and> kind = LoadingBoot | _ \<Rightarrow> False)"

definition is_wake :: "nat \<Rightarrow> desk_cmd list \<Rightarrow> bool" where
  "is_wake n cs = (case cs of [CmdWake _ i v _] \<Rightarrow> i = n \<and> d_id v = ''d1'' | _ \<Rightarrow> False)"

definition waking_nas :: "string wake_model \<Rightarrow> desk_cmd list \<Rightarrow> bool" where
  "waking_nas m cs \<longleftrightarrow> is_wake (m_actionID m) cs \<and> busy m \<and> m_actionTargetID m = ''d1'' \<and>
     yields (\<lambda>m' _. m_actionID m' \<noteq> m_actionID m \<and> \<not> busy m') (Update demo_env (MsgKey ''esc'') m)"

definition then_waking :: "desk_msg list \<Rightarrow> string wake_model \<Rightarrow> bool" where
  "then_waking msgs m = yields waking_nas
     (foldl (\<lambda>r msg. case r of None \<Rightarrow> None | Some (m, _) \<Rightarrow> Update demo_env msg m) (Some (m, [])) msgs)"

lemma demo_play:
  "yields (\<lambda>m0 cs0. is_load cs0 \<and> then_waking [MsgData demo_data, MsgKey ''esc'', MsgKey ''w''] m0)
     (Init demo_env (NewWakeModel False True True))"
  by code_simp

lemma then_waking_step:
  assumes "then_waking (msg # msg' # msgs) m"
  shows "\<exists>m' cs. Update demo_env msg m = Some (m', cs) \<and> then_waking (msg' # msgs) m'"
proof (cases "Update demo_env msg m")
  case None
  have "foldl (\<lambda>r msg. case r of None \<Rightarrow> None | Some (m, _) \<Rightarrow> Update demo_env msg m) None ms = None" for ms
    by (induction ms) simp_all
  with None assms show ?thesis by (simp add: then_waking_def)
next
  case (Some r)
  with assms show ?thesis by (cases r) (simp add: then_waking_def)
qed

lemma then_waking_last: "then_waking [msg] m \<Longrightarrow> \<exists>m' cs. Update demo_env msg m = Some (m', cs) \<and> waking_nas m' cs"
  using yields_obtain [of waking_nas "Update demo_env msg m"] by (simp add: then_waking_def)

lemma demo_run:
  "\<exists>m cs c. desk_reach in_order (m, cs) \<and> c \<in> set cs \<and> waking_nas m [c]"
proof -
  from yields_obtain [OF demo_play] obtain m0 cs0 where 0: "Init demo_env (NewWakeModel False True True) = Some (m0, cs0)"
      "is_load cs0" and p: "then_waking [MsgData demo_data, MsgKey ''esc'', MsgKey ''w''] m0" by blast
  from then_waking_step [OF p] obtain m1 cs1 where 1: "Update demo_env (MsgData demo_data) m0 = Some (m1, cs1)"
    and p: "then_waking [MsgKey ''esc'', MsgKey ''w''] m1" by blast
  from then_waking_step [OF p] obtain m2 cs2 where 2: "Update demo_env (MsgKey ''esc'') m1 = Some (m2, cs2)"
    and p: "then_waking [MsgKey ''w''] m2" by blast
  from then_waking_last [OF p] obtain m3 cs3 where 3: "Update demo_env (MsgKey ''w'') m2 = Some (m3, cs3)"
    "waking_nas m3 cs3" by blast
  from 0(2) obtain ctx where cs0: "cs0 = [CmdLoad ctx 1 LoadingBoot]"
    by (cases cs0; cases "tl cs0"; cases "hd cs0") (auto simp: is_load_def)
  from 3(2) obtain c where cs3: "cs3 = [c]"
    by (cases cs3; cases "tl cs3") (auto simp: waking_nas_def is_wake_def split: desk_cmd.splits)
  let ?load = "CmdLoad ctx 1 LoadingBoot"
  have load: "answers ?load (MsgData demo_data)" by (simp add: answers_def demo_data_def)
  have "desk_reach in_order (m0, cs0)" by (rule desk_reach.started [OF 0(1)])
  then have "desk_reach in_order (m1, remove1 ?load cs0 @ cs1)"
    by (rule desk_reach.moved) (rule desk_step.answered [OF _ load _ 1]; simp add: cs0 in_order_def)
  then have "desk_reach in_order (m2, (remove1 ?load cs0 @ cs1) @ cs2)"
    by (rule desk_reach.moved) (rule desk_step.from_user [OF _ 2]; simp)
  then have "desk_reach in_order (m3, ((remove1 ?load cs0 @ cs1) @ cs2) @ cs3)"
    by (rule desk_reach.moved) (rule desk_step.from_user [OF _ 3(1)]; simp)
  then show ?thesis using 3(2) unfolding cs3
    by (intro exI [of _ m3] exI [of _ c] exI [of _ "((remove1 ?load cs0 @ cs1) @ cs2) @ [c]"]) simp
qed

text \<open>The same run, then \<open>q\<close>.\<close>

theorem desk_never_panics_witness:
  "\<exists>s m' new. desk_reach in_order s \<and> busy (fst s) \<and> Update demo_env (MsgKey ''q'') (fst s) = Some (m', new)"
proof -
  from demo_run obtain m :: "string wake_model" and cs where r: "desk_reach in_order (m, cs)" "busy m"
    unfolding waking_nas_def by blast
  have "arrives (m, cs) (MsgKey ''q'')" by (simp add: arrives_def)
  from desk_never_panics [OF r(1) this, of demo_env] r show ?thesis by fastforce
qed

theorem cancelled_stays_cancelled_witness:
  "\<exists>c m1 late. is_action c \<and> answers c late \<and> \<not> busy (m1 :: string wake_model) \<and> Update demo_env late m1 = Some (m1, [])"
proof -
  from demo_run obtain m :: "string wake_model" and cs c where r: "desk_reach in_order (m, cs)" "c \<in> set cs" and w: "waking_nas m [c]"
    by blast
  from w obtain m1 new where esc: "Update demo_env (MsgKey ''esc'') m = Some (m1, new)" "m_actionID m1 \<noteq> m_actionID m" "\<not> busy m1"
    using yields_obtain unfolding waking_nas_def by blast
  from w obtain ctx i v force where c: "c = CmdWake ctx i v force"
    by (cases c) (simp_all add: waking_nas_def is_wake_def)
  fix r :: wake_result
  have late: "answers c (MsgWakeResult i (d_id v) (d_name v) r (Some ErrCanceled))" by (simp add: c answers_def)
  have key: "arrives (m, cs) (MsgKey ''esc'')" by (simp add: arrives_def)
  have "Update demo_env (MsgWakeResult i (d_id v) (d_name v) r (Some ErrCanceled)) m1 = Some (m1, [])"
    by (rule cancelled_stays_cancelled [OF r _ key esc(1,2) rtranclp.rtrancl_refl late]) (simp add: c)
  then show ?thesis using late esc(3) c by (intro exI [of _ c] exI [of _ m1]) auto
qed

theorem busy_desk_is_answered_witness:
  "\<exists>m cs c. desk_reach in_order (m :: string wake_model, cs) \<and> busy m \<and> filter (running m) cs = [c]"
proof -
  from demo_run obtain m :: "string wake_model" and cs where r: "desk_reach in_order (m, cs)" "busy m"
    unfolding waking_nas_def by blast
  from busy_desk_is_answered [OF r(1)] r show ?thesis by blast
qed



end
