(* ===== verification/CliFlags.thy ===== *)
theory CliFlags
  imports GoBase
begin

text \<open>
  Command-line flags: the part of Go's \<open>flag\<close> package the commands of \<open>cmd/wol\<close> use, the
  parsers of flag values (\<open>strconv.ParseBool\<close>, \<open>strconv.ParseInt\<close> with base 0,
  \<open>time.ParseDuration\<close>), \<open>time.Duration.String\<close>, and \<open>parseInterspersed\<close> of \<open>cmd_tui.go\<close>,
  which lets flags stand before or after the positional arguments.
\<close>

section \<open>Values of flags\<close>

text \<open>\<open>strconv.ParseBool\<close>.\<close>

definition parse_bool :: "string \<Rightarrow> bool option" where
  "parse_bool s =
     (if s \<in> {''1'', ''t'', ''T'', ''TRUE'', ''true'', ''True''} then Some True
      else if s \<in> {''0'', ''f'', ''F'', ''FALSE'', ''false'', ''False''} then Some False
      else None)"

text \<open>\<open>strconv.ParseUint\<close> with base 0: the prefix chooses the base, and underscores may separate
  digits. The digit loop ignores them; \<open>underscoreOK\<close> checks where they stand.\<close>

definition digit_of :: "char \<Rightarrow> int option" where
  "digit_of c =
     (if is_digit c then Some (int (code c - 48))
      else if is_lower (lower_char c) then Some (int (code (lower_char c) - 87))
      else None)"

fun scan_base :: "int \<Rightarrow> int \<Rightarrow> string \<Rightarrow> num_error + int" where
  "scan_base base n [] = Inr n"
| "scan_base base n (c # cs) =
     (if c = CHR ''_'' then scan_base base n cs
      else (case digit_of c of
              None \<Rightarrow> Inl ErrSyntax
            | Some d \<Rightarrow>
                if d \<ge> base then Inl ErrSyntax
                else if n * base + d > 18446744073709551615 then Inl ErrRange
                else scan_base base (n * base + d) cs))"

definition base_prefix :: "string \<Rightarrow> int option" where
  "base_prefix s =
     (if length s \<ge> 2 \<and> hd s = CHR ''0''
      then (let c = lower_char (s ! 1) in
            if c = CHR ''b'' then Some 2 else if c = CHR ''o'' then Some 8
            else if c = CHR ''x'' then Some 16 else None)
      else None)"

text \<open>What \<open>underscoreOK\<close> saw last: \<open>^\<close> at the start, \<open>0\<close> a digit, \<open>_\<close>, or \<open>!\<close> anything else.\<close>

fun underscores :: "bool \<Rightarrow> char \<Rightarrow> string \<Rightarrow> bool" where
  "underscores hex saw [] = (saw \<noteq> CHR ''_'')"
| "underscores hex saw (c # cs) =
     (if is_digit c \<or> hex \<and> 97 \<le> code (lower_char c) \<and> code (lower_char c) \<le> 102
      then underscores hex (CHR ''0'') cs
      else if c = CHR ''_'' then (if saw \<noteq> CHR ''0'' then False else underscores hex (CHR ''_'') cs)
      else if saw = CHR ''_'' then False
      else underscores hex (CHR ''!'') cs)"

definition underscoreOK :: "string \<Rightarrow> bool" where
  "underscoreOK s =
     (case base_prefix s of
        Some b \<Rightarrow> underscores (b = 16) (CHR ''0'') (drop 2 s)
      | None \<Rightarrow> underscores False (CHR ''^'') s)"

definition parse_uint0 :: "string \<Rightarrow> num_error + int" where
  "parse_uint0 s =
     (if s = [] then Inl ErrSyntax
      else
        let based =
              (if hd s = CHR ''0''
               then (case (length s \<ge> 3, base_prefix s) of
                       (True, Some b) \<Rightarrow> (b, drop 2 s)
                     | _ \<Rightarrow> (8, tl s))
               else (10, s)) in
        (case scan_base (fst based) 0 (snd based) of
           Inl e \<Rightarrow> Inl e
         | Inr n \<Rightarrow> if CHR ''_'' \<in> set (snd based) \<and> \<not> underscoreOK s then Inl ErrSyntax else Inr n))"

text \<open>\<open>strconv.ParseInt(s, 0, 64)\<close>, the parser of an \<open>int\<close> flag; any error fails the flag.\<close>

definition parse_int0 :: "string \<Rightarrow> int option" where
  "parse_int0 s =
     (let neg = (s \<noteq> [] \<and> hd s = CHR ''-'');
          ds = (if s \<noteq> [] \<and> (hd s = CHR ''-'' \<or> hd s = CHR ''+'') then tl s else s) in
      case parse_uint0 ds of
        Inl _ \<Rightarrow> None
      | Inr n \<Rightarrow>
          if \<not> neg \<and> n \<ge> 9223372036854775808 \<or> neg \<and> n > 9223372036854775808 then None
          else Some (if neg then - n else n))"

section \<open>Durations\<close>

text \<open>
  \<open>time.ParseDuration\<close>: signed sequences of a decimal number and a unit, in nanoseconds. A
  fraction is scaled to its unit in exact arithmetic here and truncated (the code's float64
  product may differ from that by a nanosecond). \<open>leadingFraction\<close> ignores the digits after
  the one that would overflow 63 bits.
\<close>

definition units :: "(string \<times> int) list" where
  "units = [(''ns'', 1), (''us'', 1000), ([char_of (194 :: nat), char_of (181 :: nat), CHR ''s''], 1000),
     ([char_of (206 :: nat), char_of (188 :: nat), CHR ''s''], 1000),
     (''ms'', 1000000), (''s'', 1000000000), (''m'', 60000000000), (''h'', 3600000000000)]"

abbreviation max_duration :: int where "max_duration \<equiv> 9223372036854775807"

fun leading_int :: "int \<Rightarrow> string \<Rightarrow> (int \<times> string) option" where
  "leading_int n [] = Some (n, [])"
| "leading_int n (c # cs) =
     (if \<not> is_digit c then Some (n, c # cs)
      else if n > 922337203685477580 then None
      else if n * 10 + int (code c - 48) > max_duration + 1 then None
      else leading_int (n * 10 + int (code c - 48)) cs)"

fun leading_fraction :: "int \<Rightarrow> int \<Rightarrow> bool \<Rightarrow> string \<Rightarrow> int \<times> int \<times> string" where
  "leading_fraction f scale full [] = (f, scale, [])"
| "leading_fraction f scale full (c # cs) =
     (if \<not> is_digit c then (f, scale, c # cs)
      else if full \<or> f > 922337203685477580 \<or> f * 10 + int (code c - 48) > max_duration + 1
      then leading_fraction f scale True cs
      else leading_fraction (f * 10 + int (code c - 48)) (scale * 10) False cs)"

definition fraction :: "string \<Rightarrow> int \<times> int \<times> string" where
  "fraction s = (if s \<noteq> [] \<and> hd s = CHR ''.'' then leading_fraction 0 1 False (tl s) else (0, 1, s))"

definition number_char :: "char \<Rightarrow> bool" where
  "number_char c \<longleftrightarrow> c = CHR ''.'' \<or> is_digit c"

text \<open>The unit after a number, and the nanoseconds of both.\<close>

definition scaled :: "int \<Rightarrow> int \<times> int \<times> string \<Rightarrow> (int \<times> string) option" where
  "scaled v fr =
     (case fr of (f, scale, s) \<Rightarrow>
        (case (takeWhile (\<lambda>c. \<not> number_char c) s, map_of units (takeWhile (\<lambda>c. \<not> number_char c) s)) of
           (u # us, Some k) \<Rightarrow>
             if v > (max_duration + 1) div k then None
             else if v * k + f * k div scale > max_duration + 1 then None
             else Some (v * k + f * k div scale, dropWhile (\<lambda>c. \<not> number_char c) s)
         | _ \<Rightarrow> None))"

text \<open>One number with its unit; there are digits before the point or after it.\<close>

definition duration_item :: "string \<Rightarrow> (int \<times> string) option" where
  "duration_item s =
     (if s = [] \<or> \<not> number_char (hd s) then None
      else (case leading_int 0 s of
              None \<Rightarrow> None
            | Some (v, s1) \<Rightarrow>
                let pre = (length s1 \<noteq> length s);
                    post = (length (snd (snd (fraction s1))) + 1 < length s1) in
                if \<not> pre \<and> \<not> post then None else scaled v (fraction s1)))"

lemma leading_int_shorter: "leading_int n s = Some (m, r) \<Longrightarrow> length r \<le> length s"
  by (induction n s rule: leading_int.induct) (auto split: if_splits)

lemma leading_fraction_shorter: "leading_fraction f k b s = (g, m, r) \<Longrightarrow> length r \<le> length s"
proof (induction f k b s rule: leading_fraction.induct)
  case (2 f scale full c cs)
  then show ?case by (fastforce split: if_splits)
qed simp

lemma fraction_shorter: "fraction s = (f, k, r) \<Longrightarrow> length r \<le> length s"
  using leading_fraction_shorter [of 0 1 False "tl s" f k r] by (auto simp: fraction_def split: if_splits)

lemma scaled_shorter: "scaled v (f, k, s) = Some (n, r) \<Longrightarrow> length r < length s"
proof -
  assume "scaled v (f, k, s) = Some (n, r)"
  then have "takeWhile (\<lambda>c. \<not> number_char c) s \<noteq> []" "r = dropWhile (\<lambda>c. \<not> number_char c) s"
    by (auto simp: scaled_def split: list.splits option.splits if_splits)
  moreover have "length s = length (takeWhile (\<lambda>c. \<not> number_char c) s) + length (dropWhile (\<lambda>c. \<not> number_char c) s)"
    by (metis length_append takeWhile_dropWhile_id)
  ultimately show ?thesis by simp
qed

lemma duration_item_shorter:
  assumes "duration_item s = Some (n, r)"
  shows "length r < length s"
proof -
  obtain v s1 where v: "leading_int 0 s = Some (v, s1)" and sc: "scaled v (fraction s1) = Some (n, r)"
    using assms unfolding duration_item_def Let_def by (auto split: if_split_asm option.split_asm prod.split_asm)
  obtain f k s2 where f: "fraction s1 = (f, k, s2)" by (cases "fraction s1") auto
  show ?thesis
    using leading_int_shorter [OF v] fraction_shorter [OF f] scaled_shorter [of v f k s2 n r] sc f by simp
qed

function duration_sum :: "int \<Rightarrow> string \<Rightarrow> int option" where
  "duration_sum d s =
     (if s = [] then Some d
      else (case duration_item s of
              None \<Rightarrow> None
            | Some (n, r) \<Rightarrow> if d + n > max_duration + 1 then None else duration_sum (d + n) r))"
  by pat_completeness auto
termination
  by (relation "measure (\<lambda>(d, s). length s)") (auto dest: duration_item_shorter)

declare duration_sum.simps [simp del]

definition ParseDuration :: "string \<Rightarrow> int option" where
  "ParseDuration orig =
     (let neg = (orig \<noteq> [] \<and> hd orig = CHR ''-'');
          s = (if orig \<noteq> [] \<and> (hd orig = CHR ''-'' \<or> hd orig = CHR ''+'') then tl orig else orig) in
      if s = ''0'' then Some 0
      else if s = [] then None
      else (case duration_sum 0 s of
              None \<Rightarrow> None
            | Some d \<Rightarrow> if neg then Some (- d) else if d > max_duration then None else Some d))"

text \<open>\<open>time.Duration.String\<close>: the largest units first, a fraction without trailing zeros.\<close>

definition pad_digits :: "nat \<Rightarrow> int \<Rightarrow> string" where
  "pad_digits k n = (let ds = itoa n in replicate (k - length ds) (CHR ''0'') @ ds)"

definition with_fraction :: "nat \<Rightarrow> int \<Rightarrow> string" where
  "with_fraction k n =
     (let digits = rev (dropWhile (\<lambda>c. c = CHR ''0'') (rev (pad_digits k (n mod 10 ^ k)))) in
      itoa (n div 10 ^ k) @ (if digits = [] then [] else CHR ''.'' # digits))"

definition duration_string :: "int \<Rightarrow> string" where
  "duration_string d =
     (let u = abs d; sign = (if d < 0 then ''-'' else []); sec = u div 1000000000;
          low = with_fraction 9 (sec mod 60 * 1000000000 + u mod 1000000000) @ ''s'' in
      if u = 0 then ''0s''
      else if u < 1000 then sign @ itoa u @ ''ns''
      else if u < 1000000 then sign @ with_fraction 3 u @ [char_of (194 :: nat), char_of (181 :: nat), CHR ''s'']
      else if u < 1000000000 then sign @ with_fraction 6 u @ ''ms''
      else if sec < 60 then sign @ low
      else if sec < 3600 then sign @ itoa (sec div 60) @ ''m'' @ low
      else sign @ itoa (sec div 3600) @ ''h'' @ itoa (sec div 60 mod 60) @ ''m'' @ low)"

lemma duration_samples:
  "ParseDuration ''1h15m30.5s'' = Some 4530500000000" "ParseDuration ''15'' = None" "ParseDuration ''-1.5h'' = Some (- 5400000000000)"
  "duration_string 900000000000 = ''15m0s''"
  by code_simp+

lemma int_samples: "parse_int0 ''0x1_f'' = Some 31" "parse_int0 ''0_8'' = None" "parse_int0 ''1__0'' = None"
  by code_simp+

section \<open>Flag sets\<close>

text \<open>A flag set knows the kind of each flag it declares. Parsing collects the assignments; the
  last one of a flag counts.\<close>

datatype flag_kind = BoolFlag | StringFlag | IntFlag | DurationFlag

type_synonym flag_set = "(string \<times> flag_kind) list"
type_synonym flag_values = "(string \<times> string) list"

fun flag_ok :: "flag_kind \<Rightarrow> string \<Rightarrow> bool" where
  "flag_ok BoolFlag v = (parse_bool v \<noteq> None)"
| "flag_ok StringFlag v = True"
| "flag_ok IntFlag v = (parse_int0 v \<noteq> None)"
| "flag_ok DurationFlag v = (ParseDuration v \<noteq> None)"

datatype parsed =
    Rest "string list"
  | Bad error
  | Assigned string string "string list"

definition assign :: "string \<Rightarrow> flag_kind \<Rightarrow> string \<Rightarrow> string list \<Rightarrow> parsed" where
  "assign name kind value rest =
     (if flag_ok kind value then Assigned name value rest
      else Bad (Errorf (''invalid value '' @ quote value @ '' for flag -'' @ name)))"

text \<open>A flag that is declared takes its value from after \<open>=\<close>, or, if it is not boolean, from the
  next argument.\<close>

definition set_flag :: "string \<Rightarrow> flag_kind \<Rightarrow> string option \<Rightarrow> string list \<Rightarrow> parsed" where
  "set_flag name kind value rest =
     (case value of
        Some v \<Rightarrow> assign name kind v rest
      | None \<Rightarrow>
          if kind = BoolFlag then Assigned name ''true'' rest
          else (case rest of
                  [] \<Rightarrow> Bad (Errorf (''flag needs an argument: -'' @ name))
                | v # rest' \<Rightarrow> assign name kind v rest'))"

definition use_flag :: "flag_set \<Rightarrow> string \<Rightarrow> string option \<Rightarrow> string list \<Rightarrow> parsed" where
  "use_flag fs name value rest =
     (case map_of fs name of
        None \<Rightarrow>
          if name = ''help'' \<or> name = ''h'' then Bad (Errorf ''flag: help requested'')
          else Bad (Errorf (''flag provided but not defined: -'' @ name))
      | Some kind \<Rightarrow> set_flag name kind value rest)"

text \<open>\<open>FlagSet.parseOne\<close>.\<close>

definition dashes_off :: "string \<Rightarrow> string" where
  "dashes_off s = (if s ! 1 = CHR ''-'' then drop 2 s else drop 1 s)"

definition name_value :: "string \<Rightarrow> string \<times> string option" where
  "name_value s =
     (let name = takeWhile (\<lambda>c. c \<noteq> CHR ''='') s in
      (name, if name = s then None else Some (drop (Suc (length name)) s)))"

definition parseOne :: "flag_set \<Rightarrow> string list \<Rightarrow> parsed" where
  "parseOne fs args =
     (case args of
        [] \<Rightarrow> Rest []
      | s # rest \<Rightarrow>
          if length s < 2 \<or> hd s \<noteq> CHR ''-'' then Rest args
          else if s = ''--'' then Rest rest
          else if hd (dashes_off s) = CHR ''-'' \<or> hd (dashes_off s) = CHR ''=''
          then Bad (Errorf (''bad flag syntax: '' @ s))
          else use_flag fs (fst (name_value (dashes_off s))) (snd (name_value (dashes_off s))) rest)"

lemma assign_cases: "assign n kind v r = Assigned n v r \<or> (\<exists>e. assign n kind v r = Bad e)"
  by (simp add: assign_def)

text \<open>What a step takes.\<close>

definition takes :: "parsed \<Rightarrow> string list \<Rightarrow> bool" where
  "takes p rest \<longleftrightarrow> (\<exists>e. p = Bad e) \<or> (\<exists>n v. p = Assigned n v rest) \<or>
     (\<exists>n v rest'. rest = v # rest' \<and> p = Assigned n v rest')"

lemma set_flag_takes: "takes (set_flag name kind val rest) rest"
proof (cases val)
  case (Some v)
  then show ?thesis using assign_cases [of name kind v rest] by (auto simp: set_flag_def takes_def)
next
  case None
  then show ?thesis
    using assign_cases [of name kind "hd rest" "tl rest"] by (cases rest) (auto simp: set_flag_def takes_def)
qed

lemma use_flag_takes: "takes (use_flag fs name val rest) rest"
proof (cases "map_of fs name")
  case (Some kind)
  then show ?thesis using set_flag_takes [of name kind val rest] by (simp add: use_flag_def)
qed (simp add: use_flag_def takes_def)

lemma parseOne_dash:
  assumes "2 \<le> length s" and "hd s = CHR ''-''" and "s \<noteq> ''--''"
  shows "takes (parseOne fs (s # rest)) rest"
  using assms use_flag_takes [of fs _ _ rest] by (simp add: parseOne_def) (simp add: takes_def)

lemma parseOne_stop: "s = [] \<or> length s < 2 \<or> hd s \<noteq> CHR ''-'' \<Longrightarrow> parseOne fs (s # rest) = Rest (s # rest)"
  by (auto simp: parseOne_def)

lemma parseOne_end: "parseOne fs (''--'' # rest) = Rest rest" "parseOne fs [] = Rest []"
  by (simp_all add: parseOne_def)

text \<open>The arguments a step takes are a prefix of what was there.\<close>

lemma parseOne_cases:
  obtains (empty) "args = []"
  | (stop) s rest where "args = s # rest" "length s < 2 \<or> hd s \<noteq> CHR ''-''" "parseOne fs args = Rest args"
  | (dashes) rest where "args = ''--'' # rest" "parseOne fs args = Rest rest"
  | (one) s n v rest where "args = s # rest" "parseOne fs args = Assigned n v rest"
  | (two) s n v rest where "args = s # v # rest" "parseOne fs args = Assigned n v rest"
  | (bad) e where "parseOne fs args = Bad e"
proof (cases args)
  case (Cons s rest)
  consider "length s < 2 \<or> hd s \<noteq> CHR ''-''" | "s = ''--''" | "2 \<le> length s" "hd s = CHR ''-''" "s \<noteq> ''--''"
    by fastforce
  then show ?thesis
  proof cases
    case 1
    then show ?thesis using Cons stop parseOne_stop by blast
  next
    case 2
    then show ?thesis using Cons dashes parseOne_end by blast
  next
    case 3
    from parseOne_dash [OF this, of fs rest] show ?thesis using Cons one two bad unfolding takes_def by blast
  qed
qed (rule empty)

lemma parseOne_shorter:
  assumes "parseOne fs args = Assigned n v rest"
  shows "length rest < length args"
  using assms by (cases rule: parseOne_cases [where args = args and fs = fs]) (auto simp: parseOne_end)

lemma parseOne_rest:
  assumes "parseOne fs args = Rest rest"
  shows "length rest \<le> length args"
  using assms by (cases rule: parseOne_cases [where args = args and fs = fs]) (auto simp: parseOne_end)

text \<open>\<open>FlagSet.Parse\<close>: the arguments left at the first that is no flag, and the settings.\<close>

function parse_flags :: "flag_set \<Rightarrow> string list \<Rightarrow> flag_values \<Rightarrow> (string list \<times> flag_values) result" where
  "parse_flags fs args acc =
     (case parseOne fs args of
        Rest rest \<Rightarrow> Inr (rest, acc)
      | Bad e \<Rightarrow> Inl e
      | Assigned n v rest \<Rightarrow> parse_flags fs rest (acc @ [(n, v)]))"
  by pat_completeness auto
termination
  by (relation "measure (\<lambda>(fs, args, acc). length args)") (auto dest: parseOne_shorter)

declare parse_flags.simps [simp del]

lemma parse_flags_shorter: "parse_flags fs args s = Inr (rest, s') \<Longrightarrow> length rest \<le> length args"
proof (induction fs args s rule: parse_flags.induct)
  case (1 fs args s)
  show ?case
  proof (cases "parseOne fs args")
    case (Assigned n v r)
    have "parse_flags fs r (s @ [(n, v)]) = Inr (rest, s')"
      using "1.prems" Assigned by (subst (asm) parse_flags.simps) simp
    then show ?thesis using "1.IH" [OF Assigned] parseOne_shorter [OF Assigned] by simp
  qed (use "1.prems" in \<open>auto simp: parse_flags.simps [of fs args] dest: parseOne_rest\<close>)
qed

text \<open>\<open>parseInterspersed\<close>: positional arguments are taken one at a time, so flags after them are
  parsed too; what follows \<open>--\<close> is positional.\<close>

function interspersed :: "flag_set \<Rightarrow> string list \<Rightarrow> string list \<Rightarrow> flag_values \<Rightarrow> (string list \<times> flag_values) result" where
  "interspersed fs args positionals acc =
     (case parse_flags fs args acc of
        Inl e \<Rightarrow> Inl e
      | Inr (rest, acc') \<Rightarrow>
          if rest = [] then Inr (positionals, acc')
          else
            let consumed = length args - length rest in
            if consumed > 0 \<and> args ! (consumed - 1) = ''--'' then Inr (positionals @ rest, acc')
            else interspersed fs (tl rest) (positionals @ [hd rest]) acc')"
  by pat_completeness auto
termination
  by (relation "measure (\<lambda>(fs, args, p, acc). length args)")
    (auto dest!: parse_flags_shorter simp: neq_Nil_conv)

declare interspersed.simps [simp del]

definition parseInterspersed :: "flag_set \<Rightarrow> string list \<Rightarrow> (string list \<times> flag_values) result" where
  "parseInterspersed fs args = interspersed fs args [] []"

section \<open>Reading the settings\<close>

definition setting :: "flag_values \<Rightarrow> string \<Rightarrow> string option" where
  "setting s name = map_of (rev s) name"

definition visited :: "flag_values \<Rightarrow> string \<Rightarrow> bool" where
  "visited s name \<longleftrightarrow> setting s name \<noteq> None"

definition get_string :: "flag_values \<Rightarrow> string \<Rightarrow> string \<Rightarrow> string" where
  "get_string s name fallback = (case setting s name of Some v \<Rightarrow> v | None \<Rightarrow> fallback)"

definition get_bool :: "flag_values \<Rightarrow> string \<Rightarrow> bool \<Rightarrow> bool" where
  "get_bool s name fallback =
     (case Option.bind (setting s name) parse_bool of Some b \<Rightarrow> b | None \<Rightarrow> fallback)"

definition get_int :: "flag_values \<Rightarrow> string \<Rightarrow> int \<Rightarrow> int" where
  "get_int s name fallback =
     (case Option.bind (setting s name) parse_int0 of Some i \<Rightarrow> i | None \<Rightarrow> fallback)"

definition get_duration :: "flag_values \<Rightarrow> string \<Rightarrow> int \<Rightarrow> int" where
  "get_duration s name fallback =
     (case Option.bind (setting s name) ParseDuration of Some i \<Rightarrow> i | None \<Rightarrow> fallback)"

section \<open>Flags before and after the positional argument\<close>

text \<open>A block of flags: parsing takes all of it, and it does not end in \<open>--\<close> (neither the
  terminator nor a value that reads like it).\<close>

definition flag_block :: "flag_set \<Rightarrow> string list \<Rightarrow> flag_values \<Rightarrow> bool" where
  "flag_block fs a s \<longleftrightarrow> parse_flags fs a [] = Inr ([], s) \<and> (a = [] \<or> last a \<noteq> ''--'')"

definition positional :: "string \<Rightarrow> bool" where
  "positional p \<longleftrightarrow> length p < 2 \<or> hd p \<noteq> CHR ''-''"

lemma set_flag_append:
  "set_flag m k w r = Assigned n v rest \<Longrightarrow> set_flag m k w (r @ c) = Assigned n v (rest @ c)"
  by (cases w; cases r; cases "k = BoolFlag") (auto simp: set_flag_def assign_def split: if_splits)

lemma use_flag_append:
  "use_flag fs m w r = Assigned n v rest \<Longrightarrow> use_flag fs m w (r @ c) = Assigned n v (rest @ c)"
  by (cases "map_of fs m") (simp_all add: use_flag_def set_flag_append split: if_splits)

lemma parseOne_assigned:
  "parseOne fs (s # r) = Assigned n v rest \<longleftrightarrow>
     2 \<le> length s \<and> hd s = CHR ''-'' \<and> s \<noteq> ''--'' \<and> hd (dashes_off s) \<noteq> CHR ''-'' \<and> hd (dashes_off s) \<noteq> CHR ''='' \<and>
     use_flag fs (fst (name_value (dashes_off s))) (snd (name_value (dashes_off s))) r = Assigned n v rest"
  unfolding parseOne_def list.case not_less [symmetric] by (simp only: parsed.distinct if_distrib) auto

lemma parseOne_append:
  assumes "parseOne fs a = Assigned n v rest"
  shows "parseOne fs (a @ c) = Assigned n v (rest @ c)"
proof (cases a)
  case (Cons s r)
  then show ?thesis using assms use_flag_append unfolding Cons append_Cons parseOne_assigned by blast
qed (use assms in \<open>simp add: parseOne_end\<close>)

lemma parse_flags_step:
  "parseOne fs a = Assigned n v rest \<Longrightarrow> parse_flags fs a acc = parse_flags fs rest (acc @ [(n, v)])"
  "parseOne fs a = Rest rest \<Longrightarrow> parse_flags fs a acc = Inr (rest, acc)"
  "parseOne fs a = Bad e \<Longrightarrow> parse_flags fs a acc = Inl e"
  by (subst parse_flags.simps, simp)+

lemma parse_flags_acc:
  "parse_flags fs a acc = (case parse_flags fs a [] of Inl e \<Rightarrow> Inl e | Inr (r, s) \<Rightarrow> Inr (r, acc @ s))"
proof (induction "length a" arbitrary: a acc rule: less_induct)
  case less
  show ?case
  proof (cases "parseOne fs a")
    case (Assigned n v rest)
    note shorter = parseOne_shorter [OF Assigned]
    show ?thesis
      unfolding parse_flags_step(1) [OF Assigned] less [OF shorter, of "acc @ [(n, v)]"] less [OF shorter, of "[] @ [(n, v)]"]
      by (cases "parse_flags fs rest []") auto
  qed (simp_all add: parse_flags_step)
qed

lemma flag_block_step:
  assumes "flag_block fs a s" and "parseOne fs a = Assigned n v rest" and "a = x # rest \<or> a = x # y # rest"
  obtains t where "flag_block fs rest t" "s = (n, v) # t"
proof -
  from assms(1) have p: "parse_flags fs rest [(n, v)] = Inr ([], s)" and last: "last a \<noteq> ''--''"
    using assms(3) parse_flags_step(1) [OF assms(2), of "[]"] by (auto simp: flag_block_def)
  from p obtain t where t: "parse_flags fs rest [] = Inr ([], t)" "s = (n, v) # t"
    using parse_flags_acc [of fs rest "[(n, v)]"] by (cases "parse_flags fs rest []") auto
  have "rest = [] \<or> last rest \<noteq> ''--''" using last assms(3) by (cases rest) auto
  then show thesis using that t by (simp add: flag_block_def)
qed

lemma parse_flags_block:
  "flag_block fs a s \<Longrightarrow> parse_flags fs (a @ c) acc = parse_flags fs c (acc @ s)"
proof (induction "length a" arbitrary: a s acc rule: less_induct)
  case less
  have go: ?case if step: "parseOne fs a = Assigned n v rest" "a = x # rest \<or> a = x # y # rest" for n v rest x y
  proof -
    obtain t where t: "flag_block fs rest t" "s = (n, v) # t" by (rule flag_block_step [OF less.prems step])
    show ?thesis
      using less.hyps [OF parseOne_shorter [OF step(1)] t(1), of "acc @ [(n, v)]"]
        parse_flags_step(1) [OF parseOne_append [OF step(1), of c], of acc] t(2) by simp
  qed
  have rest: "parseOne fs a = Rest r \<Longrightarrow> r = []" "parseOne fs a \<noteq> Bad e" for r e
    using less.prems parse_flags_step(2,3) [of fs a _ "[]"] by (auto simp: flag_block_def)
  show ?case
  proof (cases rule: parseOne_cases [where args = a and fs = fs])
    case empty
    then show ?thesis using less.prems parse_flags_step(2) [OF parseOne_end(2), of fs "[]"] by (simp add: flag_block_def)
  next
    case (stop x r)
    then show ?thesis using rest(1) by simp
  next
    case (dashes r)
    then show ?thesis using rest(1) less.prems by (simp add: flag_block_def)
  qed (use go rest(2) in blast)+
qed

lemma flag_block_append:
  assumes "flag_block fs a s" and "flag_block fs b t"
  shows "flag_block fs (a @ b) (s @ t)"
proof -
  have "parse_flags fs (a @ b) [] = Inr ([], s @ t)"
    using parse_flags_block [OF assms(1), of b "[]"] parse_flags_acc [of fs b s] assms(2) by (simp add: flag_block_def)
  then show ?thesis using assms by (cases "b = []") (auto simp: flag_block_def)
qed

lemma interspersed_block:
  assumes "flag_block fs a s"
  shows "interspersed fs a ps acc = Inr (ps, acc @ s)"
  using assms parse_flags_acc [of fs a acc] by (simp add: interspersed.simps [of fs a] flag_block_def)

lemma interspersed_positional:
  assumes a: "flag_block fs a s" and p: "positional p"
  shows "interspersed fs (a @ p # b) ps acc = interspersed fs b (ps @ [p]) (acc @ s)"
proof -
  have "parse_flags fs (a @ p # b) acc = Inr (p # b, acc @ s)"
    using parse_flags_block [OF a, of "p # b" acc] p parse_flags.simps [of fs "p # b"] parseOne_stop [of p fs b]
    by (simp add: positional_def)
  moreover have "(a @ p # b) ! (length a - 1) \<noteq> ''--''" if "a \<noteq> []"
    using a that by (simp add: flag_block_def nth_append last_conv_nth)
  ultimately show ?thesis by (subst interspersed.simps) (cases "a = []", simp_all add: Let_def)
qed

lemma parseInterspersed_anywhere:
  assumes "flag_block fs a s" and "flag_block fs b t" and "positional p"
  shows "parseInterspersed fs (a @ p # b) = Inr ([p], s @ t)"
  using interspersed_positional [OF assms(1,3), of b "[]" "[]"] interspersed_block [OF assms(2)]
  by (simp add: parseInterspersed_def)

end
