(* ===== verification/CliBase.thy ===== *)
theory CliBase
  imports CliFlags StoreOps
begin

text \<open>
  The commands of \<open>cmd/wol\<close>: what they share. A command reads its flags, opens the inventory,
  prints lines and returns an exit code. It runs on a console: the inventory's world, the lines
  printed to both streams and the calls made outside the program. An early \<open>return n\<close> ends it.
  Styling of printed text (\<open>internal/ui\<close>) and the usage texts of the \<open>flag\<close> package are left out.
\<close>

section \<open>A command's run\<close>

record 'e console =
  con_world :: world
  con_out :: "string list"
  con_err :: "string list"
  con_calls :: "'e list"

type_synonym ('e, 'a) cli = "'e console \<Rightarrow> (int + 'a) \<times> 'e console"

definition done_with :: "'a \<Rightarrow> ('e, 'a) cli" where
  "done_with x c = (Inr x, c)"

definition exit_code :: "int \<Rightarrow> ('e, 'a) cli" where
  "exit_code status c = (Inl status, c)"

definition next_do :: "('e, 'a) cli \<Rightarrow> ('a \<Rightarrow> ('e, 'b) cli) \<Rightarrow> ('e, 'b) cli" where
  "next_do p f c = (case p c of (Inl status, c') \<Rightarrow> (Inl status, c') | (Inr x, c') \<Rightarrow> f x c')"

definition println :: "string \<Rightarrow> ('e, unit) cli" where
  "println s c = (Inr (), c\<lparr>con_out := con_out c @ [s]\<rparr>)"

definition eprintln :: "string \<Rightarrow> ('e, unit) cli" where
  "eprintln s c = (Inr (), c\<lparr>con_err := con_err c @ [s]\<rparr>)"

definition called :: "'e list \<Rightarrow> ('e, unit) cli" where
  "called es c = (Inr (), c\<lparr>con_calls := con_calls c @ es\<rparr>)"

text \<open>An operation of the inventory, with its error as a value.\<close>

definition inventory :: "'a m \<Rightarrow> ('e, 'a result) cli" where
  "inventory p c = (case p (con_world c) of (r, w) \<Rightarrow> (Inr r, c\<lparr>con_world := w\<rparr>))"

text \<open>Print a line to the standard error and return.\<close>

definition fail_with :: "int \<Rightarrow> string \<Rightarrow> ('e, 'a) cli" where
  "fail_with status s = next_do (eprintln s) (\<lambda>_. exit_code status)"

text \<open>The exit code of a run and the console after it.\<close>

definition exit_of :: "('e, int) cli \<Rightarrow> 'e console \<Rightarrow> int \<times> 'e console" where
  "exit_of p c = (case p c of (Inl status, c') \<Rightarrow> (status, c') | (Inr status, c') \<Rightarrow> (status, c'))"

fun cli_each :: "('x \<Rightarrow> 's \<Rightarrow> ('e, 's) cli) \<Rightarrow> 'x list \<Rightarrow> 's \<Rightarrow> ('e, 's) cli" where
  "cli_each body [] s = done_with s"
| "cli_each body (x # xs) s = next_do (body x s) (cli_each body xs)"

section \<open>The surroundings of a command\<close>

text \<open>Environment variables, and opening the database at a path, which may fail.\<close>

record shell =
  sh_getenv :: "string \<Rightarrow> string"
  sh_default_db :: string
  sh_open :: "string \<Rightarrow> error option"

text \<open>\<open>envString\<close> (\<open>main.go\<close>).\<close>

definition envString :: "shell \<Rightarrow> string \<Rightarrow> string \<Rightarrow> string" where
  "envString sh name fallback =
     (let v = trim_space (sh_getenv sh name) in if v = [] then fallback else v)"

definition db_path :: "shell \<Rightarrow> flag_values \<Rightarrow> string" where
  "db_path sh s = get_string s ''db'' (envString sh ''WOL_DB'' (sh_default_db sh))"

text \<open>\<open>store.Open\<close> at the flag's path, with the message of a failure.\<close>

definition open_store :: "shell \<Rightarrow> flag_values \<Rightarrow> (error \<Rightarrow> string) \<Rightarrow> ('e, unit) cli" where
  "open_store sh s message =
     (case sh_open sh (db_path sh s) of
        Some e \<Rightarrow> fail_with 1 (message e)
      | None \<Rightarrow> done_with ())"

text \<open>\<open>findStoredDevice\<close> (\<open>cmd_tui.go\<close>): by ID, then by name without regard to case.\<close>

definition findStoredDevice :: "string \<Rightarrow> device m" where
  "findStoredDevice target0 =
     (let target = trim_space target0 in
      if target = [] then fail (Errorf ''device name or id is required'')
      else
        andThen (attempt (GetDevice target)) (\<lambda>r.
        (case r of
           Inr dev \<Rightarrow> ret dev
         | Inl e \<Rightarrow>
             if \<not> errors_is e ErrNotFound then fail e
             else
               andThen ListDevices (\<lambda>devices.
               (case find (\<lambda>d. equal_fold (d_name d) target) devices of
                  Some dev \<Rightarrow> ret dev
                | None \<Rightarrow> fail (Errorf (''machine '' @ quote target @ '' not found in local inventory'')))))))"

section \<open>Reasoning about runs\<close>

text \<open>\<open>only P p\<close>: every call the run adds satisfies \<open>P\<close>.\<close>

definition only :: "('e \<Rightarrow> bool) \<Rightarrow> ('e, 'a) cli \<Rightarrow> bool" where
  "only P p \<longleftrightarrow> (\<forall>c. \<exists>es. con_calls (snd (p c)) = con_calls c @ es \<and> list_all P es)"

named_theorems only_intros

lemma only_done [only_intros]: "only P (done_with x)"
  by (simp add: only_def done_with_def)

lemma only_exit [only_intros]: "only P (exit_code n)"
  by (simp add: only_def exit_code_def)

lemma only_println [only_intros]: "only P (println s)"
  by (simp add: only_def println_def)

lemma only_eprintln [only_intros]: "only P (eprintln s)"
  by (simp add: only_def eprintln_def)

lemma only_inventory [only_intros]: "only P (inventory p)"
  by (simp add: only_def inventory_def split: prod.split)

lemma only_called: "list_all P es \<Longrightarrow> only P (called es)"
  by (simp add: only_def called_def)

lemma only_next [only_intros]:
  assumes "only P p" and "\<And>x. only P (f x)"
  shows "only P (next_do p f)"
  unfolding only_def
proof
  fix c
  obtain r c1 where p: "p c = (r, c1)" by (cases "p c") auto
  obtain es where es: "con_calls c1 = con_calls c @ es" "list_all P es"
    using assms(1) p unfolding only_def by (metis snd_conv)
  show "\<exists>es. con_calls (snd (next_do p f c)) = con_calls c @ es \<and> list_all P es"
  proof (cases r)
    case (Inl n)
    then show ?thesis using p es by (simp add: next_do_def)
  next
    case (Inr x)
    obtain fs where "con_calls (snd (f x c1)) = con_calls c1 @ fs" "list_all P fs"
      using assms(2) unfolding only_def by metis
    then show ?thesis using p es Inr by (auto simp: next_do_def intro!: exI [of _ "es @ fs"])
  qed
qed

lemma only_fail_with [only_intros]: "only P (fail_with n s)"
  unfolding fail_with_def by (intro only_intros)

lemma only_if [only_intros]: "only P p \<Longrightarrow> only P q \<Longrightarrow> only P (if b then p else q)"
  by simp

lemma only_sum [only_intros]:
  "(\<And>e. x = Inl e \<Longrightarrow> only P (g e)) \<Longrightarrow> (\<And>y. x = Inr y \<Longrightarrow> only P (f y)) \<Longrightarrow>
    only P (case x of Inl e \<Rightarrow> g e | Inr y \<Rightarrow> f y)"
  by (cases x) auto

lemma only_option [only_intros]:
  "(x = None \<Longrightarrow> only P p) \<Longrightarrow> (\<And>y. x = Some y \<Longrightarrow> only P (f y)) \<Longrightarrow>
    only P (case x of None \<Rightarrow> p | Some y \<Rightarrow> f y)"
  by (cases x) auto

lemma only_list [only_intros]:
  "(x = [] \<Longrightarrow> only P p) \<Longrightarrow> (\<And>y ys. x = y # ys \<Longrightarrow> only P (f y ys)) \<Longrightarrow>
    only P (case x of [] \<Rightarrow> p | y # ys \<Rightarrow> f y ys)"
  by (cases x) auto

lemma only_open_store [only_intros]: "only P (open_store sh s m)"
  unfolding open_store_def by (intro only_intros)

lemma only_each [only_intros]: "(\<And>x s. only P (body x s)) \<Longrightarrow> only P (cli_each body xs s)"
  by (induction xs arbitrary: s) (auto intro: only_intros)

lemma exit_of_calls:
  assumes "only P p"
  shows "\<exists>es. con_calls (snd (exit_of p c)) = con_calls c @ es \<and> list_all P es"
proof -
  obtain r c1 where p: "p c = (r, c1)" by (cases "p c") auto
  then have "snd (exit_of p c) = c1" by (cases r) (simp_all add: exit_of_def)
  then show ?thesis using assms p unfolding only_def by (metis snd_conv)
qed

text \<open>\<open>leads Q p\<close>: every run of \<open>p\<close> adds calls that stand in \<open>Q\<close> to how it ends.\<close>

definition leads :: "(int + 'a \<Rightarrow> 'e list \<Rightarrow> bool) \<Rightarrow> ('e, 'a) cli \<Rightarrow> bool" where
  "leads Q p \<longleftrightarrow> (\<forall>c. \<exists>es. con_calls (snd (p c)) = con_calls c @ es \<and> Q (fst (p c)) es)"

text \<open>\<open>silent E p\<close>: the run makes no calls, and when it ends the command its exit code is in \<open>E\<close>.\<close>

definition silent :: "int set \<Rightarrow> ('e, 'a) cli \<Rightarrow> bool" where
  "silent E p \<longleftrightarrow> leads (\<lambda>r es. es = [] \<and> (\<forall>n. r = Inl n \<longrightarrow> n \<in> E)) p"

named_theorems silent_intros

lemma leads_silent:
  assumes p: "silent E p" and stop: "\<And>n. n \<in> E \<Longrightarrow> Q (Inl n) []" and f: "\<And>x. leads Q (f x)"
  shows "leads Q (next_do p f)"
  unfolding leads_def
proof
  fix c
  obtain r c1 where r: "p c = (r, c1)" by (cases "p c") auto
  have c1: "con_calls c1 = con_calls c" "\<And>n. r = Inl n \<Longrightarrow> n \<in> E"
    using p [unfolded silent_def leads_def, rule_format, of c] r by auto
  show "\<exists>es. con_calls (snd (next_do p f c)) = con_calls c @ es \<and> Q (fst (next_do p f c)) es"
  proof (cases r)
    case (Inl n)
    then show ?thesis using r c1 stop [of n] by (intro exI [of _ "[]"]) (simp add: next_do_def)
  next
    case (Inr x)
    then show ?thesis using r c1 f [of x, unfolded leads_def, rule_format, of c1] by (simp add: next_do_def)
  qed
qed

lemma leads_done: "Q (Inr x) [] \<Longrightarrow> leads Q (done_with x)"
  by (simp add: leads_def done_with_def)

lemma leads_stop: "Q (Inl n) [] \<Longrightarrow> leads Q (exit_code n)"
  by (simp add: leads_def exit_code_def)

lemma leads_fail: "Q (Inl n) [] \<Longrightarrow> leads Q (fail_with n s)"
  by (simp add: leads_def fail_with_def next_do_def eprintln_def exit_code_def)

lemma silent_done [silent_intros]: "silent E (done_with x)"
  by (simp add: silent_def leads_done)

lemma silent_exit [silent_intros]: "n \<in> E \<Longrightarrow> silent E (exit_code n)"
  by (simp add: silent_def leads_stop)

lemma silent_fail [silent_intros]: "n \<in> E \<Longrightarrow> silent E (fail_with n s)"
  by (simp add: silent_def leads_fail)

lemma silent_println [silent_intros]: "silent E (println s)"
  by (simp add: silent_def leads_def println_def)

lemma silent_eprintln [silent_intros]: "silent E (eprintln s)"
  by (simp add: silent_def leads_def eprintln_def)

lemma silent_inventory [silent_intros]: "silent E (inventory p)"
  by (simp add: silent_def leads_def inventory_def split: prod.split)

lemma silent_next [silent_intros]: "silent E p \<Longrightarrow> (\<And>x. silent E (f x)) \<Longrightarrow> silent E (next_do p f)"
  using leads_silent [of E p "\<lambda>r es. es = [] \<and> (\<forall>n. r = Inl n \<longrightarrow> n \<in> E)" f] by (simp add: silent_def)

lemma silent_if [silent_intros]: "(b \<Longrightarrow> silent E p) \<Longrightarrow> (\<not> b \<Longrightarrow> silent E q) \<Longrightarrow> silent E (if b then p else q)"
  by simp

lemma silent_sum [silent_intros]:
  "(\<And>e. x = Inl e \<Longrightarrow> silent E (g e)) \<Longrightarrow> (\<And>y. x = Inr y \<Longrightarrow> silent E (f y)) \<Longrightarrow>
    silent E (case x of Inl e \<Rightarrow> g e | Inr y \<Rightarrow> f y)"
  by (cases x) auto

lemma silent_option [silent_intros]:
  "(x = None \<Longrightarrow> silent E p) \<Longrightarrow> (\<And>y. x = Some y \<Longrightarrow> silent E (f y)) \<Longrightarrow>
    silent E (case x of None \<Rightarrow> p | Some y \<Rightarrow> f y)"
  by (cases x) auto

lemma silent_each [silent_intros]: "(\<And>x s. silent E (body x s)) \<Longrightarrow> silent E (cli_each body xs s)"
  by (induction xs arbitrary: s) (auto intro: silent_intros)

lemma silent_open [silent_intros]: "1 \<in> E \<Longrightarrow> silent E (open_store sh s m)"
  unfolding open_store_def by (intro silent_intros)

lemma leads_inventory: "(\<And>r. leads Q (f r)) \<Longrightarrow> leads Q (next_do (inventory p) f)"
  by (rule leads_silent [OF silent_inventory [of "{}"]]) simp_all

lemma leads_open: "Q (Inl 1) [] \<Longrightarrow> leads Q (f ()) \<Longrightarrow> leads Q (next_do (open_store sh s m) f)"
  by (rule leads_silent [OF silent_open [of "{1}"]]) simp_all

lemma leads_println: "Q (Inr n) [] \<Longrightarrow> leads Q (next_do (println s) (\<lambda>_. done_with n))"
  by (rule leads_silent [OF silent_println [of "{}"]]) (simp_all add: leads_done)

lemma silent_leads: "silent E p \<Longrightarrow> (\<And>n. n \<in> E \<Longrightarrow> Q (Inl n) []) \<Longrightarrow> (\<And>x. Q (Inr x) []) \<Longrightarrow> leads Q p"
  unfolding silent_def leads_def by (metis sum.exhaust)

text \<open>A run without calls whose value is known.\<close>

lemma leads_then: "leads (\<lambda>r es. es = [] \<and> r = Inr x) p \<Longrightarrow> leads Q (f x) \<Longrightarrow> leads Q (next_do p f)"
  unfolding leads_def
proof
  fix c
  assume p: "\<forall>c. \<exists>es. con_calls (snd (p c)) = con_calls c @ es \<and> es = [] \<and> fst (p c) = Inr x"
    and f: "\<forall>c. \<exists>es. con_calls (snd (f x c)) = con_calls c @ es \<and> Q (fst (f x c)) es"
  obtain c1 where r: "p c = (Inr x, c1)" "con_calls c1 = con_calls c" using p by (metis append_Nil2 prod.collapse)
  show "\<exists>es. con_calls (snd (next_do p f c)) = con_calls c @ es \<and> Q (fst (next_do p f c)) es"
    using f [rule_format, of c1] r by (simp add: next_do_def)
qed

lemma leads_called: "leads (\<lambda>r fs. Q r (es @ fs)) (f ()) \<Longrightarrow> leads Q (next_do (called es) f)"
  unfolding leads_def
proof
  fix c
  assume f: "\<forall>c. \<exists>fs. con_calls (snd (f () c)) = con_calls c @ fs \<and> Q (fst (f () c)) (es @ fs)"
  show "\<exists>gs. con_calls (snd (next_do (called es) f c)) = con_calls c @ gs \<and> Q (fst (next_do (called es) f c)) gs"
    using f [rule_format, of "c\<lparr>con_calls := con_calls c @ es\<rparr>"] by (auto simp: next_do_def called_def)
qed

lemma leads_mono: "leads P p \<Longrightarrow> (\<And>r es. P r es \<Longrightarrow> Q r es) \<Longrightarrow> leads Q p"
  unfolding leads_def by blast

lemma leads_if: "(b \<Longrightarrow> leads Q p) \<Longrightarrow> (\<not> b \<Longrightarrow> leads Q q) \<Longrightarrow> leads Q (if b then p else q)"
  by simp

text \<open>How a command ends, in terms of its exit code.\<close>

definition code_of :: "int + int \<Rightarrow> int" where
  "code_of r = (case r of Inl n \<Rightarrow> n | Inr n \<Rightarrow> n)"

lemma leads_ends:
  assumes "leads Q p" and "exit_of p c = (n, c')" and "con_calls c' = con_calls c @ calls"
  shows "\<exists>r. n = code_of r \<and> Q r calls"
proof -
  obtain r c1 where p: "p c = (r, c1)" by (cases "p c") auto
  have "n = code_of r \<and> c' = c1" using assms(2) p by (cases r) (auto simp: exit_of_def code_of_def)
  then show ?thesis using assms(1) [unfolded leads_def, rule_format, of c] assms(3) p by auto
qed

section \<open>A sample inventory\<close>

definition desk_machine :: device where
  "desk_machine = \<lparr>d_id = ''d1'', d_name = ''Desk'', d_mac = ''00:11:22:33:44:55'', d_ip = ''192.168.1.20'',
     d_broadcast = [], d_port = 9, d_interface = [], d_site_id = [], d_type = ''unknown'', d_platform = ''windows'',
     d_strategy = ''broadcast'', d_relay_id = [], d_verify_port = 0, d_description = [], d_enabled = True,
     d_created = [], d_updated = []\<rparr>"

definition desk_console :: "'e console" where
  "desk_console = \<lparr>con_world = quiet_world (empty_db\<lparr>t_devices := [desk_machine]\<rparr>), con_out = [], con_err = [], con_calls = []\<rparr>"

end
