(* ===== verification/CliShutdown.thy ===== *)
theory CliShutdown
  imports CliBase PowerOff
begin

text \<open>
  \<open>wol shutdown\<close> (\<open>cmd/wol/cmd_shutdown.go\<close>): shutting a machine down, cancelling, configuring
  its power profile and listing the history. The calls of a run are the commands given to ssh.
\<close>

section \<open>Flags and target\<close>

type_synonym ssh_call = "power_target \<times> string"

definition shutdown_flags :: flag_set where
  "shutdown_flags = [(''db'', StringFlag), (''delay'', StringFlag), (''now'', BoolFlag), (''force'', BoolFlag),
     (''user'', StringFlag), (''port'', IntFlag), (''key'', StringFlag), (''platform'', StringFlag),
     (''sudo'', BoolFlag), (''cancel'', BoolFlag)]"

definition configure_flags :: flag_set where
  "configure_flags = [(''db'', StringFlag), (''user'', StringFlag), (''port'', IntFlag), (''key'', StringFlag),
     (''platform'', StringFlag), (''sudo'', BoolFlag)]"

definition parseMachineAndFlags :: "string list \<Rightarrow> flag_set \<Rightarrow> (string \<times> flag_values) result" where
  "parseMachineAndFlags arguments fs =
     (case parseInterspersed fs arguments of
        Inl e \<Rightarrow> Inl e
      | Inr ([], s) \<Rightarrow> Inr ([], s)
      | Inr ([machine], s) \<Rightarrow> Inr (machine, s)
      | Inr (machines, s) \<Rightarrow>
          Inl (Errorf (''expected one machine, got '' @ itoa (int (length machines)) @ '': '' @ join '' '' machines)))"

text \<open>The error of two machines is printed by \<open>parseMachineAndFlags\<close>, the others by the flag set.\<close>

definition refuse_arguments :: "error \<Rightarrow> ('e, 'a) cli" where
  "refuse_arguments e = fail_with 2 (error_text e)"

text \<open>The lines after the first are left out.\<close>

definition printShutdownUsage :: "('e, unit) cli" where
  "printShutdownUsage = eprintln ''Usage: wol shutdown [command] [arguments]''"

definition with_power_profile :: "power_profile \<Rightarrow> power_target \<Rightarrow> power_target" where
  "with_power_profile p t = t\<lparr>
     po_user := if pp_ssh_user p \<noteq> [] then pp_ssh_user p else po_user t,
     po_port := if pp_ssh_port p > 0 then pp_ssh_port p else po_port t,
     po_key := if pp_ssh_key p \<noteq> [] then pp_ssh_key p else po_key t,
     po_platform := if pp_platform p \<noteq> [] then pp_platform p else po_platform t,
     po_sudo := pp_use_sudo p\<rparr>"

definition with_remote_profile :: "remote_profile \<Rightarrow> power_target \<Rightarrow> power_target" where
  "with_remote_profile p t = t\<lparr>
     po_user := if rp_username p \<noteq> [] then rp_username p else po_user t,
     po_port := if rp_protocol p = ''ssh'' \<and> rp_port p > 0 then rp_port p else po_port t\<rparr>"

definition with_flags :: "string \<Rightarrow> int \<Rightarrow> string \<Rightarrow> string \<Rightarrow> bool \<Rightarrow> bool \<Rightarrow> power_target \<Rightarrow> power_target" where
  "with_flags user port key platform sudo sudoSet t = t\<lparr>
     po_user := if trim_space user \<noteq> [] then trim_space user else po_user t,
     po_port := if port > 0 then port else po_port t,
     po_key := if trim_space key \<noteq> [] then trim_space key else po_key t,
     po_platform := if trim_space platform \<noteq> [] then trim_space platform else po_platform t,
     po_sudo := if sudoSet then sudo else po_sudo t\<rparr>"

definition resolvePowerTarget ::
  "device \<Rightarrow> string \<Rightarrow> int \<Rightarrow> string \<Rightarrow> string \<Rightarrow> bool \<Rightarrow> bool \<Rightarrow> power_target m" where
  "resolvePowerTarget dev user port key platform sudo sudoSet =
     (let host = trim_space (d_ip dev) in
      if host = [] then fail (Errorf (''device '' @ d_name dev @ '' has no IP address configured''))
      else
        let target = \<lparr>po_device_id = d_id dev, po_device_name = d_name dev, po_host = host, po_port = 22,
              po_user = [], po_key = [], po_platform = d_platform dev, po_sudo = False\<rparr> in
        andThen (attempt (GetPowerProfile (d_id dev))) (\<lambda>profile.
        andThen (case profile of
                   Inr p \<Rightarrow> if pp_enabled p then ret (Some (with_power_profile p target)) else ret None
                 | Inl _ \<Rightarrow> ret None) (\<lambda>powered.
        andThen (case powered of
                   Some t \<Rightarrow> ret t
                 | None \<Rightarrow>
                     andThen (attempt (GetRemoteProfile (d_id dev))) (\<lambda>remote.
                     (case remote of
                        Inr p \<Rightarrow> ret (if rp_enabled p then with_remote_profile p target else target)
                      | Inl _ \<Rightarrow> ret target))) (\<lambda>t.
        let t = with_flags user port key platform sudo sudoSet t in
        if NormalizePlatform (po_platform t) = []
        then fail (Errorf (''device '' @ d_name dev @ '' has no power platform configured; run: wol shutdown configure'' @
               '' --platform windows|linux|darwin '' @ quote (d_name dev)))
        else ret t))))"

section \<open>Shutting down\<close>

text \<open>The delay of a request; the reason \<open>time.ParseDuration\<close> gives is left out of the message. The
  flag \<open>--now\<close> is declared and never changes the delay.\<close>

definition parse_delay :: "flag_values \<Rightarrow> error + int" where
  "parse_delay s =
     (let delayStr = get_string s ''delay'' [] in
      if get_bool s ''cancel'' False then Inr 0
      else if trim_space delayStr \<noteq> []
      then (case ParseDuration (trim_space delayStr) of
              None \<Rightarrow> Inl (Errorf (''invalid delay '' @ quote delayStr @ '' (expected format like 15m, 1h, 30s)''))
            | Some d \<Rightarrow>
                if d < 0 then Inl (Errorf (''invalid delay '' @ quote delayStr @ '': delay cannot be negative''))
                else Inr d)
      else Inr 0)"

fun action_name :: "action \<Rightarrow> string" where
  "action_name ActionShutdownNow = ''shutdown_now''"
| "action_name ActionSchedule = ''schedule''"
| "action_name ActionCancel = ''cancel''"

text \<open>Running ssh, the time of the request, and a time as \<open>15:04:05\<close>.\<close>

record power_shell = shell +
  ps_runner :: ssh_runner
  ps_now :: int
  ps_clock :: "int \<Rightarrow> string"

text \<open>\<open>svc.Execute\<close> as a call of the console: what was given to ssh, if the request got there.\<close>

definition execute :: "'z power_shell_scheme \<Rightarrow> power_request \<Rightarrow> (ssh_call, power_result option \<times> error option) cli" where
  "execute sh rq =
     (case Execute (ps_runner sh) (ps_now sh) rq of
        (None, e) \<Rightarrow> done_with (None, e)
      | (Some r, e) \<Rightarrow> next_do (called [(rq_target rq, pw_command r)]) (\<lambda>_. done_with (Some r, e)))"

definition attempt_row :: "device \<Rightarrow> int \<Rightarrow> power_result option \<times> error option \<Rightarrow> power_attempt" where
  "attempt_row dev delay res =
     \<lparr>pa_id = [], pa_device_id = d_id dev, pa_device_name = d_name dev,
      pa_action = (case fst res of Some r \<Rightarrow> action_name (pw_action r) | None \<Rightarrow> []),
      pa_delay = whole nanos_per_second delay,
      pa_status = (if snd res = None then ''sent'' else ''failed''),
      pa_message = (case snd res of Some e \<Rightarrow> error_text e | None \<Rightarrow> []), pa_created = []\<rparr>"

definition check_mark :: string where
  "check_mark = map char_of [226 :: nat, 156, 148] @ '' ''"

definition cross_mark :: string where
  "cross_mark = map char_of [226 :: nat, 156, 150] @ '' ''"

definition report_success :: "'z power_shell_scheme \<Rightarrow> device \<Rightarrow> power_target \<Rightarrow> int \<Rightarrow> power_result \<Rightarrow> string" where
  "report_success sh dev target delay r =
     (let whom = d_name dev @ '' ('' @ po_host target @ '')'' in
      case pw_action r of
        ActionCancel \<Rightarrow> check_mark @ ''Cancelled pending shutdown for '' @ whom
      | ActionSchedule \<Rightarrow> check_mark @ ''Scheduled shutdown for '' @ whom @ '' in '' @ duration_string delay @
          '' (at '' @ (case pw_scheduled r of Some t \<Rightarrow> ps_clock sh t | None \<Rightarrow> []) @ '')''
      | ActionShutdownNow \<Rightarrow> check_mark @ ''Sent immediate shutdown command to '' @ whom)"

text \<open>The body of \<open>runShutdown\<close> after the subcommands.\<close>

definition shutdown_machine :: "'z power_shell_scheme \<Rightarrow> string list \<Rightarrow> (ssh_call, int) cli" where
  "shutdown_machine sh arguments =
     (case parseMachineAndFlags arguments shutdown_flags of
        Inl e \<Rightarrow> refuse_arguments e
      | Inr (targetName, s) \<Rightarrow>
          if targetName = [] then next_do printShutdownUsage (\<lambda>_. exit_code 2)
          else
            next_do (open_store (shell.truncate sh) s (\<lambda>e. ''open SQLite database: '' @ error_text e)) (\<lambda>_.
            next_do (inventory (findStoredDevice targetName)) (\<lambda>found.
            (case found of
               Inl e \<Rightarrow> fail_with 2 (error_text e)
             | Inr dev \<Rightarrow>
                 next_do (inventory (resolvePowerTarget dev (get_string s ''user'' []) (get_int s ''port'' 0)
                   (get_string s ''key'' []) (get_string s ''platform'' []) (get_bool s ''sudo'' False) (visited s ''sudo''))) (\<lambda>r.
                 (case r of
                    Inl e \<Rightarrow> fail_with 2 (''resolve power target: '' @ error_text e)
                  | Inr target \<Rightarrow>
                      (case parse_delay s of
                         Inl e \<Rightarrow> fail_with 2 (error_text e)
                       | Inr delay \<Rightarrow>
                           next_do (execute sh \<lparr>rq_target = target, rq_delay = delay,
                             rq_cancel = get_bool s ''cancel'' False, rq_force = get_bool s ''force'' False\<rparr>) (\<lambda>res.
                           next_do (inventory (RecordPowerAttempt (attempt_row dev delay res))) (\<lambda>_.
                           (case res of
                              (_, Some e) \<Rightarrow> fail_with 3 (cross_mark @ ''Power command failed for '' @ d_name dev @ '': '' @ error_text e)
                            | (Some r, None) \<Rightarrow> next_do (println (report_success sh dev target delay r)) (\<lambda>_. done_with 0)
                            | (None, None) \<Rightarrow> done_with 0))))))))))"

section \<open>The subcommands\<close>

definition runShutdownCancel :: "'z power_shell_scheme \<Rightarrow> string list \<Rightarrow> (ssh_call, int) cli" where
  "runShutdownCancel sh arguments = shutdown_machine sh (''--cancel'' # arguments)"

definition visited_fields :: "flag_values \<Rightarrow> power_profile \<Rightarrow> power_profile" where
  "visited_fields s item = item\<lparr>pp_enabled := True,
     pp_ssh_user := if visited s ''user'' then get_string s ''user'' [] else pp_ssh_user item,
     pp_ssh_port := if visited s ''port'' then get_int s ''port'' 22 else pp_ssh_port item,
     pp_ssh_key := if visited s ''key'' then get_string s ''key'' [] else pp_ssh_key item,
     pp_platform := if visited s ''platform'' then get_string s ''platform'' ''windows'' else pp_platform item,
     pp_use_sudo := if visited s ''sudo'' then get_bool s ''sudo'' False else pp_use_sudo item\<rparr>"

definition new_profile :: "flag_values \<Rightarrow> device \<Rightarrow> power_profile" where
  "new_profile s dev = \<lparr>pp_id = [], pp_device_id = d_id dev, pp_ssh_user = get_string s ''user'' [],
     pp_ssh_port = get_int s ''port'' 22, pp_ssh_key = get_string s ''key'' [],
     pp_platform = get_string s ''platform'' ''windows'', pp_use_sudo = get_bool s ''sudo'' False,
     pp_enabled = True, pp_created = [], pp_updated = []\<rparr>"

definition bool_text :: "bool \<Rightarrow> string" where
  "bool_text b = (if b then ''true'' else ''false'')"

definition runShutdownConfigure :: "shell \<Rightarrow> string list \<Rightarrow> (ssh_call, int) cli" where
  "runShutdownConfigure sh arguments =
     (case parseMachineAndFlags arguments configure_flags of
        Inl e \<Rightarrow> refuse_arguments e
      | Inr (machine, s) \<Rightarrow>
          if machine = [] then fail_with 2 ''usage: wol shutdown configure <machine> [--user <user>] [--port 22] [--key <path>] [--platform <windows|linux|darwin>] [--sudo]''
          else
            next_do (open_store sh s (\<lambda>e. ''open SQLite database: '' @ error_text e)) (\<lambda>_.
            next_do (inventory (findStoredDevice machine)) (\<lambda>found.
            (case found of
               Inl e \<Rightarrow> fail_with 2 (error_text e)
             | Inr dev \<Rightarrow>
                 next_do (inventory (GetPowerProfile (d_id dev))) (\<lambda>existing.
                 next_do (case existing of
                            Inr p \<Rightarrow> done_with (visited_fields s p)
                          | Inl e \<Rightarrow>
                              if errors_is e ErrNotFound then done_with (new_profile s dev)
                              else fail_with 1 (''load power profile: '' @ error_text e)) (\<lambda>item.
                 next_do (inventory (UpsertPowerProfile item)) (\<lambda>saved.
                 (case saved of
                    Inl e \<Rightarrow> fail_with 1 (''save power profile: '' @ error_text e)
                  | Inr p \<Rightarrow>
                      next_do (println (join [CHR 0x0A] [''Power profile for '' @ d_name dev @ '' configured successfully:'',
                        ''  User: '' @ pp_ssh_user p, ''  Port: '' @ itoa (pp_ssh_port p), ''  Platform: '' @ pp_platform p,
                        ''  UseSudo: '' @ bool_text (pp_use_sudo p)])) (\<lambda>_. done_with 0)))))))))"

text \<open>A line of the history; the table around it is left out.\<close>

definition history_row :: "power_attempt \<Rightarrow> string" where
  "history_row a =
     (let detail = ''action: '' @ pa_action a @
            (if pa_delay a > 0 then '' ('' @ itoa (pa_delay a) @ ''s delay)'' else []) @
            (if pa_message a \<noteq> [] then '' '' @ [char_of (194 :: nat), char_of (183 :: nat)] @ '' '' @ pa_message a else []);
          created = (if length (pa_created a) \<ge> 19 then take 19 (pa_created a) else pa_created a) in
      ''['' @ created @ ''] '' @ pa_device_name a @ '' '' @ to_upper (pa_status a) @ ''  '' @ detail)"

definition runShutdownStatus :: "shell \<Rightarrow> string list \<Rightarrow> (ssh_call, int) cli" where
  "runShutdownStatus sh arguments =
     (case parse_flags [(''db'', StringFlag), (''limit'', IntFlag)] arguments [] of
        Inl e \<Rightarrow> refuse_arguments e
      | Inr (_, s) \<Rightarrow>
          next_do (open_store sh s (\<lambda>e. ''open SQLite database: '' @ error_text e)) (\<lambda>_.
          next_do (inventory (ListPowerAttempts (get_int s ''limit'' 10))) (\<lambda>r.
          (case r of
             Inl e \<Rightarrow> fail_with 1 (''list power attempts: '' @ error_text e)
           | Inr attempts \<Rightarrow>
               if attempts = []
               then next_do (println ''No power operation history recorded.'') (\<lambda>_. done_with 0)
               else
                 next_do (println ''RECENT POWER OPERATIONS'') (\<lambda>_.
                 cli_each (\<lambda>a _. next_do (println (history_row a)) (\<lambda>_. done_with 0)) attempts 0)))))"

definition runShutdown :: "'z power_shell_scheme \<Rightarrow> string list \<Rightarrow> (ssh_call, int) cli" where
  "runShutdown sh arguments =
     (case arguments of
        [] \<Rightarrow> shutdown_machine sh arguments
      | a # rest \<Rightarrow>
          let word = to_lower a in
          if word = ''configure'' \<or> word = ''config'' then runShutdownConfigure (shell.truncate sh) rest
          else if word = ''cancel'' then runShutdownCancel sh rest
          else if word = ''status'' then runShutdownStatus (shell.truncate sh) rest
          else shutdown_machine sh arguments)"

section \<open>Where the flags stand\<close>

lemma machine_anywhere:
  assumes "flag_block fs a s" and "flag_block fs b t" and "positional name"
  shows "parseMachineAndFlags (a @ name # b) fs = Inr (name, s @ t)"
  using parseInterspersed_anywhere [OF assms] by (simp add: parseMachineAndFlags_def)

lemma machine_first:
  assumes "flag_block fs a s" and "flag_block fs b t" and "positional name"
  shows "parseMachineAndFlags (a @ name # b) fs = parseMachineAndFlags (name # a @ b) fs"
  using machine_anywhere [OF assms] machine_anywhere [OF _ flag_block_append [OF assms(1,2)] assms(3), of "[]" "[]"]
  by (simp add: flag_block_def parse_flags_step(2) parseOne_end)

text \<open>A flag block never begins with the name of a subcommand.\<close>

definition subcommands :: "string list" where
  "subcommands = [''configure'', ''config'', ''cancel'', ''status'']"

lemma runShutdown_machine:
  "arguments = [] \<or> to_lower (hd arguments) \<notin> set subcommands \<Longrightarrow> runShutdown sh arguments = shutdown_machine sh arguments"
  by (cases arguments) (simp_all add: runShutdown_def subcommands_def Let_def)

lemma flag_block_dash:
  assumes "flag_block fs (x # a) s"
  shows "2 \<le> length x \<and> hd x = CHR ''-''"
proof -
  have "parseOne fs (x # a) = Rest (x # a) \<Longrightarrow> False"
    using assms parse_flags_step(2) [of fs "x # a" _ "[]"] by (auto simp: flag_block_def)
  then show ?thesis using parseOne_stop [of x fs a] by fastforce
qed

lemma dash_no_subcommand: "2 \<le> length x \<Longrightarrow> hd x = CHR ''-'' \<Longrightarrow> to_lower x \<notin> set subcommands"
  by (cases x) (auto simp: subcommands_def to_lower_def lower_char_def is_upper_def)

lemma runShutdown_block:
  assumes "flag_block fs a s" and "to_lower name \<notin> set subcommands"
  shows "runShutdown sh (a @ name # b) = shutdown_machine sh (a @ name # b)"
proof (rule runShutdown_machine)
  show "a @ name # b = [] \<or> to_lower (hd (a @ name # b)) \<notin> set subcommands"
    using assms flag_block_dash dash_no_subcommand by (cases a) auto
qed

section \<open>Cancelling\<close>

text \<open>The command that aborts a scheduled shutdown of a target.\<close>

definition aborts :: "ssh_call \<Rightarrow> bool" where
  "aborts call = (snd call = BuildCancelCommand (NewDriver (po_platform (fst call)) (po_sudo (fst call))))"

lemma NewDriver_normal: "NewDriver (NormalizePlatform p) sudo = NewDriver p sudo"
  using NormalizePlatform_range [of p] platforms_fixed platforms_distinct
  by (auto simp: NewDriver_def Let_def) (simp_all add: NormalizePlatform_def Let_def)

lemma execute_aborts:
  assumes "rq_cancel rq"
  shows "only aborts (execute sh rq)"
proof (cases "Execute (ps_runner sh) (ps_now sh) rq")
  case (Pair res e)
  show ?thesis
  proof (cases res)
    case None
    then show ?thesis using Pair by (simp add: execute_def only_done)
  next
    case (Some r)
    with Pair have "Execute (ps_runner sh) (ps_now sh) rq = (Some r, e)" by simp
    then obtain p a command at where v: "validate_request rq = Inr p"
      and ch: "choose_command (NewDriver p (po_sudo (rq_target rq))) rq (ps_now sh) = (a, command, at)"
      and r: "pw_command r = command"
      by (rule Execute_some)
    have "command = BuildCancelCommand (NewDriver (po_platform (rq_target rq)) (po_sudo (rq_target rq)))"
      using ch assms validate_request_Inr(1) [OF v] by (simp add: choose_command_def NewDriver_normal)
    then have "aborts (rq_target rq, pw_command r)" using r by (simp add: aborts_def)
    then show ?thesis using Pair Some by (simp add: execute_def) (intro only_intros only_called, simp)
  qed
qed

lemma only_option_pair [only_intros]:
  "(\<And>r e. only P (f r e)) \<Longrightarrow> only P (case x of (r, e) \<Rightarrow> f r e)"
  by (cases x) simp

section \<open>What a run leads to\<close>

text \<open>The exit code and the commands given to ssh: none before the request is complete, and one
  when it is accepted. \<open>0\<close> is returned only for a command that ssh accepted.\<close>

fun sent_as :: "(ssh_call \<Rightarrow> bool) \<Rightarrow> int + int \<Rightarrow> ssh_call list \<Rightarrow> bool" where
  "sent_as R (Inr n) es = (n = 0 \<and> length es = 1 \<and> list_all R es)"
| "sent_as R (Inl n) es = ((n = 1 \<or> n = 2) \<and> es = [] \<or> n = 3 \<and> length es \<le> 1 \<and> list_all R es)"

text \<open>After the request: a failure is reported with 3.\<close>

lemma leads_execute:
  assumes only: "only R (execute sh rq)"
    and ok: "\<And>r. leads (\<lambda>x es. x = Inr 0 \<and> es = []) (f (Some r, None))"
    and failed: "\<And>r e. leads (\<lambda>x es. x = Inl 3 \<and> es = []) (f (r, Some e))"
  shows "leads (sent_as R) (next_do (execute sh rq) f)"
  unfolding leads_def
proof
  fix c
  obtain res e where ex: "Execute (ps_runner sh) (ps_now sh) rq = (res, e)" by (cases "Execute (ps_runner sh) (ps_now sh) rq")
  have none: "e \<noteq> None" if "res = None"
    using ex that by (auto simp: Execute_def split: sum.splits prod.splits)
  define es where "es = (case res of None \<Rightarrow> [] | Some r \<Rightarrow> [(rq_target rq, pw_command r)])"
  have run: "execute sh rq c = (Inr (res, e), c\<lparr>con_calls := con_calls c @ es\<rparr>)"
    by (cases res) (simp_all add: execute_def ex es_def done_with_def next_do_def called_def)
  have R: "list_all R es" using only run unfolding only_def by (metis append_same_eq snd_conv console.select_convs(4)
      console.surjective console.update_convs(4) same_append_eq)
  let ?c = "c\<lparr>con_calls := con_calls c @ es\<rparr>"
  have step: "next_do (execute sh rq) f c = f (res, e) ?c" using run by (simp add: next_do_def)
  show "\<exists>es. con_calls (snd (next_do (execute sh rq) f c)) = con_calls c @ es \<and> sent_as R (fst (next_do (execute sh rq) f c)) es"
  proof (cases e)
    case None
    then obtain r where r: "res = Some r" using none by auto
    then have "con_calls (snd (f (res, e) ?c)) = con_calls c @ es \<and> fst (f (res, e) ?c) = Inr 0"
      using ok [of r] None unfolding leads_def by fastforce
    then show ?thesis using step R r by (intro exI [of _ es]) (simp add: es_def)
  next
    case (Some err)
    then have "con_calls (snd (f (res, e) ?c)) = con_calls c @ es \<and> fst (f (res, e) ?c) = Inl 3"
      using failed [of res err] unfolding leads_def by fastforce
    then show ?thesis using step R by (intro exI [of _ es]) (simp add: es_def split: option.splits)
  qed
qed

lemma shutdown_machine_leads:
  assumes parsed: "parseMachineAndFlags arguments shutdown_flags = Inr (name, s)"
    and R: "\<And>target delay. only R (execute sh \<lparr>rq_target = target, rq_delay = delay,
      rq_cancel = get_bool s ''cancel'' False, rq_force = get_bool s ''force'' False\<rparr>)"
  shows "leads (sent_as R) (shutdown_machine sh arguments)"
proof -
  have usage: "leads (sent_as R) (next_do printShutdownUsage (\<lambda>_. exit_code 2))"
    by (simp add: leads_def printShutdownUsage_def next_do_def eprintln_def exit_code_def)
  have tail: "leads (\<lambda>x es. x = Inr 0 \<and> es = []) (next_do (println l) (\<lambda>_. done_with 0))"
    "leads (\<lambda>x es. x = Inl 3 \<and> es = []) (fail_with 3 l)" for l
    by (rule leads_println leads_fail, simp)+
  show ?thesis
    unfolding shutdown_machine_def parsed sum.case prod.case
    using usage
    by (auto intro!: leads_open leads_inventory leads_fail leads_execute R tail split: sum.split option.split)
qed

lemma leads_exit:
  assumes "leads (sent_as R) p"
  shows "\<exists>calls. con_calls (snd (exit_of p c)) = con_calls c @ calls \<and> list_all R calls \<and> length calls \<le> 1 \<and>
    (fst (exit_of p c) = 0 \<and> length calls = 1 \<or> fst (exit_of p c) = 3 \<or> (fst (exit_of p c) \<in> {1, 2} \<and> calls = []))"
proof -
  obtain r c1 where p: "p c = (r, c1)" by (cases "p c") auto
  obtain es where "con_calls c1 = con_calls c @ es" "sent_as R r es"
    using assms p unfolding leads_def by (metis fst_conv snd_conv)
  then show ?thesis using p by (cases r) (auto simp: exit_of_def)
qed

section \<open>Flags behind the machine\<close>

text \<open>The place of the flags makes no difference to a run.\<close>

lemma shutdown_flags_anywhere:
  assumes "flag_block shutdown_flags a s" and "flag_block shutdown_flags b t" and "positional name"
    and "to_lower name \<notin> set subcommands"
  shows "runShutdown sh (a @ name # b) = runShutdown sh (name # a @ b)"
proof -
  have "runShutdown sh (a @ name # b) = shutdown_machine sh (a @ name # b)"
    by (rule runShutdown_block [OF assms(1,4)])
  moreover have "runShutdown sh (name # a @ b) = shutdown_machine sh (name # a @ b)"
    using runShutdown_machine [of "name # a @ b"] assms(4) by simp
  ultimately show ?thesis by (simp add: shutdown_machine_def machine_first [OF assms(1-3)])
qed


definition desk_shell :: power_shell where
  "desk_shell = \<lparr>sh_getenv = (\<lambda>_. []), sh_default_db = ''wol.db'', sh_open = (\<lambda>_. None),
     ps_runner = quiet_runner, ps_now = 0, ps_clock = (\<lambda>_. [])\<rparr>"

lemma desk_blocks:
  "flag_block shutdown_flags [] []"
  "flag_block shutdown_flags [''--user'', ''me'', ''-cancel''] [(''user'', ''me''), (''cancel'', ''true'')]"
  "positional ''desk''" "to_lower ''desk'' \<notin> set subcommands"
  "get_bool ([] @ [(''user'', ''me''), (''cancel'', ''true'')]) ''cancel'' False"
  by code_simp+

lemma desk_cancelled:
  "map snd (con_calls (snd (exit_of (runShutdown desk_shell [''desk'', ''--user'', ''me'', ''-cancel'']) desk_console))) =
    [''shutdown.exe /a'']"
  "map snd (con_calls (snd (exit_of (runShutdown desk_shell [''desk'', ''--user'', ''me'']) desk_console))) =
    [''shutdown.exe /s /t 0'']"
  by code_simp+


end
