(* ===== verification/CliBatch.thy ===== *)
theory CliBatch
  imports CliBase FleetSpec
begin

text \<open>
  \<open>wol batch\<close> (\<open>cmd/wol/cmd_batch.go\<close>): checking or waking a selection of machines. The
  calls of a run are the fleet runs it starts. What \<open>fleet.Run\<close> delivers on its channel and
  whether the context was cancelled is an argument; the theorem about the exit code takes it from
  the runs of \<open>FleetSpec\<close>. Encoding a result as JSON is an argument.
\<close>

section \<open>Selecting machines\<close>

datatype batch_kind = BatchCheck | BatchWake

record batch_plan =
  bp_kind :: batch_kind
  bp_devices :: "device list"
  bp_sites :: "site list"
  bp_limit :: int
  bp_profiles :: "remote_profile list"

record batch_shell = shell +
  bs_fleet :: "batch_plan \<Rightarrow> fleet_result list \<times> bool"
  bs_json :: "fleet_result \<Rightarrow> string result"

definition batch_flags :: flag_set where
  "batch_flags = [(''db'', StringFlag), (''site'', StringFlag), (''all'', BoolFlag), (''json'', BoolFlag),
     (''yes'', BoolFlag), (''no-input'', BoolFlag), (''concurrency'', IntFlag)]"

definition batch_usage :: string where
  "batch_usage = ''usage: wol batch check|wake [--site NAME | --all | machine ...] [--json] [--yes] [--no-input]''"

definition batch_kind_of :: "string \<Rightarrow> batch_kind option" where
  "batch_kind_of s = (if s = ''check'' then Some BatchCheck else if s = ''wake'' then Some BatchWake else None)"

text \<open>The loop over the names: a machine is selected once, however often it is named.\<close>

definition select_names :: "string list \<Rightarrow> (batch_plan, device list) cli" where
  "select_names names =
     cli_each (\<lambda>name selected.
       next_do (inventory (findStoredDevice name)) (\<lambda>found.
       (case found of
          Inl e \<Rightarrow> fail_with 2 (error_text e)
        | Inr d \<Rightarrow> done_with (if d_id d \<in> d_id ` set selected then selected else selected @ [d])))) names []"

text \<open>The last site whose ID or name matches counts.\<close>

definition site_named :: "string \<Rightarrow> site list \<Rightarrow> string" where
  "site_named site sites =
     fold (\<lambda>s i. if s_id s = site \<or> equal_fold (s_name s) site then s_id s else i) sites []"

definition select_machines :: "string \<Rightarrow> bool \<Rightarrow> string list \<Rightarrow> device list \<Rightarrow> site list \<Rightarrow> (batch_plan, device list) cli" where
  "select_machines site all names devices sites =
     (if site \<noteq> []
      then (let i = site_named site sites in
            if i = [] then fail_with 2 ''site not found''
            else done_with (filter (\<lambda>d. d_site_id d = i) devices))
      else if all then done_with devices
      else select_names names)"

definition selectors :: "flag_values \<Rightarrow> string list \<Rightarrow> nat" where
  "selectors s names = (if get_bool s ''all'' False then 1 else 0) +
     (if get_string s ''site'' [] \<noteq> [] then 1 else 0) + (if names \<noteq> [] then 1 else 0)"

section \<open>Results\<close>

definition went_well :: "fleet_result \<Rightarrow> bool" where
  "went_well r \<longleftrightarrow> fr_status r = ''online'' \<or> fr_status r = ''sent''"

definition result_line :: "fleet_result \<Rightarrow> string" where
  "result_line r = fr_name r @ ''  '' @ fr_status r @ ''  '' @ fr_method r @ ''  '' @ fr_message r"

text \<open>The loop over the channel: print each result and count.\<close>

definition show_results :: "(fleet_result \<Rightarrow> string result) \<Rightarrow> bool \<Rightarrow> fleet_result list \<Rightarrow> (batch_plan, nat \<times> nat) cli" where
  "show_results encode json results =
     cli_each (\<lambda>r counts.
       next_do (if json then (case encode r of Inl e \<Rightarrow> exit_code 1 | Inr line \<Rightarrow> println line)
                else println (result_line r)) (\<lambda>_.
       done_with (if went_well r then (fst counts + 1, snd counts) else (fst counts, snd counts + 1)))) results (0, 0)"

definition batch_exit :: "bool \<Rightarrow> nat \<times> nat \<Rightarrow> int" where
  "batch_exit cancelled counts =
     (if cancelled then 130
      else if snd counts > 0 \<and> fst counts > 0 then 3
      else if snd counts > 0 then 1
      else 0)"

definition list_or_fail :: "'a m \<Rightarrow> ('e, 'a) cli" where
  "list_or_fail p = next_do (inventory p) (\<lambda>r. case r of Inl e \<Rightarrow> fail_with 1 (error_text e) | Inr x \<Rightarrow> done_with x)"

definition wake_preview :: "device list \<Rightarrow> (batch_plan, unit) cli" where
  "wake_preview selected =
     next_do (eprintln (''Wake preview: '' @ itoa (int (length selected)) @ '' machines. Re-run with --yes to send packets.'')) (\<lambda>_.
     cli_each (\<lambda>d _. eprintln (''  '' @ d_name d @ ''  site='' @ d_site_id d)) selected ())"

definition run_plan :: "batch_shell \<Rightarrow> bool \<Rightarrow> batch_plan \<Rightarrow> (batch_plan, int) cli" where
  "run_plan sh json plan =
     next_do (called [plan]) (\<lambda>_.
     (case bs_fleet sh plan of
        (results, cancelled) \<Rightarrow>
          next_do (show_results (bs_json sh) json results) (\<lambda>counts. done_with (batch_exit cancelled counts))))"

definition runBatch :: "batch_shell \<Rightarrow> string list \<Rightarrow> (batch_plan, int) cli" where
  "runBatch sh args =
     (case Option.bind (if args = [] then None else Some (hd args)) batch_kind_of of
        None \<Rightarrow> fail_with 2 batch_usage
      | Some kind \<Rightarrow>
          (case parseInterspersed batch_flags (tl args) of
             Inl e \<Rightarrow> exit_code 2
           | Inr (names, s) \<Rightarrow>
               let concurrency = get_int s ''concurrency'' 16 in
               if concurrency < 1 \<or> concurrency > 32 then exit_code 2
               else if selectors s names \<noteq> 1
               then fail_with 2 ''select exactly one of --all, --site NAME, or machine names''
               else
                 next_do (open_store (shell.truncate sh) s error_text) (\<lambda>_.
                 next_do (list_or_fail ListDevices) (\<lambda>devices.
                 next_do (list_or_fail ListSites) (\<lambda>sites.
                 next_do (select_machines (get_string s ''site'' []) (get_bool s ''all'' False) names devices sites) (\<lambda>selected.
                 if selected = [] then fail_with 2 ''no matching machines''
                 else if kind = BatchWake \<and> \<not> get_bool s ''yes'' False
                 then next_do (wake_preview selected) (\<lambda>_. exit_code 2)
                 else
                   next_do (list_or_fail ListRemoteProfiles) (\<lambda>profiles.
                   run_plan sh (get_bool s ''json'' False)
                     \<lparr>bp_kind = kind, bp_devices = selected, bp_sites = sites, bp_limit = concurrency,
                      bp_profiles = profiles\<rparr>)))))))"

section \<open>What a batch run reports\<close>

definition op_of :: "batch_plan \<Rightarrow> operation" where
  "op_of plan = (case bp_kind plan of BatchCheck \<Rightarrow> Check (NewDetector []) (bp_profiles plan) | BatchWake \<Rightarrow> fleet_wake store_repo)"

text \<open>The channel of a finished run of the plan's fleet: a sequence of steps of its workers and of
  the caller that cannot go on.\<close>

definition delivers :: "batch_plan \<Rightarrow> fleet_result list \<Rightarrow> bool \<Rightarrow> bool" where
  "delivers plan results cancelled \<longleftrightarrow>
     (\<exists>ids n s ls. distinct ids \<and> set ids = d_site_id ` set (bp_devices plan) \<and>
       (let step = fleet_step (fleet_cfg_of (op_of plan) (bp_devices plan) (bp_sites plan) (bp_limit plan) ids) in
         (pool_step step fleet_outside ^^ n) (Run (bp_devices plan) (bp_sites plan) ids) (s, ls) \<and>
         stuck step fleet_outside (s, ls)) \<and>
       results = fl_received s \<and> cancelled = fl_cancelled s)"

lemma delivers_each:
  assumes "delivers plan results cancelled"
  shows "mset (map fr_device_id results) = mset (map d_id (bp_devices plan))"
proof -
  have op: "op_of plan = Check (NewDetector []) (bp_profiles plan) \<or> op_of plan = fleet_wake store_repo"
    by (cases "bp_kind plan") (simp_all add: op_of_def)
  from assms obtain ids n s ls where ids: "distinct ids" "set ids = d_site_id ` set (bp_devices plan)"
    and run: "(pool_step (fleet_step (fleet_cfg_of (op_of plan) (bp_devices plan) (bp_sites plan) (bp_limit plan) ids)) fleet_outside ^^ n)
      (Run (bp_devices plan) (bp_sites plan) ids) (s, ls)"
    and over: "stuck (fleet_step (fleet_cfg_of (op_of plan) (bp_devices plan) (bp_sites plan) (bp_limit plan) ids)) fleet_outside (s, ls)"
    and r: "results = fl_received s"
    unfolding delivers_def Let_def by (elim exE conjE) rule
  show ?thesis using fleet_run.each_device_once [OF fleet_run_of [OF op ids] run] over r by blast
qed

text \<open>Every plan has a finished run.\<close>

lemma delivers_exists: "\<exists>results cancelled. delivers plan results cancelled"
proof -
  define ids where "ids = remdups (map d_site_id (bp_devices plan))"
  let ?step = "fleet_step (fleet_cfg_of (op_of plan) (bp_devices plan) (bp_sites plan) (bp_limit plan) ids)"
  have op: "op_of plan = Check (NewDetector []) (bp_profiles plan) \<or> op_of plan = fleet_wake store_repo"
    by (cases "bp_kind plan") (simp_all add: op_of_def)
  obtain c where c: "(pool_step ?step fleet_outside)\<^sup>*\<^sup>* (Run (bp_devices plan) (bp_sites plan) ids) c" "stuck ?step fleet_outside c"
    using pool_weight.run_ends [OF fleet_pool_weight] by blast
  then obtain n where n: "(pool_step ?step fleet_outside ^^ n) (Run (bp_devices plan) (bp_sites plan) ids) c"
    using rtranclp_imp_relpowp by fast
  obtain s ls where s: "c = (s, ls)" by (cases c)
  have "delivers plan (fl_received s) (fl_cancelled s)"
    unfolding delivers_def Let_def
    by (rule exI [of _ ids], rule exI [of _ n], rule exI [of _ s], rule exI [of _ ls])
      (use n c s in \<open>auto simp: ids_def\<close>)
  then show ?thesis by blast
qed

lemma show_each:
  assumes "\<And>r. \<exists>line. encode r = Inr line"
  shows "leads (\<lambda>x es. es = [] \<and> x = Inr (fst counts + length (filter went_well rs), snd counts + length (filter (\<lambda>r. \<not> went_well r) rs)))
    (cli_each (\<lambda>r counts.
       next_do (if json then (case encode r of Inl e \<Rightarrow> exit_code 1 | Inr line \<Rightarrow> println line)
                else println (result_line r)) (\<lambda>_.
       done_with (if went_well r then (fst counts + 1, snd counts) else (fst counts, snd counts + 1)))) rs counts)"
proof (induction rs arbitrary: counts)
  case Nil
  then show ?case by (simp add: leads_done)
next
  case (Cons r rs)
  obtain line where line: "encode r = Inr line" using assms by blast
  let ?next = "if went_well r then (fst counts + 1, snd counts) else (fst counts, snd counts + 1)"
  have shown: "silent {} (if json then (case encode r of Inl e \<Rightarrow> exit_code 1 | Inr line \<Rightarrow> println line) else println (result_line r))"
    by (simp add: line silent_println)
  have body: "leads (\<lambda>x es. es = [] \<and> x = Inr ?next)
      (next_do (if json then (case encode r of Inl e \<Rightarrow> exit_code 1 | Inr line \<Rightarrow> println line) else println (result_line r))
        (\<lambda>_. done_with ?next))"
    by (rule leads_silent [OF shown]) (simp_all add: leads_done)
  show ?case
    unfolding cli_each.simps
    by (rule leads_then [OF body], rule leads_mono [OF Cons.IH]) simp
qed

definition batch_code :: "fleet_result list \<times> bool \<Rightarrow> int" where
  "batch_code delivered =
     (if snd delivered then 130 else if list_all went_well (fst delivered) then 0
      else if list_ex went_well (fst delivered) then 3 else 1)"

lemma batch_exit_counts:
  "batch_exit cancelled (length (filter went_well rs), length (filter (\<lambda>r. \<not> went_well r) rs)) = batch_code (rs, cancelled)"
  by (auto simp: batch_exit_def batch_code_def filter_empty_conv list_all_iff list_ex_iff)

lemma run_plan_leads:
  assumes "\<And>r. \<exists>line. bs_json sh r = Inr line"
  shows "leads (\<lambda>r es. es = [plan] \<and> r = Inr (batch_code (bs_fleet sh plan))) (run_plan sh json plan)"
proof -
  obtain rs cancelled where rs: "bs_fleet sh plan = (rs, cancelled)" by fastforce
  show ?thesis
    unfolding run_plan_def rs prod.case show_results_def
    by (rule leads_called, rule leads_then [OF show_each [OF assms]]) (simp add: leads_done batch_exit_counts)
qed

text \<open>The \<open>--yes\<close> of a command line.\<close>

definition confirmed :: "string list \<Rightarrow> bool" where
  "confirmed args =
     (case parseInterspersed batch_flags (tl args) of Inl e \<Rightarrow> False | Inr (names, s) \<Rightarrow> get_bool s ''yes'' False)"

definition batch_end :: "batch_shell \<Rightarrow> string list \<Rightarrow> int + int \<Rightarrow> batch_plan list \<Rightarrow> bool" where
  "batch_end sh args r es \<longleftrightarrow>
     (r \<in> {Inl 1, Inl 2} \<and> es = []) \<or>
     (\<exists>plan. es = [plan] \<and> bp_devices plan \<noteq> [] \<and> (bp_kind plan = BatchWake \<longrightarrow> confirmed args) \<and>
       r = Inr (batch_code (bs_fleet sh plan)))"

lemma list_or_fail_silent: "silent {1} (list_or_fail p)"
  unfolding list_or_fail_def by (intro silent_intros) simp

lemma select_silent: "silent {2} (select_machines site all names devices sites)"
  unfolding select_machines_def select_names_def Let_def by (intro silent_intros) simp_all

lemma preview_silent: "silent {2} (wake_preview selected)"
  unfolding wake_preview_def by (intro silent_intros)

lemma batch_end_stop: "batch_end sh args (Inl 1) []" "batch_end sh args (Inl 2) []"
  by (simp_all add: batch_end_def)

lemma runBatch_leads:
  assumes "\<And>r. \<exists>line. bs_json sh r = Inr line"
  shows "leads (batch_end sh args) (runBatch sh args)"
proof -
  have run: "leads (batch_end sh args) (run_plan sh json plan)"
    if "bp_devices plan \<noteq> []" "bp_kind plan = BatchWake \<longrightarrow> confirmed args" for json plan
    by (rule leads_mono [OF run_plan_leads [OF assms]]) (use that in \<open>auto simp: batch_end_def\<close>)
  note stops = batch_end_stop leads_fail leads_stop
  have selected: "leads (batch_end sh args)
      (if selected = [] then fail_with 2 ''no matching machines''
       else if kind = BatchWake \<and> \<not> get_bool s ''yes'' False
       then next_do (wake_preview selected) (\<lambda>_. exit_code 2)
       else next_do (list_or_fail ListRemoteProfiles) (\<lambda>profiles.
         run_plan sh json \<lparr>bp_kind = kind, bp_devices = selected, bp_sites = sites, bp_limit = limit, bp_profiles = profiles\<rparr>))"
    if "parseInterspersed batch_flags (tl args) = Inr (names, s)" for selected kind names s json sites limit
    by (intro leads_if leads_silent [OF preview_silent] leads_silent [OF list_or_fail_silent] run)
      (use that in \<open>auto simp: confirmed_def intro!: stops\<close>)
  show ?thesis
    unfolding runBatch_def Let_def
    by (auto intro!: stops selected leads_open leads_silent [OF list_or_fail_silent] leads_silent [OF select_silent]
        split: option.split sum.split prod.split)
qed

text \<open>
  C12. \<open>wol batch\<close> reports on every machine it selected, and its exit code says how it went. A
  run that does not get to the fleet returns 1 or 2 and operates on nothing; waking gets there only with
  \<open>--yes\<close>. Otherwise there is one fleet run, its results are one per selected machine, and the
  exit code is 130 after an interrupt, 0 if all machines are online or were sent their packets, 1
  if none was, and 3 if some were.
\<close>

theorem batch_reports_every_machine:
  assumes "exit_of (runBatch sh args) c = (n, c')" and "con_calls c' = con_calls c @ calls"
    and "\<And>plan. plan \<in> set calls \<Longrightarrow> delivers plan (fst (bs_fleet sh plan)) (snd (bs_fleet sh plan))"
    and "\<And>r. \<exists>line. bs_json sh r = Inr line"
  shows "(calls = [] \<and> n \<in> {1, 2}) \<or>
    (\<exists>plan. calls = [plan] \<and> bp_devices plan \<noteq> [] \<and> (bp_kind plan = BatchWake \<longrightarrow> confirmed args) \<and>
      mset (map fr_device_id (fst (bs_fleet sh plan))) = mset (map d_id (bp_devices plan)) \<and>
      n = batch_code (bs_fleet sh plan))"
proof -
  obtain r where n: "n = code_of r" and e: "batch_end sh args r calls"
    using leads_ends [OF runBatch_leads [OF assms(4)] assms(1,2)] by blast
  from e consider "r \<in> {Inl 1, Inl 2}" "calls = []" |
    plan where "calls = [plan]" "bp_devices plan \<noteq> []" "bp_kind plan = BatchWake \<longrightarrow> confirmed args"
      "r = Inr (batch_code (bs_fleet sh plan))"
    unfolding batch_end_def by blast
  then show ?thesis
  proof cases
    case 1
    then show ?thesis using n by (auto simp: code_of_def)
  next
    case 2
    then show ?thesis using n delivers_each [OF assms(3) [of plan]] by (auto simp: code_of_def)
  qed
qed

definition check_plan :: batch_plan where
  "check_plan = \<lparr>bp_kind = BatchCheck, bp_devices = [desk_machine], bp_sites = [], bp_limit = 16, bp_profiles = []\<rparr>"

definition delivering :: "fleet_result list \<Rightarrow> bool \<Rightarrow> batch_shell" where
  "delivering results cancelled = \<lparr>sh_getenv = (\<lambda>_. []), sh_default_db = ''wol.db'', sh_open = (\<lambda>_. None),
     bs_fleet = (\<lambda>_. (results, cancelled)), bs_json = (\<lambda>r. Inr (result_line r))\<rparr>"

lemma check_all_parsed: "parseInterspersed batch_flags [''--all''] = Inr ([], [(''all'', ''true'')])"
  by code_simp

lemma check_all_flags:
  "get_int [(''all'', ''true'')] ''concurrency'' 16 = 16" "selectors [(''all'', ''true'')] [] = 1"
  "get_string [(''all'', ''true'')] ''site'' [] = []" "get_bool [(''all'', ''true'')] ''all'' False"
  "get_bool [(''all'', ''true'')] ''json'' False = False"
  by code_simp+

lemma check_all_run:
  "\<exists>c. con_calls c = [] \<and>
    runBatch (delivering results cancelled) [''check'', ''--all''] desk_console = run_plan (delivering results cancelled) False check_plan c"
proof -
  let ?c = "\<lambda>n. desk_console\<lparr>con_world := ((quiet_world (empty_db\<lparr>t_devices := [desk_machine]\<rparr>))\<lparr>tick := n\<rparr>)\<rparr>"
  have reads: "list_or_fail ListDevices (desk_console :: batch_plan console) = (Inr [desk_machine], ?c (Suc 0))"
    "list_or_fail ListSites (?c (Suc 0)) = (Inr [], ?c 2)" "list_or_fail ListRemoteProfiles (?c 2) = (Inr [], ?c 3)"
    by (simp_all add: list_or_fail_def inventory_def next_do_def done_with_def desk_console_def ListDevices_def ListSites_def
        ListRemoteProfiles_def query_def stmt_def quiet_world_def empty_db_def bump_def)
  have "runBatch (delivering results cancelled) [''check'', ''--all''] desk_console =
      run_plan (delivering results cancelled) False check_plan (?c 3)"
    by (simp add: runBatch_def batch_kind_of_def check_all_parsed check_all_flags open_store_def delivering_def shell.defs
        next_do_def done_with_def reads select_machines_def check_plan_def)
  then show ?thesis by (intro exI [of _ "?c 3"]) (simp add: desk_console_def)
qed

lemma batch_reports_every_machine_witness:
  "\<exists>results cancelled. delivers check_plan results cancelled \<and> mset (map fr_device_id results) = {#''d1''#} \<and>
    fst (exit_of (runBatch (delivering results cancelled) [''check'', ''--all'']) desk_console) = batch_code (results, cancelled)"
proof -
  obtain results cancelled where d: "delivers check_plan results cancelled" using delivers_exists by blast
  let ?sh = "delivering results cancelled"
  have json: "\<exists>line. bs_json ?sh r = Inr line" for r by (simp add: delivering_def)
  obtain c where c: "con_calls c = []" "runBatch ?sh [''check'', ''--all''] desk_console = run_plan ?sh False check_plan c"
    using check_all_run by blast
  obtain n c' where run: "exit_of (runBatch ?sh [''check'', ''--all'']) desk_console = (n, c')" by fastforce
  have called: "con_calls c' = [check_plan]"
    using run_plan_leads [OF json, where plan = check_plan and json = False, unfolded leads_def, rule_format, of c] c run
    by (cases "run_plan ?sh False check_plan c") (auto simp: exit_of_def split: sum.splits)
  have "con_calls c' = con_calls (desk_console :: batch_plan console) @ [check_plan]" using called by (simp add: desk_console_def)
  from batch_reports_every_machine [OF run this _ json] d
  have "n = batch_code (results, cancelled) \<and> mset (map fr_device_id results) = {#''d1''#}"
    by (simp add: delivering_def check_plan_def desk_machine_def)
  then show ?thesis using d run by (intro exI [of _ results] exI [of _ cancelled]) simp
qed

end
