(* ===== verification/Spec2Isabelle.thy ===== *)
theory Spec2Isabelle
  imports NetConfig StoreHosts WakeSpec PresenceCache Neighbor FleetSpec PowerOff
    Update Docker Discovery RemoteFlow TuiRoute TuiSpec
    CliShutdown CliBatch
begin

text \<open>
  WOL, a wake-on-LAN program written in Go: a verification library of its core.

  The program keeps an inventory of machines in SQLite (\<open>internal/store\<close>) and wakes a machine by
  a magic packet or over ssh through a relay (\<open>internal/wol\<close>, \<open>internal/wake\<close>). It checks who
  answers (\<open>internal/presence\<close>), does both for many machines at once (\<open>internal/fleet\<close>), shuts
  machines down over ssh (\<open>internal/power\<close>), opens remote sessions (\<open>internal/remoteflow\<close>,
  \<open>internal/remoteopen\<close>, \<open>internal/moonlight\<close>, \<open>internal/localremote\<close>), finds machines on the LAN
  (\<open>internal/scanner\<close>) and updates itself from signed releases (\<open>internal/updater\<close>,
  \<open>internal/releasesign\<close>). The commands of \<open>cmd/wol\<close> and the terminal program Wake Desk
  (\<open>internal/tui\<close>) call these parts; all of them share the store.
\<close>

section \<open>The theories\<close>

text \<open>
  Definitions carry the names of the Go functions and types. Structs are records whose field names
  carry the struct's initials, errors are values of \<open>error\<close> in a sum with the result, effects are passed
  as an explicit state, and goroutines are step relations.

  \<^item> Prelude. \<open>GoBase\<close>: errors, \<open>strings\<close>, \<open>strconv\<close>, hexadecimal. \<open>NetAddr\<close>: textual addresses of
    \<open>net\<close>. \<open>Tables\<close>: rows of an SQL table with unique columns. \<open>Pool\<close>: goroutines as a pool of workers,
    with locales for safety, bounded work and progress.
  \<^item> Configuration and network. \<open>NetConfig\<close> (\<open>internal/networkconfig\<close>), \<open>NetUtil\<close>
    (\<open>internal/netutil\<close>), \<open>Wol\<close> (\<open>internal/wol\<close>).
  \<^item> Store (\<open>internal/store\<close>). \<open>StoreData\<close>: structs and tables. \<open>StoreMonad\<close>: statements, driver
    failures, clock, identifiers, transactions. \<open>StoreSites\<close>, \<open>StoreDevices\<close>, \<open>StoreProfiles\<close>,
    \<open>StoreTransfer\<close>: the operations of \<open>store.go\<close>, \<open>site_config.go\<close>, \<open>relay.go\<close>,
    \<open>remote_profile.go\<close> and \<open>power_profile.go\<close>. \<open>StoreLogic\<close>, \<open>StoreInvariant\<close>, \<open>StoreOps\<close>,
    \<open>StoreSpec\<close>, \<open>StoreHosts\<close>: what they keep and promise.
  \<^item> Waking, probing, fleet. \<open>Wake\<close>, \<open>WakeSpec\<close> (\<open>internal/wake\<close>); \<open>Presence\<close>, \<open>PresencePool\<close>,
    \<open>PresenceCache\<close>, \<open>Neighbor\<close> (\<open>internal/presence\<close>); \<open>Fleet\<close>, \<open>FleetSpec\<close> (\<open>internal/fleet\<close>).
  \<^item> Power. \<open>PowerOff\<close> (\<open>internal/power\<close>).
  \<^item> Updates. \<open>Version\<close>, \<open>Assets\<close>, \<open>ZipDir\<close>, \<open>Extract\<close>, \<open>Install\<close>, \<open>ReleaseSign\<close>, \<open>Update\<close>.
  \<^item> Remote sessions. \<open>Broker\<close>, \<open>Docker\<close> (\<open>internal/localremote\<close>); \<open>RemoteOpen\<close>
    (\<open>internal/remoteopen\<close>, \<open>internal/moonlight\<close>); \<open>RemoteFlow\<close> (\<open>internal/remoteflow\<close>).
  \<^item> Discovery. \<open>LanScan\<close>, \<open>Discovery\<close> (\<open>internal/scanner\<close>).
  \<^item> Wake Desk (\<open>internal/tui\<close>). \<open>TuiText\<close>: texts and layout. \<open>TuiModel\<close>: the struct \<open>WakeModel\<close> and
    what is read off it. \<open>TuiActions\<close>, \<open>TuiForms\<close>: the handlers. \<open>TuiUpdate\<close>: \<open>Init\<close>, \<open>Update\<close>,
    \<open>handleKey\<close>. \<open>TuiRoute\<close>, \<open>TuiSpec\<close>: what the desk shows and does.
  \<^item> Commands (\<open>cmd/wol\<close>). \<open>CliFlags\<close>: the \<open>flag\<close> package and \<open>parseInterspersed\<close>. \<open>CliBase\<close>: a command's
    run on a console. \<open>CliShutdown\<close> (\<open>cmd_shutdown.go\<close>), \<open>CliBatch\<close> (\<open>cmd_batch.go\<close>).
\<close>

section \<open>What the theorems show\<close>

text \<open>
  \<^item> Store: every reachable database keeps its unique columns, normal rows and references, under any
    failures of the driver; an operation that fails has changed nothing (an update can fail when it reads
    back what it wrote); the table of devices refines a finite map; deletes are refused while rows refer to
    their target; remote hosts are private and safe as arguments.
  \<^item> Waking: a packet has the layout of the standard; the result counts what was sent; a hook is called
    only for a device that may be woken, on the resolved route, with valid requests, and the attempt
    returned is the one logged; the argument list for ssh is safe; waiting for a port ends in time.
  \<^item> Presence and fleet: a sweep never loses an answer, a status is what the evidence supports,
    concurrent requests share one probe, each device of a fleet gets exactly one result, and the limits hold,
    for every schedule.
  \<^item> Power and the shutdown command: the command run is the one asked for; with \<open>--cancel\<close> anywhere on
    the command line nothing but the abort is sent. The batch command: one result per selected machine,
    no waking without confirmation, and an exit code that tells all, some and none apart.
  \<^item> Updates: only verified bytes are installed, a manifest is read back as it was written, extraction is bounded, the
    executable is replaced atomically, versions are ordered.
  \<^item> Remote sessions: the broker gives its cookie once and answers pages only with it; a browser session
    removes what it created and nothing that is still owned; the manager owns every session that runs, and
    none after \<open>Close\<close>; a URL for a desktop client is plain.
  \<^item> Discovery: the inventory follows a machine only when its hardware address is unambiguous.
  \<^item> Wake Desk: no reachable state panics; a busy desk waits for exactly one command, unless a shutdown
    reports in between; a cancelled action stays cancelled; no second action starts; the readiness it shows is
    the verdict of the wake service on the same inventory.

  Interfaces are locales, each interpreted on the model: the pools of \<open>Pool\<close> on the probes, the fleet,
  the cache and the session manager; \<open>table\<close>, \<open>db_table\<close> and \<open>row_invariant\<close> on the tables of the store;
  \<open>wake_repository\<close> on the store; \<open>fleet_operation\<close> on checking and waking; \<open>vault\<close> on the memory vault;
  \<open>byte_reader\<close> on the readers of an archive; \<open>three_way\<close> on the comparison of versions; and
  \<open>power_driver\<close> on the three platforms.
\<close>

section \<open>Bounds and fuel\<close>

text \<open>
  Integers are mathematical where the code cannot reach the ends of \<open>int\<close>, and checked against 63 or 64
  bits in the parsers of numbers and durations. Bytes are \<open>8 word\<close>. Two loops have fuel. \<open>wait_loop\<close> of
  \<open>Wol\<close>: \<open>wait_fuel\<close> bounds its rounds by the timeout, and \<open>WaitForTCP_returns\<close> shows that it is enough.
  \<open>strip\<close> of \<open>GoBase\<close> removes at least one byte a round, so the length of the text is enough (\<open>strip_done\<close>).
  Other loops recurse on their data or have a measure; a pool's run is bounded by its weight. Fractions
  of a duration are exact where Go rounds through float64.
\<close>

section \<open>Not modelled\<close>

text \<open>
  \<^item> Opening and migrating the database (\<open>store.go\<close>, \<open>paths.go\<close>, \<open>config.go\<close>): only the schema is.
  \<^item> Sockets, processes and the terminal: system calls are arguments of the definitions that use them.
  \<^item> Cryptography, PEM, JSON, archive readers, HTTP and Docker: arguments, with their documented behaviour as
    hypotheses where a theorem needs it.
  \<^item> Rendering (\<open>render_*.go\<close>, \<open>components.go\<close>, \<open>theme.go\<close>, \<open>internal/ui\<close>): drawing that changes no state.
  \<^item> The closures the Wake Desk hands to its runtime: a command is what it captures, its answer is any
    message of the right kind.
  \<^item> The other commands of \<open>cmd/wol\<close> (\<open>wake\<close>, \<open>remote\<close>, \<open>scan\<close>, \<open>status\<close>, \<open>import\<close>, \<open>export\<close>, \<open>doctor\<close>,
    \<open>update\<close>, and \<open>cmd/wol-release-sign\<close>): flags and printing around modelled parts. \<open>internal/doctor\<close> and
    \<open>internal/sunshine\<close> run programs and dial.
\<close>

end
